(* ===== verification/Prelude.thy ===== *)
theory Prelude
  imports Main
begin

section \<open>Shared vocabulary of the JavaScript model\<close>

text \<open>
  What the component theories share: the values of JavaScript, thrown errors, web storage,
  guarded step functions and the interfaces stated as locales (key-value storage, codecs,
  guarded machines, simulations, ranks), together with list lemmas.

  Conventions.  A JavaScript string is a \<^typ>\<open>string\<close>, one \<^typ>\<open>char\<close> per UTF-16 code
  unit; the model covers the strings whose code units are below 256.  A number is an
  \<^typ>\<open>int\<close>.  An object is the association list of its own properties in insertion order.
  A read that misses the own properties continues in \<open>Object.prototype\<close>: its members are
  the values \<open>JHost name\<close>.  \<open>undefined\<close> is \<open>JUndef\<close>.
\<close>

named_theorems js_simps \<open>unfolding rules for the JavaScript primitives\<close>
named_theorems step_simps \<open>unfolding rules for the step functions of the components\<close>

subsection \<open>Values\<close>

datatype jsval =
    JUndef
  | JNull
  | JBool bool
  | JNum int
  | JStr string
  | JArr "jsval list"
  | JObj "(string \<times> jsval) list"
  | JHost string

text \<open>\<open>!!v\<close>.\<close>

fun truthy :: "jsval \<Rightarrow> bool" where
  "truthy JUndef = False"
| "truthy JNull = False"
| "truthy (JBool b) = b"
| "truthy (JNum n) = (n \<noteq> 0)"
| "truthy (JStr s) = (s \<noteq> [])"
| "truthy (JArr xs) = True"
| "truthy (JObj ps) = True"
| "truthy (JHost n) = True"

text \<open>\<open>v ?? w\<close>.\<close>

fun nullish :: "jsval \<Rightarrow> bool" where
  "nullish JUndef = True"
| "nullish JNull = True"
| "nullish v = False"

text \<open>The names a plain object inherits from \<open>Object.prototype\<close>.\<close>

definition object_prototype :: "string list" where
  "object_prototype =
     [''constructor'', ''__defineGetter__'', ''__defineSetter__'', ''hasOwnProperty'',
      ''__lookupGetter__'', ''__lookupSetter__'', ''isPrototypeOf'', ''propertyIsEnumerable'',
      ''toString'', ''valueOf'', ''__proto__'', ''toLocaleString'']"

text \<open>
  \<open>o[k]\<close> on a plain object: an own property, else a member of the prototype, else
  \<open>undefined\<close>.  Array and string values have \<open>length\<close> and inherit in the same way; their
  indexed elements are not read by name in the modelled code.
\<close>

definition proto_member :: "string \<Rightarrow> jsval" where
  "proto_member k = (if k \<in> set object_prototype then JHost k else JUndef)"

fun getprop :: "jsval \<Rightarrow> string \<Rightarrow> jsval" where
  "getprop (JObj ps) k = (case map_of ps k of Some v \<Rightarrow> v | None \<Rightarrow> proto_member k)"
| "getprop (JArr xs) k = (if k = ''length'' then JNum (int (length xs)) else proto_member k)"
| "getprop (JStr s) k = (if k = ''length'' then JNum (int (length s)) else proto_member k)"
| "getprop JUndef k = JUndef"
| "getprop JNull k = JUndef"
| "getprop v k = proto_member k"

text \<open>\<open>v?.[k]\<close> is \<open>getprop\<close>; \<open>v[k]\<close> throws on \<open>null\<close> and \<open>undefined\<close>.\<close>

datatype js_throw =
    FullaAuthError string "string option" "int option"
  | TypeErr
  | InvalidCharacter
  | PlainError string
  | Thrown jsval

definition get_member :: "jsval \<Rightarrow> string \<Rightarrow> js_throw + jsval" where
  "get_member v k = (if nullish v then Inl TypeErr else Inr (getprop v k))"

text \<open>\<open>typeof v === 'string'\<close> and friends.\<close>

fun is_string :: "jsval \<Rightarrow> bool" where
  "is_string (JStr s) = True"
| "is_string _ = False"

fun is_number :: "jsval \<Rightarrow> bool" where
  "is_number (JNum n) = True"
| "is_number _ = False"

text \<open>\<open>typeof v === 'object' && v !== null\<close>; of the host values only the prototype object
  itself is not a function.\<close>

fun is_object :: "jsval \<Rightarrow> bool" where
  "is_object (JArr xs) = True"
| "is_object (JObj ps) = True"
| "is_object (JHost n) = (n = ''__proto__'')"
| "is_object _ = False"

text \<open>Decimal digits of an integer and \<open>String(v)\<close>, as template literals use it.\<close>

fun nat_digits :: "nat \<Rightarrow> string" where
  "nat_digits n = (if n < 10 then [char_of (n + 48)]
                   else nat_digits (n div 10) @ [char_of (n mod 10 + 48)])"

declare nat_digits.simps [simp del]

definition int_digits :: "int \<Rightarrow> string" where
  "int_digits n = (if n < 0 then ''-'' @ nat_digits (nat (- n)) else nat_digits (nat n))"

definition join_with :: "string \<Rightarrow> string list \<Rightarrow> string" where
  "join_with sep xss = (case xss of [] \<Rightarrow> [] | x # xs \<Rightarrow> x @ concat (map (\<lambda>y. sep @ y) xs))"

fun js_String :: "jsval \<Rightarrow> string" where
  "js_String JUndef = ''undefined''"
| "js_String JNull = ''null''"
| "js_String (JBool b) = (if b then ''true'' else ''false'')"
| "js_String (JNum n) = int_digits n"
| "js_String (JStr s) = s"
| "js_String (JArr xs) = join_with '','' (map (\<lambda>v. if nullish v then [] else js_String v) xs)"
| "js_String (JObj ps) = ''[object Object]''"
| "js_String (JHost n) = (if n = ''__proto__'' then ''[object Object]''
     else if n = ''constructor'' then ''function Object() { [native code] }''
     else ''function '' @ n @ ''() { [native code] }'')"

definition bearer :: "jsval \<Rightarrow> string" where
  "bearer v = ''Bearer '' @ js_String v"

lemma truthy_JStr_iff: "truthy v \<and> is_string v \<longleftrightarrow> (\<exists>s. v = JStr s \<and> s \<noteq> [])"
  by (cases v) auto

lemma nat_digits_nonempty [simp]: "nat_digits n \<noteq> []"
  by (subst nat_digits.simps) simp

subsection \<open>Results and lists\<close>

fun bind_res :: "js_throw + 'a \<Rightarrow> ('a \<Rightarrow> js_throw + 'b) \<Rightarrow> js_throw + 'b" where
  "bind_res (Inl e) f = Inl e"
| "bind_res (Inr x) f = f x"

lemma bind_res_Inr_iff [simp]: "bind_res r f = Inr y \<longleftrightarrow> (\<exists>x. r = Inr x \<and> f x = Inr y)"
  by (cases r) auto

text \<open>\<open>s.split(sep)\<close> for a one-character separator: always at least one piece.\<close>

fun split_on :: "char \<Rightarrow> string \<Rightarrow> string list" where
  "split_on c [] = [[]]"
| "split_on c (x # xs) =
     (if x = c then [] # split_on c xs
      else (case split_on c xs of [] \<Rightarrow> [[x]] | p # ps \<Rightarrow> (x # p) # ps))"

lemma split_on_nonempty [simp]: "split_on c xs \<noteq> []"
  by (induction xs) (auto split: list.splits)

lemma split_on_no_sep: "c \<notin> set xs \<Longrightarrow> split_on c xs = [xs]"
  by (induction xs) auto

lemma split_on_append: "c \<notin> set xs \<Longrightarrow> split_on c (xs @ c # ys) = xs # split_on c ys"
  by (induction xs) auto

lemma join_split: "join_with [c] (split_on c xs) = xs"
proof (induction xs)
  case (Cons x xs)
  obtain p ps where p: "split_on c xs = p # ps" by (cases "split_on c xs") simp_all
  with Cons show ?case by (simp add: join_with_def)
qed (simp add: join_with_def)

lemma split_on_pieces: "p \<in> set (split_on c xs) \<Longrightarrow> c \<notin> set p"
  by (induction xs arbitrary: p) (auto split: if_splits list.splits)

lemma hd_split_on: "hd (split_on c xs) = takeWhile (\<lambda>x. x \<noteq> c) xs"
  by (induction xs) (auto split: list.splits)

text \<open>Joining with the separator is the inverse of splitting.\<close>

lemma split_on_join:
  "ps \<noteq> [] \<Longrightarrow> (\<And>p. p \<in> set ps \<Longrightarrow> c \<notin> set p) \<Longrightarrow> split_on c (join_with [c] ps) = ps"
proof (induction ps)
  case Nil
  then show ?case by simp
next
  case (Cons p ps)
  show ?case
  proof (cases ps)
    case Nil
    with Cons.prems show ?thesis by (simp add: join_with_def split_on_no_sep)
  next
    case (Cons q qs)
    have "join_with [c] (p # ps) = p @ c # join_with [c] ps"
      by (simp add: join_with_def Cons)
    with Cons.IH Cons.prems Cons show ?thesis by (simp add: split_on_append)
  qed
qed

text \<open>Trailing characters removed, as \<open>s.replace(/c+$/, '')\<close> does.\<close>

definition strip_end :: "char \<Rightarrow> string \<Rightarrow> string" where
  "strip_end c s = rev (dropWhile (\<lambda>x. x = c) (rev s))"

lemma strip_end_snoc [simp]: "strip_end c (s @ [c]) = strip_end c s"
  by (simp add: strip_end_def)

lemma strip_end_id: "s = [] \<or> last s \<noteq> c \<Longrightarrow> strip_end c s = s"
  by (cases s rule: rev_cases) (auto simp: strip_end_def)

lemma strip_end_replicate [simp]:
  "s = [] \<or> last s \<noteq> c \<Longrightarrow> strip_end c (s @ replicate n c) = s"
proof (induction n)
  case 0
  then show ?case by (simp add: strip_end_id)
next
  case (Suc n)
  have "s @ replicate (Suc n) c = (s @ replicate n c) @ [c]"
    by (simp flip: replicate_append_same)
  then have "strip_end c (s @ replicate (Suc n) c) = strip_end c ((s @ replicate n c) @ [c])"
    by (simp only:)
  with Suc show ?case by (simp only: strip_end_snoc)
qed

lemma strip_end_not_last: "strip_end c s = [] \<or> last (strip_end c s) \<noteq> c"
proof (induction s rule: rev_induct)
  case Nil
  then show ?case by (simp add: strip_end_def)
next
  case (snoc x xs)
  then show ?case by (cases "x = c") (simp_all add: strip_end_id)
qed

lemma strip_end_idem [simp]: "strip_end c (strip_end c s) = strip_end c s"
  by (rule strip_end_id) (rule strip_end_not_last)

text \<open>\<open>s.startsWith(p)\<close> and \<open>s.js_includes(p)\<close>.\<close>

fun starts_with :: "string \<Rightarrow> string \<Rightarrow> bool" where
  "starts_with [] s = True"
| "starts_with (p # ps) [] = False"
| "starts_with (p # ps) (x # xs) = (p = x \<and> starts_with ps xs)"

fun js_includes :: "string \<Rightarrow> string \<Rightarrow> bool" where
  "js_includes p [] = (p = [])"
| "js_includes p (x # xs) = (starts_with p (x # xs) \<or> js_includes p xs)"

lemma starts_with_iff: "starts_with p s \<longleftrightarrow> (\<exists>t. s = p @ t)"
  by (induction p s rule: starts_with.induct) auto

lemma includes_iff: "js_includes p s \<longleftrightarrow> (\<exists>a b. s = a @ p @ b)"
proof (induction s)
  case Nil
  then show ?case by simp
next
  case (Cons x xs)
  show ?case
  proof
    assume "js_includes p (x # xs)"
    then consider t where "x # xs = p @ t" | "js_includes p xs"
      by (auto simp: starts_with_iff)
    then show "\<exists>a b. x # xs = a @ p @ b"
    proof cases
      case 1
      then have "x # xs = [] @ p @ t" by simp
      then show ?thesis by blast
    next
      case 2
      with Cons.IH obtain a b where "xs = a @ p @ b" by blast
      then have "x # xs = (x # a) @ p @ b" by simp
      then show ?thesis by blast
    qed
  next
    assume "\<exists>a b. x # xs = a @ p @ b"
    then obtain a b where ab: "x # xs = a @ p @ b" by blast
    show "js_includes p (x # xs)"
    proof (cases a)
      case Nil
      with ab have "starts_with p (x # xs)" by (auto simp: starts_with_iff)
      then show ?thesis by simp
    next
      case (Cons y ys)
      with ab have "xs = ys @ p @ b" by simp
      then have "js_includes p xs" using Cons.IH by blast
      then show ?thesis by simp
    qed
  qed
qed

text \<open>\<open>toLowerCase\<close>, one code unit at a time.\<close>

definition to_lower :: "char \<Rightarrow> char" where
  "to_lower c = (let n = of_char c :: nat in
     if (65 \<le> n \<and> n \<le> 90) \<or> (192 \<le> n \<and> n \<le> 222 \<and> n \<noteq> 215) then char_of (n + 32) else c)"

text \<open>The digits of a decimal numeral.\<close>

definition is_digit :: "char \<Rightarrow> bool" where
  "is_digit c \<longleftrightarrow> 48 \<le> (of_char c :: nat) \<and> (of_char c :: nat) \<le> 57"

text \<open>\<open>String.prototype.trim\<close> on the characters of the model.\<close>

definition white_space :: "char \<Rightarrow> bool" where
  "white_space c \<longleftrightarrow> (of_char c :: nat) \<in> {9, 10, 11, 12, 13, 32, 160}"

definition js_trim :: "string \<Rightarrow> string" where
  "js_trim s = rev (dropWhile white_space (rev (dropWhile white_space s)))"

text \<open>The value of decimal digits.\<close>

definition digits_value :: "string \<Rightarrow> int" where
  "digits_value ds = foldl (\<lambda>a c. 10 * a + (int (of_char c) - 48)) 0 ds"

text \<open>\<open>Number.parseInt(s, 10)\<close>: leading white space, a sign, the longest run of digits; \<open>None\<close> is \<open>NaN\<close>.\<close>

definition parseInt10 :: "string \<Rightarrow> int option" where
  "parseInt10 s =
     (let u = dropWhile white_space s;
          neg = (u \<noteq> [] \<and> hd u = CHR ''-'');
          v = (if u \<noteq> [] \<and> (hd u = CHR ''-'' \<or> hd u = CHR ''+'') then tl u else u);
          ds = takeWhile is_digit v
      in if ds = [] then None else Some (if neg then - digits_value ds else digits_value ds))"

subsection \<open>Web storage\<close>

text \<open>
  \<open>localStorage\<close> and \<open>sessionStorage\<close>.  In a browser mode that disables them every access
  throws; the code that guards its accesses with \<open>try\<close> takes a \<open>web_storage\<close>, the code
  that does not takes the items of an available store.
\<close>

type_synonym items = "string \<Rightarrow> string option"

datatype web_storage = Unavailable | Available items

definition getItem :: "items \<Rightarrow> string \<Rightarrow> string option" where
  "getItem m k = m k"

definition setItem :: "string \<Rightarrow> string \<Rightarrow> items \<Rightarrow> items" where
  "setItem k v m = m(k \<mapsto> v)"

definition removeItem :: "string \<Rightarrow> items \<Rightarrow> items" where
  "removeItem k m = m(k := None)"

text \<open>What every client of a store relies on.\<close>

locale kv_store =
  fixes lookup :: "'s \<Rightarrow> 'k \<Rightarrow> 'v option"
    and store :: "'k \<Rightarrow> 'v \<Rightarrow> 's \<Rightarrow> 's"
    and remove :: "'k \<Rightarrow> 's \<Rightarrow> 's"
  assumes lookup_store: "lookup (store k v s) k' = (if k' = k then Some v else lookup s k')"
    and lookup_remove: "lookup (remove k s) k' = (if k' = k then None else lookup s k')"
begin

lemma store_overwrites: "lookup (store k w (store k v s)) k' = lookup (store k w s) k'"
  by (simp add: lookup_store)

lemma remove_after_store: "lookup (remove k (store k v s)) k' = lookup (remove k s) k'"
  by (simp add: lookup_store lookup_remove)

lemma store_frame: "k' \<noteq> k \<Longrightarrow> lookup (store k v s) k' = lookup s k'"
  by (simp add: lookup_store)

lemma remove_frame: "k' \<noteq> k \<Longrightarrow> lookup (remove k s) k' = lookup s k'"
  by (simp add: lookup_remove)

end

interpretation web_store: kv_store getItem setItem removeItem
  by unfold_locales (simp_all add: getItem_def setItem_def removeItem_def)

lemmas storage_simps [js_simps] = getItem_def setItem_def removeItem_def

subsection \<open>Codecs\<close>

text \<open>An encoder with a partial decoder: what is encoded is read back, so the encoder is
  injective and every encoded value is accepted.\<close>

locale codec =
  fixes enc :: "'a \<Rightarrow> 'b"
    and dec :: "'b \<Rightarrow> 'a option"
    and dom_ok :: "'a \<Rightarrow> bool"
  assumes dec_enc: "dom_ok x \<Longrightarrow> dec (enc x) = Some x"
begin

lemma enc_injective: "dom_ok x \<Longrightarrow> dom_ok y \<Longrightarrow> enc x = enc y \<Longrightarrow> x = y"
  by (metis dec_enc option.inject)

lemma dec_accepts: "dom_ok x \<Longrightarrow> dec (enc x) \<noteq> None"
  by (simp add: dec_enc)

end

subsection \<open>Guarded machines\<close>

text \<open>
  An event-driven component is a step function: the event is refused (\<open>None\<close>) when its guard
  does not hold.  \<open>exec\<close> runs a list of events.
\<close>

fun exec :: "('e \<Rightarrow> 's \<Rightarrow> 's option) \<Rightarrow> 'e list \<Rightarrow> 's \<Rightarrow> 's option" where
  "exec step [] s = Some s"
| "exec step (e # es) s = (case step e s of None \<Rightarrow> None | Some s' \<Rightarrow> exec step es s')"

lemma exec_append:
  "exec step (es @ fs) s = (case exec step es s of None \<Rightarrow> None | Some s' \<Rightarrow> exec step fs s')"
  by (induction es arbitrary: s) (auto split: option.splits)

lemma exec_cong: "(\<And>e s. e \<in> set es \<Longrightarrow> step e s = step' e s) \<Longrightarrow> exec step es s = exec step' es s"
  by (induction es arbitrary: s) (auto split: option.split)

locale guarded_machine =
  fixes step :: "'e \<Rightarrow> 's \<Rightarrow> 's option"
    and invar :: "'s \<Rightarrow> bool"
  assumes step_invar: "invar s \<Longrightarrow> step e s = Some s' \<Longrightarrow> invar s'"
begin

lemma exec_invar: "invar s \<Longrightarrow> exec step es s = Some s' \<Longrightarrow> invar s'"
proof (induction es arbitrary: s)
  case Nil
  then show ?case by simp
next
  case (Cons e es)
  then obtain t where "step e s = Some t" and "exec step es t = Some s'"
    by (auto split: option.splits)
  moreover from this(1) Cons.prems(1) have "invar t" by (blast intro: step_invar)
  ultimately show ?case by (blast intro: Cons.IH)
qed

lemma exec_invar_prefix:
  assumes "invar s" and "exec step (es @ fs) s = Some s'"
  shows "\<exists>t. exec step es s = Some t \<and> invar t"
proof -
  from assms(2) obtain t where "exec step es s = Some t"
    by (auto simp: exec_append split: option.splits)
  with assms(1) show ?thesis by (blast intro: exec_invar)
qed

end

subsection \<open>Simulation\<close>

text \<open>A guarded machine implements a step relation when each of its steps, seen through \<open>abst\<close>, is a step
  of the relation or changes nothing.\<close>

locale simulation = guarded_machine step invar
  for step :: "'e \<Rightarrow> 's \<Rightarrow> 's option" and invar :: "'s \<Rightarrow> bool" +
  fixes abst :: "'s \<Rightarrow> 'a"
    and astep :: "'a \<Rightarrow> 'a \<Rightarrow> bool"
  assumes step_sim: "invar s \<Longrightarrow> step e s = Some s' \<Longrightarrow> abst s' = abst s \<or> astep (abst s) (abst s')"
begin

lemma exec_sim: "invar s \<Longrightarrow> exec step es s = Some s' \<Longrightarrow> astep\<^sup>*\<^sup>* (abst s) (abst s')"
proof (induction es arbitrary: s)
  case Nil
  then show ?case by simp
next
  case (Cons e es)
  then obtain t where t: "step e s = Some t" "exec step es t = Some s'"
    by (auto split: option.splits)
  then have "astep\<^sup>*\<^sup>* (abst t) (abst s')"
    using Cons.prems(1) by (blast intro: step_invar Cons.IH)
  with step_sim [OF Cons.prems(1) t(1)] show ?case by (auto intro: converse_rtranclp_into_rtranclp)
qed

end

subsection \<open>Ranks\<close>

text \<open>The events that \<open>counts\<close> singles out lower a rank and the others do not raise it, so a run has no more of
  them than the rank it started with.\<close>

locale ranked_machine = guarded_machine step invar
  for step :: "'e \<Rightarrow> 's \<Rightarrow> 's option" and invar :: "'s \<Rightarrow> bool" +
  fixes rank :: "'s \<Rightarrow> nat"
    and counts :: "'e \<Rightarrow> bool"
  assumes step_rank: "invar s \<Longrightarrow> step e s = Some s' \<Longrightarrow> (if counts e then rank s' < rank s else rank s' \<le> rank s)"
begin

lemma exec_rank: "invar s \<Longrightarrow> exec step es s = Some s' \<Longrightarrow> length (filter counts es) + rank s' \<le> rank s"
proof (induction es arbitrary: s)
  case Nil
  then show ?case by simp
next
  case (Cons e es)
  then obtain t where t: "step e s = Some t" "exec step es t = Some s'"
    by (auto split: option.splits)
  then have "length (filter counts es) + rank s' \<le> rank t"
    using Cons.prems(1) by (blast intro: step_invar Cons.IH)
  with step_rank [OF Cons.prems(1) t(1)] show ?case by (auto split: if_splits)
qed

end

subsection \<open>Schedules\<close>

text \<open>A run that takes at each state the event that \<open>next_event\<close> names.\<close>

fun follows :: "('e \<Rightarrow> 's \<Rightarrow> 's option) \<Rightarrow> ('s \<Rightarrow> 'e option) \<Rightarrow> 'e list \<Rightarrow> 's \<Rightarrow> bool" where
  "follows step next_event [] s = True"
| "follows step next_event (e # es) s =
     (next_event s = Some e \<and> (case step e s of None \<Rightarrow> False | Some s' \<Rightarrow> follows step next_event es s'))"

text \<open>While a state is pending, the next event is possible and reaches the goal or lowers a rank, so the goal is reached within the rank.\<close>

locale scheduled =
  fixes step :: "'e \<Rightarrow> 's \<Rightarrow> 's option"
    and next_event :: "'s \<Rightarrow> 'e option"
    and pending :: "'s \<Rightarrow> bool"
    and goal :: "'s \<Rightarrow> bool"
    and rank :: "'s \<Rightarrow> nat"
  assumes progress: "pending s \<Longrightarrow> \<exists>e s'. next_event s = Some e \<and> step e s = Some s' \<and> (goal s' \<or> pending s' \<and> rank s' < rank s)"
begin

lemma reached:
  "pending s \<Longrightarrow> \<exists>es s'. exec step es s = Some s' \<and> follows step next_event es s \<and> length es \<le> Suc (rank s) \<and> goal s'"
proof (induction "rank s" arbitrary: s rule: less_induct)
  case less
  from progress [OF less.prems] obtain e s1 where
    e: "next_event s = Some e" "step e s = Some s1" "goal s1 \<or> pending s1 \<and> rank s1 < rank s" by blast
  show ?case
  proof (cases "goal s1")
    case True
    with e(1,2) show ?thesis by (intro exI [of _ "[e]"] exI [of _ s1]) simp
  next
    case False
    with e(3) less.hyps [of s1] obtain es s2 where
      "exec step es s1 = Some s2" "follows step next_event es s1" "length es \<le> Suc (rank s1)" "goal s2" "rank s1 < rank s" by blast
    with e(1,2) show ?thesis by (intro exI [of _ "e # es"] exI [of _ s2]) simp
  qed
qed

end

end
