(* ===== verification/Base64.thy ===== *)
theory Base64
  imports Prelude "HOL-Library.Word"
begin

section \<open>Base64url and PKCE\<close>

text \<open>
  The base64url codec that the SDK (\<open>clients/ts/src/auth.ts\<close>) and both single-page
  applications (\<open>frontends/*/src/utils/pkce.ts\<close>) carry, and the PKCE pair built on it.
  A \<open>Uint8Array\<close> is a list of 8-bit words.  \<open>btoa\<close> and \<open>atob\<close> are the platform
  functions (forgiving-base64 of the WHATWG Infra standard), \<open>utf8\<close> is \<open>TextEncoder\<close>
  on the modelled strings.  The random bytes of the CSPRNG and the SHA-256 digest are
  arguments.  The lemmas show the round trip, the alphabet, the output length, that a
  generated verifier satisfies RFC 7636, and that the three encoders are one function.
\<close>

type_synonym bytes = "8 word list"

subsection \<open>btoa and atob\<close>

definition b64char :: "nat \<Rightarrow> char" where
  "b64char n = char_of (if n < 26 then n + 65 else if n < 52 then n + 71
     else if n < 62 then n - 4 else if n = 62 then 43 else (47::nat))"

definition b64val :: "char \<Rightarrow> nat option" where
  "b64val c = (let n = of_char c :: nat in
     if 65 \<le> n \<and> n \<le> 90 then Some (n - 65)
     else if 97 \<le> n \<and> n \<le> 122 then Some (n - 71)
     else if 48 \<le> n \<and> n \<le> 57 then Some (n + 4)
     else if n = 43 then Some 62 else if n = 47 then Some 63 else None)"

text \<open>Bytes regrouped into six-bit values, and back; left-over bits are dropped.\<close>

fun sextets :: "nat list \<Rightarrow> nat list" where
  "sextets [] = []"
| "sextets [a] = [a div 4, a mod 4 * 16]"
| "sextets [a, b] = [a div 4, a mod 4 * 16 + b div 16, b mod 16 * 4]"
| "sextets (a # b # c # r) =
     a div 4 # (a mod 4 * 16 + b div 16) # (b mod 16 * 4 + c div 64) # c mod 64 # sextets r"

fun octets :: "nat list \<Rightarrow> nat list" where
  "octets (a # b # c # d # r) =
     (a * 4 + b div 16) # (b mod 16 * 16 + c div 4) # (c mod 4 * 64 + d) # octets r"
| "octets [a, b, c] = [a * 4 + b div 16, b mod 16 * 16 + c div 4]"
| "octets [a, b] = [a * 4 + b div 16]"
| "octets _ = []"

definition b64_pad :: "nat \<Rightarrow> nat" where
  "b64_pad n = (if n mod 3 = 0 then 0 else 3 - n mod 3)"

text \<open>\<open>btoa(s)\<close> (every modelled code unit is below 256, so it never throws).\<close>

definition btoa :: "string \<Rightarrow> string" where
  "btoa s = map b64char (sextets (map of_char s)) @ replicate (b64_pad (length s)) (CHR ''='')"

fun opt_all :: "'a option list \<Rightarrow> 'a list option" where
  "opt_all [] = Some []"
| "opt_all (None # r) = None"
| "opt_all (Some x # r) = (case opt_all r of None \<Rightarrow> None | Some xs \<Rightarrow> Some (x # xs))"

definition ascii_space :: "char \<Rightarrow> bool" where
  "ascii_space c \<longleftrightarrow> (of_char c :: nat) \<in> {9, 10, 12, 13, 32}"

text \<open>One or two trailing padding characters are dropped when the length is divisible by 4.\<close>

definition drop_pad :: "string \<Rightarrow> string" where
  "drop_pad s = (if length s mod 4 = 0 \<and> s \<noteq> [] \<and> last s = CHR ''=''
     then (let t = butlast s in if t \<noteq> [] \<and> last t = CHR ''='' then butlast t else t)
     else s)"

text \<open>\<open>atob(s)\<close>; \<open>None\<close> is the \<open>InvalidCharacterError\<close>.\<close>

definition atob :: "string \<Rightarrow> string option" where
  "atob s = (let t = drop_pad (filter (\<lambda>c. \<not> ascii_space c) s) in
     if length t mod 4 = 1 then None else map_option (\<lambda>vs. map char_of (octets vs)) (opt_all (map b64val t)))"

subsection \<open>The base64url routines of the sources\<close>

definition fromCharCode :: "bytes \<Rightarrow> string" where
  "fromCharCode bs = map (\<lambda>b. char_of (unat b)) bs"

definition charCodes :: "string \<Rightarrow> bytes" where
  "charCodes s = map (\<lambda>c. word_of_nat (of_char c)) s"

definition url_safe :: "string \<Rightarrow> string" where
  "url_safe s = strip_end (CHR ''='')
     (map (\<lambda>c. if c = CHR ''/'' then CHR ''_'' else c)
       (map (\<lambda>c. if c = CHR ''+'' then CHR ''-'' else c) s))"

text \<open>The chunked loop of the SDK: 0x8000 bytes are spread into one call at a time.\<close>

function to_binary :: "nat \<Rightarrow> bytes \<Rightarrow> string" where
  "to_binary chunk bs =
     (if bs = [] \<or> chunk = 0 then []
      else fromCharCode (take chunk bs) @ to_binary chunk (drop chunk bs))"
  by pat_completeness auto
termination
  by (relation "measure (\<lambda>(chunk, bs). length bs)") auto

declare to_binary.simps [simp del]

definition toBase64Url :: "bytes \<Rightarrow> string" where
  "toBase64Url bs = url_safe (btoa (to_binary 0x8000 bs))"

definition url_unsafe :: "string \<Rightarrow> string" where
  "url_unsafe s = map (\<lambda>c. if c = CHR ''_'' then CHR ''/'' else c)
     (map (\<lambda>c. if c = CHR ''-'' then CHR ''+'' else c) s)"

definition fromBase64Url :: "string \<Rightarrow> bytes option" where
  "fromBase64Url value =
     (let padded = url_unsafe value @ replicate ((4 - length value mod 4) mod 4) (CHR ''='')
      in map_option charCodes (atob padded))"

text \<open>The user portal's copy appends one character per byte.\<close>

fun append_codes :: "string \<Rightarrow> bytes \<Rightarrow> string" where
  "append_codes str [] = str"
| "append_codes str (b # bs) = append_codes (str @ fromCharCode [b]) bs"

definition base64UrlEncode :: "bytes \<Rightarrow> string" where
  "base64UrlEncode bs = url_safe (btoa (append_codes [] bs))"

definition base64UrlDecode :: "string \<Rightarrow> bytes option" where
  "base64UrlDecode value =
     (let base64 = url_unsafe value;
          padded = base64 @ replicate ((4 - length base64 mod 4) mod 4) (CHR ''='')
      in map_option charCodes (atob padded))"

definition admin_base64UrlEncode :: "bytes \<Rightarrow> string" where
  "admin_base64UrlEncode bs = url_safe (btoa (append_codes [] bs))"

subsection \<open>PKCE\<close>

definition unreserved :: "char \<Rightarrow> bool" where
  "unreserved c \<longleftrightarrow> (let n = of_char c :: nat in
     (65 \<le> n \<and> n \<le> 90) \<or> (97 \<le> n \<and> n \<le> 122) \<or> (48 \<le> n \<and> n \<le> 57)) \<or>
     c \<in> {CHR ''-'', CHR ''.'', CHR ''_'', CHR ''~''}"

definition isPkceVerifier :: "string \<Rightarrow> bool" where
  "isPkceVerifier value \<longleftrightarrow>
     43 \<le> length value \<and> length value \<le> 128 \<and> value \<noteq> [] \<and> list_all unreserved value"

fun utf8_codes :: "string \<Rightarrow> nat list" where
  "utf8_codes [] = []"
| "utf8_codes (c # s) = (let n = of_char c in
     (if n < 128 then [n] else [192 + n div 64, 128 + n mod 64]) @ utf8_codes s)"

definition utf8 :: "string \<Rightarrow> bytes" where
  "utf8 s = map word_of_nat (utf8_codes s)"

type_synonym digest = "bytes \<Rightarrow> bytes"

text \<open>Web Crypto of the runtime: absent, or present with its SHA-256.\<close>

type_synonym web_crypto = "digest option"

definition assertWebCrypto :: "web_crypto \<Rightarrow> js_throw + digest" where
  "assertWebCrypto cryptoObj = (case cryptoObj of
     None \<Rightarrow> Inl (PlainError (''fulla-oauth2 requires Web Crypto (globalThis.crypto). '' @
       ''Node >= 18.17 and all evergreen browsers provide it; older runtimes do not.''))
   | Some sha256 \<Rightarrow> Inr sha256)"

definition createPkceChallenge :: "web_crypto \<Rightarrow> string \<Rightarrow> js_throw + string" where
  "createPkceChallenge crypto v =
     bind_res (assertWebCrypto crypto) (\<lambda>sha256. Inr (toBase64Url (sha256 (utf8 v))))"

text \<open>\<open>crypto.getRandomValues\<close> on a fresh array of \<open>n\<close> bytes: a parameter that yields the
  \<open>n\<close> bytes.\<close>

type_synonym random = "nat \<Rightarrow> bytes"

record pkce_pair =
  verifier :: string
  challenge :: string

definition PkcePair_generate :: "web_crypto \<Rightarrow> random \<Rightarrow> js_throw + pkce_pair" where
  "PkcePair_generate crypto getRandomValues =
     bind_res (assertWebCrypto crypto) (\<lambda>_.
       let v = toBase64Url (getRandomValues 48) in
       bind_res (createPkceChallenge crypto v) (\<lambda>c. Inr \<lparr>verifier = v, challenge = c\<rparr>))"

definition randomToken :: "web_crypto \<Rightarrow> random \<Rightarrow> nat \<Rightarrow> js_throw + string" where
  "randomToken crypto getRandomValues n =
     bind_res (assertWebCrypto crypto) (\<lambda>_. Inr (toBase64Url (getRandomValues n)))"

text \<open>The copy of the user portal; its pair carries the method too.\<close>

record portal_pkce_pair = pkce_pair +
  pkce_method :: string

definition generateCodeVerifier :: "random \<Rightarrow> string" where
  "generateCodeVerifier getRandomValues = base64UrlEncode (getRandomValues 48)"

definition computeS256Challenge :: "digest \<Rightarrow> string \<Rightarrow> string" where
  "computeS256Challenge sha256 v = base64UrlEncode (sha256 (utf8 v))"

definition generatePkcePair :: "digest \<Rightarrow> random \<Rightarrow> portal_pkce_pair" where
  "generatePkcePair sha256 getRandomValues =
     (let v = generateCodeVerifier getRandomValues
      in \<lparr>verifier = v, challenge = computeS256Challenge sha256 v, pkce_method = ''S256''\<rparr>)"

text \<open>The copy of the admin console.\<close>

definition admin_generateCodeVerifier :: "random \<Rightarrow> string" where
  "admin_generateCodeVerifier getRandomValues = admin_base64UrlEncode (getRandomValues 48)"

definition admin_computeS256Challenge :: "digest \<Rightarrow> string \<Rightarrow> string" where
  "admin_computeS256Challenge sha256 v = admin_base64UrlEncode (sha256 (utf8 v))"

definition admin_generatePkcePair :: "digest \<Rightarrow> random \<Rightarrow> portal_pkce_pair" where
  "admin_generatePkcePair sha256 getRandomValues =
     (let v = admin_generateCodeVerifier getRandomValues
      in \<lparr>verifier = v, challenge = admin_computeS256Challenge sha256 v, pkce_method = ''S256''\<rparr>)"

subsection \<open>The codec\<close>

lemma of_char_b64char:
  "n < 64 \<Longrightarrow> of_char (b64char n) = (if n < 26 then n + 65 else if n < 52 then n + 71
     else if n < 62 then n - 4 else if n = 62 then 43 else (47::nat))"
  by (simp add: b64char_def)

lemma b64val_b64char [simp]: "n < 64 \<Longrightarrow> b64val (b64char n) = Some n"
  by (auto simp: b64val_def of_char_b64char Let_def)

lemma b64char_neq [simp]:
  "n < 64 \<Longrightarrow> b64char n \<noteq> CHR ''=''"
  "n < 64 \<Longrightarrow> b64char n \<noteq> CHR ''-''"
  "n < 64 \<Longrightarrow> b64char n \<noteq> CHR ''_''"
  using of_char_b64char [of n] by (auto split: if_splits)

lemma b64char_no_space [simp]: "n < 64 \<Longrightarrow> \<not> ascii_space (b64char n)"
  by (auto simp: ascii_space_def of_char_b64char split: if_splits)

text \<open>The groups of six bits of a byte triple: their bounds and how they recombine.\<close>

lemma sextet_bounds:
  fixes a b :: nat
  assumes "a < 256" and "b < 256"
  shows "a div 4 < 64" "a mod 4 * 16 + b div 16 < 64" "a mod 16 * 4 + b div 64 < 64"
    "a mod 64 < 64" "a mod 4 * 16 < 64" "a mod 16 * 4 < 64"
proof -
  have "a mod 4 \<le> 3" "b div 16 \<le> 15" "a mod 16 \<le> 15" "b div 64 \<le> 3" using assms by auto
  then show "a mod 4 * 16 + b div 16 < 64" "a mod 16 * 4 + b div 64 < 64"
    "a mod 4 * 16 < 64" "a mod 16 * 4 < 64" by linarith+
qed (use assms in auto)

lemma sextet_join1: "b < 256 \<Longrightarrow> a div 4 * 4 + (a mod 4 * 16 + b div 16) div 16 = (a::nat)"
proof -
  assume "b < 256"
  then have "(a mod 4 * 16 + b div 16) div 16 = a mod 4" by simp
  then show ?thesis by (simp only: div_mult_mod_eq)
qed

lemma sextet_join2:
  "b < 256 \<Longrightarrow> d < 256 \<Longrightarrow>
   (a mod 4 * 16 + b div 16) mod 16 * 16 + (b mod 16 * 4 + d div 64) div 4 = (b::nat)"
proof -
  assume "b < 256" "d < 256"
  then have "(a mod 4 * 16 + b div 16) mod 16 = b div 16" "(b mod 16 * 4 + d div 64) div 4 = b mod 16"
    by simp_all
  then show ?thesis by (simp only: div_mult_mod_eq)
qed

lemma sextet_join3: "d < 256 \<Longrightarrow> (b mod 16 * 4 + d div 64) mod 4 * 64 + d mod 64 = (d::nat)"
proof -
  assume "d < 256"
  then have "(b mod 16 * 4 + d div 64) mod 4 = d div 64" by simp
  then show ?thesis by (simp only: div_mult_mod_eq)
qed

lemma octets_sextets: "\<forall>x \<in> set ns. x < 256 \<Longrightarrow> octets (sextets ns) = ns"
proof (induction ns rule: sextets.induct)
  case (2 a)
  show ?case using sextet_join1 [of 0 a] by simp
next
  case (3 a b)
  then have b: "b < 256" by simp
  show ?case using sextet_join1 [OF b, of a] sextet_join2 [OF b, of 0 a]
    by (simp only: sextets.simps octets.simps) simp
next
  case (4 a b d r)
  then have b: "b < 256" and d: "d < 256" and r: "octets (sextets r) = r" by simp_all
  show ?case
    by (simp only: sextets.simps octets.simps r sextet_join1 [OF b] sextet_join2 [OF b d] sextet_join3 [OF d])
qed simp

lemma sextets_small: "\<forall>x \<in> set ns. x < 256 \<Longrightarrow> \<forall>v \<in> set (sextets ns). v < 64"
proof (induction ns rule: sextets.induct)
  case (2 a)
  then have a: "a < 256" by simp
  show ?case by (simp only: sextets.simps list.set ball_simps sextet_bounds [OF a a] simp_thms)
next
  case (3 a b)
  then have a: "a < 256" and b: "b < 256" by simp_all
  show ?case by (simp only: sextets.simps list.set ball_simps sextet_bounds [OF a b]
      sextet_bounds [OF b b] simp_thms)
next
  case (4 a b d r)
  then have a: "a < 256" and b: "b < 256" and d: "d < 256" and r: "\<forall>v \<in> set (sextets r). v < 64"
    by simp_all
  show ?case using r
    by (simp only: sextets.simps list.set ball_simps sextet_bounds [OF a b]
        sextet_bounds [OF b d] sextet_bounds [OF d d] simp_thms)
qed simp

lemma sextets_Nil [simp]: "sextets ns = [] \<longleftrightarrow> ns = []"
  by (cases ns rule: sextets.cases) auto

lemma sextets_length: "length (sextets ns) = (4 * length ns + 2) div 3"
  by (induction ns rule: sextets.induct) auto

lemma b64_pad_3 [simp]: "b64_pad (Suc (Suc (Suc n))) = b64_pad n"
proof -
  have "Suc (Suc (Suc n)) = n + 3" by simp
  then show ?thesis by (simp only: b64_pad_def mod_add_self2)
qed

lemma b64_pad_cases: "b64_pad n = 0 \<or> b64_pad n = 1 \<or> b64_pad n = 2"
  by (auto simp: b64_pad_def)

lemma sextets_mod:
  "length (sextets ns) mod 4 \<noteq> 1" "(length (sextets ns) + b64_pad (length ns)) mod 4 = 0"
  by (induction ns rule: sextets.induct) (auto simp: b64_pad_def split: if_splits)

lemma opt_all_b64val: "\<forall>v \<in> set vs. v < 64 \<Longrightarrow> opt_all (map b64val (map b64char vs)) = Some vs"
  by (induction vs) auto

abbreviation codes :: "string \<Rightarrow> nat list" where
  "codes s \<equiv> map of_char s"

lemma codes_sextets: "\<forall>v \<in> set (sextets (codes s)). v < 64"
  by (rule sextets_small) auto

lemma codes_octets: "octets (sextets (codes s)) = codes s"
  by (rule octets_sextets) auto

lemma b64_chars: "c \<in> set (map b64char (sextets (codes s))) \<Longrightarrow>
   c \<noteq> CHR ''='' \<and> c \<noteq> CHR ''-'' \<and> c \<noteq> CHR ''_'' \<and> \<not> ascii_space c"
  using codes_sextets [of s] by auto

lemma btoa_length: "length (btoa s) mod 4 = 0"
  using sextets_mod(2) [of "codes s"] by (simp add: btoa_def)

lemma filter_btoa: "filter (\<lambda>c. \<not> ascii_space c) (btoa s) = btoa s"
  using b64_chars [of _ s] by (auto simp: filter_id_conv btoa_def ascii_space_def)

lemma last_b64_chars: "s \<noteq> [] \<Longrightarrow> last (map b64char (sextets (codes s))) \<noteq> CHR ''=''"
  using b64_chars [of "last (map b64char (sextets (codes s)))" s]
  by (metis last_in_set map_is_Nil_conv sextets_Nil)

lemma drop_pad_btoa: "drop_pad (btoa s) = map b64char (sextets (codes s))"
proof (cases "s = []")
  case True
  then show ?thesis by (simp add: drop_pad_def btoa_def b64_pad_def)
next
  case False
  then show ?thesis
    using last_b64_chars [of s] btoa_length [of s] b64_pad_cases [of "length s"]
    by (auto simp: drop_pad_def btoa_def Let_def butlast_append numeral_2_eq_2)
qed

lemma atob_btoa [simp]: "atob (btoa s) = Some s"
proof -
  have "map char_of (codes s) = s" by (simp add: comp_def)
  then show ?thesis
    using sextets_mod(1) [of "codes s"]
    by (simp add: atob_def filter_btoa drop_pad_btoa Let_def opt_all_b64val [OF codes_sextets]
        codes_octets del: map_map)
qed

subsection \<open>Properties of the routines\<close>

text \<open>The loops that build the binary string are the byte-wise map.\<close>

lemma to_binary_eq: "0 < chunk \<Longrightarrow> to_binary chunk bs = fromCharCode bs"
proof (induction chunk bs rule: to_binary.induct)
  case (1 chunk bs)
  show ?case
  proof (cases "bs = []")
    case True
    then show ?thesis by (simp add: to_binary.simps fromCharCode_def)
  next
    case False
    with 1 have "to_binary chunk (drop chunk bs) = fromCharCode (drop chunk bs)" by simp
    moreover have "fromCharCode (take chunk bs) @ fromCharCode (drop chunk bs) = fromCharCode bs"
      by (simp add: fromCharCode_def flip: map_append)
    ultimately show ?thesis using False 1 by (simp add: to_binary.simps [of chunk bs])
  qed
qed

lemma append_codes_eq: "append_codes str bs = str @ fromCharCode bs"
  by (induction bs arbitrary: str) (simp_all add: fromCharCode_def)

lemma base64UrlEncode_eq: "base64UrlEncode bs = toBase64Url bs"
  by (simp add: base64UrlEncode_def toBase64Url_def append_codes_eq to_binary_eq)

lemma admin_base64UrlEncode_eq: "admin_base64UrlEncode bs = toBase64Url bs"
  by (simp add: admin_base64UrlEncode_def toBase64Url_def append_codes_eq to_binary_eq)

lemma charCodes_fromCharCode [simp]: "charCodes (fromCharCode bs) = bs"
proof -
  have "word_of_nat (unat b mod 256) = b" for b :: "8 word"
  proof -
    have "unat b < 2 ^ LENGTH(8)" by (rule unsigned_less)
    then show ?thesis by simp
  qed
  then show ?thesis by (simp add: charCodes_def fromCharCode_def comp_def)
qed

lemma length_fromCharCode [simp]: "length (fromCharCode bs) = length bs"
  by (simp add: fromCharCode_def)

text \<open>The two substitutions act on one character at a time.\<close>

definition url_char :: "char \<Rightarrow> char" where
  "url_char c = (if c = CHR ''/'' then CHR ''_'' else if c = CHR ''+'' then CHR ''-'' else c)"

definition std_char :: "char \<Rightarrow> char" where
  "std_char c = (if c = CHR ''_'' then CHR ''/'' else if c = CHR ''-'' then CHR ''+'' else c)"

lemma url_safe_eq: "url_safe s = strip_end (CHR ''='') (map url_char s)"
proof -
  have "(\<lambda>c. if c = CHR ''/'' then CHR ''_'' else c) \<circ> (\<lambda>c. if c = CHR ''+'' then CHR ''-'' else c)
      = url_char"
    by (auto simp: url_char_def fun_eq_iff)
  then show ?thesis by (simp add: url_safe_def)
qed

lemma url_unsafe_eq: "url_unsafe s = map std_char s"
proof -
  have "(\<lambda>c. if c = CHR ''_'' then CHR ''/'' else c) \<circ> (\<lambda>c. if c = CHR ''-'' then CHR ''+'' else c)
      = std_char"
    by (auto simp: std_char_def fun_eq_iff)
  then show ?thesis by (simp add: url_unsafe_def)
qed

lemma std_url_char: "c \<noteq> CHR ''-'' \<Longrightarrow> c \<noteq> CHR ''_'' \<Longrightarrow> std_char (url_char c) = c"
  by (auto simp: std_char_def url_char_def)

lemma url_char_not_pad: "c \<noteq> CHR ''='' \<Longrightarrow> url_char c \<noteq> CHR ''=''"
  by (auto simp: url_char_def)

abbreviation raw_url :: "bytes \<Rightarrow> string" where
  "raw_url bs \<equiv> map url_char (map b64char (sextets (codes (fromCharCode bs))))"

lemma toBase64Url_raw: "toBase64Url bs = raw_url bs"
proof -
  have pad: "map url_char (replicate n (CHR ''='')) = replicate n (CHR ''='')" for n
    by (simp add: url_char_def)
  have "raw_url bs = [] \<or> last (raw_url bs) \<noteq> CHR ''=''"
  proof (cases "bs = []")
    case True
    then show ?thesis by (simp add: fromCharCode_def)
  next
    case False
    then have "fromCharCode bs \<noteq> []" by (simp add: fromCharCode_def)
    then have "last (map b64char (sextets (codes (fromCharCode bs)))) \<noteq> CHR ''=''"
      by (rule last_b64_chars)
    with \<open>fromCharCode bs \<noteq> []\<close> show ?thesis
      by (metis last_map map_is_Nil_conv sextets_Nil url_char_not_pad)
  qed
  then have "strip_end (CHR ''='') (raw_url bs @ replicate (b64_pad (length bs)) (CHR ''='')) = raw_url bs"
    by (rule strip_end_replicate)
  then show ?thesis
    by (simp only: toBase64Url_def url_safe_eq to_binary_eq btoa_def map_append pad
        length_fromCharCode zero_less_numeral)
qed

lemma url_unsafe_raw: "url_unsafe (raw_url bs) = map b64char (sextets (codes (fromCharCode bs)))"
  unfolding url_unsafe_eq map_map
  using b64_chars [of _ "fromCharCode bs"] by (auto intro!: std_url_char)

lemma b64_pad_length: "(4 - length (sextets ns) mod 4) mod 4 = b64_pad (length ns)"
  by (induction ns rule: sextets.induct) (simp_all add: b64_pad_def)

lemma fromBase64Url_toBase64Url: "fromBase64Url (toBase64Url bs) = Some bs"
proof -
  have "url_unsafe (toBase64Url bs) @
      replicate ((4 - length (toBase64Url bs) mod 4) mod 4) (CHR ''='') = btoa (fromCharCode bs)"
    by (simp only: toBase64Url_raw url_unsafe_raw length_map b64_pad_length btoa_def)
  then show ?thesis by (simp only: fromBase64Url_def Let_def atob_btoa option.map charCodes_fromCharCode)
qed

lemma base64UrlDecode_eq: "base64UrlDecode = fromBase64Url"
  by (rule ext) (simp add: base64UrlDecode_def fromBase64Url_def url_unsafe_def Let_def)

interpretation b64url: codec toBase64Url fromBase64Url "\<lambda>_. True"
  by unfold_locales (rule fromBase64Url_toBase64Url)

lemma toBase64Url_length: "length (toBase64Url bs) = (4 * length bs + 2) div 3"
  by (simp add: toBase64Url_raw sextets_length)

lemma b64char_unreserved: "n < 64 \<Longrightarrow> unreserved (url_char (b64char n))"
proof -
  assume n: "n < 64"
  consider "n < 62" | "n = 62" | "n = 63" using n by linarith
  then show ?thesis
  proof cases
    case 1
    then have "of_char (b64char n) \<noteq> (47::nat)" "of_char (b64char n) \<noteq> (43::nat)"
      by (auto simp: of_char_b64char)
    then have "url_char (b64char n) = b64char n" by (auto simp: url_char_def)
    with 1 show ?thesis by (auto simp: unreserved_def of_char_b64char Let_def)
  next
    case 2
    then have "of_char (b64char n) = (of_char (CHR ''+'') :: nat)" by (simp add: of_char_b64char)
    then have "b64char n = CHR ''+''" by (simp only: of_char_eq_iff)
    then show ?thesis by (simp add: url_char_def unreserved_def)
  next
    case 3
    then have "of_char (b64char n) = (of_char (CHR ''/'') :: nat)" by (simp add: of_char_b64char)
    then have "b64char n = CHR ''/''" by (simp only: of_char_eq_iff)
    then show ?thesis by (simp add: url_char_def unreserved_def)
  qed
qed

lemma toBase64Url_unreserved: "list_all unreserved (toBase64Url bs)"
  unfolding toBase64Url_raw list_all_iff
  using codes_sextets [of "fromCharCode bs"] b64char_unreserved by auto

lemma verifier_of_length:
  assumes "32 \<le> length bs" and "length bs \<le> 96"
  shows "isPkceVerifier (toBase64Url bs)"
proof -
  have "43 \<le> length (toBase64Url bs)" and "length (toBase64Url bs) \<le> 128"
    using assms unfolding toBase64Url_length by linarith+
  moreover from this have "toBase64Url bs \<noteq> []" by auto
  ultimately show ?thesis by (simp add: isPkceVerifier_def toBase64Url_unreserved)
qed

lemma toBase64Url_no_dot: "CHR ''.'' \<notin> set (toBase64Url bs)"
proof
  assume "CHR ''.'' \<in> set (toBase64Url bs)"
  then obtain n where n: "n < 64" "url_char (b64char n) = CHR ''.''"
    using codes_sextets [of "fromCharCode bs"] by (auto simp: toBase64Url_raw)
  then have "b64char n = CHR ''.''" by (auto simp: url_char_def split: if_splits)
  with of_char_b64char [OF n(1)] show False by (auto split: if_splits)
qed

subsection \<open>Properties\<close>

text \<open>C6. base64url loses nothing: every byte sequence, of any length, is read back from its
  encoding by the decoder of the SDK and by that of the user portal, and the three encoders in
  the sources (chunked in the SDK, byte by byte in the two portals) agree on it.\<close>

theorem base64url_roundtrip:
  "fromBase64Url (toBase64Url bs) = Some bs \<and> base64UrlDecode (base64UrlEncode bs) = Some bs \<and>
   base64UrlEncode bs = toBase64Url bs \<and> admin_base64UrlEncode bs = toBase64Url bs"
  by (simp add: base64UrlEncode_eq admin_base64UrlEncode_eq base64UrlDecode_eq fromBase64Url_toBase64Url)

text \<open>With Web Crypto present, the SDK and both portals generate from the same random bytes the
  same PKCE pair: a verifier of 64 unreserved characters, which RFC 7636 accepts, and the
  base64url SHA-256 challenge of exactly that verifier.\<close>

theorem generated_pkce_pair_valid:
  assumes "\<And>n. length (rnd n) = n"
  shows "\<exists>p. PkcePair_generate (Some sha256) rnd = Inr p \<and>
     isPkceVerifier (verifier p) \<and> length (verifier p) = 64 \<and>
     challenge p = toBase64Url (sha256 (utf8 (verifier p))) \<and>
     generatePkcePair sha256 rnd = pkce_pair.extend p \<lparr>pkce_method = ''S256''\<rparr> \<and>
     admin_generatePkcePair sha256 rnd = generatePkcePair sha256 rnd"
proof -
  have "isPkceVerifier (toBase64Url (rnd 48))" by (rule verifier_of_length) (simp_all add: assms)
  then show ?thesis
    by (simp add: PkcePair_generate_def createPkceChallenge_def assertWebCrypto_def generatePkcePair_def
        generateCodeVerifier_def computeS256Challenge_def admin_generatePkcePair_def pkce_pair.extend_def
        admin_generateCodeVerifier_def admin_computeS256Challenge_def base64UrlEncode_eq
        admin_base64UrlEncode_eq toBase64Url_length assms Let_def)
qed

theorem generated_pkce_pair_valid_witness:
  "\<exists>p. PkcePair_generate (Some (\<lambda>bs. take 32 (bs @ replicate 32 7))) (\<lambda>n. replicate n 255) = Inr p \<and>
     isPkceVerifier (verifier p) \<and> length (verifier p) = 64"
  using generated_pkce_pair_valid [of "\<lambda>n. replicate n 255" "\<lambda>bs. take 32 (bs @ replicate 32 7)"] by auto

end
