(* ===== verification/UrlParams.thy ===== *)
theory UrlParams
  imports Base64
begin

section \<open>URLSearchParams\<close>

text \<open>
  The part of \<open>URLSearchParams\<close> the sources use: construction from a record or from a query
  string, \<open>get\<close>, \<open>set\<close>, \<open>has\<close> and \<open>toString\<close>, after the WHATWG URL standard
  (application/x-www-form-urlencoded over UTF-8).  A code point above U+00FF, and the
  replacement character that malformed UTF-8 decodes to, is outside the modelled characters;
  \<open>out_of_range\<close> stands for it.  The main fact is that parsing a serialised list gives the
  list back.
\<close>

type_synonym params = "(string \<times> string) list"

definition out_of_range :: char where
  "out_of_range = CHR 0x1A"

definition cont_byte :: "nat \<Rightarrow> bool" where
  "cont_byte b \<longleftrightarrow> 128 \<le> b \<and> b \<le> 191"

text \<open>UTF-8 decoding with replacement; a byte that breaks a sequence is read again.\<close>

fun utf8_decode :: "nat list \<Rightarrow> string" where
  "utf8_decode [] = []"
| "utf8_decode (b # r) =
     (if b < 128 then char_of b # utf8_decode r
      else if 194 \<le> b \<and> b \<le> 223 then
        (case r of
           c # r1 \<Rightarrow> if cont_byte c
             then (let n = (b - 192) * 64 + (c - 128) in
                   (if n < 256 then char_of n else out_of_range)) # utf8_decode r1
             else out_of_range # utf8_decode r
         | [] \<Rightarrow> [out_of_range])
      else if 224 \<le> b \<and> b \<le> 239 then
        (case r of
           c # r1 \<Rightarrow> if (if b = 224 then 160 else 128) \<le> c \<and> c \<le> (if b = 237 then 159 else 191)
             then (case r1 of
                     d # r2 \<Rightarrow> out_of_range # (if cont_byte d then utf8_decode r2 else utf8_decode r1)
                   | [] \<Rightarrow> [out_of_range])
             else out_of_range # utf8_decode r
         | [] \<Rightarrow> [out_of_range])
      else if 240 \<le> b \<and> b \<le> 244 then
        (case r of
           c # r1 \<Rightarrow> if (if b = 240 then 144 else 128) \<le> c \<and> c \<le> (if b = 244 then 143 else 191)
             then (case r1 of
                     d # r2 \<Rightarrow> if cont_byte d
                       then (case r2 of
                               e # r3 \<Rightarrow> if cont_byte e
                                 then out_of_range # out_of_range # utf8_decode r3
                                 else out_of_range # utf8_decode r2
                             | [] \<Rightarrow> [out_of_range])
                       else out_of_range # utf8_decode r1
                   | [] \<Rightarrow> [out_of_range])
             else out_of_range # utf8_decode r
         | [] \<Rightarrow> [out_of_range])
      else out_of_range # utf8_decode r)"

definition hex_digit :: "nat \<Rightarrow> char" where
  "hex_digit n = char_of (if n < 10 then n + 48 else n + 55)"

definition hex_value :: "nat \<Rightarrow> nat option" where
  "hex_value n = (if 48 \<le> n \<and> n \<le> 57 then Some (n - 48)
     else if 65 \<le> n \<and> n \<le> 70 then Some (n - 55)
     else if 97 \<le> n \<and> n \<le> 102 then Some (n - 87) else None)"

definition form_safe :: "nat \<Rightarrow> bool" where
  "form_safe b \<longleftrightarrow> (48 \<le> b \<and> b \<le> 57) \<or> (65 \<le> b \<and> b \<le> 90) \<or> (97 \<le> b \<and> b \<le> 122) \<or>
     b = 42 \<or> b = 45 \<or> b = 46 \<or> b = 95"

definition form_encode_byte :: "nat \<Rightarrow> string" where
  "form_encode_byte b = (if b = 32 then ''+'' else if form_safe b then [char_of b]
     else [CHR ''%'', hex_digit (b div 16), hex_digit (b mod 16)])"

definition form_encode :: "string \<Rightarrow> string" where
  "form_encode s = concat (map form_encode_byte (utf8_codes s))"

fun percent_decode :: "nat list \<Rightarrow> nat list" where
  "percent_decode [] = []"
| "percent_decode (b # r) =
     (case r of
        h # l # r' \<Rightarrow> if b = 37 then
             (case (hex_value h, hex_value l) of
                (Some x, Some y) \<Rightarrow> (x * 16 + y) # percent_decode r'
              | _ \<Rightarrow> b # percent_decode r)
           else b # percent_decode r
      | _ \<Rightarrow> b # percent_decode r)"

definition form_decode :: "string \<Rightarrow> string" where
  "form_decode s =
     utf8_decode (percent_decode (map (\<lambda>b. if b = 43 then 32 else b) (utf8_codes s)))"

text \<open>\<open>params.toString()\<close>.\<close>

definition params_toString :: "params \<Rightarrow> string" where
  "params_toString ps =
     join_with ''&'' (map (\<lambda>(n, v). form_encode n @ ''='' @ form_encode v) ps)"

definition parse_pair :: "string \<Rightarrow> string \<times> string" where
  "parse_pair p = (let n = takeWhile (\<lambda>c. c \<noteq> CHR ''='') p;
                       v = drop 1 (dropWhile (\<lambda>c. c \<noteq> CHR ''='') p)
                   in (form_decode n, form_decode v))"

text \<open>\<open>new URLSearchParams(q)\<close>: one leading question mark is dropped.\<close>

definition parse_params :: "string \<Rightarrow> params" where
  "parse_params q =
     (let q' = (case q of c # r \<Rightarrow> if c = CHR ''?'' then r else q | [] \<Rightarrow> [])
      in map parse_pair (filter (\<lambda>p. p \<noteq> []) (split_on (CHR ''&'') q')))"

definition params_get :: "params \<Rightarrow> string \<Rightarrow> string option" where
  "params_get ps k = map_of ps k"

definition params_has :: "params \<Rightarrow> string \<Rightarrow> bool" where
  "params_has ps k \<longleftrightarrow> k \<in> fst ` set ps"

fun params_set :: "string \<Rightarrow> string \<Rightarrow> params \<Rightarrow> params" where
  "params_set k v [] = [(k, v)]"
| "params_set k v ((k', v') # ps) =
     (if k' = k then (k, v) # filter (\<lambda>p. fst p \<noteq> k) ps else (k', v') # params_set k v ps)"

subsection \<open>get, set and remove\<close>

definition params_delete :: "string \<Rightarrow> params \<Rightarrow> params" where
  "params_delete k ps = filter (\<lambda>p. fst p \<noteq> k) ps"

lemma map_of_filter_fst: "map_of (filter (\<lambda>p. fst p \<noteq> k) ps) k' = (if k' = k then None else map_of ps k')"
  by (induction ps) auto

lemma params_get_set: "params_get (params_set k v ps) k' = (if k' = k then Some v else params_get ps k')"
  by (induction k v ps rule: params_set.induct) (auto simp: params_get_def map_of_filter_fst)

lemma params_get_delete: "params_get (params_delete k ps) k' = (if k' = k then None else params_get ps k')"
  by (simp add: params_get_def params_delete_def map_of_filter_fst)

interpretation params_store: kv_store params_get params_set params_delete
  by unfold_locales (simp_all add: params_get_set params_get_delete)

lemma params_set_fresh: "k \<notin> fst ` set ps \<Longrightarrow> params_set k v ps = ps @ [(k, v)]"
  by (induction k v ps rule: params_set.induct) auto

subsection \<open>Round trip\<close>

lemma of_char_hex_digit: "n < 16 \<Longrightarrow> of_char (hex_digit n) = (if n < 10 then n + 48 else n + 55)"
  by (simp add: hex_digit_def)

lemma hex_value_digit: "n < 16 \<Longrightarrow> hex_value (of_char (hex_digit n)) = Some n"
  by (auto simp: hex_value_def of_char_hex_digit)

lemma percent_decode_plain: "b \<noteq> 37 \<Longrightarrow> percent_decode (b # r) = b # percent_decode r"
  by (simp split: list.split)

lemma percent_decode_escape:
  "b < 256 \<Longrightarrow> percent_decode (37 # of_char (hex_digit (b div 16)) # of_char (hex_digit (b mod 16)) # r)
     = b # percent_decode r"
  by (simp add: hex_value_digit)

declare percent_decode.simps(2) [simp del]

abbreviation unplus :: "nat list \<Rightarrow> nat list" where
  "unplus bs \<equiv> map (\<lambda>b. if b = 43 then 32 else b) bs"

lemma hex_digit_not_plus: "n < 16 \<Longrightarrow> of_char (hex_digit n) \<noteq> (43::nat)"
  by (auto simp: of_char_hex_digit)

lemma percent_decode_byte:
  assumes "b < 256"
  shows "percent_decode (unplus (map of_char (form_encode_byte b)) @ r) = b # percent_decode r"
proof -
  have "b div 16 < 16" "b mod 16 < 16" using assms by auto
  then show ?thesis
    using percent_decode_escape [OF assms, of r] assms
    by (auto simp: form_encode_byte_def form_safe_def percent_decode_plain hex_digit_not_plus)
qed

lemma utf8_codes_small: "b \<in> set (utf8_codes s) \<Longrightarrow> b < 256"
proof (induction s)
  case (Cons c s)
  have "of_char c div 64 < (4::nat)" by (simp add: less_mult_imp_div_less)
  moreover have "of_char c mod 64 < (64::nat)" by simp
  ultimately have "192 + of_char c div 64 < (256::nat)" "128 + of_char c mod 64 < (256::nat)"
    by linarith+
  with Cons show ?case by (auto simp: Let_def split: if_splits)
qed simp

lemma percent_decode_encode:
  "(\<And>b. b \<in> set bs \<Longrightarrow> b < 256) \<Longrightarrow>
   percent_decode (unplus (map of_char (concat (map form_encode_byte bs)))) = bs"
proof (induction bs)
  case (Cons b bs)
  then show ?case using percent_decode_byte [of b "unplus (map of_char (concat (map form_encode_byte bs)))"]
    by simp
qed simp

lemma form_encode_byte_ascii:
  assumes "b < 256" and "c \<in> set (form_encode_byte b)"
  shows "of_char c < (128::nat)" and "c \<notin> {CHR ''&'', CHR ''='', CHR ''?'', CHR ''#''}"
proof -
  have h: "b div 16 < 16" "b mod 16 < 16" using assms by auto
  from assms have "c = CHR ''+'' \<or> c = CHR ''%'' \<or> form_safe b \<and> c = char_of b
      \<or> c = hex_digit (b div 16) \<or> c = hex_digit (b mod 16)"
    by (auto simp: form_encode_byte_def split: if_splits)
  with h consider "c = CHR ''+''" | "c = CHR ''%''" | "form_safe b" "c = char_of b"
    | n where "n < 16" "c = hex_digit n"
    by blast
  then have *: "of_char c < (128::nat) \<and> of_char c \<notin> {38::nat, 61, 63, 35}"
  proof cases
    case 3
    with assms(1) show ?thesis by (auto simp: form_safe_def)
  next
    case 4
    then show ?thesis by (auto simp: of_char_hex_digit)
  qed simp_all
  then show "of_char c < (128::nat)" by simp
  from * show "c \<notin> {CHR ''&'', CHR ''='', CHR ''?'', CHR ''#''}" by auto
qed

lemma form_encode_ascii:
  assumes "c \<in> set (form_encode s)"
  shows "of_char c < (128::nat)" and "c \<notin> {CHR ''&'', CHR ''='', CHR ''?'', CHR ''#''}"
  using assms form_encode_byte_ascii [OF utf8_codes_small] unfolding form_encode_def by fastforce+

lemma utf8_codes_ascii: "(\<And>c. c \<in> set s \<Longrightarrow> of_char c < (128::nat)) \<Longrightarrow> utf8_codes s = map of_char s"
  by (induction s) (auto simp: Let_def)

lemma utf8_decode_two:
  assumes "128 \<le> n" and "n < 256"
  shows "utf8_decode ((192 + n div 64) # (128 + n mod 64) # r) = char_of n # utf8_decode r"
proof -
  have "n div 64 = 2 \<or> n div 64 = 3" "n mod 64 < 64" using assms by auto
  moreover have "n div 64 * 64 + n mod 64 = n" by simp
  ultimately show ?thesis using assms by (auto simp: cont_byte_def Let_def)
qed

lemma utf8_decode_one: "b < 128 \<Longrightarrow> utf8_decode (b # r) = char_of b # utf8_decode r"
  by simp

declare utf8_decode.simps(2) [simp del]

lemma utf8_roundtrip [simp]: "utf8_decode (utf8_codes s) = s"
proof (induction s)
  case (Cons c s)
  have "of_char c < (256::nat)" by simp
  then show ?case
    using Cons utf8_decode_two [of "of_char c" "utf8_codes s"]
    by (auto simp: Let_def utf8_decode_one)
qed simp

lemma form_roundtrip [simp]: "form_decode (form_encode s) = s"
proof -
  have "utf8_codes (form_encode s) = map of_char (form_encode s)"
    by (rule utf8_codes_ascii) (rule form_encode_ascii(1))
  then show ?thesis
    using percent_decode_encode [of "utf8_codes s"] utf8_codes_small by (simp add: form_decode_def form_encode_def)
qed

lemma parse_pair_roundtrip: "parse_pair (form_encode n @ ''='' @ form_encode v) = (n, v)"
proof -
  have "\<And>c. c \<in> set (form_encode n) \<Longrightarrow> c \<noteq> CHR ''=''" using form_encode_ascii(2) by blast
  then have "takeWhile (\<lambda>c. c \<noteq> CHR ''='') (form_encode n @ ''='' @ form_encode v) = form_encode n"
    "dropWhile (\<lambda>c. c \<noteq> CHR ''='') (form_encode n @ ''='' @ form_encode v) = ''='' @ form_encode v"
    by (simp_all add: takeWhile_append2 dropWhile_append2)
  then show ?thesis by (simp add: parse_pair_def)
qed

abbreviation pair_string :: "string \<times> string \<Rightarrow> string" where
  "pair_string p \<equiv> form_encode (fst p) @ ''='' @ form_encode (snd p)"

lemma pair_string_chars: "CHR ''&'' \<notin> set (pair_string p)" "CHR ''?'' \<notin> set (pair_string p)"
    "CHR ''#'' \<notin> set (pair_string p)"
  using form_encode_ascii(2) by fastforce+

lemma params_toString_eq: "params_toString ps = join_with ''&'' (map pair_string ps)"
  by (simp add: params_toString_def case_prod_unfold)

lemma join_with_chars: "c \<in> set (join_with sep xss) \<Longrightarrow> c \<in> set sep \<or> (\<exists>xs \<in> set xss. c \<in> set xs)"
  by (cases xss) (auto simp: join_with_def split: if_splits)

lemma params_toString_chars: "c \<in> set (params_toString ps) \<Longrightarrow> c \<noteq> CHR ''?'' \<and> c \<noteq> CHR ''#''"
  unfolding params_toString_eq
  using pair_string_chars by (auto dest!: join_with_chars)

lemma parse_toString [simp]: "parse_params (params_toString ps) = ps"
proof (cases "ps = []")
  case True
  then show ?thesis by (simp add: params_toString_def join_with_def parse_params_def)
next
  case False
  then have "split_on (CHR ''&'') (params_toString ps) = map pair_string ps"
    unfolding params_toString_eq using pair_string_chars(1) by (intro split_on_join) auto
  moreover have "(case params_toString ps of c # r \<Rightarrow> if c = CHR ''?'' then r else params_toString ps | [] \<Rightarrow> [])
      = params_toString ps"
    using params_toString_chars [of _ ps] by (cases "params_toString ps") auto
  ultimately show ?thesis
    by (simp add: parse_params_def parse_pair_roundtrip comp_def del: append.simps)
qed

interpretation params_codec: codec params_toString "\<lambda>q. Some (parse_params q)" "\<lambda>_. True"
  by unfold_locales simp

subsection \<open>encodeURIComponent\<close>

definition uri_safe :: "nat \<Rightarrow> bool" where
  "uri_safe b \<longleftrightarrow> (48 \<le> b \<and> b \<le> 57) \<or> (65 \<le> b \<and> b \<le> 90) \<or> (97 \<le> b \<and> b \<le> 122) \<or>
     b \<in> {33, 39, 40, 41, 42, 45, 46, 95, 126}"

definition uri_byte :: "nat \<Rightarrow> string" where
  "uri_byte b = (if uri_safe b then [char_of b] else [CHR ''%'', hex_digit (b div 16), hex_digit (b mod 16)])"

definition encodeURIComponent :: "string \<Rightarrow> string" where
  "encodeURIComponent s = concat (map uri_byte (utf8_codes s))"

end
