(* ===== verification/Json.thy ===== *)
theory Json
  imports UrlParams "HOL-Library.AList"
begin

section \<open>JSON\<close>

text \<open>
  \<open>JSON.stringify\<close> and \<open>JSON.parse\<close> on the modelled values (ECMA-404; the numbers of the
  model are integers, so a number with a fraction or an exponent is outside it and is
  rejected).  The parser is a recursive descent with fuel; \<open>json_parse\<close> gives it one unit
  per character and one more, which the round trip shows to be enough for every text that
  \<open>stringify\<close> produces.
\<close>

subsection \<open>stringify\<close>

definition json_esc :: "char \<Rightarrow> string" where
  "json_esc c = (let n = of_char c :: nat in
     if n = 34 then [CHR 0x5C, CHR 0x22] else if n = 92 then [CHR 0x5C, CHR 0x5C]
     else if n = 8 then [CHR 0x5C, CHR ''b''] else if n = 12 then [CHR 0x5C, CHR ''f'']
     else if n = 10 then [CHR 0x5C, CHR ''n''] else if n = 13 then [CHR 0x5C, CHR ''r'']
     else if n = 9 then [CHR 0x5C, CHR ''t'']
     else if n < 32 then [CHR 0x5C, CHR ''u'', CHR ''0'', CHR ''0'',
       char_of (n div 16 + 48), char_of (if n mod 16 < 10 then n mod 16 + 48 else n mod 16 + 87)]
     else [c])"

definition json_quote :: "string \<Rightarrow> string" where
  "json_quote s = CHR 0x22 # concat (map json_esc s) @ [CHR 0x22]"

text \<open>Members whose value is \<open>undefined\<close> or a function are left out; in an array they are
  \<open>null\<close>.\<close>

fun json_skipped :: "jsval \<Rightarrow> bool" where
  "json_skipped JUndef = True"
| "json_skipped (JHost n) = (n \<noteq> ''__proto__'')"
| "json_skipped v = False"

fun stringify :: "jsval \<Rightarrow> string" where
  "stringify JUndef = ''null''"
| "stringify JNull = ''null''"
| "stringify (JBool b) = (if b then ''true'' else ''false'')"
| "stringify (JNum n) = int_digits n"
| "stringify (JStr s) = json_quote s"
| "stringify (JArr xs) = CHR ''['' # join_with '','' (map stringify xs) @ '']''"
| "stringify (JObj ps) = CHR ''{'' # join_with '',''
     (map (\<lambda>p. json_quote (fst p) @ '':'' @ stringify (snd p))
       (filter (\<lambda>p. \<not> json_skipped (snd p)) ps)) @ ''}''"
| "stringify (JHost n) = (if n = ''__proto__'' then ''{}'' else ''null'')"

subsection \<open>parse\<close>

definition is_ws :: "char \<Rightarrow> bool" where
  "is_ws c \<longleftrightarrow> (of_char c :: nat) \<in> {9, 10, 13, 32}"

definition skip_ws :: "string \<Rightarrow> string" where
  "skip_ws s = dropWhile is_ws s"

fun parse_digits :: "nat \<Rightarrow> string \<Rightarrow> nat \<times> string" where
  "parse_digits a [] = (a, [])"
| "parse_digits a (c # r) =
     (if is_digit c then parse_digits (a * 10 + (of_char c - 48)) r else (a, c # r))"

definition parse_nat :: "string \<Rightarrow> (nat \<times> string) option" where
  "parse_nat s = (case s of
     [] \<Rightarrow> None
   | c # r \<Rightarrow> if \<not> is_digit c then None
       else (let (n, t) = (if c = CHR ''0'' then (0, r) else parse_digits 0 s) in
         case t of d # t' \<Rightarrow> if d \<in> {CHR ''.'', CHR ''e'', CHR ''E''} then None else Some (n, t)
                 | [] \<Rightarrow> Some (n, t)))"

definition parse_num :: "string \<Rightarrow> (jsval \<times> string) option" where
  "parse_num s = (case s of
     [] \<Rightarrow> None
   | c # r \<Rightarrow> if c = CHR ''-'' then map_option (\<lambda>(n, t). (JNum (- int n), t)) (parse_nat r)
       else map_option (\<lambda>(n, t). (JNum (int n), t)) (parse_nat s))"

definition hex4 :: "char \<Rightarrow> char \<Rightarrow> char \<Rightarrow> char \<Rightarrow> nat option" where
  "hex4 a b c d = (case (hex_value (of_char a), hex_value (of_char b), hex_value (of_char c),
       hex_value (of_char d)) of
     (Some w, Some x, Some y, Some z) \<Rightarrow> Some (((w * 16 + x) * 16 + y) * 16 + z)
   | _ \<Rightarrow> None)"

definition esc_char :: "char \<Rightarrow> char option" where
  "esc_char c = (let n = of_char c :: nat in
     if n = 34 \<or> n = 92 \<or> n = 47 then Some c else if n = 98 then Some (CHR 0x08)
     else if n = 102 then Some (CHR 0x0C) else if n = 110 then Some (CHR 0x0A)
     else if n = 114 then Some (CHR 0x0D) else if n = 116 then Some (CHR 0x09) else None)"

fun parse_str :: "string \<Rightarrow> (string \<times> string) option" where
  "parse_str [] = None"
| "parse_str (c # r) =
     (if c = CHR 0x22 then Some ([], r)
      else if c = CHR 0x5C then
        (case r of
           [] \<Rightarrow> None
         | e # r1 \<Rightarrow>
             if e = CHR ''u'' then
               (case r1 of
                  h1 # h2 # h3 # h4 # r2 \<Rightarrow>
                    (case hex4 h1 h2 h3 h4 of
                       None \<Rightarrow> None
                     | Some v \<Rightarrow> map_option (\<lambda>(t, u).
                         ((if v < 256 then char_of v else out_of_range) # t, u)) (parse_str r2))
                | _ \<Rightarrow> None)
             else (case esc_char e of
                     None \<Rightarrow> None
                   | Some x \<Rightarrow> map_option (\<lambda>(t, u). (x # t, u)) (parse_str r1)))
      else if (of_char c :: nat) < 32 then None
      else map_option (\<lambda>(t, u). (c # t, u)) (parse_str r))"

fun parse_val :: "nat \<Rightarrow> string \<Rightarrow> (jsval \<times> string) option"
and parse_elems :: "nat \<Rightarrow> string \<Rightarrow> (jsval list \<times> string) option"
and parse_members :: "nat \<Rightarrow> string \<Rightarrow> (string \<times> jsval) list \<Rightarrow> ((string \<times> jsval) list \<times> string) option" where
  "parse_val 0 s = None"
| "parse_val (Suc f) s = (case skip_ws s of
     [] \<Rightarrow> None
   | c # r \<Rightarrow>
       if c = CHR 0x22 then map_option (\<lambda>(t, u). (JStr t, u)) (parse_str r)
       else if c = CHR ''{'' then
         (case skip_ws r of
            [] \<Rightarrow> None
          | d # u \<Rightarrow> if d = CHR ''}'' then Some (JObj [], u)
              else map_option (\<lambda>(ps, u). (JObj ps, u)) (parse_members f r []))
       else if c = CHR ''['' then
         (case skip_ws r of
            [] \<Rightarrow> None
          | d # u \<Rightarrow> if d = CHR '']'' then Some (JArr [], u)
              else map_option (\<lambda>(vs, u). (JArr vs, u)) (parse_elems f r))
       else if starts_with ''true'' (c # r) then Some (JBool True, drop 4 (c # r))
       else if starts_with ''false'' (c # r) then Some (JBool False, drop 5 (c # r))
       else if starts_with ''null'' (c # r) then Some (JNull, drop 4 (c # r))
       else parse_num (c # r))"
| "parse_elems 0 s = None"
| "parse_elems (Suc f) s = (case parse_val f s of
     None \<Rightarrow> None
   | Some (v, r) \<Rightarrow>
       (case skip_ws r of
          [] \<Rightarrow> None
        | d # u \<Rightarrow> if d = CHR '','' then map_option (\<lambda>(vs, w). (v # vs, w)) (parse_elems f u)
            else if d = CHR '']'' then Some ([v], u) else None))"
| "parse_members 0 s acc = None"
| "parse_members (Suc f) s acc = (case skip_ws s of
     [] \<Rightarrow> None
   | q # r \<Rightarrow> if q \<noteq> CHR 0x22 then None else
       (case parse_str r of
          None \<Rightarrow> None
        | Some (k, u) \<Rightarrow>
            (case skip_ws u of
               [] \<Rightarrow> None
             | col # w \<Rightarrow> if col \<noteq> CHR '':'' then None else
                 (case parse_val f w of
                    None \<Rightarrow> None
                  | Some (v, x) \<Rightarrow>
                      (case skip_ws x of
                         [] \<Rightarrow> None
                       | d # y \<Rightarrow>
                           if d = CHR '','' then parse_members f y (AList.update k v acc)
                           else if d = CHR ''}'' then Some (AList.update k v acc, y)
                           else None)))))"

text \<open>\<open>JSON.parse(text)\<close>; \<open>None\<close> is the \<open>SyntaxError\<close>.\<close>

definition json_parse :: "string \<Rightarrow> jsval option" where
  "json_parse s = (case parse_val (Suc (length s)) s of
     None \<Rightarrow> None
   | Some (v, r) \<Rightarrow> if skip_ws r = [] then Some v else None)"

subsection \<open>Round trip\<close>

lemma parse_str_plain:
  "c \<noteq> CHR 0x22 \<Longrightarrow> c \<noteq> CHR 0x5C \<Longrightarrow> 32 \<le> (of_char c :: nat) \<Longrightarrow>
   parse_str (c # r) = map_option (\<lambda>(t, u). (c # t, u)) (parse_str r)"
  by simp

lemma parse_str_simple_esc:
  "esc_char e = Some x \<Longrightarrow> e \<noteq> CHR ''u'' \<Longrightarrow>
   parse_str (CHR 0x5C # e # r) = map_option (\<lambda>(t, u). (x # t, u)) (parse_str r)"
  by simp

lemma parse_str_hex:
  "hex4 a b c d = Some v \<Longrightarrow> v < 256 \<Longrightarrow>
   parse_str (CHR 0x5C # CHR ''u'' # a # b # c # d # r)
     = map_option (\<lambda>(t, u). (char_of v # t, u)) (parse_str r)"
  by simp

declare parse_str.simps(2) [simp del]

lemma hex4_control:
  assumes "n < 32"
  shows "hex4 (CHR ''0'') (CHR ''0'') (char_of (n div 16 + 48))
     (char_of (if n mod 16 < 10 then n mod 16 + 48 else n mod 16 + 87)) = Some n"
proof -
  have "n div 16 < 2" "n mod 16 < 16" using assms by auto
  then have "hex_value (of_char (char_of (n div 16 + 48) :: char)) = Some (n div 16)"
    "hex_value (of_char (char_of (if n mod 16 < 10 then n mod 16 + 48 else n mod 16 + 87) :: char))
       = Some (n mod 16)"
    by (auto simp: hex_value_def)
  then show ?thesis by (simp add: hex4_def hex_value_def)
qed

lemma char_of_code: "of_char c = n \<Longrightarrow> c = char_of (n::nat)"
  by auto

lemma parse_str_esc:
  "parse_str (json_esc c @ r) = map_option (\<lambda>(t, u). (c # t, u)) (parse_str r)"
proof -
  define n where "n = (of_char c :: nat)"
  have c: "c = char_of n" by (simp add: n_def)
  consider (special) "n \<in> {34, 92, 8, 12, 10, 13, 9}"
    | (control) "n < 32" "n \<notin> {8, 12, 10, 13, 9}" | (plain) "32 \<le> n" "n \<noteq> 34" "n \<noteq> 92"
    by fastforce
  then show ?thesis
  proof cases
    case special
    then have "c \<in> {CHR 0x22, CHR 0x5C, CHR 0x08, CHR 0x0C, CHR 0x0A, CHR 0x0D, CHR 0x09}"
      by (auto simp: c char_of_eq_iff)
    then show ?thesis
      by (auto simp: json_esc_def parse_str_simple_esc esc_char_def)
  next
    case control
    then have "json_esc c = [CHR 0x5C, CHR ''u'', CHR ''0'', CHR ''0'', char_of (n div 16 + 48),
        char_of (if n mod 16 < 10 then n mod 16 + 48 else n mod 16 + 87)]"
      by (simp add: json_esc_def Let_def flip: n_def)
    with control c show ?thesis by (simp only: append.simps parse_str_hex [OF hex4_control])
  next
    case plain
    then have "json_esc c = [c]" by (simp add: json_esc_def Let_def flip: n_def)
    moreover have "c \<noteq> CHR 0x22" "c \<noteq> CHR 0x5C" using plain by (auto simp: n_def)
    ultimately show ?thesis using plain by (simp add: parse_str_plain n_def)
  qed
qed

lemma parse_str_quote: "parse_str (concat (map json_esc s) @ CHR 0x22 # r) = Some (s, r)"
proof (induction s)
  case Nil
  then show ?case by (simp add: parse_str.simps)
next
  case (Cons c s)
  then show ?case by (simp add: parse_str_esc)
qed

lemma parse_digits_append: "parse_digits a (nat_digits n @ r) =
   parse_digits (a * 10 ^ length (nat_digits n) + n) r"
proof (induction n arbitrary: r a rule: nat_digits.induct)
  case (1 n)
  show ?case
  proof (cases "n < 10")
    case True
    then show ?thesis by (simp add: nat_digits.simps [of n] is_digit_def)
  next
    case False
    have "n mod 10 < 10" by simp
    then have d: "is_digit (char_of (n mod 10 + 48))" "of_char (char_of (n mod 10 + 48) :: char) - 48 = n mod 10"
      by (simp_all add: is_digit_def)
    have "(a * 10 ^ length (nat_digits (n div 10)) + n div 10) * 10 + n mod 10
        = a * 10 ^ length (nat_digits n) + n"
      using False div_mult_mod_eq [of n 10] by (simp add: nat_digits.simps [of n] algebra_simps)
    with False d 1 [OF False] show ?thesis
      by (simp add: nat_digits.simps [of n] algebra_simps)
  qed
qed

lemma nat_digits_digits: "c \<in> set (nat_digits n) \<Longrightarrow> is_digit c"
proof (induction n rule: nat_digits.induct)
  case (1 n)
  have "n mod 10 < 10" by simp
  with 1 show ?case
    by (cases "n < 10") (auto simp: nat_digits.simps [of n] is_digit_def)
qed

lemma nat_digits_hd: "hd (nat_digits n) = CHR ''0'' \<longleftrightarrow> n = 0"
proof (induction n rule: nat_digits.induct)
  case (1 n)
  show ?case
  proof (cases "n < 10")
    case True
    then have "char_of (n + 48) = CHR ''0'' \<longleftrightarrow> n = 0"
      by (auto simp: char_of_eq_iff take_bit_eq_mod)
    with True show ?thesis by (simp add: nat_digits.simps [of n])
  next
    case False
    with 1 show ?thesis by (simp add: nat_digits.simps [of n] hd_append)
  qed
qed

text \<open>What may follow a value inside a text: nothing, or a separator.\<close>

definition delim :: "string \<Rightarrow> bool" where
  "delim r \<longleftrightarrow> r = [] \<or> hd r \<in> {CHR '','', CHR '']'', CHR ''}''}"

lemma delim_seps [simp]: "delim []" "delim (CHR '','' # r)" "delim (CHR '']'' # r)" "delim (CHR ''}'' # r)"
  by (simp_all add: delim_def)

lemma delim_stop: "delim r \<Longrightarrow> parse_digits a r = (a, r)"
  "delim r \<Longrightarrow> (case r of d # t' \<Rightarrow> if d \<in> {CHR ''.'', CHR ''e'', CHR ''E''} then None else Some x
                 | [] \<Rightarrow> Some x) = Some x"
  by (cases r; force simp: delim_def is_digit_def)+

lemma parse_nat_digits: "delim r \<Longrightarrow> parse_nat (nat_digits n @ r) = Some (n, r)"
proof -
  assume r: "delim r"
  obtain c ds where cd: "nat_digits n = c # ds" by (cases "nat_digits n") auto
  have digit: "is_digit c" using nat_digits_digits [of c n] cd by simp
  have zero: "c = CHR ''0'' \<longleftrightarrow> n = 0" using nat_digits_hd [of n] cd by simp
  show ?thesis
  proof (cases "n = 0")
    case True
    then have "nat_digits n = ''0''" by (simp add: nat_digits.simps char_of_eq_iff)
    with True r show ?thesis
      by (simp add: parse_nat_def delim_stop is_digit_def del: insert_iff)
  next
    case False
    then have "parse_digits 0 (nat_digits n @ r) = (n, r)"
      by (simp add: parse_digits_append delim_stop [OF r])
    with False r cd digit zero show ?thesis
      by (simp add: parse_nat_def delim_stop(2) Let_def del: insert_iff)
  qed
qed

lemma is_digit_not: "is_digit c \<Longrightarrow> c \<notin> {CHR ''-'', CHR 0x22, CHR ''{'', CHR ''['', CHR ''t'', CHR ''f'', CHR ''n''}
    \<and> \<not> is_ws c"
  by (auto simp: is_digit_def is_ws_def)

lemma parse_num_digits: "delim r \<Longrightarrow> parse_num (int_digits n @ r) = Some (JNum n, r)"
proof -
  assume r: "delim r"
  show ?thesis
  proof (cases "n < 0")
    case True
    with r show ?thesis by (simp add: parse_num_def int_digits_def parse_nat_digits)
  next
    case False
    obtain c ds where cd: "nat_digits (nat n) = c # ds" by (cases "nat_digits (nat n)") auto
    then have "c \<noteq> CHR ''-''" using nat_digits_digits [of c "nat n"] is_digit_not by fastforce
    with False cd r parse_nat_digits [OF r, of "nat n"] show ?thesis
      by (simp add: parse_num_def int_digits_def)
  qed
qed

text \<open>The values that have a JSON text of their own.\<close>

fun json_ok :: "jsval \<Rightarrow> bool" where
  "json_ok JUndef = False"
| "json_ok (JHost n) = False"
| "json_ok (JArr xs) = list_all json_ok xs"
| "json_ok (JObj ps) = (distinct (map fst ps) \<and> list_all (\<lambda>p. json_ok (snd p)) ps)"
| "json_ok v = True"

lemma json_ok_not_skipped: "json_ok v \<Longrightarrow> \<not> json_skipped v"
  by (cases v) auto

lemma filter_ok: "list_all (\<lambda>p. json_ok (snd p)) ps \<Longrightarrow> filter (\<lambda>p. \<not> json_skipped (snd p)) ps = ps"
  using json_ok_not_skipped by (simp add: filter_id_conv list_all_iff)

lemma int_digits_hd: "\<exists>c ds. int_digits n = c # ds \<and> (c = CHR ''-'' \<or> is_digit c)"
proof -
  obtain c ds where "nat_digits (nat n) = c # ds" by (cases "nat_digits (nat n)") auto
  moreover from this have "is_digit c" using nat_digits_digits [of c "nat n"] by simp
  ultimately show ?thesis by (auto simp: int_digits_def)
qed

lemma stringify_hd: "\<exists>c ds. stringify v = c # ds \<and> \<not> is_ws c \<and> c \<noteq> CHR '']''"
proof (cases v)
  case (JNum n)
  with int_digits_hd [of n] show ?thesis by (auto simp: is_ws_def is_digit_def)
qed (auto simp: json_quote_def is_ws_def)

lemma skip_ws_stringify: "skip_ws (stringify v @ r) = stringify v @ r"
  using stringify_hd [of v] by (auto simp: skip_ws_def)

lemma skip_ws_simps [simp]:
  "skip_ws [] = []" "skip_ws (CHR '','' # r) = CHR '','' # r" "skip_ws (CHR '']'' # r) = CHR '']'' # r"
  "skip_ws (CHR ''}'' # r) = CHR ''}'' # r" "skip_ws (CHR '':'' # r) = CHR '':'' # r"
  "skip_ws (CHR ''['' # r) = CHR ''['' # r" "skip_ws (CHR ''{'' # r) = CHR ''{'' # r"
  "skip_ws (CHR 0x22 # r) = CHR 0x22 # r"
  by (simp_all add: skip_ws_def is_ws_def)

lemma join_with_Cons: "xs \<noteq> [] \<Longrightarrow> join_with sep (x # xs) = x @ sep @ join_with sep xs"
  by (cases xs) (auto simp: join_with_def)

lemma join_with_one [simp]: "join_with sep [x] = x"
  by (simp add: join_with_def)

lemma parse_elems_join:
  assumes "\<And>x f r. x \<in> set xs \<Longrightarrow> delim r \<Longrightarrow> size x < f \<Longrightarrow> parse_val f (stringify x @ r) = Some (x, r)"
    and "xs \<noteq> []" and "size_list size xs < f"
  shows "parse_elems f (join_with '','' (map stringify xs) @ CHR '']'' # r) = Some (xs, r)"
  using assms
proof (induction xs arbitrary: f)
  case (Cons x xs)
  then obtain g where f: "f = Suc g" by (cases f) auto
  show ?case
  proof (cases "xs = []")
    case True
    with Cons.prems f show ?thesis by simp
  next
    case False
    have "parse_elems g (join_with '','' (map stringify xs) @ CHR '']'' # r) = Some (xs, r)"
      using Cons.prems f False by (intro Cons.IH) auto
    with Cons.prems f False show ?thesis by (simp add: join_with_Cons)
  qed
qed simp

lemma update_fresh: "k \<notin> fst ` set acc \<Longrightarrow> AList.update k v acc = acc @ [(k, v)]"
  by (induction acc) auto

abbreviation member_text :: "string \<times> jsval \<Rightarrow> string" where
  "member_text p \<equiv> json_quote (fst p) @ '':'' @ stringify (snd p)"

lemma parse_members_join:
  assumes "\<And>p f r. p \<in> set ps \<Longrightarrow> delim r \<Longrightarrow> size (snd p) < f \<Longrightarrow>
      parse_val f (stringify (snd p) @ r) = Some (snd p, r)"
    and "ps \<noteq> []" and "size_list (size_prod (\<lambda>_. 0) size) ps < f"
    and "distinct (map fst (acc @ ps))"
  shows "parse_members f (join_with '','' (map member_text ps) @ CHR ''}'' # r) acc = Some (acc @ ps, r)"
  using assms
proof (induction ps arbitrary: f acc)
  case (Cons p ps)
  obtain k v where p: "p = (k, v)" by (cases p)
  obtain g where f: "f = Suc g" using Cons.prems by (cases f) auto
  have up: "AList.update k v acc = acc @ [(k, v)]"
    using Cons.prems p by (intro update_fresh) auto
  have pv: "parse_val g (stringify v @ x) = Some (v, x)" if "delim x" for x
    using Cons.prems(1) [of p x g] Cons.prems(3) that p f by simp
  show ?case
  proof (cases "ps = []")
    case True
    with f p up pv show ?thesis by (simp add: json_quote_def parse_str_quote)
  next
    case False
    have "parse_members g (join_with '','' (map member_text ps) @ CHR ''}'' # r) (acc @ [p])
        = Some ((acc @ [p]) @ ps, r)"
      using Cons.prems f False by (intro Cons.IH) auto
    with f False p up pv show ?thesis
      by (simp add: join_with_Cons json_quote_def parse_str_quote)
  qed
qed simp

lemma parse_stringify:
  "json_ok v \<Longrightarrow> delim r \<Longrightarrow> size v < f \<Longrightarrow> parse_val f (stringify v @ r) = Some (v, r)"
proof (induction v arbitrary: f r)
  case (JNum n)
  then obtain g where f: "f = Suc g" by (cases f) auto
  obtain c ds where cd: "int_digits n = c # ds" "c = CHR ''-'' \<or> is_digit c"
    using int_digits_hd by blast
  then have ne: "c \<notin> {CHR 0x22, CHR ''{'', CHR ''['', CHR ''t'', CHR ''f'', CHR ''n''}" "\<not> is_ws c"
    using is_digit_not [of c] by (auto simp: is_ws_def)
  with f cd parse_num_digits [OF JNum.prems(2), of n] show ?case by (auto simp: skip_ws_def)
next
  case (JArr xs)
  then obtain g where f: "f = Suc g" by (cases f) auto
  show ?case
  proof (cases "xs = []")
    case True
    with f show ?thesis by (simp add: join_with_def)
  next
    case False
    then obtain x ys where xs: "xs = x # ys" by (cases xs) auto
    let ?t = "join_with '','' (map stringify xs) @ CHR '']'' # r"
    have "parse_elems g ?t = Some (xs, r)"
      using JArr f False by (intro parse_elems_join) (auto simp: list_all_iff)
    moreover obtain c ds where "?t = c # ds" "skip_ws ?t = ?t" "c \<noteq> CHR '']''"
      using stringify_hd [of x] xs by (cases ys) (auto simp: join_with_def skip_ws_def)
    ultimately show ?thesis using f by simp
  qed
next
  case (JObj ps)
  then obtain g where f: "f = Suc g" by (cases f) auto
  show ?case
  proof (cases "ps = []")
    case True
    with f show ?thesis by (simp add: join_with_def)
  next
    case False
    then obtain p qs where ps: "ps = p # qs" by (cases ps) auto
    have ok: "list_all (\<lambda>p. json_ok (snd p)) ps" using JObj.prems by simp
    let ?t = "join_with '','' (map member_text ps) @ CHR ''}'' # r"
    have "parse_members g ?t [] = Some ([] @ ps, r)"
      using JObj f False
      by (intro parse_members_join) (fastforce simp: list_all_iff)+
    moreover obtain ds where "?t = CHR 0x22 # ds"
      using ps by (cases qs) (auto simp: join_with_def json_quote_def)
    ultimately show ?thesis using f by (simp add: filter_ok [OF ok])
  qed
qed (auto simp: json_quote_def parse_str_quote gr0_conv_Suc skip_ws_def is_ws_def Suc_le_eq)

text \<open>The fuel of \<open>json_parse\<close> is enough.\<close>

lemma size_list_le:
  "(\<And>x. x \<in> set xs \<Longrightarrow> f x \<le> length (g x)) \<Longrightarrow>
   size_list f xs \<le> length (join_with '','' (map g xs)) + 1"
proof (induction xs)
  case (Cons x xs)
  then show ?case by (cases "xs = []") (fastforce simp: join_with_Cons)+
qed (simp add: join_with_def)

lemma size_stringify: "json_ok v \<Longrightarrow> size v \<le> length (stringify v)"
proof (induction v)
  case (JNum n)
  then show ?case using int_digits_hd [of n] by auto
next
  case (JStr s)
  show ?case by (simp add: json_quote_def)
next
  case (JArr xs)
  then have "size_list size xs \<le> length (join_with '','' (map stringify xs)) + 1"
    by (intro size_list_le) (auto simp: list_all_iff)
  then show ?case by simp
next
  case (JObj ps)
  then have ok: "list_all (\<lambda>p. json_ok (snd p)) ps" by simp
  have "size_prod (\<lambda>_. 0) size p \<le> length (member_text p)" if "p \<in> set ps" for p
    using JObj.IH [of p "snd p"] ok that by (cases p) (auto simp: list_all_iff json_quote_def)
  then have "size_list (size_prod (\<lambda>_. 0) size) ps \<le> length (join_with '','' (map member_text ps)) + 1"
    by (intro size_list_le)
  with ok show ?case by (simp add: filter_ok)
qed simp_all

lemma json_parse_stringify: "json_ok v \<Longrightarrow> json_parse (stringify v) = Some v"
  using parse_stringify [of v "[]" "Suc (length (stringify v))"] size_stringify [of v]
  by (simp add: json_parse_def del: parse_val.simps)

interpretation json: codec stringify json_parse json_ok
  by unfold_locales (rule json_parse_stringify)

end
