(* ===== verification/SdkAuth.thy ===== *)
theory SdkAuth
  imports Json
begin

section \<open>The authorization-code flow of the TypeScript SDK\<close>

text \<open>
  \<open>clients/ts/src/auth.ts\<close> without the machine-to-machine client: token plumbing
  (\<open>postForm\<close>), JWT payload decoding, the callback parser and the class
  \<open>AuthorizationCodeFlow\<close>.  The transport \<open>fetchImpl\<close> is an argument that threads a world
  of any type, so a world that comes back unchanged says that no request was sent.  A
  promise that rejects is the left side of the result.
\<close>

record request =
  rq_url :: string
  rq_method :: string
  rq_headers :: params
  rq_body :: string
  rq_timeout :: int

text \<open>A response: its status and what \<open>response.json()\<close> gives (\<open>None\<close>: it rejects).
  What a transport rejects with is an SDK error, some other \<open>Error\<close> or any value.\<close>

datatype response = Response (status: int) (json: "jsval option")

datatype cause = CauseAuth string "string option" "int option" | CauseError string | CauseOther jsval

datatype outcome = Resolved response | Rejected cause

type_synonym 'w fetch = "request \<Rightarrow> 'w \<Rightarrow> outcome \<times> 'w"

subsection \<open>Token plumbing\<close>

text \<open>The message of \<open>FullaAuthError\<close>.\<close>

definition FullaAuthError_message :: "string \<Rightarrow> string option \<Rightarrow> int option \<Rightarrow> string" where
  "FullaAuthError_message error errorDescription st =
     (let description = (case errorDescription of
            Some d \<Rightarrow> if d \<noteq> [] then '' ('' @ d @ '')'' else [] | None \<Rightarrow> []);
          statusText = (case st of Some n \<Rightarrow> '' [HTTP '' @ int_digits n @ '']'' | None \<Rightarrow> [])
      in ''token endpoint rejected client: '' @ error @ description @ statusText)"

definition basicAuthHeader :: "string \<Rightarrow> string \<Rightarrow> string" where
  "basicAuthHeader clientId clientSecret = ''Basic '' @ btoa (clientId @ '':'' @ clientSecret)"

definition normalizeBaseUrl :: "string \<Rightarrow> string" where
  "normalizeBaseUrl baseUrl = strip_end (CHR ''/'') baseUrl"

text \<open>\<open>{ ...base, ...extra }\<close>.\<close>

definition spread :: "params \<Rightarrow> params \<Rightarrow> params" where
  "spread base extra = foldl (\<lambda>m p. params_set (fst p) (snd p) m) base extra"

definition wrap_cause :: "cause \<Rightarrow> js_throw" where
  "wrap_cause c = (case c of
     CauseAuth e d s \<Rightarrow> FullaAuthError e d s
   | CauseError m \<Rightarrow> FullaAuthError ''network_error'' (Some m) None
   | CauseOther v \<Rightarrow> FullaAuthError ''network_error'' (Some (js_String v)) None)"

fun own_props :: "jsval \<Rightarrow> (string \<times> jsval) list" where
  "own_props (JObj ps) = ps"
| "own_props _ = []"

definition str_or :: "jsval \<Rightarrow> string \<Rightarrow> string" where
  "str_or v d = (case v of JStr s \<Rightarrow> s | _ \<Rightarrow> d)"

definition opt_str :: "jsval \<Rightarrow> string option" where
  "opt_str v = (case v of JStr s \<Rightarrow> Some s | _ \<Rightarrow> None)"

text \<open>The part of \<open>postForm\<close> after the response arrived.  A body that is not JSON counts as
  the empty object; reading a member of the JSON value \<open>null\<close> throws.\<close>

definition token_result :: "response \<Rightarrow> js_throw + jsval" where
  "token_result r =
     (let body = (case json r of Some b \<Rightarrow> b | None \<Rightarrow> JObj []) in
      if status r = 200 then
        bind_res (get_member body ''access_token'') (\<lambda>accessToken.
          if is_string accessToken \<and> truthy accessToken then
            (let tt = getprop body ''token_type''; ei = getprop body ''expires_in'' in
             Inr (JObj (AList.update ''expires_in'' (if is_number ei then ei else JNum 3600)
               (AList.update ''token_type'' (if is_string tt then tt else JStr ''Bearer'')
                 (AList.update ''access_token'' accessToken (own_props body))))))
          else Inl (FullaAuthError ''invalid_response'' (Some ''200 without access_token'')
                 (Some (status r))))
      else
        bind_res (get_member body ''error'') (\<lambda>e.
          Inl (FullaAuthError (str_or e ''invalid_response'')
            (opt_str (getprop body ''error_description'')) (Some (status r)))))"

definition postForm ::
    "'w fetch \<Rightarrow> string \<Rightarrow> params \<Rightarrow> params \<Rightarrow> int \<Rightarrow> 'w \<Rightarrow> (js_throw + jsval) \<times> 'w" where
  "postForm fetchImpl url form headers timeoutMs w =
     (case fetchImpl \<lparr>rq_url = url, rq_method = ''POST'',
             rq_headers = spread [(''content-type'', ''application/x-www-form-urlencoded'')] headers,
             rq_body = params_toString form, rq_timeout = timeoutMs\<rparr> w of
        (Rejected c, w') \<Rightarrow> (Inl (wrap_cause c), w')
      | (Resolved r, w') \<Rightarrow> (token_result r, w'))"

text \<open>\<open>TextDecoder.decode\<close> drops a byte order mark.\<close>

definition text_decode :: "bytes \<Rightarrow> string" where
  "text_decode bs = (let ns = map unat bs in
     utf8_decode (if take 3 ns = [239, 187, 191] then drop 3 ns else ns))"

definition decodeJwtPayload :: "string \<Rightarrow> js_throw + jsval" where
  "decodeJwtPayload jwt =
     (let parts = split_on (CHR ''.'') jwt in
      if length parts \<noteq> 3 then Inl (FullaAuthError ''invalid_response'' (Some ''not a compact JWT'') None)
      else (case fromBase64Url (parts ! 1) of
              None \<Rightarrow> Inl (FullaAuthError ''invalid_response'' (Some ''id_token payload is not JSON'') None)
            | Some bs \<Rightarrow>
                (case json_parse (text_decode bs) of
                   None \<Rightarrow> Inl (FullaAuthError ''invalid_response''
                             (Some ''id_token payload is not JSON'') None)
                 | Some v \<Rightarrow> Inr v)))"

subsection \<open>The callback\<close>

record authorization_response =
  ar_code :: "string option"
  ar_state :: "string option"
  ar_error :: "string option"
  ar_errorDescription :: "string option"

definition pick :: "params \<Rightarrow> string \<Rightarrow> string option" where
  "pick ps k = (case params_get ps k of
     None \<Rightarrow> None | Some v \<Rightarrow> if v \<noteq> [] then Some v else None)"

definition parseAuthorizationResponse :: "string \<Rightarrow> authorization_response" where
  "parseAuthorizationResponse callbackUrl =
     (let query = (if CHR ''?'' \<in> set callbackUrl then split_on (CHR ''?'') callbackUrl ! 1
                   else callbackUrl);
          ps = parse_params (hd (split_on (CHR ''#'') query))
      in \<lparr>ar_code = pick ps ''code'', ar_state = pick ps ''state'', ar_error = pick ps ''error'',
          ar_errorDescription = pick ps ''error_description''\<rparr>)"

subsection \<open>AuthorizationCodeFlow\<close>

record flow_options =
  op_clientSecret :: "string option"
  op_redirectUri :: "string option"
  op_scopes :: "string list option"
  op_timeoutMs :: "int option"

record flow =
  baseUrl :: string
  clientId :: string
  clientSecret :: "string option"
  redirectUri :: "string option"
  scopes :: "string list"
  timeoutMs :: int

definition AuthorizationCodeFlow :: "string \<Rightarrow> string \<Rightarrow> flow_options \<Rightarrow> flow" where
  "AuthorizationCodeFlow base cid options =
     \<lparr>baseUrl = normalizeBaseUrl base, clientId = cid, clientSecret = op_clientSecret options,
      redirectUri = op_redirectUri options,
      scopes = (case op_scopes options of Some ss \<Rightarrow> ss | None \<Rightarrow> []),
      timeoutMs = (case op_timeoutMs options of Some t \<Rightarrow> t | None \<Rightarrow> 10000)\<rparr>"

definition authorizeUrl :: "flow \<Rightarrow> string" where
  "authorizeUrl fl = baseUrl fl @ ''/oauth2/authorize''"

definition tokenUrl :: "flow \<Rightarrow> string" where
  "tokenUrl fl = baseUrl fl @ ''/oauth2/token''"

record authorize_url_options =
  au_state :: "string option"
  au_nonce :: "string option"
  au_pkce :: "pkce_pair option"
  au_scopes :: "string list option"
  au_redirectUri :: "string option"

text \<open>\<open>a ?? b\<close> and the truthiness of an optional string.\<close>

definition or_else :: "'a option \<Rightarrow> 'a option \<Rightarrow> 'a option" where
  "or_else a b = (case a of Some x \<Rightarrow> Some x | None \<Rightarrow> b)"

definition nonempty :: "string option \<Rightarrow> bool" where
  "nonempty v = (case v of Some s \<Rightarrow> s \<noteq> [] | None \<Rightarrow> False)"

definition set_if :: "string \<Rightarrow> string option \<Rightarrow> params \<Rightarrow> params" where
  "set_if k v ps = (if nonempty v then params_set k (the v) ps else ps)"

definition authorize_params :: "flow \<Rightarrow> authorize_url_options \<Rightarrow> string \<Rightarrow> params" where
  "authorize_params fl opts uri =
     (let ps = [(''response_type'', ''code''), (''client_id'', clientId fl), (''redirect_uri'', uri)];
          ss = (case au_scopes opts of Some ss \<Rightarrow> ss | None \<Rightarrow> scopes fl);
          ps = (if length ss > 0 then params_set ''scope'' (join_with '' '' ss) ps else ps);
          ps = set_if ''state'' (au_state opts) ps;
          ps = set_if ''nonce'' (au_nonce opts) ps
      in (case au_pkce opts of
            None \<Rightarrow> ps
          | Some p \<Rightarrow> params_set ''code_challenge_method'' ''S256''
              (params_set ''code_challenge'' (challenge p) ps)))"

definition buildAuthorizeUrl :: "flow \<Rightarrow> authorize_url_options \<Rightarrow> js_throw + string" where
  "buildAuthorizeUrl fl opts =
     (let uri = or_else (au_redirectUri opts) (redirectUri fl) in
      if \<not> nonempty uri then Inl (FullaAuthError ''invalid_request''
        (Some ''redirectUri is required (server strict-matches it)'') None)
      else Inr (authorizeUrl fl @ ''?'' @ params_toString (authorize_params fl opts (the uri))))"

text \<open>Client authentication: a public client names itself in the form, a confidential one uses
  HTTP Basic.\<close>

definition client_auth :: "flow \<Rightarrow> params \<Rightarrow> params \<times> params" where
  "client_auth fl form = (case clientSecret fl of
     None \<Rightarrow> (params_set ''client_id'' (clientId fl) form, [])
   | Some secret \<Rightarrow> (form, [(''authorization'', basicAuthHeader (clientId fl) secret)]))"

definition exchangeCode ::
    "flow \<Rightarrow> 'w fetch \<Rightarrow> string \<Rightarrow> string option \<Rightarrow> string option \<Rightarrow> 'w \<Rightarrow> (js_throw + jsval) \<times> 'w" where
  "exchangeCode fl fetchImpl code codeVerifier redirect w =
     (if codeVerifier \<noteq> None \<and> \<not> isPkceVerifier (the codeVerifier)
      then (Inl (FullaAuthError ''invalid_request'' (Some (''code_verifier must be 43-128 unreserved chars (RFC 7636 ''
             @ [CHR 0xA7] @ ''4.1)'')) None), w)
      else
       (let uri = or_else redirect (redirectUri fl) in
        if \<not> nonempty uri
        then (Inl (FullaAuthError ''invalid_request''
               (Some ''redirectUri is required (must equal the authorize request)'') None), w)
        else
         (let form = [(''grant_type'', ''authorization_code''), (''code'', code), (''redirect_uri'', the uri)];
              form = (case codeVerifier of None \<Rightarrow> form | Some v \<Rightarrow> params_set ''code_verifier'' v form);
              (form, headers) = client_auth fl form
          in postForm fetchImpl (tokenUrl fl) form headers (timeoutMs fl) w)))"

definition refresh ::
    "flow \<Rightarrow> 'w fetch \<Rightarrow> string \<Rightarrow> string list option \<Rightarrow> 'w \<Rightarrow> (js_throw + jsval) \<times> 'w" where
  "refresh fl fetchImpl refreshToken opt_scopes w =
     (let form = [(''grant_type'', ''refresh_token''), (''refresh_token'', refreshToken)];
          ss = (case opt_scopes of Some ss \<Rightarrow> ss | None \<Rightarrow> scopes fl);
          form = (if length ss > 0 then params_set ''scope'' (join_with '' '' ss) form else form);
          (form, headers) = client_auth fl form
      in postForm fetchImpl (tokenUrl fl) form headers (timeoutMs fl) w)"

record expected_callback =
  ex_state :: string
  ex_codeVerifier :: string
  ex_redirectUri :: "string option"

definition completeAuthorizationFlow ::
    "flow \<Rightarrow> 'w fetch \<Rightarrow> string \<Rightarrow> expected_callback \<Rightarrow> 'w \<Rightarrow> (js_throw + jsval) \<times> 'w" where
  "completeAuthorizationFlow fl fetchImpl callbackUrl expected w =
     (let parsed = parseAuthorizationResponse callbackUrl in
      case ar_error parsed of
        Some e \<Rightarrow> (Inl (FullaAuthError e (ar_errorDescription parsed) None), w)
      | None \<Rightarrow>
          if ar_state parsed \<noteq> Some (ex_state expected)
          then (Inl (FullaAuthError ''state_mismatch''
                 (Some ''callback state does not match the authorize request (possible CSRF)'') None), w)
          else (case ar_code parsed of
                  None \<Rightarrow> (Inl (FullaAuthError ''invalid_response''
                            (Some ''callback carries neither code nor error'') None), w)
                | Some code \<Rightarrow> exchangeCode fl fetchImpl code (Some (ex_codeVerifier expected))
                    (ex_redirectUri expected) w))"

definition buildEndSessionUrl :: "flow \<Rightarrow> string \<Rightarrow> string option \<Rightarrow> string option \<Rightarrow> string" where
  "buildEndSessionUrl fl idTokenHint postLogoutRedirectUri st =
     baseUrl fl @ ''/oauth2/end_session?'' @ params_toString
       (set_if ''state'' st (set_if ''post_logout_redirect_uri'' postLogoutRedirectUri
         [(''id_token_hint'', idTokenHint)]))"

definition fetchClientCredentialsToken ::
    "string \<Rightarrow> string \<Rightarrow> string \<Rightarrow> string list option \<Rightarrow> int option \<Rightarrow> 'w fetch \<Rightarrow> 'w \<Rightarrow> (js_throw + jsval) \<times> 'w" where
  "fetchClientCredentialsToken base cid secret opt_scopes opt_timeout fetchImpl w =
     (let form = [(''grant_type'', ''client_credentials'')];
          form = (case opt_scopes of
                    Some ss \<Rightarrow> if length ss > 0 then params_set ''scope'' (join_with '' '' ss) form else form
                  | None \<Rightarrow> form)
      in postForm fetchImpl (normalizeBaseUrl base @ ''/oauth2/token'') form
           [(''authorization'', basicAuthHeader cid secret)]
           (case opt_timeout of Some t \<Rightarrow> t | None \<Rightarrow> 10000) w)"

subsection \<open>Lemmas\<close>

text \<open>A transport that keeps a log of what it was given.\<close>

definition logged :: "'w fetch \<Rightarrow> (request list \<times> 'w) fetch" where
  "logged f r lw = (case f r (snd lw) of (res, w') \<Rightarrow> (res, (fst lw @ [r], w')))"

lemma or_else_simps [simp]: "or_else (Some x) b = Some x" "or_else None b = b"
  by (simp_all add: or_else_def)

lemma nonempty_simps [simp]: "nonempty None = False" "nonempty (Some s) = (s \<noteq> [])"
  by (simp_all add: nonempty_def)

lemma nonempty_iff: "nonempty v \<longleftrightarrow> (\<exists>s. v = Some s \<and> s \<noteq> [])"
  by (cases v) auto

lemma spread_auth [simp]:
  "spread [(''content-type'', x)] [] = [(''content-type'', x)]"
  "spread [(''content-type'', x)] [(''authorization'', y)] = [(''content-type'', x), (''authorization'', y)]"
  by (simp_all add: spread_def)

text \<open>One call of \<open>postForm\<close> is one request, whatever comes back.\<close>

definition form_request :: "string \<Rightarrow> params \<Rightarrow> params \<Rightarrow> int \<Rightarrow> request" where
  "form_request url form headers t =
     \<lparr>rq_url = url, rq_method = ''POST'',
      rq_headers = spread [(''content-type'', ''application/x-www-form-urlencoded'')] headers,
      rq_body = params_toString form, rq_timeout = t\<rparr>"

lemma postForm_logged:
  "fst (snd (postForm (logged f) url form headers t (log, w))) = log @ [form_request url form headers t]"
  by (simp add: postForm_def logged_def form_request_def split: prod.splits outcome.splits)

lemma form_request_body [simp]: "parse_params (rq_body (form_request url form headers t)) = form"
  by (simp add: form_request_def)

lemma exchangeCode_accepts:
  assumes "codeVerifier = None \<or> isPkceVerifier (the codeVerifier)"
    and "or_else redirect (redirectUri fl) = Some uri" and "uri \<noteq> []"
  shows "exchangeCode fl f code codeVerifier redirect w =
     (let form = [(''grant_type'', ''authorization_code''), (''code'', code), (''redirect_uri'', uri)]
            @ (case codeVerifier of None \<Rightarrow> [] | Some v \<Rightarrow> [(''code_verifier'', v)])
      in case client_auth fl form of (form, headers) \<Rightarrow> postForm f (tokenUrl fl) form headers (timeoutMs fl) w)"
  using assms by (cases codeVerifier) (auto simp: exchangeCode_def)

lemma client_auth_cases:
  "clientSecret fl = None \<Longrightarrow> ''client_id'' \<notin> fst ` set form \<Longrightarrow>
     client_auth fl form = (form @ [(''client_id'', clientId fl)], [])"
  "clientSecret fl = Some s \<Longrightarrow>
     client_auth fl form = (form, [(''authorization'', basicAuthHeader (clientId fl) s)])"
  by (simp_all add: client_auth_def params_set_fresh)

lemma basicAuthHeader_decodes: "atob (drop 6 (basicAuthHeader cid s)) = Some (cid @ '':'' @ s)"
  by (simp add: basicAuthHeader_def)

lemma bind_get_member: "bind_res (get_member v k) f = (if nullish v then Inl TypeErr else f (getprop v k))"
  by (simp add: get_member_def)

lemma token_result_ok:
  assumes "token_result r = Inr ts"
  shows "status r = 200" "\<exists>s. getprop ts ''access_token'' = JStr s \<and> s \<noteq> []"
    "is_string (getprop ts ''token_type'')" "is_number (getprop ts ''expires_in'')"
proof -
  obtain body where body: "body = (case json r of Some b \<Rightarrow> b | None \<Rightarrow> JObj [])" by blast
  with assms have st: "status r = 200" and ok: "is_string (getprop body ''access_token'')"
    "truthy (getprop body ''access_token'')"
    and ts: "ts = JObj (AList.update ''expires_in''
        (if is_number (getprop body ''expires_in'') then getprop body ''expires_in'' else JNum 3600)
        (AList.update ''token_type''
          (if is_string (getprop body ''token_type'') then getprop body ''token_type'' else JStr ''Bearer'')
          (AList.update ''access_token'' (getprop body ''access_token'') (own_props body))))"
    by (auto simp: token_result_def Let_def bind_get_member split: if_splits)
  show "status r = 200" by (rule st)
  show "\<exists>s. getprop ts ''access_token'' = JStr s \<and> s \<noteq> []"
    using ok truthy_JStr_iff [of "getprop body ''access_token''"] by (simp add: ts update_conv')
  show "is_string (getprop ts ''token_type'')" "is_number (getprop ts ''expires_in'')"
    by (simp_all add: ts update_conv')
qed

lemma token_result_err:
  assumes "token_result r = Inl e"
  shows "(\<exists>er d. e = FullaAuthError er d (Some (status r))) \<or> e = TypeErr \<and> json r \<in> {Some JNull, Some JUndef}"
  using assms
  by (auto simp: token_result_def Let_def bind_get_member split: if_splits option.splits elim: nullish.elims)

text \<open>What follows a question mark and precedes a hash sign is the query.\<close>

lemma query_of_url:
  assumes "CHR ''?'' \<notin> set uri" and "frag = [] \<or> hd frag = CHR ''#''"
  shows "parseAuthorizationResponse (uri @ ''?'' @ params_toString ps @ frag) =
    \<lparr>ar_code = pick ps ''code'', ar_state = pick ps ''state'', ar_error = pick ps ''error'',
     ar_errorDescription = pick ps ''error_description''\<rparr>"
proof -
  let ?q = "params_toString ps"
  let ?t = "takeWhile (\<lambda>x. x \<noteq> CHR ''?'') frag"
  have nq: "\<And>c. c \<in> set ?q \<Longrightarrow> c \<noteq> CHR ''?''" "\<And>c. c \<in> set ?q \<Longrightarrow> c \<noteq> CHR ''#''"
    using params_toString_chars by blast+
  have "split_on (CHR ''?'') (uri @ ''?'' @ ?q @ frag) ! 1 = hd (split_on (CHR ''?'') (?q @ frag))"
    using assms(1) by (simp add: split_on_append hd_conv_nth)
  also have "\<dots> = ?q @ ?t" using nq(1) by (simp add: hd_split_on takeWhile_append2)
  finally have q: "split_on (CHR ''?'') (uri @ ''?'' @ ?q @ frag) ! 1 = ?q @ ?t" .
  have "?t = [] \<or> hd ?t = CHR ''#''" using assms(2) by (cases frag) auto
  then have "takeWhile (\<lambda>x. x \<noteq> CHR ''#'') ?t = []" by (cases ?t) auto
  then have "hd (split_on (CHR ''#'') (?q @ ?t)) = ?q"
    using nq(2) by (simp add: hd_split_on takeWhile_append2)
  with q show ?thesis by (simp add: parseAuthorizationResponse_def Let_def)
qed

text \<open>The first byte of a JSON text is ASCII, so there is no byte order mark to drop.\<close>

lemma stringify_first: "\<exists>c r. stringify v = c # r \<and> of_char c < (128::nat)"
proof (cases v)
  case (JNum n)
  with int_digits_hd [of n] show ?thesis by (auto simp: is_digit_def)
qed (auto simp: json_quote_def)

lemma unat_utf8: "map unat (utf8 s) = utf8_codes s"
proof -
  have "unat (word_of_nat b :: 8 word) = b" if "b \<in> set (utf8_codes s)" for b
    using utf8_codes_small [OF that] by (simp add: unat_of_nat)
  then show ?thesis by (simp add: utf8_def comp_def map_idI)
qed

lemma text_decode_stringify: "text_decode (utf8 (stringify v)) = stringify v"
proof -
  obtain c r where "stringify v = c # r" "of_char c < (128::nat)" using stringify_first by blast
  then have "take 3 (utf8_codes (stringify v)) \<noteq> [239, 187, 191]" by auto
  then show ?thesis by (simp add: text_decode_def unat_utf8 Let_def)
qed

lemma params_get_set_if:
  "params_get (set_if k v ps) k' = (if k' = k \<and> nonempty v then v else params_get ps k')"
  by (auto simp: set_if_def params_get_set nonempty_iff)

subsection \<open>Properties\<close>

text \<open>A public client and a callback for it, on which the theorems below are applied.\<close>

definition demo_flow :: flow where
  "demo_flow = AuthorizationCodeFlow ''http://as/'' ''spa''
     \<lparr>op_clientSecret = None, op_redirectUri = Some ''http://app/cb'', op_scopes = None, op_timeoutMs = None\<rparr>"

definition demo_callback :: "string \<Rightarrow> string" where
  "demo_callback st = ''http://app/cb'' @ ''?'' @ params_toString [(''code'', ''x''), (''state'', st)] @ []"

lemma params_get_fixed:
  "params_get ((k, v) # ps) k' = (if k' = k then Some v else params_get ps k')" "params_get [] k' = None"
  by (simp_all add: params_get_def)

lemma demo_flow_simps:
  "clientSecret demo_flow = None" "redirectUri demo_flow = Some ''http://app/cb''" "clientId demo_flow = ''spa''"
  "scopes demo_flow = []" "baseUrl demo_flow = ''http://as''"
  by (simp_all add: demo_flow_def AuthorizationCodeFlow_def normalizeBaseUrl_def strip_end_def)

lemma parse_demo_callback:
  "st \<noteq> [] \<Longrightarrow> parseAuthorizationResponse (demo_callback st) =
     \<lparr>ar_code = Some ''x'', ar_state = Some st, ar_error = None, ar_errorDescription = None\<rparr>"
  unfolding demo_callback_def by (subst query_of_url) (simp_all add: pick_def params_get_def)

text \<open>C1. The red line of \<open>completeAuthorizationFlow\<close>: an error callback, a \<open>state\<close> that is not
  the expected one, a missing code, a verifier outside RFC 7636 or a missing redirect URI is
  rejected with a \<open>FullaAuthError\<close> before any request, whatever the transport.\<close>

theorem completeAuthorizationFlow_rejects_before_network:
  assumes "p = parseAuthorizationResponse callbackUrl"
    and "ar_error p \<noteq> None \<or> ar_state p \<noteq> Some (ex_state ex) \<or> ar_code p = None \<or>
      \<not> isPkceVerifier (ex_codeVerifier ex) \<or> \<not> nonempty (or_else (ex_redirectUri ex) (redirectUri fl))"
  shows "\<exists>e d. completeAuthorizationFlow fl fetchImpl callbackUrl ex w = (Inl (FullaAuthError e d None), w)"
  using assms
  by (auto simp: completeAuthorizationFlow_def exchangeCode_def Let_def split: option.splits)

theorem completeAuthorizationFlow_rejects_before_network_witness:
  "\<exists>e d. completeAuthorizationFlow demo_flow (\<lambda>r w. (Rejected (CauseError ''offline''), w + 1))
       (demo_callback ''forged'')
       \<lparr>ex_state = ''minted'', ex_codeVerifier = replicate 43 (CHR ''a''), ex_redirectUri = None\<rparr> (0::nat)
     = (Inl (FullaAuthError e d None), 0)"
  by (rule completeAuthorizationFlow_rejects_before_network [OF refl])
    (simp add: parse_demo_callback)

text \<open>C2. An accepted callback sends exactly one request, to the token endpoint: the code, the same
  redirect URI, the PKCE verifier, and the client id only for a client without a secret.\<close>

theorem completeAuthorizationFlow_sends_one_request:
  assumes "p = parseAuthorizationResponse callbackUrl"
    and "ar_error p = None" and "ar_state p = Some (ex_state ex)" and "ar_code p = Some code"
    and "isPkceVerifier (ex_codeVerifier ex)"
    and "or_else (ex_redirectUri ex) (redirectUri fl) = Some uri" and "uri \<noteq> []"
  shows "\<exists>r. fst (snd (completeAuthorizationFlow fl (logged f) callbackUrl ex (log, w))) = log @ [r] \<and>
     rq_url r = tokenUrl fl \<and>
     parse_params (rq_body r) =
       [(''grant_type'', ''authorization_code''), (''code'', code), (''redirect_uri'', uri),
        (''code_verifier'', ex_codeVerifier ex)] @
       (case clientSecret fl of None \<Rightarrow> [(''client_id'', clientId fl)] | Some s \<Rightarrow> [])"
proof -
  let ?form = "[(''grant_type'', ''authorization_code''), (''code'', code), (''redirect_uri'', uri),
     (''code_verifier'', ex_codeVerifier ex)]"
  have "completeAuthorizationFlow fl (logged f) callbackUrl ex (log, w) =
      (case client_auth fl ?form of (form, headers) \<Rightarrow>
         postForm (logged f) (tokenUrl fl) form headers (timeoutMs fl) (log, w))"
    using assms by (simp add: completeAuthorizationFlow_def exchangeCode_accepts)
  moreover obtain form headers where ca: "client_auth fl ?form = (form, headers)" by fastforce
  moreover have "form = ?form @ (case clientSecret fl of None \<Rightarrow> [(''client_id'', clientId fl)] | Some s \<Rightarrow> [])"
    using ca by (cases "clientSecret fl") (auto simp: client_auth_cases)
  ultimately show ?thesis
    by (intro exI [of _ "form_request (tokenUrl fl) form headers (timeoutMs fl)"])
      (simp add: postForm_logged, simp add: form_request_def)
qed

theorem completeAuthorizationFlow_sends_one_request_witness:
  "\<exists>r. fst (snd (completeAuthorizationFlow demo_flow
       (logged (\<lambda>r w. (Resolved (Response 200 None), w))) (demo_callback ''minted'')
       \<lparr>ex_state = ''minted'', ex_codeVerifier = replicate 43 (CHR ''a''), ex_redirectUri = None\<rparr> ([], ()))) = [] @ [r] \<and>
     rq_url r = tokenUrl demo_flow \<and>
     parse_params (rq_body r) =
       [(''grant_type'', ''authorization_code''), (''code'', ''x''), (''redirect_uri'', ''http://app/cb''),
        (''code_verifier'', replicate 43 (CHR ''a''))] @
       (case clientSecret demo_flow of None \<Rightarrow> [(''client_id'', clientId demo_flow)] | Some s \<Rightarrow> [])"
  using completeAuthorizationFlow_sends_one_request [OF refl, where
      callbackUrl = "demo_callback ''minted''" and fl = demo_flow
      and ex = "\<lparr>ex_state = ''minted'', ex_codeVerifier = replicate 43 (CHR ''a''), ex_redirectUri = None\<rparr>"
      and code = "''x''" and uri = "''http://app/cb''"
      and f = "\<lambda>r w. (Resolved (Response 200 None), w)" and log = "[]" and w = "()"]
  by (simp add: parse_demo_callback demo_flow_simps isPkceVerifier_def unreserved_def list_all_iff)

text \<open>A confidential client authenticates every token request with HTTP Basic, from which the
  server recovers client id and secret, and puts neither into the form body.\<close>

theorem confidential_client_uses_basic:
  assumes "clientSecret fl = Some secret"
  shows "\<forall>r \<in> set (fst (snd (exchangeCode fl (logged f) code v ru ([], w)))) \<union>
            set (fst (snd (refresh fl (logged f) rt ss ([], w)))).
     (\<exists>h. params_get (rq_headers r) ''authorization'' = Some h \<and>
          atob (drop 6 h) = Some (clientId fl @ '':'' @ secret)) \<and>
     fst ` set (parse_params (rq_body r)) \<subseteq>
       {''grant_type'', ''code'', ''redirect_uri'', ''code_verifier'', ''refresh_token'', ''scope''}"
proof -
  have req: "(\<exists>h. params_get (rq_headers (form_request u form [(''authorization'', basicAuthHeader (clientId fl) secret)] t))
        ''authorization'' = Some h \<and> atob (drop 6 h) = Some (clientId fl @ '':'' @ secret))" for u form t
    by (simp add: form_request_def params_get_def basicAuthHeader_decodes)
  let ?hdr = "[(''authorization'', basicAuthHeader (clientId fl) secret)]"
  obtain form where rf: "refresh fl (logged f) rt ss ([], w) =
      postForm (logged f) (tokenUrl fl) form ?hdr (timeoutMs fl) ([], w)"
    "fst ` set form \<subseteq> {''grant_type'', ''refresh_token'', ''scope''}"
    using assms by (auto simp: refresh_def client_auth_cases Let_def)
  have ex: "exchangeCode fl (logged f) code v ru ([], w) = (Inl e, ([], w)) \<Longrightarrow> ?thesis" for e
    using req rf by (auto simp: postForm_logged)
  show ?thesis
  proof (cases "(v = None \<or> isPkceVerifier (the v)) \<and> nonempty (or_else ru (redirectUri fl))")
    case False
    then have "\<exists>e. exchangeCode fl (logged f) code v ru ([], w) = (Inl e, ([], w))"
      by (cases v) (auto simp: exchangeCode_def Let_def)
    then show ?thesis using ex by blast
  next
    case True
    then obtain uri where "or_else ru (redirectUri fl) = Some uri" "uri \<noteq> []" by (auto simp: nonempty_iff)
    with True have "exchangeCode fl (logged f) code v ru ([], w) = postForm (logged f) (tokenUrl fl)
       ([(''grant_type'', ''authorization_code''), (''code'', code), (''redirect_uri'', uri)]
            @ (case v of None \<Rightarrow> [] | Some v \<Rightarrow> [(''code_verifier'', v)])) ?hdr (timeoutMs fl) ([], w)"
      using assms by (simp add: exchangeCode_accepts client_auth_cases)
    with req rf show ?thesis by (auto simp: postForm_logged split: option.splits)
  qed
qed

theorem confidential_client_uses_basic_witness:
  "\<exists>r h. r \<in> set (fst (snd (refresh (demo_flow\<lparr>clientSecret := Some ''s3cret''\<rparr>)
         (logged (\<lambda>r w. (Resolved (Response 200 None), w))) ''rt'' None ([], ())))) \<and>
     params_get (rq_headers r) ''authorization'' = Some h \<and> atob (drop 6 h) = Some ''spa:s3cret''"
proof -
  let ?fl = "demo_flow\<lparr>clientSecret := Some ''s3cret''\<rparr>"
  let ?f = "\<lambda>r w. (Resolved (Response 200 None), w)"
  have "\<exists>r. r \<in> set (fst (snd (refresh ?fl (logged ?f) ''rt'' None ([], ()))))"
    by (auto simp: refresh_def Let_def client_auth_def postForm_logged split: prod.split)
  then obtain r where r: "r \<in> set (fst (snd (refresh ?fl (logged ?f) ''rt'' None ([], ()))))" ..
  have "\<exists>h. params_get (rq_headers r) ''authorization'' = Some h \<and> atob (drop 6 h) = Some (clientId ?fl @ '':'' @ ''s3cret'')"
    using confidential_client_uses_basic [of ?fl "''s3cret''" ?f "''x''" None None "()" "''rt''" None] r by auto
  with r show ?thesis by (auto simp: demo_flow_simps)
qed

text \<open>C7. \<open>postForm\<close> either resolves with a token set that has a non-empty string
  \<open>access_token\<close>, a string \<open>token_type\<close> and a numeric \<open>expires_in\<close>, or rejects with a
  \<open>FullaAuthError\<close>.  The one exception is a response whose JSON text is \<open>null\<close>: the member
  access on it throws a plain \<open>TypeError\<close>.\<close>

theorem postForm_outcome:
  "case postForm f url form headers t w of
     (Inr ts, w') \<Rightarrow> (\<exists>s. getprop ts ''access_token'' = JStr s \<and> s \<noteq> []) \<and>
        is_string (getprop ts ''token_type'') \<and> is_number (getprop ts ''expires_in'')
   | (Inl (FullaAuthError e d st), w') \<Rightarrow> True
   | (Inl e, w') \<Rightarrow> e = TypeErr \<and> (\<exists>n. fst (f (form_request url form headers t) w) \<in>
        {Resolved (Response n (Some JNull)), Resolved (Response n (Some JUndef))})"
proof (cases "f (form_request url form headers t) w")
  case (Pair out w')
  show ?thesis
  proof (cases out)
    case (Rejected c)
    with Pair show ?thesis
      by (auto simp: postForm_def form_request_def wrap_cause_def split: cause.splits)
  next
    case (Resolved r)
    obtain n j where r: "r = Response n j" by (cases r)
    have p: "postForm f url form headers t w = (token_result r, w')"
      using Pair Resolved by (simp add: postForm_def form_request_def)
    show ?thesis
    proof (cases "token_result r")
      case (Inl e)
      with token_result_err [OF Inl] p Pair Resolved r show ?thesis by auto
    next
      case (Inr ts)
      with token_result_ok [OF Inr] p show ?thesis by simp
    qed
  qed
qed

lemma authorize_params_get:
  "params_get (authorize_params fl opts uri) ''response_type'' = Some ''code''"
  "params_get (authorize_params fl opts uri) ''client_id'' = Some (clientId fl)"
  "params_get (authorize_params fl opts uri) ''redirect_uri'' = Some uri"
  "params_get (authorize_params fl opts uri) ''state'' = (if nonempty (au_state opts) then au_state opts else None)"
  "params_get (authorize_params fl opts uri) ''nonce'' = (if nonempty (au_nonce opts) then au_nonce opts else None)"
  "params_get (authorize_params fl opts uri) ''code_challenge'' = map_option challenge (au_pkce opts)"
  "params_get (authorize_params fl opts uri) ''code_challenge_method'' = map_option (\<lambda>_. ''S256'') (au_pkce opts)"
  by (simp_all add: authorize_params_def Let_def params_get_set params_get_set_if params_get_fixed split: option.split)

text \<open>What \<open>buildAuthorizeUrl\<close> puts into the URL is what the server reads from its query:
  the response type, the client, the registered redirect URI, the state and nonce of this
  request, and the S256 challenge of the PKCE pair.\<close>

theorem buildAuthorizeUrl_query:
  assumes "buildAuthorizeUrl fl opts = Inr url"
  shows "\<exists>q. url = authorizeUrl fl @ ''?'' @ q \<and>
     params_get (parse_params q) ''response_type'' = Some ''code'' \<and>
     params_get (parse_params q) ''client_id'' = Some (clientId fl) \<and>
     params_get (parse_params q) ''redirect_uri'' = or_else (au_redirectUri opts) (redirectUri fl) \<and>
     params_get (parse_params q) ''state'' = (if nonempty (au_state opts) then au_state opts else None) \<and>
     params_get (parse_params q) ''nonce'' = (if nonempty (au_nonce opts) then au_nonce opts else None) \<and>
     params_get (parse_params q) ''code_challenge'' = map_option challenge (au_pkce opts) \<and>
     params_get (parse_params q) ''code_challenge_method'' = map_option (\<lambda>_. ''S256'') (au_pkce opts)"
proof -
  from assms obtain uri where uri: "or_else (au_redirectUri opts) (redirectUri fl) = Some uri"
    and url: "url = authorizeUrl fl @ ''?'' @ params_toString (authorize_params fl opts uri)"
    by (auto simp: buildAuthorizeUrl_def Let_def nonempty_iff split: if_splits)
  show ?thesis
    by (rule exI [of _ "params_toString (authorize_params fl opts uri)"]) (simp add: url uri authorize_params_get)
qed

theorem buildAuthorizeUrl_query_witness:
  "\<exists>q. authorizeUrl demo_flow @ ''?'' @ params_toString [(''response_type'', ''code''), (''client_id'', ''spa''),
        (''redirect_uri'', ''http://app/cb''), (''state'', ''s1''), (''code_challenge'', ''c''),
        (''code_challenge_method'', ''S256'')]
      = authorizeUrl demo_flow @ ''?'' @ q \<and>
     params_get (parse_params q) ''state'' = Some ''s1'' \<and> params_get (parse_params q) ''code_challenge'' = Some ''c''"
proof -
  let ?o = "\<lparr>au_state = Some ''s1'', au_nonce = None, au_pkce = Some \<lparr>verifier = ''v'', challenge = ''c''\<rparr>,
     au_scopes = None, au_redirectUri = None\<rparr>"
  have "buildAuthorizeUrl demo_flow ?o = Inr (authorizeUrl demo_flow @ ''?'' @ params_toString
     [(''response_type'', ''code''), (''client_id'', ''spa''), (''redirect_uri'', ''http://app/cb''), (''state'', ''s1''),
      (''code_challenge'', ''c''), (''code_challenge_method'', ''S256'')])"
    by (simp add: buildAuthorizeUrl_def authorize_params_def demo_flow_simps set_if_def)
  from buildAuthorizeUrl_query [OF this] show ?thesis by auto
qed

text \<open>The payload of a compact JWT is read back: for every JSON value, any header and any
  signature without a dot, \<open>decodeJwtPayload\<close> of the encoded token returns that value.\<close>

theorem decodeJwtPayload_roundtrip:
  assumes "json_ok v" and "CHR ''.'' \<notin> set hdr" and "CHR ''.'' \<notin> set sig"
  shows "decodeJwtPayload (hdr @ ''.'' @ toBase64Url (utf8 (stringify v)) @ ''.'' @ sig) = Inr v"
proof -
  let ?p = "toBase64Url (utf8 (stringify v))"
  have "CHR ''.'' \<notin> set ?p" using toBase64Url_no_dot .
  then have "split_on (CHR ''.'') (hdr @ ''.'' @ ?p @ ''.'' @ sig) = [hdr, ?p, sig]"
    using assms by (simp add: split_on_append split_on_no_sep)
  then show ?thesis
    by (simp add: decodeJwtPayload_def fromBase64Url_toBase64Url text_decode_stringify
        json.dec_enc [OF assms(1)] del: append.simps)
qed

theorem decodeJwtPayload_roundtrip_witness:
  "decodeJwtPayload (''h'' @ ''.'' @ toBase64Url (utf8 (stringify (JObj [(''sub'', JStr ''7'')]))) @ ''.'' @ ''s'')
     = Inr (JObj [(''sub'', JStr ''7'')])"
  by (rule decodeJwtPayload_roundtrip) (simp_all add: json_ok.simps)

end
