(* ===== verification/SdkM2M.thy ===== *)
theory SdkM2M
  imports SdkAuth
begin

section \<open>The machine-to-machine client of the TypeScript SDK\<close>

text \<open>
  \<open>M2MClient\<close> of \<open>clients/ts/src/auth.ts\<close>: a cached client-credentials token, refreshes
  chained one behind the other on the promise \<open>refreshChain\<close>, and \<open>authedFetch\<close> with its
  retry after a 401.  Calls interleave freely: every continuation of an awaited promise is an
  event of its own, with its guard (the promise it waits for has settled).  The clock is an
  argument of the events that read it.  Times are integers in milliseconds, that is the
  seconds of the code times 1000.
\<close>

subsection \<open>State\<close>

definition DEFAULT_CLOCK_SKEW_SEC :: int where
  "DEFAULT_CLOCK_SKEW_SEC = 30"

record m2m_options =
  mo_scopes :: "string list option"
  mo_clockSkewSec :: "int option"
  mo_timeoutMs :: "int option"

text \<open>One run of the function chained by \<open>getAccessToken\<close>: the promise it waits for
  (\<open>None\<close> is the resolved promise of the constructor), and how far it is.\<close>

datatype job_phase = Waiting | InFlight int | Settled "js_throw + string"

record job =
  j_force :: bool
  j_after :: "nat option"
  j_phase :: job_phase

text \<open>What \<open>getAccessToken\<close> returned: a promise that is already resolved, or that of a job.\<close>

datatype token_promise = Ready string | OfJob nat

record request_init =
  in_method :: "string option"
  in_headers :: "params option"
  in_body :: "string option"

text \<open>A call of \<open>authedFetch\<close>: where it is suspended.  \<open>AwaitFirst\<close> and \<open>AwaitSecond\<close> wait
  for the response to the request; \<open>FetchFailed\<close> has what the promise rejected with.\<close>

datatype task_phase =
    AwaitToken token_promise
  | AwaitFirst
  | AwaitForced token_promise
  | AwaitSecond
  | FetchDone response
  | FetchFailed "js_throw + cause"

record fetch_task =
  t_input :: string
  t_init :: request_init
  t_phase :: task_phase

record m2m =
  m_tokenUrl :: string
  m_clientId :: string
  m_clientSecret :: string
  m_scopes :: "string list"
  m_clockSkewSec :: int
  m_timeoutMs :: int
  m_accessToken :: "string option"
  m_expiresAt :: int
  m_refreshChain :: "nat option"
  m_jobs :: "job list"
  m_tasks :: "fetch_task list"
  m_posts :: "(nat \<times> request) list"
  m_sent :: "(nat \<times> string \<times> request_init) list"

subsection \<open>Operations\<close>

definition M2MClient :: "string \<Rightarrow> string \<Rightarrow> string \<Rightarrow> m2m_options \<Rightarrow> m2m" where
  "M2MClient base cid secret options =
     \<lparr>m_tokenUrl = normalizeBaseUrl base @ ''/oauth2/token'', m_clientId = cid, m_clientSecret = secret,
      m_scopes = (case mo_scopes options of Some ss \<Rightarrow> ss | None \<Rightarrow> []),
      m_clockSkewSec = (case mo_clockSkewSec options of Some n \<Rightarrow> n | None \<Rightarrow> DEFAULT_CLOCK_SKEW_SEC),
      m_timeoutMs = (case mo_timeoutMs options of Some t \<Rightarrow> t | None \<Rightarrow> 10000),
      m_accessToken = None, m_expiresAt = 0, m_refreshChain = None, m_jobs = [], m_tasks = [],
      m_posts = [], m_sent = []\<rparr>"

text \<open>The cache test, made on entry and again when the chained function runs.\<close>

definition cached :: "bool \<Rightarrow> int \<Rightarrow> m2m \<Rightarrow> string option" where
  "cached force now m =
     (if \<not> force \<and> m_accessToken m \<noteq> None \<and> m_expiresAt m - 1000 * m_clockSkewSec m > now
      then m_accessToken m else None)"

definition getAccessToken :: "bool \<Rightarrow> int \<Rightarrow> m2m \<Rightarrow> token_promise \<times> m2m" where
  "getAccessToken force now m = (case cached force now m of
     Some tok \<Rightarrow> (Ready tok, m)
   | None \<Rightarrow> (OfJob (length (m_jobs m)),
       m\<lparr>m_jobs := m_jobs m @ [\<lparr>j_force = force, j_after = m_refreshChain m, j_phase = Waiting\<rparr>],
         m_refreshChain := Some (length (m_jobs m))\<rparr>))"

definition is_settled :: "job \<Rightarrow> bool" where
  "is_settled j = (case j_phase j of Settled r \<Rightarrow> True | _ \<Rightarrow> False)"

definition is_inflight :: "job \<Rightarrow> bool" where
  "is_inflight j = (case j_phase j of InFlight t \<Rightarrow> True | _ \<Rightarrow> False)"

text \<open>\<open>refreshChain\<close> never rejects (\<open>run.catch(() => '')\<close>), so a job may run as soon as its
  predecessor has settled either way.\<close>

definition chain_open :: "nat option \<Rightarrow> job list \<Rightarrow> bool" where
  "chain_open after js = (case after of None \<Rightarrow> True | Some i \<Rightarrow> i < length js \<and> is_settled (js ! i))"

definition set_phase :: "nat \<Rightarrow> job_phase \<Rightarrow> m2m \<Rightarrow> m2m" where
  "set_phase i ph m = m\<lparr>m_jobs := (m_jobs m)[i := (m_jobs m ! i)\<lparr>j_phase := ph\<rparr>]\<rparr>"

definition token_form :: "m2m \<Rightarrow> params" where
  "token_form m =
     (let form = [(''grant_type'', ''client_credentials'')] in
      if length (m_scopes m) > 0 then params_set ''scope'' (join_with '' '' (m_scopes m)) form else form)"

definition token_request :: "m2m \<Rightarrow> request" where
  "token_request m = form_request (m_tokenUrl m) (token_form m)
     [(''authorization'', basicAuthHeader (m_clientId m) (m_clientSecret m))] (m_timeoutMs m)"

text \<open>The chained function up to its \<open>await\<close>, and after it.\<close>

definition start_job :: "nat \<Rightarrow> int \<Rightarrow> m2m \<Rightarrow> m2m option" where
  "start_job i now m =
     (if i < length (m_jobs m) \<and> j_phase (m_jobs m ! i) = Waiting \<and>
         chain_open (j_after (m_jobs m ! i)) (m_jobs m)
      then Some (case cached (j_force (m_jobs m ! i)) now m of
          Some tok \<Rightarrow> set_phase i (Settled (Inr tok)) m
        | None \<Rightarrow> set_phase i (InFlight now) (m\<lparr>m_posts := m_posts m @ [(i, token_request m)]\<rparr>))
      else None)"

definition post_outcome :: "outcome \<Rightarrow> js_throw + jsval" where
  "post_outcome out = (case out of Rejected c \<Rightarrow> Inl (wrap_cause c) | Resolved r \<Rightarrow> token_result r)"

fun num_of :: "jsval \<Rightarrow> int" where
  "num_of (JNum n) = n"
| "num_of _ = 0"

definition finish_job :: "nat \<Rightarrow> outcome \<Rightarrow> m2m \<Rightarrow> m2m option" where
  "finish_job i out m =
     (if i < length (m_jobs m) then
        (case j_phase (m_jobs m ! i) of
           InFlight again \<Rightarrow> Some (case post_outcome out of
               Inl e \<Rightarrow> set_phase i (Settled (Inl e)) m
             | Inr ts \<Rightarrow> (let tok = str_or (getprop ts ''access_token'') [] in
                 set_phase i (Settled (Inr tok))
                   (m\<lparr>m_accessToken := Some tok,
                      m_expiresAt := again + 1000 * num_of (getprop ts ''expires_in'')\<rparr>)))
         | _ \<Rightarrow> None)
      else None)"

text \<open>The caller's headers with lower-case names.\<close>

definition initHeaders :: "request_init \<Rightarrow> params" where
  "initHeaders ri = (case in_headers ri of
     None \<Rightarrow> []
   | Some hs \<Rightarrow> foldl (\<lambda>acc (k, v). params_set (map to_lower k) v acc) [] hs)"

definition authed_init :: "request_init \<Rightarrow> string \<Rightarrow> request_init" where
  "authed_init ri token =
     ri\<lparr>in_headers := Some (spread (initHeaders ri) [(''authorization'', ''Bearer '' @ token)])\<rparr>"

text \<open>The settled value of a token promise, if it has settled.\<close>

definition promise_value :: "m2m \<Rightarrow> token_promise \<Rightarrow> (js_throw + string) option" where
  "promise_value m p = (case p of
     Ready tok \<Rightarrow> Some (Inr tok)
   | OfJob i \<Rightarrow> if i < length (m_jobs m) then
       (case j_phase (m_jobs m ! i) of Settled r \<Rightarrow> Some r | _ \<Rightarrow> None) else None)"

definition set_task :: "nat \<Rightarrow> task_phase \<Rightarrow> m2m \<Rightarrow> m2m" where
  "set_task t ph m = m\<lparr>m_tasks := (m_tasks m)[t := (m_tasks m ! t)\<lparr>t_phase := ph\<rparr>]\<rparr>"

text \<open>The three parts of \<open>authedFetch\<close>: up to the first \<open>await\<close>; sending when a token is
  there; looking at the response.\<close>

definition authedFetch :: "string \<Rightarrow> request_init \<Rightarrow> int \<Rightarrow> m2m \<Rightarrow> m2m" where
  "authedFetch input ri now m = (case getAccessToken False now m of (p, m') \<Rightarrow>
     m'\<lparr>m_tasks := m_tasks m' @ [\<lparr>t_input = input, t_init = ri, t_phase = AwaitToken p\<rparr>]\<rparr>)"

definition send_with :: "nat \<Rightarrow> js_throw + string \<Rightarrow> task_phase \<Rightarrow> m2m \<Rightarrow> m2m" where
  "send_with t tok ph m = (case tok of
     Inl e \<Rightarrow> set_task t (FetchFailed (Inl e)) m
   | Inr s \<Rightarrow> set_task t ph (m\<lparr>m_sent := m_sent m @
       [(t, t_input (m_tasks m ! t), authed_init (t_init (m_tasks m ! t)) s)]\<rparr>))"

definition resume_task :: "nat \<Rightarrow> m2m \<Rightarrow> m2m option" where
  "resume_task t m =
     (if t < length (m_tasks m) then
        (case t_phase (m_tasks m ! t) of
           AwaitToken p \<Rightarrow> map_option (\<lambda>r. send_with t r AwaitFirst m) (promise_value m p)
         | AwaitForced p \<Rightarrow> map_option (\<lambda>r. send_with t r AwaitSecond m) (promise_value m p)
         | _ \<Rightarrow> None)
      else None)"

definition respond_task :: "nat \<Rightarrow> outcome \<Rightarrow> int \<Rightarrow> m2m \<Rightarrow> m2m option" where
  "respond_task t out now m =
     (if t < length (m_tasks m) then
        (case t_phase (m_tasks m ! t) of
           AwaitFirst \<Rightarrow> Some (case out of
               Rejected c \<Rightarrow> set_task t (FetchFailed (Inr c)) m
             | Resolved r \<Rightarrow>
                 if status r \<noteq> 401 then set_task t (FetchDone r) m
                 else (case getAccessToken True now m of (p, m') \<Rightarrow> set_task t (AwaitForced p) m'))
         | AwaitSecond \<Rightarrow> Some (case out of
               Rejected c \<Rightarrow> set_task t (FetchFailed (Inr c)) m
             | Resolved r \<Rightarrow> set_task t (FetchDone r) m)
         | _ \<Rightarrow> None)
      else None)"

subsection \<open>Interleavings\<close>

datatype m2m_event =
    GetToken bool int
  | StartJob nat int
  | TokenResponse nat outcome
  | AuthedFetch string request_init int
  | Resume nat
  | ApiResponse nat outcome int

fun m2m_step :: "m2m_event \<Rightarrow> m2m \<Rightarrow> m2m option" where
  "m2m_step (GetToken force now) m = Some (snd (getAccessToken force now m))"
| "m2m_step (StartJob i now) m = start_job i now m"
| "m2m_step (TokenResponse i out) m = finish_job i out m"
| "m2m_step (AuthedFetch input ri now) m = Some (authedFetch input ri now m)"
| "m2m_step (Resume t) m = resume_task t m"
| "m2m_step (ApiResponse t out now) m = respond_task t out now m"

subsection \<open>The invariant\<close>

text \<open>Every job waits for the one queued before it, \<open>refreshChain\<close> is the last one, and a job
  that has started has only settled jobs before it.\<close>

definition chain_inv :: "m2m \<Rightarrow> bool" where
  "chain_inv m \<longleftrightarrow>
     (\<forall>i < length (m_jobs m). j_after (m_jobs m ! i) = (if i = 0 then None else Some (i - 1))) \<and>
     m_refreshChain m = (if m_jobs m = [] then None else Some (length (m_jobs m) - 1)) \<and>
     (\<forall>j < length (m_jobs m). j_phase (m_jobs m ! j) \<noteq> Waiting \<longrightarrow> (\<forall>i < j. is_settled (m_jobs m ! i)))"

definition sent_count :: "m2m \<Rightarrow> nat \<Rightarrow> nat" where
  "sent_count m t = length (filter (\<lambda>x. fst x = t) (m_sent m))"

text \<open>How many requests a call of \<open>authedFetch\<close> has sent, by where it is.\<close>

definition phase_count :: "task_phase \<Rightarrow> nat \<Rightarrow> bool" where
  "phase_count ph n = (case ph of
     AwaitToken p \<Rightarrow> n = 0 | AwaitFirst \<Rightarrow> n = 1 | AwaitForced p \<Rightarrow> n = 1 | AwaitSecond \<Rightarrow> n = 2
   | FetchDone r \<Rightarrow> (n = 1 \<and> status r \<noteq> 401) \<or> n = 2 | FetchFailed e \<Rightarrow> n \<le> 2)"

definition tasks_inv :: "m2m \<Rightarrow> bool" where
  "tasks_inv m \<longleftrightarrow>
     (\<forall>t < length (m_tasks m). phase_count (t_phase (m_tasks m ! t)) (sent_count m t)) \<and>
     (\<forall>x \<in> set (m_sent m). fst x < length (m_tasks m))"

text \<open>A token request belongs to a job that has started, and a job sends at most one.\<close>

definition started :: "job list \<Rightarrow> nat \<Rightarrow> bool" where
  "started js i \<longleftrightarrow> i < length js \<and> j_phase (js ! i) \<noteq> Waiting"

definition posts_inv :: "m2m \<Rightarrow> bool" where
  "posts_inv m \<longleftrightarrow> distinct (map fst (m_posts m)) \<and> (\<forall>i \<in> fst ` set (m_posts m). started (m_jobs m) i)"

definition m2m_inv :: "m2m \<Rightarrow> bool" where
  "m2m_inv m \<longleftrightarrow> chain_inv m \<and> tasks_inv m \<and> posts_inv m"

lemma m2m_sel [simp]:
  "m_tasks (set_phase i ph m) = m_tasks m" "m_sent (set_phase i ph m) = m_sent m"
  "m_posts (set_phase i ph m) = m_posts m" "m_refreshChain (set_phase i ph m) = m_refreshChain m"
  "m_jobs (set_task t tp m) = m_jobs m" "m_sent (set_task t tp m) = m_sent m"
  "m_posts (set_task t tp m) = m_posts m" "m_refreshChain (set_task t tp m) = m_refreshChain m"
  "length (m_jobs (set_phase i ph m)) = length (m_jobs m)" "length (m_tasks (set_task t tp m)) = length (m_tasks m)"
  "m_accessToken (set_phase i ph m) = m_accessToken m" "m_expiresAt (set_phase i ph m) = m_expiresAt m"
  "m_clockSkewSec (set_phase i ph m) = m_clockSkewSec m"
  by (simp_all add: set_phase_def set_task_def)

lemma chain_inv_cong:
  "m_jobs m' = m_jobs m \<Longrightarrow> m_refreshChain m' = m_refreshChain m \<Longrightarrow> chain_inv m' = chain_inv m"
  by (simp add: chain_inv_def)

lemma tasks_inv_cong: "m_tasks m' = m_tasks m \<Longrightarrow> m_sent m' = m_sent m \<Longrightarrow> tasks_inv m' = tasks_inv m"
  by (simp add: tasks_inv_def sent_count_def)

lemma getAccessToken_chain: "chain_inv m \<Longrightarrow> getAccessToken force now m = (p, m') \<Longrightarrow> chain_inv m'"
  by (auto simp: getAccessToken_def chain_inv_def nth_append less_Suc_eq split: option.splits if_splits)

lemma getAccessToken_frame:
  assumes "getAccessToken force now m = (p, m')"
  shows "m_tasks m' = m_tasks m" "m_sent m' = m_sent m" "m_posts m' = m_posts m"
  using assms by (auto simp: getAccessToken_def split: option.splits)

text \<open>Moving a job on keeps the chain when everything before it has settled.\<close>

lemma set_phase_chain:
  assumes inv: "chain_inv m" and i: "i < length (m_jobs m)"
    and before: "\<And>k. k < i \<Longrightarrow> is_settled (m_jobs m ! k)"
    and here: "\<not> is_settled (m_jobs m ! i)"
  shows "chain_inv (set_phase i ph m)"
proof -
  have later: "j_phase (m_jobs m ! j) = Waiting" if "i < j" "j < length (m_jobs m)" for j
    using inv that here unfolding chain_inv_def by blast
  show ?thesis
    using inv i before later
    by (auto simp: chain_inv_def set_phase_def nth_list_update is_settled_def)
qed

lemma start_job_chain:
  assumes "chain_inv m" and "start_job i now m = Some m'"
  shows "chain_inv m'"
proof -
  from assms(2) have i: "i < length (m_jobs m)" "j_phase (m_jobs m ! i) = Waiting"
    and op: "chain_open (j_after (m_jobs m ! i)) (m_jobs m)"
    by (auto simp: start_job_def split: if_splits)
  have after: "j_after (m_jobs m ! i) = (if i = 0 then None else Some (i - 1))"
    using assms(1) i by (simp add: chain_inv_def)
  have before: "is_settled (m_jobs m ! k)" if "k < i" for k
  proof -
    from op after that have pred: "is_settled (m_jobs m ! (i - 1))" by (simp add: chain_open_def)
    then have "j_phase (m_jobs m ! (i - 1)) \<noteq> Waiting" by (auto simp: is_settled_def)
    with assms(1) i(1) pred that show ?thesis
      unfolding chain_inv_def by (metis Suc_diff_1 less_imp_diff_less less_Suc_eq less_nat_zero_code not_gr_zero)
  qed
  have st: "\<not> is_settled (m_jobs m ! i)" using i by (simp add: is_settled_def)
  have "chain_inv (set_phase i ph m)" for ph
    using assms(1) i(1) before st by (rule set_phase_chain)
  moreover have "m' = set_phase i ph (m\<lparr>m_posts := ps\<rparr>) \<Longrightarrow> chain_inv (set_phase i ph m) \<Longrightarrow> chain_inv m'" for ph ps
    by (erule chain_inv_cong [THEN iffD1, rotated -1]) (simp_all add: set_phase_def)
  ultimately show ?thesis using assms(2) 
    by (auto simp: start_job_def split: if_splits option.splits)
qed

lemma finish_job_chain:
  assumes "chain_inv m" and "finish_job i out m = Some m'"
  shows "chain_inv m'"
proof -
  from assms(2) obtain again where i: "i < length (m_jobs m)" "j_phase (m_jobs m ! i) = InFlight again"
    by (auto simp: finish_job_def split: if_splits job_phase.splits)
  then have "chain_inv (set_phase i ph m)" for ph
    using assms(1) by (intro set_phase_chain) (auto simp: chain_inv_def is_settled_def)
  moreover obtain ph where "m_jobs m' = m_jobs (set_phase i ph m)" "m_refreshChain m' = m_refreshChain m"
    using assms(2) i by (auto simp: finish_job_def set_phase_def Let_def split: sum.splits)
  ultimately show ?thesis using chain_inv_cong [of m' "set_phase i ph m"] by simp
qed

lemma job_steps_frame:
  "start_job i now m = Some m' \<Longrightarrow> m_tasks m' = m_tasks m \<and> m_sent m' = m_sent m"
  "finish_job i out m = Some m' \<Longrightarrow> m_tasks m' = m_tasks m \<and> m_sent m' = m_sent m"
  by (auto simp: start_job_def finish_job_def Let_def split: if_splits option.splits job_phase.splits sum.splits)

lemma send_with_frame [simp]:
  "m_jobs (send_with t r ph m) = m_jobs m" "m_refreshChain (send_with t r ph m) = m_refreshChain m"
  "length (m_tasks (send_with t r ph m)) = length (m_tasks m)" "m_posts (send_with t r ph m) = m_posts m"
  by (simp_all add: send_with_def split: sum.split)

lemma task_steps_chain:
  "chain_inv m \<Longrightarrow> resume_task t m = Some m' \<Longrightarrow> chain_inv m'"
  "chain_inv m \<Longrightarrow> respond_task t out now m = Some m' \<Longrightarrow> chain_inv m'"
proof -
  assume inv: "chain_inv m"
  show "resume_task t m = Some m' \<Longrightarrow> chain_inv m'"
    using chain_inv_cong [of m' m] inv by (auto simp: resume_task_def split: if_splits task_phase.splits)
  have "chain_inv (snd (getAccessToken True now m))"
    using getAccessToken_chain [OF inv, of True now] by (cases "getAccessToken True now m") simp
  then show "respond_task t out now m = Some m' \<Longrightarrow> chain_inv m'"
    using chain_inv_cong [of m' m] chain_inv_cong [of m' "snd (getAccessToken True now m)"] inv
    by (auto simp: respond_task_def split: if_splits task_phase.splits outcome.splits prod.splits)
qed

text \<open>What one step does to a task: its own count follows its phase, other tasks are not touched.\<close>

lemma set_task_inv:
  assumes "tasks_inv m" and "t < length (m_tasks m)" and "phase_count ph (sent_count m t)"
  shows "tasks_inv (set_task t ph m)"
  using assms by (auto simp: tasks_inv_def sent_count_def set_task_def nth_list_update)

lemma send_with_inv:
  assumes "tasks_inv m" and "t < length (m_tasks m)" and "phase_count ph (Suc (sent_count m t))"
    and "sent_count m t \<le> 2"
  shows "tasks_inv (send_with t r ph m)"
proof (cases r)
  case (Inl e)
  with assms show ?thesis by (simp add: send_with_def set_task_inv phase_count_def)
next
  case (Inr s)
  with assms show ?thesis
    by (auto simp: send_with_def tasks_inv_def sent_count_def set_task_def nth_list_update)
qed

lemma task_count:
  "tasks_inv m \<Longrightarrow> t < length (m_tasks m) \<Longrightarrow> phase_count (t_phase (m_tasks m ! t)) (sent_count m t)"
  by (simp add: tasks_inv_def)

lemma resume_task_inv:
  assumes "tasks_inv m" and "resume_task t m = Some m'"
  shows "tasks_inv m'"
proof -
  from assms(2) have t: "t < length (m_tasks m)" by (simp add: resume_task_def split: if_splits)
  show ?thesis
    using assms t task_count [OF assms(1) t]
    by (auto simp: resume_task_def phase_count_def split: task_phase.splits intro!: send_with_inv)
qed

lemma respond_task_inv:
  assumes "tasks_inv m" and "respond_task t out now m = Some m'"
  shows "tasks_inv m'"
proof -
  from assms(2) have t: "t < length (m_tasks m)" by (simp add: respond_task_def split: if_splits)
  obtain p m1 where g: "getAccessToken True now m = (p, m1)" by (cases "getAccessToken True now m")
  note fr = getAccessToken_frame [OF g]
  have "tasks_inv m1" using assms(1) tasks_inv_cong [OF fr(1,2)] by simp
  moreover have "sent_count m1 t = sent_count m t" using fr by (simp add: sent_count_def)
  ultimately show ?thesis
    using assms t g fr task_count [OF assms(1) t]
    by (auto simp: respond_task_def phase_count_def split: task_phase.splits outcome.splits if_splits
        intro!: set_task_inv)
qed

lemma authedFetch_inv:
  assumes "tasks_inv m" shows "tasks_inv (authedFetch input ri now m)"
proof -
  obtain p m1 where g: "getAccessToken False now m = (p, m1)" by (cases "getAccessToken False now m")
  note fr = getAccessToken_frame [OF g]
  have "filter (\<lambda>x. fst x = length (m_tasks m)) (m_sent m) = []"
    using assms by (auto simp: tasks_inv_def filter_empty_conv)
  with assms fr show ?thesis
    by (auto simp: authedFetch_def g tasks_inv_def nth_append less_Suc_eq sent_count_def phase_count_def)
qed

lemma posts_inv_cong: "m_jobs m' = m_jobs m \<Longrightarrow> m_posts m' = m_posts m \<Longrightarrow> posts_inv m' = posts_inv m"
  by (simp add: posts_inv_def)

lemma started_append: "started js i \<Longrightarrow> started (js @ ks) i"
  by (simp add: started_def nth_append)

lemma started_phase: "started js i \<Longrightarrow> ph \<noteq> Waiting \<Longrightarrow> started (js[k := (js ! k)\<lparr>j_phase := ph\<rparr>]) i"
  by (cases "k < length js") (auto simp: started_def nth_list_update)

lemma getAccessToken_posts: "posts_inv m \<Longrightarrow> getAccessToken force now m = (p, m') \<Longrightarrow> posts_inv m'"
  by (force simp: getAccessToken_def posts_inv_def split: option.splits intro: started_append)

lemma set_phase_posts: "posts_inv m \<Longrightarrow> ph \<noteq> Waiting \<Longrightarrow> posts_inv (set_phase i ph m)"
  by (auto simp: posts_inv_def set_phase_def intro: started_phase)

lemma start_job_posts:
  assumes "posts_inv m" and "start_job i now m = Some m'"
  shows "posts_inv m'"
proof -
  have i: "i < length (m_jobs m)" "j_phase (m_jobs m ! i) = Waiting"
    using assms(2) by (auto simp: start_job_def split: if_splits)
  with assms(1) have new: "i \<notin> fst ` set (m_posts m)" by (auto simp: posts_inv_def started_def)
  have "posts_inv (set_phase i (InFlight now) (m\<lparr>m_posts := m_posts m @ [(i, q)]\<rparr>))" for q
    using assms(1) i new by (auto simp: posts_inv_def set_phase_def intro: started_phase) (simp add: started_def)
  with assms show ?thesis
    by (auto simp: start_job_def set_phase_posts split: if_splits option.splits)
qed

lemma finish_job_posts:
  assumes "posts_inv m" and "finish_job i out m = Some m'"
  shows "posts_inv m'"
proof -
  obtain r where "m_jobs m' = m_jobs (set_phase i (Settled r) m)" "m_posts m' = m_posts m"
    using assms(2) by (auto simp: finish_job_def set_phase_def Let_def split: if_splits job_phase.splits sum.splits)
  with posts_inv_cong [of m' "set_phase i (Settled r) m"] set_phase_posts [OF assms(1), of "Settled r" i]
  show ?thesis by simp
qed

lemma task_steps_posts:
  assumes "posts_inv m"
  shows "resume_task t m = Some m' \<Longrightarrow> posts_inv m'" "respond_task t out now m = Some m' \<Longrightarrow> posts_inv m'"
proof -
  show "resume_task t m = Some m' \<Longrightarrow> posts_inv m'"
    using posts_inv_cong [of m' m] assms by (auto simp: resume_task_def split: if_splits task_phase.splits)
  have "posts_inv (snd (getAccessToken True now m))"
    using getAccessToken_posts [OF assms, of True now] by (cases "getAccessToken True now m") simp
  then show "respond_task t out now m = Some m' \<Longrightarrow> posts_inv m'"
    using posts_inv_cong [of m' m] posts_inv_cong [of m' "snd (getAccessToken True now m)"] assms
    by (auto simp: respond_task_def split: if_splits task_phase.splits outcome.splits prod.splits)
qed

lemmas m2m_step_facts = getAccessToken_chain getAccessToken_posts start_job_chain start_job_posts
  finish_job_chain finish_job_posts task_steps_chain task_steps_posts resume_task_inv respond_task_inv

lemma getAccessToken_inv: "m2m_inv m \<Longrightarrow> getAccessToken force now m = (p, m') \<Longrightarrow> m2m_inv m'"
  using getAccessToken_frame(1,2) tasks_inv_cong unfolding m2m_inv_def by (metis m2m_step_facts(1,2))

lemma m2m_step_inv:
  assumes "m2m_inv m" and "m2m_step e m = Some m'"
  shows "m2m_inv m'"
proof (cases e)
  case (GetToken force now)
  with assms show ?thesis using getAccessToken_inv [of m force now] by (metis m2m_step.simps(1) option.inject prod.collapse)
next
  case (StartJob i now)
  with assms job_steps_frame(1) [of i now m m'] show ?thesis
    by (auto simp: m2m_inv_def tasks_inv_cong [of m' m] intro: m2m_step_facts)
next
  case (TokenResponse i out)
  with assms job_steps_frame(2) [of i out m m'] show ?thesis
    by (auto simp: m2m_inv_def tasks_inv_cong [of m' m] intro: m2m_step_facts)
next
  case (AuthedFetch input ri now)
  obtain p m1 where g: "getAccessToken False now m = (p, m1)" by (cases "getAccessToken False now m")
  have "m2m_inv m1" using assms(1) g by (rule getAccessToken_inv)
  moreover have "tasks_inv m'" using AuthedFetch assms authedFetch_inv [of m] by (auto simp: m2m_inv_def)
  ultimately show ?thesis
    using AuthedFetch assms(2) g chain_inv_cong [of m' m1] posts_inv_cong [of m' m1]
    by (auto simp: authedFetch_def m2m_inv_def)
qed (use assms in \<open>auto simp: m2m_inv_def intro: m2m_step_facts\<close>)

interpretation m2m: guarded_machine m2m_step m2m_inv
  by unfold_locales (rule m2m_step_inv)

lemma m2m_init: "m2m_inv (M2MClient base cid secret options)"
  by (simp add: m2m_inv_def chain_inv_def tasks_inv_def posts_inv_def M2MClient_def)

lemmas m2m_reachable = m2m.exec_invar [OF m2m_init, unfolded m2m_inv_def]

subsection \<open>Properties\<close>

definition outstanding :: "m2m \<Rightarrow> (nat \<times> request) list" where
  "outstanding m = filter (\<lambda>x. \<not> is_settled (m_jobs m ! fst x)) (m_posts m)"

lemma at_most_one:
  assumes "distinct (map f xs)" and "\<And>x y. x \<in> set xs \<Longrightarrow> y \<in> set xs \<Longrightarrow> f x = f y"
  shows "length xs \<le> 1"
proof (rule ccontr)
  assume "\<not> length xs \<le> 1"
  then have "0 < length xs" "1 < length xs" by linarith+
  with assms(2) [of "xs ! 0" "xs ! 1"] have "map f xs ! 0 = map f xs ! 1" by simp
  with \<open>0 < length xs\<close> \<open>1 < length xs\<close> nth_eq_iff_index_eq [OF assms(1), of 0 1] show False
    by (metis length_map zero_neq_one)
qed

lemma distinct_map_filter': "distinct (map f xs) \<Longrightarrow> distinct (map f (filter P xs))"
  by (induction xs) auto

text \<open>C3. Refreshes are serialised.  In every interleaving of calls and responses at most one token
  request of a client is outstanding, and the chained refreshes start in the order in which they
  were queued, each only after all earlier ones have settled.\<close>

theorem m2m_refreshes_serialized:
  assumes "exec m2m_step es (M2MClient base cid secret options) = Some m"
  shows "length (outstanding m) \<le> 1 \<and>
     (\<forall>j < length (m_jobs m). j_phase (m_jobs m ! j) \<noteq> Waiting \<longrightarrow> (\<forall>i < j. is_settled (m_jobs m ! i)))"
proof -
  from m2m_reachable [OF assms] have inv: "chain_inv m" "posts_inv m" by simp_all
  have ord: "j_phase (m_jobs m ! j) \<noteq> Waiting \<Longrightarrow> j < length (m_jobs m) \<Longrightarrow> i < j \<Longrightarrow> is_settled (m_jobs m ! i)" for i j
    using inv(1) by (simp add: chain_inv_def)
  have "fst x = fst y" if xy: "x \<in> set (outstanding m)" "y \<in> set (outstanding m)" for x y
  proof -
    from xy have "\<not> is_settled (m_jobs m ! fst x)" "\<not> is_settled (m_jobs m ! fst y)" by (simp_all add: outstanding_def)
    moreover from xy inv(2) have "started (m_jobs m) (fst x)" "started (m_jobs m) (fst y)"
      by (simp_all add: outstanding_def posts_inv_def)
    ultimately show ?thesis
      using ord [of "fst x" "fst y"] ord [of "fst y" "fst x"] unfolding started_def by (metis linorder_neqE_nat)
  qed
  moreover have "distinct (map fst (outstanding m))"
    using inv(2) by (auto simp: outstanding_def posts_inv_def intro: distinct_map_filter')
  ultimately have "length (outstanding m) \<le> 1" by (intro at_most_one [of fst])
  with ord show ?thesis by blast
qed

definition demo_m2m :: m2m where
  "demo_m2m = M2MClient ''http://as'' ''svc'' ''pw'' \<lparr>mo_scopes = None, mo_clockSkewSec = None, mo_timeoutMs = None\<rparr>"

definition demo_token_response :: response where
  "demo_token_response = Response 200 (Some (JObj [(''access_token'', JStr ''tk''), (''expires_in'', JNum 600)]))"

lemma demo_token_result:
  "token_result demo_token_response = Inr (JObj [(''access_token'', JStr ''tk''), (''expires_in'', JNum 600),
     (''token_type'', JStr ''Bearer'')])"
  by (simp add: demo_token_response_def token_result_def get_member_def proto_member_def object_prototype_def)

lemmas m2m_eval = demo_m2m_def M2MClient_def getAccessToken_def cached_def start_job_def chain_open_def
  set_phase_def is_settled_def DEFAULT_CLOCK_SKEW_SEC_def

theorem m2m_refreshes_serialized_witness:
  "exec m2m_step [GetToken False 0, GetToken True 5, StartJob 0 9] demo_m2m \<noteq> None \<and>
   length (outstanding (the (exec m2m_step [GetToken False 0, GetToken True 5, StartJob 0 9] demo_m2m))) \<le> 1"
proof -
  have "\<exists>m. exec m2m_step [GetToken False 0, GetToken True 5, StartJob 0 9] demo_m2m = Some m"
    by (simp add: m2m_eval)
  then obtain m where m: "exec m2m_step [GetToken False 0, GetToken True 5, StartJob 0 9] demo_m2m = Some m" by blast
  from m2m_refreshes_serialized [OF m [unfolded demo_m2m_def]] m show ?thesis by simp
qed

text \<open>C4. The chain of refreshes never blocks, not even after a failed one: as long as some caller
  still waits, a job in front of it can start or its request can be answered.\<close>

theorem m2m_chain_never_stuck:
  assumes "exec m2m_step es (M2MClient base cid secret options) = Some m"
    and "i < length (m_jobs m)" and "\<not> is_settled (m_jobs m ! i)"
  shows "\<exists>k \<le> i. (\<forall>now. start_job k now m \<noteq> None) \<or> (\<forall>out. finish_job k out m \<noteq> None)"
proof -
  define k where "k = (LEAST k. \<not> is_settled (m_jobs m ! k))"
  have k: "\<not> is_settled (m_jobs m ! k)" "k \<le> i" "\<And>l. l < k \<Longrightarrow> is_settled (m_jobs m ! l)"
    using assms(3) LeastI [of "\<lambda>k. \<not> is_settled (m_jobs m ! k)" i]
      Least_le [of "\<lambda>k. \<not> is_settled (m_jobs m ! k)" i] not_less_Least
    unfolding k_def by blast+
  from m2m_reachable [OF assms(1)] have "chain_inv m" by simp
  with k assms(2) have "chain_open (j_after (m_jobs m ! k)) (m_jobs m)"
    by (auto simp: chain_inv_def chain_open_def)
  with k assms(2) have "(\<forall>now. start_job k now m \<noteq> None) \<or> (\<forall>out. finish_job k out m \<noteq> None)"
    by (cases "j_phase (m_jobs m ! k)") (auto simp: start_job_def finish_job_def is_settled_def)
  with k(2) show ?thesis by blast
qed

theorem m2m_chain_never_stuck_witness:
  "\<exists>m k. exec m2m_step [GetToken False 0] demo_m2m = Some m \<and> k \<le> 0 \<and>
     ((\<forall>now. start_job k now m \<noteq> None) \<or> (\<forall>out. finish_job k out m \<noteq> None))"
proof -
  have "\<exists>m. exec m2m_step [GetToken False 0] demo_m2m = Some m \<and> 0 < length (m_jobs m) \<and> \<not> is_settled (m_jobs m ! 0)"
    by (simp add: m2m_eval)
  then obtain m where m: "exec m2m_step [GetToken False 0] demo_m2m = Some m" "0 < length (m_jobs m)"
    "\<not> is_settled (m_jobs m ! 0)" by blast
  from m2m_chain_never_stuck [OF m(1) [unfolded demo_m2m_def] m(2,3)] m(1) show ?thesis by blast
qed

text \<open>C5. \<open>authedFetch\<close> retries at most once: under every interleaving a call sends at most two
  requests, and a 401 reaches its caller only as the answer to the second.\<close>

theorem authedFetch_retries_once:
  assumes "exec m2m_step es (M2MClient base cid secret options) = Some m" and "t < length (m_tasks m)"
  shows "sent_count m t \<le> 2 \<and>
     (\<forall>r. t_phase (m_tasks m ! t) = FetchDone r \<and> status r = 401 \<longrightarrow> sent_count m t = 2)"
  using m2m_reachable [OF assms(1)] task_count [of m t] assms(2)
  by (auto simp: phase_count_def split: task_phase.splits)

lemmas m2m_task_eval = authedFetch_def resume_task_def respond_task_def send_with_def set_task_def
  promise_value_def finish_job_def post_outcome_def demo_token_result str_or_def

theorem authedFetch_retries_once_witness:
  "\<exists>m. exec m2m_step
       [AuthedFetch ''/api'' \<lparr>in_method = None, in_headers = None, in_body = None\<rparr> 0, StartJob 0 1,
        TokenResponse 0 (Resolved demo_token_response), Resume 0, ApiResponse 0 (Resolved (Response 401 None)) 7]
       demo_m2m = Some m \<and> sent_count m 0 \<le> 2"
proof -
  let ?es = "[AuthedFetch ''/api'' \<lparr>in_method = None, in_headers = None, in_body = None\<rparr> 0, StartJob 0 1,
        TokenResponse 0 (Resolved demo_token_response), Resume 0, ApiResponse 0 (Resolved (Response 401 None)) 7]"
  have "\<exists>m. exec m2m_step ?es demo_m2m = Some m \<and> 0 < length (m_tasks m)"
    by (simp add: m2m_eval m2m_task_eval Let_def)
  then obtain m where m: "exec m2m_step ?es demo_m2m = Some m" "0 < length (m_tasks m)" by blast
  from authedFetch_retries_once [OF m(1) [unfolded demo_m2m_def] m(2)] m(1) show ?thesis by blast
qed

subsection \<open>Concurrent misses\<close>

text \<open>The state of a client whose \<open>n\<close> callers missed the cache together and of whose jobs the
  first \<open>k\<close> have settled with the token.\<close>

definition crowd :: "nat \<Rightarrow> nat \<Rightarrow> string \<Rightarrow> job list" where
  "crowd n k tok = map (\<lambda>i. \<lparr>j_force = False, j_after = (if i = 0 then None else Some (i - 1)),
     j_phase = (if i < k then Settled (Inr tok) else Waiting)\<rparr>) [0..<n]"

definition crowd_state :: "m2m \<Rightarrow> nat \<Rightarrow> nat \<Rightarrow> string \<Rightarrow> m2m" where
  "crowd_state m n k tok = m\<lparr>m_jobs := crowd n k tok, m_refreshChain := (if n = 0 then None else Some (n - 1))\<rparr>"

lemma crowd_nth: "i < n \<Longrightarrow> crowd n k tok ! i =
    \<lparr>j_force = False, j_after = (if i = 0 then None else Some (i - 1)),
     j_phase = (if i < k then Settled (Inr tok) else Waiting)\<rparr>"
  by (simp add: crowd_def)

lemma crowd_length [simp]: "length (crowd n k tok) = n"
  by (simp add: crowd_def)

lemma crowd_settle: "k < n \<Longrightarrow> (crowd n k tok)[k := (crowd n k tok ! k)\<lparr>j_phase := Settled (Inr tok)\<rparr>] = crowd n (Suc k) tok"
  by (rule nth_equalityI) (auto simp: crowd_nth nth_list_update less_Suc_eq)

lemma crowd_gathers:
  assumes "m_accessToken m = None" and "m_jobs m = []" and "m_refreshChain m = None"
  shows "exec m2m_step (replicate n (GetToken False now)) m = Some (crowd_state m n 0 tok)"
proof (induction n)
  case 0
  then show ?case using assms by (cases m) (simp add: crowd_state_def crowd_def)
next
  case (Suc n)
  have "snd (getAccessToken False now (crowd_state m n 0 tok)) = crowd_state m (Suc n) 0 tok"
    using assms(1) by (auto simp: getAccessToken_def cached_def crowd_state_def crowd_def)
  moreover have "replicate (Suc n) (GetToken False now) = replicate n (GetToken False now) @ [GetToken False now]"
    by (simp add: replicate_append_same)
  ultimately show ?case using Suc by (simp add: exec_append del: replicate.simps)
qed

lemma crowd_served:
  assumes "m_accessToken m = Some tok" and "0 < k" and "k \<le> l" and "l \<le> n"
    and "\<And>i. k \<le> i \<Longrightarrow> i < n \<Longrightarrow> start i < m_expiresAt m - 1000 * m_clockSkewSec m"
  shows "exec m2m_step (map (\<lambda>i. StartJob i (start i)) [k..<l]) (crowd_state m n k tok) = Some (crowd_state m n l tok)"
  using assms(3,4)
proof (induction l rule: dec_induct)
  case base
  then show ?case by simp
next
  case (step l)
  have "start_job l (start l) (crowd_state m n l tok) = Some (crowd_state m n (Suc l) tok)"
    using assms(1,2) assms(5) [of l] step
    by (simp add: start_job_def crowd_state_def crowd_nth chain_open_def is_settled_def cached_def set_phase_def
        crowd_settle [symmetric])
  with step show ?case by (simp add: exec_append)
qed

text \<open>However many callers miss the cache at the same time, one token request serves them all:
  when it succeeds and the queued refreshes run while the new token is fresh, exactly one request
  was sent and every caller has that token.\<close>

theorem concurrent_misses_share_one_request:
  fixes base cid secret options n
  defines "m0 \<equiv> M2MClient base cid secret options"
  assumes "0 < n" and "token_result r = Inr ts"
    and "getprop ts ''access_token'' = JStr tok" and "getprop ts ''expires_in'' = JNum e"
    and "\<And>i. 1 \<le> i \<Longrightarrow> i < n \<Longrightarrow> start i < again + 1000 * e - 1000 * m_clockSkewSec m0"
  shows "\<exists>m. exec m2m_step (replicate n (GetToken False now) @
           [StartJob 0 again, TokenResponse 0 (Resolved r)] @ map (\<lambda>i. StartJob i (start i)) [1..<n]) m0 = Some m \<and>
     m_posts m = [(0, token_request m0)] \<and> length (m_jobs m) = n \<and>
     (\<forall>i < n. j_phase (m_jobs m ! i) = Settled (Inr tok))"
proof -
  let ?m1 = "m0\<lparr>m_posts := [(0, token_request m0)], m_accessToken := Some tok, m_expiresAt := again + 1000 * e\<rparr>"
  have gather: "exec m2m_step (replicate n (GetToken False now)) m0 = Some (crowd_state m0 n 0 tok)"
    by (rule crowd_gathers) (simp_all add: m0_def M2MClient_def)
  have "token_request (crowd_state m0 n 0 tok) = token_request m0"
    by (simp add: token_request_def token_form_def crowd_state_def Let_def)
  then have "exec m2m_step [StartJob 0 again, TokenResponse 0 (Resolved r)] (crowd_state m0 n 0 tok)
      = Some (crowd_state ?m1 n 1 tok)"
    using assms(2-5) crowd_settle [of 0 n tok]
    by (simp add: start_job_def finish_job_def post_outcome_def crowd_state_def crowd_nth chain_open_def
        cached_def set_phase_def str_or_def m0_def M2MClient_def)
  moreover have "exec m2m_step (map (\<lambda>i. StartJob i (start i)) [1..<n]) (crowd_state ?m1 n 1 tok)
      = Some (crowd_state ?m1 n n tok)"
    using assms(2,6) by (intro crowd_served) auto
  ultimately have "exec m2m_step (replicate n (GetToken False now) @
      [StartJob 0 again, TokenResponse 0 (Resolved r)] @ map (\<lambda>i. StartJob i (start i)) [1..<n]) m0
      = Some (crowd_state ?m1 n n tok)"
    by (simp only: exec_append gather option.case)
  then show ?thesis by (simp add: crowd_state_def crowd_nth)
qed

theorem concurrent_misses_share_one_request_witness:
  "\<exists>m. exec m2m_step (replicate 3 (GetToken False 0) @
        [StartJob 0 1, TokenResponse 0 (Resolved demo_token_response)] @ map (\<lambda>i. StartJob i 2) [1..<3]) demo_m2m = Some m \<and>
     m_posts m = [(0, token_request demo_m2m)] \<and> length (m_jobs m) = 3 \<and>
     (\<forall>i < 3. j_phase (m_jobs m ! i) = Settled (Inr ''tk''))"
  unfolding demo_m2m_def
  by (rule concurrent_misses_share_one_request [OF _ demo_token_result, where e = 600])
    (simp_all add: M2MClient_def DEFAULT_CLOCK_SKEW_SEC_def)

end
