(* ===== verification/Messages.thy ===== *)
theory Messages
  imports Prelude
begin

section \<open>The error message catalogs\<close>

text \<open>
  \<open>services/messages/\<close> of the user portal and of the admin console: the tables of the two
  languages, the registry, and \<open>getErrorMessage\<close>.  The code of the two apps is the same
  text; their tables differ, so the shared functions take the registry as an argument and
  each app instantiates them.  Chinese text is written with every code unit above 127 as
  \<open>%uXXXX\<close> (what JavaScript's \<open>escape\<close> gives).  The console warning about a missing code is
  not modelled.
\<close>

subsection \<open>Registry and lookup\<close>

type_synonym table = "(string \<times> string) list"

type_synonym registry = "(string \<times> table) list"

definition UNKNOWN_CODE :: string where "UNKNOWN_CODE = ''__unknown__''"

definition NETWORK_CODE :: string where "NETWORK_CODE = ''__network__''"

definition FALLBACK_LOCALE :: string where "FALLBACK_LOCALE = ''en''"

definition SUPPORTED_LOCALES :: "string list" where "SUPPORTED_LOCALES = [''en'', ''zh-CN'']"

text \<open>What \<open>messages[locale]\<close> can be: a table, a member of \<open>Object.prototype\<close> (the registry
  is a plain object), or \<open>undefined\<close>.\<close>

datatype table_ref = Table table | HostTable string | NoTable

definition table_of :: "registry \<Rightarrow> string \<Rightarrow> table_ref" where
  "table_of reg loc = (case map_of reg loc of
     Some t \<Rightarrow> Table t
   | None \<Rightarrow> if loc \<in> set object_prototype then HostTable loc else NoTable)"

text \<open>An own property that is a non-empty string.  Of the prototype members, the functions have
  one such property, their \<open>name\<close>.\<close>

fun lookup :: "table_ref \<Rightarrow> string \<Rightarrow> string option" where
  "lookup (Table t) code = (case map_of t code of
     Some v \<Rightarrow> if length v > 0 then Some v else None | None \<Rightarrow> None)"
| "lookup (HostTable n) code =
     (if code = ''name'' \<and> n \<noteq> ''__proto__''
      then Some (if n = ''constructor'' then ''Object'' else n) else None)"
| "lookup NoTable code = None"

definition LAST_RESORT :: string where
  "LAST_RESORT = ''An unexpected error occurred. Please try again later.''"

definition resolved :: "registry \<Rightarrow> string \<Rightarrow> table_ref" where
  "resolved reg loc = (case table_of reg loc of NoTable \<Rightarrow> table_of reg FALLBACK_LOCALE | t \<Rightarrow> t)"

definition message_in :: "registry \<Rightarrow> string \<Rightarrow> string \<Rightarrow> string" where
  "message_in reg code loc =
     (let table = resolved reg loc in
      case lookup table code of
        Some direct \<Rightarrow> direct
      | None \<Rightarrow>
          (case lookup table UNKNOWN_CODE of
             Some fallback \<Rightarrow> fallback
           | None \<Rightarrow> (case lookup (table_of reg FALLBACK_LOCALE) UNKNOWN_CODE of
                        Some fallback \<Rightarrow> fallback | None \<Rightarrow> LAST_RESORT)))"

subsection \<open>The user portal\<close>

definition en :: "(string \<times> string) list" where
  "en =
    [(''__unknown__'', ''An unexpected error occurred. Please try again later.''),
     (''__network__'', ''Network connection failed. Please check your network and try again.''),
     (''NET_CONNECTION_FAILED'', ''Upstream connection failed''),
     (''NET_TIMEOUT'', ''The request timed out''),
     (''DB_CONNECTION_ERROR'', ''The service is temporarily unavailable''),
     (''DB_QUERY_ERROR'', ''The service is temporarily unavailable''),
     (''DB_CONSTRAINT_VIOLATION'', ''Data conflict''),
     (''VALIDATION_INVALID_INPUT'', ''Invalid input''),
     (''VALIDATION_MISSING_REQUIRED_FIELD'', ''A required field is missing''),
     (''VALIDATION_FORMAT_ERROR'', ''Invalid format''),
     (''VALIDATION_PASSWORD_TOO_SHORT'', ''The password is too short''),
     (''VALIDATION_RESOURCE_NOT_FOUND'', ''Resource not found''),
     (''VALIDATION_RESOURCE_CONFLICT'', ''The resource already exists or conflicts''),
     (''AUTH_INVALID_CREDENTIALS'', ''Incorrect username or password''),
     (''AUTH_TOKEN_EXPIRED'', ''Your session has expired''),
     (''AUTH_TOKEN_INVALID'', ''Invalid credentials''),
     (''AUTH_SESSION_REQUIRED'', ''Please sign in first''),
     (''AUTHZ_ACCESS_DENIED'', ''Access denied''),
     (''AUTHZ_INSUFFICIENT_PERMISSIONS'', ''Insufficient permissions''),
     (''INTERNAL_ERROR'', ''Internal server error''),
     (''VALIDATION_USERNAME_TAKEN'', ''This username is already taken''),
     (''VALIDATION_EMAIL_TAKEN'', ''This email address is already registered''),
     (''VALIDATION_CREDENTIAL_ALREADY_REGISTERED'', ''This security key is already registered''),
     (''VALIDATION_RESET_TOKEN_INVALID'', ''This reset link has expired. Please request a new one''),
     (''VALIDATION_VERIFICATION_TOKEN_INVALID'', ''This verification link has expired. Please send a new email''),
     (''VALIDATION_DEVICE_CODE_INVALID'', ''The device code is invalid, expired, or already used''),
     (''VALIDATION_RATE_LIMITED'', ''Too many requests. Please try again later''),
     (''VALIDATION_REDIRECT_URI_NOT_REGISTERED'', ''The logout redirect URI is not registered''),
     (''AUTH_MFA_CODE_INVALID'', ''Incorrect verification code''),
     (''AUTH_MFA_NOT_CONFIGURED'', ''Two-factor authentication is not configured yet. Set it up first''),
     (''invalid_request'', ''Missing or invalid request parameters''),
     (''invalid_client'', ''Client authentication failed''),
     (''invalid_grant'', ''The authorization grant is invalid or expired''),
     (''unauthorized_client'', ''The client is not allowed to use this grant type''),
     (''unsupported_grant_type'', ''Unsupported grant type''),
     (''invalid_scope'', ''The requested scope is invalid''),
     (''server_error'', ''Internal server error''),
     (''temporarily_unavailable'', ''The service is temporarily unavailable''),
     (''access_denied'', ''The authorization request was denied''),
     (''unsupported_token_type'', ''Unsupported token type''),
     (''authorization_pending'', ''Authorization is not complete yet. Please try again later''),
     (''slow_down'', ''Polling too frequently. Please slow down''),
     (''expired_token'', ''The device code has expired. Please restart the authorization''),
     (''invalid_token'', ''The access token is invalid or expired''),
     (''insufficient_scope'', ''Insufficient permissions: a required scope is missing''),
     (''login_required'', ''Sign-in is required to complete authorization''),
     (''consent_required'', ''Your consent is required to complete authorization''),
     (''interaction_required'', ''User interaction is required to complete authorization'')]"

definition zhCN :: "(string \<times> string) list" where
  "zhCN =
    [(''__unknown__'', ''%u53D1%u751F%u672A%u77E5%u9519%u8BEF%uFF0C%u8BF7%u7A0D%u540E%u91CD%u8BD5''),
     (''__network__'', ''%u7F51%u7EDC%u8FDE%u63A5%u5931%u8D25%uFF0C%u8BF7%u68C0%u67E5%u7F51%u7EDC%u540E%u91CD%u8BD5''),
     (''NET_CONNECTION_FAILED'', ''%u4E0A%u6E38%u8FDE%u63A5%u5931%u8D25''),
     (''NET_TIMEOUT'', ''%u8BF7%u6C42%u8D85%u65F6''),
     (''DB_CONNECTION_ERROR'', ''%u670D%u52A1%u6682%u65F6%u4E0D%u53EF%u7528''),
     (''DB_QUERY_ERROR'', ''%u670D%u52A1%u6682%u65F6%u4E0D%u53EF%u7528''),
     (''DB_CONSTRAINT_VIOLATION'', ''%u6570%u636E%u51B2%u7A81''),
     (''VALIDATION_INVALID_INPUT'', ''%u8F93%u5165%u53C2%u6570%u6709%u8BEF''),
     (''VALIDATION_MISSING_REQUIRED_FIELD'', ''%u7F3A%u5C11%u5FC5%u586B%u5B57%u6BB5''),
     (''VALIDATION_FORMAT_ERROR'', ''%u683C%u5F0F%u4E0D%u6B63%u786E''),
     (''VALIDATION_PASSWORD_TOO_SHORT'', ''%u5BC6%u7801%u957F%u5EA6%u4E0D%u8DB3''),
     (''VALIDATION_RESOURCE_NOT_FOUND'', ''%u8D44%u6E90%u4E0D%u5B58%u5728''),
     (''VALIDATION_RESOURCE_CONFLICT'', ''%u8D44%u6E90%u5DF2%u5B58%u5728%u6216%u51B2%u7A81''),
     (''AUTH_INVALID_CREDENTIALS'', ''%u7528%u6237%u540D%u6216%u5BC6%u7801%u9519%u8BEF''),
     (''AUTH_TOKEN_EXPIRED'', ''%u767B%u5F55%u5DF2%u8FC7%u671F''),
     (''AUTH_TOKEN_INVALID'', ''%u767B%u5F55%u51ED%u8BC1%u65E0%u6548''),
     (''AUTH_SESSION_REQUIRED'', ''%u9700%u8981%u5148%u767B%u5F55''),
     (''AUTHZ_ACCESS_DENIED'', ''%u6CA1%u6709%u8BBF%u95EE%u6743%u9650''),
     (''AUTHZ_INSUFFICIENT_PERMISSIONS'', ''%u6743%u9650%u4E0D%u8DB3''),
     (''INTERNAL_ERROR'', ''%u670D%u52A1%u5668%u5185%u90E8%u9519%u8BEF''),
     (''VALIDATION_USERNAME_TAKEN'', ''%u8BE5%u7528%u6237%u540D%u5DF2%u88AB%u6CE8%u518C''),
     (''VALIDATION_EMAIL_TAKEN'', ''%u8BE5%u90AE%u7BB1%u5DF2%u88AB%u6CE8%u518C''),
     (''VALIDATION_CREDENTIAL_ALREADY_REGISTERED'', ''%u8BE5%u5B89%u5168%u5BC6%u94A5%u5DF2%u6CE8%u518C%uFF0C%u65E0%u9700%u91CD%u590D%u6DFB%u52A0''),
     (''VALIDATION_RESET_TOKEN_INVALID'', ''%u91CD%u7F6E%u94FE%u63A5%u5DF2%u5931%u6548%uFF0C%u8BF7%u91CD%u65B0%u7533%u8BF7''),
     (''VALIDATION_VERIFICATION_TOKEN_INVALID'', ''%u9A8C%u8BC1%u94FE%u63A5%u5DF2%u5931%u6548%uFF0C%u8BF7%u91CD%u65B0%u53D1%u9001%u90AE%u4EF6''),
     (''VALIDATION_DEVICE_CODE_INVALID'', ''%u8BBE%u5907%u7801%u65E0%u6548%u3001%u5DF2%u8FC7%u671F%u6216%u5DF2%u88AB%u5904%u7406''),
     (''VALIDATION_RATE_LIMITED'', ''%u8BF7%u6C42%u8FC7%u4E8E%u9891%u7E41%uFF0C%u8BF7%u7A0D%u540E%u91CD%u8BD5''),
     (''VALIDATION_REDIRECT_URI_NOT_REGISTERED'', ''%u767B%u51FA%u91CD%u5B9A%u5411%u5730%u5740%u672A%u6CE8%u518C''),
     (''AUTH_MFA_CODE_INVALID'', ''%u9A8C%u8BC1%u7801%u4E0D%u6B63%u786E''),
     (''AUTH_MFA_NOT_CONFIGURED'', ''%u5C1A%u672A%u8BBE%u7F6E%u53CC%u91CD%u9A8C%u8BC1%uFF0C%u8BF7%u5148%u5B8C%u6210%u8BBE%u7F6E''),
     (''invalid_request'', ''%u8BF7%u6C42%u53C2%u6570%u7F3A%u5931%u6216%u65E0%u6548''),
     (''invalid_client'', ''%u5BA2%u6237%u7AEF%u8BA4%u8BC1%u5931%u8D25''),
     (''invalid_grant'', ''%u6388%u6743%u8BB8%u53EF%u65E0%u6548%u6216%u5DF2%u8FC7%u671F''),
     (''unauthorized_client'', ''%u5BA2%u6237%u7AEF%u65E0%u6743%u4F7F%u7528%u8BE5%u6388%u6743%u7C7B%u578B''),
     (''unsupported_grant_type'', ''%u4E0D%u652F%u6301%u7684%u6388%u6743%u7C7B%u578B''),
     (''invalid_scope'', ''%u8BF7%u6C42%u7684 scope %u65E0%u6548''),
     (''server_error'', ''%u670D%u52A1%u5668%u5185%u90E8%u9519%u8BEF''),
     (''temporarily_unavailable'', ''%u670D%u52A1%u6682%u65F6%u4E0D%u53EF%u7528''),
     (''access_denied'', ''%u6388%u6743%u8BF7%u6C42%u88AB%u62D2%u7EDD''),
     (''unsupported_token_type'', ''%u4E0D%u652F%u6301%u7684%u4EE4%u724C%u7C7B%u578B''),
     (''authorization_pending'', ''%u6388%u6743%u5C1A%u672A%u5B8C%u6210%uFF0C%u8BF7%u7A0D%u540E%u91CD%u8BD5''),
     (''slow_down'', ''%u8F6E%u8BE2%u8FC7%u4E8E%u9891%u7E41%uFF0C%u8BF7%u964D%u4F4E%u9891%u7387''),
     (''expired_token'', ''%u8BBE%u5907%u7801%u5DF2%u8FC7%u671F%uFF0C%u8BF7%u91CD%u65B0%u53D1%u8D77%u6388%u6743''),
     (''invalid_token'', ''%u63D0%u4F9B%u7684%u8BBF%u95EE%u4EE4%u724C%u65E0%u6548%u6216%u5DF2%u8FC7%u671F''),
     (''insufficient_scope'', ''%u6743%u9650%u4E0D%u8DB3%uFF0C%u7F3A%u5C11%u6240%u9700%u7684 scope''),
     (''login_required'', ''%u9700%u8981%u91CD%u65B0%u767B%u5F55%u4EE5%u5B8C%u6210%u6388%u6743''),
     (''consent_required'', ''%u9700%u8981%u7528%u6237%u540C%u610F%u624D%u80FD%u5B8C%u6210%u6388%u6743''),
     (''interaction_required'', ''%u9700%u8981%u7528%u6237%u4EA4%u4E92%u624D%u80FD%u5B8C%u6210%u6388%u6743'')]"

definition messages :: registry where
  "messages = [(''en'', en), (''zh-CN'', zhCN)]"

definition getErrorMessage :: "string \<Rightarrow> string \<Rightarrow> string" where
  "getErrorMessage code loc = message_in messages code loc"

subsection \<open>The admin console\<close>

definition admin_en :: "(string \<times> string) list" where
  "admin_en =
    [(''__unknown__'', ''An unexpected error occurred. Please try again later.''),
     (''__network__'', ''Network connection failed. Please check your network and try again.''),
     (''NET_CONNECTION_FAILED'', ''Upstream connection failed''),
     (''NET_TIMEOUT'', ''The request timed out''),
     (''DB_CONNECTION_ERROR'', ''The service is temporarily unavailable''),
     (''DB_QUERY_ERROR'', ''The service is temporarily unavailable''),
     (''DB_CONSTRAINT_VIOLATION'', ''Data conflict''),
     (''VALIDATION_INVALID_INPUT'', ''Invalid input''),
     (''VALIDATION_MISSING_REQUIRED_FIELD'', ''A required field is missing''),
     (''VALIDATION_FORMAT_ERROR'', ''Invalid format''),
     (''VALIDATION_PASSWORD_TOO_SHORT'', ''The password is too short''),
     (''VALIDATION_RESOURCE_NOT_FOUND'', ''Resource not found''),
     (''VALIDATION_RESOURCE_CONFLICT'', ''The resource already exists or conflicts''),
     (''AUTH_INVALID_CREDENTIALS'', ''Incorrect username or password''),
     (''AUTH_TOKEN_EXPIRED'', ''Your session has expired''),
     (''AUTH_TOKEN_INVALID'', ''Invalid credentials''),
     (''AUTH_SESSION_REQUIRED'', ''Please sign in first''),
     (''AUTHZ_ACCESS_DENIED'', ''Access denied''),
     (''AUTHZ_INSUFFICIENT_PERMISSIONS'', ''Insufficient permissions''),
     (''INTERNAL_ERROR'', ''Internal server error''),
     (''VALIDATION_USERNAME_TAKEN'', ''This username is already taken''),
     (''VALIDATION_EMAIL_TAKEN'', ''This email address is already registered''),
     (''VALIDATION_CREDENTIAL_ALREADY_REGISTERED'', ''This security key is already registered''),
     (''VALIDATION_RESET_TOKEN_INVALID'', ''This reset link has expired. Please request a new one''),
     (''VALIDATION_VERIFICATION_TOKEN_INVALID'', ''This verification link has expired. Please send a new email''),
     (''VALIDATION_DEVICE_CODE_INVALID'', ''The device code is invalid, expired, or already used''),
     (''VALIDATION_RATE_LIMITED'', ''Too many requests. Please try again later''),
     (''VALIDATION_REDIRECT_URI_NOT_REGISTERED'', ''The logout redirect URI is not registered''),
     (''EMAIL_TEMPLATE_NOT_FOUND'', ''Email template not found''),
     (''EMAIL_TEMPLATE_CONTENT_REJECTED'', ''Template rejected: forbidden tag or outbound link outside email.allowed_link_domains''),
     (''EMAIL_TEST_RECIPIENT_DENIED'', ''Test recipient not whitelisted (your own address or email.test_recipients)''),
     (''EMAIL_TEST_QUOTA_EXCEEDED'', ''Test-send quota reached. Please try again later''),
     (''AUDIT_EXPORT_WINDOW_REQUIRED'', ''Audit export requires a time window (from/to) or an explicit full export''),
     (''AUDIT_EXPORT_TOO_LARGE'', ''Export exceeds the row cap. Please narrow the time window''),
     (''CLAIM_MAPPING_RESERVED_CLAIM'', ''Mapped claim name is reserved and cannot shadow a standard claim''),
     (''CLAIM_MAPPING_INVALID_SOURCE'', ''Source path is outside the whitelist (custom_attributes.<key> or user.display_name only)''),
     (''CLAIM_MAPPING_FORBIDDEN_SCOPE'', ''Trigger scope not allowed (openid is always granted; mappings on it are forbidden)''),
     (''CUSTOM_ATTRIBUTES_INVALID'', ''Invalid custom attributes (object, depth <= 2, <= 8KB, lowercase-first keys)''),
     (''AUTH_MFA_CODE_INVALID'', ''Incorrect verification code''),
     (''AUTH_MFA_NOT_CONFIGURED'', ''Two-factor authentication is not configured yet. Set it up first''),
     (''invalid_request'', ''Missing or invalid request parameters''),
     (''invalid_client'', ''Client authentication failed''),
     (''invalid_grant'', ''The authorization grant is invalid or expired''),
     (''unauthorized_client'', ''The client is not allowed to use this grant type''),
     (''unsupported_grant_type'', ''Unsupported grant type''),
     (''invalid_scope'', ''The requested scope is invalid''),
     (''server_error'', ''Internal server error''),
     (''temporarily_unavailable'', ''The service is temporarily unavailable''),
     (''access_denied'', ''The authorization request was denied''),
     (''unsupported_token_type'', ''Unsupported token type''),
     (''authorization_pending'', ''Authorization is not complete yet. Please try again later''),
     (''slow_down'', ''Polling too frequently. Please slow down''),
     (''expired_token'', ''The device code has expired. Please restart the authorization''),
     (''invalid_token'', ''The access token is invalid or expired''),
     (''insufficient_scope'', ''Insufficient permissions: a required scope is missing''),
     (''login_required'', ''Sign-in is required to complete authorization''),
     (''consent_required'', ''Your consent is required to complete authorization''),
     (''interaction_required'', ''User interaction is required to complete authorization'')]"

definition admin_zhCN :: "(string \<times> string) list" where
  "admin_zhCN =
    [(''__unknown__'', ''%u53D1%u751F%u672A%u77E5%u9519%u8BEF%uFF0C%u8BF7%u7A0D%u540E%u91CD%u8BD5''),
     (''__network__'', ''%u7F51%u7EDC%u8FDE%u63A5%u5931%u8D25%uFF0C%u8BF7%u68C0%u67E5%u7F51%u7EDC%u540E%u91CD%u8BD5''),
     (''NET_CONNECTION_FAILED'', ''%u4E0A%u6E38%u8FDE%u63A5%u5931%u8D25''),
     (''NET_TIMEOUT'', ''%u8BF7%u6C42%u8D85%u65F6''),
     (''DB_CONNECTION_ERROR'', ''%u670D%u52A1%u6682%u65F6%u4E0D%u53EF%u7528''),
     (''DB_QUERY_ERROR'', ''%u670D%u52A1%u6682%u65F6%u4E0D%u53EF%u7528''),
     (''DB_CONSTRAINT_VIOLATION'', ''%u6570%u636E%u51B2%u7A81''),
     (''VALIDATION_INVALID_INPUT'', ''%u8F93%u5165%u53C2%u6570%u6709%u8BEF''),
     (''VALIDATION_MISSING_REQUIRED_FIELD'', ''%u7F3A%u5C11%u5FC5%u586B%u5B57%u6BB5''),
     (''VALIDATION_FORMAT_ERROR'', ''%u683C%u5F0F%u4E0D%u6B63%u786E''),
     (''VALIDATION_PASSWORD_TOO_SHORT'', ''%u5BC6%u7801%u957F%u5EA6%u4E0D%u8DB3''),
     (''VALIDATION_RESOURCE_NOT_FOUND'', ''%u8D44%u6E90%u4E0D%u5B58%u5728''),
     (''VALIDATION_RESOURCE_CONFLICT'', ''%u8D44%u6E90%u5DF2%u5B58%u5728%u6216%u51B2%u7A81''),
     (''AUTH_INVALID_CREDENTIALS'', ''%u7528%u6237%u540D%u6216%u5BC6%u7801%u9519%u8BEF''),
     (''AUTH_TOKEN_EXPIRED'', ''%u767B%u5F55%u5DF2%u8FC7%u671F''),
     (''AUTH_TOKEN_INVALID'', ''%u767B%u5F55%u51ED%u8BC1%u65E0%u6548''),
     (''AUTH_SESSION_REQUIRED'', ''%u9700%u8981%u5148%u767B%u5F55''),
     (''AUTHZ_ACCESS_DENIED'', ''%u6CA1%u6709%u8BBF%u95EE%u6743%u9650''),
     (''AUTHZ_INSUFFICIENT_PERMISSIONS'', ''%u6743%u9650%u4E0D%u8DB3''),
     (''INTERNAL_ERROR'', ''%u670D%u52A1%u5668%u5185%u90E8%u9519%u8BEF''),
     (''VALIDATION_USERNAME_TAKEN'', ''%u8BE5%u7528%u6237%u540D%u5DF2%u88AB%u6CE8%u518C''),
     (''VALIDATION_EMAIL_TAKEN'', ''%u8BE5%u90AE%u7BB1%u5DF2%u88AB%u6CE8%u518C''),
     (''VALIDATION_CREDENTIAL_ALREADY_REGISTERED'', ''%u8BE5%u5B89%u5168%u5BC6%u94A5%u5DF2%u6CE8%u518C%uFF0C%u65E0%u9700%u91CD%u590D%u6DFB%u52A0''),
     (''VALIDATION_RESET_TOKEN_INVALID'', ''%u91CD%u7F6E%u94FE%u63A5%u5DF2%u5931%u6548%uFF0C%u8BF7%u91CD%u65B0%u7533%u8BF7''),
     (''VALIDATION_VERIFICATION_TOKEN_INVALID'', ''%u9A8C%u8BC1%u94FE%u63A5%u5DF2%u5931%u6548%uFF0C%u8BF7%u91CD%u65B0%u53D1%u9001%u90AE%u4EF6''),
     (''VALIDATION_DEVICE_CODE_INVALID'', ''%u8BBE%u5907%u7801%u65E0%u6548%u3001%u5DF2%u8FC7%u671F%u6216%u5DF2%u88AB%u5904%u7406''),
     (''VALIDATION_RATE_LIMITED'', ''%u8BF7%u6C42%u8FC7%u4E8E%u9891%u7E41%uFF0C%u8BF7%u7A0D%u540E%u91CD%u8BD5''),
     (''VALIDATION_REDIRECT_URI_NOT_REGISTERED'', ''%u767B%u51FA%u91CD%u5B9A%u5411%u5730%u5740%u672A%u6CE8%u518C''),
     (''EMAIL_TEMPLATE_NOT_FOUND'', ''%u90AE%u4EF6%u6A21%u677F%u4E0D%u5B58%u5728''),
     (''EMAIL_TEMPLATE_CONTENT_REJECTED'', ''%u6A21%u677F%u542B%u7981%u7528%u6807%u7B7E%u6216%u5916%u94FE%u57DF%u540D%u4E0D%u5728%u5141%u8BB8%u5217%u8868''),
     (''EMAIL_TEST_RECIPIENT_DENIED'', ''%u6D4B%u8BD5%u6536%u4EF6%u4EBA%u4E0D%u5728%u767D%u540D%u5355%uFF08%u987B%u4E3A%u672C%u4EBA%u90AE%u7BB1%u6216 email.test_recipients %u914D%u7F6E%u9879%uFF09''),
     (''EMAIL_TEST_QUOTA_EXCEEDED'', ''%u6D4B%u8BD5%u53D1%u9001%u914D%u989D%u5DF2%u7528%u5C3D%uFF0C%u8BF7%u7A0D%u540E%u91CD%u8BD5''),
     (''AUDIT_EXPORT_WINDOW_REQUIRED'', ''%u5BFC%u51FA%u5BA1%u8BA1%u65E5%u5FD7%u5FC5%u987B%u9650%u5B9A%u65F6%u95F4%u8303%u56F4%uFF08from/to%uFF09%u6216%u663E%u5F0F%u9009%u62E9%u5168%u91CF%u5BFC%u51FA''),
     (''AUDIT_EXPORT_TOO_LARGE'', ''%u5BFC%u51FA%u884C%u6570%u8D85%u8FC7%u4E0A%u9650%uFF0C%u8BF7%u6536%u7A84%u65F6%u95F4%u8303%u56F4%u540E%u91CD%u8BD5''),
     (''CLAIM_MAPPING_RESERVED_CLAIM'', ''%u6620%u5C04%u7684 claim %u540D%u4E3A%u4FDD%u7559%u5B57%uFF0C%u4E0D%u53EF%u8986%u76D6%u6807%u51C6%u58F0%u660E''),
     (''CLAIM_MAPPING_INVALID_SOURCE'', ''%u6620%u5C04%u6E90%u8DEF%u5F84%u4E0D%u5728%u767D%u540D%u5355%uFF08%u4EC5 custom_attributes.<key> %u6216 user.display_name%uFF09''),
     (''CLAIM_MAPPING_FORBIDDEN_SCOPE'', ''%u89E6%u53D1 scope %u4E0D%u5141%u8BB8%uFF08openid %u4E3A%u5FC5%u5E26 scope%uFF0C%u7981%u6B62%u6302%u6620%u5C04%uFF09''),
     (''CUSTOM_ATTRIBUTES_INVALID'', ''%u81EA%u5B9A%u4E49%u5C5E%u6027%u4E0D%u5408%u6CD5%uFF08%u5BF9%u8C61%u3001%u6DF1%u5EA6%u22642%u3001%u22648KB%u3001%u952E%u540D%u5C0F%u5199%u5B57%u6BCD%u5F00%u5934%uFF09''),
     (''AUTH_MFA_CODE_INVALID'', ''%u9A8C%u8BC1%u7801%u4E0D%u6B63%u786E''),
     (''AUTH_MFA_NOT_CONFIGURED'', ''%u5C1A%u672A%u8BBE%u7F6E%u53CC%u91CD%u9A8C%u8BC1%uFF0C%u8BF7%u5148%u5B8C%u6210%u8BBE%u7F6E''),
     (''invalid_request'', ''%u8BF7%u6C42%u53C2%u6570%u7F3A%u5931%u6216%u65E0%u6548''),
     (''invalid_client'', ''%u5BA2%u6237%u7AEF%u8BA4%u8BC1%u5931%u8D25''),
     (''invalid_grant'', ''%u6388%u6743%u8BB8%u53EF%u65E0%u6548%u6216%u5DF2%u8FC7%u671F''),
     (''unauthorized_client'', ''%u5BA2%u6237%u7AEF%u65E0%u6743%u4F7F%u7528%u8BE5%u6388%u6743%u7C7B%u578B''),
     (''unsupported_grant_type'', ''%u4E0D%u652F%u6301%u7684%u6388%u6743%u7C7B%u578B''),
     (''invalid_scope'', ''%u8BF7%u6C42%u7684 scope %u65E0%u6548''),
     (''server_error'', ''%u670D%u52A1%u5668%u5185%u90E8%u9519%u8BEF''),
     (''temporarily_unavailable'', ''%u670D%u52A1%u6682%u65F6%u4E0D%u53EF%u7528''),
     (''access_denied'', ''%u6388%u6743%u8BF7%u6C42%u88AB%u62D2%u7EDD''),
     (''unsupported_token_type'', ''%u4E0D%u652F%u6301%u7684%u4EE4%u724C%u7C7B%u578B''),
     (''authorization_pending'', ''%u6388%u6743%u5C1A%u672A%u5B8C%u6210%uFF0C%u8BF7%u7A0D%u540E%u91CD%u8BD5''),
     (''slow_down'', ''%u8F6E%u8BE2%u8FC7%u4E8E%u9891%u7E41%uFF0C%u8BF7%u964D%u4F4E%u9891%u7387''),
     (''expired_token'', ''%u8BBE%u5907%u7801%u5DF2%u8FC7%u671F%uFF0C%u8BF7%u91CD%u65B0%u53D1%u8D77%u6388%u6743''),
     (''invalid_token'', ''%u63D0%u4F9B%u7684%u8BBF%u95EE%u4EE4%u724C%u65E0%u6548%u6216%u5DF2%u8FC7%u671F''),
     (''insufficient_scope'', ''%u6743%u9650%u4E0D%u8DB3%uFF0C%u7F3A%u5C11%u6240%u9700%u7684 scope''),
     (''login_required'', ''%u9700%u8981%u91CD%u65B0%u767B%u5F55%u4EE5%u5B8C%u6210%u6388%u6743''),
     (''consent_required'', ''%u9700%u8981%u7528%u6237%u540C%u610F%u624D%u80FD%u5B8C%u6210%u6388%u6743''),
     (''interaction_required'', ''%u9700%u8981%u7528%u6237%u4EA4%u4E92%u624D%u80FD%u5B8C%u6210%u6388%u6743'')]"

definition admin_messages :: registry where
  "admin_messages = [(''en'', admin_en), (''zh-CN'', admin_zhCN)]"

definition admin_getErrorMessage :: "string \<Rightarrow> string \<Rightarrow> string" where
  "admin_getErrorMessage code loc = message_in admin_messages code loc"

subsection \<open>What a catalog promises\<close>

text \<open>
  The contract of a catalog: its locales are the supported ones, every table has the same
  keys as the fallback table, no text is empty, and the two reserved keys are there.
\<close>

definition catalog_keys :: "registry \<Rightarrow> string list" where
  "catalog_keys reg = map fst (snd (hd reg))"

definition catalog_ok :: "registry \<Rightarrow> bool" where
  "catalog_ok reg \<longleftrightarrow> map fst reg = SUPPORTED_LOCALES \<and>
     list_all (\<lambda>t. map fst (snd t) = catalog_keys reg \<and> list_all (\<lambda>e. snd e \<noteq> []) (snd t)) reg \<and>
     UNKNOWN_CODE \<in> set (catalog_keys reg) \<and> NETWORK_CODE \<in> set (catalog_keys reg)"

lemma lookup_Table_Some [simp]: "lookup (Table t) code = Some v \<longleftrightarrow> map_of t code = Some v \<and> v \<noteq> []"
  by (auto split: option.splits)

lemma lookup_nonempty: "lookup (table_of reg loc) code = Some v \<Longrightarrow> v \<noteq> []"
  by (auto simp: table_of_def object_prototype_def split: option.splits if_splits)

lemma message_in_nonempty: "message_in reg code loc \<noteq> []"
proof -
  have "resolved reg loc = table_of reg loc \<or> resolved reg loc = table_of reg FALLBACK_LOCALE"
    by (simp add: resolved_def split: table_ref.split)
  then have "lookup (resolved reg loc) c = Some v \<Longrightarrow> v \<noteq> []" for c v by (metis lookup_nonempty)
  then show ?thesis
    using lookup_nonempty by (auto simp: message_in_def Let_def LAST_RESORT_def split: option.split)
qed

locale message_catalog =
  fixes reg :: registry
  assumes ok: "catalog_ok reg"
begin

lemma supported_table: "loc \<in> set SUPPORTED_LOCALES \<Longrightarrow> \<exists>t. map_of reg loc = Some t"
  using ok by (metis catalog_ok_def map_of_eq_None_iff not_None_eq set_map)

lemma table_facts:
  assumes "map_of reg loc = Some t"
  shows "map fst t = catalog_keys reg" and "\<And>k v. map_of t k = Some v \<Longrightarrow> v \<noteq> []"
proof -
  have "(loc, t) \<in> set reg" using assms by (rule map_of_SomeD)
  with ok have t: "map fst t = catalog_keys reg \<and> list_all (\<lambda>e. snd e \<noteq> []) t"
    unfolding catalog_ok_def list_all_iff [of _ reg] by force
  then show "map fst t = catalog_keys reg" by simp
  show "map_of t k = Some v \<Longrightarrow> v \<noteq> []" for k v
    using t by (force simp: list_all_iff dest: map_of_SomeD)
qed

lemma resolved_table: "map_of reg loc = Some t \<Longrightarrow> resolved reg loc = Table t"
  by (simp add: resolved_def table_of_def)

lemma fallback_supported: "FALLBACK_LOCALE \<in> set SUPPORTED_LOCALES"
  by (simp add: FALLBACK_LOCALE_def SUPPORTED_LOCALES_def)

lemma known_code:
  assumes "code \<in> set (catalog_keys reg)" and t: "map_of reg loc = Some t"
  shows "map_of t code = Some (message_in reg code loc)"
proof -
  obtain v where v: "map_of t code = Some v"
    using assms(1) table_facts(1) [OF t] by (metis map_of_eq_None_iff not_None_eq set_map)
  with table_facts(2) [OF t v] have "lookup (Table t) code = Some v" by simp
  then show ?thesis by (simp only: v message_in_def resolved_table [OF t] Let_def option.case)
qed

lemma unknown_code:
  assumes "loc \<in> set SUPPORTED_LOCALES" and "code \<notin> set (catalog_keys reg)"
  shows "message_in reg code loc = message_in reg UNKNOWN_CODE loc"
proof -
  from assms(1) obtain t where t: "map_of reg loc = Some t" using supported_table by blast
  have "map_of t code = None" using table_facts(1) [OF t] assms(2) by (metis map_of_eq_None_iff set_map)
  then have none: "lookup (Table t) code = None" by simp
  obtain v where v: "lookup (Table t) UNKNOWN_CODE = Some v"
    using known_code [OF _ t, of UNKNOWN_CODE] ok message_in_nonempty by (auto simp: catalog_ok_def)
  show ?thesis by (simp only: message_in_def resolved_table [OF t] Let_def none v option.case)
qed

lemma unregistered_locale:
  assumes "loc \<notin> set SUPPORTED_LOCALES" and "loc \<notin> set object_prototype"
  shows "message_in reg code loc = message_in reg code FALLBACK_LOCALE"
proof -
  have "map_of reg loc = None" using ok assms(1) by (metis catalog_ok_def map_of_eq_None_iff set_map)
  with assms(2) have "table_of reg loc = NoTable" by (simp add: table_of_def)
  then have "resolved reg loc = resolved reg FALLBACK_LOCALE"
    using resolved_table supported_table [OF fallback_supported] by (auto simp: resolved_def table_of_def)
  then show ?thesis by (simp add: message_in_def)
qed

text \<open>Whatever the code, the text shown comes from the table of the language.\<close>

lemma message_from_table:
  assumes "loc \<in> set SUPPORTED_LOCALES" and "map_of reg loc = Some t"
  shows "message_in reg code loc \<in> snd ` set t"
proof -
  have "UNKNOWN_CODE \<in> set (catalog_keys reg)" using ok by (simp add: catalog_ok_def)
  then have "\<exists>c. map_of t c = Some (message_in reg code loc)"
    using known_code [OF _ assms(2)] unknown_code [OF assms(1)] by metis
  then show ?thesis by (force dest: map_of_SomeD)
qed

text \<open>The contract as one statement.\<close>

lemma complete:
  assumes "loc \<in> set SUPPORTED_LOCALES"
  shows "case map_of reg loc of
      None \<Rightarrow> False
    | Some t \<Rightarrow> message_in reg code loc \<noteq> [] \<and>
        (if code \<in> set (catalog_keys reg) then map_of t code = Some (message_in reg code loc)
         else map_of t UNKNOWN_CODE = Some (message_in reg code loc))"
proof -
  obtain t where t: "map_of reg loc = Some t" using supported_table [OF assms] by blast
  have "UNKNOWN_CODE \<in> set (catalog_keys reg)" using ok by (simp add: catalog_ok_def)
  with known_code [OF _ t] unknown_code [OF assms, of code] message_in_nonempty show ?thesis
    unfolding t option.case by auto
qed

end

interpretation user_catalog: message_catalog messages
  by unfold_locales code_simp

interpretation admin_catalog: message_catalog admin_messages
  by unfold_locales code_simp

lemma user_keys: "set (catalog_keys messages) = fst ` set en"
  by (simp only: catalog_keys_def messages_def list.sel snd_conv set_map)

lemma admin_keys: "set (catalog_keys admin_messages) = fst ` set admin_en"
  by (simp only: catalog_keys_def admin_messages_def list.sel snd_conv set_map)

subsection \<open>Properties\<close>

text \<open>C18. Every known error code has its own text in every supported language: in both apps
  \<open>getErrorMessage\<close> returns the entry of that language's table, the two languages cover exactly
  the same codes, and any other code gets the generic text of the same language.\<close>

theorem error_catalogs_complete:
  assumes "loc \<in> set SUPPORTED_LOCALES"
  shows "(case map_of messages loc of
        None \<Rightarrow> False
      | Some t \<Rightarrow> getErrorMessage code loc \<noteq> [] \<and>
          (if code \<in> fst ` set en then map_of t code = Some (getErrorMessage code loc)
           else map_of t UNKNOWN_CODE = Some (getErrorMessage code loc))) \<and>
     (case map_of admin_messages loc of
        None \<Rightarrow> False
      | Some t \<Rightarrow> admin_getErrorMessage code loc \<noteq> [] \<and>
          (if code \<in> fst ` set admin_en then map_of t code = Some (admin_getErrorMessage code loc)
           else map_of t UNKNOWN_CODE = Some (admin_getErrorMessage code loc)))"
  using user_catalog.complete [OF assms, of code] admin_catalog.complete [OF assms, of code]
  unfolding getErrorMessage_def admin_getErrorMessage_def user_keys admin_keys by (rule conjI)

theorem error_catalogs_complete_witness:
  "map_of zhCN ''invalid_grant'' = Some (getErrorMessage ''invalid_grant'' ''zh-CN'') \<and>
   map_of admin_zhCN UNKNOWN_CODE = Some (admin_getErrorMessage ''no_such_code'' ''zh-CN'')"
proof -
  have zh: "''zh-CN'' \<in> set SUPPORTED_LOCALES" "map_of messages ''zh-CN'' = Some zhCN"
    "map_of admin_messages ''zh-CN'' = Some admin_zhCN"
    by (simp_all add: SUPPORTED_LOCALES_def messages_def admin_messages_def)
  have keys: "''invalid_grant'' \<in> fst ` set en" "''no_such_code'' \<notin> fst ` set admin_en"
    by code_simp+
  show ?thesis
    using error_catalogs_complete [OF zh(1), of "''invalid_grant''"] error_catalogs_complete [OF zh(1), of "''no_such_code''"]
    unfolding zh option.case by (simp only: keys if_True if_False)
qed

definition admin_only_codes :: "string list" where
  "admin_only_codes =
     [''EMAIL_TEMPLATE_NOT_FOUND'', ''EMAIL_TEMPLATE_CONTENT_REJECTED'', ''EMAIL_TEST_RECIPIENT_DENIED'',
      ''EMAIL_TEST_QUOTA_EXCEEDED'', ''AUDIT_EXPORT_WINDOW_REQUIRED'', ''AUDIT_EXPORT_TOO_LARGE'',
      ''CLAIM_MAPPING_RESERVED_CLAIM'', ''CLAIM_MAPPING_INVALID_SOURCE'', ''CLAIM_MAPPING_FORBIDDEN_SCOPE'',
      ''CUSTOM_ATTRIBUTES_INVALID'']"

text \<open>The admin tables are the user tables with the entries of those codes added.\<close>

lemma admin_tables_extend:
  "filter (\<lambda>e. fst e \<notin> set admin_only_codes) admin_en = en"
  "filter (\<lambda>e. fst e \<notin> set admin_only_codes) admin_zhCN = zhCN"
  by code_simp+

lemma map_of_filter_key: "P k \<Longrightarrow> map_of (filter (\<lambda>e. P (fst e)) xs) k = map_of xs k"
  by (induction xs) auto

lemma lookup_shared:
  "code \<notin> set admin_only_codes \<Longrightarrow> lookup (Table admin_en) code = lookup (Table en) code"
  "code \<notin> set admin_only_codes \<Longrightarrow> lookup (Table admin_zhCN) code = lookup (Table zhCN) code"
  using map_of_filter_key [of "\<lambda>k. k \<notin> set admin_only_codes" code] admin_tables_extend
  by (metis lookup.simps(1))+

lemma resolved_cases:
  "(resolved messages loc, resolved admin_messages loc) \<in>
     {(Table en, Table admin_en), (Table zhCN, Table admin_zhCN)} \<union> {(HostTable n, HostTable n) | n. True}"
  by (auto simp: resolved_def table_of_def messages_def admin_messages_def FALLBACK_LOCALE_def)

lemma shared_message:
  assumes "code \<notin> set admin_only_codes"
  shows "admin_getErrorMessage code loc = getErrorMessage code loc"
proof -
  have unk: "UNKNOWN_CODE \<notin> set admin_only_codes" by (simp add: UNKNOWN_CODE_def admin_only_codes_def)
  have fb: "lookup (table_of admin_messages FALLBACK_LOCALE) UNKNOWN_CODE = lookup (table_of messages FALLBACK_LOCALE) UNKNOWN_CODE"
    using lookup_shared [OF unk] by (simp add: table_of_def messages_def admin_messages_def FALLBACK_LOCALE_def del: lookup.simps)
  have "lookup (resolved admin_messages loc) c = lookup (resolved messages loc) c" if "c \<notin> set admin_only_codes" for c
    using resolved_cases [of loc] lookup_shared [OF that] by auto
  note this [OF assms] this [OF unk]
  then show ?thesis
    by (simp only: getErrorMessage_def admin_getErrorMessage_def message_in_def Let_def fb)
qed

text \<open>The two apps speak with one voice: for every locale, supported or not, and every code
  outside the ten that only the admin console knows, both return the same text.\<close>

theorem apps_agree_on_messages:
  assumes "code \<notin> set admin_only_codes"
  shows "admin_getErrorMessage code loc = getErrorMessage code loc"
  using assms by (rule shared_message)

theorem apps_agree_on_messages_witness:
  "admin_getErrorMessage ''AUTH_TOKEN_EXPIRED'' ''zh-CN'' = getErrorMessage ''AUTH_TOKEN_EXPIRED'' ''zh-CN''"
  by (rule apps_agree_on_messages) (simp add: admin_only_codes_def)

end
