(* ===== verification/I18n.thy ===== *)
theory I18n
  imports Messages
begin

section \<open>The active language\<close>

text \<open>
  \<open>services/locale.ts\<close> (the language of the service layer) and \<open>i18n/index.ts\<close> (detection,
  persistence and switching), the same text in both apps.  The state is the composer locale of
  vue-i18n, the plain mirror \<open>current\<close>, whether the getter is installed (the only getter
  the sources install reads the composer), \<open>document.documentElement.lang\<close> and the storage.
\<close>

record locale_state =
  composer :: string
  current :: string
  localeGetter :: bool
  html_lang :: string
  storage :: web_storage

definition LOCALE_STORAGE_KEY :: string where
  "LOCALE_STORAGE_KEY = ''fulla-locale''"

definition setLocaleGetter :: "bool \<Rightarrow> locale_state \<Rightarrow> locale_state" where
  "setLocaleGetter getter s = s\<lparr>localeGetter := getter\<rparr>"

definition getCurrentLocale :: "locale_state \<Rightarrow> string" where
  "getCurrentLocale s = (if localeGetter s then composer s else current s)"

definition setCurrentLocale :: "string \<Rightarrow> locale_state \<Rightarrow> locale_state" where
  "setCurrentLocale l s = s\<lparr>current := l\<rparr>"

definition readStoredLocale :: "web_storage \<Rightarrow> string option" where
  "readStoredLocale st = (case st of
     Unavailable \<Rightarrow> None
   | Available m \<Rightarrow> (case getItem m LOCALE_STORAGE_KEY of
       Some v \<Rightarrow> if v \<in> set SUPPORTED_LOCALES then Some v else None
     | None \<Rightarrow> None))"

text \<open>The navigator: absent, or with its \<open>languages\<close> (possibly missing) and \<open>language\<close>.\<close>

record navigator =
  nav_languages :: "jsval list option"
  nav_language :: jsval

fun match_languages :: "jsval list \<Rightarrow> string" where
  "match_languages [] = FALLBACK_LOCALE"
| "match_languages (JStr lang # langs) =
     (let lower = map to_lower lang in
      if starts_with ''zh'' lower then ''zh-CN''
      else if starts_with ''en'' lower then ''en''
      else match_languages langs)"
| "match_languages (_ # langs) = match_languages langs"

definition localeFromNavigator :: "navigator option \<Rightarrow> string" where
  "localeFromNavigator nav = match_languages (case nav of
     None \<Rightarrow> []
   | Some n \<Rightarrow> (case nav_languages n of Some ls \<Rightarrow> ls | None \<Rightarrow> [nav_language n]))"

text \<open>\<open>None\<close>: there is no \<open>window\<close>.\<close>

definition detectInitialLocale :: "web_storage option \<Rightarrow> navigator option \<Rightarrow> string" where
  "detectInitialLocale window nav = (case window of
     None \<Rightarrow> FALLBACK_LOCALE
   | Some st \<Rightarrow> (case readStoredLocale st of Some l \<Rightarrow> l | None \<Rightarrow> localeFromNavigator nav))"

text \<open>Loading the module in a browser: the composer is created and the getter installed.\<close>

definition load_i18n :: "web_storage \<Rightarrow> navigator option \<Rightarrow> string \<Rightarrow> locale_state" where
  "load_i18n st nav lang = setLocaleGetter True
     \<lparr>composer = detectInitialLocale (Some st) nav, current = FALLBACK_LOCALE, localeGetter = False,
      html_lang = lang, storage = st\<rparr>"

definition applyLocale :: "string \<Rightarrow> bool \<Rightarrow> locale_state \<Rightarrow> locale_state" where
  "applyLocale l persist s =
     (let s = s\<lparr>composer := l\<rparr>;
          s = setCurrentLocale l s;
          s = s\<lparr>html_lang := l\<rparr>
      in if persist then
           (case storage s of
              Unavailable \<Rightarrow> s
            | Available m \<Rightarrow> s\<lparr>storage := Available (setItem LOCALE_STORAGE_KEY l m)\<rparr>)
         else s)"

definition setLocale :: "string \<Rightarrow> locale_state \<Rightarrow> locale_state" where
  "setLocale l s = applyLocale l True s"

definition initI18n :: "locale_state \<Rightarrow> locale_state" where
  "initI18n s = applyLocale (composer s) False s"

subsection \<open>Properties\<close>

lemma match_languages_supported: "match_languages langs \<in> set SUPPORTED_LOCALES"
  by (induction langs rule: match_languages.induct)
    (auto simp: SUPPORTED_LOCALES_def FALLBACK_LOCALE_def Let_def)

lemma detect_supported: "detectInitialLocale window nav \<in> set SUPPORTED_LOCALES"
  using match_languages_supported
  by (auto simp: detectInitialLocale_def readStoredLocale_def localeFromNavigator_def
      SUPPORTED_LOCALES_def FALLBACK_LOCALE_def split: option.splits web_storage.splits)

text \<open>What holds of the language state between two events: a supported language, and every
  place that keeps it agrees.\<close>

definition locale_inv :: "locale_state \<Rightarrow> bool" where
  "locale_inv s \<longleftrightarrow> composer s \<in> set SUPPORTED_LOCALES \<and> localeGetter s \<and>
     current s = composer s \<and> html_lang s = composer s"

lemma applyLocale_inv:
  "l \<in> set SUPPORTED_LOCALES \<Longrightarrow> localeGetter s \<Longrightarrow> locale_inv (applyLocale l persist s)"
  by (auto simp: locale_inv_def applyLocale_def setCurrentLocale_def Let_def split: web_storage.split)

definition switch_locale :: "string \<Rightarrow> locale_state \<Rightarrow> locale_state option" where
  "switch_locale l s = (if l \<in> set SUPPORTED_LOCALES then Some (setLocale l s) else None)"

interpretation locale_switches: guarded_machine switch_locale locale_inv
proof unfold_locales
  fix s l s' assume "locale_inv s" and "switch_locale l s = Some s'"
  then have "s' = applyLocale l True s" "l \<in> set SUPPORTED_LOCALES" "localeGetter s"
    by (auto simp: switch_locale_def setLocale_def locale_inv_def split: if_splits)
  then show "locale_inv s'" by (simp add: applyLocale_inv)
qed

text \<open>From any stored value and any browser language list the portals start, and through every
  sequence of language switches stay, in a supported language on which the page, the service
  layer and the document attribute agree.\<close>

theorem language_always_consistent:
  assumes "exec switch_locale ls (initI18n (load_i18n st nav lang)) = Some s"
  shows "getCurrentLocale s \<in> set SUPPORTED_LOCALES \<and> html_lang s = getCurrentLocale s \<and>
     current s = getCurrentLocale s \<and> (ls \<noteq> [] \<longrightarrow> getCurrentLocale s = last ls)"
proof -
  have "locale_inv (initI18n (load_i18n st nav lang))"
    unfolding initI18n_def by (rule applyLocale_inv) (simp_all add: load_i18n_def setLocaleGetter_def detect_supported)
  from locale_switches.exec_invar [OF this assms] have "locale_inv s" .
  moreover have "getCurrentLocale s = last ls" if "ls \<noteq> []"
  proof -
    from that have "exec switch_locale (butlast ls @ [last ls]) (initI18n (load_i18n st nav lang)) = Some s"
      using assms by simp
    then obtain t where "switch_locale (last ls) t = Some s" by (auto simp: exec_append split: option.splits)
    then have "composer s = last ls"
      by (auto simp: switch_locale_def setLocale_def applyLocale_def setCurrentLocale_def Let_def
          split: if_splits web_storage.splits)
    with \<open>locale_inv s\<close> show ?thesis by (simp add: getCurrentLocale_def locale_inv_def)
  qed
  ultimately show ?thesis by (auto simp: locale_inv_def getCurrentLocale_def)
qed

theorem language_always_consistent_witness:
  "\<exists>s. exec switch_locale [''zh-CN'', ''en''] (initI18n (load_i18n Unavailable None [])) = Some s \<and>
     getCurrentLocale s = ''en''"
proof -
  have "\<exists>s. exec switch_locale [''zh-CN'', ''en''] (initI18n (load_i18n Unavailable None [])) = Some s"
    by (simp add: switch_locale_def SUPPORTED_LOCALES_def)
  then obtain s where "exec switch_locale [''zh-CN'', ''en''] (initI18n (load_i18n Unavailable None [])) = Some s" ..
  from language_always_consistent [OF this] this show ?thesis by auto
qed

text \<open>A language chosen by the user is remembered: after \<open>setLocale\<close> with storage available,
  the next page load starts in that language, whatever the browser prefers; the other stored
  items are untouched.\<close>

theorem chosen_language_survives_reload:
  assumes "l \<in> set SUPPORTED_LOCALES" and "storage s = Available m"
  shows "\<exists>m'. storage (setLocale l s) = Available m' \<and>
     getCurrentLocale (initI18n (load_i18n (Available m') nav lang)) = l \<and>
     (\<forall>k. k \<noteq> LOCALE_STORAGE_KEY \<longrightarrow> getItem m' k = getItem m k)"
proof -
  have "storage (setLocale l s) = Available (setItem LOCALE_STORAGE_KEY l m)"
    using assms(2) by (simp add: setLocale_def applyLocale_def setCurrentLocale_def Let_def)
  moreover have "detectInitialLocale (Some (Available (setItem LOCALE_STORAGE_KEY l m))) nav = l"
    using assms(1) by (simp add: detectInitialLocale_def readStoredLocale_def web_store.lookup_store)
  ultimately show ?thesis
    by (simp add: getCurrentLocale_def initI18n_def applyLocale_def setCurrentLocale_def load_i18n_def
        setLocaleGetter_def Let_def web_store.store_frame)
qed

theorem chosen_language_survives_reload_witness:
  "\<exists>m'. storage (setLocale ''zh-CN'' (load_i18n (Available (\<lambda>_. None)) None [])) = Available m' \<and>
     getCurrentLocale (initI18n (load_i18n (Available m') (Some \<lparr>nav_languages = Some [JStr ''en-US''], nav_language = JUndef\<rparr>) [])) = ''zh-CN''"
  using chosen_language_survives_reload [of "''zh-CN''" "load_i18n (Available (\<lambda>_. None)) None []" "\<lambda>_. None"
      "Some \<lparr>nav_languages = Some [JStr ''en-US''], nav_language = JUndef\<rparr>" "[]"]
  by (auto simp: SUPPORTED_LOCALES_def load_i18n_def setLocaleGetter_def)

end
