(* ===== verification/ErrorAdapter.thy ===== *)
theory ErrorAdapter
  imports I18n
begin

section \<open>Error normalisation\<close>

text \<open>
  \<open>services/errorAdapter.ts\<close>: any thrown value becomes a structure with a code, a text for the
  user, a request id and an HTTP status.  The two apps have the same code over their own
  message catalogs; \<open>normalize_with\<close> and \<open>expired_with\<close> take the catalog's lookup and each app
  instantiates them.  The active language is the argument \<open>cur\<close>.
\<close>

definition RATE_LIMITED_CODE :: string where "RATE_LIMITED_CODE = ''VALIDATION_RATE_LIMITED''"

definition SESSION_EXPIRED_CODE :: string where "SESSION_EXPIRED_CODE = ''AUTH_TOKEN_EXPIRED''"

definition NORMALIZED_BRAND :: string where "NORMALIZED_BRAND = ''__isNormalizedError__''"

definition isObject :: "jsval \<Rightarrow> bool" where
  "isObject v = is_object v"

definition isNonEmptyString :: "jsval \<Rightarrow> bool" where
  "isNonEmptyString v = (case v of JStr s \<Rightarrow> length s > 0 | _ \<Rightarrow> False)"

definition isRateLimitBody :: "jsval \<Rightarrow> bool" where
  "isRateLimitBody data \<longleftrightarrow> isObject data \<and> getprop data ''error'' = JStr ''invalid_request''"

definition isNormalizedError :: "jsval \<Rightarrow> bool" where
  "isNormalizedError v \<longleftrightarrow> isObject v \<and> getprop v NORMALIZED_BRAND = JBool True"

text \<open>The object literal of the four fields, and the brand added to it.\<close>

definition NormalizedError :: "string \<Rightarrow> string \<Rightarrow> string \<Rightarrow> int \<Rightarrow> jsval" where
  "NormalizedError code message request_id httpStatus =
     JObj [(''code'', JStr code), (''message'', JStr message), (''request_id'', JStr request_id),
           (''httpStatus'', JNum httpStatus)]"

fun brand :: "jsval \<Rightarrow> jsval" where
  "brand (JObj ps) = JObj (ps @ [(NORMALIZED_BRAND, JBool True)])"
| "brand v = v"

fun text_of :: "jsval \<Rightarrow> string" where
  "text_of (JStr s) = s"
| "text_of _ = []"

text \<open>\<open>isNonEmptyString(v) ? v : d\<close>.\<close>

definition string_or :: "jsval \<Rightarrow> string \<Rightarrow> string" where
  "string_or v d = (if isNonEmptyString v then text_of v else d)"

definition normalize_with :: "(string \<Rightarrow> string \<Rightarrow> string) \<Rightarrow> string \<Rightarrow> jsval \<Rightarrow> jsval \<Rightarrow> jsval" where
  "normalize_with msg cur err locl =
     (if isNormalizedError err then err
      else
       (let loc = string_or locl cur;
            response = (if isObject err then getprop err ''response'' else JUndef)
        in if \<not> isObject response then NormalizedError NETWORK_CODE (msg NETWORK_CODE loc) [] 0
           else
            (let status = getprop response ''status'';
                 httpStatus = (case status of JNum n \<Rightarrow> n | _ \<Rightarrow> 0);
                 data = getprop response ''data''
             in if httpStatus = 429 \<and> isRateLimitBody data then
                  NormalizedError RATE_LIMITED_CODE (msg RATE_LIMITED_CODE loc)
                    (if isObject data then string_or (getprop data ''request_id'') [] else []) httpStatus
                else if isObject data then
                  (let envelopeError = getprop data ''error'' in
                   if isObject envelopeError \<and> isNonEmptyString (getprop envelopeError ''code'') then
                     (let code = text_of (getprop envelopeError ''code'')
                      in NormalizedError code (msg code loc)
                           (string_or (getprop envelopeError ''request_id'')
                             (string_or (getprop data ''request_id'') [])) httpStatus)
                   else if isNonEmptyString envelopeError then
                     NormalizedError (text_of envelopeError) (msg (text_of envelopeError) loc)
                       (string_or (getprop data ''request_id'') []) httpStatus
                   else NormalizedError UNKNOWN_CODE (msg UNKNOWN_CODE loc)
                          (string_or (getprop data ''request_id'') []) httpStatus)
                else NormalizedError UNKNOWN_CODE (msg UNKNOWN_CODE loc) [] httpStatus)))"

definition expired_with :: "(string \<Rightarrow> string \<Rightarrow> string) \<Rightarrow> string \<Rightarrow> jsval \<Rightarrow> jsval" where
  "expired_with msg cur locl =
     brand (NormalizedError SESSION_EXPIRED_CODE (msg SESSION_EXPIRED_CODE (string_or locl cur)) [] 401)"

definition normalizeError :: "string \<Rightarrow> jsval \<Rightarrow> jsval \<Rightarrow> jsval" where
  "normalizeError cur err locl = normalize_with getErrorMessage cur err locl"

definition sessionExpiredError :: "string \<Rightarrow> jsval \<Rightarrow> jsval" where
  "sessionExpiredError cur locl = expired_with getErrorMessage cur locl"

definition admin_normalizeError :: "string \<Rightarrow> jsval \<Rightarrow> jsval \<Rightarrow> jsval" where
  "admin_normalizeError cur err locl = normalize_with admin_getErrorMessage cur err locl"

definition admin_sessionExpiredError :: "string \<Rightarrow> jsval \<Rightarrow> jsval" where
  "admin_sessionExpiredError cur locl = expired_with admin_getErrorMessage cur locl"

subsection \<open>The shape of a normalised error\<close>

text \<open>What both instances have in common: the four fields, and a text that the catalog gives for
  the code.\<close>

definition shaped :: "(string \<Rightarrow> string \<Rightarrow> string) \<Rightarrow> string \<Rightarrow> jsval \<Rightarrow> bool" where
  "shaped msg loc v \<longleftrightarrow> (\<exists>code rid st. v = NormalizedError code (msg code loc) rid st \<and> code \<noteq> [])"

lemma isNonEmptyString_iff: "isNonEmptyString v \<longleftrightarrow> (\<exists>s. v = JStr s \<and> s \<noteq> [])"
  by (cases v) (auto simp: isNonEmptyString_def)

lemma codes_nonempty [simp]:
  "NETWORK_CODE \<noteq> []" "UNKNOWN_CODE \<noteq> []" "RATE_LIMITED_CODE \<noteq> []" "SESSION_EXPIRED_CODE \<noteq> []"
  by (simp_all add: NETWORK_CODE_def UNKNOWN_CODE_def RATE_LIMITED_CODE_def SESSION_EXPIRED_CODE_def)

lemma shapedI: "code \<noteq> [] \<Longrightarrow> shaped msg loc (NormalizedError code (msg code loc) rid st)"
  by (auto simp: shaped_def)

lemma normalize_shaped:
  "\<not> isNormalizedError err \<Longrightarrow> shaped msg (string_or locl cur) (normalize_with msg cur err locl)"
  by (auto simp: normalize_with_def Let_def isNonEmptyString_iff intro!: shapedI)

lemma expired_branded: "isNormalizedError (expired_with msg cur locl)"
  by (simp add: expired_with_def NormalizedError_def isNormalizedError_def isObject_def NORMALIZED_BRAND_def)

lemma NormalizedError_fields [simp]:
  "getprop (NormalizedError c m r s) ''code'' = JStr c" "getprop (NormalizedError c m r s) ''message'' = JStr m"
  "getprop (NormalizedError c m r s) ''request_id'' = JStr r"
  "getprop (NormalizedError c m r s) ''httpStatus'' = JNum s"
  by (simp_all add: NormalizedError_def)

text \<open>The value an axios error with a response has.\<close>

definition http_error :: "int \<Rightarrow> jsval \<Rightarrow> jsval" where
  "http_error st data = JObj [(''response'', JObj [(''status'', JNum st), (''data'', data)])]"

lemma http_error_unbranded [simp]: "\<not> isNormalizedError (http_error st data)"
  by (simp add: isNormalizedError_def http_error_def NORMALIZED_BRAND_def proto_member_def object_prototype_def)

subsection \<open>Properties\<close>

text \<open>C17. The user never sees server-supplied text: whatever value is thrown, unless it is already a
  normalised error, the message shown is an entry of the catalog of the active language, the
  code is not empty and the request id is a string.  This holds in both apps.\<close>

theorem normalized_message_from_catalog:
  assumes "cur \<in> set SUPPORTED_LOCALES" and "\<not> isNormalizedError err"
  shows "(\<exists>code message rid st t. normalizeError cur err JUndef = NormalizedError code message rid st \<and>
       code \<noteq> [] \<and> map_of messages cur = Some t \<and> message \<in> snd ` set t) \<and>
     (\<exists>code message rid st t. admin_normalizeError cur err JUndef = NormalizedError code message rid st \<and>
       code \<noteq> [] \<and> map_of admin_messages cur = Some t \<and> message \<in> snd ` set t)"
proof -
  have loc: "string_or JUndef cur = cur" by (simp add: string_or_def isNonEmptyString_def)
  have "shaped getErrorMessage cur (normalizeError cur err JUndef)"
    "shaped admin_getErrorMessage cur (admin_normalizeError cur err JUndef)"
    using normalize_shaped [OF assms(2), of _ JUndef cur] by (simp_all add: normalizeError_def admin_normalizeError_def loc)
  then show ?thesis
    using user_catalog.supported_table [OF assms(1)] user_catalog.message_from_table [OF assms(1)]
      admin_catalog.supported_table [OF assms(1)] admin_catalog.message_from_table [OF assms(1)]
    unfolding shaped_def getErrorMessage_def admin_getErrorMessage_def by metis
qed

theorem normalized_message_from_catalog_witness:
  "\<exists>code message rid st t. normalizeError ''en'' (http_error 500 (JObj [(''error'', JStr ''SELECT * FROM users'')])) JUndef
     = NormalizedError code message rid st \<and> code \<noteq> [] \<and> map_of messages ''en'' = Some t \<and> message \<in> snd ` set t"
  by (rule normalized_message_from_catalog [THEN conjunct1]) (simp_all add: SUPPORTED_LOCALES_def)

text \<open>What is reported for a response: an envelope's code and an OAuth2 error string reach the
  caller unchanged with the HTTP status, except that \<open>invalid_request\<close> on a 429 becomes the
  throttling code; a body of another shape is the unknown error, and no response at all is
  the network error with status 0.\<close>

theorem normalizeError_reports_server_code:
  assumes "c \<noteq> []" and "ps = (''error'', e) # qs"
  shows "(e = JStr c \<and> (st, c) \<noteq> (429, ''invalid_request'') \<longrightarrow>
        getprop (normalizeError cur (http_error st (JObj ps)) locl) ''code'' = JStr c) \<and>
     (e = JObj fs \<and> map_of fs ''code'' = Some (JStr c) \<longrightarrow>
        getprop (normalizeError cur (http_error st (JObj ps)) locl) ''code'' = JStr c) \<and>
     (e = JStr ''invalid_request'' \<longrightarrow>
        getprop (normalizeError cur (http_error 429 (JObj ps)) locl) ''code'' = JStr RATE_LIMITED_CODE) \<and>
     (e \<in> {JNull, JStr [], JNum n} \<longrightarrow>
        getprop (normalizeError cur (http_error st (JObj ps)) locl) ''code'' = JStr UNKNOWN_CODE) \<and>
     getprop (normalizeError cur (http_error st (JObj ps)) locl) ''httpStatus'' = JNum st \<and>
     getprop (normalizeError cur (JObj [(''message'', JStr m)]) locl) ''httpStatus'' = JNum 0 \<and>
     getprop (normalizeError cur (JObj [(''message'', JStr m)]) locl) ''code'' = JStr NETWORK_CODE"
proof -
  note defs = normalizeError_def normalize_with_def http_error_def isObject_def isRateLimitBody_def
    isNonEmptyString_def isNormalizedError_def NORMALIZED_BRAND_def proto_member_def object_prototype_def
  show ?thesis using assms by (intro conjI impI; auto simp: defs Let_def)
qed

theorem normalizeError_reports_server_code_witness:
  "getprop (normalizeError ''en'' (http_error 400 (JObj [(''error'', JStr ''invalid_grant'')])) JUndef) ''code''
     = JStr ''invalid_grant'' \<and>
   getprop (normalizeError ''en'' (http_error 429 (JObj [(''error'', JStr ''invalid_request'')])) JUndef) ''code''
     = JStr RATE_LIMITED_CODE"
  using normalizeError_reports_server_code [of "''invalid_grant''" "[(''error'', JStr ''invalid_grant'')]"
      "JStr ''invalid_grant''" "[]" 400 "''en''" JUndef]
    normalizeError_reports_server_code [of "''x''" "[(''error'', JStr ''invalid_request'')]"
      "JStr ''invalid_request''" "[]" 400 "''en''" JUndef]
  by simp

text \<open>The session-expired error is stable: normalising it again, any number of times and under any
  language, returns the very same value, with status 401 and the expired-session code.\<close>

theorem session_expired_is_stable:
  "((\<lambda>e. normalizeError cur' e locl') ^^ n) (sessionExpiredError cur locl) = sessionExpiredError cur locl \<and>
   ((\<lambda>e. admin_normalizeError cur' e locl') ^^ n) (admin_sessionExpiredError cur locl) = admin_sessionExpiredError cur locl \<and>
   getprop (sessionExpiredError cur locl) ''code'' = JStr ''AUTH_TOKEN_EXPIRED'' \<and>
   getprop (sessionExpiredError cur locl) ''httpStatus'' = JNum 401 \<and>
   admin_sessionExpiredError cur locl = sessionExpiredError cur locl"
proof -
  have "normalize_with msg cur' (expired_with msg2 cur locl) locl' = expired_with msg2 cur locl" for msg msg2
    by (simp add: normalize_with_def expired_branded)
  then have fixpoint: "((\<lambda>e. normalize_with msg cur' e locl') ^^ n) (expired_with msg2 cur locl) = expired_with msg2 cur locl" for msg msg2
    by (induction n) simp_all
  have "admin_getErrorMessage SESSION_EXPIRED_CODE l = getErrorMessage SESSION_EXPIRED_CODE l" for l
    by (rule shared_message) (simp add: SESSION_EXPIRED_CODE_def admin_only_codes_def)
  then show ?thesis
    by (simp add: fixpoint normalizeError_def admin_normalizeError_def sessionExpiredError_def
        admin_sessionExpiredError_def) (simp add: expired_with_def SESSION_EXPIRED_CODE_def NormalizedError_def)
qed

end
