(* ===== verification/UserHttp.thy ===== *)
theory UserHttp
  imports ErrorAdapter UrlParams
begin

section \<open>The HTTP layer of the user portal\<close>

text \<open>
  \<open>services/http.ts\<close>: the token variables, their copy in \<open>localStorage\<close>, the cross-tab event,
  the single-flight refresh and the two axios interceptors.  Every callback of the code is an
  event, so calls, responses, refreshes, logouts and storage events interleave freely.  axios
  is what its documentation says: a 2xx response resolves, any other rejects, and the config
  of a repeated request keeps the marker \<open>_retry\<close>.
\<close>

subsection \<open>State\<close>

text \<open>How an axios request ends: the body of a 2xx response, another status with its body, or no
  response.\<close>

datatype ax_result = AxOk jsval | AxHttp int jsval | AxNet

text \<open>One POST of \<open>refreshTokens\<close>: sent, its \<open>then\<close>/\<open>catch\<close> callback has run, its \<open>finally\<close>
  callback has run and the promise has settled.\<close>

datatype post_phase = PSent | PApplied bool | PFinished bool

record refresh_post =
  rp_token :: jsval
  rp_form :: params
  rp_phase :: post_phase

datatype refresh_promise = RNow bool | RPost nat

datatype call_phase =
    Sending
  | AwaitRefresh refresh_promise
  | CallOk jsval
  | CallRaw ax_result
  | CallExpired jsval

record http_call =
  hc_url :: "string option"
  hc_auth :: "string option"
  hc_retry :: bool
  hc_phase :: call_phase

record http_state =
  accessToken :: jsval
  refreshToken :: jsval
  localStorage :: items
  refreshInFlight :: "nat option"
  posts :: "refresh_post list"
  calls :: "http_call list"
  sent :: "(nat \<times> string option) list"
  route :: string
  redirects :: nat
  location_href :: string
  client_env :: "string option"

subsection \<open>Tokens\<close>

definition item_or_null :: "string option \<Rightarrow> jsval" where
  "item_or_null v = (case v of Some x \<Rightarrow> JStr x | None \<Rightarrow> JNull)"

text \<open>Loading the module.\<close>

definition load_http :: "items \<Rightarrow> string \<Rightarrow> string option \<Rightarrow> http_state" where
  "load_http m rt env =
     \<lparr>accessToken = JNull, refreshToken = item_or_null (getItem m ''refresh_token''), localStorage = m,
      refreshInFlight = None, posts = [], calls = [], sent = [], route = rt, redirects = 0, location_href = [],
      client_env = env\<rparr>"

definition setTokens :: "jsval \<Rightarrow> jsval \<Rightarrow> http_state \<Rightarrow> http_state" where
  "setTokens access refresh s =
     (let s = s\<lparr>accessToken := access\<rparr> in
      if truthy refresh
      then s\<lparr>refreshToken := refresh,
             localStorage := setItem ''refresh_token'' (js_String refresh) (localStorage s)\<rparr>
      else s)"

definition clearTokens :: "http_state \<Rightarrow> http_state" where
  "clearTokens s = s\<lparr>accessToken := JNull, refreshToken := JNull,
     localStorage := removeItem ''refresh_token'' (localStorage s)\<rparr>"

text \<open>The handler of the \<open>storage\<close> event, fired for a write of another tab; the storage itself is
  shared by the tabs.\<close>

definition on_storage :: "string \<Rightarrow> string option \<Rightarrow> http_state \<Rightarrow> http_state" where
  "on_storage key newValue s =
     (let s = s\<lparr>localStorage := (localStorage s)(key := newValue)\<rparr> in
      if key = ''refresh_token'' then s\<lparr>refreshToken := item_or_null newValue\<rparr> else s)"

subsection \<open>The single-flight refresh\<close>

definition CLIENT_ID :: "http_state \<Rightarrow> string" where
  "CLIENT_ID s = (case client_env s of Some c \<Rightarrow> if c \<noteq> [] then c else ''fulla-portal'' | None \<Rightarrow> ''fulla-portal'')"

definition refreshTokens :: "http_state \<Rightarrow> refresh_promise \<times> http_state" where
  "refreshTokens s = (case refreshInFlight s of
     Some i \<Rightarrow> (RPost i, s)
   | None \<Rightarrow>
       if \<not> truthy (refreshToken s) then (RNow False, s)
       else (RPost (length (posts s)),
         s\<lparr>posts := posts s @ [\<lparr>rp_token = refreshToken s,
             rp_form = [(''grant_type'', ''refresh_token''), (''refresh_token'', js_String (refreshToken s)),
               (''client_id'', CLIENT_ID s)],
             rp_phase = PSent\<rparr>],
           refreshInFlight := Some (length (posts s))\<rparr>))"

definition set_post :: "nat \<Rightarrow> post_phase \<Rightarrow> http_state \<Rightarrow> http_state" where
  "set_post i ph s = s\<lparr>posts := (posts s)[i := (posts s ! i)\<lparr>rp_phase := ph\<rparr>]\<rparr>"

text \<open>The \<open>then\<close> callback, and the \<open>catch\<close> callback for a failed request or for a body on which
  the member access throws.\<close>

definition on_refresh_reply :: "nat \<Rightarrow> ax_result \<Rightarrow> http_state \<Rightarrow> http_state option" where
  "on_refresh_reply i out s =
     (if i < length (posts s) \<and> rp_phase (posts s ! i) = PSent then
        Some (case out of
            AxOk data \<Rightarrow>
              if nullish data then set_post i (PApplied False) (clearTokens s)
              else set_post i (PApplied True)
                     (setTokens (getprop data ''access_token'') (getprop data ''refresh_token'') s)
          | _ \<Rightarrow> set_post i (PApplied False) (clearTokens s))
      else None)"

definition on_refresh_finally :: "nat \<Rightarrow> http_state \<Rightarrow> http_state option" where
  "on_refresh_finally i s =
     (if i < length (posts s) then
        (case rp_phase (posts s ! i) of
           PApplied b \<Rightarrow> Some (set_post i (PFinished b) (s\<lparr>refreshInFlight := None\<rparr>))
         | _ \<Rightarrow> None)
      else None)"

definition tryRestoreSession :: "http_state \<Rightarrow> refresh_promise \<times> http_state" where
  "tryRestoreSession s = (if truthy (accessToken s) then (RNow True, s) else refreshTokens s)"

definition promised :: "http_state \<Rightarrow> refresh_promise \<Rightarrow> bool option" where
  "promised s p = (case p of
     RNow b \<Rightarrow> Some b
   | RPost i \<Rightarrow> if i < length (posts s) then
       (case rp_phase (posts s ! i) of PFinished b \<Rightarrow> Some b | _ \<Rightarrow> None) else None)"

subsection \<open>The interceptors\<close>

definition set_call :: "nat \<Rightarrow> http_call \<Rightarrow> http_state \<Rightarrow> http_state" where
  "set_call t c s = s\<lparr>calls := (calls s)[t := c]\<rparr>"

text \<open>The request interceptor, and the request going out with that header.\<close>

definition attach_token :: "http_state \<Rightarrow> http_call \<Rightarrow> http_call" where
  "attach_token s c =
     (if truthy (accessToken s) \<and> (hc_auth c = None \<or> hc_auth c = Some [])
      then c\<lparr>hc_auth := Some (bearer (accessToken s))\<rparr> else c)"

definition dispatch :: "nat \<Rightarrow> http_state \<Rightarrow> http_state" where
  "dispatch t s =
     (let c = (attach_token s (calls s ! t))\<lparr>hc_phase := Sending\<rparr>
      in (set_call t c s)\<lparr>sent := sent s @ [(t, hc_auth c)]\<rparr>)"

definition http_request :: "string option \<Rightarrow> string option \<Rightarrow> http_state \<Rightarrow> http_state" where
  "http_request url auth s = dispatch (length (calls s))
     (s\<lparr>calls := calls s @ [\<lparr>hc_url = url, hc_auth = auth, hc_retry = False, hc_phase = Sending\<rparr>]\<rparr>)"

text \<open>\<open>redirectToLogin\<close> up to the \<open>await\<close> of the router.  \<open>redirects\<close> counts the calls that go on with the router, which is a step of
  \<open>UserStore\<close>: the guard decides where it leads.\<close>

definition redirectToLogin :: "bool \<Rightarrow> http_state \<Rightarrow> http_state" where
  "redirectToLogin router_loads s =
     (if router_loads then s\<lparr>redirects := redirects s + 1\<rparr> else s\<lparr>location_href := ''/login''\<rparr>)"

definition NO_AUTO_REFRESH_ENDPOINTS :: "string list" where
  "NO_AUTO_REFRESH_ENDPOINTS = [''/oauth2/login'', ''/oauth2/token'', ''/oauth2/mfa/verify'', ''/oauth2/revoke'']"

definition isNoAutoRefreshEndpoint :: "string option \<Rightarrow> bool" where
  "isNoAutoRefreshEndpoint url = (case url of
     None \<Rightarrow> False
   | Some u \<Rightarrow> u \<noteq> [] \<and> list_ex (\<lambda>endpoint. js_includes endpoint u) NO_AUTO_REFRESH_ENDPOINTS)"

fun unauthorized :: "ax_result \<Rightarrow> bool" where
  "unauthorized (AxHttp st data) = (st = 401)"
| "unauthorized _ = False"

definition wants_refresh :: "http_state \<Rightarrow> http_call \<Rightarrow> ax_result \<Rightarrow> bool" where
  "wants_refresh s c out \<longleftrightarrow> unauthorized out \<and> truthy (refreshToken s) \<and>
     \<not> hc_retry c \<and> \<not> isNoAutoRefreshEndpoint (hc_url c)"

text \<open>The response interceptor up to its \<open>await\<close>, and after it.\<close>

definition on_response :: "nat \<Rightarrow> ax_result \<Rightarrow> http_state \<Rightarrow> http_state option" where
  "on_response t out s =
     (if t < length (calls s) \<and> hc_phase (calls s ! t) = Sending then
        Some (let c = calls s ! t in
          case out of
            AxOk data \<Rightarrow> set_call t (c\<lparr>hc_phase := CallOk data\<rparr>) s
          | _ \<Rightarrow>
              if wants_refresh s c out then
                (case refreshTokens s of (p, s') \<Rightarrow>
                   set_call t (c\<lparr>hc_retry := True, hc_phase := AwaitRefresh p\<rparr>) s')
              else set_call t (c\<lparr>hc_phase := CallRaw out\<rparr>) s)
      else None)"

definition resume_call :: "string \<Rightarrow> nat \<Rightarrow> bool \<Rightarrow> http_state \<Rightarrow> http_state option" where
  "resume_call cur t router_loads s =
     (if t < length (calls s) then
        (case hc_phase (calls s ! t) of
           AwaitRefresh p \<Rightarrow> (case promised s p of
               None \<Rightarrow> None
             | Some refreshed \<Rightarrow>
                 if \<not> refreshed then
                   Some (redirectToLogin router_loads
                     (set_call t ((calls s ! t)\<lparr>hc_phase := CallExpired (sessionExpiredError cur JUndef)\<rparr>) s))
                 else Some (dispatch t (set_call t ((calls s ! t)\<lparr>hc_auth := Some (bearer (accessToken s))\<rparr>) s)))
         | _ \<Rightarrow> None)
      else None)"

subsection \<open>Interleavings\<close>

datatype http_event =
    SetTokens jsval jsval
  | ClearTokens
  | StorageEvent string "string option"
  | RestoreSession
  | Request "string option" "string option"
  | Response nat ax_result
  | RefreshReply nat ax_result
  | RefreshFinally nat
  | Resume nat bool

fun http_step :: "string \<Rightarrow> http_event \<Rightarrow> http_state \<Rightarrow> http_state option" where
  "http_step cur (SetTokens a r) s = Some (setTokens a r s)"
| "http_step cur ClearTokens s = Some (clearTokens s)"
| "http_step cur (StorageEvent k v) s = Some (on_storage k v s)"
| "http_step cur RestoreSession s = Some (snd (tryRestoreSession s))"
| "http_step cur (Request url auth) s = Some (http_request url auth s)"
| "http_step cur (Response t out) s = on_response t out s"
| "http_step cur (RefreshReply i out) s = on_refresh_reply i out s"
| "http_step cur (RefreshFinally i) s = on_refresh_finally i s"
| "http_step cur (Resume t ok) s = resume_call cur t ok s"

subsection \<open>The invariant\<close>

definition finished :: "refresh_post \<Rightarrow> bool" where
  "finished p = (case rp_phase p of PFinished b \<Rightarrow> True | _ \<Rightarrow> False)"

text \<open>A POST that has not finished is the one in flight.\<close>

definition flight_inv :: "http_state \<Rightarrow> bool" where
  "flight_inv s \<longleftrightarrow>
     (\<forall>i < length (posts s). finished (posts s ! i) \<or> refreshInFlight s = Some i) \<and>
     (\<forall>i. refreshInFlight s = Some i \<longrightarrow> i < length (posts s) \<and> \<not> finished (posts s ! i))"

definition sent_times :: "http_state \<Rightarrow> nat \<Rightarrow> nat" where
  "sent_times s t = length (filter (\<lambda>x. fst x = t) (sent s))"

text \<open>How often a call has been sent, by where it is and whether it is marked as retried.\<close>

definition call_ok :: "http_call \<Rightarrow> nat \<Rightarrow> bool" where
  "call_ok c n \<longleftrightarrow> (hc_retry c \<longrightarrow> \<not> isNoAutoRefreshEndpoint (hc_url c)) \<and>
     (case hc_phase c of
        AwaitRefresh p \<Rightarrow> hc_retry c \<and> n = 1
      | CallExpired e \<Rightarrow> hc_retry c \<and> n = 1
      | _ \<Rightarrow> n = (if hc_retry c then 2 else 1))"

definition calls_inv :: "http_state \<Rightarrow> bool" where
  "calls_inv s \<longleftrightarrow> (\<forall>t < length (calls s). call_ok (calls s ! t) (sent_times s t)) \<and>
     (\<forall>x \<in> set (sent s). fst x < length (calls s))"

definition http_inv :: "http_state \<Rightarrow> bool" where
  "http_inv s \<longleftrightarrow> flight_inv s \<and> calls_inv s"

lemma http_sel [simp]:
  "posts (setTokens a r s) = posts s" "refreshInFlight (setTokens a r s) = refreshInFlight s"
  "calls (setTokens a r s) = calls s" "sent (setTokens a r s) = sent s"
  "posts (clearTokens s) = posts s" "refreshInFlight (clearTokens s) = refreshInFlight s"
  "calls (clearTokens s) = calls s" "sent (clearTokens s) = sent s"
  "posts (on_storage k v s) = posts s" "refreshInFlight (on_storage k v s) = refreshInFlight s"
  "calls (on_storage k v s) = calls s" "sent (on_storage k v s) = sent s"
  "calls (set_post i ph s) = calls s" "sent (set_post i ph s) = sent s"
  "refreshInFlight (set_post i ph s) = refreshInFlight s" "length (posts (set_post i ph s)) = length (posts s)"
  "refreshToken (set_post i ph s) = refreshToken s" "accessToken (set_post i ph s) = accessToken s"
  "posts (set_call t c s) = posts s" "refreshInFlight (set_call t c s) = refreshInFlight s"
  "sent (set_call t c s) = sent s" "length (calls (set_call t c s)) = length (calls s)"
  "refreshToken (set_call t c s) = refreshToken s" "accessToken (set_call t c s) = accessToken s"
  "posts (dispatch t s) = posts s" "refreshInFlight (dispatch t s) = refreshInFlight s"
  "length (calls (dispatch t s)) = length (calls s)" "refreshToken (dispatch t s) = refreshToken s"
  "accessToken (dispatch t s) = accessToken s"
  "posts (redirectToLogin ok s) = posts s" "refreshInFlight (redirectToLogin ok s) = refreshInFlight s"
  "calls (redirectToLogin ok s) = calls s" "sent (redirectToLogin ok s) = sent s"
  "refreshToken (redirectToLogin ok s) = refreshToken s" "accessToken (redirectToLogin ok s) = accessToken s"
  by (simp_all add: setTokens_def clearTokens_def on_storage_def set_post_def set_call_def dispatch_def
      redirectToLogin_def Let_def)

lemma flight_inv_cong:
  "posts s' = posts s \<Longrightarrow> refreshInFlight s' = refreshInFlight s \<Longrightarrow> flight_inv s' = flight_inv s"
  by (simp add: flight_inv_def)

lemma calls_inv_cong: "calls s' = calls s \<Longrightarrow> sent s' = sent s \<Longrightarrow> calls_inv s' = calls_inv s"
  by (simp add: calls_inv_def sent_times_def)

lemma refreshTokens_flight: "flight_inv s \<Longrightarrow> refreshTokens s = (p, s') \<Longrightarrow> flight_inv s'"
  by (auto simp: refreshTokens_def flight_inv_def finished_def nth_append less_Suc_eq split: option.splits if_splits)

lemma refreshTokens_frame:
  "refreshTokens s = (p, s') \<Longrightarrow> calls s' = calls s \<and> sent s' = sent s \<and> refreshToken s' = refreshToken s \<and>
     accessToken s' = accessToken s"
  by (auto simp: refreshTokens_def split: option.splits if_splits)

lemma tryRestoreSession_flight: "flight_inv s \<Longrightarrow> flight_inv (snd (tryRestoreSession s))"
  using refreshTokens_flight [of s] by (cases "refreshTokens s") (simp add: tryRestoreSession_def)

lemma tryRestoreSession_calls: "calls_inv s \<Longrightarrow> calls_inv (snd (tryRestoreSession s))"
  using refreshTokens_frame [of s] calls_inv_cong [of "snd (refreshTokens s)" s]
  by (cases "refreshTokens s") (simp add: tryRestoreSession_def)

lemma reply_flight:
  assumes "flight_inv s" and "on_refresh_reply i out s = Some s'"
  shows "flight_inv s'"
proof -
  from assms(2) have i: "i < length (posts s)" "rp_phase (posts s ! i) = PSent"
    by (auto simp: on_refresh_reply_def split: if_splits)
  then have "refreshInFlight s = Some i" using assms(1) by (auto simp: flight_inv_def finished_def)
  moreover obtain b where "posts s' = posts (set_post i (PApplied b) s)" "refreshInFlight s' = refreshInFlight s"
    using assms(2) i by (auto simp: on_refresh_reply_def set_post_def split: ax_result.splits if_splits)
  ultimately show ?thesis
    using assms(1) i by (auto simp: flight_inv_def set_post_def nth_list_update finished_def)
qed

lemma finally_flight:
  assumes "flight_inv s" and "on_refresh_finally i s = Some s'"
  shows "flight_inv s'"
proof -
  from assms(2) obtain b where i: "i < length (posts s)" "rp_phase (posts s ! i) = PApplied b"
    and s': "s' = set_post i (PFinished b) (s\<lparr>refreshInFlight := None\<rparr>)"
    by (auto simp: on_refresh_finally_def split: if_splits post_phase.splits)
  then have "refreshInFlight s = Some i" using assms(1) by (auto simp: flight_inv_def finished_def)
  then show ?thesis
    using assms(1) i unfolding s' by (auto simp: flight_inv_def set_post_def nth_list_update finished_def)
qed

lemma refresh_events_calls:
  "on_refresh_reply i out s = Some s' \<Longrightarrow> calls s' = calls s \<and> sent s' = sent s"
  "on_refresh_finally i s = Some s' \<Longrightarrow> calls s' = calls s \<and> sent s' = sent s"
  by (auto simp: on_refresh_reply_def on_refresh_finally_def split: if_splits ax_result.splits post_phase.splits)

lemma on_response_flight: "flight_inv s \<Longrightarrow> on_response t out s = Some s' \<Longrightarrow> flight_inv s'"
  using flight_inv_cong [of s' s] refreshTokens_flight [of s] flight_inv_cong [of s' "snd (refreshTokens s)"]
  by (auto simp: on_response_def Let_def split: if_splits ax_result.splits prod.splits)

lemma resume_call_flight: "flight_inv s \<Longrightarrow> resume_call cur t ok s = Some s' \<Longrightarrow> flight_inv s'"
  using flight_inv_cong [of s' s]
  by (auto simp: resume_call_def split: if_splits call_phase.splits option.splits)

text \<open>The calls.\<close>

lemma set_call_inv:
  assumes "calls_inv s" and "t < length (calls s)" and "call_ok c (sent_times s t)"
  shows "calls_inv (set_call t c s)"
  using assms by (auto simp: calls_inv_def sent_times_def set_call_def nth_list_update)

lemma attach_token_fields [simp]:
  "hc_url (attach_token s c) = hc_url c" "hc_retry (attach_token s c) = hc_retry c"
  "hc_phase (attach_token s c) = hc_phase c"
  by (simp_all add: attach_token_def)

lemma dispatch_inv:
  assumes "\<And>u. u < length (calls s) \<Longrightarrow> u \<noteq> t \<Longrightarrow> call_ok (calls s ! u) (sent_times s u)"
    and "t < length (calls s)" and "call_ok ((calls s ! t)\<lparr>hc_phase := Sending\<rparr>) (Suc (sent_times s t))"
    and "\<And>x. x \<in> set (sent s) \<Longrightarrow> fst x < length (calls s)"
  shows "calls_inv (dispatch t s)"
proof -
  have ok: "call_ok ((attach_token s (calls s ! t))\<lparr>hc_phase := Sending\<rparr>) n = call_ok ((calls s ! t)\<lparr>hc_phase := Sending\<rparr>) n" for n
    by (simp add: call_ok_def)
  have cnt: "sent_times (dispatch t s) u = (if u = t then Suc (sent_times s t) else sent_times s u)" for u
    by (simp add: sent_times_def dispatch_def Let_def)
  have nth: "calls (dispatch t s) ! u = (if u = t then (attach_token s (calls s ! t))\<lparr>hc_phase := Sending\<rparr> else calls s ! u)"
    if "u < length (calls s)" for u
    using that by (simp add: dispatch_def Let_def set_call_def nth_list_update)
  have "sent (dispatch t s) = sent s @ [(t, hc_auth (attach_token s (calls s ! t)))]"
    by (simp add: dispatch_def Let_def)
  with assms ok cnt nth show ?thesis by (auto simp: calls_inv_def)
qed

lemma http_request_inv:
  assumes "calls_inv s" shows "calls_inv (http_request url auth s)"
proof -
  have "filter (\<lambda>x. fst x = length (calls s)) (sent s) = []"
    using assms by (auto simp: calls_inv_def filter_empty_conv)
  then show ?thesis
    using assms unfolding http_request_def
    by (intro dispatch_inv) (auto simp: calls_inv_def sent_times_def call_ok_def nth_append less_Suc_eq)
qed

lemma call_count: "calls_inv s \<Longrightarrow> t < length (calls s) \<Longrightarrow> call_ok (calls s ! t) (sent_times s t)"
  by (simp add: calls_inv_def)

lemma on_response_inv:
  assumes "calls_inv s" and "on_response t out s = Some s'"
  shows "calls_inv s'"
proof -
  from assms(2) have t: "t < length (calls s)" "hc_phase (calls s ! t) = Sending"
    by (auto simp: on_response_def split: if_splits)
  obtain p s1 where r: "refreshTokens s = (p, s1)" by (cases "refreshTokens s")
  note fr = refreshTokens_frame [OF r]
  have "calls_inv s1" using assms(1) fr calls_inv_cong by blast
  moreover have "sent_times s1 u = sent_times s u" for u using fr by (simp add: sent_times_def)
  ultimately show ?thesis
    using assms t r fr call_count [OF assms(1) t(1)]
    by (auto simp: on_response_def Let_def wants_refresh_def call_ok_def split: if_splits ax_result.splits
        intro!: set_call_inv)
qed

lemma resume_call_inv:
  assumes "calls_inv s" and "resume_call cur t ok s = Some s'"
  shows "calls_inv s'"
proof -
  from assms(2) obtain p b where t: "t < length (calls s)" "hc_phase (calls s ! t) = AwaitRefresh p"
    and b: "promised s p = Some b"
    by (auto simp: resume_call_def split: if_splits call_phase.splits option.splits)
  note c = call_count [OF assms(1) t(1)]
  show ?thesis
  proof (cases b)
    case False
    with assms(2) t b have "s' = redirectToLogin ok
        (set_call t ((calls s ! t)\<lparr>hc_phase := CallExpired (sessionExpiredError cur JUndef)\<rparr>) s)"
      by (simp add: resume_call_def)
    moreover have "calls_inv (set_call t ((calls s ! t)\<lparr>hc_phase := CallExpired (sessionExpiredError cur JUndef)\<rparr>) s)"
      using assms(1) t c by (intro set_call_inv) (auto simp: call_ok_def)
    ultimately show ?thesis using calls_inv_cong [of s' "set_call t _ s"] by simp
  next
    case True
    with assms(2) t b have "s' = dispatch t (set_call t ((calls s ! t)\<lparr>hc_auth := Some (bearer (accessToken s))\<rparr>) s)"
      by (simp add: resume_call_def)
    moreover have "calls_inv (dispatch t (set_call t ((calls s ! t)\<lparr>hc_auth := Some (bearer (accessToken s))\<rparr>) s))"
      using assms(1) t c
      by (intro dispatch_inv) (auto simp: calls_inv_def call_ok_def set_call_def sent_times_def nth_list_update)
    ultimately show ?thesis by simp
  qed
qed

lemmas http_step_facts = reply_flight finally_flight on_response_flight resume_call_flight
  on_response_inv resume_call_inv http_request_inv tryRestoreSession_flight tryRestoreSession_calls

lemma http_step_inv:
  assumes "http_inv s" and "http_step cur e s = Some s'"
  shows "http_inv s'"
proof -
  from assms(1) have inv: "flight_inv s" "calls_inv s" by (simp_all add: http_inv_def)
  have cong: "http_inv s'" if "posts s' = posts s" "refreshInFlight s' = refreshInFlight s" "calls s' = calls s" "sent s' = sent s"
    using that assms(1) flight_inv_cong [of s' s] calls_inv_cong [of s' s] by (simp add: http_inv_def)
  show ?thesis
  proof (cases e)
    case (Request url auth)
    then have "posts s' = posts s" "refreshInFlight s' = refreshInFlight s"
      using assms(2) by (auto simp: http_request_def)
    with Request assms(2) inv flight_inv_cong [of s' s] show ?thesis
      by (auto simp: http_inv_def intro: http_step_facts)
  next
    case (RefreshReply i out)
    with assms(2) inv refresh_events_calls(1) [of i out s s'] show ?thesis
      by (auto simp: http_inv_def calls_inv_cong [of s' s] intro: http_step_facts)
  next
    case (RefreshFinally i)
    with assms(2) inv refresh_events_calls(2) [of i s s'] show ?thesis
      by (auto simp: http_inv_def calls_inv_cong [of s' s] intro: http_step_facts)
  qed (use assms(2) inv cong in \<open>auto simp: http_inv_def intro: http_step_facts\<close>)
qed

interpretation http: guarded_machine "http_step cur" http_inv
  by unfold_locales (rule http_step_inv)

lemma http_init: "http_inv (load_http m rt env)"
  by (simp add: http_inv_def flight_inv_def calls_inv_def load_http_def)

lemmas http_reachable = http.exec_invar [OF http_init, unfolded http_inv_def]

subsection \<open>A rotating authorization server\<close>

text \<open>
  The server issues a refresh token once: what a refresh returns, what a login stores and what
  another tab writes has not been presented by this tab before.  \<open>fresh_step\<close> is \<open>http_step\<close>
  in such an environment.
\<close>

definition presented :: "http_state \<Rightarrow> jsval list" where
  "presented s = map rp_token (posts s)"

fun fresh_env :: "http_event \<Rightarrow> http_state \<Rightarrow> bool" where
  "fresh_env (SetTokens a r) s = (truthy r \<longrightarrow> r \<notin> set (presented s))"
| "fresh_env (StorageEvent k (Some v)) s = (k = ''refresh_token'' \<longrightarrow> JStr v \<notin> set (presented s))"
| "fresh_env (RefreshReply i (AxOk data)) s =
     (\<not> nullish data \<longrightarrow> truthy (getprop data ''refresh_token'') \<and> getprop data ''refresh_token'' \<notin> set (presented s))"
| "fresh_env _ s = True"

definition fresh_step :: "string \<Rightarrow> http_event \<Rightarrow> http_state \<Rightarrow> http_state option" where
  "fresh_step cur e s = (if fresh_env e s then http_step cur e s else None)"

definition none_pending :: "http_state \<Rightarrow> bool" where
  "none_pending s \<longleftrightarrow> (\<forall>i < length (posts s). rp_phase (posts s ! i) \<noteq> PSent)"

definition rotation_inv :: "http_state \<Rightarrow> bool" where
  "rotation_inv s \<longleftrightarrow> distinct (presented s) \<and>
     (none_pending s \<and> truthy (refreshToken s) \<longrightarrow> refreshToken s \<notin> set (presented s))"

lemma rotation_cong:
  "posts s' = posts s \<Longrightarrow> refreshToken s' = refreshToken s \<Longrightarrow> rotation_inv s' = rotation_inv s"
  by (simp add: rotation_inv_def presented_def none_pending_def)

lemma rotation_new_token:
  "rotation_inv s \<Longrightarrow> presented s' = presented s \<Longrightarrow> \<not> truthy (refreshToken s') \<or> refreshToken s' \<notin> set (presented s) \<Longrightarrow>
   rotation_inv s'"
  by (auto simp: rotation_inv_def)

lemma presented_set_post [simp]: "presented (set_post i ph s) = presented s"
  by (cases "i < length (posts s)") (simp_all add: presented_def set_post_def map_update list_update_same_conv list_update_beyond)

lemma presented_frame [simp]: "presented (setTokens a r s) = presented s" "presented (clearTokens s) = presented s"
  by (simp_all add: presented_def)

lemma refreshToken_after [simp]:
  "refreshToken (setTokens a r s) = (if truthy r then r else refreshToken s)" "refreshToken (clearTokens s) = JNull"
  by (simp_all add: setTokens_def clearTokens_def Let_def)

lemma refreshTokens_rotation:
  assumes "flight_inv s" and "rotation_inv s" and "refreshTokens s = (p, s')"
  shows "rotation_inv s'"
proof (cases "refreshInFlight s = None \<and> truthy (refreshToken s)")
  case True
  then have "none_pending s" using assms(1) by (auto simp: flight_inv_def none_pending_def finished_def)
  with True assms(2) have new: "refreshToken s \<notin> set (presented s)" by (simp add: rotation_inv_def)
  obtain q where s': "posts s' = posts s @ [q]" "rp_token q = refreshToken s" "rp_phase q = PSent"
    using True assms(3) by (auto simp: refreshTokens_def)
  then have "\<not> none_pending s'" by (auto simp: none_pending_def nth_append intro!: exI [of _ "length (posts s)"])
  with new s' assms(2) show ?thesis by (auto simp: rotation_inv_def presented_def)
next
  case False
  with assms show ?thesis by (auto simp: refreshTokens_def split: option.splits if_splits)
qed

lemma reply_rotation:
  assumes "rotation_inv s" and "on_refresh_reply i out s = Some s'" and "fresh_env (RefreshReply i out) s"
  shows "rotation_inv s'"
proof -
  have "presented s' = presented s" "\<not> truthy (refreshToken s') \<or> refreshToken s' \<notin> set (presented s)"
    using assms(2,3)
    by (auto simp: on_refresh_reply_def split: if_splits ax_result.splits)
  with assms(1) show ?thesis by (rule rotation_new_token)
qed

lemma finally_rotation:
  assumes "rotation_inv s" and "on_refresh_finally i s = Some s'"
  shows "rotation_inv s'"
proof -
  from assms(2) obtain b where i: "i < length (posts s)" "rp_phase (posts s ! i) = PApplied b"
    and s': "s' = set_post i (PFinished b) (s\<lparr>refreshInFlight := None\<rparr>)"
    by (auto simp: on_refresh_finally_def split: if_splits post_phase.splits)
  have "presented s' = presented s" by (simp add: s' presented_def [of "s\<lparr>refreshInFlight := None\<rparr>"]) (simp add: presented_def)
  moreover have "none_pending s' = none_pending s"
    using i by (auto simp: s' none_pending_def set_post_def nth_list_update) (metis post_phase.distinct(1))
  ultimately show ?thesis using assms(1) by (simp add: rotation_inv_def s')
qed

lemma fresh_step_rotation:
  assumes "http_inv s \<and> rotation_inv s" and "fresh_step cur e s = Some s'"
  shows "http_inv s' \<and> rotation_inv s'"
proof
  from assms(2) have step: "http_step cur e s = Some s'" and env: "fresh_env e s"
    by (auto simp: fresh_step_def split: if_splits)
  from assms(1) step show "http_inv s'" by (blast intro: http_step_inv)
  from assms(1) have inv: "flight_inv s" "rotation_inv s" by (simp_all add: http_inv_def)
  have rf: "rotation_inv (snd (refreshTokens s))"
    using refreshTokens_rotation [OF inv] by (cases "refreshTokens s") simp
  show "rotation_inv s'"
  proof (cases e)
    case (SetTokens a r)
    then show ?thesis
    proof (cases "truthy r")
      case True
      with SetTokens step env inv(2) show ?thesis
        by (intro rotation_new_token [OF inv(2)]) (auto simp: setTokens_def Let_def presented_def)
    next
      case False
      with SetTokens step inv(2) rotation_cong [of s' s] show ?thesis by (auto simp: setTokens_def Let_def)
    qed
  next
    case ClearTokens
    with step show ?thesis by (intro rotation_new_token [OF inv(2)]) (auto simp: clearTokens_def presented_def)
  next
    case (StorageEvent k v)
    show ?thesis
    proof (cases "k = ''refresh_token''")
      case True
      with StorageEvent step env show ?thesis
        by (cases v; intro rotation_new_token [OF inv(2)])
          (auto simp: on_storage_def Let_def presented_def item_or_null_def)
    next
      case False
      with StorageEvent step rotation_cong [of s' s] inv(2) show ?thesis by (auto simp: on_storage_def Let_def)
    qed
  next
    case RestoreSession
    with step inv rf show ?thesis by (auto simp: tryRestoreSession_def)
  next
    case (Request url auth)
    with step rotation_cong [of s' s] inv(2) show ?thesis by (auto simp: http_request_def)
  next
    case (Response t out)
    with step rotation_cong [of s' s] rotation_cong [of s' "snd (refreshTokens s)"] inv(2) rf show ?thesis
      by (auto simp: on_response_def Let_def split: if_splits ax_result.splits prod.splits)
  next
    case (RefreshReply i out)
    with step env inv(2) show ?thesis by (auto intro: reply_rotation)
  next
    case (RefreshFinally i)
    with step inv(2) show ?thesis by (auto intro: finally_rotation)
  next
    case (Resume t ok)
    with step rotation_cong [of s' s] inv(2) show ?thesis
      by (auto simp: resume_call_def split: if_splits call_phase.splits option.splits)
  qed
qed

interpretation rotating: guarded_machine "fresh_step cur" "\<lambda>s. http_inv s \<and> rotation_inv s"
  by unfold_locales (rule fresh_step_rotation)

subsection \<open>Many calls waiting for one refresh\<close>

definition awaits :: "nat \<Rightarrow> http_state \<Rightarrow> nat \<Rightarrow> bool" where
  "awaits k s t \<longleftrightarrow> t < length (calls s) \<and> hc_phase (calls s ! t) = AwaitRefresh (RPost k)"

text \<open>A call whose 401 leads to a refresh.\<close>

definition refreshable :: "http_state \<Rightarrow> nat \<Rightarrow> bool" where
  "refreshable s t \<longleftrightarrow> t < length (calls s) \<and> hc_phase (calls s ! t) = Sending \<and> \<not> hc_retry (calls s ! t) \<and>
     \<not> isNoAutoRefreshEndpoint (hc_url (calls s ! t))"

lemma gather_401s:
  assumes "distinct ts" and "\<forall>t \<in> set ts. refreshable s t" and "truthy (refreshToken s)" and "refreshInFlight s = Some k"
  shows "\<exists>s'. exec (http_step cur) (map (\<lambda>t. Response t (AxHttp 401 d)) ts) s = Some s' \<and>
     (\<forall>t \<in> set ts. awaits k s' t) \<and> (\<forall>t. t \<notin> set ts \<longrightarrow> calls s' ! t = calls s ! t) \<and>
     length (calls s') = length (calls s) \<and> posts s' = posts s \<and> refreshInFlight s' = Some k \<and> sent s' = sent s \<and>
     redirects s' = redirects s \<and> route s' = route s"
  using assms
proof (induction ts arbitrary: s)
  case Nil
  then show ?case by simp
next
  case (Cons t ts)
  let ?s = "set_call t ((calls s ! t)\<lparr>hc_retry := True, hc_phase := AwaitRefresh (RPost k)\<rparr>) s"
  have rf: "refreshTokens s = (RPost k, s)" using Cons.prems by (simp add: refreshTokens_def)
  have step: "on_response t (AxHttp 401 d) s = Some ?s"
    using Cons.prems rf by (simp add: on_response_def refreshable_def wants_refresh_def)
  have frame: "u \<noteq> t \<Longrightarrow> calls ?s ! u = calls s ! u" for u by (simp add: set_call_def)
  have "refreshable ?s u" if "u \<in> set ts" for u
  proof -
    from that Cons.prems(1) have "u \<noteq> t" by auto
    with that Cons.prems(2) frame show ?thesis by (simp add: refreshable_def)
  qed
  with Cons.IH [of ?s] Cons.prems obtain s' where
    IH: "exec (http_step cur) (map (\<lambda>t. Response t (AxHttp 401 d)) ts) ?s = Some s'"
      "\<forall>u \<in> set ts. awaits k s' u" "\<forall>u. u \<notin> set ts \<longrightarrow> calls s' ! u = calls ?s ! u"
      "length (calls s') = length (calls s)" "posts s' = posts s" "refreshInFlight s' = Some k" "sent s' = sent s"
      "redirects s' = redirects ?s" "route s' = route ?s"
    by auto
  have "awaits k s' t" using IH(3,4) Cons.prems by (auto simp: awaits_def refreshable_def set_call_def)
  moreover have "redirects ?s = redirects s" "route ?s = route s" by (simp_all add: set_call_def)
  ultimately show ?case using IH step frame by auto
qed

text \<open>The first 401 sends the POST; the rest join it.\<close>

lemma all_401s:
  assumes "distinct ts" and "ts \<noteq> []" and "\<forall>t \<in> set ts. refreshable s t" and "truthy (refreshToken s)"
    and "refreshInFlight s = None"
  shows "\<exists>s' p. exec (http_step cur) (map (\<lambda>t. Response t (AxHttp 401 d)) ts) s = Some s' \<and>
     (\<forall>t \<in> set ts. awaits (length (posts s)) s' t) \<and> posts s' = posts s @ [p] \<and> rp_token p = refreshToken s \<and>
     rp_phase p = PSent \<and> sent s' = sent s \<and> redirects s' = redirects s \<and> route s' = route s"
proof -
  from assms(2) obtain t us where ts: "ts = t # us" by (cases ts) auto
  let ?k = "length (posts s)"
  obtain s1 where s1: "refreshTokens s = (RPost ?k, s1)" "refreshInFlight s1 = Some ?k" "calls s1 = calls s"
    "refreshToken s1 = refreshToken s" "sent s1 = sent s" "redirects s1 = redirects s" "route s1 = route s"
    using assms(4,5) by (auto simp: refreshTokens_def)
  obtain p where p: "posts s1 = posts s @ [p]" "rp_token p = refreshToken s" "rp_phase p = PSent"
    using s1(1) assms(4,5) by (auto simp: refreshTokens_def)
  let ?s = "set_call t ((calls s ! t)\<lparr>hc_retry := True, hc_phase := AwaitRefresh (RPost ?k)\<rparr>) s1"
  have t: "refreshable s t" using assms(3) ts by simp
  have step: "on_response t (AxHttp 401 d) s = Some ?s"
    using t assms(4) s1 by (simp add: on_response_def refreshable_def wants_refresh_def)
  have "refreshable ?s u" if "u \<in> set us" for u
  proof -
    from that assms(1) ts have "u \<noteq> t" by auto
    with that assms(3) ts s1(3) show ?thesis by (simp add: refreshable_def set_call_def)
  qed
  with gather_401s [of us ?s ?k cur d] assms(1,4) ts s1 obtain s' where
    s': "exec (http_step cur) (map (\<lambda>t. Response t (AxHttp 401 d)) us) ?s = Some s'"
      "\<forall>u \<in> set us. awaits ?k s' u" "\<forall>u. u \<notin> set us \<longrightarrow> calls s' ! u = calls ?s ! u"
      "length (calls s') = length (calls s)" "posts s' = posts s1" "sent s' = sent s" "redirects s' = redirects ?s" "route s' = route ?s" by auto
  have "awaits ?k s' t" using s'(3,4) assms(1) ts t s1(3) by (auto simp: awaits_def refreshable_def set_call_def)
  moreover have "redirects ?s = redirects s" "route ?s = route s" using s1(6,7) by (simp_all add: set_call_def)
  ultimately show ?thesis using s' step ts p by auto
qed

lemma resume_refreshed:
  assumes "distinct ts" and "\<forall>t \<in> set ts. awaits k s t" and "promised s (RPost k) = Some True"
  shows "\<exists>s'. exec (http_step cur) (map (\<lambda>t. Resume t ok) ts) s = Some s' \<and> posts s' = posts s \<and>
     sent s' = sent s @ map (\<lambda>t. (t, Some (bearer (accessToken s)))) ts"
  using assms
proof (induction ts arbitrary: s)
  case Nil
  then show ?case by simp
next
  case (Cons t ts)
  let ?c = "(calls s ! t)\<lparr>hc_auth := Some (bearer (accessToken s))\<rparr>"
  let ?s = "dispatch t (set_call t ?c s)"
  have t: "t < length (calls s)" "hc_phase (calls s ! t) = AwaitRefresh (RPost k)"
    using Cons.prems by (simp_all add: awaits_def)
  have step: "resume_call cur t ok s = Some ?s" using t Cons.prems(3) by (simp add: resume_call_def)
  have "bearer v \<noteq> []" for v by (simp add: bearer_def)
  then have sent: "sent ?s = sent s @ [(t, Some (bearer (accessToken s)))]"
    using t by (simp add: dispatch_def Let_def set_call_def attach_token_def)
  have "u \<noteq> t \<Longrightarrow> calls ?s ! u = calls s ! u" for u by (simp add: dispatch_def Let_def set_call_def)
  then have "\<forall>u \<in> set ts. awaits k ?s u" using Cons.prems(1,2) unfolding awaits_def
    by (metis distinct.simps(2) http_sel list.set_intros(2))
  moreover have "promised ?s (RPost k) = Some True" using Cons.prems(3) by (simp add: promised_def split: if_splits)
  ultimately obtain s' where "exec (http_step cur) (map (\<lambda>t. Resume t ok) ts) ?s = Some s'" "posts s' = posts ?s"
      "sent s' = sent ?s @ map (\<lambda>t. (t, Some (bearer (accessToken ?s)))) ts"
    using Cons.IH [of ?s] Cons.prems(1) by auto
  with step sent show ?case by simp
qed

lemma resume_expired:
  assumes "distinct ts" and "\<forall>t \<in> set ts. awaits k s t" and "promised s (RPost k) = Some False"
  shows "\<exists>s'. exec (http_step cur) (map (\<lambda>t. Resume t True) ts) s = Some s' \<and> sent s' = sent s \<and>
     accessToken s' = accessToken s \<and> refreshToken s' = refreshToken s \<and> localStorage s' = localStorage s \<and>
     redirects s' = redirects s + length ts \<and> route s' = route s \<and> length (calls s') = length (calls s) \<and>
     (\<forall>t. t \<notin> set ts \<longrightarrow> calls s' ! t = calls s ! t) \<and>
     (\<forall>t \<in> set ts. hc_phase (calls s' ! t) = CallExpired (sessionExpiredError cur JUndef))"
  using assms
proof (induction ts arbitrary: s)
  case Nil
  then show ?case by simp
next
  case (Cons t ts)
  let ?c = "(calls s ! t)\<lparr>hc_phase := CallExpired (sessionExpiredError cur JUndef)\<rparr>"
  let ?s = "redirectToLogin True (set_call t ?c s)"
  have t: "t < length (calls s)" "hc_phase (calls s ! t) = AwaitRefresh (RPost k)"
    using Cons.prems by (simp_all add: awaits_def)
  have step: "resume_call cur t True s = Some ?s" using t Cons.prems(3) by (simp add: resume_call_def)
  have fr: "u \<noteq> t \<Longrightarrow> calls ?s ! u = calls s ! u" for u by (simp add: set_call_def)
  then have "\<forall>u \<in> set ts. awaits k ?s u" using Cons.prems(1,2) unfolding awaits_def
    by (metis distinct.simps(2) http_sel list.set_intros(2))
  moreover have "promised ?s (RPost k) = Some False" using Cons.prems(3) by (simp add: promised_def split: if_splits)
  ultimately obtain s' where IH: "exec (http_step cur) (map (\<lambda>t. Resume t True) ts) ?s = Some s'" "sent s' = sent ?s"
     "accessToken s' = accessToken ?s" "refreshToken s' = refreshToken ?s" "localStorage s' = localStorage ?s"
     "redirects s' = redirects ?s + length ts" "route s' = route ?s" "length (calls s') = length (calls ?s)"
     "\<forall>u. u \<notin> set ts \<longrightarrow> calls s' ! u = calls ?s ! u"
     "\<forall>u \<in> set ts. hc_phase (calls s' ! u) = CallExpired (sessionExpiredError cur JUndef)"
    using Cons.IH [of ?s] Cons.prems(1) by auto
  have "localStorage ?s = localStorage s" "redirects ?s = redirects s + 1" "route ?s = route s"
    by (simp_all add: redirectToLogin_def set_call_def)
  then have "localStorage s' = localStorage s" "redirects s' = redirects s + length (t # ts)" "route s' = route s" using IH(5-7) by simp_all
  moreover have "hc_phase (calls s' ! t) = CallExpired (sessionExpiredError cur JUndef)"
    using IH(9) Cons.prems(1) t(1) by (simp add: set_call_def)
  ultimately show ?case using IH step fr by auto
qed

subsection \<open>Properties\<close>

definition demo_http :: http_state where
  "demo_http = http_request (Some ''/api/b'') None (http_request (Some ''/api/a'') None
     (load_http [''refresh_token'' \<mapsto> ''r0''] ''home'' None))"

lemma demo_http_calls:
  "calls demo_http = [\<lparr>hc_url = Some ''/api/a'', hc_auth = None, hc_retry = False, hc_phase = Sending\<rparr>,
     \<lparr>hc_url = Some ''/api/b'', hc_auth = None, hc_retry = False, hc_phase = Sending\<rparr>]"
  "posts demo_http = []" "refreshInFlight demo_http = None" "refreshToken demo_http = JStr ''r0''"
  "sent demo_http = [(0, None), (1, None)]"
  by (simp_all add: demo_http_def http_request_def load_http_def dispatch_def set_call_def attach_token_def
      Let_def item_or_null_def getItem_def)

lemma demo_refreshable: "\<forall>t \<in> set [0, 1]. refreshable demo_http t"
  by (simp add: refreshable_def demo_http_calls isNoAutoRefreshEndpoint_def NO_AUTO_REFRESH_ENDPOINTS_def)

lemma one_unfinished:
  assumes "flight_inv s" shows "length (filter (\<lambda>p. \<not> finished p) (posts s)) \<le> 1"
proof (cases "refreshInFlight s")
  case None
  with assms have "\<forall>p \<in> set (posts s). finished p" by (auto simp: flight_inv_def in_set_conv_nth)
  then have "filter (\<lambda>p. \<not> finished p) (posts s) = []" by (simp add: filter_empty_conv)
  then show ?thesis by simp
next
  case (Some k)
  with assms have "{i. i < length (posts s) \<and> \<not> finished (posts s ! i)} \<subseteq> {k}" by (auto simp: flight_inv_def)
  then have "card {i. i < length (posts s) \<and> \<not> finished (posts s ! i)} \<le> card {k}" by (rule card_mono [rotated]) simp
  then show ?thesis by (simp add: length_filter_conv_card)
qed

text \<open>Single flight.  From page load on, under every interleaving of requests, responses,
  restores, logins, logouts and storage events, at most one refresh POST of the tab is
  outstanding.\<close>

theorem http_refresh_single_flight:
  assumes "exec (http_step cur) es (load_http m rt env) = Some s"
  shows "length (filter (\<lambda>p. \<not> finished p) (posts s)) \<le> 1"
  using http_reachable [OF assms] one_unfinished by blast

theorem http_refresh_single_flight_witness:
  "\<exists>s. exec (http_step ''en'') [RestoreSession, RestoreSession, StorageEvent ''refresh_token'' (Some ''r1''), RestoreSession]
       (load_http [''refresh_token'' \<mapsto> ''r0''] ''home'' None) = Some s \<and>
     length (filter (\<lambda>p. \<not> finished p) (posts s)) \<le> 1"
proof -
  let ?run = "exec (http_step ''en'') [RestoreSession, RestoreSession, StorageEvent ''refresh_token'' (Some ''r1''), RestoreSession]
       (load_http [''refresh_token'' \<mapsto> ''r0''] ''home'' None)"
  have "\<exists>s. ?run = Some s" by simp
  then obtain s where s: "?run = Some s" ..
  from http_refresh_single_flight [OF s] s show ?thesis by blast
qed

text \<open>C20. Against a server that rotates refresh tokens, a tab never presents the same refresh token
  twice, so it never trips the server's reuse detection by itself.\<close>

theorem refresh_token_never_reused:
  assumes "exec (fresh_step cur) es (load_http m rt env) = Some s"
  shows "distinct (map rp_token (posts s))"
proof -
  have "http_inv (load_http m rt env) \<and> rotation_inv (load_http m rt env)"
    using http_init by (simp add: rotation_inv_def presented_def) (simp add: load_http_def)
  from rotating.exec_invar [OF this assms] show ?thesis by (simp add: rotation_inv_def presented_def)
qed

theorem refresh_token_never_reused_witness:
  "\<exists>s. exec (fresh_step ''en'') [RestoreSession, RefreshReply 0 (AxOk (JObj [(''access_token'', JStr ''a1''), (''refresh_token'', JStr ''r1'')])),
        RefreshFinally 0, RestoreSession] (load_http [''refresh_token'' \<mapsto> ''r0''] ''home'' None) = Some s \<and>
     distinct (map rp_token (posts s))"
proof -
  let ?run = "exec (fresh_step ''en'') [RestoreSession, RefreshReply 0 (AxOk (JObj [(''access_token'', JStr ''a1''), (''refresh_token'', JStr ''r1'')])),
        RefreshFinally 0, RestoreSession] (load_http [''refresh_token'' \<mapsto> ''r0''] ''home'' None)"
  have "\<exists>s. ?run = Some s"
    by (simp add: fresh_step_def tryRestoreSession_def refreshTokens_def load_http_def item_or_null_def getItem_def
        on_refresh_reply_def on_refresh_finally_def set_post_def setTokens_def presented_def Let_def)
  then obtain s where s: "?run = Some s" ..
  from refresh_token_never_reused [OF s] s show ?thesis by blast
qed

text \<open>A request goes out at most twice, and at most once to an endpoint that carries credentials
  itself (login, token, MFA, revocation); those never end in the session-expired error.\<close>

theorem http_retries_at_most_once:
  assumes "exec (http_step cur) es (load_http m rt env) = Some s" and "t < length (calls s)"
  shows "sent_times s t \<le> 2 \<and>
     (isNoAutoRefreshEndpoint (hc_url (calls s ! t)) \<longrightarrow>
        sent_times s t = 1 \<and> (\<forall>e. hc_phase (calls s ! t) \<noteq> CallExpired e))"
proof -
  have "call_ok (calls s ! t) (sent_times s t)"
    using http_reachable [OF assms(1)] assms(2) by (blast intro: call_count)
  then show ?thesis by (cases "hc_phase (calls s ! t)") (auto simp: call_ok_def split: if_splits)
qed

theorem http_retries_at_most_once_witness:
  "\<exists>s. exec (http_step ''en'') [Request (Some ''/oauth2/token'') None, Response 0 (AxHttp 401 JNull)]
       (load_http [''refresh_token'' \<mapsto> ''r0''] ''home'' None) = Some s \<and> sent_times s 0 = 1"
proof -
  let ?run = "exec (http_step ''en'') [Request (Some ''/oauth2/token'') None, Response 0 (AxHttp 401 JNull)]
       (load_http [''refresh_token'' \<mapsto> ''r0''] ''home'' None)"
  have ep: "isNoAutoRefreshEndpoint (Some ''/oauth2/token'')"
    by (simp add: isNoAutoRefreshEndpoint_def NO_AUTO_REFRESH_ENDPOINTS_def)
  have "\<exists>s. ?run = Some s \<and> 0 < length (calls s) \<and> hc_url (calls s ! 0) = Some ''/oauth2/token''"
    by (simp add: http_request_def load_http_def dispatch_def set_call_def attach_token_def on_response_def
        wants_refresh_def ep Let_def)
  then obtain s where s: "?run = Some s" "0 < length (calls s)" "hc_url (calls s ! 0) = Some ''/oauth2/token''" by blast
  from http_retries_at_most_once [OF s(1,2)] s ep show ?thesis by auto
qed

text \<open>C21. Any number of calls that get a 401 while no refresh is running share one refresh POST, which
  presents the current refresh token once; when it succeeds each of them is sent again with
  the new access token.\<close>

theorem concurrent_401s_share_one_refresh:
  assumes "distinct ts" and "ts \<noteq> []" and "\<forall>t \<in> set ts. refreshable s t"
    and "truthy (refreshToken s)" and "refreshInFlight s = None"
    and "\<not> nullish data" and "k = length (posts s)"
  shows "\<exists>s' p. exec (http_step cur) (map (\<lambda>t. Response t (AxHttp 401 d)) ts @
        [RefreshReply k (AxOk data), RefreshFinally k] @ map (\<lambda>t. Resume t True) ts) s = Some s' \<and>
     posts s' = posts s @ [p] \<and> rp_token p = refreshToken s \<and>
     sent s' = sent s @ map (\<lambda>t. (t, Some (bearer (getprop data ''access_token'')))) ts"
proof -
  obtain s1 p where s1: "exec (http_step cur) (map (\<lambda>t. Response t (AxHttp 401 d)) ts) s = Some s1"
    "\<forall>t \<in> set ts. awaits k s1 t" "posts s1 = posts s @ [p]" "rp_token p = refreshToken s" "rp_phase p = PSent"
    "sent s1 = sent s"
    using all_401s [OF assms(1-5), of cur d] assms(7) by blast
  let ?s2 = "set_post k (PApplied True) (setTokens (getprop data ''access_token'') (getprop data ''refresh_token'') s1)"
  let ?s3 = "set_post k (PFinished True) (?s2\<lparr>refreshInFlight := None\<rparr>)"
  have mid: "exec (http_step cur) [RefreshReply k (AxOk data), RefreshFinally k] s1 = Some ?s3"
    using s1(3,5) assms(6,7) by (simp add: on_refresh_reply_def on_refresh_finally_def set_post_def)
  have ps: "posts ?s3 = posts s @ [p\<lparr>rp_phase := PFinished True\<rparr>]" and at: "accessToken ?s3 = getprop data ''access_token''"
    using s1(3) assms(7) by (simp_all add: set_post_def setTokens_def Let_def)
  have "\<forall>t \<in> set ts. awaits k ?s3 t" using s1(2) by (simp add: awaits_def)
  moreover have "promised ?s3 (RPost k) = Some True" using ps assms(7) by (simp add: promised_def del: http_sel)
  ultimately obtain s4 where s4: "exec (http_step cur) (map (\<lambda>t. Resume t True) ts) ?s3 = Some s4"
    "posts s4 = posts ?s3" "sent s4 = sent ?s3 @ map (\<lambda>t. (t, Some (bearer (accessToken ?s3)))) ts"
    using resume_refreshed [OF assms(1)] by blast
  have "exec (http_step cur) (map (\<lambda>t. Response t (AxHttp 401 d)) ts @
      [RefreshReply k (AxOk data), RefreshFinally k] @ map (\<lambda>t. Resume t True) ts) s = Some s4"
    by (simp only: exec_append s1(1) mid s4(1) option.case)
  moreover have "sent s4 = sent s @ map (\<lambda>t. (t, Some (bearer (getprop data ''access_token'')))) ts"
    using s4(3) s1(6) unfolding at by simp
  moreover have "rp_token (p\<lparr>rp_phase := PFinished True\<rparr>) = refreshToken s" using s1(4) by simp
  ultimately show ?thesis using s4(2) unfolding ps by blast
qed

theorem concurrent_401s_share_one_refresh_witness:
  "\<exists>s' p. exec (http_step ''en'') (map (\<lambda>t. Response t (AxHttp 401 JNull)) [0, 1] @
        [RefreshReply 0 (AxOk (JObj [(''access_token'', JStr ''a1'')])), RefreshFinally 0] @
        map (\<lambda>t. Resume t True) [0, 1]) demo_http = Some s' \<and>
     posts s' = posts demo_http @ [p] \<and> rp_token p = refreshToken demo_http \<and>
     sent s' = sent demo_http @ map (\<lambda>t. (t, Some (bearer (getprop (JObj [(''access_token'', JStr ''a1'')]) ''access_token'')))) [0, 1]"
  by (rule concurrent_401s_share_one_refresh) (use demo_refreshable in \<open>simp_all add: demo_http_calls\<close>)

text \<open>When that refresh fails, the tokens are gone from memory and storage, every waiting call rejects with the
  session-expired error, none is sent again, and each of them asks for the login view.\<close>

lemma failed_refresh_rejects:
  assumes "distinct ts" and "ts \<noteq> []" and "\<forall>t \<in> set ts. refreshable s t"
    and "truthy (refreshToken s)" and "refreshInFlight s = None"
    and "out \<in> {AxNet, AxHttp n b, AxOk JNull}" and "k = length (posts s)"
  shows "\<exists>s'. exec (http_step cur) (map (\<lambda>t. Response t (AxHttp 401 d)) ts @
        [RefreshReply k out, RefreshFinally k] @ map (\<lambda>t. Resume t True) ts) s = Some s' \<and>
     accessToken s' = JNull \<and> refreshToken s' = JNull \<and> getItem (localStorage s') ''refresh_token'' = None \<and>
     (\<forall>t \<in> set ts. hc_phase (calls s' ! t) = CallExpired (sessionExpiredError cur JUndef)) \<and>
     sent s' = sent s \<and> redirects s' = redirects s + length ts \<and> route s' = route s"
proof -
  obtain s1 p where s1: "exec (http_step cur) (map (\<lambda>t. Response t (AxHttp 401 d)) ts) s = Some s1"
    "\<forall>t \<in> set ts. awaits k s1 t" "posts s1 = posts s @ [p]" "rp_phase p = PSent" "sent s1 = sent s"
    "redirects s1 = redirects s" "route s1 = route s"
    using all_401s [OF assms(1-5), of cur d] assms(7) by blast
  let ?s2 = "set_post k (PApplied False) (clearTokens s1)"
  let ?s3 = "set_post k (PFinished False) (?s2\<lparr>refreshInFlight := None\<rparr>)"
  have mid: "exec (http_step cur) [RefreshReply k out, RefreshFinally k] s1 = Some ?s3"
    using s1(3,4) assms(6,7) by (auto simp: on_refresh_reply_def on_refresh_finally_def set_post_def)
  have ps: "posts ?s3 = posts s @ [p\<lparr>rp_phase := PFinished False\<rparr>]"
    using s1(3) assms(7) by (simp add: set_post_def)
  have gone: "accessToken ?s3 = JNull" "refreshToken ?s3 = JNull" "getItem (localStorage ?s3) ''refresh_token'' = None"
    by (simp_all add: clearTokens_def set_post_def getItem_def removeItem_def)
  have "\<forall>t \<in> set ts. awaits k ?s3 t" using s1(2) by (simp add: awaits_def)
  moreover have "promised ?s3 (RPost k) = Some False" using ps assms(7) by (simp add: promised_def del: http_sel)
  ultimately obtain s4 where s4: "exec (http_step cur) (map (\<lambda>t. Resume t True) ts) ?s3 = Some s4"
    "sent s4 = sent ?s3" "accessToken s4 = accessToken ?s3" "refreshToken s4 = refreshToken ?s3"
    "localStorage s4 = localStorage ?s3" "redirects s4 = redirects ?s3 + length ts" "route s4 = route ?s3"
    "\<forall>t \<in> set ts. hc_phase (calls s4 ! t) = CallExpired (sessionExpiredError cur JUndef)"
    using resume_expired [OF assms(1)] by blast
  have "exec (http_step cur) (map (\<lambda>t. Response t (AxHttp 401 d)) ts @
      [RefreshReply k out, RefreshFinally k] @ map (\<lambda>t. Resume t True) ts) s = Some s4"
    by (simp only: exec_append s1(1) mid s4(1) option.case)
  moreover have "sent ?s3 = sent s" "redirects ?s3 = redirects s" "route ?s3 = route s"
    using s1(5-7) by (simp_all add: set_post_def clearTokens_def)
  ultimately show ?thesis using s4 gone by simp
qed

text \<open>C23. The window of the single flight: a logout while a refresh is in flight does not last.  The
  reply stores new tokens in memory and storage after \<open>clearTokens\<close> removed the old ones.\<close>

theorem logout_during_refresh_is_undone:
  assumes "refreshInFlight s = Some k" and "flight_inv s" and "rp_phase (posts s ! k) = PSent"
    and "truthy r"
  shows "\<exists>s'. exec (http_step cur) [ClearTokens,
        RefreshReply k (AxOk (JObj [(''access_token'', a), (''refresh_token'', r)])), RefreshFinally k] s = Some s' \<and>
     accessToken s' = a \<and> refreshToken s' = r \<and> getItem (localStorage s') ''refresh_token'' = Some (js_String r)"
proof -
  have "k < length (posts s)" using assms(1,2) by (simp add: flight_inv_def)
  with assms(3,4) show ?thesis
    by (simp add: on_refresh_reply_def on_refresh_finally_def clearTokens_def setTokens_def set_post_def Let_def
        getItem_def setItem_def)
qed

theorem logout_during_refresh_is_undone_witness:
  "\<exists>s s'. exec (http_step ''en'') [RestoreSession] (load_http [''refresh_token'' \<mapsto> ''r0''] ''home'' None) = Some s \<and>
     exec (http_step ''en'') [ClearTokens,
        RefreshReply 0 (AxOk (JObj [(''access_token'', JStr ''a1''), (''refresh_token'', JStr ''r1'')])), RefreshFinally 0] s = Some s' \<and>
     accessToken s' = JStr ''a1''"
proof -
  have "\<exists>s. exec (http_step ''en'') [RestoreSession] (load_http [''refresh_token'' \<mapsto> ''r0''] ''home'' None) = Some s \<and>
      refreshInFlight s = Some 0 \<and> flight_inv s \<and> rp_phase (posts s ! 0) = PSent"
    by (simp add: tryRestoreSession_def refreshTokens_def load_http_def item_or_null_def getItem_def flight_inv_def finished_def)
  then obtain s where s: "exec (http_step ''en'') [RestoreSession] (load_http [''refresh_token'' \<mapsto> ''r0''] ''home'' None) = Some s"
      "refreshInFlight s = Some 0" "flight_inv s" "rp_phase (posts s ! 0) = PSent" by blast
  from logout_during_refresh_is_undone [OF s(2-4), of "JStr ''r1''" "''en''" "JStr ''a1''"] s(1) show ?thesis by auto
qed

end
