(* ===== verification/UserAuth.thy ===== *)
theory UserAuth
  imports UserHttp Json
begin

section \<open>The services of the user portal\<close>

text \<open>
  \<open>services/authService.ts\<close> (login with PKCE, the MFA step, the code exchange with its stashed
  verifier, logout) and \<open>services/userService.ts\<close> (one request per operation).  The server
  behind the axios instance is the argument \<open>api\<close>, which threads a world of any type; the
  token variables are those of \<open>UserHttp\<close>.  A rejected promise is the left side of a result.
\<close>

subsection \<open>Requests and results\<close>

datatype body = NoBody | Form params | JsonText string

record api_call =
  ac_method :: string
  ac_url :: string
  ac_query :: params
  ac_body :: body
  ac_headers :: params

type_synonym 'w api = "api_call \<Rightarrow> 'w \<Rightarrow> ax_result \<times> 'w"

datatype failure = Failed ax_result | Threw js_throw

record 'w portal =
  p_http :: http_state
  p_session :: web_storage
  p_world :: 'w

text \<open>An asynchronous function over some state.\<close>

type_synonym ('s, 'a) async = "'s \<Rightarrow> (failure + 'a) \<times> 's"

type_synonym ('w, 'a) op = "('w portal, 'a) async"

text \<open>\<open>await m; k\<close>.\<close>

definition and_then :: "('s, 'a) async \<Rightarrow> ('a \<Rightarrow> ('s, 'b) async) \<Rightarrow> ('s, 'b) async" where
  "and_then m k s = (case m s of (Inl e, s') \<Rightarrow> (Inl e, s') | (Inr x, s') \<Rightarrow> k x s')"

definition return_op :: "'a \<Rightarrow> ('s, 'a) async" where
  "return_op x s = (Inr x, s)"

definition throw_op :: "js_throw \<Rightarrow> ('s, 'a) async" where
  "throw_op e s = (Inl (Threw e), s)"

definition send_call :: "'w api \<Rightarrow> api_call \<Rightarrow> ('w, jsval) op" where
  "send_call api c s = (case api c (p_world s) of
     (AxOk data, w) \<Rightarrow> (Inr data, s\<lparr>p_world := w\<rparr>)
   | (r, w) \<Rightarrow> (Inl (Failed r), s\<lparr>p_world := w\<rparr>))"

definition member :: "jsval \<Rightarrow> string \<Rightarrow> ('s, jsval) async" where
  "member v k s = (case get_member v k of Inl e \<Rightarrow> (Inl (Threw e), s) | Inr x \<Rightarrow> (Inr x, s))"

definition store_tokens :: "jsval \<Rightarrow> jsval \<Rightarrow> ('w, unit) op" where
  "store_tokens a r s = (Inr (), s\<lparr>p_http := setTokens a r (p_http s)\<rparr>)"

definition post_form :: "string \<Rightarrow> params \<Rightarrow> api_call" where
  "post_form url form = \<lparr>ac_method = ''POST'', ac_url = url, ac_query = [], ac_body = Form form, ac_headers = []\<rparr>"

definition send_json :: "string \<Rightarrow> string \<Rightarrow> jsval \<Rightarrow> api_call" where
  "send_json meth url v = \<lparr>ac_method = meth, ac_url = url, ac_query = [], ac_body = JsonText (stringify v),
     ac_headers = [(''Content-Type'', ''application/json'')]\<rparr>"

definition plain_call :: "string \<Rightarrow> string \<Rightarrow> api_call" where
  "plain_call meth url = \<lparr>ac_method = meth, ac_url = url, ac_query = [], ac_body = NoBody, ac_headers = []\<rparr>"

subsection \<open>The PKCE stash\<close>

record portal_env =
  env_client_id :: "string option"
  env_redirect_uri :: "string option"
  env_origin :: string

definition portal_CLIENT_ID :: "portal_env \<Rightarrow> string" where
  "portal_CLIENT_ID env = (case env_client_id env of
     Some c \<Rightarrow> if c \<noteq> [] then c else ''fulla-portal'' | None \<Rightarrow> ''fulla-portal'')"

definition REDIRECT_URI :: "portal_env \<Rightarrow> string" where
  "REDIRECT_URI env = (case env_redirect_uri env of
     Some u \<Rightarrow> if u \<noteq> [] then u else env_origin env @ ''/callback'' | None \<Rightarrow> env_origin env @ ''/callback'')"

definition PKCE_VERIFIER_KEY :: string where
  "PKCE_VERIFIER_KEY = ''pkce_code_verifier''"

record pkce_stash =
  st_state :: string
  st_verifier :: string

text \<open>Every failure inside the \<open>try\<close> (no storage, not JSON, a JSON \<open>null\<close>) gives no stash.\<close>

definition readPkceStash :: "web_storage \<Rightarrow> pkce_stash option" where
  "readPkceStash ws = (case ws of
     Unavailable \<Rightarrow> None
   | Available m \<Rightarrow>
       (case getItem m PKCE_VERIFIER_KEY of
          None \<Rightarrow> None
        | Some raw \<Rightarrow>
            if raw = [] then None
            else (case json_parse raw of
                    None \<Rightarrow> None
                  | Some parsed \<Rightarrow>
                      (case (getprop parsed ''state'', getprop parsed ''verifier'') of
                         (JStr st, JStr v) \<Rightarrow> Some \<lparr>st_state = st, st_verifier = v\<rparr>
                       | _ \<Rightarrow> None))))"

text \<open>Outside a \<open>try\<close> an unavailable storage throws.\<close>

definition storage_denied :: js_throw where
  "storage_denied = PlainError ''SecurityError''"

definition writePkceStash :: "pkce_stash \<Rightarrow> ('w, unit) op" where
  "writePkceStash stash s = (case p_session s of
     Unavailable \<Rightarrow> (Inl (Threw storage_denied), s)
   | Available m \<Rightarrow> (Inr (), s\<lparr>p_session := Available (setItem PKCE_VERIFIER_KEY
       (stringify (JObj [(''state'', JStr (st_state stash)), (''verifier'', JStr (st_verifier stash))])) m)\<rparr>))"

definition clearPkceStash :: "('w, unit) op" where
  "clearPkceStash s = (case p_session s of
     Unavailable \<Rightarrow> (Inl (Threw storage_denied), s)
   | Available m \<Rightarrow> (Inr (), s\<lparr>p_session := Available (removeItem PKCE_VERIFIER_KEY m)\<rparr>))"

definition hasVerifierForState :: "string option \<Rightarrow> 'w portal \<Rightarrow> bool" where
  "hasVerifierForState st s = (case st of
     None \<Rightarrow> False
   | Some x \<Rightarrow> x \<noteq> [] \<and> (case readPkceStash (p_session s) of None \<Rightarrow> False | Some stash \<Rightarrow> st_state stash = x))"

subsection \<open>authService\<close>

datatype login_result =
    MfaRequired jsval
  | PasswordChangeRequired
  | Success
  | MfaSuccess "int option"
  | ErrorText string

definition login_form :: "portal_env \<Rightarrow> string \<Rightarrow> string \<Rightarrow> string \<Rightarrow> string \<Rightarrow> portal_pkce_pair \<Rightarrow> params" where
  "login_form env username password scope st pkce =
     [(''username'', username), (''password'', password), (''client_id'', portal_CLIENT_ID env),
      (''redirect_uri'', REDIRECT_URI env), (''scope'', scope), (''state'', st),
      (''code_challenge'', challenge pkce), (''code_challenge_method'', pkce_method pkce), (''json'', ''true'')]"

definition code_form :: "portal_env \<Rightarrow> string \<Rightarrow> string \<Rightarrow> params" where
  "code_form env code v =
     [(''grant_type'', ''authorization_code''), (''code'', code), (''redirect_uri'', REDIRECT_URI env),
      (''client_id'', portal_CLIENT_ID env), (''code_verifier'', v)]"

text \<open>The token call and what follows it: the tokens of the reply are stored.\<close>

definition redeem :: "'w api \<Rightarrow> api_call \<Rightarrow> ('w, unit) op" where
  "redeem api c = and_then (send_call api c) (\<lambda>data.
     and_then (member data ''access_token'') (\<lambda>a. store_tokens a (getprop data ''refresh_token'')))"

text \<open>\<open>login\<close> after the reply of the login call, and the whole operation; the random bytes and the
  UUID of the call are arguments.\<close>

definition finish_login ::
    "portal_env \<Rightarrow> 'w api \<Rightarrow> portal_pkce_pair \<Rightarrow> string \<Rightarrow> jsval \<Rightarrow> ('w, login_result) op" where
  "finish_login env api pkce st data =
     and_then (member data ''mfa_required'') (\<lambda>mfa.
       if truthy mfa then
         and_then (writePkceStash \<lparr>st_state = st, st_verifier = verifier pkce\<rparr>) (\<lambda>_.
           return_op (MfaRequired (getprop data ''mfa_token'')))
       else if truthy (getprop data ''password_change_required'') then return_op PasswordChangeRequired
       else
         (let code = getprop data ''code'' in
          if \<not> truthy code then throw_op (PlainError ''No authorization code received'')
          else and_then (redeem api (post_form ''/oauth2/token'' (code_form env (js_String code) (verifier pkce)))) (\<lambda>_.
                 return_op Success)))"

definition authService_login ::
    "portal_env \<Rightarrow> digest \<Rightarrow> random \<Rightarrow> string \<Rightarrow> 'w api \<Rightarrow> string \<Rightarrow> string \<Rightarrow> string \<Rightarrow> ('w, login_result) op" where
  "authService_login env sha256 getRandomValues uuid api username password scope =
     (let pkce = generatePkcePair sha256 getRandomValues; st = uuid in
      and_then (send_call api (post_form ''/oauth2/login'' (login_form env username password scope st pkce)))
        (finish_login env api pkce st))"

definition authService_verifyMfa :: "portal_env \<Rightarrow> 'w api \<Rightarrow> string \<Rightarrow> string \<Rightarrow> ('w, login_result) op" where
  "authService_verifyMfa env api mfaToken code s =
     (let codeVerifier = (case readPkceStash (p_session s) of Some stash \<Rightarrow> st_verifier stash | None \<Rightarrow> []);
          ps = [(''mfa_token'', mfaToken), (''code'', code), (''client_id'', portal_CLIENT_ID env),
                (''redirect_uri'', REDIRECT_URI env)];
          ps = (if codeVerifier \<noteq> [] then params_set ''code_verifier'' codeVerifier ps else ps)
      in and_then (send_call api (post_form ''/oauth2/mfa/verify'' ps)) (\<lambda>data.
         and_then (member data ''access_token'') (\<lambda>a.
           if truthy a then
             and_then clearPkceStash (\<lambda>_.
             and_then (store_tokens a (getprop data ''refresh_token'')) (\<lambda>_.
               return_op (MfaSuccess (case getprop data ''backup_codes_remaining'' of JNum n \<Rightarrow> Some n | _ \<Rightarrow> None))))
           else return_op (ErrorText ''MFA verification failed''))) s)"

definition changePasswordForced :: "'w api \<Rightarrow> string \<Rightarrow> string \<Rightarrow> ('w, unit) op" where
  "changePasswordForced api oldPassword newPassword =
     and_then (send_call api (send_json ''POST'' ''/oauth2/password/change''
       (JObj [(''old_password'', JStr oldPassword), (''new_password'', JStr newPassword)]))) (\<lambda>_. return_op ())"

definition authService_exchangeCode :: "portal_env \<Rightarrow> 'w api \<Rightarrow> string \<Rightarrow> string option \<Rightarrow> ('w, unit) op" where
  "authService_exchangeCode env api code st s =
     (let stash = readPkceStash (p_session s) in
      and_then clearPkceStash (\<lambda>_.
        (case (stash, st) of
           (Some sh, Some x) \<Rightarrow>
             if x = [] \<or> st_state sh \<noteq> x
             then throw_op (PlainError ''No PKCE verifier matching this authorization flow'')
             else redeem api (post_form ''/oauth2/token'' (code_form env code (st_verifier sh)))
         | _ \<Rightarrow> throw_op (PlainError ''No PKCE verifier matching this authorization flow''))) s)"

definition register :: "'w api \<Rightarrow> string \<Rightarrow> string \<Rightarrow> string \<Rightarrow> ('w, unit) op" where
  "register api username password email =
     and_then (send_call api (post_form ''/api/register''
       [(''username'', username), (''password'', password), (''email'', email)])) (\<lambda>_. return_op ())"

text \<open>\<open>v ?? d\<close> and \<open>v || d\<close>.\<close>

definition coalesce :: "jsval \<Rightarrow> jsval \<Rightarrow> jsval" where
  "coalesce v d = (if nullish v then d else v)"

definition js_or :: "jsval \<Rightarrow> jsval \<Rightarrow> jsval" where
  "js_or v d = (if truthy v then v else d)"

definition listExternalProviders :: "'w api \<Rightarrow> ('w, jsval) op" where
  "listExternalProviders api = and_then (send_call api (plain_call ''GET'' ''/api/auth/providers'')) (\<lambda>data.
     and_then (member data ''providers'') (\<lambda>p. return_op (coalesce p (JArr []))))"

definition getAuthorizeContext :: "'w api \<Rightarrow> string \<Rightarrow> ('w, jsval) op" where
  "getAuthorizeContext api cid s =
     (case send_call api (plain_call ''GET'' ''/oauth2/authorize-context''\<lparr>ac_query := [(''client_id'', cid)]\<rparr>) s of
        (Inl e, s') \<Rightarrow> (Inr (JStr cid), s')
      | (Inr data, s') \<Rightarrow> (Inr (js_or (getprop data ''client_name'') (JStr cid)), s'))"

definition requestPasswordReset :: "'w api \<Rightarrow> string \<Rightarrow> ('w, unit) op" where
  "requestPasswordReset api email =
     and_then (send_call api (send_json ''POST'' ''/api/password-reset/request'' (JObj [(''email'', JStr email)]))) (\<lambda>_. return_op ())"

definition confirmPasswordReset :: "'w api \<Rightarrow> string \<Rightarrow> string \<Rightarrow> ('w, unit) op" where
  "confirmPasswordReset api token newPassword =
     and_then (send_call api (send_json ''POST'' ''/api/password-reset/confirm''
       (JObj [(''token'', JStr token), (''new_password'', JStr newPassword)]))) (\<lambda>_. return_op ())"

text \<open>\<open>logout\<close>: the requests it issues, all awaited with \<open>allSettled\<close>, and the tokens cleared
  in the \<open>finally\<close> block whatever happened.\<close>

definition logout_calls :: "portal_env \<Rightarrow> http_state \<Rightarrow> api_call list" where
  "logout_calls env h =
     (if truthy (accessToken h)
      then [\<lparr>ac_method = ''POST'', ac_url = ''/oauth2/logout'', ac_query = [], ac_body = NoBody,
             ac_headers = [(''Authorization'', bearer (accessToken h))]\<rparr>] else []) @
     (case getItem (localStorage h) ''refresh_token'' of
        Some refresh \<Rightarrow> if refresh \<noteq> []
          then [\<lparr>ac_method = ''POST'', ac_url = ''/oauth2/revoke'', ac_query = [],
                 ac_body = Form [(''token'', refresh), (''client_id'', portal_CLIENT_ID env)],
                 ac_headers = [(''Content-Type'', ''application/x-www-form-urlencoded'')]\<rparr>] else []
      | None \<Rightarrow> [])"

definition run_calls :: "'w api \<Rightarrow> api_call list \<Rightarrow> 'w \<Rightarrow> 'w" where
  "run_calls api cs w = foldl (\<lambda>w c. snd (api c w)) w cs"

definition authService_logout :: "portal_env \<Rightarrow> 'w api \<Rightarrow> 'w portal \<Rightarrow> 'w portal" where
  "authService_logout env api s =
     (let w = run_calls api (logout_calls env (p_http s)) (p_world s)
      in s\<lparr>p_world := w, p_http := clearTokens (p_http s)\<rparr>)"

subsection \<open>userService\<close>

definition fetch_data :: "'w api \<Rightarrow> string \<Rightarrow> ('w, jsval) op" where
  "fetch_data api url = send_call api (plain_call ''GET'' url)"

definition getUserInfo :: "'w api \<Rightarrow> ('w, jsval) op" where
  "getUserInfo api = fetch_data api ''/oauth2/userinfo''"

definition getProfile :: "'w api \<Rightarrow> ('w, jsval) op" where
  "getProfile api = fetch_data api ''/api/me''"

definition changePassword :: "'w api \<Rightarrow> string \<Rightarrow> string \<Rightarrow> ('w, unit) op" where
  "changePassword api oldPassword newPassword =
     and_then (send_call api (send_json ''PUT'' ''/api/me/password''
       (JObj [(''old_password'', JStr oldPassword), (''new_password'', JStr newPassword)]))) (\<lambda>_. return_op ())"

definition setupMfa :: "'w api \<Rightarrow> ('w, jsval) op" where
  "setupMfa api = send_call api (plain_call ''POST'' ''/api/me/mfa/setup'')"

definition verifyMfaSetup :: "'w api \<Rightarrow> string \<Rightarrow> ('w, unit) op" where
  "verifyMfaSetup api code =
     and_then (send_call api (post_form ''/api/me/mfa/verify'' [(''code'', code)])) (\<lambda>_. return_op ())"

definition disableMfa :: "'w api \<Rightarrow> string \<Rightarrow> ('w, unit) op" where
  "disableMfa api password =
     and_then (send_call api (post_form ''/api/me/mfa/disable'' [(''password'', password)])) (\<lambda>_. return_op ())"

definition getAuthorizedApps :: "'w api \<Rightarrow> ('w, jsval) op" where
  "getAuthorizedApps api = and_then (fetch_data api ''/api/me/authorized-apps'') (\<lambda>data.
     return_op (js_or (getprop data ''authorized_apps'') (JArr [])))"

definition revokeApp :: "'w api \<Rightarrow> string \<Rightarrow> ('w, unit) op" where
  "revokeApp api cid =
     and_then (send_call api (plain_call ''DELETE'' (''/api/me/authorized-apps/'' @ cid))) (\<lambda>_. return_op ())"

definition resendVerificationEmail :: "'w api \<Rightarrow> ('w, unit) op" where
  "resendVerificationEmail api =
     and_then (send_call api (plain_call ''POST'' ''/api/verify-email/resend'')) (\<lambda>_. return_op ())"

definition verifyEmail :: "'w api \<Rightarrow> string \<Rightarrow> ('w, jsval) op" where
  "verifyEmail api token = and_then (fetch_data api (''/api/verify-email?token='' @ encodeURIComponent token)) (\<lambda>data.
     return_op (js_or (getprop data ''message'') (JStr ''Email verified'')))"

definition getSocialLinks :: "'w api \<Rightarrow> ('w, jsval) op" where
  "getSocialLinks api = and_then (fetch_data api ''/api/me/social/links'') (\<lambda>data.
     return_op (js_or (getprop data ''social_links'') (JArr [])))"

definition social_link_url :: "string \<Rightarrow> string" where
  "social_link_url provider = ''/api/me/social/links/'' @ encodeURIComponent provider"

definition beginSocialLink :: "'w api \<Rightarrow> string \<Rightarrow> ('w, jsval) op" where
  "beginSocialLink api provider =
     send_call api (send_json ''POST'' (social_link_url provider @ ''/authorize'') (JObj []))"

definition linkSocialAccount :: "'w api \<Rightarrow> string \<Rightarrow> jsval \<Rightarrow> string \<Rightarrow> ('w, unit) op" where
  "linkSocialAccount api provider code st =
     and_then (send_call api (send_json ''POST'' (social_link_url provider)
       (JObj [(''code'', code), (''state'', JStr st)]))) (\<lambda>_. return_op ())"

definition unlinkSocialAccount :: "'w api \<Rightarrow> string \<Rightarrow> ('w, unit) op" where
  "unlinkSocialAccount api provider =
     and_then (send_call api (plain_call ''DELETE'' (social_link_url provider))) (\<lambda>_. return_op ())"

subsection \<open>Lemmas\<close>

text \<open>A server that keeps a log of the calls.\<close>

definition logged_api :: "'w api \<Rightarrow> (api_call list \<times> 'w) api" where
  "logged_api api c lw = (case api c (snd lw) of (r, w') \<Rightarrow> (r, (fst lw @ [c], w')))"

lemma and_then_Inr: "and_then m k s = (Inr y, s') \<longleftrightarrow> (\<exists>x s1. m s = (Inr x, s1) \<and> k x s1 = (Inr y, s'))"
  by (auto simp: and_then_def split: prod.splits sum.splits)

lemma and_then_simps [simp]:
  "m s = (Inr x, s1) \<Longrightarrow> and_then m k s = k x s1" "m s = (Inl e, s1) \<Longrightarrow> and_then m k s = (Inl e, s1)"
  by (simp_all add: and_then_def)

lemma send_logged_Inr:
  assumes "send_call (logged_api api) c s = (Inr data, s')"
  shows "fst (p_world s') = fst (p_world s) @ [c]" "p_http s' = p_http s" "p_session s' = p_session s"
  using assms by (auto simp: send_call_def logged_api_def split: prod.splits ax_result.splits)

lemma send_logged_world: "fst (p_world (snd (send_call (logged_api api) c s))) = fst (p_world s) @ [c]"
  by (simp add: send_call_def logged_api_def split: prod.split ax_result.split)

lemma send_logged_frame [simp]:
  "p_http (snd (send_call api c s)) = p_http s" "p_session (snd (send_call api c s)) = p_session s"
  by (simp_all add: send_call_def split: prod.split ax_result.split)

lemma member_state [simp]: "snd (member v k s) = s"
  by (simp add: member_def split: sum.split)

lemma member_Inr: "member v k s = (Inr x, s') \<longleftrightarrow> \<not> nullish v \<and> x = getprop v k \<and> s' = s"
  by (auto simp: member_def get_member_def)

lemma store_tokens_state [simp]: "store_tokens a r s = (Inr (), s\<lparr>p_http := setTokens a r (p_http s)\<rparr>)"
  by (simp add: store_tokens_def)

lemma and_then_snd: "snd (and_then m k s) = (case m s of (Inl e, s1) \<Rightarrow> s1 | (Inr x, s1) \<Rightarrow> snd (k x s1))"
  by (auto simp: and_then_def split: prod.split sum.split)

lemma redeem_session: "p_session (snd (redeem api c s)) = p_session s"
  by (auto simp: redeem_def and_then_def member_def send_call_def split: prod.split sum.split ax_result.split)

lemma redeem_logged: "fst (p_world (snd (redeem (logged_api api) c s))) = fst (p_world s) @ [c]"
  by (auto simp: redeem_def and_then_def member_def send_call_def logged_api_def
      split: prod.split sum.split ax_result.split)

text \<open>The stash is a codec over the session storage.\<close>

definition stash_text :: "pkce_stash \<Rightarrow> string" where
  "stash_text st = stringify (JObj [(''state'', JStr (st_state st)), (''verifier'', JStr (st_verifier st))])"

lemma stash_text_nonempty: "stash_text st \<noteq> []"
  by (simp add: stash_text_def)

lemma read_written_stash:
  "readPkceStash (Available (setItem PKCE_VERIFIER_KEY (stash_text st) m)) = Some st"
proof -
  have "json_parse (stash_text st) =
      Some (JObj [(''state'', JStr (st_state st)), (''verifier'', JStr (st_verifier st))])"
    unfolding stash_text_def by (rule json.dec_enc) simp
  then show ?thesis using stash_text_nonempty by (simp add: readPkceStash_def web_store.lookup_store)
qed

lemma read_cleared_stash: "readPkceStash (Available (removeItem PKCE_VERIFIER_KEY m)) = None"
  by (simp add: readPkceStash_def web_store.lookup_remove)

interpretation stash: codec "\<lambda>st. Available (setItem PKCE_VERIFIER_KEY (stash_text st) Map.empty)" readPkceStash "\<lambda>_. True"
  by unfold_locales (rule read_written_stash)

lemma writePkceStash_eq:
  "p_session s = Available m \<Longrightarrow>
   writePkceStash st s = (Inr (), s\<lparr>p_session := Available (setItem PKCE_VERIFIER_KEY (stash_text st) m)\<rparr>)"
  by (simp add: writePkceStash_def stash_text_def)

lemma writePkceStash_Inr:
  "writePkceStash st s = (Inr u, s') \<Longrightarrow> readPkceStash (p_session s') = Some st \<and> p_http s' = p_http s \<and> p_world s' = p_world s"
  using read_written_stash by (auto simp: writePkceStash_def stash_text_def split: web_storage.splits)

lemma has_verifier_iff:
  "hasVerifierForState st s \<longleftrightarrow> (\<exists>sh. readPkceStash (p_session s) = Some sh \<and> st = Some (st_state sh) \<and> st_state sh \<noteq> [])"
  by (auto simp: hasVerifierForState_def split: option.splits)

subsection \<open>Properties\<close>

text \<open>C24. A login that succeeds made exactly two calls: the login call carried the S256 challenge of a
  verifier that RFC 7636 accepts, the token call carried that verifier with the same redirect
  URI and client, and nothing was left in the session storage.\<close>

theorem login_binds_its_verifier:
  assumes "\<And>n. length (rnd n) = n" and "p_world s = ([], w)"
    and "authService_login env sha256 rnd uuid (logged_api api) u pw scope s = (Inr Success, s')"
  shows "\<exists>c1 c2 v code. fst (p_world s') = [c1, c2] \<and>
     c1 = post_form ''/oauth2/login'' (login_form env u pw scope uuid
       \<lparr>verifier = v, challenge = toBase64Url (sha256 (utf8 v)), pkce_method = ''S256''\<rparr>) \<and>
     c2 = post_form ''/oauth2/token'' (code_form env code v) \<and> isPkceVerifier v \<and>
     p_session s' = p_session s"
proof -
  let ?v = "toBase64Url (rnd 48)"
  have pkce: "generatePkcePair sha256 rnd =
      \<lparr>verifier = ?v, challenge = toBase64Url (sha256 (utf8 ?v)), pkce_method = ''S256''\<rparr>"
    by (simp add: generatePkcePair_def generateCodeVerifier_def computeS256Challenge_def base64UrlEncode_eq Let_def)
  let ?c1 = "post_form ''/oauth2/login'' (login_form env u pw scope uuid (generatePkcePair sha256 rnd))"
  from assms(3) obtain data s1 where s1: "send_call (logged_api api) ?c1 s = (Inr data, s1)"
    and rest: "finish_login env (logged_api api) (generatePkcePair sha256 rnd) uuid data s1 = (Inr Success, s')"
    by (auto simp: authService_login_def Let_def and_then_Inr)
  let ?c2 = "post_form ''/oauth2/token'' (code_form env (js_String (getprop data ''code'')) ?v)"
  from rest obtain x where "redeem (logged_api api) ?c2 s1 = (Inr x, s')"
    by (auto simp: finish_login_def and_then_Inr member_Inr return_op_def throw_op_def Let_def pkce split: if_splits)
  then have s': "fst (p_world s') = fst (p_world s1) @ [?c2]" "p_session s' = p_session s1"
    using redeem_logged [of api ?c2 s1] redeem_session [of "logged_api api" ?c2 s1] by simp_all
  have "isPkceVerifier ?v" by (rule verifier_of_length) (simp_all add: assms(1))
  then show ?thesis
    using send_logged_Inr [OF s1] s' assms(2) pkce
    by (intro exI [of _ ?c1] exI [of _ ?c2] exI [of _ ?v] exI [of _ "js_String (getprop data ''code'')"]) simp
qed

text \<open>C25. The portal redeems a code only for its own flow.  A callback is accepted exactly when
  \<open>hasVerifierForState\<close> says so; then one token call is made with the stashed verifier.  Otherwise
  no call is made and the tokens stay as they were.  Either way the stash is gone afterwards.\<close>

theorem exchangeCode_only_own_flow:
  assumes "p_session s = Available m" and "authService_exchangeCode env (logged_api api) code st s = (r, s')"
  shows "(hasVerifierForState st s \<longrightarrow> (\<exists>sh. readPkceStash (p_session s) = Some sh \<and>
        fst (p_world s') = fst (p_world s) @ [post_form ''/oauth2/token'' (code_form env code (st_verifier sh))])) \<and>
     (\<not> hasVerifierForState st s \<longrightarrow>
        r = Inl (Threw (PlainError ''No PKCE verifier matching this authorization flow'')) \<and>
        p_world s' = p_world s \<and> p_http s' = p_http s) \<and>
     \<not> hasVerifierForState st' s'"
proof -
  let ?s1 = "s\<lparr>p_session := Available (removeItem PKCE_VERIFIER_KEY m)\<rparr>"
  have clear: "clearPkceStash s = (Inr (), ?s1)" using assms(1) by (simp add: clearPkceStash_def)
  show ?thesis
  proof (cases "hasVerifierForState st s")
    case True
    then obtain sh where sh: "readPkceStash (p_session s) = Some sh" "st = Some (st_state sh)" "st_state sh \<noteq> []"
      by (auto simp: has_verifier_iff)
    let ?c = "post_form ''/oauth2/token'' (code_form env code (st_verifier sh))"
    have "redeem (logged_api api) ?c ?s1 = (r, s')"
      using clear sh assms(2) by (simp add: authService_exchangeCode_def)
    then have "fst (p_world s') = fst (p_world s) @ [?c]" "p_session s' = Available (removeItem PKCE_VERIFIER_KEY m)"
      using redeem_logged [of api ?c ?s1] redeem_session [of "logged_api api" ?c ?s1] by simp_all
    with True sh show ?thesis by (auto simp: has_verifier_iff read_cleared_stash)
  next
    case False
    then have "authService_exchangeCode env (logged_api api) code st s =
        (Inl (Threw (PlainError ''No PKCE verifier matching this authorization flow'')), ?s1)"
      using clear by (auto simp: authService_exchangeCode_def has_verifier_iff throw_op_def split: option.split)
    with assms(2) False show ?thesis by (auto simp: has_verifier_iff read_cleared_stash)
  qed
qed

definition demo_env :: portal_env where
  "demo_env = \<lparr>env_client_id = None, env_redirect_uri = None, env_origin = ''http://portal''\<rparr>"

definition demo_portal :: "(api_call list \<times> unit) portal" where
  "demo_portal = \<lparr>p_http = load_http Map.empty ''login'' None, p_session = Available Map.empty, p_world = ([], ())\<rparr>"

text \<open>A server that asks for a second factor when the account is \<open>mfa\<close>, and otherwise grants.\<close>

definition demo_api :: "unit api" where
  "demo_api c w = (if ac_url c = ''/oauth2/login'' then
       (AxOk (JObj (if ac_body c \<noteq> NoBody \<and> (case ac_body c of Form f \<Rightarrow> params_get f ''username'' = Some ''mfa'' | _ \<Rightarrow> False)
          then [(''mfa_required'', JBool True), (''mfa_token'', JStr ''m1'')] else [(''code'', JStr ''c1'')])), w)
     else if ac_url c = ''/oauth2/token'' then (AxOk (JObj [(''access_token'', JStr ''a1''), (''refresh_token'', JStr ''r1'')]), w)
     else (AxHttp 401 JNull, w))"

lemmas portal_eval = authService_login_def finish_login_def redeem_def and_then_def send_call_def member_def get_member_def
  logged_api_def demo_api_def post_form_def login_form_def params_get_def return_op_def throw_op_def store_tokens_def
  demo_portal_def proto_member_def object_prototype_def Let_def

theorem login_binds_its_verifier_witness:
  "\<exists>s' c1 c2 v code. authService_login demo_env (\<lambda>bs. bs) (\<lambda>n. replicate n 0) ''u1'' (logged_api demo_api) ''ada'' ''pw'' ''openid'' demo_portal
       = (Inr Success, s') \<and> fst (p_world s') = [c1, c2] \<and>
     c2 = post_form ''/oauth2/token'' (code_form demo_env code v) \<and> isPkceVerifier v"
proof -
  have "\<exists>s'. authService_login demo_env (\<lambda>bs. bs) (\<lambda>n. replicate n 0) ''u1'' (logged_api demo_api) ''ada'' ''pw'' ''openid'' demo_portal
      = (Inr Success, s')"
    by (simp add: portal_eval)
  then obtain s' where s': "authService_login demo_env (\<lambda>bs. bs) (\<lambda>n. replicate n 0) ''u1'' (logged_api demo_api) ''ada'' ''pw'' ''openid'' demo_portal
      = (Inr Success, s')" by blast
  show ?thesis
    using login_binds_its_verifier [OF _ _ s'] s' by (auto simp: demo_portal_def)
qed

theorem exchangeCode_only_own_flow_witness:
  "\<not> hasVerifierForState (Some ''s1'') demo_portal \<and>
   p_world (snd (authService_exchangeCode demo_env (logged_api demo_api) ''c9'' (Some ''s1'') demo_portal)) = p_world demo_portal"
proof -
  obtain r s' where run: "authService_exchangeCode demo_env (logged_api demo_api) ''c9'' (Some ''s1'') demo_portal = (r, s')"
    by (cases "authService_exchangeCode demo_env (logged_api demo_api) ''c9'' (Some ''s1'') demo_portal")
  have "p_session demo_portal = Available Map.empty" by (simp add: demo_portal_def)
  note main = exchangeCode_only_own_flow [OF this run, of "Some ''s1''"]
  have "\<not> hasVerifierForState (Some ''s1'') demo_portal"
    by (simp add: hasVerifierForState_def demo_portal_def readPkceStash_def getItem_def)
  with main run show ?thesis by simp
qed

text \<open>The MFA detour keeps the flow together: when the login asks for a second factor, the state of
  that login is the only one the portal holds a verifier for, and every attempt of \<open>verifyMfa\<close>
  presents that same verifier; a rejected attempt leaves it in place for the next one.\<close>

theorem mfa_presents_login_verifier:
  assumes "authService_login env sha256 rnd uuid api u pw scope s = (Inr (MfaRequired tok), s1)" and "uuid \<noteq> []"
    and "authService_verifyMfa env (logged_api api') mfaToken code (s1\<lparr>p_world := ([], w)\<rparr>) = (r, s2)"
    and "verifier (generatePkcePair sha256 rnd) \<noteq> []"
  shows "(hasVerifierForState st s1 \<longleftrightarrow> st = Some uuid) \<and>
     (\<exists>form. fst (p_world s2) = [post_form ''/oauth2/mfa/verify'' form] \<and>
        params_get form ''code_verifier'' = Some (verifier (generatePkcePair sha256 rnd))) \<and>
     ((\<forall>n. r \<noteq> Inr (MfaSuccess n)) \<and> p_session s1 \<noteq> Unavailable \<and> (\<forall>e. r \<noteq> Inl (Threw e)) \<longrightarrow> p_session s2 = p_session s1)"
proof -
  let ?v = "verifier (generatePkcePair sha256 rnd)"
  from assms(1) obtain data sa where "finish_login env api (generatePkcePair sha256 rnd) uuid data sa = (Inr (MfaRequired tok), s1)"
    by (auto simp: authService_login_def Let_def and_then_Inr)
  then have stash: "readPkceStash (p_session s1) = Some \<lparr>st_state = uuid, st_verifier = ?v\<rparr>"
    by (auto simp: finish_login_def and_then_Inr member_Inr return_op_def throw_op_def Let_def
        dest!: writePkceStash_Inr split: if_splits)
  let ?form = "[(''mfa_token'', mfaToken), (''code'', code), (''client_id'', portal_CLIENT_ID env),
      (''redirect_uri'', REDIRECT_URI env), (''code_verifier'', ?v)]"
  let ?c = "post_form ''/oauth2/mfa/verify'' ?form"
  let ?s = "s1\<lparr>p_world := ([], w)\<rparr>"
  let ?k = "\<lambda>data. and_then (member data ''access_token'') (\<lambda>a.
           if truthy a then
             and_then clearPkceStash (\<lambda>_.
             and_then (store_tokens a (getprop data ''refresh_token'')) (\<lambda>_.
               return_op (MfaSuccess (case getprop data ''backup_codes_remaining'' of JNum n \<Rightarrow> Some n | _ \<Rightarrow> None))))
           else return_op (ErrorText ''MFA verification failed''))"
  have run: "and_then (send_call (logged_api api') ?c) ?k ?s = (r, s2)"
    using assms(3,4) stash by (simp add: authService_verifyMfa_def)
  obtain x sb where sb: "send_call (logged_api api') ?c ?s = (x, sb)" by (cases "send_call (logged_api api') ?c ?s")
  have sbf: "fst (p_world sb) = [?c]" "p_session sb = p_session s1"
    using send_logged_world [of api' ?c ?s] send_logged_frame(2) [of "logged_api api'" ?c ?s] sb by simp_all
  have "fst (p_world s2) = fst (p_world sb)"
    using run sb by (auto simp: and_then_def member_def clearPkceStash_def return_op_def
        split: sum.splits prod.splits if_splits web_storage.splits)
  moreover have "p_session s2 = p_session sb"
    if "\<forall>n. r \<noteq> Inr (MfaSuccess n)" "p_session s1 \<noteq> Unavailable" "\<forall>e. r \<noteq> Inl (Threw e)"
    using run sb that sbf(2) by (auto simp: and_then_def member_def clearPkceStash_def return_op_def
        split: sum.splits prod.splits if_splits web_storage.splits)
  ultimately show ?thesis
    using stash assms(2) sbf by (auto simp: has_verifier_iff params_get_def)
qed

theorem mfa_presents_login_verifier_witness:
  "\<exists>s1 tok. authService_login demo_env (\<lambda>bs. bs) (\<lambda>n. replicate n 0) ''u1'' (logged_api demo_api) ''mfa'' ''pw'' ''openid'' demo_portal
       = (Inr (MfaRequired tok), s1) \<and>
     (hasVerifierForState (Some ''u1'') s1) \<and>
     (\<exists>form. fst (p_world (snd (authService_verifyMfa demo_env (logged_api demo_api) ''m1'' ''000000'' (s1\<lparr>p_world := ([], ())\<rparr>)))) =
          [post_form ''/oauth2/mfa/verify'' form])"
proof -
  let ?login = "authService_login demo_env (\<lambda>bs. bs) (\<lambda>n. replicate n 0) ''u1'' (logged_api demo_api) ''mfa'' ''pw'' ''openid'' demo_portal"
  have "\<exists>s1. ?login = (Inr (MfaRequired (JStr ''m1'')), s1)" by (simp add: portal_eval writePkceStash_def)
  then obtain s1 where s1: "?login = (Inr (MfaRequired (JStr ''m1'')), s1)" by blast
  obtain r s2 where s2: "authService_verifyMfa demo_env (logged_api demo_api) ''m1'' ''000000'' (s1\<lparr>p_world := ([], ())\<rparr>) = (r, s2)"
    by (cases "authService_verifyMfa demo_env (logged_api demo_api) ''m1'' ''000000'' (s1\<lparr>p_world := ([], ())\<rparr>)")
  have "length (toBase64Url (replicate 48 0)) = 64" by (simp add: toBase64Url_length)
  then have "verifier (generatePkcePair (\<lambda>bs. bs) (\<lambda>n. replicate n 0)) \<noteq> []"
    by (auto simp: generatePkcePair_def generateCodeVerifier_def base64UrlEncode_eq Let_def)
  from mfa_presents_login_verifier [OF s1 _ s2 this, of "Some ''u1''"] s1 s2 show ?thesis by auto
qed

text \<open>Logout always ends the local session, whatever the server answers, and no credential goes to
  the wrong endpoint: the access token is sent only to \<open>/oauth2/logout\<close> and the refresh token only
  to \<open>/oauth2/revoke\<close>, each at most once.\<close>

theorem logout_clears_and_separates_credentials:
  assumes "p_world s = ([], w)"
  shows "let s' = authService_logout env (logged_api api) s in
     accessToken (p_http s') = JNull \<and> refreshToken (p_http s') = JNull \<and>
     getItem (localStorage (p_http s')) ''refresh_token'' = None \<and>
     (\<forall>c \<in> set (fst (p_world s')).
        (ac_url c = ''/oauth2/logout'' \<and> ac_body c = NoBody \<and> ac_headers c = [(''Authorization'', bearer (accessToken (p_http s)))]) \<or>
        (\<exists>rt. ac_url c = ''/oauth2/revoke'' \<and> getItem (localStorage (p_http s)) ''refresh_token'' = Some rt \<and>
           ac_body c = Form [(''token'', rt), (''client_id'', portal_CLIENT_ID env)] \<and>
           params_get (ac_headers c) ''Authorization'' = None)) \<and>
     distinct (map ac_url (fst (p_world s')))"
proof -
  have log: "fst (run_calls (logged_api api) cs (l, w)) = l @ cs" for cs l w
    by (induction cs arbitrary: l w) (simp_all add: run_calls_def logged_api_def split: prod.split)
  have "fst (run_calls (logged_api api) (logout_calls env (p_http s)) (p_world s)) = logout_calls env (p_http s)"
    using assms log by simp
  then show ?thesis
    by (auto simp: authService_logout_def Let_def clearTokens_def getItem_def removeItem_def logout_calls_def params_get_def
        split: option.splits if_splits)
qed

theorem logout_clears_and_separates_credentials_witness:
  "accessToken (p_http (authService_logout demo_env (logged_api demo_api)
     (demo_portal\<lparr>p_http := setTokens (JStr ''a1'') (JStr ''r1'') (load_http Map.empty ''home'' None)\<rparr>))) = JNull"
  using logout_clears_and_separates_credentials
    [of "demo_portal\<lparr>p_http := setTokens (JStr ''a1'') (JStr ''r1'') (load_http Map.empty ''home'' None)\<rparr>" "()" demo_env demo_api]
  by (simp add: demo_portal_def Let_def)

end
