(* ===== verification/UserStore.thy ===== *)
theory UserStore
  imports UserAuth
begin

section \<open>The auth store and the router of the user portal\<close>

text \<open>
  \<open>stores/auth.ts\<close> and \<open>router/index.ts\<close>.  The state has the HTTP layer inside it, so every
  event of \<open>UserHttp\<close> can fall between the parts of a session restore or of a navigation
  guard; \<open>fetchUser\<close> is a call of that layer, and the redirect of a failed refresh passes the guard.  The operations that run to their end in one go (login, MFA, exchange, logout) are
  given as functions over the portal of \<open>UserAuth\<close>.
\<close>

subsection \<open>The store\<close>

text \<open>How far the cached promise of \<open>restoreSession\<close> is; \<open>RUser t\<close> awaits the call \<open>t\<close> of \<open>fetchUser\<close>.\<close>

datatype restore_phase = NotStarted | RAwait refresh_promise | RUser nat | RDone bool

datatype guard_decision = Proceed | ToLogin string | ToDashboard

record target =
  to_name :: string
  to_auth :: bool
  to_guest :: bool
  to_fullPath :: string

text \<open>A guard waits in its first branch (a protected page) or in its second (a guest page), has decided, or the router has
  followed its decision.\<close>

datatype nav_phase = WaitProtected | WaitGuest | NavDecided guard_decision | NavDone guard_decision

record nav =
  nv_to :: target
  nv_phase :: nav_phase

record store =
  s_http :: http_state
  s_user :: jsval
  s_loading :: bool
  s_error :: jsval
  tokenPresent :: bool
  sessionRestored :: bool
  restorePromise :: restore_phase
  s_restores :: nat
  s_fetches :: "nat list"
  s_navs :: "nav list"

text \<open>The banner: a string as it is, a normalised error through the catalog of the language.\<close>

definition errorText :: "string \<Rightarrow> store \<Rightarrow> string" where
  "errorText cur s = (let e = s_error s in
     if \<not> truthy e then [] else if is_string e then js_String e
     else getErrorMessage (js_String (getprop e ''code'')) cur)"

definition isAuthenticated :: "store \<Rightarrow> bool" where
  "isAuthenticated s = tokenPresent s"

definition markAuthenticated :: "store \<Rightarrow> store" where
  "markAuthenticated s = s\<lparr>tokenPresent := True\<rparr>"

definition markUnauthenticated :: "store \<Rightarrow> store" where
  "markUnauthenticated s = s\<lparr>tokenPresent := False\<rparr>"

text \<open>\<open>fetchUser\<close>: the call it sends, and the user it leaves once the call has settled; it never rejects.\<close>

definition request_user :: "store \<Rightarrow> store" where
  "request_user s = s\<lparr>s_http := http_request (Some ''/oauth2/userinfo'') None (s_http s)\<rparr>"

definition settled_user :: "http_call \<Rightarrow> jsval option" where
  "settled_user c = (case hc_phase c of
     CallOk data \<Rightarrow> Some data
   | CallRaw out \<Rightarrow> Some JNull
   | CallExpired e \<Rightarrow> Some JNull
   | _ \<Rightarrow> None)"

definition fetch_start :: "store \<Rightarrow> store" where
  "fetch_start s = (request_user s)\<lparr>s_fetches := s_fetches s @ [length (calls (s_http s))]\<rparr>"

definition fetch_settle :: "nat \<Rightarrow> store \<Rightarrow> store option" where
  "fetch_settle t s =
     (if t \<in> set (s_fetches s) \<and> t < length (calls (s_http s)) then
        map_option (\<lambda>u. s\<lparr>s_user := u, s_fetches := remove1 t (s_fetches s)\<rparr>) (settled_user (calls (s_http s) ! t))
      else None)"

text \<open>\<open>restoreSession\<close> up to its first \<open>await\<close>, and its two continuations.\<close>

definition restoreSession :: "store \<Rightarrow> store" where
  "restoreSession s =
     (if restorePromise s \<noteq> NotStarted then s
      else
       (let s = s\<lparr>s_restores := s_restores s + 1\<rparr> in
        if truthy (accessToken (s_http s)) then s\<lparr>sessionRestored := True, restorePromise := RDone True\<rparr>
        else if \<not> truthy (refreshToken (s_http s)) then
          (markUnauthenticated s)\<lparr>sessionRestored := True, restorePromise := RDone False\<rparr>
        else (case tryRestoreSession (s_http s) of (p, h) \<Rightarrow> s\<lparr>s_http := h, restorePromise := RAwait p\<rparr>)))"

definition restore_resume :: "store \<Rightarrow> store option" where
  "restore_resume s = (case restorePromise s of
     RAwait p \<Rightarrow> (case promised (s_http s) p of
         None \<Rightarrow> None
       | Some restored \<Rightarrow> Some (if restored
           then (request_user (markAuthenticated s))\<lparr>restorePromise := RUser (length (calls (s_http s)))\<rparr>
           else (markUnauthenticated s)\<lparr>sessionRestored := True, restorePromise := RDone False\<rparr>))
   | _ \<Rightarrow> None)"

definition restore_user :: "store \<Rightarrow> store option" where
  "restore_user s = (case restorePromise s of
     RUser t \<Rightarrow>
       if t < length (calls (s_http s)) then
         map_option (\<lambda>u. s\<lparr>s_user := u, sessionRestored := True, restorePromise := RDone True\<rparr>) (settled_user (calls (s_http s) ! t))
       else None
   | _ \<Rightarrow> None)"

definition logoutLocal :: "store \<Rightarrow> store" where
  "logoutLocal s = markUnauthenticated (s\<lparr>s_user := JNull, s_http := clearTokens (s_http s)\<rparr>)"

text \<open>Setting up the store on page load.\<close>

definition useAuthStore :: "http_state \<Rightarrow> store" where
  "useAuthStore h =
     (let s = \<lparr>s_http = h, s_user = JNull, s_loading = False, s_error = JNull,
               tokenPresent = (truthy (accessToken h) \<or> truthy (refreshToken h)), sessionRestored = False,
               restorePromise = NotStarted, s_restores = 0, s_fetches = [], s_navs = []\<rparr>
      in if truthy (refreshToken h) then restoreSession s else s)"

subsection \<open>Login, MFA, exchange and logout\<close>

text \<open>The value a failure is for \<open>catch (e)\<close>: an axios error has its response, any other error
  has none.\<close>

fun thrown_value :: "failure \<Rightarrow> jsval" where
  "thrown_value (Failed (AxHttp st data)) = http_error st data"
| "thrown_value (Failed AxNet) = JObj [(''message'', JStr ''Network Error'')]"
| "thrown_value (Failed (AxOk data)) = JObj []"
| "thrown_value (Threw e) = JObj []"

datatype store_result = Result login_result | ResultError jsval

record 'w session =
  ss_portal :: "'w portal"
  ss_store :: store

definition fetchUser :: "'w api \<Rightarrow> 'w session \<Rightarrow> 'w session" where
  "fetchUser api s = (case getUserInfo api (ss_portal s) of
     (Inr data, p) \<Rightarrow> s\<lparr>ss_portal := p, ss_store := (ss_store s)\<lparr>s_user := data\<rparr>\<rparr>
   | (Inl e, p) \<Rightarrow> s\<lparr>ss_portal := p, ss_store := (ss_store s)\<lparr>s_user := JNull\<rparr>\<rparr>)"

fun is_success :: "login_result \<Rightarrow> bool" where
  "is_success Success = True"
| "is_success (MfaSuccess n) = True"
| "is_success _ = False"

text \<open>The shape \<open>login\<close> and \<open>verifyMfa\<close> share.\<close>

definition sign_in :: "'w api \<Rightarrow> string \<Rightarrow> ('w, login_result) op \<Rightarrow> 'w session \<Rightarrow> store_result \<times> 'w session" where
  "sign_in api cur attempt s =
     (let s = s\<lparr>ss_store := (ss_store s)\<lparr>s_error := JNull, s_loading := True\<rparr>\<rparr> in
      case attempt (ss_portal s) of
        (Inr res, p) \<Rightarrow>
          (let s = s\<lparr>ss_portal := p\<rparr>;
               s = (if is_success res then fetchUser api (s\<lparr>ss_store := markAuthenticated (ss_store s)\<rparr>) else s)
           in (Result res, s\<lparr>ss_store := (ss_store s)\<lparr>s_loading := False\<rparr>\<rparr>))
      | (Inl e, p) \<Rightarrow>
          (let err = normalizeError cur (thrown_value e) JUndef
           in (ResultError err, s\<lparr>ss_portal := p, ss_store := (ss_store s)\<lparr>s_error := err, s_loading := False\<rparr>\<rparr>)))"

definition store_login ::
    "portal_env \<Rightarrow> digest \<Rightarrow> random \<Rightarrow> string \<Rightarrow> 'w api \<Rightarrow> string \<Rightarrow> string \<Rightarrow> string \<Rightarrow> 'w session \<Rightarrow> store_result \<times> 'w session" where
  "store_login env sha256 rnd uuid api cur username password =
     sign_in api cur (authService_login env sha256 rnd uuid api username password ''openid profile email'')"

definition store_verifyMfa ::
    "portal_env \<Rightarrow> 'w api \<Rightarrow> string \<Rightarrow> string \<Rightarrow> string \<Rightarrow> 'w session \<Rightarrow> store_result \<times> 'w session" where
  "store_verifyMfa env api cur mfaToken code = sign_in api cur (authService_verifyMfa env api mfaToken code)"

definition store_exchangeCode ::
    "portal_env \<Rightarrow> 'w api \<Rightarrow> string \<Rightarrow> string option \<Rightarrow> 'w session \<Rightarrow> (failure + unit) \<times> 'w session" where
  "store_exchangeCode env api code st s = (case authService_exchangeCode env api code st (ss_portal s) of
     (Inl e, p) \<Rightarrow> (Inl e, s\<lparr>ss_portal := p\<rparr>)
   | (Inr u, p) \<Rightarrow> (Inr (), fetchUser api (s\<lparr>ss_portal := p, ss_store := markAuthenticated (ss_store s)\<rparr>)))"

definition store_logout :: "portal_env \<Rightarrow> 'w api \<Rightarrow> 'w session \<Rightarrow> 'w session" where
  "store_logout env api s =
     (let p = authService_logout env api (ss_portal s)
      in s\<lparr>ss_portal := p\<lparr>p_http := clearTokens (p_http p)\<rparr>,
           ss_store := markUnauthenticated ((ss_store s)\<lparr>s_user := JNull\<rparr>)\<rparr>)"

subsection \<open>The router\<close>

record route_record =
  r_path :: string
  r_name :: string
  r_auth :: bool
  r_guest :: bool

definition guest_route :: "string \<Rightarrow> string \<Rightarrow> route_record" where
  "guest_route p n = \<lparr>r_path = p, r_name = n, r_auth = False, r_guest = True\<rparr>"

definition open_route :: "string \<Rightarrow> string \<Rightarrow> route_record" where
  "open_route p n = \<lparr>r_path = p, r_name = n, r_auth = False, r_guest = False\<rparr>"

definition auth_route :: "string \<Rightarrow> string \<Rightarrow> route_record" where
  "auth_route p n = \<lparr>r_path = p, r_name = n, r_auth = True, r_guest = False\<rparr>"

text \<open>The route table; the children of the account layout inherit its \<open>auth\<close> meta field.\<close>

definition routes :: "route_record list" where
  "routes =
     [guest_route ''/login'' ''login'', guest_route ''/register'' ''register'',
      guest_route ''/forgot-password'' ''forgot-password'', guest_route ''/reset-password'' ''reset-password'',
      open_route ''/verify-email'' ''verify-email'', open_route ''/callback'' ''callback'',
      open_route ''/callback/github'' ''github-callback'', open_route ''/callback/google'' ''google-callback'',
      open_route ''/callback/wechat'' ''wechat-callback'', auth_route ''/consent'' ''consent'',
      auth_route ''/'' ''dashboard'', auth_route ''/profile'' ''profile'', auth_route ''/security'' ''security'',
      auth_route ''/authorized-apps'' ''authorized-apps'', auth_route ''/apps'' ''applications'',
      auth_route ''/organizations'' ''organizations'']"

text \<open>What the guard sees of a location, found by its path or by the name of its route; an unknown path has no name and no meta fields.\<close>

definition target_of :: "string \<Rightarrow> route_record option \<Rightarrow> target" where
  "target_of fullPath r = (case r of
     Some r \<Rightarrow> \<lparr>to_name = r_name r, to_auth = r_auth r, to_guest = r_guest r, to_fullPath = fullPath\<rparr>
   | None \<Rightarrow> \<lparr>to_name = [], to_auth = False, to_guest = False, to_fullPath = fullPath\<rparr>)"

definition resolve :: "string \<Rightarrow> string \<Rightarrow> target" where
  "resolve path fullPath = target_of fullPath (find (\<lambda>r. r_path r = path) routes)"

definition named :: "string \<Rightarrow> target" where
  "named name = (let r = find (\<lambda>r. r_name r = name) routes in target_of (case r of Some r \<Rightarrow> r_path r | None \<Rightarrow> []) r)"

text \<open>\<open>beforeEach\<close> up to its \<open>await\<close>, and after it, where the live flag decides.\<close>

definition guard_enter :: "target \<Rightarrow> store \<Rightarrow> store" where
  "guard_enter to s =
     (if to_auth to \<and> \<not> isAuthenticated s then
        (let s = restoreSession s in s\<lparr>s_navs := s_navs s @ [\<lparr>nv_to = to, nv_phase = WaitProtected\<rparr>]\<rparr>)
      else if to_guest to then
        (let s = restoreSession s in s\<lparr>s_navs := s_navs s @ [\<lparr>nv_to = to, nv_phase = WaitGuest\<rparr>]\<rparr>)
      else s\<lparr>s_navs := s_navs s @ [\<lparr>nv_to = to, nv_phase = NavDecided Proceed\<rparr>]\<rparr>)"

definition restore_done :: "store \<Rightarrow> bool" where
  "restore_done s = (case restorePromise s of RDone b \<Rightarrow> True | _ \<Rightarrow> False)"

definition guard_resume :: "nat \<Rightarrow> store \<Rightarrow> store option" where
  "guard_resume i s =
     (if i < length (s_navs s) \<and> restore_done s then
        (let n = s_navs s ! i in
         case nv_phase n of
           WaitProtected \<Rightarrow> Some (s\<lparr>s_navs := (s_navs s)[i := n\<lparr>nv_phase := NavDecided
             (if isAuthenticated s then Proceed else ToLogin (to_fullPath (nv_to n)))\<rparr>]\<rparr>)
         | WaitGuest \<Rightarrow> Some (s\<lparr>s_navs := (s_navs s)[i := n\<lparr>nv_phase := NavDecided
             (if isAuthenticated s then ToDashboard else Proceed)\<rparr>]\<rparr>)
         | _ \<Rightarrow> None)
      else None)"

text \<open>What the router does with the decision: \<open>next()\<close> confirms the navigation, \<open>next(location)\<close> starts the one to that location, which
  passes the guard again.  The query of the login location is left out; the guard does not read it.\<close>

definition nav_follow :: "nat \<Rightarrow> store \<Rightarrow> store option" where
  "nav_follow i s =
     (if i < length (s_navs s) then
        (let n = s_navs s ! i in
         case nv_phase n of
           NavDecided d \<Rightarrow>
             (let s = s\<lparr>s_navs := (s_navs s)[i := n\<lparr>nv_phase := NavDone d\<rparr>]\<rparr> in
              Some (case d of
                Proceed \<Rightarrow> s\<lparr>s_http := (s_http s)\<lparr>route := to_name (nv_to n)\<rparr>\<rparr>
              | ToLogin p \<Rightarrow> guard_enter (named ''login'') s
              | ToDashboard \<Rightarrow> guard_enter (named ''dashboard'') s))
         | _ \<Rightarrow> None)
      else None)"

text \<open>\<open>redirectToLogin\<close> after its \<open>await\<close>: \<open>router.push\<close> passes the guard like every navigation.\<close>

definition redirect_push :: "store \<Rightarrow> store option" where
  "redirect_push s =
     (if redirects (s_http s) = 0 then None
      else Some (let s = s\<lparr>s_http := (s_http s)\<lparr>redirects := redirects (s_http s) - 1\<rparr>\<rparr> in
        if route (s_http s) \<noteq> ''login'' then guard_enter (named ''login'') s else s))"

subsection \<open>Interleavings\<close>

datatype store_event =
    Http http_event
  | Restore
  | RestoreResume
  | RestoreUser
  | MarkAuthenticated
  | FetchUser
  | FetchedUser nat
  | LoggedOut
  | Navigate target
  | ResumeNav nat
  | FollowNav nat
  | RedirectPush

fun store_step :: "string \<Rightarrow> store_event \<Rightarrow> store \<Rightarrow> store option" where
  "store_step cur (Http e) s = map_option (\<lambda>h. s\<lparr>s_http := h\<rparr>) (http_step cur e (s_http s))"
| "store_step cur Restore s = Some (restoreSession s)"
| "store_step cur RestoreResume s = restore_resume s"
| "store_step cur RestoreUser s = restore_user s"
| "store_step cur MarkAuthenticated s = Some (markAuthenticated s)"
| "store_step cur FetchUser s = Some (fetch_start s)"
| "store_step cur (FetchedUser t) s = fetch_settle t s"
| "store_step cur LoggedOut s = Some (logoutLocal s)"
| "store_step cur (Navigate to) s = Some (guard_enter to s)"
| "store_step cur (ResumeNav i) s = guard_resume i s"
| "store_step cur (FollowNav i) s = nav_follow i s"
| "store_step cur RedirectPush s = redirect_push s"

subsection \<open>The invariant\<close>

text \<open>At most one restore starts; its promise waits only for a refresh or a call that exists; a guard waits
  only for a restore that has started; \<open>sessionRestored\<close> is set when it is done.\<close>

definition waiting :: "nav \<Rightarrow> bool" where
  "waiting n \<longleftrightarrow> nv_phase n = WaitProtected \<or> nv_phase n = WaitGuest"

text \<open>A call awaits only a refresh that exists.\<close>

definition awaits_inv :: "http_state \<Rightarrow> bool" where
  "awaits_inv h \<longleftrightarrow> (\<forall>t < length (calls h). \<forall>i. hc_phase (calls h ! t) = AwaitRefresh (RPost i) \<longrightarrow> i < length (posts h))"

definition layer_inv :: "http_state \<Rightarrow> bool" where
  "layer_inv h \<longleftrightarrow> http_inv h \<and> awaits_inv h"

definition store_inv :: "store \<Rightarrow> bool" where
  "store_inv s \<longleftrightarrow> layer_inv (s_http s) \<and>
     s_restores s = (if restorePromise s = NotStarted then 0 else 1) \<and>
     (\<forall>i. restorePromise s = RAwait (RPost i) \<longrightarrow> i < length (posts (s_http s))) \<and>
     (\<forall>t. restorePromise s = RUser t \<longrightarrow> t < length (calls (s_http s))) \<and>
     (list_ex waiting (s_navs s) \<longrightarrow> restorePromise s \<noteq> NotStarted) \<and>
     sessionRestored s = restore_done s"

lemma mark_sel [simp]:
  "s_http (markAuthenticated s) = s_http s" "s_http (markUnauthenticated s) = s_http s"
  "restorePromise (markAuthenticated s) = restorePromise s" "restorePromise (markUnauthenticated s) = restorePromise s"
  "s_restores (markAuthenticated s) = s_restores s" "s_restores (markUnauthenticated s) = s_restores s"
  "s_navs (markAuthenticated s) = s_navs s" "s_navs (markUnauthenticated s) = s_navs s"
  "sessionRestored (markAuthenticated s) = sessionRestored s" "sessionRestored (markUnauthenticated s) = sessionRestored s"
  "tokenPresent (markAuthenticated s) = True" "tokenPresent (markUnauthenticated s) = False"
  by (simp_all add: markAuthenticated_def markUnauthenticated_def)

lemma refresh_posts_grow: "refreshTokens h = (p, h') \<Longrightarrow> length (posts h) \<le> length (posts h')"
  by (auto simp: refreshTokens_def split: option.splits if_splits)

lemma http_posts_grow:
  assumes "http_step cur e h = Some h'" shows "length (posts h) \<le> length (posts h')"
proof (cases e)
  case RestoreSession
  with assms refresh_posts_grow [of h] show ?thesis
    by (cases "refreshTokens h") (auto simp: tryRestoreSession_def)
next
  case (Response t out)
  with assms refresh_posts_grow [of h] show ?thesis
    by (cases "refreshTokens h") (auto simp: on_response_def Let_def split: if_splits ax_result.splits)
next
  case (RefreshReply i out)
  with assms show ?thesis by (auto simp: on_refresh_reply_def split: if_splits ax_result.splits)
next
  case (RefreshFinally i)
  with assms show ?thesis by (auto simp: on_refresh_finally_def split: if_splits post_phase.splits)
next
  case (Resume t ok)
  with assms show ?thesis by (auto simp: resume_call_def split: if_splits call_phase.splits option.splits)
qed (use assms in \<open>auto simp: http_request_def\<close>)

lemma restore_calls [simp]: "calls (snd (tryRestoreSession h)) = calls h"
  by (auto simp: tryRestoreSession_def refreshTokens_def split: option.split)

lemma http_calls_grow:
  assumes "http_step cur e h = Some h'" shows "length (calls h) \<le> length (calls h')"
proof (cases e)
  case (Response t out)
  with assms show ?thesis
    by (auto simp: on_response_def Let_def split: if_splits ax_result.splits prod.splits dest: refreshTokens_frame)
next
  case (RefreshReply i out)
  with assms refresh_events_calls(1) [of i out h h'] show ?thesis by simp
next
  case (RefreshFinally i)
  with assms refresh_events_calls(2) [of i h h'] show ?thesis by simp
next
  case (Resume t ok)
  with assms show ?thesis by (auto simp: resume_call_def split: if_splits call_phase.splits option.splits)
qed (use assms in \<open>auto simp: http_request_def\<close>)

lemma refreshTokens_promise:
  "flight_inv h \<Longrightarrow> refreshTokens h = (RPost i, h') \<Longrightarrow> i < length (posts h')"
  by (auto simp: refreshTokens_def flight_inv_def split: option.splits if_splits)

lemma awaits_mono: "awaits_inv h \<Longrightarrow> calls h' = calls h \<Longrightarrow> length (posts h) \<le> length (posts h') \<Longrightarrow> awaits_inv h'"
  by (fastforce simp: awaits_inv_def)

lemma awaits_set:
  "awaits_inv h \<Longrightarrow> (\<And>i. hc_phase c = AwaitRefresh (RPost i) \<Longrightarrow> i < length (posts h)) \<Longrightarrow> awaits_inv (set_call t c h)"
  by (auto simp: awaits_inv_def set_call_def) (metis nth_list_update_eq nth_list_update_neq)

lemma awaits_dispatch: "awaits_inv h \<Longrightarrow> awaits_inv (dispatch t h)"
  using awaits_set [of h "(attach_token h (calls h ! t))\<lparr>hc_phase := Sending\<rparr>" t]
  by (simp add: dispatch_def Let_def awaits_inv_def)

lemma awaits_request: "awaits_inv h \<Longrightarrow> awaits_inv (http_request url auth h)"
  unfolding http_request_def by (rule awaits_dispatch) (auto simp: awaits_inv_def nth_append)

lemma awaits_response:
  assumes "flight_inv h" "awaits_inv h" "on_response t out h = Some h'"
  shows "awaits_inv h'"
proof -
  obtain p h1 where r: "refreshTokens h = (p, h1)" by (cases "refreshTokens h")
  then have h1: "awaits_inv h1" using assms(2) refreshTokens_frame [OF r] refresh_posts_grow [OF r] awaits_mono by blast
  show ?thesis using assms(3) r h1 assms(2) refreshTokens_promise [OF assms(1)]
    by (auto simp: on_response_def Let_def split: if_splits ax_result.splits intro!: awaits_set)
qed

lemma awaits_resume:
  assumes "awaits_inv h" "resume_call cur t ok h = Some h'" shows "awaits_inv h'"
proof -
  from assms(2) obtain p b where t: "t < length (calls h)" "hc_phase (calls h ! t) = AwaitRefresh p" "promised h p = Some b"
    by (auto simp: resume_call_def split: if_splits call_phase.splits option.splits)
  have "awaits_inv (set_call t ((calls h ! t)\<lparr>hc_auth := a\<rparr>) h)" for a
    using assms(1) t(1) by (intro awaits_set) (auto simp: awaits_inv_def)
  moreover have "awaits_inv (redirectToLogin ok (set_call t ((calls h ! t)\<lparr>hc_phase := CallExpired x\<rparr>) h))" for x
    using awaits_set [OF assms(1), of "(calls h ! t)\<lparr>hc_phase := CallExpired x\<rparr>" t] by (simp add: awaits_inv_def)
  ultimately show ?thesis using assms(2) t by (cases b) (auto simp: resume_call_def intro: awaits_dispatch)
qed

lemma http_step_awaits:
  assumes "http_inv h" "awaits_inv h" "http_step cur e h = Some h'" shows "awaits_inv h'"
proof (cases e)
  case (Response t out)
  with assms show ?thesis by (auto simp: http_inv_def intro: awaits_response)
next
  case (Resume t ok)
  with assms show ?thesis by (auto intro: awaits_resume)
next
  case (Request url auth)
  with assms show ?thesis by (auto intro: awaits_request)
next
  case RestoreSession
  with assms(3) have "calls h' = calls h" by auto
  with assms(2) show ?thesis using http_posts_grow [OF assms(3)] by (rule awaits_mono)
next
  case (RefreshReply i out)
  with assms(3) have "calls h' = calls h" using refresh_events_calls(1) [of i out h h'] by simp
  with assms(2) show ?thesis using http_posts_grow [OF assms(3)] by (rule awaits_mono)
next
  case (RefreshFinally i)
  with assms(3) have "calls h' = calls h" using refresh_events_calls(2) [of i h h'] by simp
  with assms(2) show ?thesis using http_posts_grow [OF assms(3)] by (rule awaits_mono)
qed (use assms in \<open>auto simp: awaits_inv_def\<close>)

lemma http_step_layer: "layer_inv h \<Longrightarrow> http_step cur e h = Some h' \<Longrightarrow> layer_inv h'"
  unfolding layer_inv_def by (blast intro: http_step_inv http_step_awaits)

interpretation layer: guarded_machine "http_step cur" layer_inv
  by unfold_locales (rule http_step_layer)

lemma tryRestoreSession_promise:
  assumes "layer_inv h" and "tryRestoreSession h = (RPost i, h')" shows "i < length (posts h')"
  using assms refreshTokens_promise [of h] by (auto simp: tryRestoreSession_def layer_inv_def http_inv_def split: if_splits)

lemma tryRestoreSession_layer: "layer_inv h \<Longrightarrow> tryRestoreSession h = (p, h') \<Longrightarrow> layer_inv h'"
  using http_step_layer [of h _ RestoreSession] by simp

lemma layer_router [simp]: "layer_inv (h\<lparr>route := r\<rparr>) = layer_inv h" "layer_inv (h\<lparr>redirects := n\<rparr>) = layer_inv h"
  by (simp_all add: layer_inv_def http_inv_def awaits_inv_def flight_inv_def calls_inv_def sent_times_def)

lemma layer_clear: "layer_inv h \<Longrightarrow> layer_inv (clearTokens h)"
  using http_step_layer [of h _ ClearTokens] by simp

lemma layer_request: "layer_inv h \<Longrightarrow> layer_inv (http_request url auth h)"
  using http_step_layer [of h _ "Request url auth"] by simp

lemma http_request_sel [simp]: "length (calls (http_request url auth h)) = Suc (length (calls h))" "posts (http_request url auth h) = posts h"
  by (simp_all add: http_request_def)

lemma restoreSession_inv:
  assumes "store_inv s" shows "store_inv (restoreSession s)"
proof (cases "restorePromise s = NotStarted")
  case False
  then show ?thesis using assms by (simp add: restoreSession_def)
next
  case True
  obtain p h where h: "tryRestoreSession (s_http s) = (p, h)" by (cases "tryRestoreSession (s_http s)")
  have "layer_inv (s_http s)" using assms by (simp add: store_inv_def)
  note hf = tryRestoreSession_layer [OF this h] tryRestoreSession_promise [OF this] h
  show ?thesis
    using assms True hf by (auto simp: restoreSession_def store_inv_def restore_done_def Let_def)
qed

lemma restoreSession_started: "restorePromise (restoreSession s) \<noteq> NotStarted"
  by (auto simp: restoreSession_def Let_def split: prod.split)

lemma guard_enter_inv:
  assumes "store_inv s" shows "store_inv (guard_enter to s)"
  using restoreSession_inv [OF assms] restoreSession_started [of s] assms
  by (auto simp: guard_enter_def store_inv_def waiting_def restore_done_def Let_def)

lemma store_inv_nav:
  assumes "store_inv s" "\<not> waiting n" shows "store_inv (s\<lparr>s_navs := (s_navs s)[i := n]\<rparr>)"
proof -
  have "list_ex waiting ((s_navs s)[i := n]) \<longrightarrow> list_ex waiting (s_navs s)"
    using assms(2) set_update_subset_insert [of "s_navs s" i n] by (fastforce simp: list_ex_iff)
  with assms(1) show ?thesis by (auto simp: store_inv_def restore_done_def)
qed

lemma guard_resume_inv:
  assumes "store_inv s" and "guard_resume i s = Some s'" shows "store_inv s'"
  using assms by (auto simp: guard_resume_def Let_def waiting_def split: if_splits nav_phase.splits intro!: store_inv_nav)

lemma nav_follow_inv:
  assumes "store_inv s" and "nav_follow i s = Some s'" shows "store_inv s'"
proof -
  have route: "store_inv (t\<lparr>s_http := (s_http t)\<lparr>route := r\<rparr>\<rparr>)" if "store_inv t" for t r
    using that by (simp add: store_inv_def restore_done_def)
  have "store_inv (s\<lparr>s_navs := (s_navs s)[i := (s_navs s ! i)\<lparr>nv_phase := NavDone d\<rparr>]\<rparr>)" for d
    using assms(1) by (rule store_inv_nav) (simp add: waiting_def)
  from this guard_enter_inv [OF this] route [OF this] show ?thesis using assms(2)
    by (auto simp: nav_follow_def Let_def split: if_splits nav_phase.splits guard_decision.splits)
qed

lemma redirect_push_inv:
  assumes "store_inv s" and "redirect_push s = Some s'" shows "store_inv s'"
proof -
  have "store_inv (s\<lparr>s_http := (s_http s)\<lparr>redirects := n\<rparr>\<rparr>)" for n
    using assms(1) by (simp add: store_inv_def restore_done_def)
  then show ?thesis using assms(2) by (auto simp: redirect_push_def Let_def split: if_splits intro: guard_enter_inv)
qed

lemma store_step_inv:
  assumes inv: "store_inv s" and step: "store_step cur e s = Some s'"
  shows "store_inv s'"
proof (cases e)
  case (Http he)
  with step obtain h where h: "http_step cur he (s_http s) = Some h" "s' = s\<lparr>s_http := h\<rparr>" by auto
  moreover have "layer_inv h" using inv h(1) by (auto simp: store_inv_def intro: http_step_layer)
  ultimately show ?thesis using inv http_posts_grow [OF h(1)] http_calls_grow [OF h(1)]
    by (fastforce simp: store_inv_def restore_done_def)
next
  case LoggedOut
  with inv step show ?thesis by (auto simp: store_inv_def logoutLocal_def restore_done_def layer_clear)
next
  case FetchUser
  with inv step show ?thesis
    by (fastforce simp: fetch_start_def request_user_def store_inv_def restore_done_def layer_request)
next
  case (FetchedUser t)
  with inv step show ?thesis
    by (auto simp: fetch_settle_def store_inv_def restore_done_def split: if_splits)
next
  case RestoreResume
  with inv step show ?thesis
    by (auto simp: restore_resume_def request_user_def store_inv_def restore_done_def layer_request
        split: restore_phase.splits option.splits if_splits)
next
  case RestoreUser
  with inv step show ?thesis
    by (auto simp: restore_user_def store_inv_def restore_done_def split: restore_phase.splits if_splits)
next
  case MarkAuthenticated
  with inv step show ?thesis by (auto simp: store_inv_def restore_done_def)
qed (use inv step in \<open>auto intro: guard_resume_inv nav_follow_inv redirect_push_inv restoreSession_inv guard_enter_inv\<close>)

interpretation user_store: guarded_machine "store_step cur" store_inv
  by unfold_locales (rule store_step_inv)

lemma load_layer: "layer_inv (load_http m rt env)"
  using http_init [of m rt env] by (simp add: layer_inv_def awaits_inv_def load_http_def)

lemma useAuthStore_inv: "layer_inv h \<Longrightarrow> store_inv (useAuthStore h)"
proof -
  assume h: "layer_inv h"
  let ?s = "\<lparr>s_http = h, s_user = JNull, s_loading = False, s_error = JNull,
     tokenPresent = (truthy (accessToken h) \<or> truthy (refreshToken h)), sessionRestored = False,
     restorePromise = NotStarted, s_restores = 0, s_fetches = [], s_navs = []\<rparr>"
  have "store_inv ?s" using h by (simp add: store_inv_def restore_done_def)
  with restoreSession_inv [OF this] show ?thesis unfolding useAuthStore_def Let_def by (simp only: if_split) blast
qed

abbreviation boot :: "items \<Rightarrow> store" where
  "boot m \<equiv> useAuthStore (load_http m ''START'' None)"

lemmas store_reachable = user_store.exec_invar [OF useAuthStore_inv [OF load_layer]]

subsection \<open>Properties\<close>

text \<open>The session is restored at most once per page load, however many guards and callers ask for
  it, and \<open>sessionRestored\<close> is set exactly when that one restore has finished.\<close>

theorem user_restore_runs_once:
  assumes "exec (store_step cur) es (boot m) = Some s"
  shows "s_restores s \<le> 1 \<and> (sessionRestored s \<longleftrightarrow> restore_done s)"
  using store_reachable [OF assms] by (simp add: store_inv_def)

theorem user_restore_runs_once_witness:
  "\<exists>s. exec (store_step ''en'') [Navigate (resolve ''/login'' ''/login''), Restore] (boot [''refresh_token'' \<mapsto> ''r0'']) = Some s \<and>
     s_restores s \<le> 1"
proof -
  have "\<exists>s. exec (store_step ''en'') [Navigate (resolve ''/login'' ''/login''), Restore] (boot [''refresh_token'' \<mapsto> ''r0'']) = Some s"
    by simp
  then obtain s where s: "exec (store_step ''en'') [Navigate (resolve ''/login'' ''/login''), Restore] (boot [''refresh_token'' \<mapsto> ''r0'']) = Some s" ..
  from user_restore_runs_once [OF s] s show ?thesis by blast
qed

subsection \<open>A waiting guard\<close>

text \<open>
  What a waiting guard waits for, down to the network: the restore, the refresh or the user request behind the restore, and the refresh
  behind a user request that got a 401.  \<open>ur\<close> and \<open>tr\<close> are the answers of the server to a call and to a refresh.
\<close>

definition next_post :: "(refresh_post \<Rightarrow> ax_result) \<Rightarrow> http_state \<Rightarrow> refresh_promise \<Rightarrow> http_event option" where
  "next_post tr h p = (case p of
     RNow b \<Rightarrow> None
   | RPost k \<Rightarrow> (case rp_phase (posts h ! k) of
       PSent \<Rightarrow> Some (RefreshReply k (tr (posts h ! k)))
     | PApplied b \<Rightarrow> Some (RefreshFinally k)
     | PFinished b \<Rightarrow> None))"

definition next_call :: "(http_call \<Rightarrow> ax_result) \<Rightarrow> (refresh_post \<Rightarrow> ax_result) \<Rightarrow> http_state \<Rightarrow> nat \<Rightarrow> http_event option" where
  "next_call ur tr h t = (case hc_phase (calls h ! t) of
     Sending \<Rightarrow> Some (Response t (ur (calls h ! t)))
   | AwaitRefresh p \<Rightarrow> (case promised h p of Some b \<Rightarrow> Some (Resume t True) | None \<Rightarrow> next_post tr h p)
   | _ \<Rightarrow> None)"

definition next_event :: "(http_call \<Rightarrow> ax_result) \<Rightarrow> (refresh_post \<Rightarrow> ax_result) \<Rightarrow> nat \<Rightarrow> store \<Rightarrow> store_event option" where
  "next_event ur tr i s = (case restorePromise s of
     NotStarted \<Rightarrow> None
   | RAwait p \<Rightarrow> (case promised (s_http s) p of Some b \<Rightarrow> Some RestoreResume | None \<Rightarrow> map_option Http (next_post tr (s_http s) p))
   | RUser t \<Rightarrow> (case next_call ur tr (s_http s) t of Some e \<Rightarrow> Some (Http e) | None \<Rightarrow> Some RestoreUser)
   | RDone b \<Rightarrow> Some (ResumeNav i))"

text \<open>How many of these events are still to come.\<close>

definition post_rank :: "http_state \<Rightarrow> refresh_promise \<Rightarrow> nat" where
  "post_rank h p = (case p of
     RNow b \<Rightarrow> 0
   | RPost k \<Rightarrow> (case rp_phase (posts h ! k) of PSent \<Rightarrow> 2 | PApplied b \<Rightarrow> 1 | PFinished b \<Rightarrow> 0))"

definition fetch_rank :: "http_state \<Rightarrow> nat \<Rightarrow> nat" where
  "fetch_rank h t = (case hc_phase (calls h ! t) of
     Sending \<Rightarrow> if hc_retry (calls h ! t) then 1 else 5
   | AwaitRefresh p \<Rightarrow> post_rank h p + 2
   | _ \<Rightarrow> 0)"

definition restore_rank :: "store \<Rightarrow> nat" where
  "restore_rank s = (case restorePromise s of
     NotStarted \<Rightarrow> 9
   | RAwait p \<Rightarrow> post_rank (s_http s) p + 7
   | RUser t \<Rightarrow> fetch_rank (s_http s) t + 1
   | RDone b \<Rightarrow> 0)"

lemma post_rank_le: "post_rank h p \<le> 2"
  by (simp add: post_rank_def split: refresh_promise.split post_phase.split)

lemma fetch_rank_le: "fetch_rank h t \<le> 5"
proof (cases "hc_phase (calls h ! t)")
  case (AwaitRefresh p)
  then show ?thesis using post_rank_le [of h p] by (simp add: fetch_rank_def)
qed (simp_all add: fetch_rank_def)

lemma restore_rank_le: "restore_rank s \<le> 9"
proof (cases "restorePromise s")
  case (RAwait p)
  then show ?thesis using post_rank_le [of "s_http s" p] by (simp add: restore_rank_def)
next
  case (RUser t)
  then show ?thesis using fetch_rank_le [of "s_http s" t] by (simp add: restore_rank_def)
qed (simp_all add: restore_rank_def)

lemma post_progress:
  assumes "promised h p = None" "\<And>k. p = RPost k \<Longrightarrow> k < length (posts h)"
  obtains e h' where "next_post tr h p = Some e" "http_step cur e h = Some h'" "calls h' = calls h" "length (posts h') = length (posts h)"
    "post_rank h' p < post_rank h p"
proof (cases p)
  case (RPost k)
  with assms(2) have k: "k < length (posts h)" by simp
  show ?thesis
  proof (cases "rp_phase (posts h ! k)")
    case PSent
    then obtain h' where h': "on_refresh_reply k (tr (posts h ! k)) h = Some h'" using k by (simp add: on_refresh_reply_def)
    moreover obtain b where "posts h' = posts (set_post k (PApplied b) h)"
      using h' PSent k by (auto simp: on_refresh_reply_def set_post_def split: ax_result.splits if_splits)
    moreover note refresh_events_calls(1) [OF h']
    ultimately show ?thesis using PSent RPost k
      by (intro that [of "RefreshReply k (tr (posts h ! k))" h']) (simp_all add: next_post_def post_rank_def set_post_def)
  next
    case (PApplied b)
    then obtain h' where h': "on_refresh_finally k h = Some h'" "posts h' = posts (set_post k (PFinished b) h)" using k
      by (simp add: on_refresh_finally_def set_post_def)
    moreover note refresh_events_calls(2) [OF h'(1)]
    ultimately show ?thesis using PApplied RPost k
      by (intro that [of "RefreshFinally k" h']) (simp_all add: next_post_def post_rank_def set_post_def)
  qed (use assms(1) RPost k in \<open>simp add: promised_def\<close>)
qed (use assms(1) in \<open>simp add: promised_def\<close>)

text \<open>The events a call waits for are possible and bring it nearer to its end, whatever the server answers.\<close>

lemma response_progress:
  assumes "t < length (calls h)" "hc_phase (calls h ! t) = Sending"
  obtains h' where "on_response t out h = Some h'" "fetch_rank h' t < fetch_rank h t"
proof -
  obtain p h1 where r: "refreshTokens h = (p, h1)" by (cases "refreshTokens h")
  have c1: "calls h1 = calls h" using refreshTokens_frame [OF r] by simp
  have rank: "fetch_rank h t = (if hc_retry (calls h ! t) then 1 else 5)" using assms(2) by (simp add: fetch_rank_def)
  show ?thesis
  proof (cases "wants_refresh h (calls h ! t) out")
    case True
    let ?h = "set_call t ((calls h ! t)\<lparr>hc_retry := True, hc_phase := AwaitRefresh p\<rparr>) h1"
    have "on_response t out h = Some ?h" using True assms r by (cases out) (auto simp: on_response_def wants_refresh_def)
    moreover have "post_rank ?h p \<le> 2" by (rule post_rank_le)
    then have "fetch_rank ?h t \<le> 4" using assms(1) c1 by (simp add: fetch_rank_def set_call_def)
    moreover have "\<not> hc_retry (calls h ! t)" using True by (simp add: wants_refresh_def)
    ultimately show ?thesis using that rank by fastforce
  next
    case False
    then obtain h' where "on_response t out h = Some h'" "fetch_rank h' t = 0"
      using assms by (cases out) (auto simp: on_response_def fetch_rank_def set_call_def)
    with that rank show ?thesis by simp
  qed
qed

lemma resume_progress:
  assumes "t < length (calls h)" "hc_phase (calls h ! t) = AwaitRefresh p" "promised h p = Some b" "calls_inv h"
  obtains h' where "resume_call cur t True h = Some h'" "fetch_rank h' t < fetch_rank h t"
proof -
  have "call_ok (calls h ! t) (sent_times h t)" using assms(1,4) by (simp add: calls_inv_def)
  then have "hc_retry (calls h ! t)" using assms(2) by (simp add: call_ok_def)
  then show ?thesis using assms(1-3) that
    by (cases b) (auto simp: resume_call_def fetch_rank_def redirectToLogin_def dispatch_def set_call_def attach_token_def Let_def)
qed

lemma call_progress:
  assumes "layer_inv h" "t < length (calls h)" "settled_user (calls h ! t) = None"
  obtains e h' where "next_call ur tr h t = Some e" "http_step cur e h = Some h'" "fetch_rank h' t < fetch_rank h t"
proof (cases "hc_phase (calls h ! t)")
  case Sending
  obtain h' where "on_response t (ur (calls h ! t)) h = Some h'" "fetch_rank h' t < fetch_rank h t"
    using response_progress [OF assms(2) Sending] .
  with Sending that show ?thesis by (simp add: next_call_def)
next
  case (AwaitRefresh p)
  show ?thesis
  proof (cases "promised h p")
    case None
    have "k < length (posts h)" if "p = RPost k" for k using assms(1,2) AwaitRefresh that by (simp add: layer_inv_def awaits_inv_def)
    with None obtain e h' where "next_post tr h p = Some e" "http_step cur e h = Some h'" "calls h' = calls h" "post_rank h' p < post_rank h p"
      by (rule post_progress)
    with None AwaitRefresh show ?thesis by (intro that [of e h']) (simp_all add: next_call_def fetch_rank_def)
  next
    case (Some b)
    have "calls_inv h" using assms(1) by (simp add: layer_inv_def http_inv_def)
    then obtain h' where "resume_call cur t True h = Some h'" "fetch_rank h' t < fetch_rank h t"
      using resume_progress [OF assms(2) AwaitRefresh Some] by blast
    with Some AwaitRefresh that show ?thesis by (simp add: next_call_def)
  qed
qed (use assms(3) in \<open>simp_all add: settled_user_def\<close>)

text \<open>What the live session decides for a guard.\<close>

definition live_decision :: "nav \<Rightarrow> store \<Rightarrow> guard_decision" where
  "live_decision n s = (case nv_phase n of
     WaitProtected \<Rightarrow> if isAuthenticated s then Proceed else ToLogin (to_fullPath (nv_to n))
   | _ \<Rightarrow> if isAuthenticated s then ToDashboard else Proceed)"

definition guard_pending :: "nat \<Rightarrow> nav \<Rightarrow> store \<Rightarrow> bool" where
  "guard_pending i n s \<longleftrightarrow> store_inv s \<and> i < length (s_navs s) \<and> s_navs s ! i = n \<and> waiting n"

definition guard_decided :: "nat \<Rightarrow> nav \<Rightarrow> store \<Rightarrow> bool" where
  "guard_decided i n s \<longleftrightarrow> i < length (s_navs s) \<and> s_navs s ! i = n\<lparr>nv_phase := NavDecided (live_decision n s)\<rparr>"

lemma guard_pending_step:
  "guard_pending i n s \<Longrightarrow> store_step cur e s = Some s' \<Longrightarrow> s_navs s' = s_navs s \<Longrightarrow> guard_pending i n s'"
  by (auto simp: guard_pending_def intro: store_step_inv)

lemma user_progress:
  assumes "guard_pending i n s" "restorePromise s = RUser t"
  shows "\<exists>e s'. next_event ur tr i s = Some e \<and> store_step cur e s = Some s' \<and> s_navs s' = s_navs s \<and> restore_rank s' < restore_rank s"
proof -
  have inv: "layer_inv (s_http s)" "t < length (calls (s_http s))" using assms by (simp_all add: guard_pending_def store_inv_def)
  show ?thesis
  proof (cases "settled_user (calls (s_http s) ! t)")
    case None
    obtain e h where "next_call ur tr (s_http s) t = Some e" "http_step cur e (s_http s) = Some h" "fetch_rank h t < fetch_rank (s_http s) t"
      using call_progress [OF inv None] .
    with assms(2) show ?thesis by (auto simp: next_event_def restore_rank_def)
  next
    case (Some u)
    then have "next_call ur tr (s_http s) t = None" by (auto simp: next_call_def settled_user_def split: call_phase.splits)
    with Some inv(2) assms(2) show ?thesis by (auto simp: next_event_def restore_user_def restore_rank_def)
  qed
qed

lemma refresh_progress:
  assumes "guard_pending i n s" "restorePromise s = RAwait p"
  shows "\<exists>e s'. next_event ur tr i s = Some e \<and> store_step cur e s = Some s' \<and> s_navs s' = s_navs s \<and> restore_rank s' < restore_rank s"
proof (cases "promised (s_http s) p")
  case None
  have "k < length (posts (s_http s))" if "p = RPost k" for k using assms that by (simp add: guard_pending_def store_inv_def)
  with None obtain e h where "next_post tr (s_http s) p = Some e" "http_step cur e (s_http s) = Some h" "post_rank h p < post_rank (s_http s) p"
    by (rule post_progress)
  with None assms(2) show ?thesis by (auto simp: next_event_def restore_rank_def)
next
  case (Some b)
  have "fetch_rank (http_request url None h) (length (calls h)) = 5" for url h
    by (simp add: fetch_rank_def http_request_def dispatch_def set_call_def attach_token_def Let_def)
  with Some assms(2) show ?thesis
    by (auto simp: next_event_def restore_resume_def restore_rank_def request_user_def markAuthenticated_def markUnauthenticated_def)
qed

lemma guard_resume_decides:
  assumes "i < length (s_navs s)" "s_navs s ! i = n" "waiting n" "restore_done s"
  obtains s' where "guard_resume i s = Some s'" "guard_decided i n s'"
proof -
  have d: "guard_resume i s = Some (s\<lparr>s_navs := (s_navs s)[i := n\<lparr>nv_phase := NavDecided (live_decision n s)\<rparr>]\<rparr>)"
    using assms by (cases "nv_phase n") (simp_all add: guard_resume_def live_decision_def waiting_def)
  have "live_decision n (s\<lparr>s_navs := ns\<rparr>) = live_decision n s" for ns by (simp add: live_decision_def isAuthenticated_def)
  then show ?thesis using assms(1) by (intro that [OF d]) (simp add: guard_decided_def)
qed

lemma guard_progress:
  assumes "guard_pending i n s"
  shows "\<exists>e s'. next_event ur tr i s = Some e \<and> store_step cur e s = Some s' \<and>
     (guard_decided i n s' \<or> guard_pending i n s' \<and> restore_rank s' < restore_rank s)"
proof -
  have n: "i < length (s_navs s)" "s_navs s ! i = n" "waiting n" and inv: "store_inv s" using assms by (simp_all add: guard_pending_def)
  then have "list_ex waiting (s_navs s)" by (auto simp: list_ex_iff)
  then have started: "restorePromise s \<noteq> NotStarted" using inv by (simp add: store_inv_def)
  show ?thesis
  proof (cases "restorePromise s")
    case (RDone b)
    then have "restore_done s" by (simp add: restore_done_def)
    with n obtain s' where "guard_resume i s = Some s'" "guard_decided i n s'" by (rule guard_resume_decides)
    with RDone show ?thesis by (intro exI [of _ "ResumeNav i"] exI [of _ s']) (simp add: next_event_def)
  next
    case (RAwait p)
    from refresh_progress [OF assms this, of ur tr cur] guard_pending_step [OF assms] show ?thesis by metis
  next
    case (RUser t)
    from user_progress [OF assms this, of ur tr cur] guard_pending_step [OF assms] show ?thesis by metis
  qed (use started in simp)
qed

interpretation waiting_guard: scheduled "store_step cur" "next_event ur tr i" "guard_pending i n" "guard_decided i n" restore_rank for cur ur tr i n
  by unfold_locales (rule guard_progress)

text \<open>C26. A navigation never hangs as long as the server answers.  Whenever a guard still waits, after any run, the events it waits for (the
  replies to the refresh and to the user request behind the restore, whatever they are, and the continuations of the promises)
  are possible one after the other, and at most ten of them later the guard has decided, by the session as it is then.\<close>

theorem user_navigation_never_stuck:
  assumes "exec (store_step cur) es (boot m) = Some s" and "i < length (s_navs s)" and "waiting (s_navs s ! i)"
  shows "\<exists>fs s'. exec (store_step cur) fs s = Some s' \<and> follows (store_step cur) (next_event ur tr i) fs s \<and> length fs \<le> 10 \<and>
     nv_phase (s_navs s' ! i) = NavDecided (live_decision (s_navs s ! i) s')"
proof -
  have "guard_pending i (s_navs s ! i) s" using store_reachable [OF assms(1)] assms(2,3) by (simp add: guard_pending_def)
  from waiting_guard.reached [OF this, of cur ur tr] obtain fs s' where
    "exec (store_step cur) fs s = Some s'" "follows (store_step cur) (next_event ur tr i) fs s" "length fs \<le> Suc (restore_rank s)"
    "guard_decided i (s_navs s ! i) s'" by blast
  moreover have "restore_rank s \<le> 9" by (rule restore_rank_le)
  ultimately show ?thesis by (intro exI [of _ fs] exI [of _ s']) (simp add: guard_decided_def)
qed

text \<open>A guest page on a page load whose refresh succeeds and whose user request gets a 401.\<close>

theorem user_navigation_never_stuck_witness:
  "\<exists>s fs s'. exec (store_step ''en'') [Navigate (resolve ''/login'' ''/login'')] (boot [''refresh_token'' \<mapsto> ''r0'']) = Some s \<and>
     exec (store_step ''en'') fs s = Some s' \<and> length fs \<le> 10 \<and>
     follows (store_step ''en'') (next_event (\<lambda>c. AxHttp 401 JNull) (\<lambda>p. AxOk (JObj [(''access_token'', JStr ''a'')])) 0) fs s \<and>
     nv_phase (s_navs s' ! 0) = NavDecided (live_decision (s_navs s ! 0) s')"
proof -
  let ?run = "exec (store_step ''en'') [Navigate (resolve ''/login'' ''/login'')] (boot [''refresh_token'' \<mapsto> ''r0''])"
  have "to_guest (resolve ''/login'' ''/login'') \<and> \<not> to_auth (resolve ''/login'' ''/login'')"
    by (simp add: resolve_def target_of_def routes_def guest_route_def)
  then have "\<exists>s. ?run = Some s \<and> 0 < length (s_navs s) \<and> waiting (s_navs s ! 0)"
    by (simp add: guard_enter_def waiting_def useAuthStore_def restoreSession_def Let_def markUnauthenticated_def nth_append
        split: prod.split)
  then obtain s where s: "?run = Some s" "0 < length (s_navs s)" "waiting (s_navs s ! 0)" by blast
  from user_navigation_never_stuck [OF s, of "\<lambda>c. AxHttp 401 JNull" "\<lambda>p. AxOk (JObj [(''access_token'', JStr ''a'')])"] s(1)
  show ?thesis by blast
qed

subsection \<open>A failed refresh\<close>








text \<open>The guard decides on the live session, not on the cached restore: once the user is signed out
  and the restore (with whatever result) is over, every protected location leads to the login
  page with the full target kept, and every guest page opens.\<close>

theorem user_guard_after_logout:
  assumes "restore_done s" and "s' = logoutLocal s"
  shows "(to_auth t \<longrightarrow> (\<exists>s2. exec (store_step cur) [Navigate t, ResumeNav (length (s_navs s'))] s' = Some s2 \<and>
        nv_phase (s_navs s2 ! length (s_navs s')) = NavDecided (ToLogin (to_fullPath t)))) \<and>
     (to_guest t \<and> \<not> to_auth t \<longrightarrow> (\<exists>s2. exec (store_step cur) [Navigate t, ResumeNav (length (s_navs s'))] s' = Some s2 \<and>
        nv_phase (s_navs s2 ! length (s_navs s')) = NavDecided Proceed))"
proof -
  have s': "restorePromise s' = restorePromise s" "\<not> isAuthenticated s'"
    using assms(2) by (simp_all add: logoutLocal_def isAuthenticated_def)
  then have "restoreSession s' = s'" using assms(1) by (auto simp: restoreSession_def restore_done_def)
  moreover have "restore_done (s'\<lparr>s_navs := ns\<rparr>)" "isAuthenticated (s'\<lparr>s_navs := ns\<rparr>) = isAuthenticated s'" for ns
    using assms(1) s' by (simp_all add: restore_done_def isAuthenticated_def)
  ultimately show ?thesis using s'(2)
    by (auto simp: guard_enter_def guard_resume_def Let_def)
qed

theorem user_guard_after_logout_witness:
  "let s = (boot Map.empty)\<lparr>restorePromise := RDone True, tokenPresent := True\<rparr>; s' = logoutLocal s in
   \<exists>s2. exec (store_step ''en'') [Navigate (resolve ''/security'' ''/security?tab=mfa''), ResumeNav (length (s_navs s'))] s' = Some s2 \<and>
     nv_phase (s_navs s2 ! length (s_navs s')) = NavDecided (ToLogin ''/security?tab=mfa'')"
proof -
  let ?s = "(boot Map.empty)\<lparr>restorePromise := RDone True, tokenPresent := True\<rparr>"
  have t: "to_auth (resolve ''/security'' ''/security?tab=mfa'')"
    "to_fullPath (resolve ''/security'' ''/security?tab=mfa'') = ''/security?tab=mfa''"
    by (simp_all add: resolve_def target_of_def routes_def guest_route_def open_route_def auth_route_def)
  have "restore_done ?s" by (simp add: restore_done_def)
  from user_guard_after_logout [OF this refl, of "resolve ''/security'' ''/security?tab=mfa''" "''en''"] t
  show ?thesis by (simp add: Let_def del: exec.simps)
qed

text \<open>Signing in: the banner is cleared, the busy flag is always reset, success marks the session
  authenticated, and a failure leaves a normalised error whose banner text is never empty and
  the authentication flag as it was.\<close>

theorem sign_in_outcome:
  assumes "sign_in api cur attempt s = (res, s')"
  shows "\<not> s_loading (ss_store s') \<and>
     (case res of
        Result r \<Rightarrow> s_error (ss_store s') = JNull \<and> errorText cur' (ss_store s') = [] \<and>
          tokenPresent (ss_store s') = (is_success r \<or> tokenPresent (ss_store s))
      | ResultError e \<Rightarrow> s_error (ss_store s') = e \<and> errorText cur' (ss_store s') \<noteq> [] \<and>
          tokenPresent (ss_store s') = tokenPresent (ss_store s))"
proof (cases "attempt (ss_portal s)")
  case (Pair out p)
  have fetch: "s_error (ss_store (fetchUser api x)) = s_error (ss_store x)"
    "tokenPresent (ss_store (fetchUser api x)) = tokenPresent (ss_store x)" for x :: "'a session"
    by (simp_all add: fetchUser_def split: prod.split sum.split)
  show ?thesis
  proof (cases out)
    case (Inr r)
    with Pair assms fetch show ?thesis
      by (auto simp: sign_in_def Let_def errorText_def markAuthenticated_def)
  next
    case (Inl e)
    have "\<not> isNormalizedError (thrown_value e)"
      by (cases e rule: thrown_value.cases)
        (simp_all add: isNormalizedError_def [of "JObj _"] NORMALIZED_BRAND_def proto_member_def object_prototype_def)
    then obtain code rid st where n: "normalizeError cur (thrown_value e) JUndef =
        NormalizedError code (getErrorMessage code (string_or JUndef cur)) rid st"
      using normalize_shaped [of "thrown_value e" getErrorMessage JUndef cur] by (auto simp: shaped_def normalizeError_def)
    have "getErrorMessage c l \<noteq> []" for c l by (simp add: getErrorMessage_def message_in_nonempty)
    with Pair Inl assms n show ?thesis
      by (auto simp: sign_in_def Let_def errorText_def NormalizedError_def)
  qed
qed

theorem sign_in_outcome_witness:
  "\<exists>e s'. sign_in demo_api ''en'' (\<lambda>p. (Inl (Failed AxNet), p))
       \<lparr>ss_portal = \<lparr>p_http = load_http Map.empty ''login'' None, p_session = Unavailable, p_world = ()\<rparr>, ss_store = boot Map.empty\<rparr>
     = (ResultError e, s') \<and> errorText ''zh-CN'' (ss_store s') \<noteq> []"
proof -
  let ?s = "\<lparr>ss_portal = \<lparr>p_http = load_http Map.empty ''login'' None, p_session = Unavailable, p_world = ()\<rparr>, ss_store = boot Map.empty\<rparr>"
  have "\<exists>e s'. sign_in demo_api ''en'' (\<lambda>p. (Inl (Failed AxNet), p)) ?s = (ResultError e, s')"
    by (simp add: sign_in_def Let_def)
  then obtain e s' where run: "sign_in demo_api ''en'' (\<lambda>p. (Inl (Failed AxNet), p)) ?s = (ResultError e, s')" by blast
  from sign_in_outcome [OF run, of "''zh-CN''"] run show ?thesis by auto
qed

end
