(* ===== verification/AdminAuth.thy ===== *)
theory AdminAuth
  imports UserStore
begin

section \<open>The auth store of the admin console\<close>

text \<open>
  The operations of \<open>stores/auth.ts\<close> of the admin console that a page awaits: login, MFA, the role
  gate, the forced password change and logout, as functions over the store.  \<open>logout()\<close> called without
  \<open>await\<close> clears the store only after its requests have settled, so the cleared state is a
  separate step.  The interceptors, the shared refresh, the restoration and the guard are in
  the theory \<open>AdminNet\<close>.
\<close>

subsection \<open>State and storage\<close>

definition REFRESH_TOKEN_STORAGE_KEY :: string where
  "REFRESH_TOKEN_STORAGE_KEY = ''admin_refresh_token''"

definition persistRefreshToken :: "jsval \<Rightarrow> web_storage \<Rightarrow> web_storage" where
  "persistRefreshToken token ws = (case ws of
     Unavailable \<Rightarrow> Unavailable
   | Available m \<Rightarrow> Available (if truthy token then setItem REFRESH_TOKEN_STORAGE_KEY (js_String token) m
       else removeItem REFRESH_TOKEN_STORAGE_KEY m))"

definition loadPersistedRefreshToken :: "web_storage \<Rightarrow> jsval" where
  "loadPersistedRefreshToken ws = (case ws of
     Unavailable \<Rightarrow> JNull | Available m \<Rightarrow> item_or_null (getItem m REFRESH_TOKEN_STORAGE_KEY))"

record 'w admin =
  ad_access :: jsval
  ad_refresh :: jsval
  ad_user :: jsval
  ad_error :: jsval
  ad_session :: web_storage
  ad_logouts :: nat
  ad_world :: 'w

definition admin_isAuthenticated :: "'w admin \<Rightarrow> bool" where
  "admin_isAuthenticated s = truthy (ad_access s)"

definition loginErrorText :: "string \<Rightarrow> 'w admin \<Rightarrow> string" where
  "loginErrorText cur s = (let e = ad_error s in
     if \<not> truthy e then [] else if is_string e then js_String e
     else admin_getErrorMessage (js_String (getprop e ''code'')) cur)"

definition admin_REDIRECT_URI :: "string \<Rightarrow> string" where
  "admin_REDIRECT_URI origin = origin @ ''/admin/callback''"

definition admin_send :: "'w api \<Rightarrow> api_call \<Rightarrow> ('w admin, jsval) async" where
  "admin_send api c s = (case api c (ad_world s) of
     (AxOk data, w) \<Rightarrow> (Inr data, s\<lparr>ad_world := w\<rparr>)
   | (r, w) \<Rightarrow> (Inl (Failed r), s\<lparr>ad_world := w\<rparr>))"

subsection \<open>Logout\<close>

text \<open>The requests go out at once; the assignments after the \<open>await\<close> are \<open>settle_logout\<close>.\<close>

definition admin_logout_calls :: "'w admin \<Rightarrow> api_call list" where
  "admin_logout_calls s =
     (if truthy (ad_access s)
      then [\<lparr>ac_method = ''POST'', ac_url = ''/oauth2/logout'', ac_query = [], ac_body = NoBody,
             ac_headers = [(''Authorization'', bearer (ad_access s))]\<rparr>] else []) @
     (if truthy (ad_refresh s)
      then [\<lparr>ac_method = ''POST'', ac_url = ''/oauth2/revoke'', ac_query = [],
             ac_body = Form [(''token'', js_String (ad_refresh s)), (''client_id'', ''fulla-admin-console'')],
             ac_headers = [(''Content-Type'', ''application/x-www-form-urlencoded'')]\<rparr>] else [])"

definition admin_logout :: "'w api \<Rightarrow> 'w admin \<Rightarrow> 'w admin" where
  "admin_logout api s = s\<lparr>ad_world := run_calls api (admin_logout_calls s) (ad_world s), ad_logouts := ad_logouts s + 1\<rparr>"

definition settle_logout :: "'w admin \<Rightarrow> 'w admin" where
  "settle_logout s = (if ad_logouts s = 0 then s
     else s\<lparr>ad_access := JNull, ad_refresh := JNull, ad_user := JNull,
            ad_session := persistRefreshToken JNull (ad_session s), ad_logouts := ad_logouts s - 1\<rparr>)"

subsection \<open>The role gate\<close>

text \<open>\<open>user?.roles?.includes('admin')\<close>: an array or a string; anything else has no such method.\<close>

definition includes_admin :: "jsval \<Rightarrow> js_throw + bool" where
  "includes_admin user = (case getprop user ''roles'' of
     JUndef \<Rightarrow> Inr False | JNull \<Rightarrow> Inr False
   | JArr xs \<Rightarrow> Inr (JStr ''admin'' \<in> set xs)
   | JStr r \<Rightarrow> Inr (js_includes ''admin'' r)
   | _ \<Rightarrow> Inl TypeErr)"

definition fetchUserInfo :: "'w api \<Rightarrow> 'w admin \<Rightarrow> 'w admin" where
  "fetchUserInfo api s =
     (if \<not> truthy (ad_access s) then s
      else (case admin_send api (plain_call ''GET'' ''/oauth2/userinfo''
                \<lparr>ac_headers := [(''Authorization'', bearer (ad_access s))]\<rparr>) s of
              (Inr data, s') \<Rightarrow> s'\<lparr>ad_user := data\<rparr>
            | (Inl e, s') \<Rightarrow> admin_logout api s'))"

datatype admin_login_result =
    ASuccess
  | AMfaRequired jsval
  | APasswordChangeRequired
  | AError jsval

definition applySession :: "'w api \<Rightarrow> jsval \<Rightarrow> ('w admin, admin_login_result) async" where
  "applySession api data =
     and_then (member data ''access_token'') (\<lambda>access s.
       (let refresh = coalesce (getprop data ''refresh_token'') JNull;
            s = s\<lparr>ad_access := access, ad_refresh := refresh, ad_session := persistRefreshToken refresh (ad_session s)\<rparr>;
            s = fetchUserInfo api s
        in case includes_admin (ad_user s) of
             Inl e \<Rightarrow> (Inl (Threw e), s)
           | Inr True \<Rightarrow> (Inr ASuccess, s)
           | Inr False \<Rightarrow>
               (Inr (AError (JStr ''forbidden'')),
                (admin_logout api s)\<lparr>ad_error := JStr ''Admin role required to access this console''\<rparr>)))"

subsection \<open>Login and MFA\<close>

definition admin_login_form :: "string \<Rightarrow> string \<Rightarrow> string \<Rightarrow> string \<Rightarrow> portal_pkce_pair \<Rightarrow> params" where
  "admin_login_form origin username password uuid pkce =
     [(''username'', username), (''password'', password), (''client_id'', ''fulla-admin-console''),
      (''redirect_uri'', admin_REDIRECT_URI origin), (''scope'', ''openid profile admin''), (''state'', uuid),
      (''code_challenge'', challenge pkce), (''code_challenge_method'', pkce_method pkce), (''json'', ''true'')]"

definition admin_code_form :: "string \<Rightarrow> string \<Rightarrow> string \<Rightarrow> params" where
  "admin_code_form origin code v =
     [(''grant_type'', ''authorization_code''), (''code'', code), (''redirect_uri'', admin_REDIRECT_URI origin),
      (''client_id'', ''fulla-admin-console''), (''code_verifier'', v)]"

definition stash_verifier :: "string \<Rightarrow> ('w admin, unit) async" where
  "stash_verifier v s = (case ad_session s of
     Unavailable \<Rightarrow> (Inl (Threw storage_denied), s)
   | Available m \<Rightarrow> (Inr (), s\<lparr>ad_session := Available (setItem PKCE_VERIFIER_KEY v m)\<rparr>))"

definition drop_verifier :: "('w admin, unit) async" where
  "drop_verifier s = (case ad_session s of
     Unavailable \<Rightarrow> (Inl (Threw storage_denied), s)
   | Available m \<Rightarrow> (Inr (), s\<lparr>ad_session := Available (removeItem PKCE_VERIFIER_KEY m)\<rparr>))"

text \<open>\<open>try { ... } catch (e) { loginError = normalizeError(e); return { error } }\<close>.\<close>

definition catching :: "string \<Rightarrow> ('w admin, admin_login_result) async \<Rightarrow> 'w admin \<Rightarrow> admin_login_result \<times> 'w admin" where
  "catching cur m s = (case m s of
     (Inr r, s') \<Rightarrow> (r, s')
   | (Inl e, s') \<Rightarrow> (let err = admin_normalizeError cur (thrown_value e) JUndef in (AError err, s'\<lparr>ad_error := err\<rparr>)))"

definition form_call :: "string \<Rightarrow> params \<Rightarrow> api_call" where
  "form_call url form = \<lparr>ac_method = ''POST'', ac_url = url, ac_query = [], ac_body = Form form,
     ac_headers = [(''Content-Type'', ''application/x-www-form-urlencoded'')]\<rparr>"

definition admin_login ::
    "string \<Rightarrow> digest \<Rightarrow> random \<Rightarrow> string \<Rightarrow> 'w api \<Rightarrow> string \<Rightarrow> string \<Rightarrow> string \<Rightarrow> 'w admin \<Rightarrow> admin_login_result \<times> 'w admin" where
  "admin_login origin sha256 rnd uuid api cur username password s =
     catching cur
       (let pkce = admin_generatePkcePair sha256 rnd in
        and_then (admin_send api (form_call ''/oauth2/login'' (admin_login_form origin username password uuid pkce))) (\<lambda>data.
        and_then (member data ''mfa_required'') (\<lambda>mfa.
          if truthy mfa then
            and_then (stash_verifier (verifier pkce)) (\<lambda>_. return_op (AMfaRequired (getprop data ''mfa_token'')))
          else if truthy (getprop data ''password_change_required'') then return_op APasswordChangeRequired
          else (let code = getprop data ''code'' in
                if \<not> truthy code then throw_op (PlainError ''No authorization code received'')
                else and_then (admin_send api (form_call ''/oauth2/token''
                       (admin_code_form origin (js_String code) (verifier pkce)))) (applySession api)))))
       (s\<lparr>ad_error := JNull\<rparr>)"

text \<open>The stash is read outside the \<open>try\<close>.\<close>

definition admin_verifyMfa ::
    "string \<Rightarrow> 'w api \<Rightarrow> string \<Rightarrow> string \<Rightarrow> string \<Rightarrow> 'w admin \<Rightarrow> (failure + admin_login_result) \<times> 'w admin" where
  "admin_verifyMfa origin api cur mfaToken code s = (case ad_session s of
     Unavailable \<Rightarrow> (Inl (Threw storage_denied), s)
   | Available m \<Rightarrow>
       (let codeVerifier = (case getItem m PKCE_VERIFIER_KEY of Some v \<Rightarrow> v | None \<Rightarrow> []);
            ps = [(''mfa_token'', mfaToken), (''code'', code), (''client_id'', ''fulla-admin-console''),
                  (''redirect_uri'', admin_REDIRECT_URI origin)];
            ps = (if codeVerifier \<noteq> [] then params_set ''code_verifier'' codeVerifier ps else ps)
        in case catching cur
              (and_then (admin_send api (form_call ''/oauth2/mfa/verify'' ps)) (\<lambda>data.
               and_then (member data ''access_token'') (\<lambda>a.
                 if \<not> truthy a then throw_op (PlainError ''MFA verification failed'')
                 else and_then drop_verifier (\<lambda>_. applySession api data)))) s of
            (r, s') \<Rightarrow> (Inr r, s')))"

definition admin_changePasswordForced :: "'w api \<Rightarrow> string \<Rightarrow> string \<Rightarrow> string \<Rightarrow> ('w admin, unit) async" where
  "admin_changePasswordForced api cur oldPassword newPassword s =
     (case admin_send api (send_json ''POST'' ''/oauth2/password/change''
            (JObj [(''old_password'', JStr oldPassword), (''new_password'', JStr newPassword)])) (s\<lparr>ad_error := JNull\<rparr>) of
        (Inr data, s') \<Rightarrow> (Inr (), s')
      | (Inl e, s') \<Rightarrow> (Inl e, s'\<lparr>ad_error := admin_normalizeError cur (thrown_value e) JUndef\<rparr>))"

subsection \<open>Properties\<close>

lemma catching_Success: "catching cur m s = (ASuccess, s') \<longleftrightarrow> m s = (Inr ASuccess, s')"
  by (auto simp: catching_def Let_def split: prod.split sum.split)

text \<open>Every way out of the role gate.\<close>

lemma admin_logout_sel: "ad_user (admin_logout api s) = ad_user s" "ad_logouts (admin_logout api s) = Suc (ad_logouts s)"
  by (simp_all add: admin_logout_def)

lemma applySession_gate:
  assumes "applySession api data s = (Inr r, s')"
  shows "r = ASuccess \<and> includes_admin (ad_user s') = Inr True \<or>
         r = AError (JStr ''forbidden'') \<and> includes_admin (ad_user s') = Inr False \<and> 0 < ad_logouts s'"
proof -
  from assms obtain u where "(case includes_admin (ad_user u) of
      Inl e \<Rightarrow> (Inl (Threw e), u)
    | Inr True \<Rightarrow> (Inr ASuccess, u)
    | Inr False \<Rightarrow> (Inr (AError (JStr ''forbidden'')),
        (admin_logout api u)\<lparr>ad_error := JStr ''Admin role required to access this console''\<rparr>)) = (Inr r, s')"
    unfolding applySession_def and_then_Inr Let_def by blast
  then show ?thesis by (auto simp: admin_logout_sel split: sum.splits bool.splits)
qed

lemma settle_logout_clears:
  "0 < ad_logouts s \<Longrightarrow> \<not> admin_isAuthenticated (settle_logout s) \<and> ad_refresh (settle_logout s) = JNull \<and>
     loadPersistedRefreshToken (ad_session (settle_logout s)) = JNull"
  by (auto simp: settle_logout_def admin_isAuthenticated_def persistRefreshToken_def loadPersistedRefreshToken_def
      item_or_null_def getItem_def removeItem_def split: web_storage.split)

lemma admin_login_gate:
  "admin_login origin sha256 rnd uuid api cur username password s = (ASuccess, s') \<Longrightarrow> includes_admin (ad_user s') = Inr True"
  by (auto simp: admin_login_def catching_Success Let_def and_then_Inr return_op_def throw_op_def split: if_splits
      dest: applySession_gate)

lemma admin_verifyMfa_gate:
  "admin_verifyMfa origin api cur mfaToken code s = (Inr ASuccess, s') \<Longrightarrow> includes_admin (ad_user s') = Inr True"
  by (auto simp: admin_verifyMfa_def catching_Success Let_def and_then_Inr return_op_def throw_op_def
      split: if_splits web_storage.splits prod.splits dest: applySession_gate)

text \<open>C27. Only administrators sign in to the console: a password login or an MFA completion reports success only
  when the loaded profile has the admin role, and a sign-in refused at the role gate starts a
  logout that, once settled, leaves no token in memory or storage.\<close>

theorem admin_role_gate:
  "(admin_login origin sha256 rnd uuid api cur username password s = (ASuccess, s') \<longrightarrow>
      includes_admin (ad_user s') = Inr True) \<and>
   (admin_verifyMfa origin api cur mfaToken code s = (Inr ASuccess, s') \<longrightarrow> includes_admin (ad_user s') = Inr True) \<and>
   (applySession api data s = (Inr (AError e), s') \<longrightarrow>
      includes_admin (ad_user s') = Inr False \<and> \<not> admin_isAuthenticated (settle_logout s') \<and>
      ad_refresh (settle_logout s') = JNull \<and> loadPersistedRefreshToken (ad_session (settle_logout s')) = JNull)"
  by (auto dest: applySession_gate settle_logout_clears admin_login_gate admin_verifyMfa_gate)

definition demo_admin_api :: "nat api" where
  "demo_admin_api c w = (if w = 0 then AxOk (JObj [(''code'', JStr ''c0'')])
     else if w = 1 then AxOk (JObj [(''access_token'', JStr ''a''), (''refresh_token'', JStr ''r'')])
     else AxOk (JObj [(''roles'', JArr [JStr ''admin''])]), w + 1)"

definition demo_admin :: "nat admin" where
  "demo_admin = \<lparr>ad_access = JNull, ad_refresh = JNull, ad_user = JNull, ad_error = JNull,
     ad_session = Available Map.empty, ad_logouts = 0, ad_world = 0\<rparr>"

theorem admin_role_gate_witness:
  "\<exists>s'. admin_login ''https://id'' (\<lambda>_. []) (\<lambda>_. []) ''u'' demo_admin_api ''en'' ''root'' ''pw'' demo_admin = (ASuccess, s') \<and>
     includes_admin (ad_user s') = Inr True"
proof -
  have "\<exists>s'. admin_login ''https://id'' (\<lambda>_. []) (\<lambda>_. []) ''u'' demo_admin_api ''en'' ''root'' ''pw'' demo_admin = (ASuccess, s')"
    by (simp add: admin_login_def catching_Success Let_def and_then_Inr admin_send_def demo_admin_api_def demo_admin_def
        member_def get_member_def applySession_def fetchUserInfo_def includes_admin_def proto_member_def object_prototype_def)
  with admin_role_gate show ?thesis by blast
qed

end
