(* ===== verification/AdminNet.thy ===== *)
theory AdminNet
  imports AdminAuth
begin

section \<open>Interceptors, refresh and guard of the admin console\<close>

text \<open>
  The event view of \<open>stores/auth.ts\<close> and \<open>router/index.ts\<close> of the admin console.  All requests,
  the refresh request included, are calls of the default axios instance and pass through the
  two interceptors of the store.  Every continuation of an awaited promise is an event.
\<close>

subsection \<open>State\<close>

text \<open>What an awaited \<open>refreshAccessToken()\<close> is: \<open>false\<close> at once, or a run.\<close>

datatype run_promise = NoToken | OfRun nat

datatype acall_kind = AppCall | RefreshPost nat

datatype acall_phase =
    CSending
  | CAwait run_promise
  | COk jsval
  | CRaw ax_result
  | CExpired jsval

record acall =
  ca_kind :: acall_kind
  ca_auth :: "string option"
  ca_retry :: bool
  ca_phase :: acall_phase

text \<open>A run of the function behind \<open>refreshInFlight\<close>: its call, and its result once it returned.\<close>

record refresh_run =
  rr_call :: nat
  rr_token :: jsval
  rr_result :: "bool option"

text \<open>A run of \<open>restoreSession\<close>: it waits for the refresh, then for its profile call;
  \<open>RsDone None\<close> is a rejected promise.\<close>

datatype restore_run = RsRefresh run_promise | RsUserInfo nat | RsDone "bool option"

datatype admin_decision = AProceed | AToLogin

datatype admin_nav = ANavWait | ANavDecided admin_decision

record admin_net =
  n_access :: jsval
  n_refresh :: jsval
  n_user :: jsval
  n_error :: jsval
  n_session :: web_storage
  n_inflight :: "nat option"
  n_runs :: "refresh_run list"
  n_calls :: "acall list"
  n_logouts :: nat
  n_restores :: "restore_run list"
  n_shared :: "nat option"
  n_navs :: "admin_nav list"
  n_route :: string

definition load_admin :: "web_storage \<Rightarrow> admin_net" where
  "load_admin ws =
     \<lparr>n_access = JNull, n_refresh = JNull, n_user = JNull, n_error = JNull, n_session = ws, n_inflight = None,
      n_runs = [], n_calls = [], n_logouts = 0, n_restores = [], n_shared = None, n_navs = [], n_route = []\<rparr>"

subsection \<open>Calls and the shared refresh\<close>

definition attach_access :: "admin_net \<Rightarrow> string option \<Rightarrow> string option" where
  "attach_access n auth =
     (if truthy (n_access n) \<and> (auth = None \<or> auth = Some []) then Some (bearer (n_access n)) else auth)"

definition add_call :: "acall_kind \<Rightarrow> string option \<Rightarrow> admin_net \<Rightarrow> admin_net" where
  "add_call k auth n = n\<lparr>n_calls := n_calls n @
     [\<lparr>ca_kind = k, ca_auth = attach_access n auth, ca_retry = False, ca_phase = CSending\<rparr>]\<rparr>"

definition refreshAccessToken :: "admin_net \<Rightarrow> run_promise \<times> admin_net" where
  "refreshAccessToken n =
     (if \<not> truthy (n_refresh n) then (NoToken, n)
      else (case n_inflight n of
              Some i \<Rightarrow> (OfRun i, n)
            | None \<Rightarrow>
                (let i = length (n_runs n) in
                 (OfRun i, (add_call (RefreshPost i) None n)\<lparr>
                    n_runs := n_runs n @ [\<lparr>rr_call = length (n_calls n), rr_token = n_refresh n, rr_result = None\<rparr>],
                    n_inflight := Some i\<rparr>))))"

definition run_value :: "admin_net \<Rightarrow> run_promise \<Rightarrow> bool option" where
  "run_value n p = (case p of NoToken \<Rightarrow> Some False
     | OfRun i \<Rightarrow> if i < length (n_runs n) then rr_result (n_runs n ! i) else None)"

definition net_logout :: "admin_net \<Rightarrow> admin_net" where
  "net_logout n = n\<lparr>n_logouts := n_logouts n + 1\<rparr>"

definition net_settle_logout :: "admin_net \<Rightarrow> admin_net option" where
  "net_settle_logout n = (if n_logouts n = 0 then None
     else Some (n\<lparr>n_access := JNull, n_refresh := JNull, n_user := JNull,
                  n_session := persistRefreshToken JNull (n_session n), n_logouts := n_logouts n - 1\<rparr>))"

text \<open>The run continues when its call has settled: the body of the \<open>try\<close>, the \<open>catch\<close> (also for a
  reply on which the member access throws) and the \<open>finally\<close>.\<close>

definition run_done :: "nat \<Rightarrow> bool \<Rightarrow> admin_net \<Rightarrow> admin_net" where
  "run_done i b n = n\<lparr>n_runs := (n_runs n)[i := (n_runs n ! i)\<lparr>rr_result := Some b\<rparr>], n_inflight := None\<rparr>"

definition run_resume :: "nat \<Rightarrow> admin_net \<Rightarrow> admin_net option" where
  "run_resume i n =
     (if i < length (n_runs n) \<and> rr_result (n_runs n ! i) = None \<and> rr_call (n_runs n ! i) < length (n_calls n) then
        (case ca_phase (n_calls n ! rr_call (n_runs n ! i)) of
           COk data \<Rightarrow> Some (
             if nullish data then run_done i False (net_logout n)
             else run_done i True (n\<lparr>n_access := getprop data ''access_token'', n_refresh := getprop data ''refresh_token'',
                    n_session := persistRefreshToken (getprop data ''refresh_token'') (n_session n)\<rparr>))
         | CRaw r \<Rightarrow> Some (run_done i False (net_logout n))
         | CExpired e \<Rightarrow> Some (run_done i False (net_logout n))
         | _ \<Rightarrow> None)
      else None)"

definition set_acall :: "nat \<Rightarrow> acall \<Rightarrow> admin_net \<Rightarrow> admin_net" where
  "set_acall t c n = n\<lparr>n_calls := (n_calls n)[t := c]\<rparr>"

text \<open>The response interceptor up to its \<open>await\<close>, and after it.\<close>

definition net_response :: "nat \<Rightarrow> ax_result \<Rightarrow> admin_net \<Rightarrow> admin_net option" where
  "net_response t out n =
     (if t < length (n_calls n) \<and> ca_phase (n_calls n ! t) = CSending then
        Some (let c = n_calls n ! t in
          case out of
            AxOk data \<Rightarrow> set_acall t (c\<lparr>ca_phase := COk data\<rparr>) n
          | _ \<Rightarrow>
              if unauthorized out \<and> truthy (n_refresh n) \<and> \<not> ca_retry c then
                (case refreshAccessToken n of (p, n') \<Rightarrow>
                   set_acall t (c\<lparr>ca_retry := True, ca_phase := CAwait p\<rparr>) n')
              else set_acall t (c\<lparr>ca_phase := CRaw out\<rparr>) n)
      else None)"

definition net_resume :: "string \<Rightarrow> nat \<Rightarrow> admin_net \<Rightarrow> admin_net option" where
  "net_resume cur t n =
     (if t < length (n_calls n) then
        (case ca_phase (n_calls n ! t) of
           CAwait p \<Rightarrow> (case run_value n p of
               None \<Rightarrow> None
             | Some refreshed \<Rightarrow> Some (
                 if refreshed then set_acall t ((n_calls n ! t)\<lparr>ca_auth := Some (bearer (n_access n)), ca_phase := CSending\<rparr>) n
                 else
                  (let expired = admin_sessionExpiredError cur JUndef;
                       n = (net_logout n)\<lparr>n_error := getprop expired ''message'', n_route := ''login''\<rparr>
                   in set_acall t ((n_calls n ! t)\<lparr>ca_phase := CExpired expired\<rparr>) n)))
         | _ \<Rightarrow> None)
      else None)"

subsection \<open>Restore and guard\<close>

definition set_restore :: "nat \<Rightarrow> restore_run \<Rightarrow> admin_net \<Rightarrow> admin_net" where
  "set_restore r ph n = n\<lparr>n_restores := (n_restores n)[r := ph]\<rparr>"

definition admin_restoreSession :: "admin_net \<Rightarrow> admin_net" where
  "admin_restoreSession n =
     (let persisted = loadPersistedRefreshToken (n_session n) in
      if \<not> truthy persisted then n\<lparr>n_restores := n_restores n @ [RsDone (Some False)]\<rparr>
      else (case refreshAccessToken (n\<lparr>n_refresh := persisted\<rparr>) of (p, n') \<Rightarrow>
              n'\<lparr>n_restores := n_restores n' @ [RsRefresh p]\<rparr>))"

definition role_result :: "admin_net \<Rightarrow> restore_run" where
  "role_result n = RsDone (case includes_admin (n_user n) of Inr b \<Rightarrow> Some b | Inl e \<Rightarrow> None)"

text \<open>After the refresh: the profile is fetched when there is an access token.\<close>

definition restore_refreshed :: "nat \<Rightarrow> admin_net \<Rightarrow> admin_net option" where
  "restore_refreshed r n =
     (if r < length (n_restores n) then
        (case n_restores n ! r of
           RsRefresh p \<Rightarrow> (case run_value n p of
               None \<Rightarrow> None
             | Some ok \<Rightarrow> Some (
                 if \<not> ok then set_restore r (RsDone (Some False)) n
                 else if truthy (n_access n) then
                   set_restore r (RsUserInfo (length (n_calls n))) (add_call AppCall (Some (bearer (n_access n))) n)
                 else set_restore r (role_result n) n))
         | _ \<Rightarrow> None)
      else None)"

definition restore_profile :: "nat \<Rightarrow> admin_net \<Rightarrow> admin_net option" where
  "restore_profile r n =
     (if r < length (n_restores n) then
        (case n_restores n ! r of
           RsUserInfo t \<Rightarrow>
             (if t < length (n_calls n) then
                (case ca_phase (n_calls n ! t) of
                   COk data \<Rightarrow> (let n = n\<lparr>n_user := data\<rparr> in Some (set_restore r (role_result n) n))
                 | CRaw out \<Rightarrow> (let n = net_logout n in Some (set_restore r (role_result n) n))
                 | CExpired e \<Rightarrow> (let n = net_logout n in Some (set_restore r (role_result n) n))
                 | _ \<Rightarrow> None)
              else None)
         | _ \<Rightarrow> None)
      else None)"

definition ensureSessionRestored :: "admin_net \<Rightarrow> admin_net" where
  "ensureSessionRestored n = (case n_shared n of
     Some r \<Rightarrow> n
   | None \<Rightarrow> (admin_restoreSession n)\<lparr>n_shared := Some (length (n_restores n))\<rparr>)"

text \<open>The route table: name, path and the \<open>requiresAuth\<close> meta field, which the children of the layout
  inherit.  A location that matches no route has no meta field.\<close>

definition layout_child :: "string \<Rightarrow> string \<Rightarrow> string \<times> string \<times> bool option" where
  "layout_child name path = (name, ''/'' @ path, Some True)"

definition admin_routes :: "(string \<times> string \<times> bool option) list" where
  "admin_routes =
     [(''login'', ''/login'', Some False),
      layout_child ''dashboard'' [], layout_child ''applications'' ''applications'',
      layout_child ''application-detail'' ''applications/:id'', layout_child ''organizations'' ''organizations'',
      layout_child ''organization-detail'' ''organizations/:slug'', layout_child ''users'' ''users'',
      layout_child ''user-detail'' ''users/:id'', layout_child ''roles'' ''roles'', layout_child ''scopes'' ''scopes'',
      layout_child ''logs'' ''logs'', layout_child ''tokens'' ''tokens'', layout_child ''devices'' ''devices'',
      layout_child ''settings'' ''settings'', layout_child ''email-templates'' ''email-templates'']"

definition meta_requiresAuth :: "string \<Rightarrow> bool option" where
  "meta_requiresAuth name = (case find (\<lambda>r. fst r = name) admin_routes of Some r \<Rightarrow> snd (snd r) | None \<Rightarrow> None)"

definition admin_guard_enter :: "bool option \<Rightarrow> admin_net \<Rightarrow> admin_net" where
  "admin_guard_enter requiresAuth n =
     (if requiresAuth \<noteq> Some False \<and> \<not> truthy (n_access n)
      then (let n = ensureSessionRestored n in n\<lparr>n_navs := n_navs n @ [ANavWait]\<rparr>)
      else n\<lparr>n_navs := n_navs n @ [ANavDecided AProceed]\<rparr>)"

definition shared_result :: "admin_net \<Rightarrow> bool option" where
  "shared_result n = (case n_shared n of
     Some r \<Rightarrow> if r < length (n_restores n) then (case n_restores n ! r of RsDone b \<Rightarrow> b | _ \<Rightarrow> None) else None
   | None \<Rightarrow> None)"

definition admin_guard_resume :: "nat \<Rightarrow> admin_net \<Rightarrow> admin_net option" where
  "admin_guard_resume i n =
     (if i < length (n_navs n) \<and> n_navs n ! i = ANavWait then
        (case shared_result n of
           None \<Rightarrow> None
         | Some restored \<Rightarrow> Some (n\<lparr>n_navs := (n_navs n)[i := ANavDecided (if restored then AProceed else AToLogin)]\<rparr>))
      else None)"

text \<open>The tokens of a login, as \<open>applySession\<close> stores them.\<close>

definition net_apply :: "jsval \<Rightarrow> jsval \<Rightarrow> admin_net \<Rightarrow> admin_net" where
  "net_apply access refresh n =
     (let r = coalesce refresh JNull
      in n\<lparr>n_access := access, n_refresh := r, n_session := persistRefreshToken r (n_session n)\<rparr>)"

datatype admin_event =
    ACall "string option"
  | AResponse nat ax_result
  | AResume nat
  | ARun nat
  | ALogout
  | ALogoutSettled
  | AApply jsval jsval
  | ARestore
  | ARestoreRefreshed nat
  | ARestoreProfile nat
  | ANavigate "bool option"
  | AResumeNav nat

fun admin_step :: "string \<Rightarrow> admin_event \<Rightarrow> admin_net \<Rightarrow> admin_net option" where
  "admin_step cur (ACall auth) n = Some (add_call AppCall auth n)"
| "admin_step cur (AResponse t out) n = net_response t out n"
| "admin_step cur (AResume t) n = net_resume cur t n"
| "admin_step cur (ARun i) n = run_resume i n"
| "admin_step cur ALogout n = Some (net_logout n)"
| "admin_step cur ALogoutSettled n = net_settle_logout n"
| "admin_step cur (AApply a r) n = Some (net_apply a r n)"
| "admin_step cur ARestore n = Some (admin_restoreSession n)"
| "admin_step cur (ARestoreRefreshed r) n = restore_refreshed r n"
| "admin_step cur (ARestoreProfile r) n = restore_profile r n"
| "admin_step cur (ANavigate req) n = Some (admin_guard_enter req n)"
| "admin_step cur (AResumeNav i) n = admin_guard_resume i n"

subsection \<open>The invariant\<close>

text \<open>A run that has not returned is the one in flight.\<close>

definition runs_inv :: "admin_net \<Rightarrow> bool" where
  "runs_inv n \<longleftrightarrow>
     (\<forall>i < length (n_runs n). rr_result (n_runs n ! i) \<noteq> None \<or> n_inflight n = Some i) \<and>
     (\<forall>i. n_inflight n = Some i \<longrightarrow> i < length (n_runs n) \<and> rr_result (n_runs n ! i) = None)"

lemma runs_inv_cong: "n_runs n' = n_runs n \<Longrightarrow> n_inflight n' = n_inflight n \<Longrightarrow> runs_inv n' = runs_inv n"
  by (simp add: runs_inv_def)

lemma net_sel [simp]:
  "n_runs (net_logout n) = n_runs n" "n_inflight (net_logout n) = n_inflight n" "n_calls (net_logout n) = n_calls n"
  "n_runs (set_acall t c n) = n_runs n" "n_inflight (set_acall t c n) = n_inflight n"
  "n_runs (add_call k a n) = n_runs n" "n_inflight (add_call k a n) = n_inflight n"
  "n_runs (set_restore r ph n) = n_runs n" "n_inflight (set_restore r ph n) = n_inflight n"
  "n_calls (set_restore r ph n) = n_calls n"
  "n_runs (net_apply v w n) = n_runs n" "n_inflight (net_apply v w n) = n_inflight n" "n_calls (net_apply v w n) = n_calls n"
  by (simp_all add: net_logout_def set_acall_def add_call_def set_restore_def net_apply_def Let_def)

lemma refreshAccessToken_runs: "runs_inv n \<Longrightarrow> refreshAccessToken n = (p, n') \<Longrightarrow> runs_inv n'"
  by (auto simp: refreshAccessToken_def runs_inv_def Let_def nth_append less_Suc_eq split: option.splits if_splits)

lemma restoreSession_runs: "runs_inv n \<Longrightarrow> runs_inv (admin_restoreSession n)"
proof -
  assume inv: "runs_inv n"
  let ?n = "n\<lparr>n_refresh := loadPersistedRefreshToken (n_session n)\<rparr>"
  have "runs_inv ?n" using inv runs_inv_cong [of ?n n] by simp
  then have "runs_inv (snd (refreshAccessToken ?n))"
    using refreshAccessToken_runs [of ?n] by (cases "refreshAccessToken ?n") simp
  then show ?thesis using inv
    by (auto simp: admin_restoreSession_def Let_def runs_inv_def split: prod.split)
qed

lemma run_resume_cases:
  assumes "run_resume i n = Some n'"
  obtains b m where "n' = run_done i b m" "n_runs m = n_runs n" "n_calls m = n_calls n" "n_inflight m = n_inflight n"
    "i < length (n_runs n)" "rr_result (n_runs n ! i) = None"
  using assms by (auto simp: run_resume_def split: if_splits acall_phase.splits)

lemma run_resume_runs:
  assumes "runs_inv n" and "run_resume i n = Some n'" shows "runs_inv n'"
  using assms(2)
proof (cases rule: run_resume_cases)
  case (1 b m)
  then have "n_inflight n = Some i" using assms(1) by (auto simp: runs_inv_def)
  with 1 assms(1) show ?thesis by (auto simp: runs_inv_def run_done_def nth_list_update)
qed

lemma admin_step_runs:
  assumes inv: "runs_inv n" and step: "admin_step cur e n = Some n'"
  shows "runs_inv n'"
proof (cases e)
  case (AResponse t out)
  have "runs_inv (snd (refreshAccessToken n))"
    using refreshAccessToken_runs [OF inv] by (cases "refreshAccessToken n") simp
  with AResponse step inv runs_inv_cong [of n' n] runs_inv_cong [of n' "snd (refreshAccessToken n)"] show ?thesis
    by (auto simp: net_response_def Let_def split: if_splits ax_result.splits prod.splits)
next
  case (AResume t)
  with step inv runs_inv_cong [of n' n] show ?thesis
    by (auto simp: net_resume_def Let_def split: if_splits acall_phase.splits option.splits)
next
  case (ARun i)
  with step inv show ?thesis by (auto intro: run_resume_runs)
next
  case ALogoutSettled
  with step inv runs_inv_cong [of n' n] show ?thesis by (auto simp: net_settle_logout_def split: if_splits)
next
  case ARestore
  with step inv restoreSession_runs show ?thesis by auto
next
  case (ARestoreRefreshed r)
  with step inv runs_inv_cong [of n' n] show ?thesis
    by (auto simp: restore_refreshed_def split: if_splits restore_run.splits option.splits)
next
  case (ARestoreProfile r)
  with step inv runs_inv_cong [of n' n] show ?thesis
    by (auto simp: restore_profile_def Let_def split: if_splits restore_run.splits acall_phase.splits)
next
  case (ANavigate req)
  have "runs_inv (ensureSessionRestored n)"
    using restoreSession_runs [OF inv] inv by (auto simp: ensureSessionRestored_def runs_inv_def split: option.split)
  with ANavigate step inv runs_inv_cong [of n' n] runs_inv_cong [of n' "ensureSessionRestored n"] show ?thesis
    by (auto simp: admin_guard_enter_def Let_def split: if_splits)
next
  case (AResumeNav i)
  with step inv runs_inv_cong [of n' n] show ?thesis
    by (auto simp: admin_guard_resume_def split: if_splits option.splits)
qed (use step inv runs_inv_cong [of n' n] in auto)

interpretation admin_net: guarded_machine "admin_step cur" runs_inv
  by unfold_locales (rule admin_step_runs)

lemma load_admin_runs: "runs_inv (load_admin ws)"
  by (simp add: runs_inv_def load_admin_def)

subsection \<open>A refresh that waits for itself\<close>

text \<open>The refresh request of run \<open>i\<close> got a 401 and waits, in the interceptor, for run \<open>i\<close>.\<close>

definition self_wait :: "nat \<Rightarrow> nat \<Rightarrow> admin_net \<Rightarrow> bool" where
  "self_wait i c n \<longleftrightarrow> i < length (n_runs n) \<and> rr_result (n_runs n ! i) = None \<and> rr_call (n_runs n ! i) = c \<and>
     c < length (n_calls n) \<and> ca_phase (n_calls n ! c) = CAwait (OfRun i) \<and> n_inflight n = Some i"

lemma self_wait_cong:
  "n_runs n' = n_runs n \<Longrightarrow> n_calls n' = n_calls n \<Longrightarrow> n_inflight n' = n_inflight n \<Longrightarrow> self_wait i c n' = self_wait i c n"
  by (simp add: self_wait_def)

lemma self_wait_other: "self_wait i c n \<Longrightarrow> t \<noteq> c \<Longrightarrow> self_wait i c (set_acall t x n)"
  by (simp add: self_wait_def set_acall_def nth_list_update)

lemma self_wait_add: "self_wait i c n \<Longrightarrow> self_wait i c (add_call k a n)"
  by (simp add: self_wait_def add_call_def nth_append)

lemma self_wait_refresh: "self_wait i c n \<Longrightarrow> snd (refreshAccessToken n) = n"
  by (auto simp: refreshAccessToken_def self_wait_def)

lemma self_wait_restore:
  assumes "self_wait i c n" shows "self_wait i c (admin_restoreSession n)"
proof -
  let ?n = "n\<lparr>n_refresh := loadPersistedRefreshToken (n_session n)\<rparr>"
  have "self_wait i c ?n" using assms by (simp add: self_wait_def)
  with self_wait_refresh [OF this] assms show ?thesis
    by (auto simp: admin_restoreSession_def Let_def self_wait_def split: prod.split)
qed

lemma self_wait_step:
  assumes inv: "runs_inv n \<and> self_wait i c n" and step: "admin_step cur e n = Some n'"
  shows "runs_inv n' \<and> self_wait i c n'"
proof
  show "runs_inv n'" using assms by (blast intro: admin_step_runs)
  from inv have w: "self_wait i c n" by simp
  show "self_wait i c n'"
  proof (cases e)
    case (ACall auth)
    with step w show ?thesis by (auto intro: self_wait_add)
  next
    case (AResponse t out)
    then have "t \<noteq> c" using step w by (auto simp: net_response_def self_wait_def split: if_splits)
    with AResponse step w self_wait_refresh [OF w] show ?thesis
      by (auto simp: net_response_def Let_def split: if_splits ax_result.splits prod.splits intro!: self_wait_other)
  next
    case (AResume t)
    then have "t \<noteq> c" using step w by (auto simp: net_resume_def self_wait_def run_value_def split: if_splits)
    moreover have "self_wait i c ((net_logout n)\<lparr>n_error := x, n_route := y\<rparr>)" for x y
      using w by (simp add: self_wait_def)
    ultimately show ?thesis using AResume step w
      by (auto simp: net_resume_def Let_def split: if_splits acall_phase.splits option.splits intro!: self_wait_other)
  next
    case (ARun k)
    then have "k \<noteq> i" using step w by (auto simp: run_resume_def self_wait_def split: if_splits)
    moreover have "n_inflight n = Some k" if "k < length (n_runs n)" "rr_result (n_runs n ! k) = None"
      using that inv by (auto simp: runs_inv_def)
    ultimately show ?thesis using ARun step w by (auto simp: run_resume_def self_wait_def split: if_splits)
  next
    case ALogoutSettled
    with step w self_wait_cong [of n' n] show ?thesis by (auto simp: net_settle_logout_def split: if_splits)
  next
    case ARestore
    with step w self_wait_restore show ?thesis by auto
  next
    case (ARestoreRefreshed r)
    with step w self_wait_cong [of n' n] self_wait_add [OF w]
      self_wait_cong [of n' "add_call AppCall (Some (bearer (n_access n))) n"] show ?thesis
      by (auto simp: restore_refreshed_def split: if_splits restore_run.splits option.splits)
  next
    case (ARestoreProfile r)
    with step w self_wait_cong [of n' n] show ?thesis
      by (auto simp: restore_profile_def Let_def split: if_splits restore_run.splits acall_phase.splits)
  next
    case (ANavigate req)
    have "self_wait i c (ensureSessionRestored n)"
      using self_wait_restore [OF w] w by (auto simp: ensureSessionRestored_def self_wait_def split: option.split)
    with ANavigate step w self_wait_cong [of n' n] self_wait_cong [of n' "ensureSessionRestored n"] show ?thesis
      by (auto simp: admin_guard_enter_def Let_def split: if_splits)
  next
    case (AResumeNav k)
    with step w self_wait_cong [of n' n] show ?thesis
      by (auto simp: admin_guard_resume_def split: if_splits option.splits)
  qed (use step w self_wait_cong [of n' n] in auto)
qed

interpretation deadlock: guarded_machine "admin_step cur" "\<lambda>n. runs_inv n \<and> self_wait i c n"
  by unfold_locales (rule self_wait_step)

subsection \<open>Properties\<close>

definition persisted :: "string \<Rightarrow> web_storage" where
  "persisted r = Available [REFRESH_TOKEN_STORAGE_KEY \<mapsto> r]"

text \<open>Only the login view is open.\<close>

lemma meta_guarded: "name \<noteq> ''login'' \<Longrightarrow> meta_requiresAuth name \<noteq> Some False"
  by (simp add: meta_requiresAuth_def admin_routes_def layout_child_def)

lemmas net_defs = load_admin_def add_call_def attach_access_def refreshAccessToken_def run_value_def net_logout_def
  net_settle_logout_def run_done_def run_resume_def set_acall_def net_response_def set_restore_def admin_restoreSession_def
  role_result_def restore_refreshed_def restore_profile_def ensureSessionRestored_def admin_guard_enter_def
  shared_result_def admin_guard_resume_def persisted_def loadPersistedRefreshToken_def persistRefreshToken_def
  item_or_null_def getItem_def Let_def

text \<open>A page load with a persisted refresh token: the bootstrap and the guard both start a restoration, one
  refresh request serves both, and the first navigation to a protected page waits for it and
  then proceeds exactly when the profile has the admin role.\<close>

theorem admin_reload_restores_session:
  assumes "name \<noteq> ''login''" and "r \<noteq> []" and "a \<noteq> []"
  shows "\<exists>n. exec (admin_step cur)
      [ARestore, ANavigate (meta_requiresAuth name), AResponse 0 (AxOk (JObj [(''access_token'', JStr a), (''refresh_token'', JStr r')])), ARun 0,
       ARestoreRefreshed 0, ARestoreRefreshed 1, AResponse 1 (AxOk (JObj [(''roles'', JArr roles)])), ARestoreProfile 0,
       AResponse 2 (AxOk (JObj [(''roles'', JArr roles)])), ARestoreProfile 1, AResumeNav 0]
      (load_admin (persisted r)) = Some n \<and>
     length (n_runs n) = 1 \<and> rr_token (n_runs n ! 0) = JStr r \<and>
     n_navs n = [ANavDecided (if JStr ''admin'' \<in> set roles then AProceed else AToLogin)]"
  using assms(2,3) meta_guarded [OF assms(1)] by (simp add: net_defs includes_admin_def)

theorem admin_reload_restores_session_witness:
  "\<exists>n. exec (admin_step ''en'')
      [ARestore, ANavigate (meta_requiresAuth ''users''), AResponse 0 (AxOk (JObj [(''access_token'', JStr ''a''), (''refresh_token'', JStr ''q'')])), ARun 0,
       ARestoreRefreshed 0, ARestoreRefreshed 1, AResponse 1 (AxOk (JObj [(''roles'', JArr [JStr ''admin''])])), ARestoreProfile 0,
       AResponse 2 (AxOk (JObj [(''roles'', JArr [JStr ''admin''])])), ARestoreProfile 1, AResumeNav 0]
      (load_admin (persisted ''r'')) = Some n \<and> n_navs n = [ANavDecided AProceed]"
  using admin_reload_restores_session [of "''users''" "''r''" "''a''" "''en''" "''q''" "[JStr ''admin'']"] by force

text \<open>C28. A refresh request that is itself answered with 401 never settles: it waits in the interceptor for
  the refresh it belongs to.  Whatever happens afterwards the refresh stays in flight and no
  call or restoration that waits for it can continue.\<close>

theorem admin_refresh_401_deadlocks:
  assumes "exec (admin_step cur) es (load_admin ws) = Some n"
    and "n_inflight n = Some i" and "rr_call (n_runs n ! i) = c" and "truthy (n_refresh n)"
    and "c < length (n_calls n)" and "ca_phase (n_calls n ! c) = CSending" and "\<not> ca_retry (n_calls n ! c)"
    and "exec (admin_step cur) (AResponse c (AxHttp 401 d) # fs) n = Some n'"
  shows "n_inflight n' = Some i \<and> run_resume i n' = None \<and>
     (ca_phase (n_calls n' ! t) = CAwait (OfRun i) \<longrightarrow> net_resume cur t n' = None) \<and>
     (n_restores n' ! r = RsRefresh (OfRun i) \<longrightarrow> restore_refreshed r n' = None)"
proof -
  have inv: "runs_inv n" using admin_net.exec_invar [OF load_admin_runs assms(1)] .
  then have i: "i < length (n_runs n)" "rr_result (n_runs n ! i) = None" using assms(2) by (auto simp: runs_inv_def)
  have "net_response c (AxHttp 401 d) n =
      Some (set_acall c ((n_calls n ! c)\<lparr>ca_retry := True, ca_phase := CAwait (OfRun i)\<rparr>) n)" (is "_ = Some ?m")
    using assms by (simp add: net_response_def refreshAccessToken_def Let_def)
  moreover have "runs_inv ?m \<and> self_wait i c ?m"
    using inv runs_inv_cong [of ?m n] i assms(2-6) by (simp add: self_wait_def set_acall_def)
  ultimately have "runs_inv n' \<and> self_wait i c n'"
    using assms(8) deadlock.exec_invar [where i = i and c = c and s = ?m and es = fs and s' = n'] by simp
  then show ?thesis
    by (auto simp: self_wait_def run_resume_def net_resume_def restore_refreshed_def run_value_def)
qed

theorem admin_refresh_401_deadlocks_witness:
  "\<exists>n'. exec (admin_step ''en'') [ANavigate (Some True), AResponse 0 (AxHttp 401 JNull)] (load_admin (persisted ''r'')) = Some n' \<and>
     n_inflight n' = Some 0 \<and> run_resume 0 n' = None"
proof -
  have "\<exists>n. exec (admin_step ''en'') [ANavigate (Some True)] (load_admin (persisted ''r'')) = Some n \<and>
      n_inflight n = Some 0 \<and> rr_call (n_runs n ! 0) = 0 \<and> truthy (n_refresh n) \<and> 0 < length (n_calls n) \<and>
      ca_phase (n_calls n ! 0) = CSending \<and> \<not> ca_retry (n_calls n ! 0)"
    by (simp add: net_defs)
  then obtain n where n: "exec (admin_step ''en'') [ANavigate (Some True)] (load_admin (persisted ''r'')) = Some n"
      "n_inflight n = Some 0" "rr_call (n_runs n ! 0) = 0" "truthy (n_refresh n)" "0 < length (n_calls n)"
      "ca_phase (n_calls n ! 0) = CSending" "\<not> ca_retry (n_calls n ! 0)" by blast
  obtain n' where n': "exec (admin_step ''en'') (AResponse 0 (AxHttp 401 JNull) # []) n = Some n'"
    using n(5,6) by (auto simp: net_response_def Let_def)
  have "exec (admin_step ''en'') ([ANavigate (Some True)] @ [AResponse 0 (AxHttp 401 JNull)]) (load_admin (persisted ''r'')) = Some n'"
    by (simp only: exec_append n(1) n' option.case)
  with admin_refresh_401_deadlocks [OF n n'] show ?thesis by auto
qed

text \<open>C29. The guard decides by the cached restoration: once a restoration succeeded, a protected page is
  entered after a logout as well, with no access token.\<close>

theorem admin_guard_stale_after_logout:
  assumes "name \<noteq> ''login''" and "shared_result n = Some True"
  shows "\<exists>n'. exec (admin_step cur) [ALogout, ALogoutSettled, ANavigate (meta_requiresAuth name), AResumeNav (length (n_navs n))] n = Some n' \<and>
     n_access n' = JNull \<and> n_navs n' = n_navs n @ [ANavDecided AProceed]"
proof -
  from assms(2) obtain r where r: "n_shared n = Some r" "r < length (n_restores n)" "n_restores n ! r = RsDone (Some True)"
    by (auto simp: shared_result_def split: option.splits if_splits restore_run.splits)
  then show ?thesis using meta_guarded [OF assms(1)]
    by (simp add: net_logout_def net_settle_logout_def admin_guard_enter_def ensureSessionRestored_def admin_guard_resume_def
        shared_result_def Let_def)
qed

theorem admin_guard_stale_after_logout_witness:
  "\<exists>n n'. exec (admin_step ''en'')
      [ANavigate (Some True), AResponse 0 (AxOk (JObj [(''access_token'', JStr ''a'')])), ARun 0, ARestoreRefreshed 0,
       AResponse 1 (AxOk (JObj [(''roles'', JArr [JStr ''admin''])])), ARestoreProfile 0] (load_admin (persisted ''r'')) = Some n \<and>
     exec (admin_step ''en'') [ALogout, ALogoutSettled, ANavigate (meta_requiresAuth ''users''), AResumeNav (length (n_navs n))] n = Some n' \<and>
     n_access n' = JNull \<and> n_navs n' = n_navs n @ [ANavDecided AProceed]"
proof -
  have "\<exists>n. exec (admin_step ''en'')
      [ANavigate (Some True), AResponse 0 (AxOk (JObj [(''access_token'', JStr ''a'')])), ARun 0, ARestoreRefreshed 0,
       AResponse 1 (AxOk (JObj [(''roles'', JArr [JStr ''admin''])])), ARestoreProfile 0] (load_admin (persisted ''r'')) = Some n \<and>
      shared_result n = Some True"
    by (simp add: net_defs includes_admin_def)
  with admin_guard_stale_after_logout [of "''users''" _ "''en''"] show ?thesis by blast
qed

end
