(* ===== verification/SingleFlight.thy ===== *)
theory SingleFlight
  imports AdminNet
begin

section \<open>Single-flight refresh\<close>

text \<open>
  What both portals promise about refreshing a session, and that their event models keep the promise.  The
  specification knows only the refresh tokens presented so far and which of the requests
  presenting them are open: a request begins when none is open, and only an open request ends.
\<close>

record flight =
  fl_tokens :: "jsval list"
  fl_open :: "nat list"

abbreviation idle :: flight where
  "idle \<equiv> \<lparr>fl_tokens = [], fl_open = []\<rparr>"

inductive flight_step :: "flight \<Rightarrow> flight \<Rightarrow> bool" where
  begin_refresh: "fl_open f = [] \<Longrightarrow> flight_step f \<lparr>fl_tokens = fl_tokens f @ [t], fl_open = [length (fl_tokens f)]\<rparr>"
| end_refresh: "fl_open f = [i] \<Longrightarrow> flight_step f \<lparr>fl_tokens = fl_tokens f, fl_open = []\<rparr>"

lemma flight_open: "flight_step\<^sup>*\<^sup>* f g \<Longrightarrow> length (fl_open f) \<le> 1 \<Longrightarrow> length (fl_open g) \<le> 1"
  by (induction rule: rtranclp_induct) (auto elim: flight_step.cases)

text \<open>The requests that have not ended, given that one of them at most is in flight.\<close>

lemma open_requests:
  assumes "\<forall>i < n. P i \<or> fl = Some i" and "\<forall>i. fl = Some i \<longrightarrow> i < n \<and> \<not> P i"
  shows "filter (\<lambda>i. \<not> P i) [0..<n] = (case fl of None \<Rightarrow> [] | Some i \<Rightarrow> [i])"
proof (cases fl)
  case None
  with assms(1) show ?thesis by (auto simp: filter_empty_conv)
next
  case (Some i)
  with assms have i: "i < n" "\<not> P i" and only: "j < n \<Longrightarrow> j \<noteq> i \<Longrightarrow> P j" for j by auto
  have "[0..<n] = [0..<i] @ i # [Suc i..<n]"
    using i(1) upt_add_eq_append [of 0 i "n - i"] by (simp add: upt_conv_Cons)
  moreover have "filter (\<lambda>i. \<not> P i) [0..<i] = []" "filter (\<lambda>i. \<not> P i) [Suc i..<n] = []"
    using only i(1) by (auto simp: filter_empty_conv)
  ultimately show ?thesis using i(2) Some by simp
qed

text \<open>How a step may change the presented tokens and the shared promise.\<close>

definition flight_move :: "jsval list \<Rightarrow> nat option \<Rightarrow> jsval list \<Rightarrow> nat option \<Rightarrow> bool" where
  "flight_move ts fl ts' fl' \<longleftrightarrow>
     ts' = ts \<and> fl' = fl \<or>
     fl = None \<and> fl' = Some (length ts) \<and> (\<exists>t. ts' = ts @ [t]) \<or>
     fl \<noteq> None \<and> fl' = None \<and> ts' = ts"

definition flight_of :: "jsval list \<Rightarrow> nat option \<Rightarrow> flight" where
  "flight_of ts fl = \<lparr>fl_tokens = ts, fl_open = (case fl of None \<Rightarrow> [] | Some i \<Rightarrow> [i])\<rparr>"

lemma flight_move_step:
  assumes "flight_move ts fl ts' fl'"
  shows "flight_of ts' fl' = flight_of ts fl \<or> flight_step (flight_of ts fl) (flight_of ts' fl')"
  using assms begin_refresh [of "flight_of ts fl"] end_refresh [of "flight_of ts fl"]
  by (auto simp: flight_move_def flight_of_def)

subsection \<open>The user portal\<close>

definition http_flight :: "http_state \<Rightarrow> flight" where
  "http_flight s = \<lparr>fl_tokens = map rp_token (posts s),
     fl_open = filter (\<lambda>i. \<not> finished (posts s ! i)) [0..<length (posts s)]\<rparr>"

lemma http_flight_of: "flight_inv s \<Longrightarrow> http_flight s = flight_of (map rp_token (posts s)) (refreshInFlight s)"
  unfolding http_flight_def flight_of_def flight_inv_def
  by (simp add: open_requests)

abbreviation http_move :: "http_state \<Rightarrow> http_state \<Rightarrow> bool" where
  "http_move s s' \<equiv> flight_move (map rp_token (posts s)) (refreshInFlight s) (map rp_token (posts s')) (refreshInFlight s')"

lemma same_move: "posts s' = posts s \<Longrightarrow> refreshInFlight s' = refreshInFlight s \<Longrightarrow> http_move s s'"
  by (simp add: flight_move_def)

lemma refreshTokens_move: "http_move s (snd (refreshTokens s))"
  by (auto simp: refreshTokens_def flight_move_def split: option.split)

lemma tokens_set_post [simp]: "map rp_token (posts (set_post i ph s)) = map rp_token (posts s)"
  by (cases "i < length (posts s)") (simp_all add: set_post_def map_update list_update_same_conv list_update_beyond)

lemma reply_move: "on_refresh_reply i out s = Some s' \<Longrightarrow> http_move s s'"
  by (auto simp: on_refresh_reply_def flight_move_def split: if_splits ax_result.splits)

lemma finally_move:
  assumes "flight_inv s" and "on_refresh_finally i s = Some s'"
  shows "http_move s s'"
proof -
  from assms(2) obtain b where i: "i < length (posts s)" "rp_phase (posts s ! i) = PApplied b"
    and s': "s' = set_post i (PFinished b) (s\<lparr>refreshInFlight := None\<rparr>)"
    by (auto simp: on_refresh_finally_def split: if_splits post_phase.splits)
  then have "refreshInFlight s = Some i" using assms(1) by (auto simp: flight_inv_def finished_def)
  then show ?thesis unfolding s' by (simp add: flight_move_def)
qed

lemma response_move: "on_response t out s = Some s' \<Longrightarrow> http_move s s'"
  using refreshTokens_move [of s] same_move [of s' s]
  by (auto simp: on_response_def Let_def split: if_splits ax_result.splits prod.splits)

lemma resume_move: "resume_call cur t ok s = Some s' \<Longrightarrow> http_move s s'"
  using same_move [of s' s] by (auto simp: resume_call_def split: if_splits call_phase.splits option.splits)

lemma restore_move: "http_move s (snd (tryRestoreSession s))"
  using refreshTokens_move [of s] same_move [of s s] by (auto simp: tryRestoreSession_def split: prod.split)

lemma http_step_move:
  assumes "http_inv s" and "http_step cur e s = Some s'"
  shows "http_move s s'"
  using assms same_move [of s' s]
  by (cases e) (auto simp: http_inv_def http_request_def intro: reply_move finally_move response_move resume_move restore_move)

interpretation http_sim: simulation "http_step cur" http_inv http_flight flight_step
proof
  fix s e s'
  assume inv: "http_inv s" and step: "http_step cur e s = Some s'"
  have "flight_inv s" "flight_inv s'" using inv http_step_inv [OF inv step] by (simp_all add: http_inv_def)
  with flight_move_step [OF http_step_move [OF inv step]]
  show "http_flight s' = http_flight s \<or> flight_step (http_flight s) (http_flight s')" by (simp add: http_flight_of)
qed

subsection \<open>The admin console\<close>

definition admin_flight :: "admin_net \<Rightarrow> flight" where
  "admin_flight n = \<lparr>fl_tokens = map rr_token (n_runs n),
     fl_open = filter (\<lambda>i. \<not> rr_result (n_runs n ! i) \<noteq> None) [0..<length (n_runs n)]\<rparr>"

lemma admin_flight_of: "runs_inv n \<Longrightarrow> admin_flight n = flight_of (map rr_token (n_runs n)) (n_inflight n)"
  unfolding admin_flight_def flight_of_def runs_inv_def
  by (subst open_requests [where fl = "n_inflight n"]) auto

abbreviation admin_move :: "admin_net \<Rightarrow> admin_net \<Rightarrow> bool" where
  "admin_move n n' \<equiv> flight_move (map rr_token (n_runs n)) (n_inflight n) (map rr_token (n_runs n')) (n_inflight n')"

lemma same_admin_move: "n_runs n' = n_runs n \<Longrightarrow> n_inflight n' = n_inflight n \<Longrightarrow> admin_move n n'"
  by (simp add: flight_move_def)

lemma refreshAccessToken_move: "refreshAccessToken n = (p, n') \<Longrightarrow> admin_move n n'"
  by (auto simp: refreshAccessToken_def flight_move_def Let_def split: option.splits if_splits)

lemma admin_restoreSession_move: "admin_move n (admin_restoreSession n)"
  using refreshAccessToken_move [of "n\<lparr>n_refresh := loadPersistedRefreshToken (n_session n)\<rparr>"] same_admin_move [of n n]
  by (auto simp: admin_restoreSession_def Let_def split: prod.split)

lemma run_resume_move:
  assumes "runs_inv n" and "run_resume i n = Some n'" shows "admin_move n n'"
  using assms(2)
proof (cases rule: run_resume_cases)
  case (1 b m)
  then have "n_inflight n = Some i" using assms(1) by (auto simp: runs_inv_def)
  moreover have "map rr_token (n_runs n') = map rr_token (n_runs n)"
    using 1 by (simp add: run_done_def map_update list_update_same_conv)
  ultimately show ?thesis using 1 by (simp add: flight_move_def run_done_def)
qed

lemma admin_step_move:
  assumes inv: "runs_inv n" and step: "admin_step cur e n = Some n'"
  shows "admin_move n n'"
proof (cases e)
  case (AResponse t out)
  with step same_admin_move [of n' n] refreshAccessToken_move [of n] show ?thesis
    by (auto simp: net_response_def Let_def split: if_splits ax_result.splits prod.splits)
next
  case (AResume t)
  with step same_admin_move [of n' n] show ?thesis
    by (auto simp: net_resume_def Let_def split: if_splits acall_phase.splits option.splits)
next
  case (ARestoreRefreshed r)
  with step same_admin_move [of n' n] show ?thesis
    by (auto simp: restore_refreshed_def split: if_splits restore_run.splits option.splits)
next
  case (ARestoreProfile r)
  with step same_admin_move [of n' n] show ?thesis
    by (auto simp: restore_profile_def Let_def split: if_splits restore_run.splits acall_phase.splits)
next
  case (ANavigate req)
  with step same_admin_move [of n' n] admin_restoreSession_move [of n] show ?thesis
    by (auto simp: admin_guard_enter_def ensureSessionRestored_def Let_def split: if_splits option.splits)
next
  case (AResumeNav k)
  with step same_admin_move [of n' n] show ?thesis
    by (auto simp: admin_guard_resume_def split: if_splits option.splits)
qed (use inv step same_admin_move [of n' n] admin_restoreSession_move [of n] in
      \<open>auto simp: net_settle_logout_def intro: run_resume_move split: if_splits\<close>)

interpretation admin_sim: simulation "admin_step cur" runs_inv admin_flight flight_step
proof
  fix n e n'
  assume inv: "runs_inv n" and step: "admin_step cur e n = Some n'"
  with flight_move_step [OF admin_step_move [OF inv step]] admin_step_runs [OF inv step]
  show "admin_flight n' = admin_flight n \<or> flight_step (admin_flight n) (admin_flight n')" by (simp add: admin_flight_of)
qed

subsection \<open>Refinement\<close>

text \<open>C19. The refresh of both portals implements the single-flight specification: over every sequence of requests,
  replies, resumptions, logouts, reloads and navigations, the refresh requests sent are a run
  of the specification, in which no request begins while another is open.\<close>

theorem refresh_refines_single_flight:
  "(exec (http_step cur) es (load_http m rt env) = Some s \<longrightarrow>
      flight_step\<^sup>*\<^sup>* idle (http_flight s) \<and> length (fl_open (http_flight s)) \<le> 1) \<and>
   (exec (admin_step cur) as (load_admin ws) = Some n \<longrightarrow>
      flight_step\<^sup>*\<^sup>* idle (admin_flight n) \<and> length (fl_open (admin_flight n)) \<le> 1)"
proof -
  have "flight_step\<^sup>*\<^sup>* idle (http_flight s)" if "exec (http_step cur) es (load_http m rt env) = Some s"
    using http_sim.exec_sim [OF http_init that] by (simp add: http_flight_def load_http_def)
  moreover have "flight_step\<^sup>*\<^sup>* idle (admin_flight n)" if "exec (admin_step cur) as (load_admin ws) = Some n"
    using admin_sim.exec_sim [OF load_admin_runs that] by (simp add: admin_flight_def load_admin_def)
  ultimately show ?thesis using flight_open [of idle] by simp
qed

theorem refresh_refines_single_flight_witness:
  "\<exists>n. exec (admin_step ''en'') [ARestore, ANavigate (Some True)] (load_admin (persisted ''r'')) = Some n \<and>
     flight_step\<^sup>*\<^sup>* idle (admin_flight n) \<and> fl_open (admin_flight n) = [0]"
proof -
  have "\<exists>n. exec (admin_step ''en'') [ARestore, ANavigate (Some True)] (load_admin (persisted ''r'')) = Some n \<and>
      fl_open (admin_flight n) = [0]"
    by (simp add: net_defs admin_flight_def)
  with refresh_refines_single_flight show ?thesis by blast
qed

end
