(* ===== verification/RetryBound.thy ===== *)
theory RetryBound
  imports SingleFlight
begin

section \<open>The retry of the interceptors ends\<close>

text \<open>
  A rank for the calls of each portal: how many continuations a call can still have.  The response interceptor
  sends a request again by calling the HTTP client from inside itself; the rank shows that
  this recursion ends after the second attempt, in every interleaving.
\<close>

subsection \<open>Every call settles\<close>

text \<open>How many continuations a call of the user portal can still have.\<close>

definition call_rank :: "nat \<Rightarrow> http_state \<Rightarrow> nat" where
  "call_rank t s =
     (if t < length (calls s) then
        (case hc_phase (calls s ! t) of
           Sending \<Rightarrow> if hc_retry (calls s ! t) then 1 else 3
         | AwaitRefresh p \<Rightarrow> 2
         | _ \<Rightarrow> 0)
      else 3)"

fun continues :: "nat \<Rightarrow> http_event \<Rightarrow> bool" where
  "continues t (Response u out) = (u = t)"
| "continues t (Resume u ok) = (u = t)"
| "continues t _ = False"

lemma call_rank_cong: "calls s' = calls s \<Longrightarrow> call_rank t s' = call_rank t s"
  by (simp add: call_rank_def)

lemma call_rank_set:
  "u < length (calls s) \<Longrightarrow> call_rank t (set_call u c s) = (if u = t then
     (case hc_phase c of Sending \<Rightarrow> if hc_retry c then 1 else 3 | AwaitRefresh p \<Rightarrow> 2 | _ \<Rightarrow> 0) else call_rank t s)"
  by (simp add: call_rank_def set_call_def nth_list_update)

lemma rank_response:
  assumes "on_response u out s = Some s'"
  shows "if u = t then call_rank t s' < call_rank t s else call_rank t s' = call_rank t s"
proof -
  from assms have u: "u < length (calls s)" "hc_phase (calls s ! u) = Sending" by (auto simp: on_response_def split: if_splits)
  have fr: "calls (snd (refreshTokens s)) = calls s" using refreshTokens_frame [of s] by (cases "refreshTokens s") simp
  obtain c s1 where c: "s' = set_call u c s1" "calls s1 = calls s"
    "(\<exists>d. hc_phase c = CallOk d) \<or> (\<exists>o'. hc_phase c = CallRaw o') \<or> (\<exists>p. hc_phase c = AwaitRefresh p) \<and> \<not> hc_retry (calls s ! u)"
    using assms u fr
    by (auto simp: on_response_def Let_def wants_refresh_def split: if_splits ax_result.splits prod.splits)
  have "call_rank t s' = (if u = t then
      (case hc_phase c of Sending \<Rightarrow> if hc_retry c then 1 else 3 | AwaitRefresh p \<Rightarrow> 2 | _ \<Rightarrow> 0) else call_rank t s)"
    using c(1,2) u(1) call_rank_set [of u s1 t c] call_rank_cong [of s1 s t] by simp
  moreover have "call_rank u s = (if hc_retry (calls s ! u) then 1 else 3)" using u by (simp add: call_rank_def)
  ultimately show ?thesis using c(3) by auto
qed

lemma rank_resume:
  assumes "calls_inv s" and "resume_call cur u ok s = Some s'"
  shows "if u = t then call_rank t s' < call_rank t s else call_rank t s' = call_rank t s"
proof -
  from assms(2) obtain p b where u: "u < length (calls s)" "hc_phase (calls s ! u) = AwaitRefresh p" "promised s p = Some b"
    by (auto simp: resume_call_def split: if_splits call_phase.splits option.splits)
  then have retry: "hc_retry (calls s ! u)" using assms(1) by (auto simp: calls_inv_def call_ok_def)
  show ?thesis
  proof (cases b)
    case True
    with assms(2) u have "s' = dispatch u (set_call u ((calls s ! u)\<lparr>hc_auth := Some (bearer (accessToken s))\<rparr>) s)"
      by (simp add: resume_call_def)
    then show ?thesis using u retry
      by (auto simp: call_rank_def dispatch_def set_call_def attach_token_def nth_list_update Let_def)
  next
    case False
    with assms(2) u have "s' = redirectToLogin ok
        (set_call u ((calls s ! u)\<lparr>hc_phase := CallExpired (sessionExpiredError cur JUndef)\<rparr>) s)"
      by (simp add: resume_call_def)
    then show ?thesis using u by (auto simp: call_rank_def redirectToLogin_def set_call_def nth_list_update)
  qed
qed

lemma rank_request: "call_rank t (http_request url auth s) \<le> call_rank t s"
  by (auto simp: call_rank_def http_request_def dispatch_def set_call_def attach_token_def nth_append nth_list_update Let_def
      split: call_phase.split)

interpretation http_ranked: ranked_machine "http_step cur" http_inv "call_rank t" "continues t"
proof
  fix s e s'
  assume inv: "http_inv s" and step: "http_step cur e s = Some s'"
  have fr: "calls (snd (tryRestoreSession s)) = calls s"
    using refreshTokens_frame [of s] by (cases "refreshTokens s") (simp add: tryRestoreSession_def)
  show "if continues t e then call_rank t s' < call_rank t s else call_rank t s' \<le> call_rank t s"
  proof (cases e)
    case (Response u out)
    with step rank_response [of u out s s' t] show ?thesis by (auto split: if_splits)
  next
    case (Resume u ok)
    with step inv rank_resume [of s cur u ok s' t] show ?thesis by (auto simp: http_inv_def split: if_splits)
  next
    case (RefreshReply i out)
    with step refresh_events_calls(1) [of i out s s'] call_rank_cong [of s' s t] show ?thesis by simp
  next
    case (RefreshFinally i)
    with step refresh_events_calls(2) [of i s s'] call_rank_cong [of s' s t] show ?thesis by simp
  qed (use step rank_request [of t] fr call_rank_cong [of s' s t] in auto)
qed

text \<open>The same for a call of the admin console.\<close>

definition acall_rank :: "nat \<Rightarrow> admin_net \<Rightarrow> nat" where
  "acall_rank t n =
     (if t < length (n_calls n) then
        (case ca_phase (n_calls n ! t) of
           CSending \<Rightarrow> if ca_retry (n_calls n ! t) then 1 else 3
         | CAwait p \<Rightarrow> 2
         | _ \<Rightarrow> 0)
      else 3)"

fun acontinues :: "nat \<Rightarrow> admin_event \<Rightarrow> bool" where
  "acontinues t (AResponse u out) = (u = t)"
| "acontinues t (AResume u) = (u = t)"
| "acontinues t _ = False"

definition awaiting_retried :: "admin_net \<Rightarrow> bool" where
  "awaiting_retried n \<longleftrightarrow> (\<forall>t < length (n_calls n). \<forall>p. ca_phase (n_calls n ! t) = CAwait p \<longrightarrow> ca_retry (n_calls n ! t))"

text \<open>What the events do to the calls: an event that is no continuation appends fresh calls at most.\<close>

definition fresh_calls :: "acall list \<Rightarrow> bool" where
  "fresh_calls cs \<longleftrightarrow> (\<forall>c \<in> set cs. ca_phase c = CSending \<and> \<not> ca_retry c)"

definition appends :: "admin_net \<Rightarrow> admin_net \<Rightarrow> bool" where
  "appends n n' \<longleftrightarrow> (\<exists>cs. n_calls n' = n_calls n @ cs \<and> fresh_calls cs)"

lemma appends_same: "n_calls n' = n_calls n \<Longrightarrow> appends n n'"
  by (simp add: appends_def fresh_calls_def)

lemma appends_add: "appends n (add_call k a n)"
  by (simp add: appends_def add_call_def fresh_calls_def)

lemma appends_cong: "n_calls m' = n_calls n' \<Longrightarrow> appends n n' \<Longrightarrow> appends n m'"
  by (simp add: appends_def)

lemma refreshAccessToken_appends: "refreshAccessToken n = (p, n') \<Longrightarrow> appends n n'"
  by (auto simp: refreshAccessToken_def Let_def appends_def add_call_def fresh_calls_def split: if_splits option.splits)

lemma restore_appends: "appends n (admin_restoreSession n)"
proof -
  let ?n = "n\<lparr>n_refresh := loadPersistedRefreshToken (n_session n)\<rparr>"
  have "appends n (snd (refreshAccessToken ?n))"
    using refreshAccessToken_appends [of ?n] by (cases "refreshAccessToken ?n") (simp add: appends_def)
  then show ?thesis by (auto simp: admin_restoreSession_def Let_def appends_def fresh_calls_def split: prod.split)
qed

lemma appends_nth:
  assumes "appends n n'"
  shows "t < length (n_calls n) \<Longrightarrow> n_calls n' ! t = n_calls n ! t"
    and "\<not> t < length (n_calls n) \<Longrightarrow> t < length (n_calls n') \<Longrightarrow> ca_phase (n_calls n' ! t) = CSending \<and> \<not> ca_retry (n_calls n' ! t)"
    and "length (n_calls n) \<le> length (n_calls n')"
proof -
  from assms obtain cs where cs: "n_calls n' = n_calls n @ cs" "fresh_calls cs" by (auto simp: appends_def)
  then show "t < length (n_calls n) \<Longrightarrow> n_calls n' ! t = n_calls n ! t" "length (n_calls n) \<le> length (n_calls n')"
    by (simp_all add: nth_append)
  show "ca_phase (n_calls n' ! t) = CSending \<and> \<not> ca_retry (n_calls n' ! t)"
    if "\<not> t < length (n_calls n)" "t < length (n_calls n')"
    using that cs nth_mem [of "t - length (n_calls n)" cs] by (auto simp: nth_append fresh_calls_def)
qed

lemma appends_rank:
  assumes "appends n n'" shows "acall_rank t n' \<le> acall_rank t n"
  using appends_nth(1,2) [OF assms, of t] appends_nth(3) [OF assms] by (cases "t < length (n_calls n)") (auto simp: acall_rank_def)

lemma appends_awaiting:
  assumes "appends n n'" and "awaiting_retried n" shows "awaiting_retried n'"
  unfolding awaiting_retried_def
proof (intro allI impI)
  fix t p
  assume "t < length (n_calls n')" "ca_phase (n_calls n' ! t) = CAwait p"
  then show "ca_retry (n_calls n' ! t)"
    using appends_nth(1,2) [OF assms(1), of t] assms(2) by (cases "t < length (n_calls n)") (auto simp: awaiting_retried_def)
qed

text \<open>A continuation of call \<open>u\<close> replaces that call.\<close>

lemma rank_replaced:
  assumes "appends n m" and "u < length (n_calls n)" and "n' = set_acall u c m"
  shows "u \<noteq> t \<Longrightarrow> acall_rank t n' \<le> acall_rank t n"
    and "acall_rank u n' = (case ca_phase c of CSending \<Rightarrow> if ca_retry c then 1 else 3 | CAwait p \<Rightarrow> 2 | _ \<Rightarrow> 0)"
    and "awaiting_retried n \<Longrightarrow> (\<forall>p. ca_phase c = CAwait p \<longrightarrow> ca_retry c) \<Longrightarrow> awaiting_retried n'"
proof -
  have u: "u < length (n_calls m)" using appends_nth(3) [OF assms(1)] assms(2) by simp
  have "acall_rank t n' = acall_rank t m" if "u \<noteq> t" using that assms(3) by (simp add: acall_rank_def set_acall_def)
  then show "u \<noteq> t \<Longrightarrow> acall_rank t n' \<le> acall_rank t n" using appends_rank [OF assms(1), of t] by simp
  show "acall_rank u n' = (case ca_phase c of CSending \<Rightarrow> if ca_retry c then 1 else 3 | CAwait p \<Rightarrow> 2 | _ \<Rightarrow> 0)"
    using assms(3) u by (simp add: acall_rank_def set_acall_def)
  show "awaiting_retried n'" if "awaiting_retried n" "\<forall>p. ca_phase c = CAwait p \<longrightarrow> ca_retry c"
    using that appends_awaiting [OF assms(1)] assms(3) u
    by (auto simp: awaiting_retried_def set_acall_def nth_list_update)
qed

lemma response_replaces:
  assumes "net_response u out n = Some n'"
  obtains m c where "appends n m" "n' = set_acall u c m" "u < length (n_calls n)" "ca_phase (n_calls n ! u) = CSending"
    "(\<exists>d. ca_phase c = COk d) \<or> (\<exists>r. ca_phase c = CRaw r) \<or> (\<exists>p. ca_phase c = CAwait p) \<and> ca_retry c \<and> \<not> ca_retry (n_calls n ! u)"
proof -
  have u: "u < length (n_calls n)" "ca_phase (n_calls n ! u) = CSending"
    using assms by (auto simp: net_response_def split: if_splits)
  from assms have "(\<exists>d. n' = set_acall u ((n_calls n ! u)\<lparr>ca_phase := COk d\<rparr>) n) \<or>
      (\<exists>r. n' = set_acall u ((n_calls n ! u)\<lparr>ca_phase := CRaw r\<rparr>) n) \<or>
      (\<exists>p m. refreshAccessToken n = (p, m) \<and> \<not> ca_retry (n_calls n ! u) \<and>
        n' = set_acall u ((n_calls n ! u)\<lparr>ca_retry := True, ca_phase := CAwait p\<rparr>) m)"
    by (auto simp: net_response_def Let_def split: if_splits ax_result.splits prod.splits)
  then consider (settled) d where "n' = set_acall u ((n_calls n ! u)\<lparr>ca_phase := COk d\<rparr>) n"
    | (raw) r where "n' = set_acall u ((n_calls n ! u)\<lparr>ca_phase := CRaw r\<rparr>) n"
    | (wait) p m where "refreshAccessToken n = (p, m)" "\<not> ca_retry (n_calls n ! u)"
        "n' = set_acall u ((n_calls n ! u)\<lparr>ca_retry := True, ca_phase := CAwait p\<rparr>) m" by blast
  then show ?thesis
  proof cases
    case (settled d)
    with u show ?thesis by (intro that [of n "(n_calls n ! u)\<lparr>ca_phase := COk d\<rparr>"]) (simp_all add: appends_same)
  next
    case (raw r)
    with u show ?thesis by (intro that [of n "(n_calls n ! u)\<lparr>ca_phase := CRaw r\<rparr>"]) (simp_all add: appends_same)
  next
    case (wait p m)
    with u refreshAccessToken_appends [OF wait(1)] show ?thesis
      by (intro that [of m "(n_calls n ! u)\<lparr>ca_retry := True, ca_phase := CAwait p\<rparr>"]) simp_all
  qed
qed

lemma resume_replaces:
  assumes "net_resume cur u n = Some n'"
  obtains m c p where "appends n m" "n' = set_acall u c m" "u < length (n_calls n)" "ca_phase (n_calls n ! u) = CAwait p"
    "ca_phase c = CSending \<and> ca_retry c = ca_retry (n_calls n ! u) \<or> (\<exists>e. ca_phase c = CExpired e)"
proof -
  from assms obtain p b where u: "u < length (n_calls n)" "ca_phase (n_calls n ! u) = CAwait p" "run_value n p = Some b"
    by (auto simp: net_resume_def split: if_splits acall_phase.splits option.splits)
  show ?thesis
  proof (cases b)
    case True
    with assms u have "n' = set_acall u ((n_calls n ! u)\<lparr>ca_auth := Some (bearer (n_access n)), ca_phase := CSending\<rparr>) n"
      by (simp add: net_resume_def)
    with u show ?thesis
      by (intro that [of n "(n_calls n ! u)\<lparr>ca_auth := Some (bearer (n_access n)), ca_phase := CSending\<rparr>" p])
         (simp_all add: appends_same)
  next
    case False
    let ?m = "(net_logout n)\<lparr>n_error := getprop (admin_sessionExpiredError cur JUndef) ''message'', n_route := ''login''\<rparr>"
    from False assms u have "n' = set_acall u ((n_calls n ! u)\<lparr>ca_phase := CExpired (admin_sessionExpiredError cur JUndef)\<rparr>) ?m"
      by (simp add: net_resume_def Let_def)
    with u show ?thesis
      by (intro that [of ?m "(n_calls n ! u)\<lparr>ca_phase := CExpired (admin_sessionExpiredError cur JUndef)\<rparr>" p])
         (simp_all add: appends_same)
  qed
qed

lemma other_event_appends:
  assumes "admin_step cur e n = Some n'" and "\<And>t. \<not> acontinues t e"
  shows "appends n n'"
proof (cases e)
  case (ARestoreRefreshed r)
  then show ?thesis using assms(1) appends_same [of n' n] appends_cong [OF _ appends_add]
    by (auto simp: restore_refreshed_def split: if_splits restore_run.splits option.splits)
next
  case (ANavigate req)
  then show ?thesis using assms(1) appends_same [of n' n] appends_cong [OF _ restore_appends, of n' n]
    by (auto simp: admin_guard_enter_def ensureSessionRestored_def Let_def split: if_splits option.splits)
next
  case (ARun i)
  then show ?thesis using assms(1) appends_same [of n' n]
    by (auto elim!: run_resume_cases simp: run_done_def)
qed (use assms appends_same [of n' n] appends_add restore_appends in
      \<open>auto simp: net_settle_logout_def restore_profile_def admin_guard_resume_def Let_def
         split: if_splits restore_run.splits acall_phase.splits option.splits\<close>)

lemma admin_step_awaiting:
  assumes "awaiting_retried n" and "admin_step cur e n = Some n'" shows "awaiting_retried n'"
proof (cases "\<exists>t. acontinues t e")
  case False
  then show ?thesis using assms by (blast intro: appends_awaiting other_event_appends)
next
  case True
  then show ?thesis
  proof (cases e)
    case (AResponse u out)
    with assms(2) have "net_response u out n = Some n'" by simp
    then show ?thesis
    proof (cases rule: response_replaces)
      case (1 m c)
      then show ?thesis using rank_replaced(3) [OF 1(1,3,2)] assms(1) by auto
    qed
  next
    case (AResume u)
    with assms(2) have "net_resume cur u n = Some n'" by simp
    then show ?thesis
    proof (cases rule: resume_replaces)
      case (1 m c p)
      then show ?thesis using rank_replaced(3) [OF 1(1,3,2)] assms(1) by auto
    qed
  qed auto
qed

interpretation admin_ranked: ranked_machine "admin_step cur" awaiting_retried "acall_rank t" "acontinues t"
proof
  show "awaiting_retried n'" if "awaiting_retried n" "admin_step cur e n = Some n'" for n e n'
    using that by (rule admin_step_awaiting)
next
  fix n e n'
  assume inv: "awaiting_retried n" and step: "admin_step cur e n = Some n'"
  show "if acontinues t e then acall_rank t n' < acall_rank t n else acall_rank t n' \<le> acall_rank t n"
  proof (cases "\<exists>t. acontinues t e")
    case False
    then show ?thesis using step by (auto intro: appends_rank other_event_appends)
  next
    case True
    then show ?thesis
    proof (cases e)
      case (AResponse u out)
      with step have "net_response u out n = Some n'" by simp
      then show ?thesis
      proof (cases rule: response_replaces)
        case (1 m c)
        then have "acall_rank u n = (if ca_retry (n_calls n ! u) then 1 else 3)" by (simp add: acall_rank_def)
        with 1 show ?thesis using rank_replaced(1,2) [OF 1(1,3,2)] AResponse by auto
      qed
    next
      case (AResume u)
      with step have "net_resume cur u n = Some n'" by simp
      then show ?thesis
      proof (cases rule: resume_replaces)
        case (1 m c p)
        then have "ca_retry (n_calls n ! u)" "acall_rank u n = 2" using inv by (auto simp: awaiting_retried_def acall_rank_def)
        then show ?thesis using 1 rank_replaced(1,2) [OF 1(1,3,2)] AResume by auto
      qed
    qed auto
  qed
qed

text \<open>C33. The retry of the interceptors ends: in every run of either portal a call has at most three continuations,
  its response, its resumption after the refresh and the response of the second attempt, so
  the interceptor that sends the request again never runs in a circle.\<close>

theorem interceptor_retry_ends:
  "(exec (http_step cur) es (load_http m rt env) = Some s \<longrightarrow> length (filter (continues t) es) + call_rank t s \<le> 3) \<and>
   (exec (admin_step cur) as (load_admin ws) = Some n \<longrightarrow> length (filter (acontinues t) as) + acall_rank t n \<le> 3)"
proof -
  have "length (filter (continues t) es) + call_rank t s \<le> 3" if "exec (http_step cur) es (load_http m rt env) = Some s"
    using http_ranked.exec_rank [OF http_init that, of t] by (simp add: call_rank_def load_http_def)
  moreover have "length (filter (acontinues t) as) + acall_rank t n \<le> 3" if "exec (admin_step cur) as (load_admin ws) = Some n"
    using admin_ranked.exec_rank [OF _ that, of t] by (simp add: acall_rank_def load_admin_def awaiting_retried_def)
  ultimately show ?thesis by blast
qed

theorem interceptor_retry_ends_witness:
  "\<exists>s. exec (http_step ''en'') [Request (Some ''/api/me'') None, Response 0 (AxHttp 401 JNull)]
       (load_http [''refresh_token'' \<mapsto> ''r0''] ''home'' None) = Some s \<and> 1 + call_rank 0 s \<le> 3"
proof -
  let ?es = "[Request (Some ''/api/me'') None, Response 0 (AxHttp 401 JNull)]"
  let ?s0 = "load_http [''refresh_token'' \<mapsto> ''r0''] ''home'' None"
  have "\<exists>s. exec (http_step ''en'') ?es ?s0 = Some s"
    by (simp add: http_request_def load_http_def dispatch_def set_call_def attach_token_def on_response_def Let_def)
  then obtain s where s: "exec (http_step ''en'') ?es ?s0 = Some s" ..
  from interceptor_retry_ends [of "''en''" ?es] s have "length (filter (continues 0) ?es) + call_rank 0 s \<le> 3" by blast
  with s show ?thesis by auto
qed

end
