(* ===== verification/NextDemo.thy ===== *)
theory NextDemo
  imports SdkAuth Json
begin

section \<open>The Next.js example\<close>

text \<open>
  The route handlers of \<open>examples/nextjs-demo\<close>: \<open>lib/fulla.ts\<close>, the login, callback, refresh, logout and \<open>me\<close>
  routes and the redirects of the profile page.  They compose the SDK: the login route mints
  state, nonce and verifier and keeps them in a cookie, the callback route completes the flow
  with that cookie.  A reply is a redirect or a JSON body with the cookies it sets and
  deletes; a path given to \<open>new URL(path, origin)\<close> is a page of the application itself.
\<close>

subsection \<open>lib/fulla.ts\<close>

type_synonym environment = "string \<Rightarrow> string option"

definition env_or :: "environment \<Rightarrow> string \<Rightarrow> string \<Rightarrow> string" where
  "env_or env k d = (case env k of Some v \<Rightarrow> v | None \<Rightarrow> d)"

definition next_BASE_URL :: "environment \<Rightarrow> string" where
  "next_BASE_URL env = env_or env ''FULLA_BASE_URL'' ''http://localhost:5555''"

definition next_CLIENT_ID :: "environment \<Rightarrow> string" where
  "next_CLIENT_ID env = env_or env ''FULLA_CLIENT_ID'' ''fulla-portal''"

definition next_REDIRECT_URI :: "environment \<Rightarrow> string" where
  "next_REDIRECT_URI env = env_or env ''FULLA_REDIRECT_URI'' ''http://localhost:8080/callback''"

definition POST_LOGOUT_URI :: "environment \<Rightarrow> string" where
  "POST_LOGOUT_URI env = env_or env ''FULLA_POST_LOGOUT_URI'' (next_REDIRECT_URI env)"

definition SCOPES :: "string list" where
  "SCOPES = [''openid'', ''profile'', ''email'']"

definition next_flow :: "environment \<Rightarrow> flow" where
  "next_flow env = AuthorizationCodeFlow (next_BASE_URL env) (next_CLIENT_ID env)
     \<lparr>op_clientSecret = None, op_redirectUri = Some (next_REDIRECT_URI env), op_scopes = Some SCOPES, op_timeoutMs = None\<rparr>"

definition SESSION_COOKIE :: string where
  "SESSION_COOKIE = ''fulla_session''"

definition TX_COOKIE :: string where
  "TX_COOKIE = ''fulla_tx''"

definition encodeCookie :: "jsval \<Rightarrow> string" where
  "encodeCookie v = toBase64Url (utf8 (stringify v))"

text \<open>\<open>Buffer.from(raw, 'base64url')\<close> reads both alphabets up to the padding, skips other characters and drops
  a single left-over character; it never throws.\<close>

definition b64_char :: "char \<Rightarrow> bool" where
  "b64_char c \<longleftrightarrow> (let n = (of_char c :: nat) in
     48 \<le> n \<and> n \<le> 57 \<or> 65 \<le> n \<and> n \<le> 90 \<or> 97 \<le> n \<and> n \<le> 122 \<or> n \<in> {43, 45, 47, 95})"

definition buffer_decode :: "string \<Rightarrow> bytes" where
  "buffer_decode raw =
     (let t = filter b64_char (takeWhile (\<lambda>c. c \<noteq> CHR ''='') raw);
          t = (if length t mod 4 = 1 then butlast t else t)
      in case fromBase64Url t of Some bs \<Rightarrow> bs | None \<Rightarrow> [])"

definition decodeCookie :: "string option \<Rightarrow> jsval" where
  "decodeCookie raw = (case raw of
     None \<Rightarrow> JUndef
   | Some r \<Rightarrow> if r = [] then JUndef
       else (case json_parse (utf8_decode (map unat (buffer_decode r))) of Some v \<Rightarrow> v | None \<Rightarrow> JUndef))"

definition next_fetchUserInfo :: "environment \<Rightarrow> 'w fetch \<Rightarrow> jsval \<Rightarrow> 'w \<Rightarrow> (js_throw + jsval) \<times> 'w" where
  "next_fetchUserInfo env fetchImpl accessToken w =
     (case fetchImpl \<lparr>rq_url = next_BASE_URL env @ ''/oauth2/userinfo'', rq_method = ''GET'',
             rq_headers = [(''authorization'', bearer accessToken)], rq_body = [], rq_timeout = 0\<rparr> w of
        (Rejected c, w') \<Rightarrow> (Inl (wrap_cause c), w')
      | (Resolved r, w') \<Rightarrow>
          if \<not> (200 \<le> status r \<and> status r \<le> 299) then (Inr JUndef, w')
          else (case json r of Some v \<Rightarrow> (Inr v, w') | None \<Rightarrow> (Inl (PlainError ''invalid json''), w')))"

subsection \<open>Requests and replies\<close>

record next_request =
  nr_cookies :: "string \<Rightarrow> string option"
  nr_href :: string

datatype reply_target = Page string | Absolute string

datatype next_reply = Redirect reply_target | JsonReply jsval int

datatype cookie_op = SetCookie string string nat | DeleteCookie string

record next_response =
  nx_reply :: next_reply
  nx_cookies :: "cookie_op list"

definition search_params :: "string \<Rightarrow> params" where
  "search_params href = parse_params (dropWhile (\<lambda>c. c \<noteq> CHR ''?'') (takeWhile (\<lambda>c. c \<noteq> CHR ''#'') href))"

subsection \<open>The routes\<close>

definition next_login :: "environment \<Rightarrow> web_crypto \<Rightarrow> random \<Rightarrow> random \<Rightarrow> random \<Rightarrow> js_throw + next_response" where
  "next_login env crypto rnd1 rnd2 rnd3 =
     bind_res (PkcePair_generate crypto rnd1) (\<lambda>pkce.
     bind_res (randomToken crypto rnd2 32) (\<lambda>st.
     bind_res (randomToken crypto rnd3 32) (\<lambda>nonce.
     bind_res (buildAuthorizeUrl (next_flow env)
       \<lparr>au_state = Some st, au_nonce = Some nonce, au_pkce = Some pkce, au_scopes = None, au_redirectUri = None\<rparr>) (\<lambda>url.
       Inr \<lparr>nx_reply = Redirect (Absolute url),
            nx_cookies = [SetCookie TX_COOKIE (encodeCookie (JObj [(''state'', JStr st), (''codeVerifier'', JStr (verifier pkce))])) 600]\<rparr>))))"

text \<open>\<open>Math.floor(Date.now() / 1000) + (expires_in ?? 3600)\<close>: a value that is no number is appended as text.\<close>

definition expires_at :: "int \<Rightarrow> jsval \<Rightarrow> jsval" where
  "expires_at now e = (let s = now div 1000 in case (if nullish e then JNum 3600 else e) of
     JNum n \<Rightarrow> JNum (s + n) | JBool b \<Rightarrow> JNum (s + of_bool b) | v \<Rightarrow> JStr (int_digits s @ js_String v))"

definition failure_reply :: "string \<Rightarrow> next_response" where
  "failure_reply message = \<lparr>nx_reply = Redirect (Page (''/?error='' @ encodeURIComponent message)), nx_cookies = [DeleteCookie TX_COOKIE]\<rparr>"

definition session_cookie :: "int \<Rightarrow> jsval \<Rightarrow> jsval \<Rightarrow> jsval \<Rightarrow> cookie_op" where
  "session_cookie now tokens refresh_token id_token = SetCookie SESSION_COOKIE (encodeCookie (JObj
     [(''access_token'', getprop tokens ''access_token''), (''refresh_token'', refresh_token), (''id_token'', id_token),
      (''expires_at'', expires_at now (getprop tokens ''expires_in''))])) 86400"

text \<open>The transaction comes from a cookie, so its members need not be the strings that \<open>completeAuthorizationFlow\<close>
  declares: an absent state equals an absent parameter, an absent verifier is not sent,
  \<open>null\<close> has no length, and any other value fails the verifier test (the text of an object or a list has
  characters outside the alphabet).\<close>

definition tx_complete :: "flow \<Rightarrow> 'w fetch \<Rightarrow> string \<Rightarrow> jsval \<Rightarrow> jsval \<Rightarrow> 'w \<Rightarrow> (js_throw + jsval) \<times> 'w" where
  "tx_complete fl fetchImpl callbackUrl st v w =
     (let parsed = parseAuthorizationResponse callbackUrl in
      case ar_error parsed of
        Some e \<Rightarrow> (Inl (FullaAuthError e (ar_errorDescription parsed) None), w)
      | None \<Rightarrow>
          if (case ar_state parsed of Some s \<Rightarrow> JStr s | None \<Rightarrow> JUndef) \<noteq> st
          then (Inl (FullaAuthError ''state_mismatch''
                 (Some ''callback state does not match the authorize request (possible CSRF)'') None), w)
          else (case ar_code parsed of
                  None \<Rightarrow> (Inl (FullaAuthError ''invalid_response''
                            (Some ''callback carries neither code nor error'') None), w)
                | Some code \<Rightarrow> (case v of
                    JUndef \<Rightarrow> exchangeCode fl fetchImpl code None None w
                  | JStr s \<Rightarrow> exchangeCode fl fetchImpl code (Some s) None w
                  | JNull \<Rightarrow> (Inl TypeErr, w)
                  | _ \<Rightarrow> exchangeCode fl fetchImpl code (Some []) None w)))"

definition next_callback :: "environment \<Rightarrow> 'w fetch \<Rightarrow> int \<Rightarrow> next_request \<Rightarrow> 'w \<Rightarrow> next_response \<times> 'w" where
  "next_callback env fetchImpl now req w =
     (let tx = decodeCookie (nr_cookies req TX_COOKIE) in
      if \<not> truthy tx then
       (if \<not> params_has (search_params (nr_href req)) ''code'' then (\<lparr>nx_reply = Redirect (Page ''/''), nx_cookies = []\<rparr>, w)
        else (failure_reply ''missing_transaction'', w))
      else
       (case tx_complete (next_flow env) fetchImpl (nr_href req) (getprop tx ''state'') (getprop tx ''codeVerifier'') w of
          (Inl (FullaAuthError e d s), w') \<Rightarrow> (failure_reply e, w')
        | (Inl e, w') \<Rightarrow> (failure_reply ''callback_failed'', w')
        | (Inr tokens, w') \<Rightarrow>
            (\<lparr>nx_reply = Redirect (Page ''/profile''),
              nx_cookies = [DeleteCookie TX_COOKIE,
                session_cookie now tokens (getprop tokens ''refresh_token'') (getprop tokens ''id_token'')]\<rparr>, w')))"

definition ALLOWED_NEXT :: jsval where
  "ALLOWED_NEXT = JObj [(''/profile'', JStr ''/profile''), (''/'', JStr ''/'')]"

definition refresh_next :: "next_request \<Rightarrow> jsval" where
  "refresh_next req =
     (let v = getprop ALLOWED_NEXT (case params_get (search_params (nr_href req)) ''next'' of Some x \<Rightarrow> x | None \<Rightarrow> [])
      in if nullish v then JStr ''/profile'' else v)"

definition drop_session_reply :: "string \<Rightarrow> next_response" where
  "drop_session_reply reason = \<lparr>nx_reply = Redirect (Page (''/?error='' @ reason)), nx_cookies = [DeleteCookie SESSION_COOKIE]\<rparr>"

definition next_refresh :: "environment \<Rightarrow> 'w fetch \<Rightarrow> int \<Rightarrow> next_request \<Rightarrow> 'w \<Rightarrow> next_response \<times> 'w" where
  "next_refresh env fetchImpl now req w =
     (let session = decodeCookie (nr_cookies req SESSION_COOKIE); old = getprop session ''refresh_token'' in
      if \<not> truthy old then (drop_session_reply ''session_expired'', w)
      else (case refresh (next_flow env) fetchImpl (js_String old) None w of
          (Inl e, w') \<Rightarrow> (drop_session_reply ''refresh_failed'', w')
        | (Inr tokens, w') \<Rightarrow>
            (let rt = getprop tokens ''refresh_token''; it = getprop tokens ''id_token'' in
             (\<lparr>nx_reply = Redirect (Page (js_String (refresh_next req))),
               nx_cookies = [session_cookie now tokens (if nullish rt then old else rt)
                 (if nullish it then getprop session ''id_token'' else it)]\<rparr>, w'))))"

definition next_logout :: "environment \<Rightarrow> next_request \<Rightarrow> next_response" where
  "next_logout env req =
     (let hint = getprop (decodeCookie (nr_cookies req SESSION_COOKIE)) ''id_token'' in
      \<lparr>nx_reply = Redirect (if truthy hint
         then Absolute (buildEndSessionUrl (next_flow env) (js_String hint) (Some (POST_LOGOUT_URI env)) (Some ''demo-logout''))
         else Page ''/''),
       nx_cookies = [DeleteCookie SESSION_COOKIE]\<rparr>)"

text \<open>A spread list or string contributes its indices, which precede the other keys.\<close>

definition indexed :: "jsval list \<Rightarrow> (string \<times> jsval) list" where
  "indexed xs = zip (map (\<lambda>i. int_digits (int i)) [0..<length xs]) xs"

definition next_me :: "environment \<Rightarrow> 'w fetch \<Rightarrow> next_request \<Rightarrow> 'w \<Rightarrow> (js_throw + next_response) \<times> 'w" where
  "next_me env fetchImpl req w =
     (let session = decodeCookie (nr_cookies req SESSION_COOKIE) in
      if \<not> truthy session then (Inr \<lparr>nx_reply = JsonReply (JObj [(''error'', JStr ''unauthenticated'')]) 401, nx_cookies = []\<rparr>, w)
      else (case next_fetchUserInfo env fetchImpl (getprop session ''access_token'') w of
          (Inl e, w') \<Rightarrow> (Inl e, w')
        | (Inr info, w') \<Rightarrow>
            (Inr (if \<not> truthy info then \<lparr>nx_reply = JsonReply (JObj [(''error'', JStr ''token_expired'')]) 401, nx_cookies = []\<rparr>
                  else \<lparr>nx_reply = JsonReply (JObj (case info of
                      JObj ps \<Rightarrow> (''source'', case map_of ps ''source'' of Some v \<Rightarrow> v | None \<Rightarrow> JStr ''protected-api'') #
                        filter (\<lambda>p. fst p \<noteq> ''source'') ps
                    | JArr xs \<Rightarrow> indexed xs @ [(''source'', JStr ''protected-api'')]
                    | JStr t \<Rightarrow> indexed (map (\<lambda>c. JStr [c]) t) @ [(''source'', JStr ''protected-api'')]
                    | _ \<Rightarrow> [(''source'', JStr ''protected-api'')])) 200, nx_cookies = []\<rparr>), w')))"

text \<open>The redirects of the profile page; \<open>None\<close> is the rendered page.\<close>

definition profile_redirect :: "environment \<Rightarrow> 'w fetch \<Rightarrow> next_request \<Rightarrow> 'w \<Rightarrow> (js_throw + string option) \<times> 'w" where
  "profile_redirect env fetchImpl req w =
     (let session = decodeCookie (nr_cookies req SESSION_COOKIE) in
      if \<not> truthy session then (Inr (Some ''/''), w)
      else (case next_fetchUserInfo env fetchImpl (getprop session ''access_token'') w of
          (Inl e, w') \<Rightarrow> (Inl e, w')
        | (Inr info, w') \<Rightarrow>
            (Inr (if truthy info then None
                  else Some (if truthy (getprop session ''refresh_token'') then ''/api/refresh?next=%2Fprofile''
                             else ''/?error=session_expired'')), w')))"

subsection \<open>Cookies\<close>

lemma toBase64Url_chars: "c \<in> set (toBase64Url bs) \<Longrightarrow> b64_char c \<and> c \<noteq> CHR ''=''"
proof -
  assume "c \<in> set (toBase64Url bs)"
  then obtain n where n: "n < 64" "c = url_char (b64char n)"
    using codes_sextets [of "fromCharCode bs"] by (auto simp: toBase64Url_raw)
  have "b64_char (b64char n) \<and> b64char n \<noteq> CHR ''=''"
    using of_char_b64char [OF n(1)] n(1) by (auto simp: b64_char_def Let_def split: if_splits)
  then show ?thesis using n(2) by (auto simp: url_char_def b64_char_def Let_def)
qed

lemma buffer_decode_encoded [simp]: "buffer_decode (toBase64Url bs) = bs"
proof -
  have tw: "takeWhile (\<lambda>c. c \<noteq> CHR ''='') (toBase64Url bs) = toBase64Url bs"
    using toBase64Url_chars by (intro takeWhile_eq_all_conv [THEN iffD2]) blast
  have fl: "filter b64_char (toBase64Url bs) = toBase64Url bs"
    using toBase64Url_chars by (intro filter_True) blast
  have "length (toBase64Url bs) mod 4 \<noteq> 1"
    unfolding toBase64Url_length by presburger
  then show ?thesis unfolding buffer_decode_def Let_def tw fl by (simp add: fromBase64Url_toBase64Url)
qed

lemma encodeCookie_nonempty: "encodeCookie v \<noteq> []"
proof -
  obtain c r where "stringify v = c # r" using stringify_first by blast
  then have "0 < length (utf8 (stringify v))" by (simp add: utf8_def Let_def)
  then have "0 < length (encodeCookie v)" unfolding encodeCookie_def toBase64Url_length by linarith
  then show ?thesis by auto
qed

lemma cookie_roundtrip: "json_ok v \<Longrightarrow> decodeCookie (Some (encodeCookie v)) = v"
  using encodeCookie_nonempty [of v] json.dec_enc [of v]
  by (simp add: decodeCookie_def) (simp add: encodeCookie_def unat_utf8)

interpretation cookie: codec encodeCookie "\<lambda>r. Some (decodeCookie (Some r))" json_ok
  by unfold_locales (simp add: cookie_roundtrip)

subsection \<open>Properties\<close>

lemma next_flow_simps:
  "clientSecret (next_flow env) = None" "redirectUri (next_flow env) = Some (next_REDIRECT_URI env)"
  by (simp_all add: next_flow_def AuthorizationCodeFlow_def)

lemma next_login_Inr:
  assumes "next_login env (Some sha256) rnd1 rnd2 rnd3 = Inr resp"
  shows "\<exists>q. nx_reply resp = Redirect (Absolute (authorizeUrl (next_flow env) @ ''?'' @ q)) \<and>
     nx_cookies resp = [SetCookie TX_COOKIE (encodeCookie (JObj [(''state'', JStr (toBase64Url (rnd2 32))),
        (''codeVerifier'', JStr (toBase64Url (rnd1 48)))])) 600] \<and>
     next_REDIRECT_URI env \<noteq> [] \<and> params_get (parse_params q) ''redirect_uri'' = Some (next_REDIRECT_URI env) \<and>
     (toBase64Url (rnd2 32) \<noteq> [] \<longrightarrow> params_get (parse_params q) ''state'' = Some (toBase64Url (rnd2 32))) \<and>
     params_get (parse_params q) ''code_challenge'' = Some (toBase64Url (sha256 (utf8 (toBase64Url (rnd1 48)))))"
  using assms
  by (auto simp: next_login_def PkcePair_generate_def createPkceChallenge_def randomToken_def assertWebCrypto_def Let_def
      buildAuthorizeUrl_def next_flow_simps authorize_params_get split: if_splits
      intro!: exI [of _ "params_toString _"])

lemma tx_complete_strings:
  "tx_complete fl f url (JStr st) (JStr v) w =
     completeAuthorizationFlow fl f url \<lparr>ex_state = st, ex_codeVerifier = v, ex_redirectUri = None\<rparr> w"
  by (simp add: tx_complete_def completeAuthorizationFlow_def Let_def split: option.split)

lemma transaction_of_login:
  assumes "nr_cookies req TX_COOKIE = Some (encodeCookie (JObj [(''state'', JStr st), (''codeVerifier'', JStr v)]))"
  shows "decodeCookie (nr_cookies req TX_COOKIE) = JObj [(''state'', JStr st), (''codeVerifier'', JStr v)]"
  unfolding assms by (rule cookie_roundtrip) simp

text \<open>C30. The example's login and callback routes fit together: when the server sends the browser back with the
  state of the authorize URL and a code, the callback route, given the cookie the login route
  set, makes exactly one token request, and that presents the code, the same redirect URI and
  the verifier whose challenge the authorize URL carried.\<close>

theorem next_callback_completes_login:
  assumes "next_login env (Some sha256) rnd1 rnd2 rnd3 = Inr resp" and "\<And>n. length (rnd1 n) = n" and "\<And>n. length (rnd2 n) = n"
    and "nx_reply resp = Redirect (Absolute url)" and "nx_cookies resp = [SetCookie TX_COOKIE raw age]"
    and "nr_cookies req TX_COOKIE = Some raw" and "CHR ''?'' \<notin> set page" and "code \<noteq> []"
    and "nr_href req = page @ ''?'' @ params_toString [(''code'', code), (''state'', toBase64Url (rnd2 32))]"
  shows "\<exists>q r v. url = authorizeUrl (next_flow env) @ ''?'' @ q \<and>
     params_get (parse_params q) ''state'' = Some (toBase64Url (rnd2 32)) \<and>
     fst (snd (next_callback env (logged f) now req (log, w))) = log @ [r] \<and> rq_url r = tokenUrl (next_flow env) \<and>
     params_get (parse_params (rq_body r)) ''code'' = Some code \<and>
     params_get (parse_params (rq_body r)) ''redirect_uri'' = params_get (parse_params q) ''redirect_uri'' \<and>
     params_get (parse_params (rq_body r)) ''code_verifier'' = Some v \<and> isPkceVerifier v \<and>
     params_get (parse_params q) ''code_challenge'' = Some (toBase64Url (sha256 (utf8 v)))"
proof -
  let ?v = "toBase64Url (rnd1 48)" and ?st = "toBase64Url (rnd2 32)" and ?fl = "next_flow env"
  have st: "?st \<noteq> []"
  proof -
    have "0 < length ?st" unfolding toBase64Url_length assms(3) by simp
    then show ?thesis by auto
  qed
  from next_login_Inr [OF assms(1)] assms(4,5) st obtain q where q:
      "url = authorizeUrl ?fl @ ''?'' @ q" "raw = encodeCookie (JObj [(''state'', JStr ?st), (''codeVerifier'', JStr ?v)])"
      "next_REDIRECT_URI env \<noteq> []" "params_get (parse_params q) ''redirect_uri'' = Some (next_REDIRECT_URI env)"
      "params_get (parse_params q) ''state'' = Some ?st"
      "params_get (parse_params q) ''code_challenge'' = Some (toBase64Url (sha256 (utf8 ?v)))" by auto
  have tx: "decodeCookie (nr_cookies req TX_COOKIE) = JObj [(''state'', JStr ?st), (''codeVerifier'', JStr ?v)]" 
    by (rule transaction_of_login) (simp add: assms(6) q(2))
  have pv: "isPkceVerifier ?v" by (rule verifier_of_length) (simp_all add: assms(2))
  have ps: "parseAuthorizationResponse (nr_href req) =
      \<lparr>ar_code = Some code, ar_state = Some ?st, ar_error = None, ar_errorDescription = None\<rparr>"
    using query_of_url [OF assms(7), of "[]" "[(''code'', code), (''state'', ?st)]"] assms(8,9) st
    by (simp add: pick_def params_get_def)
  let ?form = "[(''grant_type'', ''authorization_code''), (''code'', code), (''redirect_uri'', next_REDIRECT_URI env),
     (''code_verifier'', ?v), (''client_id'', clientId ?fl)]"
  have "completeAuthorizationFlow ?fl (logged f) (nr_href req) \<lparr>ex_state = ?st, ex_codeVerifier = ?v, ex_redirectUri = None\<rparr> (log, w) =
      postForm (logged f) (tokenUrl ?fl) ?form [] (timeoutMs ?fl) (log, w)"
    using ps pv q(3) by (simp add: completeAuthorizationFlow_def exchangeCode_accepts next_flow_simps client_auth_cases)
  then have "fst (snd (next_callback env (logged f) now req (log, w))) = log @ [form_request (tokenUrl ?fl) ?form [] (timeoutMs ?fl)]"
    using postForm_logged [of f "tokenUrl ?fl" ?form "[]" "timeoutMs ?fl" log w] tx
    by (auto simp: next_callback_def tx_complete_strings split: prod.splits sum.splits js_throw.splits)
  then show ?thesis using q pv
    by (intro exI [of _ q] exI [of _ "form_request (tokenUrl ?fl) ?form [] (timeoutMs ?fl)"] exI [of _ ?v])
       (simp add: params_get_def, simp add: form_request_def)
qed

theorem next_callback_completes_login_witness:
  "\<exists>resp url raw q r v. next_login (\<lambda>_. None) (Some (\<lambda>_. [])) (\<lambda>n. replicate n 0) (\<lambda>n. replicate n 1) (\<lambda>n. replicate n 2) = Inr resp \<and>
     nx_reply resp = Redirect (Absolute url) \<and> url = authorizeUrl (next_flow (\<lambda>_. None)) @ ''?'' @ q \<and>
     fst (snd (next_callback (\<lambda>_. None) (logged (\<lambda>_ w. (Rejected (CauseError ''down''), w))) 0
       \<lparr>nr_cookies = [TX_COOKIE \<mapsto> raw],
        nr_href = ''http://localhost:8080/callback'' @ ''?'' @
          params_toString [(''code'', ''c''), (''state'', toBase64Url (replicate 32 1))]\<rparr> ([], ()))) = [r] \<and>
     params_get (parse_params (rq_body r)) ''code_verifier'' = Some v"
proof -
  let ?env = "\<lambda>_. None" and ?r1 = "\<lambda>n. replicate n 0" and ?r2 = "\<lambda>n. replicate n 1" and ?r3 = "\<lambda>n. replicate n 2"
  have "\<exists>resp. next_login ?env (Some (\<lambda>_. [])) ?r1 ?r2 ?r3 = Inr resp"
    by (simp add: next_login_def PkcePair_generate_def createPkceChallenge_def randomToken_def assertWebCrypto_def Let_def
        buildAuthorizeUrl_def next_flow_simps next_REDIRECT_URI_def env_or_def)
  then obtain resp where resp: "next_login ?env (Some (\<lambda>_. [])) ?r1 ?r2 ?r3 = Inr resp" ..
  from next_login_Inr [OF resp] obtain url raw age where
    r: "nx_reply resp = Redirect (Absolute url)" "nx_cookies resp = [SetCookie TX_COOKIE raw age]" by blast
  let ?req = "\<lparr>nr_cookies = [TX_COOKIE \<mapsto> raw], nr_href = ''http://localhost:8080/callback'' @ ''?'' @
      params_toString [(''code'', ''c''), (''state'', toBase64Url (?r2 32))]\<rparr>"
  have "\<exists>q r v. url = authorizeUrl (next_flow ?env) @ ''?'' @ q \<and>
      params_get (parse_params q) ''state'' = Some (toBase64Url (?r2 32)) \<and>
      fst (snd (next_callback ?env (logged (\<lambda>_ w. (Rejected (CauseError ''down''), w))) 0 ?req ([], ()))) = [] @ [r] \<and>
      rq_url r = tokenUrl (next_flow ?env) \<and>
      params_get (parse_params (rq_body r)) ''code'' = Some ''c'' \<and>
      params_get (parse_params (rq_body r)) ''redirect_uri'' = params_get (parse_params q) ''redirect_uri'' \<and>
      params_get (parse_params (rq_body r)) ''code_verifier'' = Some v \<and> isPkceVerifier v \<and>
      params_get (parse_params q) ''code_challenge'' = Some (toBase64Url ((\<lambda>_. []) (utf8 v)))"
    by (rule next_callback_completes_login [OF resp _ _ r]) simp_all
  with resp r(1) show ?thesis by fastforce
qed

text \<open>Where the refresh route sends the browser: to one of the two listed pages, unless the parameter names a
  member that the whitelist object inherits; then the text of that member becomes the path.\<close>

theorem refresh_next_whitelist:
  assumes "x = (case params_get (search_params (nr_href req)) ''next'' of Some x \<Rightarrow> x | None \<Rightarrow> [])"
  shows "(x \<notin> set object_prototype \<longrightarrow> js_String (refresh_next req) \<in> {''/profile'', ''/''}) \<and>
     (x = ''constructor'' \<longrightarrow> js_String (refresh_next req) = ''function Object() { [native code] }'')"
  using assms by (auto simp: refresh_next_def ALLOWED_NEXT_def proto_member_def object_prototype_def Let_def)

end
