(* ===== verification/OauthPages.thy ===== *)
theory OauthPages
  imports UserStore
begin

section \<open>The OAuth pages of the user portal\<close>

text \<open>
  The mounted hooks and handlers of \<open>CallbackPage.vue\<close>, \<open>GitHubCallbackPage.vue\<close>,
  \<open>SocialCallbackPage.vue\<close> and \<open>ConsentPage.vue\<close>.  A page is the session it works on and the refs its
  template shows; \<open>router.replace\<close> is the last navigation.  The route query is a JavaScript
  object whose values are strings, \<open>null\<close> or arrays, as vue-router delivers them.  The
  translation function of vue-i18n is the argument \<open>t\<close>, a key with its named values.
\<close>

subsection \<open>Pages\<close>

record 'w page =
  pg_session :: "'w session"
  pg_error :: jsval
  pg_detail :: string
  pg_external :: bool
  pg_goto :: "string option"

type_synonym translate = "string \<Rightarrow> (string \<times> string) list \<Rightarrow> string"

definition shown_error :: "string \<Rightarrow> jsval \<Rightarrow> string" where
  "shown_error cur e =
     (if \<not> truthy e then [] else if is_string e then js_String e
      else getErrorMessage (js_String (getprop e ''code'')) cur)"

abbreviation query_text :: "jsval \<Rightarrow> string \<Rightarrow> string" where
  "query_text query k \<equiv> (case getprop query k of JStr v \<Rightarrow> v | _ \<Rightarrow> [])"

abbreviation pg_portal :: "'w page \<Rightarrow> 'w portal" where
  "pg_portal pg \<equiv> ss_portal (pg_session pg)"

definition set_portal :: "'w portal \<Rightarrow> 'w page \<Rightarrow> 'w page" where
  "set_portal p pg = pg\<lparr>pg_session := (pg_session pg)\<lparr>ss_portal := p\<rparr>\<rparr>"

abbreviation calls_made :: "(api_call list \<times> 'w) page \<Rightarrow> api_call list" where
  "calls_made pg \<equiv> fst (p_world (pg_portal pg))"

subsection \<open>CallbackPage\<close>

text \<open>The error object the page builds from the \<open>error\<close> parameter.\<close>

definition redirect_error :: "string \<Rightarrow> string \<Rightarrow> jsval" where
  "redirect_error cur code = JObj [(''code'', JStr code), (''message'', JStr (getErrorMessage code cur)),
     (''request_id'', JStr []), (''httpStatus'', JNum 400)]"

definition callback_mounted ::
    "translate \<Rightarrow> portal_env \<Rightarrow> 'w api \<Rightarrow> string \<Rightarrow> jsval \<Rightarrow> 'w page \<Rightarrow> 'w page" where
  "callback_mounted t env api cur query pg =
     (let code = getprop query ''code''; errorParam = query_text query ''error'' in
      if errorParam \<noteq> [] then
        (let err = redirect_error cur errorParam; description = query_text query ''error_description''
         in pg\<lparr>pg_error := err,
               pg_detail := (if description \<noteq> [] \<and> description \<noteq> shown_error cur err then description else [])\<rparr>)
      else if \<not> truthy code then pg\<lparr>pg_error := JStr (t ''oauth.callback.noCode'' [])\<rparr>
      else (let st = query_text query ''state'' in
        if \<not> hasVerifierForState (Some st) (pg_portal pg) then pg\<lparr>pg_external := True\<rparr>
        else (case store_exchangeCode env api (js_String code) (Some st) (pg_session pg) of
                (Inr _, s) \<Rightarrow> pg\<lparr>pg_session := s, pg_goto := Some ''/''\<rparr>
              | (Inl e, s) \<Rightarrow> pg\<lparr>pg_session := s, pg_error := normalizeError cur (thrown_value e) JUndef\<rparr>)))"

subsection \<open>The social callbacks\<close>

text \<open>\<open>await tryRestoreSession()\<close>: a refresh in flight is joined, a new one is sent to the server.\<close>

definition settle_refresh :: "nat \<Rightarrow> ax_result \<Rightarrow> http_state \<Rightarrow> http_state" where
  "settle_refresh k out h = (case on_refresh_reply k out h of
     None \<Rightarrow> h
   | Some h1 \<Rightarrow> (case on_refresh_finally k h1 of None \<Rightarrow> h1 | Some h2 \<Rightarrow> h2))"

definition await_restore :: "'w api \<Rightarrow> 'w portal \<Rightarrow> bool \<times> 'w portal" where
  "await_restore api p = (case tryRestoreSession (p_http p) of
     (RNow b, h) \<Rightarrow> (b, p\<lparr>p_http := h\<rparr>)
   | (RPost k, h) \<Rightarrow>
       (case rp_phase (posts h ! k) of
          PSent \<Rightarrow>
            (case api (post_form ''/oauth2/token'' (rp_form (posts h ! k))) (p_world p) of
               (out, w) \<Rightarrow> (let h' = settle_refresh k out h
                           in (promised h' (RPost k) = Some True, p\<lparr>p_http := h', p_world := w\<rparr>)))
        | PApplied b \<Rightarrow> (b, p\<lparr>p_http := h\<rparr>)
        | PFinished b \<Rightarrow> (b, p\<lparr>p_http := h\<rparr>)))"

text \<open>Storage access outside a \<open>try\<close>: an unavailable storage rejects the hook.\<close>

definition link_marker :: "web_storage \<Rightarrow> string option" where
  "link_marker ws = (case ws of Unavailable \<Rightarrow> None | Available m \<Rightarrow> getItem m ''social_link_flow'')"

definition drop_marker :: "web_storage \<Rightarrow> web_storage" where
  "drop_marker ws = (case ws of Unavailable \<Rightarrow> Unavailable | Available m \<Rightarrow> Available (removeItem ''social_link_flow'' m))"

definition link_flow :: "translate \<Rightarrow> 'w api \<Rightarrow> string \<Rightarrow> string \<Rightarrow> string \<Rightarrow> jsval \<Rightarrow> string \<Rightarrow> 'w page \<Rightarrow> 'w page" where
  "link_flow t api cur provider label code queryState pg =
     (let p = pg_portal pg; pg = set_portal (p\<lparr>p_session := drop_marker (p_session p)\<rparr>) pg in
      if queryState = [] then pg\<lparr>pg_error := JStr (t ''oauth.linkMissingState'' [])\<rparr>
      else (case await_restore api (pg_portal pg) of
         (hasSession, p) \<Rightarrow>
           (let pg = set_portal p pg in
            if \<not> hasSession then pg\<lparr>pg_error := JStr (t ''oauth.linkSignInFirst'' [(''provider'', label)])\<rparr>
            else (case linkSocialAccount api provider code queryState (pg_portal pg) of
                    (Inr _, p) \<Rightarrow> (set_portal p pg)\<lparr>pg_goto := Some ''/security''\<rparr>
                  | (Inl e, p) \<Rightarrow> (set_portal p pg)\<lparr>pg_error := normalizeError cur (thrown_value e) JUndef\<rparr>))))"

definition social_login :: "translate \<Rightarrow> 'w api \<Rightarrow> string \<Rightarrow> string \<Rightarrow> string \<Rightarrow> jsval \<Rightarrow> 'w page \<Rightarrow> 'w page" where
  "social_login t api cur provider label code pg =
     (case and_then (send_call api (send_json ''POST'' (''/api/'' @ provider @ ''/login'') (JObj [(''code'', code)])))
             (\<lambda>data. and_then (member data ''access_token'') (\<lambda>a.
                if truthy a then and_then (store_tokens a (getprop data ''refresh_token'')) (\<lambda>_. return_op True)
                else return_op False)) (pg_portal pg) of
        (Inr True, p) \<Rightarrow>
          (let pg = set_portal p pg; s = pg_session pg;
               s = fetchUser api (s\<lparr>ss_store := markAuthenticated (ss_store s)\<rparr>)
           in pg\<lparr>pg_session := s, pg_goto := Some ''/''\<rparr>)
      | (Inr False, p) \<Rightarrow> (set_portal p pg)\<lparr>pg_error := JStr (t ''oauth.noAccessToken'' [(''provider'', label)])\<rparr>
      | (Inl e, p) \<Rightarrow> (set_portal p pg)\<lparr>pg_error := normalizeError cur (thrown_value e) JUndef\<rparr>)"

text \<open>The hook both pages have; \<open>None\<close> is the hook rejected by the storage.\<close>

definition provider_mounted ::
    "translate \<Rightarrow> 'w api \<Rightarrow> string \<Rightarrow> string \<Rightarrow> string \<Rightarrow> jsval \<Rightarrow> 'w page \<Rightarrow> 'w page option" where
  "provider_mounted t api cur provider label query pg =
     (let code = getprop query ''code'' in
      if \<not> truthy code then Some (pg\<lparr>pg_error := JStr (t ''oauth.noCodeFromProvider'' [(''provider'', label)])\<rparr>)
      else if p_session (pg_portal pg) = Unavailable then None
      else (let queryState = query_text query ''state'' in
            Some (if link_marker (p_session (pg_portal pg)) = Some provider \<or> queryState \<noteq> []
                  then link_flow t api cur provider label code queryState pg
                  else social_login t api cur provider label code pg)))"

definition github_mounted :: "translate \<Rightarrow> 'w api \<Rightarrow> string \<Rightarrow> jsval \<Rightarrow> 'w page \<Rightarrow> 'w page option" where
  "github_mounted t api cur query pg = provider_mounted t api cur ''github'' ''GitHub'' query pg"

text \<open>The provider of the route meta, and its label with a capital.\<close>

definition capitalized :: "string \<Rightarrow> string" where
  "capitalized p = (case p of [] \<Rightarrow> [] | c # r \<Rightarrow>
     (if 97 \<le> (of_char c :: nat) \<and> (of_char c :: nat) \<le> 122 then char_of (of_char c - 32 :: nat) else c) # r)"

definition social_mounted :: "translate \<Rightarrow> 'w api \<Rightarrow> string \<Rightarrow> string option \<Rightarrow> jsval \<Rightarrow> 'w page \<Rightarrow> 'w page option" where
  "social_mounted t api cur meta_provider query pg =
     (let provider = (case meta_provider of Some p \<Rightarrow> if p \<noteq> [] then p else ''google'' | None \<Rightarrow> ''google'')
      in provider_mounted t api cur provider (capitalized provider) query pg)"

subsection \<open>ConsentPage\<close>

record consent =
  co_clientId :: jsval
  co_scope :: string
  co_redirectUri :: jsval
  co_state :: jsval
  co_serverUserId :: jsval
  co_userId :: jsval
  co_codeChallenge :: jsval
  co_consentCsrf :: jsval
  co_codeChallengeMethod :: jsval
  co_nonce :: jsval
  co_ownerName :: string
  co_orgName :: string
  co_clientName :: string
  co_clientLogoUri :: string
  co_orgLogoUri :: string
  co_orgPrimaryColor :: string
  co_scopeDescriptions :: jsval
  co_loading :: bool

definition localeTag :: "string \<Rightarrow> string" where
  "localeTag locale = (if starts_with ''zh'' (map to_lower locale) then ''zh-CN'' else ''en'')"

definition or_empty :: "jsval \<Rightarrow> jsval" where
  "or_empty v = js_or v (JStr [])"

text \<open>The setup of the page; a scope that is not a string has no \<open>split\<close> and the setup throws.\<close>

definition consent_setup :: "jsval \<Rightarrow> jsval \<Rightarrow> consent option" where
  "consent_setup query user =
     (case or_empty (getprop query ''scope'') of
        JStr scope \<Rightarrow> (let serverUserId = or_empty (getprop query ''user_id'') in Some
          \<lparr>co_clientId = or_empty (getprop query ''client_id''), co_scope = scope,
           co_redirectUri = or_empty (getprop query ''redirect_uri''), co_state = or_empty (getprop query ''state''),
           co_serverUserId = serverUserId, co_userId = or_empty (js_or serverUserId (getprop user ''sub'')),
           co_codeChallenge = or_empty (getprop query ''code_challenge''),
           co_consentCsrf = or_empty (getprop query ''consent_csrf''),
           co_codeChallengeMethod = or_empty (getprop query ''code_challenge_method''),
           co_nonce = or_empty (getprop query ''nonce''), co_ownerName = [], co_orgName = [], co_clientName = [],
           co_clientLogoUri = [], co_orgLogoUri = [], co_orgPrimaryColor = [], co_scopeDescriptions = JObj [],
           co_loading = False\<rparr>)
      | _ \<Rightarrow> None)"

definition scopes :: "consent \<Rightarrow> string list" where
  "scopes c = filter (\<lambda>x. x \<noteq> []) (split_on (CHR '' '') (co_scope c))"

definition missingUserId :: "consent \<Rightarrow> bool" where
  "missingUserId c = (\<not> truthy (co_userId c))"

text \<open>\<open>map[k] = v\<close> on a plain object; a string stored under \<open>__proto__\<close> is dropped.\<close>

definition put_own :: "string \<Rightarrow> jsval \<Rightarrow> (string \<times> jsval) list \<Rightarrow> (string \<times> jsval) list" where
  "put_own k v ps =
     (if k = ''__proto__'' then ps
      else if k \<in> fst ` set ps then map (\<lambda>p. if fst p = k then (k, v) else p) ps
      else ps @ [(k, v)])"

definition scope_map :: "jsval list \<Rightarrow> (string \<times> jsval) list" where
  "scope_map ds = fold (\<lambda>d m. case (getprop d ''scope'', getprop d ''description_i18n'') of
     (JStr sc, JStr text) \<Rightarrow> if truthy d then put_own sc (JStr text) m else m
   | _ \<Rightarrow> m) ds []"

text \<open>\<open>typeof v === 'string' && v\<close> guards an assignment.\<close>

definition text_or :: "string \<Rightarrow> jsval \<Rightarrow> string" where
  "text_or old v = (case v of JStr s \<Rightarrow> if s \<noteq> [] then s else old | _ \<Rightarrow> old)"

definition apply_context :: "jsval \<Rightarrow> consent \<Rightarrow> consent" where
  "apply_context data c =
     (let c = c\<lparr>co_ownerName := (case getprop data ''owner_name'' of JStr s \<Rightarrow> s | _ \<Rightarrow> [])\<rparr>;
          org = getprop data ''org'';
          c = (if truthy org \<and> is_object org \<and> is_string (getprop org ''org_name'') then
                 c\<lparr>co_orgName := js_String (getprop org ''org_name''),
                   co_orgLogoUri := text_or (co_orgLogoUri c) (getprop org ''logo_uri''),
                   co_orgPrimaryColor := text_or (co_orgPrimaryColor c) (getprop org ''primary_color'')\<rparr>
               else c);
          c = (case getprop data ''scope_descriptions'' of
                 JArr ds \<Rightarrow> c\<lparr>co_scopeDescriptions := JObj (scope_map ds)\<rparr> | _ \<Rightarrow> c)
      in c\<lparr>co_clientName := text_or (co_clientName c) (getprop data ''client_name'')\<rparr>)"

definition apply_branding :: "jsval \<Rightarrow> consent \<Rightarrow> consent" where
  "apply_branding data c =
     (let org = getprop data ''org'';
          c = c\<lparr>co_clientName := text_or (co_clientName c) (getprop data ''client_name''),
                co_clientLogoUri := text_or (co_clientLogoUri c) (getprop data ''logo_uri'')\<rparr>
      in if truthy org \<and> is_object org
         then c\<lparr>co_orgLogoUri := text_or (co_orgLogoUri c) (getprop org ''logo_uri''),
                co_orgPrimaryColor := text_or (co_orgPrimaryColor c) (getprop org ''primary_color'')\<rparr>
         else c)"

definition context_params :: "string \<Rightarrow> consent \<Rightarrow> params" where
  "context_params locale c =
     (let ps = [(''consent_csrf'', js_String (co_consentCsrf c)), (''client_id'', js_String (co_clientId c)),
                (''redirect_uri'', js_String (co_redirectUri c)), (''user_id'', js_String (co_serverUserId c)),
                (''locale'', localeTag locale)];
          ps = (if co_scope c \<noteq> [] then params_set ''scope'' (co_scope c) ps else ps)
      in if truthy (co_state c) then params_set ''state'' (js_String (co_state c)) ps else ps)"

text \<open>How axios writes one entry of a plain \<open>params\<close> object.\<close>

definition axios_param :: "string \<Rightarrow> jsval \<Rightarrow> params" where
  "axios_param k v = (case v of
     JArr xs \<Rightarrow> map (\<lambda>x. (k @ ''[]'', js_String x)) (filter (\<lambda>x. \<not> nullish x) xs)
   | _ \<Rightarrow> if nullish v then [] else [(k, js_String v)])"

definition consent_mounted :: "string \<Rightarrow> 'w api \<Rightarrow> consent \<Rightarrow> 'w \<Rightarrow> consent \<times> 'w" where
  "consent_mounted locale api c w =
     (if \<not> truthy (co_consentCsrf c) then (c, w)
      else (case api ((plain_call ''GET'' ''/oauth2/consent/context'')\<lparr>ac_query := context_params locale c\<rparr>) w of
        (r1, w1) \<Rightarrow>
          (let c1 = (case r1 of AxOk data \<Rightarrow> apply_context data c | _ \<Rightarrow> c) in
           case api ((plain_call ''GET'' ''/oauth2/authorize-context'')\<lparr>ac_query := axios_param ''client_id'' (co_clientId c)\<rparr>) w1 of
             (r2, w2) \<Rightarrow> ((case r2 of AxOk data \<Rightarrow> apply_branding data c1 | _ \<Rightarrow> c1), w2))))"

definition scopeDescriptions :: "translate \<Rightarrow> jsval" where
  "scopeDescriptions t = JObj (map (\<lambda>sc. (sc, JStr (t (''oauth.scopes.'' @ sc) [])))
     [''openid'', ''profile'', ''email'', ''admin'', ''users:read'', ''users:write'', ''clients:read'', ''clients:write'',
      ''tokens:read'', ''tokens:write'', ''roles:read'', ''roles:write'', ''audit:read''])"

definition describeScope :: "translate \<Rightarrow> consent \<Rightarrow> string \<Rightarrow> jsval" where
  "describeScope t c sc = js_or (getprop (co_scopeDescriptions c) sc) (js_or (getprop (scopeDescriptions t) sc) (JStr sc))"

text \<open>The hidden fields of the form that is posted to \<open>/oauth2/consent\<close>.\<close>

definition consent_fields :: "string \<Rightarrow> consent \<Rightarrow> params" where
  "consent_fields action c =
     [(''client_id'', js_String (co_clientId c)), (''user_id'', js_String (co_userId c)), (''scope'', co_scope c),
      (''redirect_uri'', js_String (co_redirectUri c)), (''state'', js_String (co_state c)), (''action'', action)] @
     (if truthy (co_consentCsrf c) then [(''consent_csrf'', js_String (co_consentCsrf c))] else []) @
     (if truthy (co_codeChallenge c)
      then [(''code_challenge'', js_String (co_codeChallenge c)),
            (''code_challenge_method'', js_String (co_codeChallengeMethod c))] else []) @
     (if truthy (co_nonce c) then [(''nonce'', js_String (co_nonce c))] else [])"

definition handleConsent :: "string \<Rightarrow> consent \<Rightarrow> api_call \<times> consent" where
  "handleConsent action c = (post_form ''/oauth2/consent'' (consent_fields action c), c\<lparr>co_loading := True\<rparr>)"

text \<open>The buttons are disabled while a form is on its way or without a user id.\<close>

definition consent_enabled :: "consent \<Rightarrow> bool" where
  "consent_enabled c = (\<not> (co_loading c \<or> missingUserId c))"

subsection \<open>Lemmas\<close>

lemma set_portal_sel [simp]:
  "ss_portal (pg_session (set_portal p pg)) = p" "pg_goto (set_portal p pg) = pg_goto pg"
  "pg_error (set_portal p pg) = pg_error pg" "ss_store (pg_session (set_portal p pg)) = ss_store (pg_session pg)"
  by (simp_all add: set_portal_def)

lemma fetchUser_logged:
  "fst (p_world (ss_portal (fetchUser (logged_api api) s))) = fst (p_world (ss_portal s)) @ [plain_call ''GET'' ''/oauth2/userinfo'']"
  using send_logged_world [of api "plain_call ''GET'' ''/oauth2/userinfo''" "ss_portal s"]
  by (auto simp: fetchUser_def getUserInfo_def fetch_data_def split: prod.split sum.split)

text \<open>The calls of \<open>await_restore\<close>: none, or the refresh POST.\<close>

lemma await_restore_logged:
  assumes "await_restore (logged_api api) p = (b, p')"
  shows "\<exists>form. fst (p_world p') = fst (p_world p) \<or> fst (p_world p') = fst (p_world p) @ [post_form ''/oauth2/token'' form]"
  using assms
  by (auto simp: await_restore_def logged_api_def Let_def split: prod.splits refresh_promise.splits post_phase.splits)

lemma await_restore_session: "p_session (snd (await_restore api p)) = p_session p"
  by (simp add: await_restore_def Let_def split: prod.split refresh_promise.split post_phase.split)

lemma link_account_session: "p_session (snd (linkSocialAccount api provider code st p)) = p_session p"
  by (simp add: linkSocialAccount_def and_then_snd return_op_def split: prod.split sum.split)
     (metis send_logged_frame(2) snd_conv)

lemma link_account_logged:
  assumes "linkSocialAccount (logged_api api) provider code st p = (r, p')"
  shows "\<exists>c. ac_url c = social_link_url provider \<and> fst (p_world p') = fst (p_world p) @ [c]"
proof -
  let ?c = "send_json ''POST'' (social_link_url provider) (JObj [(''code'', code), (''state'', JStr st)])"
  have "fst (p_world p') = fst (p_world p) @ [?c]"
    using assms send_logged_world [of api ?c p]
    by (auto simp: linkSocialAccount_def and_then_def return_op_def split: prod.splits sum.splits)
  then show ?thesis by (intro exI [of _ ?c]) (simp add: send_json_def)
qed

lemma fetchUser_session: "p_session (ss_portal (fetchUser api s)) = p_session (ss_portal s)"
  using send_logged_frame(2) [of api "plain_call ''GET'' ''/oauth2/userinfo''" "ss_portal s"]
  by (auto simp: fetchUser_def getUserInfo_def fetch_data_def simp del: send_logged_frame split: prod.split sum.split)

lemma exchangeCode_redeems:
  assumes "p_session p = Available m" and "readPkceStash (p_session p) = Some sh" and "st_state sh \<noteq> []"
  shows "authService_exchangeCode env api code (Some (st_state sh)) p =
     redeem api (post_form ''/oauth2/token'' (code_form env code (st_verifier sh)))
       (p\<lparr>p_session := Available (removeItem PKCE_VERIFIER_KEY m)\<rparr>)"
  using assms by (simp add: authService_exchangeCode_def clearPkceStash_def and_then_def)

lemma store_exchange_logged:
  assumes p: "p_session (ss_portal s) = Available m" and sh: "readPkceStash (p_session (ss_portal s)) = Some sh" "st_state sh \<noteq> []"
    and run: "store_exchangeCode env (logged_api api) code (Some (st_state sh)) s = (r, s')"
  shows "\<exists>rest. fst (p_world (ss_portal s')) =
       fst (p_world (ss_portal s)) @ post_form ''/oauth2/token'' (code_form env code (st_verifier sh)) # rest"
    and "p_session (ss_portal s') = Available (removeItem PKCE_VERIFIER_KEY m)"
proof -
  let ?c = "post_form ''/oauth2/token'' (code_form env code (st_verifier sh))"
  let ?p = "(ss_portal s)\<lparr>p_session := Available (removeItem PKCE_VERIFIER_KEY m)\<rparr>"
  obtain q p1 where r: "redeem (logged_api api) ?c ?p = (q, p1)" by fastforce
  then have p1: "fst (p_world p1) = fst (p_world (ss_portal s)) @ [?c]" "p_session p1 = p_session ?p"
    using redeem_logged [of api ?c ?p] redeem_session [of "logged_api api" ?c ?p] by simp_all
  let ?t = "s\<lparr>ss_portal := p1, ss_store := markAuthenticated (ss_store s)\<rparr>"
  have "s' = s\<lparr>ss_portal := p1\<rparr> \<or> s' = fetchUser (logged_api api) ?t"
    using run r exchangeCode_redeems [OF p sh, of env "logged_api api" code]
    by (auto simp: store_exchangeCode_def split: sum.splits)
  then show "\<exists>rest. fst (p_world (ss_portal s')) = fst (p_world (ss_portal s)) @ ?c # rest"
    and "p_session (ss_portal s') = Available (removeItem PKCE_VERIFIER_KEY m)"
    using p1 fetchUser_logged [of api ?t] fetchUser_session [of "logged_api api" ?t] by auto
qed

subsection \<open>Properties\<close>

text \<open>C31. The callback page redeems a code only for a flow this portal started.  With an \<open>error\<close> parameter,
  without a code, or without a stashed verifier for the callback's state, no request is made
  and the session stays as it was; otherwise the first request presents the stashed verifier,
  and the stash cannot be used again.\<close>

theorem callback_redeems_only_own_flow:
  fixes pg :: "(api_call list \<times> 'w) page"
  assumes "p_session (pg_portal pg) = Available m"
  shows "let pg' = callback_mounted t env (logged_api api) cur query pg;
             st = query_text query ''state'' in
     if query_text query ''error'' = [] \<and> truthy (getprop query ''code'') \<and> hasVerifierForState (Some st) (pg_portal pg)
     then (\<exists>sh rest. readPkceStash (p_session (pg_portal pg)) = Some sh \<and> st_state sh = st \<and>
             calls_made pg' = calls_made pg @ post_form ''/oauth2/token''
               (code_form env (js_String (getprop query ''code'')) (st_verifier sh)) # rest) \<and>
          \<not> hasVerifierForState (Some st) (pg_portal pg')
     else pg_session pg' = pg_session pg \<and> pg_goto pg' = pg_goto pg"
proof (cases "query_text query ''error'' = [] \<and> truthy (getprop query ''code'') \<and>
    hasVerifierForState (Some (query_text query ''state'')) (pg_portal pg)")
  case True
  let ?st = "query_text query ''state''"
  from True obtain sh where sh: "readPkceStash (p_session (pg_portal pg)) = Some sh" "st_state sh = ?st" "st_state sh \<noteq> []"
    by (auto simp: has_verifier_iff)
  obtain r s' where r: "store_exchangeCode env (logged_api api) (js_String (getprop query ''code'')) (Some (st_state sh)) (pg_session pg) = (r, s')"
    by fastforce
  then have "pg_session (callback_mounted t env (logged_api api) cur query pg) = s'"
    using True unfolding sh(2) by (auto simp: callback_mounted_def Let_def split: sum.split)
  with store_exchange_logged [OF assms sh(1,3) r] True sh(1,2) show ?thesis
    by (auto simp: Let_def has_verifier_iff read_cleared_stash)
qed (auto simp: callback_mounted_def Let_def)

definition demo_page :: "items \<Rightarrow> items \<Rightarrow> (api_call list \<times> unit) page" where
  "demo_page loc ses = \<lparr>pg_session = \<lparr>ss_portal = \<lparr>p_http = load_http loc ''callback'' None, p_session = Available ses, p_world = ([], ())\<rparr>,
       ss_store = useAuthStore (load_http loc ''callback'' None)\<rparr>,
     pg_error = JNull, pg_detail = [], pg_external = False, pg_goto = None\<rparr>"

theorem callback_redeems_only_own_flow_witness:
  "\<exists>rest. calls_made (callback_mounted (\<lambda>k _. k) demo_env (logged_api demo_api) ''en''
       (JObj [(''code'', JStr ''c''), (''state'', JStr ''s1'')])
       (demo_page Map.empty (setItem PKCE_VERIFIER_KEY (stash_text \<lparr>st_state = ''s1'', st_verifier = ''v1''\<rparr>) Map.empty))) =
     post_form ''/oauth2/token'' (code_form demo_env ''c'' ''v1'') # rest"
proof -
  let ?pg = "demo_page Map.empty (setItem PKCE_VERIFIER_KEY (stash_text \<lparr>st_state = ''s1'', st_verifier = ''v1''\<rparr>) Map.empty)"
  have st: "p_session (pg_portal ?pg) = Available (setItem PKCE_VERIFIER_KEY (stash_text \<lparr>st_state = ''s1'', st_verifier = ''v1''\<rparr>) Map.empty)"
      "calls_made ?pg = []"
    by (simp_all add: demo_page_def)
  then have "hasVerifierForState (Some ''s1'') (pg_portal ?pg)" by (simp add: has_verifier_iff read_written_stash)
  with callback_redeems_only_own_flow [OF st(1), of "\<lambda>k _. k" demo_env demo_api "''en''" "JObj [(''code'', JStr ''c''), (''state'', JStr ''s1'')]"]
    st show ?thesis
    by (auto simp: Let_def read_written_stash proto_member_def object_prototype_def)
qed

text \<open>C32. The link flow of the provider callbacks never falls through to the login request: with a link marker
  or a state, the hook sends at most a refresh and the link request, and it never sends the
  visitor home as signed in; the marker is consumed.\<close>

theorem social_link_never_logs_in:
  fixes pg :: "(api_call list \<times> 'w) page"
  assumes "provider_mounted t (logged_api api) cur provider label query pg = Some pg'"
    and "link_marker (p_session (pg_portal pg)) = Some provider \<or> query_text query ''state'' \<noteq> []"
    and "truthy (getprop query ''code'')" and "pg_goto pg = None"
  shows "(\<exists>cs. calls_made pg' = calls_made pg @ cs \<and> length cs \<le> 2 \<and>
            set (map ac_url cs) \<subseteq> {''/oauth2/token'', social_link_url provider}) \<and>
     pg_goto pg' \<in> {None, Some ''/security''} \<and>
     ss_store (pg_session pg') = ss_store (pg_session pg) \<and>
     link_marker (p_session (pg_portal pg')) = None"
proof -
  let ?api = "logged_api api" and ?st = "query_text query ''state''" and ?code = "getprop query ''code''"
  let ?p0 = "(pg_portal pg)\<lparr>p_session := drop_marker (p_session (pg_portal pg))\<rparr>"
  have avail: "p_session (pg_portal pg) \<noteq> Unavailable"
    using assms(1,3) by (auto simp: provider_mounted_def Let_def split: if_splits)
  then have marker: "link_marker (drop_marker (p_session (pg_portal pg))) = None"
    by (cases "p_session (pg_portal pg)") (simp_all add: link_marker_def drop_marker_def web_store.lookup_remove)
  have pg': "pg' = link_flow t ?api cur provider label ?code ?st pg"
    using assms(1-3) avail by (auto simp: provider_mounted_def Let_def)
  show ?thesis
  proof (cases "?st = []")
    case True
    with pg' marker assms(4) show ?thesis by (auto simp: link_flow_def Let_def)
  next
    case False
    obtain b p1 where p1: "await_restore ?api ?p0 = (b, p1)" by fastforce
    then have s1: "p_session p1 = p_session ?p0" using await_restore_session [of ?api ?p0] by simp
    obtain cs where cs: "fst (p_world p1) = calls_made pg @ cs" "length cs \<le> 1" "set (map ac_url cs) \<subseteq> {''/oauth2/token''}"
      using await_restore_logged [OF p1] by (auto simp: post_form_def)
    obtain r p2 where p2: "linkSocialAccount ?api provider ?code ?st p1 = (r, p2)" by fastforce
    obtain c where c: "ac_url c = social_link_url provider" "fst (p_world p2) = fst (p_world p1) @ [c]"
      using link_account_logged [OF p2] by blast
    have s2: "p_session p2 = p_session p1" using link_account_session [of ?api provider ?code ?st p1] p2 by simp
    show ?thesis
    proof (cases b)
      case True
      then have "pg_portal pg' = p2" "pg_goto pg' \<in> {None, Some ''/security''}" "ss_store (pg_session pg') = ss_store (pg_session pg)"
        using False pg' p1 p2 assms(4) by (auto simp: link_flow_def Let_def split: sum.split)
      with cs c s1 s2 marker show ?thesis by (auto intro!: exI [of _ "cs @ [c]"])
    next
      case nb: False
      then have "pg_portal pg' = p1" "pg_goto pg' = None" "ss_store (pg_session pg') = ss_store (pg_session pg)"
        using False pg' p1 assms(4) by (auto simp: link_flow_def Let_def)
      with cs s1 marker show ?thesis by (auto intro!: exI [of _ cs])
    qed
  qed
qed

theorem social_link_never_logs_in_witness:
  "\<exists>pg'. github_mounted (\<lambda>k _. k) (logged_api demo_api) ''en'' (JObj [(''code'', JStr ''c''), (''state'', JStr ''s1'')])
       (demo_page [''refresh_token'' \<mapsto> ''r0''] Map.empty) = Some pg' \<and>
     set (map ac_url (calls_made pg')) \<subseteq> {''/oauth2/token'', social_link_url ''github''}"
proof -
  let ?pg = "demo_page [''refresh_token'' \<mapsto> ''r0''] Map.empty"
  let ?q = "JObj [(''code'', JStr ''c''), (''state'', JStr ''s1'')]"
  have "\<exists>pg'. provider_mounted (\<lambda>k _. k) (logged_api demo_api) ''en'' ''github'' ''GitHub'' ?q ?pg = Some pg'"
    by (simp add: provider_mounted_def demo_page_def)
  then obtain pg' where pg': "provider_mounted (\<lambda>k _. k) (logged_api demo_api) ''en'' ''github'' ''GitHub'' ?q ?pg = Some pg'" ..
  have "calls_made ?pg = []" "pg_goto ?pg = None" by (simp_all add: demo_page_def)
  with social_link_never_logs_in [OF pg'] pg' show ?thesis by (auto simp: github_mounted_def)
qed

text \<open>The consent form posts back the parameters of the authorization request it was opened with: client,
  scope, redirect URI and state verbatim, the PKCE challenge with its method, the nonce and
  the consent nonce exactly when they were given, and the user the server named.\<close>

theorem consent_form_carries_request:
  assumes "consent_setup query user = Some c"
    and "getprop query ''client_id'' = JStr cid" and "getprop query ''redirect_uri'' = JStr uri"
    and "getprop query ''code_challenge'' = JStr ch" and "getprop query ''code_challenge_method'' = JStr m"
    and "getprop query ''user_id'' = JStr uid" and "uid \<noteq> []"
  shows "let f = params_get (consent_fields action c) in
     f ''client_id'' = Some cid \<and> f ''redirect_uri'' = Some uri \<and> f ''user_id'' = Some uid \<and>
     f ''scope'' = Some (js_String (or_empty (getprop query ''scope''))) \<and>
     f ''state'' = Some (js_String (or_empty (getprop query ''state''))) \<and> f ''action'' = Some action \<and>
     f ''code_challenge'' = (if ch = [] then None else Some ch) \<and>
     f ''code_challenge_method'' = (if ch = [] then None else Some m) \<and>
     f ''nonce'' = (if truthy (getprop query ''nonce'') then Some (js_String (getprop query ''nonce'')) else None) \<and>
     f ''consent_csrf'' = (if truthy (getprop query ''consent_csrf'') then Some (js_String (getprop query ''consent_csrf'')) else None)"
proof -
  from assms(1) obtain sc where sc: "or_empty (getprop query ''scope'') = JStr sc"
    and scope: "co_scope c = js_String (or_empty (getprop query ''scope''))"
    by (auto simp: consent_setup_def Let_def split: jsval.splits)
  note c = assms(1) [unfolded consent_setup_def sc jsval.case Let_def, symmetric, simplified]
  have "co_clientId c = JStr cid" "co_redirectUri c = JStr uri" "co_userId c = JStr uid" "co_codeChallenge c = JStr ch"
    "co_codeChallengeMethod c = JStr m" "co_state c = or_empty (getprop query ''state'')"
    "co_nonce c = or_empty (getprop query ''nonce'')" "co_consentCsrf c = or_empty (getprop query ''consent_csrf'')"
    using assms(2-7) by (simp_all add: c or_empty_def js_or_def)
  then show ?thesis
    using scope by (auto simp: consent_fields_def params_get_def Let_def or_empty_def js_or_def)
qed

theorem consent_form_carries_request_witness:
  "\<exists>c. consent_setup (JObj [(''client_id'', JStr ''app''), (''redirect_uri'', JStr ''https://app/cb''), (''user_id'', JStr ''7''),
        (''code_challenge'', JStr ''xyz''), (''code_challenge_method'', JStr ''S256'')]) JNull = Some c \<and>
     params_get (consent_fields ''approve'' c) ''code_challenge'' = Some ''xyz''"
proof -
  let ?q = "JObj [(''client_id'', JStr ''app''), (''redirect_uri'', JStr ''https://app/cb''), (''user_id'', JStr ''7''),
        (''code_challenge'', JStr ''xyz''), (''code_challenge_method'', JStr ''S256'')]"
  have "\<exists>c. consent_setup ?q JNull = Some c"
    by (simp add: consent_setup_def or_empty_def js_or_def proto_member_def object_prototype_def Let_def)
  then obtain c where c: "consent_setup ?q JNull = Some c" ..
  from consent_form_carries_request [OF c, of "''app''" "''https://app/cb''" "''xyz''" "''S256''" "''7''" "''approve''"] c
  show ?thesis by (simp add: Let_def)
qed

text \<open>The attribution on the consent screen comes from the server only: the owner and organisation shown
  are empty or strings of the context reply, whatever the link that opened the page says, and
  without the consent nonce or with failing lookups nothing is attributed.\<close>

theorem consent_attribution_from_server:
  assumes "consent_setup query user = Some c" and "consent_mounted locale api c w = (c', w')"
  shows "(co_ownerName c', co_orgName c') = ([], []) \<or>
     (\<exists>data w1. api ((plain_call ''GET'' ''/oauth2/consent/context'')\<lparr>ac_query := context_params locale c\<rparr>) w = (AxOk data, w1) \<and>
        co_ownerName c' \<in> {[], js_String (getprop data ''owner_name'')} \<and>
        co_orgName c' \<in> {[], js_String (getprop (getprop data ''org'') ''org_name'')})"
proof -
  have c: "co_ownerName c = []" "co_orgName c = []"
    using assms(1) by (auto simp: consent_setup_def Let_def split: jsval.splits)
  have b: "co_ownerName (apply_branding d x) = co_ownerName x" "co_orgName (apply_branding d x) = co_orgName x" for d x
    by (simp_all add: apply_branding_def Let_def)
  have a: "co_ownerName (apply_context d c) \<in> {[], js_String (getprop d ''owner_name'')}"
    "co_orgName (apply_context d c) \<in> {[], js_String (getprop (getprop d ''org'') ''org_name'')}" for d
    using c by (auto simp: apply_context_def Let_def split: jsval.split)
  have "c' = c \<or> co_ownerName c' = co_ownerName c \<and> co_orgName c' = co_orgName c \<or>
      (\<exists>data w1. api ((plain_call ''GET'' ''/oauth2/consent/context'')\<lparr>ac_query := context_params locale c\<rparr>) w = (AxOk data, w1) \<and>
        co_ownerName c' = co_ownerName (apply_context data c) \<and> co_orgName c' = co_orgName (apply_context data c))"
    using assms(2) b by (auto simp: consent_mounted_def Let_def split: if_splits prod.splits ax_result.splits)
  with a c show ?thesis by metis
qed

theorem consent_attribution_from_server_witness:
  "\<exists>c c' w'. consent_setup (JObj [(''owner_name'', JStr ''Your Bank''), (''consent_csrf'', JStr ''n'')]) JNull = Some c \<and>
     consent_mounted ''en'' (\<lambda>_ w. (AxNet, w)) c () = (c', w') \<and> co_ownerName c' = []"
proof -
  let ?q = "JObj [(''owner_name'', JStr ''Your Bank''), (''consent_csrf'', JStr ''n'')]"
  have "\<exists>c. consent_setup ?q JNull = Some c"
    by (simp add: consent_setup_def or_empty_def js_or_def proto_member_def object_prototype_def Let_def)
  then obtain c where c: "consent_setup ?q JNull = Some c" ..
  obtain c' w' where r: "consent_mounted ''en'' (\<lambda>_ w. (AxNet, w)) c () = (c', w')"
    by (cases "consent_mounted ''en'' (\<lambda>_ w. (AxNet, w)) c ()") auto
  from consent_attribution_from_server [OF c r] c r show ?thesis by auto
qed

end
