(* ===== verification/Theme.thy ===== *)
theory Theme
  imports Prelude
begin

section \<open>Theme and password meter\<close>

text \<open>
  \<open>stores/theme.ts\<close> (the same text in both apps) and \<open>utils/passwordStrength.ts\<close>.  The theme
  state is the preference, the mirror of the operating system's preference, the attribute
  \<open>html[data-theme]\<close>, the storage, and whether the change listener is installed.
  \<open>window.matchMedia\<close> is an argument: \<open>None\<close> when calling it throws.
\<close>

subsection \<open>The theme store\<close>

record theme_state =
  preference :: string
  osDark :: bool
  data_theme :: "string option"
  theme_storage :: web_storage
  listening :: bool

definition STORAGE_KEY :: string where
  "STORAGE_KEY = ''fulla-theme''"

definition theme_preferences :: "string list" where
  "theme_preferences = [''light'', ''dark'', ''system'']"

definition readStored :: "web_storage \<Rightarrow> string" where
  "readStored ws = (case ws of
     Unavailable \<Rightarrow> ''system''
   | Available m \<Rightarrow> (case getItem m STORAGE_KEY of
       Some v \<Rightarrow> if v = ''light'' \<or> v = ''dark'' \<or> v = ''system'' then v else ''system''
     | None \<Rightarrow> ''system''))"

definition systemPrefersDark :: "bool option \<Rightarrow> js_throw + bool" where
  "systemPrefersDark media = (case media of Some b \<Rightarrow> Inr b | None \<Rightarrow> Inl TypeErr)"

definition is_dark :: "string \<Rightarrow> bool \<Rightarrow> bool" where
  "is_dark pref os \<longleftrightarrow> pref = ''dark'' \<or> (pref = ''system'' \<and> os)"

definition applyTheme :: "string \<Rightarrow> bool \<Rightarrow> theme_state \<Rightarrow> theme_state" where
  "applyTheme pref os s = s\<lparr>data_theme := Some (if is_dark pref os then ''dark'' else ''light'')\<rparr>"

text \<open>Setting up the store: the media query is read outside any \<open>try\<close>.\<close>

definition useThemeStore :: "web_storage \<Rightarrow> bool option \<Rightarrow> js_throw + theme_state" where
  "useThemeStore ws media =
     bind_res (systemPrefersDark media) (\<lambda>os.
       Inr \<lparr>preference = readStored ws, osDark = os, data_theme = None, theme_storage = ws, listening = False\<rparr>)"

definition mode :: "theme_state \<Rightarrow> string" where
  "mode s = (if is_dark (preference s) (osDark s) then ''dark'' else ''light'')"

definition set_theme :: "string \<Rightarrow> theme_state \<Rightarrow> theme_state" where
  "set_theme pref s =
     (let s = s\<lparr>preference := pref\<rparr>;
          s = (case theme_storage s of
                 Unavailable \<Rightarrow> s
               | Available m \<Rightarrow> s\<lparr>theme_storage := Available (setItem STORAGE_KEY pref m)\<rparr>)
      in applyTheme pref (osDark s) s)"

definition toggle :: "theme_state \<Rightarrow> theme_state" where
  "toggle s = set_theme (if mode s = ''dark'' then ''light'' else ''dark'') s"

text \<open>\<open>init\<close>: with a media query that throws now, the theme has been applied and the listener is
  not installed.\<close>

definition init_theme :: "bool option \<Rightarrow> theme_state \<Rightarrow> theme_state" where
  "init_theme media s =
     (let s = applyTheme (preference s) (osDark s) s
      in case media of None \<Rightarrow> s | Some b \<Rightarrow> s\<lparr>listening := True\<rparr>)"

definition on_os_change :: "bool \<Rightarrow> theme_state \<Rightarrow> theme_state option" where
  "on_os_change matches s =
     (if listening s then
        (let s = s\<lparr>osDark := matches\<rparr>
         in Some (if preference s = ''system'' then applyTheme ''system'' (osDark s) s else s))
      else None)"

datatype theme_event = SetTheme string | Toggle | OsChange bool

fun theme_step :: "theme_event \<Rightarrow> theme_state \<Rightarrow> theme_state option" where
  "theme_step (SetTheme p) s = (if p \<in> set theme_preferences then Some (set_theme p s) else None)"
| "theme_step Toggle s = Some (toggle s)"
| "theme_step (OsChange b) s = on_os_change b s"

subsection \<open>The password meter\<close>

definition lower_case :: "char \<Rightarrow> bool" where
  "lower_case c \<longleftrightarrow> (let n = of_char c :: nat in 97 \<le> n \<and> n \<le> 122)"

definition upper_case :: "char \<Rightarrow> bool" where
  "upper_case c \<longleftrightarrow> (let n = of_char c :: nat in 65 \<le> n \<and> n \<le> 90)"

definition digit :: "char \<Rightarrow> bool" where
  "digit c \<longleftrightarrow> (let n = of_char c :: nat in 48 \<le> n \<and> n \<le> 57)"

definition char_classes :: "string \<Rightarrow> nat" where
  "char_classes pw = length (filter (\<lambda>test. list_ex test pw)
     [lower_case, upper_case, digit, \<lambda>c. \<not> lower_case c \<and> \<not> upper_case c \<and> \<not> digit c])"

definition passwordStrength :: "string \<Rightarrow> nat" where
  "passwordStrength pw =
     (if pw = [] then 0
      else
       (let score = 0;
            score = (if length pw \<ge> 8 then score + 1 else score);
            score = (if length pw \<ge> 12 then score + 1 else score);
            classes = char_classes pw;
            score = (if classes \<ge> 2 then score + 1 else score);
            score = (if classes \<ge> 3 then score + 1 else score)
        in min score 4))"

subsection \<open>Lemmas\<close>

definition theme_inv :: "theme_state \<Rightarrow> bool" where
  "theme_inv s \<longleftrightarrow> preference s \<in> set theme_preferences \<and> data_theme s = Some (mode s)"

lemma set_theme_inv: "p \<in> set theme_preferences \<Longrightarrow> theme_inv (set_theme p s)"
  by (simp add: theme_inv_def set_theme_def applyTheme_def mode_def Let_def split: web_storage.split)

lemma theme_step_inv: "theme_inv s \<Longrightarrow> theme_step e s = Some s' \<Longrightarrow> theme_inv s'"
proof (induction e s rule: theme_step.induct)
  case (1 p s)
  then show ?case by (auto simp: set_theme_inv split: if_splits)
next
  case (2 s)
  then show ?case by (auto simp: toggle_def theme_preferences_def intro!: set_theme_inv)
next
  case (3 b s)
  then show ?case
    by (auto simp: on_os_change_def theme_inv_def applyTheme_def mode_def is_dark_def Let_def split: if_splits)
qed

interpretation theme: guarded_machine theme_step theme_inv
  by unfold_locales (rule theme_step_inv)

lemma readStored_ok: "readStored ws \<in> set theme_preferences"
  by (auto simp: readStored_def theme_preferences_def split: web_storage.split option.split)

lemma init_theme_inv:
  assumes "useThemeStore ws media = Inr s" shows "theme_inv (init_theme media' s)"
  using assms readStored_ok [of ws]
  by (auto simp: useThemeStore_def theme_inv_def init_theme_def applyTheme_def mode_def Let_def split: option.split)

lemma mode_cases: "mode s = ''dark'' \<or> mode s = ''light''"
  by (simp add: mode_def)

lemma char_classes_mono:
  assumes "set pw \<subseteq> set pw'" shows "char_classes pw \<le> char_classes pw'"
proof -
  have "list_ex test pw \<Longrightarrow> list_ex test pw'" for test
    using assms by (auto simp: list_ex_iff)
  then show ?thesis by (simp add: char_classes_def)
qed

lemma char_classes_le: "char_classes pw \<le> 4"
  unfolding char_classes_def by (rule order_trans [OF length_filter_le]) simp

subsection \<open>Properties\<close>

text \<open>What the page shows is what the store says: from any stored value on, through every sequence
  of choices, toggles and changes of the operating system, \<open>html[data-theme]\<close> is the effective
  mode; a toggle always flips it.\<close>

theorem theme_shown_is_mode:
  assumes "useThemeStore ws media = Inr s0" and "exec theme_step es (init_theme media' s0) = Some s"
  shows "data_theme s = Some (mode s) \<and> data_theme (toggle s) \<noteq> data_theme s"
proof -
  have "theme_inv s" using theme.exec_invar [OF init_theme_inv [OF assms(1)] assms(2)] .
  moreover from this have "theme_inv (toggle s)" by (auto intro: theme_step_inv [of s Toggle])
  moreover have "mode (toggle s) \<noteq> mode s"
    by (auto simp: toggle_def set_theme_def applyTheme_def mode_def is_dark_def Let_def split: web_storage.split)
  ultimately show ?thesis by (simp add: theme_inv_def)
qed

theorem theme_shown_is_mode_witness:
  "\<exists>s0 s. useThemeStore Unavailable (Some False) = Inr s0 \<and>
     exec theme_step [OsChange True, Toggle, SetTheme ''system''] (init_theme (Some False) s0) = Some s \<and>
     data_theme s = Some (mode s)"
proof -
  let ?es = "[OsChange True, Toggle, SetTheme ''system'']"
  obtain s0 where s0: "useThemeStore Unavailable (Some False) = Inr s0"
    by (simp add: useThemeStore_def systemPrefersDark_def)
  then have "\<exists>s. exec theme_step ?es (init_theme (Some False) s0) = Some s"
    by (auto simp: useThemeStore_def systemPrefersDark_def init_theme_def on_os_change_def applyTheme_def
        theme_preferences_def Let_def)
  then obtain s where s: "exec theme_step ?es (init_theme (Some False) s0) = Some s" ..
  from theme_shown_is_mode [OF s0 s] s0 s show ?thesis by blast
qed

text \<open>The strength score is between 0 and 4, 4 is reachable, and extending a password never lowers
  its score.\<close>

theorem passwordStrength_bounded_monotone:
  "passwordStrength pw \<le> 4 \<and> passwordStrength ''Abcdefgh1234'' = 4 \<and>
   passwordStrength pw \<le> passwordStrength (pre @ pw @ post)"
proof -
  have "char_classes pw \<le> char_classes (pre @ pw @ post)" by (rule char_classes_mono) auto
  then have "passwordStrength pw \<le> passwordStrength (pre @ pw @ post)"
    by (auto simp: passwordStrength_def Let_def)
  moreover have "passwordStrength ''Abcdefgh1234'' = 4"
    by (simp add: passwordStrength_def char_classes_def lower_case_def upper_case_def digit_def)
  ultimately show ?thesis by (simp add: passwordStrength_def Let_def)
qed

text \<open>The store itself is not protected against a media query that throws: \<open>init\<close> guards its own
  call, but setting up the store has already called \<open>systemPrefersDark\<close> and throws.\<close>

theorem theme_setup_not_guarded:
  "useThemeStore ws None = Inl TypeErr \<and> data_theme (init_theme None s) = Some (mode s)"
  by (simp add: useThemeStore_def systemPrefersDark_def init_theme_def applyTheme_def mode_def Let_def)

end
