(* ===== verification/AuthPages.thy ===== *)
theory AuthPages
  imports OauthPages Theme
begin

section \<open>The sign-in and account-recovery pages of the user portal\<close>

text \<open>
  The handlers of \<open>LoginPage.vue\<close>, \<open>RegisterPage.vue\<close>, \<open>ResetPasswordPage.vue\<close>, \<open>ForgotPasswordPage.vue\<close>
  and \<open>VerifyEmailPage.vue\<close>.  A page is the record of its refs; what it does to the browser
  location is the last navigation.  \<open>e.message\<close> of a caught error is the argument \<open>message_of\<close>,
  \<open>None\<close> for a value that is no \<open>Error\<close>.
\<close>

subsection \<open>LoginPage\<close>

datatype navigation = Push string | Href string

record 'w login_page =
  lp_session :: "'w session"
  lp_query :: jsval
  lp_username :: string
  lp_password :: string
  lp_mfaCode :: string
  lp_mfaToken :: jsval
  lp_showMfa :: bool
  lp_showPasswordChange :: bool
  lp_oldPassword :: string
  lp_newPassword :: string
  lp_confirmPassword :: string
  lp_passwordChangeError :: string
  lp_passwordChangeBusy :: bool
  lp_passwordChangeDone :: bool
  lp_externalProviders :: jsval
  lp_clientName :: jsval
  lp_goto :: "navigation option"

definition login_setup :: "jsval \<Rightarrow> 'w session \<Rightarrow> 'w login_page" where
  "login_setup query s =
     \<lparr>lp_session = s, lp_query = query, lp_username = [], lp_password = [], lp_mfaCode = [], lp_mfaToken = JStr [],
      lp_showMfa = False, lp_showPasswordChange = (getprop query ''must_change_password'' = JStr ''1''),
      lp_oldPassword = [], lp_newPassword = [], lp_confirmPassword = [], lp_passwordChangeError = [],
      lp_passwordChangeBusy = False, lp_passwordChangeDone = False, lp_externalProviders = JArr [],
      lp_clientName = JStr [], lp_goto = None\<rparr>"

definition passwordChangedNotice :: "jsval \<Rightarrow> bool" where
  "passwordChangedNotice query = (getprop query ''pw_changed'' = JStr ''1'')"

text \<open>The social buttons, over the list the server sent.\<close>

definition provider_url :: "jsval list \<Rightarrow> string \<Rightarrow> jsval" where
  "provider_url ps name = (case find (\<lambda>p. getprop p ''provider'' = JStr name) ps of
     Some p \<Rightarrow> coalesce (getprop p ''authorize_url'') (JStr []) | None \<Rightarrow> JStr [])"

definition wechatEnabled :: "jsval list \<Rightarrow> bool" where
  "wechatEnabled ps = (\<exists>p \<in> set ps. getprop p ''provider'' = JStr ''wechat'')"

definition login_mounted :: "'w api \<Rightarrow> 'w login_page \<Rightarrow> 'w login_page" where
  "login_mounted api lp =
     (let run = (\<lambda>op p. case op p of (Inr v, p') \<Rightarrow> (Some v, p') | (Inl e, p') \<Rightarrow> (None, p'));
          s = lp_session lp;
          clientId = or_empty (getprop (lp_query lp) ''client_id'') in
      case run (listExternalProviders api) (ss_portal s) of
        (ps, p1) \<Rightarrow>
          (let lp = lp\<lparr>lp_session := s\<lparr>ss_portal := p1\<rparr>,
                       lp_externalProviders := (case ps of Some v \<Rightarrow> v | None \<Rightarrow> lp_externalProviders lp)\<rparr> in
           if \<not> truthy clientId then lp
           else (case run (getAuthorizeContext api (js_String clientId)) p1 of
                   (name, p2) \<Rightarrow> lp\<lparr>lp_session := s\<lparr>ss_portal := p2\<rparr>,
                     lp_clientName := (case name of Some v \<Rightarrow> v | None \<Rightarrow> lp_clientName lp)\<rparr>)))"

definition AUTHORIZE_CARRY_KEYS :: "string list" where
  "AUTHORIZE_CARRY_KEYS =
     [''client_id'', ''redirect_uri'', ''scope'', ''state'', ''response_type'',
      ''code_challenge'', ''code_challenge_method'', ''nonce'', ''org_id'']"

definition carried :: "jsval \<Rightarrow> params" where
  "carried query = fold (\<lambda>key ps. case getprop query key of
     JStr v \<Rightarrow> if v \<noteq> [] then params_set key v ps else ps | _ \<Rightarrow> ps) AUTHORIZE_CARRY_KEYS []"

definition resumeAuthorizeFlow :: "jsval \<Rightarrow> string option" where
  "resumeAuthorizeFlow query =
     (if query_text query ''client_id'' = [] \<or> query_text query ''response_type'' = [] then None
      else Some (''/oauth2/authorize?'' @ params_toString (carried query)))"

definition navigateAfterLogin :: "jsval \<Rightarrow> navigation" where
  "navigateAfterLogin query =
     (if query_text query ''redirect'' \<noteq> [] then Push (query_text query ''redirect'')
      else (case resumeAuthorizeFlow query of Some url \<Rightarrow> Href url | None \<Rightarrow> Push ''/''))"

definition handleLogin ::
    "portal_env \<Rightarrow> digest \<Rightarrow> random \<Rightarrow> string \<Rightarrow> 'w api \<Rightarrow> string \<Rightarrow> 'w login_page \<Rightarrow> 'w login_page" where
  "handleLogin env sha256 rnd uuid api cur lp =
     (case store_login env sha256 rnd uuid api cur (lp_username lp) (lp_password lp) (lp_session lp) of
        (r, s) \<Rightarrow>
          (let lp = lp\<lparr>lp_session := s\<rparr> in
           case r of
             Result (MfaRequired tok) \<Rightarrow> lp\<lparr>lp_mfaToken := tok, lp_showMfa := True\<rparr>
           | Result PasswordChangeRequired \<Rightarrow>
               lp\<lparr>lp_oldPassword := lp_password lp, lp_password := [], lp_showPasswordChange := True\<rparr>
           | Result Success \<Rightarrow> lp\<lparr>lp_goto := Some (navigateAfterLogin (lp_query lp))\<rparr>
           | Result (MfaSuccess n) \<Rightarrow> lp\<lparr>lp_goto := Some (navigateAfterLogin (lp_query lp))\<rparr>
           | _ \<Rightarrow> lp))"

definition flag_exhausted :: "'w session \<Rightarrow> 'w session" where
  "flag_exhausted s = (let p = ss_portal s; h = p_http p in
     s\<lparr>ss_portal := p\<lparr>p_http := h\<lparr>localStorage := setItem ''fulla_mfa_backup_exhausted'' ''1'' (localStorage h)\<rparr>\<rparr>\<rparr>)"

definition handleMfa :: "portal_env \<Rightarrow> 'w api \<Rightarrow> string \<Rightarrow> 'w login_page \<Rightarrow> 'w login_page" where
  "handleMfa env api cur lp =
     (case store_verifyMfa env api cur (js_String (lp_mfaToken lp)) (lp_mfaCode lp) (lp_session lp) of
        (r, s) \<Rightarrow>
          (case r of
             Result (MfaSuccess n) \<Rightarrow>
               lp\<lparr>lp_session := (if n = Some 0 then flag_exhausted s else s),
                  lp_goto := Some (navigateAfterLogin (lp_query lp))\<rparr>
           | Result Success \<Rightarrow> lp\<lparr>lp_session := s, lp_goto := Some (navigateAfterLogin (lp_query lp))\<rparr>
           | _ \<Rightarrow> lp\<lparr>lp_session := s\<rparr>))"

definition handlePasswordChange ::
    "translate \<Rightarrow> (failure \<Rightarrow> string option) \<Rightarrow> 'w api \<Rightarrow> 'w login_page \<Rightarrow> 'w login_page" where
  "handlePasswordChange t message_of api lp =
     (let lp = lp\<lparr>lp_passwordChangeError := []\<rparr> in
      if lp_newPassword lp \<noteq> lp_confirmPassword lp
      then lp\<lparr>lp_passwordChangeError := t ''auth.login.passwordChange.mismatch'' []\<rparr>
      else (case changePasswordForced api (lp_oldPassword lp) (lp_newPassword lp) (ss_portal (lp_session lp)) of
          (r, p) \<Rightarrow>
            (let lp = lp\<lparr>lp_session := (lp_session lp)\<lparr>ss_portal := p\<rparr>, lp_passwordChangeBusy := False\<rparr> in
             case r of
               Inr _ \<Rightarrow> lp\<lparr>lp_passwordChangeDone := True\<rparr>
             | Inl e \<Rightarrow> lp\<lparr>lp_passwordChangeError := (case message_of e of
                  Some m \<Rightarrow> m | None \<Rightarrow> t ''auth.login.passwordChange.failed'' [])\<rparr>)))"

subsection \<open>Register and reset\<close>

text \<open>The refs the two forms share; the token is the reset page's.\<close>

record form_page =
  fp_username :: string
  fp_email :: string
  fp_password :: string
  fp_confirm :: string
  fp_token :: jsval
  fp_error :: jsval
  fp_loading :: bool
  fp_success :: bool
  fp_timer :: "(string \<times> nat) option"

definition strength :: "form_page \<Rightarrow> nat" where
  "strength fp = passwordStrength (fp_password fp)"

definition password_problem :: "translate \<Rightarrow> form_page \<Rightarrow> string option" where
  "password_problem t fp =
     (if fp_password fp \<noteq> fp_confirm fp then Some (t ''common.passwordsDoNotMatch'' [])
      else if length (fp_password fp) < 8 then Some (t ''common.passwordMinLength'' [])
      else None)"

text \<open>\<open>loading\<close> is set for the time of the request and reset in the \<open>finally\<close>; a timer is a pending
  \<open>router.push\<close> with its delay.\<close>

definition submit :: "'w api \<Rightarrow> string \<Rightarrow> (string \<times> nat) option \<Rightarrow> api_call \<Rightarrow> form_page \<Rightarrow> 'w \<Rightarrow> form_page \<times> 'w" where
  "submit api cur timer c fp w = (case api c w of
     (AxOk data, w') \<Rightarrow> (fp\<lparr>fp_success := True, fp_timer := timer, fp_loading := False\<rparr>, w')
   | (r, w') \<Rightarrow> (fp\<lparr>fp_error := normalizeError cur (thrown_value (Failed r)) JUndef, fp_loading := False\<rparr>, w'))"

definition handleRegister :: "translate \<Rightarrow> 'w api \<Rightarrow> string \<Rightarrow> form_page \<Rightarrow> 'w \<Rightarrow> form_page \<times> 'w" where
  "handleRegister t api cur fp w =
     (let fp = fp\<lparr>fp_error := JNull\<rparr> in
      case password_problem t fp of
        Some msg \<Rightarrow> (fp\<lparr>fp_error := JStr msg\<rparr>, w)
      | None \<Rightarrow> submit api cur None (post_form ''/api/register''
          [(''username'', fp_username fp), (''password'', fp_password fp), (''email'', fp_email fp)]) fp w)"

definition reset_setup :: "jsval \<Rightarrow> form_page" where
  "reset_setup query = \<lparr>fp_username = [], fp_email = [], fp_password = [], fp_confirm = [],
     fp_token = or_empty (getprop query ''token''), fp_error = JNull, fp_loading = False, fp_success = False, fp_timer = None\<rparr>"

definition handleReset :: "translate \<Rightarrow> 'w api \<Rightarrow> string \<Rightarrow> form_page \<Rightarrow> 'w \<Rightarrow> form_page \<times> 'w" where
  "handleReset t api cur fp w =
     (case password_problem t fp of
        Some msg \<Rightarrow> (fp\<lparr>fp_error := JStr msg\<rparr>, w)
      | None \<Rightarrow> submit api cur (Some (''/login'', 3000)) (send_json ''POST'' ''/api/password-reset/confirm''
          (JObj [(''token'', fp_token fp), (''new_password'', JStr (fp_password fp))])) (fp\<lparr>fp_error := JNull\<rparr>) w)"

subsection \<open>Forgotten password and e-mail verification\<close>

record forgot_page =
  fg_email :: string
  fg_loading :: bool
  fg_sent :: bool
  fg_error :: string

definition handleSubmit :: "'w api \<Rightarrow> forgot_page \<Rightarrow> 'w \<Rightarrow> forgot_page \<times> 'w" where
  "handleSubmit api fg w =
     (case api (send_json ''POST'' ''/api/password-reset/request'' (JObj [(''email'', JStr (fg_email fg))])) w of
        (AxOk data, w') \<Rightarrow> (fg\<lparr>fg_error := [], fg_sent := True, fg_loading := False\<rparr>, w')
      | (r, w') \<Rightarrow> (fg\<lparr>fg_error := [], fg_sent := True, fg_loading := False\<rparr>, w'))"

datatype verify_status = VLoading | VSuccess | VError

record verify_page =
  vp_status :: verify_status
  vp_message :: jsval

definition verify_mounted :: "translate \<Rightarrow> 'w api \<Rightarrow> string \<Rightarrow> jsval \<Rightarrow> verify_page \<Rightarrow> 'w \<Rightarrow> verify_page \<times> 'w" where
  "verify_mounted t api cur query vp w =
     (let token = getprop query ''token'' in
      if \<not> truthy token then (vp\<lparr>vp_status := VError, vp_message := JStr (t ''auth.verify.missingToken'' [])\<rparr>, w)
      else (case api (plain_call ''GET'' (''/api/verify-email?token='' @ encodeURIComponent (js_String token))) w of
          (AxOk data, w') \<Rightarrow>
            (vp\<lparr>vp_status := VSuccess, vp_message := js_or (getprop data ''message'') (JStr (t ''auth.verify.successDefault'' []))\<rparr>, w')
        | (r, w') \<Rightarrow> (vp\<lparr>vp_status := VError, vp_message := normalizeError cur (thrown_value (Failed r)) JUndef\<rparr>, w')))"

subsection \<open>Properties\<close>

lemma carried_get:
  "params_get (carried query) k =
     (if k \<in> set AUTHORIZE_CARRY_KEYS \<and> query_text query k \<noteq> [] then Some (query_text query k) else None)"
proof -
  let ?f = "\<lambda>key ps. case getprop query key of JStr v \<Rightarrow> if v \<noteq> [] then params_set key v ps else ps | _ \<Rightarrow> ps"
  have step: "params_get (?f key ps) k = (if k = key \<and> query_text query key \<noteq> [] then Some (query_text query key) else params_get ps k)"
    for key ps by (auto simp: params_store.lookup_store split: jsval.split)
  have "params_get (fold ?f keys ps) k =
      (if k \<in> set keys \<and> query_text query k \<noteq> [] then Some (query_text query k) else params_get ps k)" for keys ps
    by (induction keys arbitrary: ps) (auto simp: step simp del: jsval.case)
  then show ?thesis by (simp add: carried_def params_get_def)
qed

text \<open>A login in the middle of an authorization flow resumes it: the server reads from the rebuilt authorize
  URL exactly the request parameters that came with the login page, each unchanged, and
  nothing else.\<close>

theorem resume_authorize_roundtrip:
  assumes "resumeAuthorizeFlow query = Some url"
  shows "\<exists>q. url = ''/oauth2/authorize?'' @ q \<and>
     params_get (parse_params q) k =
       (if k \<in> set AUTHORIZE_CARRY_KEYS \<and> query_text query k \<noteq> [] then Some (query_text query k) else None)"
  using assms carried_get [of query k]
  by (intro exI [of _ "params_toString (carried query)"]) (simp add: resumeAuthorizeFlow_def split: if_splits)

definition demo_query :: jsval where
  "demo_query = JObj [(''client_id'', JStr ''app''), (''response_type'', JStr ''code''), (''org_id'', JStr ''a&b''), (''x'', JStr ''y'')]"

theorem resume_authorize_roundtrip_witness:
  "\<exists>q. resumeAuthorizeFlow demo_query = Some (''/oauth2/authorize?'' @ q) \<and>
     params_get (parse_params q) ''org_id'' = Some ''a&b''"
proof -
  have "\<exists>url. resumeAuthorizeFlow demo_query = Some url"
    by (simp add: resumeAuthorizeFlow_def demo_query_def)
  then obtain url where u: "resumeAuthorizeFlow demo_query = Some url" ..
  with resume_authorize_roundtrip [OF u, of "''org_id''"] show ?thesis
    by (auto simp: demo_query_def AUTHORIZE_CARRY_KEYS_def)
qed

lemma flag_exhausted_store [simp]: "ss_store (flag_exhausted s) = ss_store s"
  by (simp add: flag_exhausted_def Let_def)

lemma sign_in_authenticated:
  assumes "sign_in api cur attempt s = (Result res, s')" and "is_success res"
  shows "isAuthenticated (ss_store s')"
  using assms
  by (auto simp: sign_in_def fetchUser_def markAuthenticated_def isAuthenticated_def Let_def split: prod.splits sum.splits)

text \<open>The login page leaves for the application only after a completed sign-in: while a second factor or a
  password change is outstanding, or after an error, it stays; when it leaves, the store is
  authenticated and the target is the one of the query.\<close>

theorem login_page_leaves_authenticated:
  assumes "lp_goto lp = None" and "lp' \<in> {handleLogin env sha256 rnd uuid api cur lp, handleMfa env api cur lp}"
    and "lp_goto lp' \<noteq> None"
  shows "isAuthenticated (ss_store (lp_session lp')) \<and> lp_goto lp' = Some (navigateAfterLogin (lp_query lp))"
proof -
  obtain r1 s1 where r1: "store_login env sha256 rnd uuid api cur (lp_username lp) (lp_password lp) (lp_session lp) = (r1, s1)"
    by fastforce
  obtain r2 s2 where r2: "store_verifyMfa env api cur (js_String (lp_mfaToken lp)) (lp_mfaCode lp) (lp_session lp) = (r2, s2)"
    by fastforce
  have 1: "isAuthenticated (ss_store s1)" if "r1 = Result res" "is_success res" for res
    using r1 that by (auto simp: store_login_def intro: sign_in_authenticated)
  have 2: "isAuthenticated (ss_store s2)" if "r2 = Result res" "is_success res" for res
    using r2 that by (auto simp: store_verifyMfa_def intro: sign_in_authenticated)
  from assms(2) consider "lp' = handleLogin env sha256 rnd uuid api cur lp" | "lp' = handleMfa env api cur lp" by blast
  then show ?thesis
  proof cases
    assume "lp' = handleLogin env sha256 rnd uuid api cur lp"
    with assms(1,3) r1 1 show ?thesis
      by (auto simp: handleLogin_def Let_def split: store_result.splits login_result.splits)
  next
    assume "lp' = handleMfa env api cur lp"
    with assms(1,3) r2 2 show ?thesis
      by (auto simp: handleMfa_def split: store_result.splits login_result.splits)
  qed
qed

definition granting :: "unit api" where
  "granting c w = (AxOk (JObj [(''access_token'', JStr ''a'')]), w)"

definition demo_login :: "unit login_page" where
  "demo_login = login_setup (JObj []) \<lparr>ss_portal = \<lparr>p_http = load_http Map.empty ''login'' None, p_session = Available Map.empty, p_world = ()\<rparr>,
     ss_store = useAuthStore (load_http Map.empty ''login'' None)\<rparr>"

theorem login_page_leaves_authenticated_witness:
  "lp_goto (handleMfa demo_env granting ''en'' demo_login) = Some (Push ''/'') \<and>
   isAuthenticated (ss_store (lp_session (handleMfa demo_env granting ''en'' demo_login)))"
proof -
  let ?lp = "handleMfa demo_env granting ''en'' demo_login"
  have "\<exists>p. authService_verifyMfa demo_env granting (js_String (lp_mfaToken demo_login)) (lp_mfaCode demo_login)
      (ss_portal (lp_session demo_login)) = (Inr (MfaSuccess None), p)"
    by (simp add: authService_verifyMfa_def and_then_def send_call_def granting_def member_def get_member_def clearPkceStash_def
        return_op_def demo_login_def login_setup_def proto_member_def object_prototype_def Let_def)
  then have "lp_goto ?lp \<noteq> None"
    by (auto simp: handleMfa_def store_verifyMfa_def sign_in_def Let_def)
  moreover have "lp_goto demo_login = None" "navigateAfterLogin (lp_query demo_login) = Push ''/''"
    by (simp_all add: demo_login_def login_setup_def navigateAfterLogin_def resumeAuthorizeFlow_def proto_member_def object_prototype_def)
  ultimately show ?thesis
    using login_page_leaves_authenticated [of demo_login ?lp demo_env "\<lambda>_. []" "\<lambda>_. []" "''u''" granting "''en''"] by auto
qed

lemma normalized_not_null: "\<not> isNormalizedError v \<Longrightarrow> normalizeError cur v JUndef \<noteq> JNull"
  using normalize_shaped [of v getErrorMessage JUndef cur] by (auto simp: normalizeError_def shaped_def NormalizedError_def)

lemma password_problem_error [simp]: "password_problem t (fp\<lparr>fp_error := e\<rparr>) = password_problem t fp"
  by (simp add: password_problem_def)

lemma request_error_not_null [simp]:
  "normalizeError cur (http_error st data) JUndef \<noteq> JNull"
  "normalizeError cur (JObj [(''message'', JStr ''Network Error'')]) JUndef \<noteq> JNull"
  by (rule normalized_not_null,
      simp add: http_error_def isNormalizedError_def NORMALIZED_BRAND_def proto_member_def object_prototype_def)+

text \<open>The password forms send a request exactly when the two entries agree and have eight characters or more;
  success is shown exactly when the server accepted, a refusal shows its error, and neither
  form keeps its busy state.\<close>

theorem password_forms_guarded:
  assumes "handle \<in> {handleRegister t (logged_api api) cur, handleReset t (logged_api api) cur}"
    and "handle fp (log, w) = (fp', (log', w'))" and "\<not> fp_success fp" and "\<not> fp_loading fp"
  shows "\<not> fp_loading fp' \<and>
     (if fp_password fp = fp_confirm fp \<and> 8 \<le> length (fp_password fp)
      then \<exists>c. log' = log @ [c] \<and> (fp_success fp' \<longleftrightarrow> (\<exists>data. fst (api c w) = AxOk data)) \<and>
             (fp_error fp' = JNull \<longleftrightarrow> fp_success fp')
      else log' = log \<and> \<not> fp_success fp' \<and> fp_error fp' \<noteq> JNull)"
proof -
  have sub: "\<not> fp_loading (fst (submit (logged_api api) cur timer c x (log, w))) \<and>
      fst (snd (submit (logged_api api) cur timer c x (log, w))) = log @ [c] \<and>
      (fp_success (fst (submit (logged_api api) cur timer c x (log, w))) \<longleftrightarrow> (\<exists>data. fst (api c w) = AxOk data)) \<and>
      (fp_error (fst (submit (logged_api api) cur timer c x (log, w))) = JNull \<longleftrightarrow>
        fp_success (fst (submit (logged_api api) cur timer c x (log, w))))"
    if "\<not> fp_success x" "fp_error x = JNull" for timer c x
    using that by (auto simp: submit_def logged_api_def split: prod.split ax_result.split)
  show ?thesis
  proof (cases "password_problem t fp")
    case None
    moreover from None have "fp_password fp = fp_confirm fp \<and> 8 \<le> length (fp_password fp)"
      by (auto simp: password_problem_def split: if_splits)
    moreover from assms(1,2) None obtain timer c where
      "submit (logged_api api) cur timer c (fp\<lparr>fp_error := JNull\<rparr>) (log, w) = (fp', (log', w'))"
      by (auto simp: handleRegister_def handleReset_def Let_def)
    ultimately show ?thesis using sub [of "fp\<lparr>fp_error := JNull\<rparr>" timer c] assms(3) by auto
  next
    case (Some msg)
    moreover from Some have "\<not> (fp_password fp = fp_confirm fp \<and> 8 \<le> length (fp_password fp))"
      by (auto simp: password_problem_def split: if_splits)
    ultimately show ?thesis using assms
      by (auto simp: handleRegister_def handleReset_def Let_def)
  qed
qed

theorem password_forms_guarded_witness:
  "\<exists>fp' log' w'. handleReset (\<lambda>k _. k) (logged_api demo_api) ''en''
       ((reset_setup (JObj []))\<lparr>fp_password := ''longenough'', fp_confirm := ''longenough''\<rparr>) ([], ()) = (fp', (log', w')) \<and>
     length log' = 1"
proof -
  let ?fp = "(reset_setup (JObj []))\<lparr>fp_password := ''longenough'', fp_confirm := ''longenough''\<rparr>"
  obtain fp' log' w' where r: "handleReset (\<lambda>k _. k) (logged_api demo_api) ''en'' ?fp ([], ()) = (fp', (log', w'))"
    by (metis prod.exhaust)
  from password_forms_guarded [where handle = "handleReset (\<lambda>k _. k) (logged_api demo_api) ''en''" and t = "\<lambda>k _. k" and api = demo_api and cur = "''en''", OF _ r] r show ?thesis by (auto simp: reset_setup_def)
qed

text \<open>Asking for a password reset shows the same page whatever the server answers, so the form tells nobody
  whether an account exists.\<close>

theorem forgot_password_reveals_nothing:
  "fst (handleSubmit api fg w) = fst (handleSubmit api' fg w') \<and> fg_sent (fst (handleSubmit api fg w)) \<and>
   \<not> fg_loading (fst (handleSubmit api fg w))"
  by (auto simp: handleSubmit_def split: prod.split ax_result.split)

end
