(* ===== verification/AccountPages.thy ===== *)
theory AccountPages
  imports AuthPages
begin

section \<open>The account pages of the user portal\<close>

text \<open>
  The handlers of \<open>SecurityPage.vue\<close> (password, second factor, social links, passkeys, account deletion),
  \<open>ProfilePage.vue\<close> and \<open>AuthorizedAppsPage.vue\<close>.  Every handler runs to its end: requests it starts
  without \<open>await\<close> are settled in the order it starts them, and they write different refs.  The
  timers that blank a success message are not run.  The WebAuthn call of the browser and
  today's date are arguments.
\<close>

subsection \<open>Shared pieces\<close>

text \<open>The confirm dialog of the destructive actions.\<close>

record 'act confirm =
  cf_open :: bool
  cf_message :: string
  cf_action :: "'act option"

definition askConfirm :: "string \<Rightarrow> 'act \<Rightarrow> 'act confirm \<Rightarrow> 'act confirm" where
  "askConfirm message action cf = cf\<lparr>cf_message := message, cf_action := Some action, cf_open := True\<rparr>"

definition take_confirm :: "'act confirm \<Rightarrow> 'act option \<times> 'act confirm" where
  "take_confirm cf = (cf_action cf, cf\<lparr>cf_open := False, cf_action := None\<rparr>)"

definition request :: "'w api \<Rightarrow> api_call \<Rightarrow> 'w \<Rightarrow> (failure + jsval) \<times> 'w" where
  "request api c w = (case api c w of (AxOk data, w') \<Rightarrow> (Inr data, w') | (r, w') \<Rightarrow> (Inl (Failed r), w'))"

abbreviation normalized :: "string \<Rightarrow> failure \<Rightarrow> jsval" where
  "normalized cur e \<equiv> normalizeError cur (thrown_value e) JUndef"

subsection \<open>SecurityPage\<close>

datatype security_action = UnlinkSocial string string

record 'w security =
  se_session :: "'w session"
  se_loading :: bool
  se_profile :: jsval
  se_success :: string
  se_error :: jsval
  se_backupCodesExhausted :: bool
  se_oldPassword :: string
  se_newPassword :: string
  se_confirmNewPassword :: string
  se_changingPassword :: bool
  se_mfaSetupData :: jsval
  se_mfaVerifyCode :: string
  se_settingUpMfa :: bool
  se_disablingMfa :: bool
  se_disablePassword :: string
  se_backupCodes :: jsval
  se_showBackupCodes :: bool
  se_socialLinks :: jsval
  se_socialLinksLoaded :: bool
  se_unlinkingProvider :: string
  se_linkingProvider :: string
  se_confirm :: "security_action confirm"
  se_deleteConfirmUsername :: string
  se_deletingAccount :: bool
  se_webauthnCredentials :: jsval
  se_registeringPasskey :: bool
  se_passkeyName :: string
  se_alert :: "string option"
  se_goto :: "navigation option"

definition se_call :: "'w api \<Rightarrow> api_call \<Rightarrow> 'w security \<Rightarrow> (failure + jsval) \<times> 'w security" where
  "se_call api c se = (let s = se_session se; p = ss_portal s in
     case request api c (p_world p) of
       (r, w) \<Rightarrow> (r, se\<lparr>se_session := s\<lparr>ss_portal := p\<lparr>p_world := w\<rparr>\<rparr>\<rparr>))"

definition showSuccess :: "string \<Rightarrow> 'w security \<Rightarrow> 'w security" where
  "showSuccess msg se = se\<lparr>se_success := msg, se_error := JNull\<rparr>"

definition showError :: "jsval \<Rightarrow> 'w security \<Rightarrow> 'w security" where
  "showError msg se = se\<lparr>se_error := msg, se_success := []\<rparr>"

definition providerLabel :: "string \<Rightarrow> string" where
  "providerLabel provider = (let labels = JObj [(''github'', JStr ''GitHub''), (''google'', JStr ''Google''), (''wechat'', JStr ''WeChat'')]
     in js_String (js_or (getprop labels provider) (JStr provider)))"

definition set_session_item :: "string \<Rightarrow> string \<Rightarrow> 'w security \<Rightarrow> (js_throw + 'w security)" where
  "set_session_item k v se = (let s = se_session se; p = ss_portal s in
     case p_session p of
       Unavailable \<Rightarrow> Inl storage_denied
     | Available m \<Rightarrow> Inr (se\<lparr>se_session := s\<lparr>ss_portal := p\<lparr>p_session := Available (setItem k v m)\<rparr>\<rparr>\<rparr>))"

text \<open>\<open>beginSocialLink\<close>: the reply is destructured, so a \<open>null\<close> body throws as well.\<close>

definition security_beginSocialLink :: "'w api \<Rightarrow> string \<Rightarrow> string \<Rightarrow> 'w security \<Rightarrow> 'w security" where
  "security_beginSocialLink api cur provider se =
     (if se_linkingProvider se \<noteq> [] then se
      else
       (let alert = (\<lambda>e x. x\<lparr>se_alert := Some (js_String (getprop (normalized cur e) ''message'')), se_linkingProvider := []\<rparr>) in
        case se_call api (send_json ''POST'' (social_link_url provider @ ''/authorize'') (JObj [])) se of
          (Inl e, se) \<Rightarrow> alert e se
        | (Inr data, se) \<Rightarrow>
            if nullish data then alert (Threw TypeErr) se
            else (case set_session_item ''social_link_flow'' provider se of
                    Inl e \<Rightarrow> alert (Threw e) se
                  | Inr se \<Rightarrow> se\<lparr>se_goto := Some (Href (js_String (getprop data ''authorize_url''))), se_linkingProvider := []\<rparr>)))"

definition fetchSocialLinks :: "'w api \<Rightarrow> 'w security \<Rightarrow> 'w security" where
  "fetchSocialLinks api se =
     (case getSocialLinks api (ss_portal (se_session se)) of
        (r, p) \<Rightarrow> se\<lparr>se_session := (se_session se)\<lparr>ss_portal := p\<rparr>, se_socialLinksLoaded := True,
          se_socialLinks := (case r of Inr links \<Rightarrow> links | Inl e \<Rightarrow> JArr [])\<rparr>)"

definition unlinkSocial :: "translate \<Rightarrow> string \<Rightarrow> 'w security \<Rightarrow> 'w security" where
  "unlinkSocial t provider se = (let label = providerLabel provider in
     se\<lparr>se_confirm := askConfirm (t ''account.security.social.unlinkConfirm'' [(''provider'', label)])
          (UnlinkSocial provider label) (se_confirm se)\<rparr>)"

definition run_unlink :: "translate \<Rightarrow> 'w api \<Rightarrow> string \<Rightarrow> string \<Rightarrow> string \<Rightarrow> 'w security \<Rightarrow> 'w security" where
  "run_unlink t api cur provider label se =
     (case se_call api (plain_call ''DELETE'' (social_link_url provider)) se of
        (Inr data, se) \<Rightarrow>
          (fetchSocialLinks api (showSuccess (t ''account.security.social.unlinked'' [(''provider'', label)]) se))\<lparr>se_unlinkingProvider := []\<rparr>
      | (Inl e, se) \<Rightarrow> (showError (normalized cur e) se)\<lparr>se_unlinkingProvider := []\<rparr>)"

definition security_runConfirm :: "translate \<Rightarrow> 'w api \<Rightarrow> string \<Rightarrow> 'w security \<Rightarrow> 'w security" where
  "security_runConfirm t api cur se = (case take_confirm (se_confirm se) of
     (act, cf) \<Rightarrow> (let se = se\<lparr>se_confirm := cf\<rparr> in
       case act of None \<Rightarrow> se | Some (UnlinkSocial provider label) \<Rightarrow> run_unlink t api cur provider label se))"

definition fetchWebauthnCredentials :: "'w api \<Rightarrow> 'w security \<Rightarrow> 'w security" where
  "fetchWebauthnCredentials api se =
     (case se_call api (plain_call ''GET'' ''/api/me/webauthn/credentials'') se of
        (Inr data, se) \<Rightarrow> if nullish data then se
          else se\<lparr>se_webauthnCredentials := js_or (getprop data ''credentials'') (js_or data (JArr []))\<rparr>
      | (Inl e, se) \<Rightarrow> se)"

definition security_fetchProfile :: "bool \<Rightarrow> 'w api \<Rightarrow> 'w security \<Rightarrow> 'w security" where
  "security_fetchProfile webauthnSupported api se =
     (case se_call api (plain_call ''GET'' ''/api/me'') se of
        (Inr data, se) \<Rightarrow>
          (let se = se\<lparr>se_profile := data\<rparr>;
               se = (if webauthnSupported then fetchWebauthnCredentials api se else se)
           in fetchSocialLinks api (se\<lparr>se_loading := False\<rparr>))
      | (Inl e, se) \<Rightarrow> fetchSocialLinks api (se\<lparr>se_loading := False\<rparr>))"

text \<open>\<open>auth.logoutLocal()\<close> on the session of the page.\<close>

definition drop_session :: "'w session \<Rightarrow> 'w session" where
  "drop_session s = (let p = ss_portal s in
     s\<lparr>ss_portal := p\<lparr>p_http := clearTokens (p_http p)\<rparr>, ss_store := logoutLocal (ss_store s)\<rparr>)"

definition security_changePassword :: "translate \<Rightarrow> 'w api \<Rightarrow> string \<Rightarrow> 'w security \<Rightarrow> 'w security" where
  "security_changePassword t api cur se =
     (if se_newPassword se \<noteq> se_confirmNewPassword se then showError (JStr (t ''common.passwordsDoNotMatch'' [])) se
      else if length (se_newPassword se) < 8 then showError (JStr (t ''common.passwordMinLength'' [])) se
      else (case se_call api (send_json ''PUT'' ''/api/me/password''
                (JObj [(''old_password'', JStr (se_oldPassword se)), (''new_password'', JStr (se_newPassword se))])) se of
          (Inr data, se) \<Rightarrow>
            se\<lparr>se_session := drop_session (se_session se), se_oldPassword := [], se_newPassword := [], se_confirmNewPassword := [],
               se_goto := Some (Push ''/login?pw_changed=1''), se_changingPassword := False\<rparr>
        | (Inl e, se) \<Rightarrow> (showError (normalized cur e) se)\<lparr>se_changingPassword := False\<rparr>))"

definition security_setupMfa :: "'w api \<Rightarrow> string \<Rightarrow> 'w security \<Rightarrow> 'w security" where
  "security_setupMfa api cur se =
     (case se_call api (plain_call ''POST'' ''/api/me/mfa/setup'') (se\<lparr>se_settingUpMfa := True\<rparr>) of
        (Inr data, se) \<Rightarrow> se\<lparr>se_mfaSetupData := data\<rparr>
      | (Inl e, se) \<Rightarrow> (showError (normalized cur e) se)\<lparr>se_settingUpMfa := False\<rparr>)"

definition has_length :: "jsval \<Rightarrow> bool" where
  "has_length v = (case getprop v ''length'' of JNum n \<Rightarrow> n > 0 | _ \<Rightarrow> False)"

definition security_verifyMfaSetup :: "translate \<Rightarrow> bool \<Rightarrow> 'w api \<Rightarrow> string \<Rightarrow> 'w security \<Rightarrow> 'w security" where
  "security_verifyMfaSetup t webauthnSupported api cur se =
     (case se_call api (post_form ''/api/me/mfa/verify'' [(''code'', se_mfaVerifyCode se)]) se of
        (Inr data, se) \<Rightarrow>
          (let codes = js_or (getprop data ''backup_codes'') (JArr []);
               se = se\<lparr>se_mfaSetupData := JNull, se_settingUpMfa := False, se_mfaVerifyCode := []\<rparr>;
               se = (if has_length codes then se\<lparr>se_backupCodes := codes, se_showBackupCodes := True\<rparr>
                     else showSuccess (t ''account.security.mfa.enabledSuccess'' []) se)
           in security_fetchProfile webauthnSupported api se)
      | (Inl e, se) \<Rightarrow> showError (normalized cur e) se)"

definition dismissBackupCodes :: "translate \<Rightarrow> 'w security \<Rightarrow> 'w security" where
  "dismissBackupCodes t se = showSuccess (t ''account.security.mfa.enabledSuccess'' [])
     (se\<lparr>se_showBackupCodes := False, se_backupCodes := JArr []\<rparr>)"

text \<open>What is copied and downloaded.\<close>

definition backup_text :: "'w security \<Rightarrow> string" where
  "backup_text se = (case se_backupCodes se of
     JArr xs \<Rightarrow> join_with [CHR 0x0A] (map (\<lambda>v. if nullish v then [] else js_String v) xs) | v \<Rightarrow> js_String v)"

definition security_disableMfa :: "translate \<Rightarrow> bool \<Rightarrow> 'w api \<Rightarrow> string \<Rightarrow> 'w security \<Rightarrow> 'w security" where
  "security_disableMfa t webauthnSupported api cur se =
     (if se_disablePassword se = [] then showError (JStr (t ''account.security.mfa.passwordRequired'' [])) se
      else (case se_call api (post_form ''/api/me/mfa/disable'' [(''password'', se_disablePassword se)]) se of
          (Inr data, se) \<Rightarrow>
            (security_fetchProfile webauthnSupported api
              ((showSuccess (t ''account.security.mfa.disabled'' []) se)\<lparr>se_disablePassword := []\<rparr>))\<lparr>se_disablingMfa := False\<rparr>
        | (Inl e, se) \<Rightarrow> (showError (normalized cur e) se)\<lparr>se_disablingMfa := False\<rparr>))"

definition deleteAccount :: "translate \<Rightarrow> 'w api \<Rightarrow> string \<Rightarrow> 'w security \<Rightarrow> 'w security" where
  "deleteAccount t api cur se =
     (if se_deleteConfirmUsername se = [] \<or> JStr (se_deleteConfirmUsername se) \<noteq> getprop (se_profile se) ''username''
      then showError (JStr (t ''account.security.danger.usernameMismatch'' [])) se
      else (case se_call api (plain_call ''DELETE'' ''/api/me'') se of
          (Inr data, se) \<Rightarrow>
            (let s = se_session se; p = ss_portal s in
             se\<lparr>se_session := s\<lparr>ss_portal := p\<lparr>p_http := (p_http p)\<lparr>localStorage := Map.empty\<rparr>\<rparr>\<rparr>,
                se_goto := Some (Href ''/login''), se_deletingAccount := False\<rparr>)
        | (Inl e, se) \<Rightarrow> (showError (normalized cur e) se)\<lparr>se_deletingAccount := False\<rparr>))"

definition security_mounted :: "bool \<Rightarrow> 'w api \<Rightarrow> 'w security \<Rightarrow> 'w security" where
  "security_mounted webauthnSupported api se =
     (let s = se_session se; p = ss_portal s; h = p_http p;
          se = (if getItem (localStorage h) ''fulla_mfa_backup_exhausted'' = Some ''1'' then
                  se\<lparr>se_backupCodesExhausted := True, se_session := s\<lparr>ss_portal := p\<lparr>p_http :=
                    h\<lparr>localStorage := removeItem ''fulla_mfa_backup_exhausted'' (localStorage h)\<rparr>\<rparr>\<rparr>\<rparr>
                else se)
      in security_fetchProfile webauthnSupported api se)"

subsection \<open>Passkeys\<close>

text \<open>The argument of \<open>navigator.credentials.create\<close>, and what it may give: the three buffers of a credential,
  \<open>null\<close>, or an exception with its name.\<close>

record pk_request =
  pk_challenge :: bytes
  pk_rp :: jsval
  pk_user_id :: bytes
  pk_user_name :: jsval
  pk_displayName :: jsval
  pk_pubKeyCredParams :: jsval
  pk_authenticatorSelection :: jsval
  pk_timeout :: jsval
  pk_exclude :: "(bytes \<times> jsval) list"

datatype passkey_result = Created bytes bytes bytes | NoCredential | DomError string

datatype passkey_failure = PkDom string | PkLocal js_throw | PkRequest failure

definition decode_field :: "jsval \<Rightarrow> js_throw + bytes" where
  "decode_field v = (case v of
     JStr s \<Rightarrow> (case base64UrlDecode s of Some b \<Rightarrow> Inr b | None \<Rightarrow> Inl InvalidCharacter) | _ \<Rightarrow> Inl TypeErr)"

fun decode_excluded :: "jsval list \<Rightarrow> js_throw + (bytes \<times> jsval) list" where
  "decode_excluded [] = Inr []"
| "decode_excluded (e # es) =
     bind_res (get_member e ''id'') (\<lambda>i.
     bind_res (decode_field i) (\<lambda>b.
     bind_res (decode_excluded es) (\<lambda>rest.
       Inr ((b, js_or (getprop e ''type'') (JStr ''public-key'')) # rest))))"

definition passkey_request :: "string \<Rightarrow> jsval \<Rightarrow> jsval \<Rightarrow> js_throw + pk_request" where
  "passkey_request hostname profile options =
     (let user = getprop options ''user''; username = getprop profile ''username'' in
      bind_res (decode_field (getprop options ''challenge'')) (\<lambda>ch.
      bind_res (decode_field (js_or (getprop user ''id'')
        (JStr (base64UrlEncode (utf8 (js_String (js_or username (JStr ''user'')))))))) (\<lambda>uid.
      bind_res (case js_or (getprop options ''excludeCredentials'') (JArr []) of
          JArr es \<Rightarrow> decode_excluded es | _ \<Rightarrow> Inl TypeErr) (\<lambda>ex.
        Inr \<lparr>pk_challenge = ch,
             pk_rp = js_or (getprop options ''rp'') (JObj [(''name'', JStr ''Fulla''), (''id'', JStr hostname)]),
             pk_user_id = uid,
             pk_user_name = js_or (getprop user ''name'') (js_or username (JStr ''user'')),
             pk_displayName = js_or (getprop user ''displayName'') (js_or username (JStr ''User'')),
             pk_pubKeyCredParams = js_or (getprop options ''pubKeyCredParams'')
               (JArr [JObj [(''alg'', JNum (- 7)), (''type'', JStr ''public-key'')]]),
             pk_authenticatorSelection = js_or (getprop options ''authenticatorSelection'')
               (JObj [(''userVerification'', JStr ''required'')]),
             pk_timeout = js_or (getprop options ''timeout'') (JNum 60000),
             pk_exclude = ex\<rparr>))))"

definition finish_body :: "bytes \<Rightarrow> bytes \<Rightarrow> bytes \<Rightarrow> string \<Rightarrow> jsval" where
  "finish_body rawId att client label =
     JObj [(''id'', JStr (base64UrlEncode rawId)), (''rawId'', JStr (base64UrlEncode rawId)),
       (''response'', JObj [(''attestationObject'', JStr (base64UrlEncode att)), (''clientDataJSON'', JStr (base64UrlEncode client))]),
       (''name'', JStr label)]"

text \<open>The \<open>catch\<close>: a DOM exception by its name, any error without a response, a refused request.\<close>

fun passkey_error :: "translate \<Rightarrow> string \<Rightarrow> passkey_failure \<Rightarrow> jsval" where
  "passkey_error t cur (PkDom name) =
     JStr (if name = ''NotAllowedError'' then t ''account.security.passkeys.timedOut'' []
           else if name = ''InvalidStateError'' then t ''account.security.passkeys.alreadyRegistered'' []
           else t ''account.security.passkeys.registrationFailed'' [])"
| "passkey_error t cur (PkRequest (Failed (AxHttp st data))) = normalized cur (Failed (AxHttp st data))"
| "passkey_error t cur _ = JStr (t ''account.security.passkeys.registrationFailed'' [])"

definition registerPasskey ::
    "translate \<Rightarrow> string \<Rightarrow> string \<Rightarrow> (pk_request \<Rightarrow> passkey_result) \<Rightarrow> 'w api \<Rightarrow> string \<Rightarrow> 'w security \<Rightarrow> 'w security" where
  "registerPasskey t today hostname create api cur se =
     (let fail = (\<lambda>e x. (showError (passkey_error t cur e) x)\<lparr>se_registeringPasskey := False\<rparr>) in
      case se_call api (plain_call ''POST'' ''/api/me/webauthn/register/begin'') (se\<lparr>se_registeringPasskey := True\<rparr>) of
        (Inl e, se) \<Rightarrow> fail (PkRequest e) se
      | (Inr data, se) \<Rightarrow>
          (let options = getprop data ''options'' in
           if \<not> truthy (getprop options ''challenge'')
           then fail (PkLocal (PlainError ''Passkey registration: invalid server options'')) se
           else (case passkey_request hostname (se_profile se) options of
               Inl e \<Rightarrow> fail (PkLocal e) se
             | Inr req \<Rightarrow>
                 (case create req of
                    DomError name \<Rightarrow> fail (PkDom name) se
                  | NoCredential \<Rightarrow>
                      (showError (JStr (t ''account.security.passkeys.cancelled'' [])) se)\<lparr>se_registeringPasskey := False\<rparr>
                  | Created rawId att client \<Rightarrow>
                      (let name = js_trim (se_passkeyName se);
                           label = (if name \<noteq> [] then name else t ''account.security.passkeys.defaultName'' [(''date'', today)]) in
                       case se_call api (send_json ''POST'' ''/api/me/webauthn/register/finish'' (finish_body rawId att client label)) se of
                         (Inl e, se) \<Rightarrow> fail (PkRequest e) se
                       | (Inr data, se) \<Rightarrow>
                           (fetchWebauthnCredentials api (showSuccess (t ''account.security.passkeys.success'' [])
                             (se\<lparr>se_passkeyName := []\<rparr>)))\<lparr>se_registeringPasskey := False\<rparr>)))))"

subsection \<open>ProfilePage\<close>

record profile_page =
  pr_profile :: jsval
  pr_loading :: bool
  pr_success :: string
  pr_error :: jsval
  pr_editDisplayName :: jsval
  pr_editAvatarUrl :: jsval
  pr_savingProfile :: bool

definition startProfileEdit :: "profile_page \<Rightarrow> profile_page" where
  "startProfileEdit pr = pr\<lparr>pr_editDisplayName := or_empty (getprop (pr_profile pr) ''display_name''),
     pr_editAvatarUrl := or_empty (getprop (pr_profile pr) ''avatar_url'')\<rparr>"

definition profile_fetchProfile :: "translate \<Rightarrow> 'w api \<Rightarrow> profile_page \<Rightarrow> 'w \<Rightarrow> profile_page \<times> 'w" where
  "profile_fetchProfile t api pr w = (case request api (plain_call ''GET'' ''/api/me'') w of
     (Inr data, w') \<Rightarrow> ((startProfileEdit (pr\<lparr>pr_profile := data\<rparr>))\<lparr>pr_loading := False\<rparr>, w')
   | (Inl e, w') \<Rightarrow> (pr\<lparr>pr_error := JStr (t ''account.profile.loadFailed'' []), pr_loading := False\<rparr>, w'))"

definition resendVerification :: "translate \<Rightarrow> 'w api \<Rightarrow> string \<Rightarrow> profile_page \<Rightarrow> 'w \<Rightarrow> profile_page \<times> 'w" where
  "resendVerification t api cur pr w = (case request api (plain_call ''POST'' ''/api/verify-email/resend'') w of
     (Inr data, w') \<Rightarrow> (pr\<lparr>pr_success := t ''account.profile.verificationSent'' []\<rparr>, w')
   | (Inl e, w') \<Rightarrow> (pr\<lparr>pr_error := normalized cur e\<rparr>, w'))"

text \<open>The keys that are sent: those whose trimmed entry differs from the loaded value.\<close>

definition dirty_fields :: "string \<Rightarrow> string \<Rightarrow> jsval \<Rightarrow> (string \<times> jsval) list" where
  "dirty_fields name avatar profile =
     (let nextName = js_trim name; nextAvatar = js_trim avatar in
      (if JStr nextName \<noteq> or_empty (getprop profile ''display_name'') then [(''display_name'', JStr nextName)] else []) @
      (if JStr nextAvatar \<noteq> or_empty (getprop profile ''avatar_url'') then [(''avatar_url'', JStr nextAvatar)] else []))"

text \<open>An entry that is no string has no \<open>trim\<close>.\<close>

definition saveProfile :: "translate \<Rightarrow> 'w api \<Rightarrow> string \<Rightarrow> profile_page \<Rightarrow> 'w \<Rightarrow> (js_throw + profile_page) \<times> 'w" where
  "saveProfile t api cur pr w = (case (pr_editDisplayName pr, pr_editAvatarUrl pr) of
     (JStr name, JStr avatar) \<Rightarrow>
       (let body = dirty_fields name avatar (pr_profile pr) in
        if body = [] then (Inr (pr\<lparr>pr_success := t ''account.profile.saved'' []\<rparr>), w)
        else (case request api (send_json ''PATCH'' ''/api/me/profile'' (JObj body)) w of
            (Inr data, w') \<Rightarrow>
              (case profile_fetchProfile t api (pr\<lparr>pr_error := JNull, pr_success := t ''account.profile.saved'' []\<rparr>) w' of
                 (pr', w'') \<Rightarrow> (Inr (pr'\<lparr>pr_savingProfile := False\<rparr>), w''))
          | (Inl e, w') \<Rightarrow> (Inr (pr\<lparr>pr_error := normalized cur e, pr_savingProfile := False\<rparr>), w')))
   | _ \<Rightarrow> (Inl TypeErr, w))"

subsection \<open>AuthorizedAppsPage\<close>

datatype apps_action = RevokeApp string string

record apps_page =
  ap_apps :: jsval
  ap_loading :: bool
  ap_error :: jsval
  ap_success :: jsval
  ap_confirm :: "apps_action confirm"
  ap_requestAuthOpen :: bool
  ap_requestAuthApp :: jsval
  ap_requestAuthOrgs :: jsval
  ap_requestAuthSlug :: string
  ap_requestAuthLoading :: bool
  ap_requestAuthNoOrgs :: bool
  ap_requestAuthSubmitting :: bool

definition fetchApps :: "translate \<Rightarrow> 'w api \<Rightarrow> apps_page \<Rightarrow> 'w \<Rightarrow> apps_page \<times> 'w" where
  "fetchApps t api ap w = (case request api (plain_call ''GET'' ''/api/me/authorized-apps'') w of
     (Inr data, w') \<Rightarrow> (ap\<lparr>ap_apps := js_or (getprop data ''authorized_apps'') (JArr []), ap_loading := False\<rparr>, w')
   | (Inl e, w') \<Rightarrow> (ap\<lparr>ap_error := JStr (t ''account.authorizedApps.loadFailed'' []), ap_loading := False\<rparr>, w'))"

definition apps_revokeApp :: "translate \<Rightarrow> string \<Rightarrow> string \<Rightarrow> apps_page \<Rightarrow> apps_page" where
  "apps_revokeApp t clientId appName ap = ap\<lparr>ap_confirm :=
     askConfirm (t ''account.authorizedApps.revokeConfirm'' [(''app'', appName)]) (RevokeApp clientId appName) (ap_confirm ap)\<rparr>"

definition apps_runConfirm :: "translate \<Rightarrow> 'w api \<Rightarrow> string \<Rightarrow> apps_page \<Rightarrow> 'w \<Rightarrow> apps_page \<times> 'w" where
  "apps_runConfirm t api cur ap w = (case take_confirm (ap_confirm ap) of
     (act, cf) \<Rightarrow> (let ap = ap\<lparr>ap_confirm := cf\<rparr> in
       case act of
         None \<Rightarrow> (ap, w)
       | Some (RevokeApp clientId appName) \<Rightarrow>
           (case request api (plain_call ''DELETE'' (''/api/me/authorized-apps/'' @ clientId)) w of
              (Inr data, w') \<Rightarrow>
                fetchApps t api (ap\<lparr>ap_success := JStr (t ''account.authorizedApps.revoked'' [(''app'', appName)]), ap_loading := True\<rparr>) w'
            | (Inl e, w') \<Rightarrow> (ap\<lparr>ap_error := normalized cur e\<rparr>, w'))))"

definition openRequestAuth :: "'w api \<Rightarrow> string \<Rightarrow> jsval \<Rightarrow> apps_page \<Rightarrow> 'w \<Rightarrow> apps_page \<times> 'w" where
  "openRequestAuth api cur app ap w =
     (let ap = ap\<lparr>ap_requestAuthApp := app, ap_requestAuthOrgs := JArr [], ap_requestAuthSlug := [], ap_requestAuthNoOrgs := False,
                  ap_requestAuthOpen := True\<rparr> in
      case request api (plain_call ''GET'' ''/api/me/organizations'') w of
        (Inr data, w') \<Rightarrow>
          (let orgs = js_or (getprop data ''organizations'') (JArr []) in
           (ap\<lparr>ap_requestAuthOrgs := orgs, ap_requestAuthNoOrgs := (getprop orgs ''length'' = JNum 0), ap_requestAuthLoading := False\<rparr>, w'))
      | (Inl e, w') \<Rightarrow> (ap\<lparr>ap_requestAuthOpen := False, ap_error := normalized cur e, ap_requestAuthLoading := False\<rparr>, w'))"

definition submitRequestAuth :: "translate \<Rightarrow> 'w api \<Rightarrow> string \<Rightarrow> apps_page \<Rightarrow> 'w \<Rightarrow> apps_page \<times> 'w" where
  "submitRequestAuth t api cur ap w =
     (if \<not> truthy (ap_requestAuthApp ap) \<or> ap_requestAuthSlug ap = [] then (ap, w)
      else (case request api (send_json ''POST'' (''/api/me/organizations/'' @ ap_requestAuthSlug ap @ ''/consent-requests'')
                (JObj [(''client_id'', getprop (ap_requestAuthApp ap) ''client_id'')])) w of
          (Inr data, w') \<Rightarrow>
            (ap\<lparr>ap_error := JNull, ap_success := js_or (getprop data ''message'') (JStr (t ''account.authorizedApps.requestOrgAuthSuccess'' [])),
                ap_requestAuthOpen := False, ap_requestAuthSubmitting := False\<rparr>, w')
        | (Inl e, w') \<Rightarrow>
            (ap\<lparr>ap_error := normalized cur e, ap_requestAuthOpen := False, ap_requestAuthSubmitting := False\<rparr>, w')))"

subsection \<open>Properties\<close>

abbreviation se_calls :: "(api_call list \<times> 'w) security \<Rightarrow> api_call list" where
  "se_calls se \<equiv> fst (p_world (ss_portal (se_session se)))"

lemma request_logged: "fst (snd (request (logged_api api) c w)) = fst w @ [c]"
  by (simp add: request_def logged_api_def split: prod.split ax_result.split)

lemma se_call_logged: "se_calls (snd (se_call (logged_api api) c se)) = se_calls se @ [c]"
  using request_logged [of api c "p_world (ss_portal (se_session se))"]
  by (auto simp: se_call_def Let_def split: prod.split)

lemma se_call_frame [simp]:
  "p_http (ss_portal (se_session (snd (se_call api c se)))) = p_http (ss_portal (se_session se))"
  "ss_store (se_session (snd (se_call api c se))) = ss_store (se_session se)"
  "se_confirm (snd (se_call api c se)) = se_confirm se" "se_goto (snd (se_call api c se)) = se_goto se"
  by (simp_all add: se_call_def Let_def split: prod.split)

lemma se_call_frame_of:
  assumes "se_call api c se = (r, se')"
  shows "p_http (ss_portal (se_session se')) = p_http (ss_portal (se_session se))"
    "ss_store (se_session se') = ss_store (se_session se)" "se_confirm se' = se_confirm se" "se_goto se' = se_goto se"
  using se_call_frame [of api c se] assms by simp_all

lemma show_frame [simp]:
  "se_session (showError m se) = se_session se" "se_session (showSuccess n se) = se_session se"
  "se_goto (showError m se) = se_goto se" "se_confirm (showError m se) = se_confirm se" "se_confirm (showSuccess n se) = se_confirm se"
  by (simp_all add: showError_def showSuccess_def)

text \<open>An account is deleted only for its typed name: the delete request goes out exactly when the confirmation
  is not empty and equals the username of the loaded profile, and once; only its success
  empties the local storage and leaves for the login page.\<close>

theorem delete_account_needs_username:
  assumes "se_goto se = None"
  shows "se_calls (deleteAccount t (logged_api api) cur se) = se_calls se @
       (if se_deleteConfirmUsername se \<noteq> [] \<and> getprop (se_profile se) ''username'' = JStr (se_deleteConfirmUsername se)
        then [plain_call ''DELETE'' ''/api/me''] else []) \<and>
     (se_goto (deleteAccount t (logged_api api) cur se) \<noteq> None \<longleftrightarrow>
        se_deleteConfirmUsername se \<noteq> [] \<and> getprop (se_profile se) ''username'' = JStr (se_deleteConfirmUsername se) \<and>
        (\<exists>data. fst (api (plain_call ''DELETE'' ''/api/me'') (snd (p_world (ss_portal (se_session se))))) = AxOk data))"
proof -
  let ?c = "plain_call ''DELETE'' ''/api/me''"
  obtain r se1 where r: "se_call (logged_api api) ?c se = (r, se1)" by fastforce
  then have l: "se_calls se1 = se_calls se @ [?c]" using se_call_logged [of api ?c se] by simp
  have ok: "(\<exists>d. r = Inr d) \<longleftrightarrow> (\<exists>data. fst (api ?c (snd (p_world (ss_portal (se_session se))))) = AxOk data)"
    using r by (auto simp: se_call_def request_def logged_api_def Let_def split: prod.splits ax_result.splits)
  show ?thesis
    using assms r l ok se_call_frame_of(4) [OF r] by (auto simp: deleteAccount_def Let_def split: sum.split)
qed

definition demo_security :: "(api_call list \<times> unit) security" where
  "demo_security =
     \<lparr>se_session = pg_session (demo_page Map.empty Map.empty), se_loading = False, se_profile = JObj [(''username'', JStr ''ann'')],
      se_success = [], se_error = JNull, se_backupCodesExhausted = False, se_oldPassword = [], se_newPassword = [],
      se_confirmNewPassword = [], se_changingPassword = False, se_mfaSetupData = JNull, se_mfaVerifyCode = [],
      se_settingUpMfa = False, se_disablingMfa = False, se_disablePassword = [], se_backupCodes = JArr [],
      se_showBackupCodes = False, se_socialLinks = JArr [], se_socialLinksLoaded = False, se_unlinkingProvider = [],
      se_linkingProvider = [], se_confirm = \<lparr>cf_open = False, cf_message = [], cf_action = None\<rparr>,
      se_deleteConfirmUsername = ''ann'', se_deletingAccount = False, se_webauthnCredentials = JArr [],
      se_registeringPasskey = False, se_passkeyName = [], se_alert = None, se_goto = None\<rparr>"

theorem delete_account_needs_username_witness:
  "se_calls (deleteAccount (\<lambda>k _. k) (logged_api granting) ''en'' demo_security) = [plain_call ''DELETE'' ''/api/me''] \<and>
   se_calls (deleteAccount (\<lambda>k _. k) (logged_api granting) ''en'' (demo_security\<lparr>se_deleteConfirmUsername := []\<rparr>)) = []"
  using delete_account_needs_username [of demo_security "\<lambda>k _. k" granting "''en''"]
    delete_account_needs_username [of "demo_security\<lparr>se_deleteConfirmUsername := []\<rparr>" "\<lambda>k _. k" granting "''en''"]
  by (simp add: demo_security_def demo_page_def)

text \<open>Changing the password ends the local session: when the server accepted the change the tokens are gone
  from memory and storage, the store is unauthenticated and the page leaves for the login
  notice; on every other path the session is as before.\<close>

theorem password_change_ends_session:
  assumes "se_goto se = None" and "se' = security_changePassword t api cur se"
  shows "(se_goto se' = Some (Push ''/login?pw_changed=1'') \<and> \<not> isAuthenticated (ss_store (se_session se')) \<and>
        accessToken (p_http (ss_portal (se_session se'))) = JNull \<and>
        getItem (localStorage (p_http (ss_portal (se_session se')))) ''refresh_token'' = None) \<or>
     (se_goto se' = None \<and> ss_store (se_session se') = ss_store (se_session se) \<and>
        p_http (ss_portal (se_session se')) = p_http (ss_portal (se_session se)))"
proof -
  let ?c = "send_json ''PUT'' ''/api/me/password''
    (JObj [(''old_password'', JStr (se_oldPassword se)), (''new_password'', JStr (se_newPassword se))])"
  obtain r se1 where r: "se_call api ?c se = (r, se1)" by fastforce
  note frame = se_call_frame_of [OF r]
  consider (stay) m where "se' = showError m se" | (failed) e where "se' = (showError e se1)\<lparr>se_changingPassword := False\<rparr>"
    | (changed) "se' = se1\<lparr>se_session := drop_session (se_session se1), se_oldPassword := [], se_newPassword := [],
        se_confirmNewPassword := [], se_goto := Some (Push ''/login?pw_changed=1''), se_changingPassword := False\<rparr>"
    using assms(2) r by (cases r) (auto simp: security_changePassword_def split: if_splits)
  then show ?thesis
  proof cases
    case changed
    then show ?thesis
      by (simp add: drop_session_def logoutLocal_def markUnauthenticated_def isAuthenticated_def clearTokens_def
          getItem_def removeItem_def Let_def)
  qed (use assms(1) frame in simp_all)
qed

theorem password_change_ends_session_witness:
  "se_goto (security_changePassword (\<lambda>k _. k) (\<lambda>_ w. (AxHttp 400 JNull, w)) ''en''
      (demo_security\<lparr>se_newPassword := ''12345678'', se_confirmNewPassword := ''12345678''\<rparr>)) \<in> {None, Some (Push ''/login?pw_changed=1'')}"
  using password_change_ends_session [of "demo_security\<lparr>se_newPassword := ''12345678'', se_confirmNewPassword := ''12345678''\<rparr>"
      _ "\<lambda>k _. k" "\<lambda>_ w. (AxHttp 400 JNull, w)" "''en''", OF _ refl]
  by (auto simp: demo_security_def)

lemma fetchSocialLinks_confirm [simp]: "se_confirm (fetchSocialLinks api se) = se_confirm se"
  by (simp add: fetchSocialLinks_def split: prod.split)

lemma run_unlink_confirm: "se_confirm (run_unlink t api cur provider label se) = se_confirm se"
  using se_call_frame_of(3) [of api "plain_call ''DELETE'' (social_link_url provider)" se]
  by (auto simp: run_unlink_def split: prod.split sum.split)

lemma apps_confirm: "ap_confirm (fst (apps_runConfirm t api cur ap w)) = snd (take_confirm (ap_confirm ap))"
  by (auto simp: apps_runConfirm_def take_confirm_def fetchApps_def Let_def
      split: prod.split sum.split option.split apps_action.split)

lemma security_confirm: "se_confirm (security_runConfirm t api cur se) = snd (take_confirm (se_confirm se))"
  by (auto simp: security_runConfirm_def take_confirm_def Let_def run_unlink_confirm split: option.split security_action.split)

lemma confirm_spent: "take_confirm (snd (take_confirm cf)) = (None, snd (take_confirm cf))"
  by (simp add: take_confirm_def)

text \<open>A confirmed destructive action runs once: confirming again, without asking again, does nothing, on the
  security page and on the list of authorized applications.\<close>

theorem confirmed_action_runs_once:
  "security_runConfirm t api cur (security_runConfirm t api cur se) = security_runConfirm t api cur se \<and>
   apps_runConfirm t api' cur (fst (apps_runConfirm t api' cur ap w)) w' = (fst (apps_runConfirm t api' cur ap w), w')"
proof -
  have sec: "security_runConfirm t api cur x = x" if "se_confirm x = snd (take_confirm cf)" for x :: "'a security" and cf
    using that confirm_spent [of cf] by (simp add: security_runConfirm_def Let_def)
  have apps: "apps_runConfirm t api' cur x w' = (x, w')" if "ap_confirm x = snd (take_confirm cf)" for x cf
    using that confirm_spent [of cf] by (simp add: apps_runConfirm_def Let_def)
  show ?thesis by (simp add: sec [OF security_confirm] apps [OF apps_confirm])
qed

text \<open>The trimmed entry is compared with the loaded value as it is.\<close>

lemma dirty_fields_empty:
  "dirty_fields name avatar profile = [] \<longleftrightarrow>
     or_empty (getprop profile ''display_name'') = JStr (js_trim name) \<and> or_empty (getprop profile ''avatar_url'') = JStr (js_trim avatar)"
  by (auto simp: dirty_fields_def Let_def)

text \<open>The profile form sends changed fields only, up to white space: a field is in the request exactly when its
  trimmed entry differs from the loaded value.  So a form that was not touched sends nothing
  when the loaded values are trimmed, and a loaded value with white space around it is sent
  trimmed although nobody edited it.\<close>

theorem profile_sends_changed_fields:
  assumes "getprop profile ''display_name'' = JStr n" and "getprop profile ''avatar_url'' = JStr a" and "w = (log, v)"
    and "saveProfile t (logged_api api) cur (startProfileEdit (pr\<lparr>pr_profile := profile\<rparr>)) w = (Inr pr', w')"
  shows "(js_trim n = n \<and> js_trim a = a \<longrightarrow> w' = w) \<and>
     (js_trim n \<noteq> n \<and> js_trim a = a \<longrightarrow>
        (\<exists>rest. fst w' = log @ send_json ''PATCH'' ''/api/me/profile'' (JObj [(''display_name'', JStr (js_trim n))]) # rest))"
proof -
  let ?pr = "startProfileEdit (pr\<lparr>pr_profile := profile\<rparr>)"
  have or_e: "or_empty (JStr x) = JStr x" for x by (simp add: or_empty_def js_or_def)
  have edit: "pr_editDisplayName ?pr = JStr n" "pr_editAvatarUrl ?pr = JStr a" "pr_profile ?pr = profile"
    using assms(1,2) by (simp_all add: startProfileEdit_def or_e)
  have body: "dirty_fields n a profile =
      (if js_trim n = n then [] else [(''display_name'', JStr (js_trim n))]) @
      (if js_trim a = a then [] else [(''avatar_url'', JStr (js_trim a))])"
    using assms(1,2) by (simp add: dirty_fields_def or_e Let_def)
  show ?thesis
  proof (cases "js_trim n = n \<and> js_trim a = a")
    case True
    with assms(4) edit body show ?thesis by (auto simp: saveProfile_def Let_def)
  next
    case False
    let ?c = "send_json ''PATCH'' ''/api/me/profile'' (JObj (dirty_fields n a profile))"
    obtain r w1 where r: "request (logged_api api) ?c w = (r, w1)" by (metis prod.exhaust)
    then have l: "fst w1 = log @ [?c]" using request_logged [of api ?c w] assms(3) by simp
    have more: "\<exists>more. fst (snd (profile_fetchProfile t (logged_api api) x w1)) = fst w1 @ more" for x
      using request_logged [of api "plain_call ''GET'' ''/api/me''" w1]
      by (auto simp: profile_fetchProfile_def split: prod.splits sum.splits)
    have "w' = w1 \<or> (\<exists>x. w' = snd (profile_fetchProfile t (logged_api api) x w1))"
    proof -
      have "dirty_fields n a profile \<noteq> []" using False body by auto
      then show ?thesis using assms(4) edit r by (cases r) (auto simp: saveProfile_def Let_def split: prod.splits, metis snd_conv)
    qed
    with more have "\<exists>more. fst w' = fst w1 @ more" by (metis append_Nil2)
    with l body False show ?thesis by auto
  qed
qed

definition demo_profile :: profile_page where
  "demo_profile = \<lparr>pr_profile = JNull, pr_loading = False, pr_success = [], pr_error = JNull, pr_editDisplayName = JStr [],
     pr_editAvatarUrl = JStr [], pr_savingProfile = False\<rparr>"

theorem profile_sends_changed_fields_witness:
  "\<exists>pr' w' rest. saveProfile (\<lambda>k _. k) (logged_api granting) ''en''
       (startProfileEdit (demo_profile\<lparr>pr_profile := JObj [(''display_name'', JStr '' ann''), (''avatar_url'', JStr [])]\<rparr>)) ([], ()) = (Inr pr', w') \<and>
     fst w' = send_json ''PATCH'' ''/api/me/profile'' (JObj [(''display_name'', JStr ''ann'')]) # rest"
proof -
  let ?p = "JObj [(''display_name'', JStr '' ann''), (''avatar_url'', JStr [])]"
  have trim: "js_trim '' ann'' = ''ann''" "js_trim [] = []" by (simp_all add: js_trim_def white_space_def)
  have "\<exists>pr' w'. saveProfile (\<lambda>k _. k) (logged_api granting) ''en'' (startProfileEdit (demo_profile\<lparr>pr_profile := ?p\<rparr>)) ([], ()) = (Inr pr', w')"
    by (simp add: saveProfile_def startProfileEdit_def or_empty_def js_or_def dirty_fields_def trim request_def logged_api_def
        granting_def profile_fetchProfile_def Let_def)
  then obtain pr' w' where r: "saveProfile (\<lambda>k _. k) (logged_api granting) ''en''
      (startProfileEdit (demo_profile\<lparr>pr_profile := ?p\<rparr>)) ([], ()) = (Inr pr', w')" by blast
  from profile_sends_changed_fields [of ?p "'' ann''" "[]", OF _ _ refl r] r trim show ?thesis by auto
qed

end
