(* ===== verification/Async.thy ===== *)
theory Async
  imports AccountPages
begin

section \<open>Asynchronous page handlers\<close>

text \<open>
  The handlers of the admin pages as resumptions.  A handler is a value of \<open>'s co\<close>: it writes and reads the refs of
  its page and suspends at every \<open>await\<close> of a request.  One definition of a handler has two
  readings: \<open>run_co\<close> runs it to its end against a server, and \<open>async_step\<close> interleaves any number
  of handlers, one event per click and one per answer, in any order.
\<close>

subsection \<open>Resumptions\<close>

datatype 's co =
    Halt
  | Do "'s \<Rightarrow> 's" "'s co"
  | Branch "'s \<Rightarrow> 's co"
  | Await api_call "failure + jsval \<Rightarrow> 's co"

text \<open>A handler followed by another, as \<open>await f(); ...\<close> for an \<open>f\<close> that does not throw.\<close>

primrec seq :: "'s co \<Rightarrow> 's co \<Rightarrow> 's co" where
  "seq Halt d = d"
| "seq (Do f c) d = Do f (seq c d)"
| "seq (Branch g) d = Branch (\<lambda>s. seq (g s) d)"
| "seq (Await q k) d = Await q (\<lambda>r. seq (k r) d)"

text \<open>\<open>try { const resp = await ...; ok(resp.data) } catch (e) { bad(e) }\<close>.\<close>

definition attempt :: "api_call \<Rightarrow> (jsval \<Rightarrow> 's co) \<Rightarrow> (failure \<Rightarrow> 's co) \<Rightarrow> 's co" where
  "attempt q ok bad = Await q (\<lambda>r. case r of Inr data \<Rightarrow> ok data | Inl e \<Rightarrow> bad e)"

text \<open>A read of a member of \<open>resp.data\<close> throws for a reply without a body.\<close>

definition with_data :: "jsval \<Rightarrow> (failure \<Rightarrow> 's co) \<Rightarrow> 's co \<Rightarrow> 's co" where
  "with_data data bad c = (if nullish data then bad (Threw TypeErr) else c)"

subsection \<open>To the end\<close>

primrec run_co :: "'w api \<Rightarrow> 's co \<Rightarrow> 's \<Rightarrow> 'w \<Rightarrow> 's \<times> 'w" where
  "run_co api Halt s w = (s, w)"
| "run_co api (Do f c) s w = run_co api c (f s) w"
| "run_co api (Branch g) s w = run_co api (g s) s w"
| "run_co api (Await q k) s w = (case request api q w of (r, w') \<Rightarrow> run_co api (k r) s w')"

lemma run_seq: "run_co api (seq c d) s w = (case run_co api c s w of (s', w') \<Rightarrow> run_co api d s' w')"
  by (induction c arbitrary: s w) (auto split: prod.split)

lemma run_attempt:
  "run_co api (attempt q ok bad) s w = (case request api q w of
     (Inr data, w') \<Rightarrow> run_co api (ok data) s w' | (Inl e, w') \<Rightarrow> run_co api (bad e) s w')"
  by (simp add: attempt_def split: prod.split sum.split)

text \<open>The log of a run only grows.\<close>

lemma run_logged: "\<exists>rest. fst (snd (run_co (logged_api api) c s w)) = fst w @ rest"
proof (induction c arbitrary: s w)
  case (Await q k)
  obtain r w' where r: "request (logged_api api) q w = (r, w')" by (metis surj_pair)
  then have "fst w' = fst w @ [q]" using request_logged [of api q w] by simp
  with Await.IH [OF rangeI, of r s w'] r show ?case by auto
qed auto

lemma run_attempt_logged: "\<exists>rest. fst (snd (run_co (logged_api api) (attempt q ok bad) s w)) = fst w @ q # rest"
proof -
  obtain r w' where r: "request (logged_api api) q w = (r, w')" by (metis surj_pair)
  then have "fst w' = fst w @ [q]" using request_logged [of api q w] by simp
  with run_logged [of api "case r of Inr data \<Rightarrow> ok data | Inl e \<Rightarrow> bad e" s w'] r show ?thesis by (auto simp: attempt_def)
qed

subsection \<open>Interleaved\<close>

text \<open>The synchronous part of a handler: the refs it leaves and where it waits.\<close>

primrec advance :: "'s co \<Rightarrow> 's \<Rightarrow> 's \<times> (api_call \<times> (failure + jsval \<Rightarrow> 's co)) option" where
  "advance Halt s = (s, None)"
| "advance (Do f c) s = advance c (f s)"
| "advance (Branch g) s = advance (g s) s"
| "advance (Await q k) s = (s, Some (q, k))"

record 's live =
  lv_page :: 's
  lv_waits :: "(api_call \<times> (failure + jsval \<Rightarrow> 's co)) option list"
  lv_sent :: "api_call list"

definition launch :: "'s co \<Rightarrow> 's live \<Rightarrow> 's live" where
  "launch c a = (case advance c (lv_page a) of
     (s, None) \<Rightarrow> a\<lparr>lv_page := s\<rparr>
   | (s, Some (q, k)) \<Rightarrow> a\<lparr>lv_page := s, lv_waits := lv_waits a @ [Some (q, k)], lv_sent := lv_sent a @ [q]\<rparr>)"

datatype 'e async_event = Act 'e | Answer nat "failure + jsval"

text \<open>An answer settles its request and resumes the handler; a request is answered once.\<close>

fun async_step :: "('e \<Rightarrow> 's co list) \<Rightarrow> 'e async_event \<Rightarrow> 's live \<Rightarrow> 's live option" where
  "async_step handlers (Act e) a = Some (fold launch (handlers e) a)"
| "async_step handlers (Answer i r) a =
     (if i < length (lv_waits a) then (case lv_waits a ! i of
        Some (q, k) \<Rightarrow> Some (launch (k r) (a\<lparr>lv_waits := (lv_waits a)[i := None]\<rparr>))
      | None \<Rightarrow> None) else None)"

definition async_start :: "'s \<Rightarrow> 's live" where
  "async_start s = \<lparr>lv_page = s, lv_waits = [], lv_sent = []\<rparr>"

subsection \<open>Invariants of a page\<close>

text \<open>What the handlers of a page keep at every write, whatever the others do while they wait, and what is true of
  every request they send.\<close>

primrec keeps :: "('s \<Rightarrow> bool) \<Rightarrow> (api_call \<Rightarrow> bool) \<Rightarrow> 's co \<Rightarrow> bool" where
  "keeps P Q Halt = True"
| "keeps P Q (Do f c) = ((\<forall>s. P s \<longrightarrow> P (f s)) \<and> keeps P Q c)"
| "keeps P Q (Branch g) = (\<forall>s. P s \<longrightarrow> keeps P Q (g s))"
| "keeps P Q (Await q k) = (Q q \<and> (\<forall>r. keeps P Q (k r)))"

lemma keeps_seq: "keeps P Q c \<Longrightarrow> keeps P Q d \<Longrightarrow> keeps P Q (seq c d)"
  by (induction c) auto

lemma keeps_attempt: "keeps P Q (attempt q ok bad) \<longleftrightarrow> Q q \<and> (\<forall>d. keeps P Q (ok d)) \<and> (\<forall>e. keeps P Q (bad e))"
proof -
  have "(\<forall>r. keeps P Q (case r of Inr data \<Rightarrow> ok data | Inl e \<Rightarrow> bad e)) \<longleftrightarrow> (\<forall>d. keeps P Q (ok d)) \<and> (\<forall>e. keeps P Q (bad e))"
    by (metis sum.case sum.exhaust)
  then show ?thesis by (simp add: attempt_def)
qed

lemma keeps_with_data: "keeps P Q (bad (Threw TypeErr)) \<Longrightarrow> keeps P Q c \<Longrightarrow> keeps P Q (with_data data bad c)"
  by (simp add: with_data_def)

lemma advance_keeps:
  "keeps P Q c \<Longrightarrow> P s \<Longrightarrow> advance c s = (s', w) \<Longrightarrow> P s' \<and> (\<forall>q k r. w = Some (q, k) \<longrightarrow> Q q \<and> keeps P Q (k r))"
proof (induction c arbitrary: s)
  case (Branch g)
  then have "keeps P Q (g s)" and "advance (g s) s = (s', w)" by simp_all
  with Branch.IH [OF rangeI] Branch.prems(2) show ?case by blast
qed auto

definition live_ok :: "('s \<Rightarrow> bool) \<Rightarrow> (api_call \<Rightarrow> bool) \<Rightarrow> 's live \<Rightarrow> bool" where
  "live_ok P Q a \<longleftrightarrow> P (lv_page a) \<and> (\<forall>q\<in>set (lv_sent a). Q q) \<and>
     (\<forall>q k r. Some (q, k) \<in> set (lv_waits a) \<longrightarrow> keeps P Q (k r))"

locale page_handlers =
  fixes handlers :: "'e \<Rightarrow> 's co list"
    and P :: "'s \<Rightarrow> bool"
    and Q :: "api_call \<Rightarrow> bool"
  assumes handlers_keep: "c \<in> set (handlers e) \<Longrightarrow> keeps P Q c"
begin

lemma launch_ok: "keeps P Q c \<Longrightarrow> live_ok P Q a \<Longrightarrow> live_ok P Q (launch c a)"
  using advance_keeps [of P Q c "lv_page a"]
  by (auto simp: live_ok_def launch_def split: prod.split option.split)

lemma fold_launch_ok: "(\<And>c. c \<in> set cs \<Longrightarrow> keeps P Q c) \<Longrightarrow> live_ok P Q a \<Longrightarrow> live_ok P Q (fold launch cs a)"
  by (induction cs arbitrary: a) (auto simp: launch_ok)

lemma async_step_ok:
  assumes "live_ok P Q a" and "async_step handlers e a = Some b"
  shows "live_ok P Q b"
proof (cases e)
  case (Act x)
  with assms show ?thesis by (auto intro: fold_launch_ok handlers_keep)
next
  case (Answer i r)
  with assms(2) obtain q k where k: "i < length (lv_waits a)" "lv_waits a ! i = Some (q, k)"
      "b = launch (k r) (a\<lparr>lv_waits := (lv_waits a)[i := None]\<rparr>)"
    by (auto split: if_splits option.splits)
  then have "Some (q, k) \<in> set (lv_waits a)" by (metis nth_mem)
  with assms(1) have "keeps P Q (k r)" by (simp add: live_ok_def)
  moreover have "live_ok P Q (a\<lparr>lv_waits := (lv_waits a)[i := None]\<rparr>)"
    using assms(1) set_update_subset_insert [of "lv_waits a" i None] by (auto simp: live_ok_def)
  ultimately show ?thesis using k(3) by (simp add: launch_ok)
qed

end

sublocale page_handlers \<subseteq> guarded_machine "async_step handlers" "live_ok P Q"
  by unfold_locales (rule async_step_ok)

context page_handlers
begin

lemma page_always:
  assumes "P s" and "exec (async_step handlers) es (async_start s) = Some a"
  shows "P (lv_page a) \<and> (\<forall>q\<in>set (lv_sent a). Q q)"
  using exec_invar [OF _ assms(2)] assms(1) by (auto simp: live_ok_def async_start_def)

end

subsection \<open>Numbers of the language\<close>

text \<open>\<open>Number(s)\<close> of a string, when it is an integer: \<open>None\<close> stands for \<open>NaN\<close> and for numbers that are no integers.
  White space around is ignored, an empty text is zero, a base prefix or a decimal with
  fraction and exponent is read.\<close>

definition digit_of :: "char \<Rightarrow> nat" where
  "digit_of c = (let n = of_char c :: nat in
     if 48 \<le> n \<and> n \<le> 57 then n - 48 else if 97 \<le> n \<and> n \<le> 102 then n - 87 else if 65 \<le> n \<and> n \<le> 70 then n - 55 else 99)"

definition radix_value :: "nat \<Rightarrow> string \<Rightarrow> int option" where
  "radix_value b ds = (if ds \<noteq> [] \<and> list_all (\<lambda>c. digit_of c < b) ds
     then Some (foldl (\<lambda>a c. int b * a + int (digit_of c)) 0 ds) else None)"

definition exponent_value :: "string \<Rightarrow> int option" where
  "exponent_value r = (if r = [] then Some 0
     else if hd r = CHR ''e'' \<or> hd r = CHR ''E'' then
       (let neg = (tl r \<noteq> [] \<and> hd (tl r) = CHR ''-'');
            ds = (if tl r \<noteq> [] \<and> (hd (tl r) = CHR ''-'' \<or> hd (tl r) = CHR ''+'') then tl (tl r) else tl r)
        in if ds \<noteq> [] \<and> list_all is_digit ds then Some (if neg then - digits_value ds else digits_value ds) else None)
     else None)"

definition decimal_value :: "string \<Rightarrow> int option" where
  "decimal_value u =
     (let ip = takeWhile is_digit u; r = dropWhile is_digit u;
          dot = (r \<noteq> [] \<and> hd r = CHR ''.'');
          fp = (if dot then takeWhile is_digit (tl r) else []);
          r' = (if dot then dropWhile is_digit (tl r) else r);
          m = digits_value (ip @ fp)
      in if ip = [] \<and> fp = [] then None
         else (case exponent_value r' of
             None \<Rightarrow> None
           | Some x \<Rightarrow> (let e = x - int (length fp) in
               if e \<ge> 0 then Some (m * 10 ^ nat e)
               else if m mod 10 ^ nat (- e) = 0 then Some (m div 10 ^ nat (- e)) else None)))"

definition js_Number :: "string \<Rightarrow> int option" where
  "js_Number s =
     (let u = js_trim s in
      if u = [] then Some 0
      else if take 2 u = ''0x'' \<or> take 2 u = ''0X'' then radix_value 16 (drop 2 u)
      else if take 2 u = ''0o'' \<or> take 2 u = ''0O'' then radix_value 8 (drop 2 u)
      else if take 2 u = ''0b'' \<or> take 2 u = ''0B'' then radix_value 2 (drop 2 u)
      else if hd u = CHR ''-'' then map_option uminus (decimal_value (tl u))
      else decimal_value (if hd u = CHR ''+'' then tl u else u))"

fun to_number :: "jsval \<Rightarrow> int option" where
  "to_number (JNum n) = Some n"
| "to_number (JBool b) = Some (of_bool b)"
| "to_number (JStr s) = js_Number s"
| "to_number JNull = Some 0"
| "to_number _ = None"

text \<open>\<open>n < v\<close> for a number \<open>n\<close>: false when \<open>v\<close> is no number.\<close>

definition num_less :: "int \<Rightarrow> jsval \<Rightarrow> bool" where
  "num_less n v = (case to_number v of Some m \<Rightarrow> n < m | None \<Rightarrow> False)"

definition num_greater :: "int \<Rightarrow> jsval \<Rightarrow> bool" where
  "num_greater n v = (case to_number v of Some m \<Rightarrow> n > m | None \<Rightarrow> False)"

text \<open>A comma-separated entry: \<open>s.split(',').map(trim).filter(Boolean)\<close>.\<close>

definition comma_list :: "string \<Rightarrow> string list" where
  "comma_list s = filter (\<lambda>x. x \<noteq> []) (map js_trim (split_on (CHR '','') s))"

definition get_query :: "string \<Rightarrow> params \<Rightarrow> api_call" where
  "get_query url ps = \<lparr>ac_method = ''GET'', ac_url = url, ac_query = ps, ac_body = NoBody, ac_headers = []\<rparr>"

subsection \<open>Banners and lists\<close>

text \<open>The refs that the pages share, and the error adapter of the console.\<close>

record page_refs =
  pg_loading :: bool
  pg_saving :: bool
  pg_success :: string
  pg_error :: jsval

abbreviation admin_normalized :: "string \<Rightarrow> failure \<Rightarrow> jsval" where
  "admin_normalized cur e \<equiv> admin_normalizeError cur (thrown_value e) JUndef"

text \<open>\<open>errorText\<close>: a stored error is resolved in the active language when it is shown.\<close>

definition admin_errorText :: "string \<Rightarrow> 'x page_refs_scheme \<Rightarrow> string" where
  "admin_errorText cur s = (let e = pg_error s in
     if \<not> truthy e then [] else if is_string e then js_String e
     else admin_getErrorMessage (js_String (getprop e ''code'')) cur)"

definition set_loading :: "bool \<Rightarrow> 'x page_refs_scheme \<Rightarrow> 'x page_refs_scheme" where
  "set_loading b s = s\<lparr>pg_loading := b\<rparr>"

definition set_saving :: "bool \<Rightarrow> 'x page_refs_scheme \<Rightarrow> 'x page_refs_scheme" where
  "set_saving b s = s\<lparr>pg_saving := b\<rparr>"

text \<open>Some pages clear the other banner when they show one, some do not.\<close>

definition success_only :: "string \<Rightarrow> 'x page_refs_scheme \<Rightarrow> 'x page_refs_scheme" where
  "success_only msg s = s\<lparr>pg_success := msg, pg_error := JNull\<rparr>"

definition error_only :: "jsval \<Rightarrow> 'x page_refs_scheme \<Rightarrow> 'x page_refs_scheme" where
  "error_only e s = s\<lparr>pg_error := e, pg_success := []\<rparr>"

definition put_success :: "string \<Rightarrow> 'x page_refs_scheme \<Rightarrow> 'x page_refs_scheme" where
  "put_success msg s = s\<lparr>pg_success := msg\<rparr>"

definition put_error :: "jsval \<Rightarrow> 'x page_refs_scheme \<Rightarrow> 'x page_refs_scheme" where
  "put_error e s = s\<lparr>pg_error := e\<rparr>"

text \<open>The loaders: \<open>loading = true\<close>, the request, the assignments from the reply or the error, \<open>loading = false\<close>.\<close>

definition fetching ::
    "('x page_refs_scheme \<Rightarrow> api_call) \<Rightarrow> (jsval \<Rightarrow> 'x page_refs_scheme \<Rightarrow> 'x page_refs_scheme) \<Rightarrow>
     (failure \<Rightarrow> 'x page_refs_scheme \<Rightarrow> 'x page_refs_scheme) \<Rightarrow> 'x page_refs_scheme co" where
  "fetching call take_reply fail =
     (let done = Do (set_loading False) Halt; bad = (\<lambda>e. Do (fail e) done) in
      Do (set_loading True) (Branch (\<lambda>s. attempt (call s) (\<lambda>data. with_data data bad (Do (take_reply data) done)) bad)))"

text \<open>\<open>resp.data.key || []\<close>.\<close>

definition admin_list :: "string \<Rightarrow> jsval \<Rightarrow> jsval" where
  "admin_list key data = js_or (getprop data key) (JArr [])"

text \<open>The forms: \<open>saving = true\<close>, nothing to send or the request with the changed fields, \<open>saving = false\<close>.\<close>

definition save_form ::
    "('x page_refs_scheme \<Rightarrow> (string \<times> jsval) list) \<Rightarrow> ((string \<times> jsval) list \<Rightarrow> api_call) \<Rightarrow>
     ('x page_refs_scheme \<Rightarrow> 'x page_refs_scheme) \<Rightarrow> 'x page_refs_scheme co \<Rightarrow>
     (failure \<Rightarrow> 'x page_refs_scheme \<Rightarrow> 'x page_refs_scheme) \<Rightarrow> 'x page_refs_scheme co" where
  "save_form changes call none saved fail =
     (let done = Do (set_saving False) Halt in
      Do (set_saving True) (Branch (\<lambda>s.
        if changes s = [] then Do none done
        else attempt (call (changes s)) (\<lambda>data. seq saved done) (\<lambda>e. Do (fail e) done))))"

lemmas page_writes = set_loading_def set_saving_def success_only_def error_only_def put_success_def put_error_def

lemmas run_simps = run_seq run_attempt fetching_def save_form_def with_data_def request_def Let_def

lemma keeps_fetching:
  assumes "\<And>s. P s \<Longrightarrow> Q (call s)" and "\<And>b s. P s \<Longrightarrow> P (set_loading b s)"
    and "\<And>data s. P s \<Longrightarrow> P (take_reply data s)" and "\<And>e s. P s \<Longrightarrow> P (fail e s)"
  shows "keeps P Q (fetching call take_reply fail)"
  using assms by (simp add: fetching_def Let_def keeps_attempt with_data_def)

text \<open>A loader that runs to its end has stopped loading.\<close>

lemma fetching_ends: "pg_loading (fst (run_co api (fetching call take_reply fail) s w)) = False"
  by (simp add: run_simps set_loading_def split: prod.split sum.split)

subsection \<open>Forms that send what was changed\<close>

text \<open>The contract of a form: it loads a record into its inputs, collects the changed fields, and finds none when the
  loaded record is unchanged.\<close>

locale edit_form =
  fixes load :: "jsval \<Rightarrow> 'x page_refs_scheme \<Rightarrow> 'x page_refs_scheme"
    and changes :: "'x page_refs_scheme \<Rightarrow> (string \<times> jsval) list"
    and plain :: "jsval \<Rightarrow> bool"
  assumes unedited: "plain data \<Longrightarrow> changes (load data s) = []"
    and changes_saving: "changes (set_saving b s) = changes s"
begin

lemma edited_save:
  "changes s \<noteq> [] \<Longrightarrow> \<exists>rest. fst (snd (run_co (logged_api api) (save_form changes call none saved fail) s w)) = fst w @ call (changes s) # rest"
  by (simp add: save_form_def Let_def changes_saving run_attempt_logged)

lemma unedited_save:
  "plain data \<Longrightarrow> run_co api (save_form changes call none saved fail) (load data s) w =
     (set_saving False (none (set_saving True (load data s))), w)"
  by (simp add: run_simps unedited changes_saving)

end

subsection \<open>One change per click\<close>

lemma call_methods [simp]: "ac_method (plain_call m u) = m" "ac_method (get_query u ps) = ''GET''" "ac_method (send_json m u v) = m"
  by (simp_all add: plain_call_def get_query_def send_json_def)

text \<open>A handler that only reads, and one that sends one request of any kind and then only reads.\<close>

primrec quiet :: "'s co \<Rightarrow> bool" where
  "quiet Halt = True"
| "quiet (Do f c) = quiet c"
| "quiet (Branch g) = (\<forall>s. quiet (g s))"
| "quiet (Await q k) = (ac_method q = ''GET'' \<and> (\<forall>r. quiet (k r)))"

primrec once :: "'s co \<Rightarrow> bool" where
  "once Halt = True"
| "once (Do f c) = once c"
| "once (Branch g) = (\<forall>s. once (g s))"
| "once (Await q k) = (\<forall>r. quiet (k r))"

lemma quiet_once: "quiet c \<Longrightarrow> once c"
  by (induction c) auto

lemma quiet_seq: "quiet c \<Longrightarrow> quiet d \<Longrightarrow> quiet (seq c d)"
  by (induction c) auto

lemma quiet_attempt: "quiet (attempt q ok bad) \<longleftrightarrow> ac_method q = ''GET'' \<and> (\<forall>d. quiet (ok d)) \<and> (\<forall>e. quiet (bad e))"
proof -
  have "(\<forall>r. quiet (case r of Inr data \<Rightarrow> ok data | Inl e \<Rightarrow> bad e)) \<longleftrightarrow> (\<forall>d. quiet (ok d)) \<and> (\<forall>e. quiet (bad e))"
    by (metis sum.case sum.exhaust)
  then show ?thesis by (simp add: attempt_def)
qed

lemma once_attempt: "once (attempt q ok bad) \<longleftrightarrow> (\<forall>d. quiet (ok d)) \<and> (\<forall>e. quiet (bad e))"
proof -
  have "(\<forall>r. quiet (case r of Inr data \<Rightarrow> ok data | Inl e \<Rightarrow> bad e)) \<longleftrightarrow> (\<forall>d. quiet (ok d)) \<and> (\<forall>e. quiet (bad e))"
    by (metis sum.case sum.exhaust)
  then show ?thesis by (simp add: attempt_def)
qed

lemma quiet_fetching: "(\<And>s. ac_method (call s) = ''GET'') \<Longrightarrow> quiet (fetching call take_reply fail)"
  by (simp add: fetching_def Let_def quiet_attempt with_data_def)

lemma advance_quiet: "quiet c \<Longrightarrow> advance c s = (s', Some (q, k)) \<Longrightarrow> ac_method q = ''GET'' \<and> quiet (k r)"
proof (induction c arbitrary: s)
  case (Branch g)
  then have "quiet (g s)" and "advance (g s) s = (s', Some (q, k))" by simp_all
  with Branch.IH [OF rangeI] show ?case by blast
qed auto

lemma advance_once: "once c \<Longrightarrow> advance c s = (s', Some (q, k)) \<Longrightarrow> quiet (k r)"
proof (induction c arbitrary: s)
  case (Branch g)
  then have "once (g s)" and "advance (g s) s = (s', Some (q, k))" by simp_all
  with Branch.IH [OF rangeI] show ?case by blast
qed auto

definition changes_sent :: "'s live \<Rightarrow> nat" where
  "changes_sent a = length (filter (\<lambda>q. ac_method q \<noteq> ''GET'') (lv_sent a))"

definition waits_quiet :: "'s live \<Rightarrow> bool" where
  "waits_quiet a \<longleftrightarrow> (\<forall>q k r. Some (q, k) \<in> set (lv_waits a) \<longrightarrow> quiet (k r))"

lemma launch_quiet: "quiet c \<Longrightarrow> waits_quiet a \<Longrightarrow> waits_quiet (launch c a) \<and> changes_sent (launch c a) = changes_sent a"
  using advance_quiet [of c "lv_page a"]
  by (auto simp: waits_quiet_def launch_def changes_sent_def split: prod.split option.split)

lemma launch_once: "once c \<Longrightarrow> waits_quiet a \<Longrightarrow> waits_quiet (launch c a) \<and> changes_sent (launch c a) \<le> Suc (changes_sent a)"
  using advance_once [of c "lv_page a"]
  by (auto simp: waits_quiet_def launch_def changes_sent_def split: prod.split option.split)

fun submit_event :: "('e \<Rightarrow> bool) \<Rightarrow> 'e async_event \<Rightarrow> bool" where
  "submit_event p (Act e) = p e"
| "submit_event p (Answer i r) = False"

text \<open>The contract of a page with submit clicks: they are the only ones that send a change, and each sends one.\<close>

locale submit_page =
  fixes handlers :: "'e \<Rightarrow> 's co list"
    and submits :: "'e \<Rightarrow> bool"
  assumes reading: "\<not> submits e \<Longrightarrow> c \<in> set (handlers e) \<Longrightarrow> quiet c"
    and submitting: "submits e \<Longrightarrow> \<exists>c. handlers e = [c] \<and> once c"
begin

lemma fold_quiet:
  "(\<And>c. c \<in> set cs \<Longrightarrow> quiet c) \<Longrightarrow> waits_quiet a \<Longrightarrow> waits_quiet (fold launch cs a) \<and> changes_sent (fold launch cs a) = changes_sent a"
  by (induction cs arbitrary: a) (auto simp: launch_quiet)

lemma step_changes:
  assumes "waits_quiet a" and "async_step handlers e a = Some b"
  shows "waits_quiet b \<and> changes_sent b \<le> changes_sent a + of_bool (submit_event submits e)"
proof (cases e)
  case (Act x)
  show ?thesis
  proof (cases "submits x")
    case True
    with submitting obtain c where "handlers x = [c]" "once c" by blast
    with assms Act True launch_once [of c a] show ?thesis by auto
  next
    case False
    with assms Act fold_quiet [of "handlers x" a] reading [of x] show ?thesis by auto
  qed
next
  case (Answer i r)
  with assms(2) obtain q k where k: "i < length (lv_waits a)" "lv_waits a ! i = Some (q, k)"
      "b = launch (k r) (a\<lparr>lv_waits := (lv_waits a)[i := None]\<rparr>)"
    by (auto split: if_splits option.splits)
  then have "Some (q, k) \<in> set (lv_waits a)" by (metis nth_mem)
  with assms(1) have "quiet (k r)" by (simp add: waits_quiet_def)
  moreover have "waits_quiet (a\<lparr>lv_waits := (lv_waits a)[i := None]\<rparr>)"
    using assms(1) set_update_subset_insert [of "lv_waits a" i None] by (auto simp: waits_quiet_def)
  ultimately show ?thesis using k(3) launch_quiet [of "k r"] Answer by (simp add: changes_sent_def)
qed

lemma exec_changes:
  "waits_quiet a \<Longrightarrow> exec (async_step handlers) es a = Some b \<Longrightarrow> changes_sent b \<le> changes_sent a + length (filter (submit_event submits) es)"
proof (induction es arbitrary: a)
  case Nil
  then show ?case by simp
next
  case (Cons e es)
  then obtain x where x: "async_step handlers e a = Some x" "exec (async_step handlers) es x = Some b" by (auto split: option.splits)
  from step_changes [OF Cons.prems(1) x(1)] Cons.IH [OF _ x(2)] show ?case by auto
qed

lemma run_changes:
  "exec (async_step handlers) es (async_start s) = Some b \<Longrightarrow> changes_sent b \<le> length (filter (submit_event submits) es)"
  using exec_changes [of "async_start s" es b] by (simp add: waits_quiet_def async_start_def changes_sent_def)

end

end
