(* ===== verification/AdminRoles.thy ===== *)
theory AdminRoles
  imports Async
begin

section \<open>The roles and scopes pages of the admin console\<close>

text \<open>
  \<open>RolesPage.vue\<close> and \<open>ScopesPage.vue\<close>.  Every handler is a resumption; the events of a page are its clicks, its
  inputs and the timers that blank a banner.  The role editor loads the permissions of a role
  without awaiting them, so its replies can arrive after another editor was opened.
\<close>

subsection \<open>RolesPage\<close>

datatype roles_action = DeleteRole jsval

record roles_page = page_refs +
  ro_roles :: jsval
  ro_showCreateModal :: bool
  ro_showEditModal :: bool
  ro_selectedRole :: jsval
  ro_newRoleName :: string
  ro_newRoleDescription :: string
  ro_editDescription :: jsval
  ro_editPermissions :: "jsval list"
  ro_confirm :: "roles_action confirm"

definition roles_setup :: roles_page where
  "roles_setup = \<lparr>pg_loading = True, pg_saving = False, pg_success = [], pg_error = JNull, ro_roles = JArr [],
     ro_showCreateModal = False, ro_showEditModal = False, ro_selectedRole = JNull, ro_newRoleName = [],
     ro_newRoleDescription = [], ro_editDescription = JStr [], ro_editPermissions = [],
     ro_confirm = \<lparr>cf_open = False, cf_message = [], cf_action = None\<rparr>\<rparr>"

definition kPermissionCatalog :: "string list" where
  "kPermissionCatalog =
     [''users:read'', ''users:write'', ''clients:read'', ''clients:write'', ''tokens:read'', ''tokens:write'',
      ''roles:read'', ''roles:write'', ''audit:read'', ''admin'']"

definition BUILTIN_ROLES :: "string list" where
  "BUILTIN_ROLES = [''admin'', ''user'']"

definition role_url :: "jsval \<Rightarrow> string \<Rightarrow> string" where
  "role_url role rest = ''/api/admin/roles/'' @ js_String (getprop role ''id'') @ rest"

definition fetchRoles :: "string \<Rightarrow> roles_page co" where
  "fetchRoles cur = fetching (\<lambda>s. plain_call ''GET'' ''/api/admin/roles'')
     (\<lambda>data s. s\<lparr>ro_roles := admin_list ''roles'' data\<rparr>) (\<lambda>e. error_only (admin_normalized cur e))"

definition createRole :: "translate \<Rightarrow> string \<Rightarrow> roles_page co" where
  "createRole t cur = Branch (\<lambda>s.
     if js_trim (ro_newRoleName s) = [] then Halt
     else Do (set_saving True) (attempt
       (send_json ''POST'' ''/api/admin/roles''
         (JObj [(''name'', JStr (js_trim (ro_newRoleName s))), (''description'', JStr (js_trim (ro_newRoleDescription s)))]))
       (\<lambda>data. Do (\<lambda>s. (success_only (t ''admin.roles.created'' [(''name'', ro_newRoleName s)]) s)
            \<lparr>ro_showCreateModal := False, ro_newRoleName := [], ro_newRoleDescription := []\<rparr>)
          (seq (fetchRoles cur) (Do (set_saving False) Halt)))
       (\<lambda>e. Do (error_only (admin_normalized cur e)) (Do (set_saving False) Halt))))"

text \<open>The permissions of a reply that the editor offers; a value without \<open>filter\<close> throws, which the \<open>catch\<close> drops.\<close>

definition offered :: "jsval \<Rightarrow> jsval list option" where
  "offered data = (let v = getprop data ''permissions'' in
     if nullish v then Some [] else (case v of
       JArr xs \<Rightarrow> Some (filter (\<lambda>p. p \<in> JStr ` set kPermissionCatalog) xs) | _ \<Rightarrow> None))"

definition openEditModal :: "jsval \<Rightarrow> roles_page co" where
  "openEditModal role = Do (\<lambda>s. s\<lparr>ro_selectedRole := role, ro_editDescription := or_empty (getprop role ''description''),
       ro_editPermissions := [], ro_showEditModal := True\<rparr>)
     (attempt (plain_call ''GET'' (role_url role ''/permissions''))
       (\<lambda>data. case offered data of None \<Rightarrow> Halt | Some ps \<Rightarrow> Do (\<lambda>s. s\<lparr>ro_editPermissions := ps\<rparr>) Halt)
       (\<lambda>e. Halt))"

text \<open>Both requests name the role that is selected when they are sent.\<close>

definition updateRole :: "translate \<Rightarrow> string \<Rightarrow> roles_page co" where
  "updateRole t cur = Branch (\<lambda>s.
     if \<not> truthy (ro_selectedRole s) then Halt
     else (let bad = (\<lambda>e. Do (error_only (admin_normalized cur e)) (Do (set_saving False) Halt)) in
       Do (set_saving True) (attempt
         (send_json ''PUT'' (role_url (ro_selectedRole s) []) (JObj [(''description'', ro_editDescription s)]))
         (\<lambda>data. Branch (\<lambda>s. attempt
           (send_json ''PUT'' (role_url (ro_selectedRole s) ''/permissions'') (JObj [(''permissions'', JArr (ro_editPermissions s))]))
           (\<lambda>data. Do (\<lambda>s. (success_only (t ''admin.roles.updated'' []) s)\<lparr>ro_showEditModal := False\<rparr>)
              (seq (fetchRoles cur) (Do (set_saving False) Halt)))
           bad))
         bad)))"

definition deleteRole :: "translate \<Rightarrow> jsval \<Rightarrow> roles_page co" where
  "deleteRole t role = Do (\<lambda>s. s\<lparr>ro_confirm := askConfirm
     (t ''admin.roles.deleteConfirm'' [(''name'', js_String (getprop role ''name''))]) (DeleteRole role) (ro_confirm s)\<rparr>) Halt"

definition run_deleteRole :: "translate \<Rightarrow> string \<Rightarrow> jsval \<Rightarrow> roles_page co" where
  "run_deleteRole t cur role = attempt (plain_call ''DELETE'' (role_url role []))
     (\<lambda>data. Do (success_only (t ''admin.roles.deleted'' [(''name'', js_String (getprop role ''name''))])) (fetchRoles cur))
     (\<lambda>e. Do (error_only (admin_normalized cur e)) Halt)"

definition roles_runConfirm :: "translate \<Rightarrow> string \<Rightarrow> roles_page co" where
  "roles_runConfirm t cur = Branch (\<lambda>s. case take_confirm (ro_confirm s) of
     (act, cf) \<Rightarrow> Do (\<lambda>s. s\<lparr>ro_confirm := cf\<rparr>)
       (case act of None \<Rightarrow> Halt | Some (DeleteRole role) \<Rightarrow> run_deleteRole t cur role))"

text \<open>The checkbox of a permission, in the order in which \<open>v-model\<close> keeps an array.\<close>

definition toggle_in :: "'a \<Rightarrow> 'a list \<Rightarrow> 'a list" where
  "toggle_in p ps = (if p \<in> set ps then remove1 p ps else ps @ [p])"

datatype roles_event =
    RolesMounted | RolesInput "string option" "string option" "string option" | ShowCreateRole bool | SubmitRole
  | EditRole jsval | CloseEditor | TogglePermission nat | SaveRole | AskDeleteRole jsval | ConfirmRole | CancelRole
  | RolesSuccessTimeout | RolesErrorTimeout

fun roles_handlers :: "translate \<Rightarrow> string \<Rightarrow> roles_event \<Rightarrow> roles_page co list" where
  "roles_handlers t cur RolesMounted = [fetchRoles cur]"
| "roles_handlers t cur (RolesInput n d e) = [Do (\<lambda>s. s\<lparr>ro_newRoleName := (case n of Some v \<Rightarrow> v | None \<Rightarrow> ro_newRoleName s),
     ro_newRoleDescription := (case d of Some v \<Rightarrow> v | None \<Rightarrow> ro_newRoleDescription s),
     ro_editDescription := (case e of Some v \<Rightarrow> JStr v | None \<Rightarrow> ro_editDescription s)\<rparr>) Halt]"
| "roles_handlers t cur (ShowCreateRole b) = [Do (\<lambda>s. s\<lparr>ro_showCreateModal := b\<rparr>) Halt]"
| "roles_handlers t cur SubmitRole = [createRole t cur]"
| "roles_handlers t cur (EditRole role) = [openEditModal role]"
| "roles_handlers t cur CloseEditor = [Do (\<lambda>s. s\<lparr>ro_showEditModal := False\<rparr>) Halt]"
| "roles_handlers t cur (TogglePermission i) = [Do (\<lambda>s. if i < length kPermissionCatalog
     then s\<lparr>ro_editPermissions := toggle_in (JStr (kPermissionCatalog ! i)) (ro_editPermissions s)\<rparr> else s) Halt]"
| "roles_handlers t cur SaveRole = [updateRole t cur]"
| "roles_handlers t cur (AskDeleteRole role) = [deleteRole t role]"
| "roles_handlers t cur ConfirmRole = [roles_runConfirm t cur]"
| "roles_handlers t cur CancelRole = [Do (\<lambda>s. s\<lparr>ro_confirm := (ro_confirm s)\<lparr>cf_open := False\<rparr>\<rparr>) Halt]"
| "roles_handlers t cur RolesSuccessTimeout = [Do (put_success []) Halt]"
| "roles_handlers t cur RolesErrorTimeout = [Do (put_error JNull) Halt]"

subsection \<open>ScopesPage\<close>

record scope_form =
  sf_description :: jsval
  sf_description_zh :: jsval
  sf_mapped_role :: jsval
  sf_is_default :: jsval
  sf_requires_admin_role :: jsval

datatype scopes_action = DeleteScope jsval

record scopes_page = page_refs +
  so_scopes :: jsval
  so_showCreateModal :: bool
  so_showEditModal :: bool
  so_selectedScope :: jsval
  so_newName :: string
  so_newScope :: scope_form
  so_editScope :: scope_form
  so_confirm :: "scopes_action confirm"

definition empty_scope :: scope_form where
  "empty_scope = \<lparr>sf_description = JStr [], sf_description_zh = JStr [], sf_mapped_role = JStr [], sf_is_default = JBool False,
     sf_requires_admin_role = JBool False\<rparr>"

definition scope_fields :: "scope_form \<Rightarrow> (string \<times> jsval) list" where
  "scope_fields f = [(''description'', sf_description f), (''description_zh'', sf_description_zh f), (''mapped_role'', sf_mapped_role f),
     (''is_default'', sf_is_default f), (''requires_admin_role'', sf_requires_admin_role f)]"

definition BUILTIN_SCOPES :: "string list" where
  "BUILTIN_SCOPES = [''openid'', ''profile'', ''email'', ''admin'', ''users:read'', ''users:write'', ''clients:read'', ''clients:write'',
     ''tokens:read'', ''tokens:write'', ''roles:read'', ''roles:write'', ''audit:read'']"

definition scope_url :: "jsval \<Rightarrow> string" where
  "scope_url scope = ''/api/admin/scopes/'' @ js_String (getprop scope ''id'')"

definition fetchScopes :: "string \<Rightarrow> scopes_page co" where
  "fetchScopes cur = fetching (\<lambda>s. plain_call ''GET'' ''/api/admin/scopes'')
     (\<lambda>data s. s\<lparr>so_scopes := admin_list ''scopes'' data\<rparr>) (\<lambda>e. error_only (admin_normalized cur e))"

definition createScope :: "translate \<Rightarrow> string \<Rightarrow> scopes_page co" where
  "createScope t cur = Branch (\<lambda>s.
     if js_trim (so_newName s) = [] then Halt
     else Do (set_saving True) (attempt
       (send_json ''POST'' ''/api/admin/scopes'' (JObj ((''name'', JStr (so_newName s)) # scope_fields (so_newScope s))))
       (\<lambda>data. Do (\<lambda>s. (success_only (t ''admin.scopes.created'' [(''name'', so_newName s)]) s)
            \<lparr>so_showCreateModal := False, so_newName := [], so_newScope := empty_scope\<rparr>)
          (seq (fetchScopes cur) (Do (set_saving False) Halt)))
       (\<lambda>e. Do (error_only (admin_normalized cur e)) (Do (set_saving False) Halt))))"

definition open_scope :: "jsval \<Rightarrow> scopes_page co" where
  "open_scope scope = Do (\<lambda>s. s\<lparr>so_selectedScope := scope,
     so_editScope := \<lparr>sf_description = or_empty (getprop scope ''description''), sf_description_zh = or_empty (getprop scope ''description_zh''),
       sf_mapped_role = or_empty (getprop scope ''mapped_role''), sf_is_default = js_or (getprop scope ''is_default'') (JBool False),
       sf_requires_admin_role = js_or (getprop scope ''requires_admin_role'') (JBool False)\<rparr>,
     so_showEditModal := True\<rparr>) Halt"

definition updateScope :: "translate \<Rightarrow> string \<Rightarrow> scopes_page co" where
  "updateScope t cur = Branch (\<lambda>s.
     if \<not> truthy (so_selectedScope s) then Halt
     else Do (set_saving True) (attempt
       (send_json ''PUT'' (scope_url (so_selectedScope s)) (JObj (scope_fields (so_editScope s))))
       (\<lambda>data. Do (\<lambda>s. (success_only (t ''admin.scopes.updated'' []) s)\<lparr>so_showEditModal := False\<rparr>)
          (seq (fetchScopes cur) (Do (set_saving False) Halt)))
       (\<lambda>e. Do (error_only (admin_normalized cur e)) (Do (set_saving False) Halt))))"

definition deleteScope :: "translate \<Rightarrow> jsval \<Rightarrow> scopes_page co" where
  "deleteScope t scope = Do (\<lambda>s. s\<lparr>so_confirm := askConfirm
     (t ''admin.scopes.deleteConfirm'' [(''name'', js_String (getprop scope ''name''))]) (DeleteScope scope) (so_confirm s)\<rparr>) Halt"

definition run_deleteScope :: "translate \<Rightarrow> string \<Rightarrow> jsval \<Rightarrow> scopes_page co" where
  "run_deleteScope t cur scope = attempt (plain_call ''DELETE'' (scope_url scope))
     (\<lambda>data. Do (success_only (t ''admin.scopes.deleted'' [(''name'', js_String (getprop scope ''name''))])) (fetchScopes cur))
     (\<lambda>e. Do (error_only (admin_normalized cur e)) Halt)"

definition scopes_runConfirm :: "translate \<Rightarrow> string \<Rightarrow> scopes_page co" where
  "scopes_runConfirm t cur = Branch (\<lambda>s. case take_confirm (so_confirm s) of
     (act, cf) \<Rightarrow> Do (\<lambda>s. s\<lparr>so_confirm := cf\<rparr>)
       (case act of None \<Rightarrow> Halt | Some (DeleteScope scope) \<Rightarrow> run_deleteScope t cur scope))"

subsection \<open>Properties\<close>

definition catalog_only :: "jsval list \<Rightarrow> bool" where
  "catalog_only ps \<longleftrightarrow> set ps \<subseteq> JStr ` set kPermissionCatalog"

text \<open>A request whose body names permissions names permissions of the catalog.\<close>

definition permissions_ok :: "api_call \<Rightarrow> bool" where
  "permissions_ok q \<longleftrightarrow> ac_body q = NoBody \<or> (\<exists>fs. ac_body q = JsonText (stringify (JObj fs)) \<and>
     (\<forall>v. map_of fs ''permissions'' = Some v \<longrightarrow> (\<exists>ps. v = JArr ps \<and> catalog_only ps)))"

lemma permissions_ok_plain [simp]: "permissions_ok (plain_call m u)"
  by (simp add: permissions_ok_def plain_call_def)

lemma permissions_ok_json:
  "(\<And>v. map_of fs ''permissions'' = Some v \<Longrightarrow> \<exists>ps. v = JArr ps \<and> catalog_only ps) \<Longrightarrow> permissions_ok (send_json m u (JObj fs))"
  unfolding permissions_ok_def send_json_def by (rule disjI2, rule exI [of _ fs]) simp

lemma offered_catalog: "offered data = Some ps \<Longrightarrow> catalog_only ps"
  by (auto simp: offered_def catalog_only_def Let_def split: if_splits jsval.splits)

lemma toggle_catalog: "catalog_only ps \<Longrightarrow> i < length kPermissionCatalog \<Longrightarrow> catalog_only (toggle_in (JStr (kPermissionCatalog ! i)) ps)"
  using set_remove1_subset [of "JStr (kPermissionCatalog ! i)" ps] by (auto simp: catalog_only_def toggle_in_def)

abbreviation roles_inv :: "roles_page \<Rightarrow> bool" where
  "roles_inv s \<equiv> catalog_only (ro_editPermissions s)"

lemma fetchRoles_keeps: "keeps roles_inv permissions_ok (fetchRoles cur)"
  unfolding fetchRoles_def by (rule keeps_fetching) (simp_all add: page_writes)

lemmas roles_defs = createRole_def openEditModal_def updateRole_def deleteRole_def run_deleteRole_def roles_runConfirm_def

lemma roles_handlers_keep: "c \<in> set (roles_handlers t cur e) \<Longrightarrow> keeps roles_inv permissions_ok c"
  by (cases e)
     (auto simp: roles_defs keeps_attempt Let_def page_writes fetchRoles_keeps toggle_catalog offered_catalog catalog_only_def [of "[]"]
        intro!: keeps_seq permissions_ok_json split: option.splits roles_action.splits prod.splits)

interpretation roles: page_handlers "roles_handlers t cur" roles_inv permissions_ok for t cur
  by unfold_locales (rule roles_handlers_keep)

lemmas async_run_simps = async_start_def launch_def attempt_def fetching_def with_data_def Let_def page_writes

text \<open>C37. Whatever the order of clicks, replies and timers, no request of the roles page carries a permission outside the
  permission catalog.\<close>

theorem roles_send_catalog_permissions:
  assumes "exec (async_step (roles_handlers t cur)) es (async_start roles_setup) = Some a" and "q \<in> set (lv_sent a)"
  shows "ac_body q = NoBody \<or> (\<exists>fs. ac_body q = JsonText (stringify (JObj fs)) \<and>
     (\<forall>v. map_of fs ''permissions'' = Some v \<longrightarrow> (\<exists>ps. v = JArr ps \<and> set ps \<subseteq> JStr ` set kPermissionCatalog)))"
proof -
  have "roles_inv roles_setup" by (simp add: roles_setup_def catalog_only_def)
  from roles.page_always [OF this assms(1)] assms(2) have "permissions_ok q" by blast
  then show ?thesis by (simp add: permissions_ok_def catalog_only_def)
qed

theorem roles_send_catalog_permissions_witness:
  "\<exists>a q. exec (async_step (roles_handlers (\<lambda>k ps. k) ''en'')) [Act (EditRole (JObj [(''id'', JNum 1)])),
       Answer 0 (Inr (JObj [(''permissions'', JArr [JStr ''admin'', JStr ''legacy''])])), Act SaveRole, Answer 1 (Inr JNull)]
       (async_start roles_setup) = Some a \<and> q \<in> set (lv_sent a) \<and>
     (ac_body q = NoBody \<or> (\<exists>fs. ac_body q = JsonText (stringify (JObj fs)) \<and>
       (\<forall>v. map_of fs ''permissions'' = Some v \<longrightarrow> (\<exists>ps. v = JArr ps \<and> set ps \<subseteq> JStr ` set kPermissionCatalog))))"
proof -
  let ?run = "exec (async_step (roles_handlers (\<lambda>k ps. k) ''en'')) [Act (EditRole (JObj [(''id'', JNum 1)])),
       Answer 0 (Inr (JObj [(''permissions'', JArr [JStr ''admin'', JStr ''legacy''])])), Act SaveRole, Answer 1 (Inr JNull)]
       (async_start roles_setup)"
  have "\<exists>a. ?run = Some a \<and> lv_sent a \<noteq> []"
    by (simp add: async_run_simps roles_setup_def openEditModal_def updateRole_def offered_def)
  then obtain a where a: "?run = Some a" "last (lv_sent a) \<in> set (lv_sent a)" by auto
  with roles_send_catalog_permissions [OF a] show ?thesis by blast
qed

text \<open>C38. The permissions of one role can be saved into another: when the editor of a second role is opened before the
  permissions of the first have arrived, the late reply replaces those of the second, and
  saving writes them to the second role.\<close>

theorem role_editor_saves_other_permissions:
  assumes "offered pa = Some ps" and "offered pb = Some ps'" and "truthy b"
  shows "\<exists>x. exec (async_step (roles_handlers t cur)) [Act (EditRole a), Act CloseEditor, Act (EditRole b), Answer 1 (Inr pb),
       Answer 0 (Inr pa), Act SaveRole, Answer 2 (Inr ok)] (async_start roles_setup) = Some x \<and>
     last (lv_sent x) = send_json ''PUT'' (role_url b ''/permissions'') (JObj [(''permissions'', JArr ps)])"
  using assms by (simp add: async_run_simps roles_setup_def openEditModal_def updateRole_def)

theorem role_editor_saves_other_permissions_witness:
  "\<exists>x. exec (async_step (roles_handlers (\<lambda>k ps. k) ''en'')) [Act (EditRole (JObj [(''id'', JNum 1)])), Act CloseEditor,
       Act (EditRole (JObj [(''id'', JNum 2)])), Answer 1 (Inr (JObj [(''permissions'', JArr [JStr ''audit:read''])])),
       Answer 0 (Inr (JObj [(''permissions'', JArr [JStr ''admin''])])), Act SaveRole, Answer 2 (Inr JNull)] (async_start roles_setup) = Some x \<and>
     last (lv_sent x) = send_json ''PUT'' (role_url (JObj [(''id'', JNum 2)]) ''/permissions'') (JObj [(''permissions'', JArr [JStr ''admin''])])"
  by (rule role_editor_saves_other_permissions [where ps' = "[JStr ''audit:read'']"])
     (simp_all add: offered_def kPermissionCatalog_def)

text \<open>A save that is not interleaved with another editor writes back the loaded permissions of the catalog, after the
  description, to the role that was opened; the editor is closed and the page idle at its end.\<close>

theorem role_save_roundtrip:
  assumes "truthy role" and "offered perms = Some ps"
    and "\<And>w. api (plain_call ''GET'' (role_url role ''/permissions'')) w = (AxOk perms, w)"
    and "\<And>u v w. api (send_json ''PUT'' u v) w = (AxOk (answer u), w)"
  shows "\<exists>s' w'. run_co (logged_api api) (seq (openEditModal role) (updateRole t cur)) s ([], w) = (s', (
     [plain_call ''GET'' (role_url role ''/permissions''),
      send_json ''PUT'' (role_url role []) (JObj [(''description'', or_empty (getprop role ''description''))]),
      send_json ''PUT'' (role_url role ''/permissions'') (JObj [(''permissions'', JArr ps)]),
      plain_call ''GET'' ''/api/admin/roles''], w')) \<and>
     ro_showEditModal s' = False \<and> pg_saving s' = False \<and> pg_loading s' = False"
  using assms
  by (simp add: run_simps logged_api_def openEditModal_def updateRole_def fetchRoles_def page_writes split: prod.split ax_result.split)

theorem role_save_roundtrip_witness:
  "\<exists>s' w'. run_co (logged_api (\<lambda>c w. (if ac_method c = ''GET'' then AxOk (JObj [(''permissions'', JArr [JStr ''admin''])]) else AxOk JNull, w)))
       (seq (openEditModal (JObj [(''id'', JNum 1)])) (updateRole (\<lambda>k ps. k) ''en'')) roles_setup ([], ()) = (s', w') \<and>
     ro_showEditModal s' = False \<and> pg_saving s' = False"
proof -
  let ?api = "\<lambda>c w. (if ac_method c = ''GET'' then AxOk (JObj [(''permissions'', JArr [JStr ''admin''])]) else AxOk JNull, w)"
  have "\<exists>s' w'. run_co (logged_api ?api) (seq (openEditModal (JObj [(''id'', JNum 1)])) (updateRole (\<lambda>k ps. k) ''en'')) roles_setup ([], ()) = (s', (
     [plain_call ''GET'' (role_url (JObj [(''id'', JNum 1)]) ''/permissions''),
      send_json ''PUT'' (role_url (JObj [(''id'', JNum 1)]) []) (JObj [(''description'', or_empty (getprop (JObj [(''id'', JNum 1)]) ''description''))]),
      send_json ''PUT'' (role_url (JObj [(''id'', JNum 1)]) ''/permissions'') (JObj [(''permissions'', JArr [JStr ''admin''])]),
      plain_call ''GET'' ''/api/admin/roles''], w')) \<and>
     ro_showEditModal s' = False \<and> pg_saving s' = False \<and> pg_loading s' = False"
    by (rule role_save_roundtrip [where perms = "JObj [(''permissions'', JArr [JStr ''admin''])]" and answer = "\<lambda>u. JNull"])
       (simp_all add: offered_def kPermissionCatalog_def plain_call_def send_json_def)
  then show ?thesis by blast
qed

end
