(* ===== verification/AdminUsers.thy ===== *)
theory AdminUsers
  imports Async
begin

section \<open>The user pages of the admin console\<close>

text \<open>
  \<open>UsersPage.vue\<close> (the paged list, role assignment, creation and deletion of users) and \<open>UserDetailPage.vue\<close> (the
  form of one user).  The dash that joins a warning to a message is written as the escape of
  its code unit.
\<close>

subsection \<open>UsersPage\<close>

record user_form =
  uf_username :: string
  uf_password :: string
  uf_email :: string
  uf_roles :: string
  uf_email_verified :: bool
  uf_mfa_enabled :: bool

definition empty_user :: user_form where
  "empty_user = \<lparr>uf_username = [], uf_password = [], uf_email = [], uf_roles = [], uf_email_verified = False, uf_mfa_enabled = False\<rparr>"

datatype users_action = DeleteUser jsval

record users_page = page_refs +
  us_users :: jsval
  us_showRoleModal :: bool
  us_showCreateModal :: bool
  us_selectedUser :: jsval
  us_roleInput :: string
  us_currentPage :: int
  us_perPage :: int
  us_total :: jsval
  us_totalPages :: jsval
  us_searchQuery :: string
  us_roleFilter :: string
  us_lockedFilter :: string
  us_createForm :: user_form
  us_confirm :: "users_action confirm"

definition users_setup :: users_page where
  "users_setup = \<lparr>pg_loading = True, pg_saving = False, pg_success = [], pg_error = JNull, us_users = JArr [], us_showRoleModal = False,
     us_showCreateModal = False, us_selectedUser = JNull, us_roleInput = [], us_currentPage = 1, us_perPage = 50, us_total = JNum 0,
     us_totalPages = JNum 0, us_searchQuery = [], us_roleFilter = [], us_lockedFilter = [], us_createForm = empty_user,
     us_confirm = \<lparr>cf_open = False, cf_message = [], cf_action = None\<rparr>\<rparr>"

definition hasPrev :: "users_page \<Rightarrow> bool" where
  "hasPrev s \<longleftrightarrow> us_currentPage s > 1"

definition hasNext :: "users_page \<Rightarrow> bool" where
  "hasNext s \<longleftrightarrow> num_less (us_currentPage s) (us_totalPages s)"

definition users_query :: "users_page \<Rightarrow> api_call" where
  "users_query s = get_query ''/api/admin/users''
     ([(''page'', int_digits (us_currentPage s)), (''per_page'', int_digits (us_perPage s))] @
      (if us_searchQuery s \<noteq> [] then [(''q'', us_searchQuery s)] else []) @
      (if us_roleFilter s \<noteq> [] then [(''role'', us_roleFilter s)] else []) @
      (if us_lockedFilter s \<noteq> [] then [(''locked'', us_lockedFilter s)] else []))"

definition fetchUsers :: "string \<Rightarrow> users_page co" where
  "fetchUsers cur = fetching users_query
     (\<lambda>data s. s\<lparr>us_users := admin_list ''users'' data, us_total := js_or (getprop data ''total'') (JNum 0),
        us_totalPages := js_or (getprop data ''total_pages'') (JNum 0)\<rparr>)
     (\<lambda>e. put_error (admin_normalized cur e))"

definition applySearch :: "string \<Rightarrow> users_page co" where
  "applySearch cur = Do (\<lambda>s. s\<lparr>us_currentPage := 1\<rparr>) (fetchUsers cur)"

definition goToPage :: "string \<Rightarrow> int \<Rightarrow> users_page co" where
  "goToPage cur page = Branch (\<lambda>s.
     if page < 1 \<or> num_greater page (us_totalPages s) then Halt
     else Do (\<lambda>s. s\<lparr>us_currentPage := page\<rparr>) (fetchUsers cur))"

text \<open>Roles that are no array have no \<open>join\<close>: the handler throws after it has selected the user.\<close>

definition openRoleModal :: "jsval \<Rightarrow> users_page co" where
  "openRoleModal user = Do (\<lambda>s. s\<lparr>us_selectedUser := user\<rparr>)
     (case js_or (getprop user ''roles'') (JArr []) of
        JArr xs \<Rightarrow> Do (\<lambda>s. s\<lparr>us_roleInput := join_with '', '' (map (\<lambda>v. if nullish v then [] else js_String v) xs),
          us_showRoleModal := True\<rparr>) Halt
      | _ \<Rightarrow> Halt)"

definition assignRoles :: "translate \<Rightarrow> string \<Rightarrow> users_page co" where
  "assignRoles t cur = Branch (\<lambda>s.
     if \<not> truthy (us_selectedUser s) \<or> js_trim (us_roleInput s) = [] then Halt
     else Do (set_saving True) (attempt
       (send_json ''PUT'' (''/api/admin/users/'' @ js_String (getprop (us_selectedUser s) ''id'') @ ''/roles'')
         (JObj [(''roles'', JArr (map JStr (comma_list (us_roleInput s))))]))
       (\<lambda>data. Do (\<lambda>s. put_success (t ''admin.users.rolesAssigned'' []) (s\<lparr>us_showRoleModal := False\<rparr>))
          (seq (fetchUsers cur) (Do (set_saving False) Halt)))
       (\<lambda>e. Do (put_error (admin_normalized cur e)) (Do (set_saving False) Halt))))"

definition user_body :: "user_form \<Rightarrow> jsval" where
  "user_body f = JObj ([(''username'', JStr (uf_username f)), (''password'', JStr (uf_password f)),
       (''email_verified'', JBool (uf_email_verified f)), (''mfa_enabled'', JBool (uf_mfa_enabled f))] @
     (if uf_email f \<noteq> [] then [(''email'', JStr (uf_email f))] else []) @
     (if uf_roles f \<noteq> [] then [(''roles'', JArr (map JStr (comma_list (uf_roles f))))] else []))"

text \<open>The outcome of a creation: roles that could not be assigned and a warning are reported as an error.\<close>

definition created_banner :: "translate \<Rightarrow> string \<Rightarrow> jsval \<Rightarrow> users_page \<Rightarrow> users_page" where
  "created_banner t cur data =
     (let failed = js_or (getprop data ''roles_failed'') (JArr []); warning = getprop data ''warning'' in
      if has_length failed \<or> truthy warning then
        (case failed of
           JArr xs \<Rightarrow> put_error (JStr (t ''admin.users.createdRolesFailed''
             [(''roles'', join_with '', '' (map (\<lambda>v. if nullish v then [] else js_String v) xs)),
              (''warning'', if truthy warning then '' %u2014 '' @ js_String warning else [])]))
         | _ \<Rightarrow> put_error (admin_normalized cur (Threw TypeErr)))
      else put_success (t ''admin.users.userCreated'' []))"

text \<open>When the reported roles are no array, the throw also skips the reload.\<close>

definition created_reloads :: "jsval \<Rightarrow> bool" where
  "created_reloads data = (let failed = js_or (getprop data ''roles_failed'') (JArr []) in
     \<not> (has_length failed \<or> truthy (getprop data ''warning'')) \<or> (case failed of JArr xs \<Rightarrow> True | _ \<Rightarrow> False))"

definition createUser :: "translate \<Rightarrow> string \<Rightarrow> users_page co" where
  "createUser t cur = Branch (\<lambda>s. let f = us_createForm s in
     if js_trim (uf_username f) = [] \<or> js_trim (uf_password f) = []
     then Do (put_error (JStr (t ''admin.users.usernamePasswordRequired'' []))) Halt
     else if length (uf_password f) < 8 then Do (put_error (JStr (t ''common.passwordMinLength'' []))) Halt
     else Do (set_saving True) (attempt (send_json ''POST'' ''/api/admin/users'' (user_body f))
       (\<lambda>data. Do (\<lambda>s. s\<lparr>us_showCreateModal := False, us_createForm := empty_user\<rparr>)
          (Do (created_banner t cur data)
            (seq (if created_reloads data then fetchUsers cur else Halt) (Do (set_saving False) Halt))))
       (\<lambda>e. Do (put_error (admin_normalized cur e)) (Do (set_saving False) Halt))))"

definition deleteUser :: "translate \<Rightarrow> jsval \<Rightarrow> users_page co" where
  "deleteUser t user = Do (\<lambda>s. s\<lparr>us_confirm := askConfirm
     (t ''admin.users.deleteConfirm'' [(''name'', js_String (getprop user ''username''))]) (DeleteUser user) (us_confirm s)\<rparr>) Halt"

definition deleted_banner :: "translate \<Rightarrow> jsval \<Rightarrow> users_page \<Rightarrow> users_page" where
  "deleted_banner t data =
     (if getprop data ''tokens_revoked'' = JBool False
      then put_error (JStr (t ''admin.users.deletedRevokeIssue''
        [(''detail'', js_String (js_or (getprop data ''warning'') (JStr (t ''admin.users.someTokensNotRevoked'' []))))]))
      else put_success (t ''admin.users.userDeleted'' []))"

definition run_deleteUser :: "translate \<Rightarrow> string \<Rightarrow> jsval \<Rightarrow> users_page co" where
  "run_deleteUser t cur user = attempt (plain_call ''DELETE'' (''/api/admin/users/'' @ js_String (getprop user ''id'')))
     (\<lambda>data. Do (deleted_banner t data) (fetchUsers cur)) (\<lambda>e. Do (put_error (admin_normalized cur e)) Halt)"

definition users_runConfirm :: "translate \<Rightarrow> string \<Rightarrow> users_page co" where
  "users_runConfirm t cur = Branch (\<lambda>s. case take_confirm (us_confirm s) of
     (act, cf) \<Rightarrow> Do (\<lambda>s. s\<lparr>us_confirm := cf\<rparr>)
       (case act of None \<Rightarrow> Halt | Some (DeleteUser user) \<Rightarrow> run_deleteUser t cur user))"

datatype users_field = SearchQuery | RoleFilter | LockedFilter | RoleInput | FormUsername | FormPassword | FormEmail | FormRoles

fun users_input :: "users_field \<Rightarrow> string \<Rightarrow> users_page \<Rightarrow> users_page" where
  "users_input SearchQuery v s = s\<lparr>us_searchQuery := v\<rparr>"
| "users_input RoleFilter v s = s\<lparr>us_roleFilter := v\<rparr>"
| "users_input LockedFilter v s = s\<lparr>us_lockedFilter := v\<rparr>"
| "users_input RoleInput v s = s\<lparr>us_roleInput := v\<rparr>"
| "users_input FormUsername v s = s\<lparr>us_createForm := (us_createForm s)\<lparr>uf_username := v\<rparr>\<rparr>"
| "users_input FormPassword v s = s\<lparr>us_createForm := (us_createForm s)\<lparr>uf_password := v\<rparr>\<rparr>"
| "users_input FormEmail v s = s\<lparr>us_createForm := (us_createForm s)\<lparr>uf_email := v\<rparr>\<rparr>"
| "users_input FormRoles v s = s\<lparr>us_createForm := (us_createForm s)\<lparr>uf_roles := v\<rparr>\<rparr>"

datatype users_event =
    UsersMounted | UsersInput users_field string | FormFlags bool bool | Search | GoToPage int | OpenRoles jsval | CloseRoles | AssignRoles
  | ShowCreateUser bool | SubmitUser | AskDeleteUser jsval | ConfirmUser | CancelUser | UsersSuccessTimeout | UsersErrorTimeout

fun users_handlers :: "translate \<Rightarrow> string \<Rightarrow> users_event \<Rightarrow> users_page co list" where
  "users_handlers t cur UsersMounted = [fetchUsers cur]"
| "users_handlers t cur (UsersInput f v) = [Do (users_input f v) Halt]"
| "users_handlers t cur (FormFlags verified mfa) = [Do (\<lambda>s. s\<lparr>us_createForm := (us_createForm s)
     \<lparr>uf_email_verified := verified, uf_mfa_enabled := mfa\<rparr>\<rparr>) Halt]"
| "users_handlers t cur Search = [applySearch cur]"
| "users_handlers t cur (GoToPage page) = [goToPage cur page]"
| "users_handlers t cur (OpenRoles user) = [openRoleModal user]"
| "users_handlers t cur CloseRoles = [Do (\<lambda>s. s\<lparr>us_showRoleModal := False\<rparr>) Halt]"
| "users_handlers t cur AssignRoles = [assignRoles t cur]"
| "users_handlers t cur (ShowCreateUser b) = [Do (\<lambda>s. s\<lparr>us_showCreateModal := b\<rparr>) Halt]"
| "users_handlers t cur SubmitUser = [createUser t cur]"
| "users_handlers t cur (AskDeleteUser user) = [deleteUser t user]"
| "users_handlers t cur ConfirmUser = [users_runConfirm t cur]"
| "users_handlers t cur CancelUser = [Do (\<lambda>s. s\<lparr>us_confirm := (us_confirm s)\<lparr>cf_open := False\<rparr>\<rparr>) Halt]"
| "users_handlers t cur UsersSuccessTimeout = [Do (put_success []) Halt]"
| "users_handlers t cur UsersErrorTimeout = [Do (put_error JNull) Halt]"

subsection \<open>UserDetailPage\<close>

datatype user_action = DisableUser

record user_page = page_refs +
  ud_user :: jsval
  ud_allRoles :: jsval
  ud_editUsername :: jsval
  ud_editEmail :: jsval
  ud_editEmailVerified :: jsval
  ud_editMfaEnabled :: jsval
  ud_editLocked :: jsval
  ud_selectedRoles :: "jsval list"
  ud_confirm :: "user_action confirm"

definition user_setup :: user_page where
  "user_setup = \<lparr>pg_loading = True, pg_saving = False, pg_success = [], pg_error = JNull, ud_user = JObj [], ud_allRoles = JArr [],
     ud_editUsername = JStr [], ud_editEmail = JStr [], ud_editEmailVerified = JBool False, ud_editMfaEnabled = JBool False,
     ud_editLocked = JBool False, ud_selectedRoles = [], ud_confirm = \<lparr>cf_open = False, cf_message = [], cf_action = None\<rparr>\<rparr>"

definition user_url :: "string \<Rightarrow> string \<Rightarrow> string" where
  "user_url uid rest = ''/api/admin/users/'' @ uid @ rest"

definition load_user :: "jsval \<Rightarrow> user_page \<Rightarrow> user_page" where
  "load_user data s = s\<lparr>ud_user := data, ud_editUsername := or_empty (getprop data ''username''), ud_editEmail := or_empty (getprop data ''email''),
     ud_editEmailVerified := js_or (getprop data ''email_verified'') (JBool False),
     ud_editMfaEnabled := js_or (getprop data ''mfa_enabled'') (JBool False), ud_editLocked := js_or (getprop data ''locked'') (JBool False)\<rparr>"

definition detail_fetchUser :: "string \<Rightarrow> string \<Rightarrow> user_page co" where
  "detail_fetchUser cur uid =
     (let done = Do (set_loading False) Halt; bad = (\<lambda>e. Do (error_only (admin_normalized cur e)) done) in
      Do (set_loading True) (attempt (plain_call ''GET'' (user_url uid []))
        (\<lambda>data. with_data data bad (Do (load_user data)
          (case js_or (getprop data ''roles'') (JArr []) of
             JArr xs \<Rightarrow> Do (\<lambda>s. s\<lparr>ud_selectedRoles := filter is_string xs\<rparr>) done
           | _ \<Rightarrow> bad (Threw TypeErr)))) bad))"

definition fetchAllRoles :: "user_page co" where
  "fetchAllRoles = attempt (plain_call ''GET'' ''/api/admin/roles'')
     (\<lambda>data. if nullish data then Halt else Do (\<lambda>s. s\<lparr>ud_allRoles := admin_list ''roles'' data\<rparr>) Halt) (\<lambda>e. Halt)"

definition user_changes :: "user_page \<Rightarrow> (string \<times> jsval) list" where
  "user_changes s = (let u = ud_user s in
     (if ud_editUsername s \<noteq> or_empty (getprop u ''username'') then [(''username'', ud_editUsername s)] else []) @
     (if ud_editEmail s \<noteq> or_empty (getprop u ''email'') then [(''email'', ud_editEmail s)] else []) @
     (if ud_editEmailVerified s \<noteq> getprop u ''email_verified'' then [(''email_verified'', ud_editEmailVerified s)] else []) @
     (if ud_editMfaEnabled s \<noteq> getprop u ''mfa_enabled'' then [(''mfa_enabled'', ud_editMfaEnabled s)] else []) @
     (if ud_editLocked s \<noteq> js_or (getprop u ''locked'') (JBool False) then [(''locked'', ud_editLocked s)] else []))"

definition saveInfo :: "translate \<Rightarrow> string \<Rightarrow> string \<Rightarrow> user_page co" where
  "saveInfo t cur uid = save_form user_changes (\<lambda>body. send_json ''PUT'' (user_url uid []) (JObj body))
     (success_only (t ''admin.users.noChanges'' []))
     (Do (success_only (t ''admin.users.userUpdated'' [])) (detail_fetchUser cur uid))
     (\<lambda>e. error_only (admin_normalized cur e))"

text \<open>\<open>saveRoles\<close> reloads without waiting: the button is released before the reply.\<close>

definition saveRoles :: "translate \<Rightarrow> string \<Rightarrow> string \<Rightarrow> user_page co" where
  "saveRoles t cur uid = Do (set_saving True) (Branch (\<lambda>s. attempt
     (send_json ''PUT'' (user_url uid ''/roles'') (JObj [(''roles'', JArr (ud_selectedRoles s))]))
     (\<lambda>data. Do (success_only (t ''admin.users.rolesUpdated'' [])) (Do (set_saving False) (detail_fetchUser cur uid)))
     (\<lambda>e. Do (error_only (admin_normalized cur e)) (Do (set_saving False) Halt))))"

definition disableUser :: "translate \<Rightarrow> user_page co" where
  "disableUser t = Do (\<lambda>s. s\<lparr>ud_confirm := askConfirm
     (t ''admin.users.disableConfirm'' [(''name'', js_String (getprop (ud_user s) ''username''))]) DisableUser (ud_confirm s)\<rparr>) Halt"

definition user_runConfirm :: "translate \<Rightarrow> string \<Rightarrow> string \<Rightarrow> user_page co" where
  "user_runConfirm t cur uid = Branch (\<lambda>s. case take_confirm (ud_confirm s) of
     (act, cf) \<Rightarrow> Do (\<lambda>s. s\<lparr>ud_confirm := cf\<rparr>)
       (case act of None \<Rightarrow> Halt
        | Some DisableUser \<Rightarrow> attempt (plain_call ''PUT'' (user_url uid ''/disable''))
            (\<lambda>data. Do (success_only (t ''admin.users.userDisabled'' [])) (detail_fetchUser cur uid))
            (\<lambda>e. Do (error_only (admin_normalized cur e)) Halt)))"

definition enableUser :: "translate \<Rightarrow> string \<Rightarrow> string \<Rightarrow> user_page co" where
  "enableUser t cur uid = attempt (plain_call ''POST'' (user_url uid ''/enable''))
     (\<lambda>data. Do (success_only (t ''admin.users.userEnabled'' [])) (detail_fetchUser cur uid))
     (\<lambda>e. Do (error_only (admin_normalized cur e)) Halt)"

definition isLocked :: "int \<Rightarrow> user_page \<Rightarrow> bool" where
  "isLocked now s = num_less (now div 1000) (js_or (getprop (ud_user s) ''locked_until'') (JNum 0))"

subsection \<open>Properties\<close>

text \<open>The list page asks for pages from one on.\<close>

definition paged_ok :: "api_call \<Rightarrow> bool" where
  "paged_ok q \<longleftrightarrow> ac_url q = ''/api/admin/users'' \<and> ac_method q = ''GET'' \<longrightarrow>
     (\<exists>n\<ge>1. params_get (ac_query q) ''page'' = Some (int_digits n))"

abbreviation users_inv :: "users_page \<Rightarrow> bool" where
  "users_inv s \<equiv> us_currentPage s \<ge> 1"

lemma paged_ok_other [simp]:
  "m \<noteq> ''GET'' \<Longrightarrow> paged_ok (plain_call m u)" "m \<noteq> ''GET'' \<Longrightarrow> paged_ok (send_json m u v)"
  by (simp_all add: paged_ok_def plain_call_def send_json_def)

lemma paged_ok_query: "us_currentPage s \<ge> 1 \<Longrightarrow> paged_ok (users_query s)"
  by (auto simp: paged_ok_def users_query_def get_query_def params_get_def)

lemma fetchUsers_keeps: "keeps users_inv paged_ok (fetchUsers cur)"
  unfolding fetchUsers_def by (rule keeps_fetching) (simp_all add: page_writes paged_ok_query)

lemma users_input_page [simp]: "us_currentPage (users_input f v s) = us_currentPage s"
  by (cases f) simp_all

lemma banner_page [simp]:
  "us_currentPage (created_banner t cur data s) = us_currentPage s" "us_currentPage (deleted_banner t data s) = us_currentPage s"
  by (simp_all add: created_banner_def deleted_banner_def page_writes Let_def split: jsval.split)

lemmas users_defs = applySearch_def goToPage_def openRoleModal_def assignRoles_def createUser_def deleteUser_def run_deleteUser_def
  users_runConfirm_def

lemma users_handlers_keep: "c \<in> set (users_handlers t cur e) \<Longrightarrow> keeps users_inv paged_ok c"
  by (cases e)
     (auto simp: users_defs keeps_attempt Let_def page_writes fetchUsers_keeps
        intro!: keeps_seq split: option.splits users_action.splits prod.splits jsval.splits)

interpretation users: page_handlers "users_handlers t cur" users_inv paged_ok for t cur
  by unfold_locales (rule users_handlers_keep)

text \<open>In every interleaving the list page stays at a page number of at least one and asks the server for nothing
  below; a page click beyond the last known page sends nothing.\<close>

theorem users_pages_in_range:
  assumes "exec (async_step (users_handlers t cur)) es (async_start users_setup) = Some a"
  shows "us_currentPage (lv_page a) \<ge> 1 \<and>
     (\<forall>q\<in>set (lv_sent a). ac_url q = ''/api/admin/users'' \<and> ac_method q = ''GET'' \<longrightarrow>
        (\<exists>n\<ge>1. params_get (ac_query q) ''page'' = Some (int_digits n))) \<and>
     (\<forall>page m. us_totalPages (lv_page a) = JNum m \<and> (page < 1 \<or> page > m) \<longrightarrow>
        async_step (users_handlers t cur) (Act (GoToPage page)) a = Some a)"
proof -
  have "users_inv users_setup" by (simp add: users_setup_def)
  from users.page_always [OF this assms] show ?thesis
    by (auto simp: paged_ok_def goToPage_def num_greater_def launch_def)
qed

theorem users_pages_in_range_witness:
  "\<exists>a. exec (async_step (users_handlers (\<lambda>k ps. k) ''en'')) [Act UsersMounted, Answer 0 (Inr (JObj [(''total_pages'', JNum 3)]))]
       (async_start users_setup) = Some a \<and> us_currentPage (lv_page a) \<ge> 1 \<and>
     async_step (users_handlers (\<lambda>k ps. k) ''en'') (Act (GoToPage 4)) a = Some a"
proof -
  let ?run = "exec (async_step (users_handlers (\<lambda>k ps. k) ''en'')) [Act UsersMounted, Answer 0 (Inr (JObj [(''total_pages'', JNum 3)]))]
       (async_start users_setup)"
  have "\<exists>a. ?run = Some a \<and> us_totalPages (lv_page a) = JNum 3"
    by (simp add: async_start_def launch_def attempt_def fetching_def with_data_def Let_def page_writes fetchUsers_def users_setup_def js_or_def)
  then obtain a where a: "?run = Some a" "us_totalPages (lv_page a) = JNum 3" by blast
  have "us_currentPage (lv_page a) \<ge> 1"
    and "\<forall>page m. us_totalPages (lv_page a) = JNum m \<and> (page < 1 \<or> page > m) \<longrightarrow>
        async_step (users_handlers (\<lambda>k ps. k) ''en'') (Act (GoToPage page)) a = Some a"
    using users_pages_in_range [OF a(1)] by blast+
  from this(2) [rule_format, of 3 4] this(1) a show ?thesis by simp
qed

text \<open>Replies are not tied to the page they were asked for: when the user goes on to another page before the first
  reply is there and the replies arrive in the other order, the list shows the rows of the
  page that was left.\<close>

theorem users_late_reply_wins:
  assumes "1 \<le> p" and "p \<le> m" and "1 \<le> q" and "q \<le> m" and "getprop data ''total_pages'' = JNum m" and "\<not> nullish dp" and "\<not> nullish dq"
  shows "\<exists>a. exec (async_step (users_handlers t cur)) [Act UsersMounted, Answer 0 (Inr data), Act (GoToPage p), Act (GoToPage q),
       Answer 2 (Inr dq), Answer 1 (Inr dp)] (async_start users_setup) = Some a \<and>
     us_currentPage (lv_page a) = q \<and> us_users (lv_page a) = admin_list ''users'' dp \<and> pg_loading (lv_page a) = False"
proof -
  have "\<not> nullish data" using assms(5) by (cases data) auto
  with assms show ?thesis
    by (simp add: async_start_def launch_def attempt_def fetching_def with_data_def Let_def page_writes fetchUsers_def users_setup_def
        goToPage_def num_greater_def js_or_def)
qed

theorem users_late_reply_wins_witness:
  "\<exists>a. exec (async_step (users_handlers (\<lambda>k ps. k) ''en'')) [Act UsersMounted, Answer 0 (Inr (JObj [(''total_pages'', JNum 3)])),
       Act (GoToPage 2), Act (GoToPage 3), Answer 2 (Inr (JObj [(''users'', JArr [JNum 3])])),
       Answer 1 (Inr (JObj [(''users'', JArr [JNum 2])]))] (async_start users_setup) = Some a \<and>
     us_currentPage (lv_page a) = 3 \<and> us_users (lv_page a) = JArr [JNum 2]"
  using users_late_reply_wins [of 2 3 3 "JObj [(''total_pages'', JNum 3)]" "JObj [(''users'', JArr [JNum 2])]"
      "JObj [(''users'', JArr [JNum 3])]" "\<lambda>k ps. k" "''en''"] by (auto simp: admin_list_def js_or_def)

definition boolean_flags :: "jsval \<Rightarrow> bool" where
  "boolean_flags data \<longleftrightarrow> (\<exists>b. getprop data ''email_verified'' = JBool b) \<and> (\<exists>b. getprop data ''mfa_enabled'' = JBool b)"

interpretation user_form: edit_form load_user user_changes boolean_flags
  by unfold_locales (auto simp: load_user_def user_changes_def boolean_flags_def Let_def js_or_def set_saving_def)

text \<open>The form of a user sends what was changed: a loaded user whose flags are booleans and that is not edited sends
  nothing, and any other save sends one request with exactly the changed fields.\<close>

theorem user_save_sends_changes:
  assumes "boolean_flags data"
  shows "run_co api (saveInfo t cur uid) (load_user data s) w =
       (set_saving False (success_only (t ''admin.users.noChanges'' []) (set_saving True (load_user data s))), w) \<and>
     (user_changes s' \<noteq> [] \<longrightarrow> (\<exists>rest. fst (snd (run_co (logged_api api) (saveInfo t cur uid) s' ([], w))) =
        send_json ''PUT'' (user_url uid []) (JObj (user_changes s')) # rest))"
proof (intro conjI impI)
  assume "user_changes s' \<noteq> []"
  from user_form.edited_save [OF this, of api _ _ _ _ "([], w)"]
  show "\<exists>rest. fst (snd (run_co (logged_api api) (saveInfo t cur uid) s' ([], w))) =
        send_json ''PUT'' (user_url uid []) (JObj (user_changes s')) # rest"
    by (simp add: saveInfo_def)
qed (simp add: saveInfo_def user_form.unedited_save [OF assms])

theorem user_save_sends_changes_witness:
  "snd (run_co (\<lambda>c w. (AxNet, True)) (saveInfo (\<lambda>k ps. k) ''en'' ''7'')
       (load_user (JObj [(''email_verified'', JBool True), (''mfa_enabled'', JBool False)]) user_setup) False) = False"
proof -
  have "boolean_flags (JObj [(''email_verified'', JBool True), (''mfa_enabled'', JBool False)])"
    by (simp add: boolean_flags_def) blast
  from user_save_sends_changes [OF this, of "\<lambda>c w. (AxNet, True)" "\<lambda>k ps. k" "''en''" "''7''" user_setup False user_setup]
  show ?thesis by simp
qed

subsection \<open>One change per click\<close>

abbreviation users_submits :: "users_event \<Rightarrow> bool" where
  "users_submits e \<equiv> e \<in> {AssignRoles, SubmitUser, ConfirmUser}"

lemma fetchUsers_quiet: "quiet (fetchUsers cur)"
  unfolding fetchUsers_def by (rule quiet_fetching) (simp add: users_query_def)

interpretation users_changes: submit_page "users_handlers t cur" users_submits for t cur
proof
  fix e c
  assume "\<not> users_submits e" and "c \<in> set (users_handlers t cur e)"
  then show "quiet c"
    by (cases e) (auto simp: fetchUsers_quiet applySearch_def goToPage_def openRoleModal_def deleteUser_def split: jsval.split)
next
  fix e :: users_event
  assume "users_submits e"
  then show "\<exists>c. users_handlers t cur e = [c] \<and> once c"
    by (auto simp: assignRoles_def createUser_def users_runConfirm_def run_deleteUser_def once_attempt fetchUsers_quiet Let_def
        intro!: quiet_seq split: prod.split option.split users_action.split)
qed

text \<open>The users page sends at most one change per submit click or confirmation, in any interleaving.\<close>

theorem users_one_change_per_click:
  assumes "exec (async_step (users_handlers t cur)) es (async_start users_setup) = Some a"
  shows "changes_sent a \<le> length (filter (submit_event users_submits) es)"
  by (rule users_changes.run_changes [OF assms])

end
