(* ===== verification/AdminApps.thy ===== *)
theory AdminApps
  imports Async
begin

section \<open>The application pages of the admin console\<close>

text \<open>
  \<open>ApplicationsPage.vue\<close> (the clients, their creation through the admin API and through dynamic registration,
  suspension, secrets) and \<open>ApplicationDetailPage.vue\<close> (the form of one client).  The labels of
  the checkboxes and tabs are left out.
\<close>

subsection \<open>ApplicationsPage\<close>

record client_form =
  cl_name :: string
  cl_client_type :: string
  cl_redirect_uris :: string
  cl_grant_types :: "string list"
  cl_backchannel_logout_uri :: string

record dcr_form =
  dcr_client_name :: string
  dcr_client_type :: string
  dcr_auth_method :: string
  dcr_redirect_uris :: string
  dcr_grant_types :: "string list"
  dcr_post_logout_redirect_uris :: string

definition empty_client :: client_form where
  "empty_client = \<lparr>cl_name = [], cl_client_type = ''CONFIDENTIAL'', cl_redirect_uris = [], cl_grant_types = [''authorization_code''],
     cl_backchannel_logout_uri = []\<rparr>"

definition DCR_FORM_DEFAULTS :: dcr_form where
  "DCR_FORM_DEFAULTS = \<lparr>dcr_client_name = [], dcr_client_type = ''CONFIDENTIAL'', dcr_auth_method = ''client_secret_basic'',
     dcr_redirect_uris = [], dcr_grant_types = [''authorization_code''], dcr_post_logout_redirect_uris = []\<rparr>"

definition AVAILABLE_GRANT_TYPES :: "string list" where
  "AVAILABLE_GRANT_TYPES = [''authorization_code'', ''refresh_token'', ''client_credentials'', ''urn:ietf:params:oauth:grant-type:device_code'']"

definition DCR_GRANT_TYPES :: "string list" where
  "DCR_GRANT_TYPES = filter (\<lambda>g. g \<noteq> ''urn:ietf:params:oauth:grant-type:device_code'') AVAILABLE_GRANT_TYPES"

definition DCR_AUTH_METHODS :: "string list" where
  "DCR_AUTH_METHODS = [''client_secret_basic'', ''client_secret_post'', ''none'']"

datatype apps_admin_action = DeleteClient string | ResetSecret string | SetSuspended string bool

record clients_page = page_refs +
  ca_clients :: jsval
  ca_showCreateModal :: bool
  ca_showSecretModal :: bool
  ca_newClientSecret :: jsval
  ca_createForm :: client_form
  ca_showDcrModal :: bool
  ca_registering :: bool
  ca_dcrForm :: dcr_form
  ca_confirm :: "apps_admin_action confirm"

definition clients_setup :: clients_page where
  "clients_setup = \<lparr>pg_loading = True, pg_saving = False, pg_success = [], pg_error = JNull, ca_clients = JArr [], ca_showCreateModal = False,
     ca_showSecretModal = False, ca_newClientSecret = JStr [], ca_createForm = empty_client, ca_showDcrModal = False, ca_registering = False,
     ca_dcrForm = DCR_FORM_DEFAULTS, ca_confirm = \<lparr>cf_open = False, cf_message = [], cf_action = None\<rparr>\<rparr>"

definition onDcrTypeChange :: "dcr_form \<Rightarrow> dcr_form" where
  "onDcrTypeChange f =
     (if dcr_client_type f = ''PUBLIC'' then f\<lparr>dcr_auth_method := ''none''\<rparr>
      else if dcr_auth_method f = ''none'' then f\<lparr>dcr_auth_method := ''client_secret_basic''\<rparr> else f)"

definition splitUriList :: "string \<Rightarrow> string list" where
  "splitUriList value = filter (\<lambda>u. u \<noteq> []) (map js_trim (split_on (CHR '','') value))"

definition fetchClients :: "string \<Rightarrow> clients_page co" where
  "fetchClients cur = fetching (\<lambda>s. plain_call ''GET'' ''/api/admin/clients'')
     (\<lambda>data s. s\<lparr>ca_clients := admin_list ''clients'' data\<rparr>) (\<lambda>e. put_error (admin_normalized cur e))"

definition dcr_fields :: "dcr_form \<Rightarrow> (string \<times> jsval) list" where
  "dcr_fields f = [(''client_name'', JStr (dcr_client_name f)), (''client_type'', JStr (dcr_client_type f)),
     (''token_endpoint_auth_method'', JStr (dcr_auth_method f)), (''redirect_uris'', JArr (map JStr (splitUriList (dcr_redirect_uris f)))),
     (''grant_types'', JArr (map JStr (dcr_grant_types f))),
     (''post_logout_redirect_uris'', JArr (map JStr (splitUriList (dcr_post_logout_redirect_uris f))))]"

definition registerViaDcr :: "translate \<Rightarrow> string \<Rightarrow> clients_page co" where
  "registerViaDcr t cur = Branch (\<lambda>s. let f = ca_dcrForm s in
     if dcr_grant_types f = [] then Do (put_error (JStr (t ''admin.applications.selectGrantType'' []))) Halt
     else if dcr_client_type f = ''CONFIDENTIAL'' \<and> splitUriList (dcr_redirect_uris f) = []
     then Do (put_error (JStr (t ''admin.applications.dcrRedirectRequired'' []))) Halt
     else (let done = Do (\<lambda>s. s\<lparr>ca_registering := False\<rparr>) Halt; bad = (\<lambda>e. Do (put_error (admin_normalized cur e)) done) in
       Do (\<lambda>s. s\<lparr>ca_registering := True\<rparr>) (attempt (send_json ''POST'' ''/oauth2/register'' (JObj (dcr_fields f)))
         (\<lambda>data. with_data data bad
            (Do (\<lambda>s. s\<lparr>ca_newClientSecret := or_empty (getprop data ''client_secret''), ca_showDcrModal := False, ca_showSecretModal := True,
               ca_dcrForm := DCR_FORM_DEFAULTS\<rparr>) (seq (fetchClients cur) done)))
         bad)))"

definition client_body :: "client_form \<Rightarrow> jsval" where
  "client_body f = JObj [(''name'', JStr (cl_name f)), (''client_type'', JStr (cl_client_type f)), (''redirect_uris'', JStr (cl_redirect_uris f)),
     (''allowed_grant_types'', JStr (join_with '','' (cl_grant_types f))), (''backchannel_logout_uri'', JStr (cl_backchannel_logout_uri f))]"

definition createClient :: "translate \<Rightarrow> string \<Rightarrow> clients_page co" where
  "createClient t cur = Branch (\<lambda>s. let f = ca_createForm s in
     if cl_grant_types f = [] then Do (put_error (JStr (t ''admin.applications.selectGrantType'' []))) Halt
     else (let done = Do (set_saving False) Halt; bad = (\<lambda>e. Do (put_error (admin_normalized cur e)) done) in
       Do (set_saving True) (attempt (send_json ''POST'' ''/api/admin/clients'' (client_body f))
         (\<lambda>data. with_data data bad
            (Do (\<lambda>s. s\<lparr>ca_newClientSecret := or_empty (getprop data ''client_secret''), ca_showCreateModal := False, ca_showSecretModal := True,
               ca_createForm := empty_client\<rparr>) (seq (fetchClients cur) done)))
         bad)))"

definition deleteClient :: "translate \<Rightarrow> string \<Rightarrow> clients_page co" where
  "deleteClient t clientId = Do (\<lambda>s. s\<lparr>ca_confirm := askConfirm
     (t ''admin.applications.deleteConfirm'' [(''name'', clientId)]) (DeleteClient clientId) (ca_confirm s)\<rparr>) Halt"

definition resetSecret :: "translate \<Rightarrow> string \<Rightarrow> clients_page co" where
  "resetSecret t clientId = Do (\<lambda>s. s\<lparr>ca_confirm := askConfirm
     (t ''admin.applications.resetSecretConfirm'' [(''name'', clientId)]) (ResetSecret clientId) (ca_confirm s)\<rparr>) Halt"

definition setSuspended :: "translate \<Rightarrow> jsval \<Rightarrow> bool \<Rightarrow> clients_page co" where
  "setSuspended t client suspended = Do (\<lambda>s. s\<lparr>ca_confirm := askConfirm
     (t (''admin.applications.'' @ (if suspended then ''suspend'' else ''resume'') @ ''Confirm'')
        [(''name'', js_String (js_or (getprop client ''name'') (getprop client ''client_id'')))])
     (SetSuspended (js_String (getprop client ''client_id'')) suspended) (ca_confirm s)\<rparr>) Halt"

fun client_action :: "string \<Rightarrow> apps_admin_action \<Rightarrow> clients_page co" where
  "client_action cur (DeleteClient clientId) = attempt (plain_call ''DELETE'' (''/api/admin/clients/'' @ clientId))
     (\<lambda>data. fetchClients cur) (\<lambda>e. Do (put_error (admin_normalized cur e)) Halt)"
| "client_action cur (ResetSecret clientId) = (let bad = (\<lambda>e. Do (put_error (admin_normalized cur e)) Halt) in
     attempt (plain_call ''POST'' (''/api/admin/clients/'' @ clientId @ ''/reset-secret''))
       (\<lambda>data. with_data data bad
          (Do (\<lambda>s. s\<lparr>ca_newClientSecret := or_empty (getprop data ''client_secret''), ca_showSecretModal := True\<rparr>) Halt)) bad)"
| "client_action cur (SetSuspended clientId suspended) =
     attempt (plain_call ''POST'' (''/api/admin/clients/'' @ clientId @ (if suspended then ''/suspend'' else ''/resume'')))
       (\<lambda>data. fetchClients cur) (\<lambda>e. Do (put_error (admin_normalized cur e)) Halt)"

definition clients_runConfirm :: "string \<Rightarrow> clients_page co" where
  "clients_runConfirm cur = Branch (\<lambda>s. case take_confirm (ca_confirm s) of
     (act, cf) \<Rightarrow> Do (\<lambda>s. s\<lparr>ca_confirm := cf\<rparr>) (case act of None \<Rightarrow> Halt | Some a \<Rightarrow> client_action cur a))"

definition ownerLabel :: "jsval \<Rightarrow> string" where
  "ownerLabel client = (let owner = getprop client ''owner'' in
     if \<not> truthy owner then []
     else if truthy (getprop owner ''org_name'') then js_String (getprop owner ''org_name'')
     else js_String (js_or (getprop owner ''creator_name'') (JStr (''#'' @ js_String (getprop owner ''creator_user_id'')))))"

text \<open>The inputs: the method of a public client cannot be chosen, and a grant is one of the offered ones.\<close>

datatype clients_event =
    ClientsMounted | CreateInput string string string | CreateType bool | CreateGrant nat | SubmitClient | ShowCreate bool
  | DcrInput string string string | DcrType bool | DcrMethod nat | DcrGrant nat | SubmitDcr | ShowDcr bool
  | AskDeleteClient string | AskReset string | AskSuspend jsval bool | ConfirmClient | CancelClient | CloseSecret | ClientsErrorTimeout

definition toggle_grant :: "string list \<Rightarrow> nat \<Rightarrow> string list \<Rightarrow> string list" where
  "toggle_grant offers i gs = (if i < length offers
     then (if offers ! i \<in> set gs then remove1 (offers ! i) gs else gs @ [offers ! i]) else gs)"

fun clients_handlers :: "translate \<Rightarrow> string \<Rightarrow> clients_event \<Rightarrow> clients_page co list" where
  "clients_handlers t cur ClientsMounted = [fetchClients cur]"
| "clients_handlers t cur (CreateInput n u b) = [Do (\<lambda>s. s\<lparr>ca_createForm := (ca_createForm s)
     \<lparr>cl_name := n, cl_redirect_uris := u, cl_backchannel_logout_uri := b\<rparr>\<rparr>) Halt]"
| "clients_handlers t cur (CreateType public) = [Do (\<lambda>s. s\<lparr>ca_createForm := (ca_createForm s)
     \<lparr>cl_client_type := (if public then ''PUBLIC'' else ''CONFIDENTIAL'')\<rparr>\<rparr>) Halt]"
| "clients_handlers t cur (CreateGrant i) = [Do (\<lambda>s. s\<lparr>ca_createForm := (ca_createForm s)
     \<lparr>cl_grant_types := toggle_grant AVAILABLE_GRANT_TYPES i (cl_grant_types (ca_createForm s))\<rparr>\<rparr>) Halt]"
| "clients_handlers t cur SubmitClient = [createClient t cur]"
| "clients_handlers t cur (ShowCreate b) = [Do (\<lambda>s. s\<lparr>ca_showCreateModal := b\<rparr>) Halt]"
| "clients_handlers t cur (DcrInput n u l) = [Do (\<lambda>s. s\<lparr>ca_dcrForm := (ca_dcrForm s)
     \<lparr>dcr_client_name := n, dcr_redirect_uris := u, dcr_post_logout_redirect_uris := l\<rparr>\<rparr>) Halt]"
| "clients_handlers t cur (DcrType public) = [Do (\<lambda>s. s\<lparr>ca_dcrForm := onDcrTypeChange
     ((ca_dcrForm s)\<lparr>dcr_client_type := (if public then ''PUBLIC'' else ''CONFIDENTIAL'')\<rparr>)\<rparr>) Halt]"
| "clients_handlers t cur (DcrMethod i) = [Do (\<lambda>s. if dcr_client_type (ca_dcrForm s) = ''PUBLIC'' \<or> i \<ge> length DCR_AUTH_METHODS then s
     else s\<lparr>ca_dcrForm := (ca_dcrForm s)\<lparr>dcr_auth_method := DCR_AUTH_METHODS ! i\<rparr>\<rparr>) Halt]"
| "clients_handlers t cur (DcrGrant i) = [Do (\<lambda>s. s\<lparr>ca_dcrForm := (ca_dcrForm s)
     \<lparr>dcr_grant_types := toggle_grant DCR_GRANT_TYPES i (dcr_grant_types (ca_dcrForm s))\<rparr>\<rparr>) Halt]"
| "clients_handlers t cur SubmitDcr = [registerViaDcr t cur]"
| "clients_handlers t cur (ShowDcr b) = [Do (\<lambda>s. s\<lparr>ca_showDcrModal := b\<rparr>) Halt]"
| "clients_handlers t cur (AskDeleteClient c) = [deleteClient t c]"
| "clients_handlers t cur (AskReset c) = [resetSecret t c]"
| "clients_handlers t cur (AskSuspend c b) = [setSuspended t c b]"
| "clients_handlers t cur ConfirmClient = [clients_runConfirm cur]"
| "clients_handlers t cur CancelClient = [Do (\<lambda>s. s\<lparr>ca_confirm := (ca_confirm s)\<lparr>cf_open := False\<rparr>\<rparr>) Halt]"
| "clients_handlers t cur CloseSecret = [Do (\<lambda>s. s\<lparr>ca_showSecretModal := False, ca_newClientSecret := JStr []\<rparr>) Halt]"
| "clients_handlers t cur ClientsErrorTimeout = [Do (put_error JNull) Halt]"

subsection \<open>ApplicationDetailPage\<close>

datatype client_detail_action = ResetThisSecret

record client_page = page_refs +
  cp_savingScopes :: bool
  cp_client :: jsval
  cp_editName :: jsval
  cp_editRedirectUris :: string
  cp_editGrantTypes :: "string list"
  cp_editBackchannelLogoutUri :: jsval
  cp_editLogoUri :: jsval
  cp_allScopes :: jsval
  cp_clientScopes :: jsval
  cp_showSecretModal :: bool
  cp_newClientSecret :: jsval
  cp_confirm :: "client_detail_action confirm"

definition client_setup :: client_page where
  "client_setup = \<lparr>pg_loading = True, pg_saving = False, pg_success = [], pg_error = JNull, cp_savingScopes = False, cp_client = JObj [],
     cp_editName = JStr [], cp_editRedirectUris = [], cp_editGrantTypes = [], cp_editBackchannelLogoutUri = JStr [], cp_editLogoUri = JStr [],
     cp_allScopes = JArr [], cp_clientScopes = JArr [], cp_showSecretModal = False, cp_newClientSecret = JStr [],
     cp_confirm = \<lparr>cf_open = False, cf_message = [], cf_action = None\<rparr>\<rparr>"

definition detail_success :: "string \<Rightarrow> client_page \<Rightarrow> client_page" where
  "detail_success msg s = s\<lparr>pg_success := msg, pg_error := JStr []\<rparr>"

definition client_url :: "string \<Rightarrow> string \<Rightarrow> string" where
  "client_url cid rest = ''/api/admin/clients/'' @ cid @ rest"

text \<open>\<open>s.replace(/,/g, '\n')\<close>, and the lists behind the two texts of the form.\<close>

definition commas_to_lines :: "string \<Rightarrow> string" where
  "commas_to_lines s = map (\<lambda>c. if c = CHR '','' then CHR 0x0A else c) s"

definition joined_uris :: "string \<Rightarrow> string" where
  "joined_uris s = join_with '','' (filter (\<lambda>u. u \<noteq> []) (map js_trim (split_on (CHR 0x0A) s)))"

definition grant_list :: "jsval \<Rightarrow> string list" where
  "grant_list v = (if truthy v then filter (\<lambda>g. g \<noteq> []) (split_on (CHR '','') (js_String v)) else [])"

definition load_client :: "jsval \<Rightarrow> client_page \<Rightarrow> client_page" where
  "load_client data s = s\<lparr>cp_client := data, cp_editName := or_empty (getprop data ''name''),
     cp_editRedirectUris := commas_to_lines (js_String (or_empty (getprop data ''redirect_uris''))),
     cp_editGrantTypes := grant_list (getprop data ''allowed_grant_types''),
     cp_editBackchannelLogoutUri := or_empty (getprop data ''backchannel_logout_uri''), cp_editLogoUri := or_empty (getprop data ''logo_uri''),
     cp_clientScopes := admin_list ''scopes'' data\<rparr>"

text \<open>A redirect list that is no string has no \<open>replace\<close>, a grant list no \<open>split\<close>: the assignments before the throw
  remain.\<close>

definition fetchClient :: "string \<Rightarrow> string \<Rightarrow> client_page co" where
  "fetchClient cur cid =
     (let done = Do (set_loading False) Halt; bad = (\<lambda>e. Do (error_only (admin_normalized cur e)) done) in
      Do (set_loading True) (attempt (plain_call ''GET'' (client_url cid []))
        (\<lambda>data. with_data data bad
          (let uris = or_empty (getprop data ''redirect_uris''); grants = getprop data ''allowed_grant_types'' in
           if \<not> is_string uris then
             Do (\<lambda>s. s\<lparr>cp_client := data, cp_editName := or_empty (getprop data ''name'')\<rparr>) (bad (Threw TypeErr))
           else if truthy grants \<and> \<not> is_string grants then
             Do (\<lambda>s. s\<lparr>cp_client := data, cp_editName := or_empty (getprop data ''name''),
               cp_editRedirectUris := commas_to_lines (js_String uris)\<rparr>) (bad (Threw TypeErr))
           else Do (load_client data) done))
        bad))"

definition fetchAllScopes :: "client_page co" where
  "fetchAllScopes = attempt (plain_call ''GET'' ''/api/admin/scopes'')
     (\<lambda>data. if nullish data then Halt else Do (\<lambda>s. s\<lparr>cp_allScopes := admin_list ''scopes'' data\<rparr>) Halt) (\<lambda>e. Halt)"

definition name_changed :: "client_page \<Rightarrow> bool" where
  "name_changed s \<longleftrightarrow> cp_editName s \<noteq> or_empty (getprop (cp_client s) ''name'')"

definition client_changes :: "client_page \<Rightarrow> (string \<times> jsval) list" where
  "client_changes s = (let c = cp_client s; uris = JStr (joined_uris (cp_editRedirectUris s)); grants = JStr (join_with '','' (cp_editGrantTypes s)) in
     (if name_changed s then [(''name'', cp_editName s)] else []) @
     (if uris \<noteq> or_empty (getprop c ''redirect_uris'') then [(''redirect_uris'', uris)] else []) @
     (if grants \<noteq> or_empty (getprop c ''allowed_grant_types'') then [(''allowed_grant_types'', grants)] else []) @
     (if cp_editBackchannelLogoutUri s \<noteq> or_empty (getprop c ''backchannel_logout_uri'')
      then [(''backchannel_logout_uri'', cp_editBackchannelLogoutUri s)] else []) @
     (if cp_editLogoUri s \<noteq> or_empty (getprop c ''logo_uri'') then [(''logo_uri'', cp_editLogoUri s)] else []))"

text \<open>A changed name is text of the input, so \<open>trim\<close> is defined.\<close>

definition blank_name :: "client_page \<Rightarrow> bool" where
  "blank_name s \<longleftrightarrow> name_changed s \<and> js_trim (js_String (cp_editName s)) = []"

definition client_saveChanges :: "translate \<Rightarrow> string \<Rightarrow> string \<Rightarrow> client_page co" where
  "client_saveChanges t cur cid = Branch (\<lambda>s.
     if blank_name s then Do (error_only (JStr (t ''admin.applications.nameRequired'' []))) (Do (set_saving False) Halt)
     else save_form client_changes (\<lambda>body. send_json ''PUT'' (client_url cid []) (JObj body))
       (detail_success (t ''admin.applications.noChangesToSave'' []))
       (Do (detail_success (t ''admin.applications.changesSaved'' [])) (fetchClient cur cid))
       (\<lambda>e. error_only (admin_normalized cur e)))"

definition saveScopes :: "translate \<Rightarrow> string \<Rightarrow> string \<Rightarrow> client_page co" where
  "saveScopes t cur cid =
     (let done = Do (\<lambda>s. s\<lparr>cp_savingScopes := False\<rparr>) Halt; bad = (\<lambda>e. Do (error_only (admin_normalized cur e)) done) in
      Do (\<lambda>s. s\<lparr>cp_savingScopes := True\<rparr>) (Branch (\<lambda>s. attempt
        (send_json ''PUT'' (client_url cid ''/scopes'') (JObj [(''scopes'', cp_clientScopes s)]))
        (\<lambda>data. with_data data bad (Do (\<lambda>s. detail_success (t ''admin.applications.scopesUpdated'' [])
           (s\<lparr>cp_clientScopes := js_or (getprop data ''scopes'') (cp_clientScopes s)\<rparr>)) done))
        bad)))"

definition detail_resetSecret :: "translate \<Rightarrow> string \<Rightarrow> client_page co" where
  "detail_resetSecret t cid = Do (\<lambda>s. s\<lparr>cp_confirm := askConfirm
     (t ''admin.applications.resetSecretConfirm'' [(''name'', cid)]) ResetThisSecret (cp_confirm s)\<rparr>) Halt"

definition client_runConfirm :: "string \<Rightarrow> string \<Rightarrow> client_page co" where
  "client_runConfirm cur cid = Branch (\<lambda>s. case take_confirm (cp_confirm s) of
     (act, cf) \<Rightarrow> Do (\<lambda>s. s\<lparr>cp_confirm := cf\<rparr>) (case act of None \<Rightarrow> Halt
       | Some ResetThisSecret \<Rightarrow> (let bad = (\<lambda>e. Do (error_only (admin_normalized cur e)) Halt) in
           attempt (plain_call ''POST'' (client_url cid ''/reset-secret''))
             (\<lambda>data. with_data data bad (Do (\<lambda>s. s\<lparr>cp_newClientSecret := or_empty (getprop data ''client_secret''), cp_showSecretModal := True\<rparr>) Halt))
             bad)))"

definition detail_copy :: "translate \<Rightarrow> client_page co" where
  "detail_copy t = Do (detail_success (t ''admin.applications.copiedToClipboard'' [])) Halt"

subsection \<open>Dynamic registration\<close>

text \<open>
  A form as the page keeps it.  \<open>chosen\<close> tells whether the administrator may pick \<open>none\<close> from the list of methods, which the page offers
  for confidential clients too; without that the method is \<open>none\<close> exactly for public clients.
\<close>

definition dcr_valid :: "bool \<Rightarrow> dcr_form \<Rightarrow> bool" where
  "dcr_valid chosen f \<longleftrightarrow> (dcr_client_type f = ''PUBLIC'' \<longrightarrow> dcr_auth_method f = ''none'') \<and>
     (dcr_auth_method f = ''none'' \<longrightarrow> chosen \<or> dcr_client_type f = ''PUBLIC'') \<and> dcr_auth_method f \<in> set DCR_AUTH_METHODS \<and>
     dcr_client_type f \<in> {''PUBLIC'', ''CONFIDENTIAL''} \<and> set (dcr_grant_types f) \<subseteq> set DCR_GRANT_TYPES"

definition registration_ok :: "bool \<Rightarrow> api_call \<Rightarrow> bool" where
  "registration_ok chosen q \<longleftrightarrow> ac_url q = ''/oauth2/register'' \<longrightarrow>
     (\<exists>f. ac_body q = JsonText (stringify (JObj (dcr_fields f))) \<and> dcr_valid chosen f \<and> dcr_grant_types f \<noteq> [] \<and>
        (dcr_client_type f = ''CONFIDENTIAL'' \<longrightarrow> splitUriList (dcr_redirect_uris f) \<noteq> []))"

abbreviation clients_inv :: "bool \<Rightarrow> clients_page \<Rightarrow> bool" where
  "clients_inv chosen s \<equiv> dcr_valid chosen (ca_dcrForm s)"

text \<open>The choice of \<open>none\<close> in the list of methods, and the page without it.\<close>

abbreviation choose_none :: clients_event where
  "choose_none \<equiv> DcrMethod 2"

definition clients_handlers_if :: "bool \<Rightarrow> translate \<Rightarrow> string \<Rightarrow> clients_event \<Rightarrow> clients_page co list" where
  "clients_handlers_if chosen t cur e = (if \<not> chosen \<and> e = choose_none then [] else clients_handlers t cur e)"

lemma registration_ok_other [simp]:
  "u \<noteq> ''/oauth2/register'' \<Longrightarrow> registration_ok chosen (plain_call m u)"
  "u \<noteq> ''/oauth2/register'' \<Longrightarrow> registration_ok chosen (send_json m u v)"
  by (simp_all add: registration_ok_def plain_call_def send_json_def)

lemma dcr_valid_defaults [simp]: "dcr_valid chosen DCR_FORM_DEFAULTS"
  by (simp add: dcr_valid_def DCR_FORM_DEFAULTS_def DCR_GRANT_TYPES_def AVAILABLE_GRANT_TYPES_def DCR_AUTH_METHODS_def)

lemma dcr_valid_type: "dcr_valid chosen f \<Longrightarrow> dcr_valid chosen (onDcrTypeChange (f\<lparr>dcr_client_type := (if b then ''PUBLIC'' else ''CONFIDENTIAL'')\<rparr>))"
  by (auto simp: dcr_valid_def onDcrTypeChange_def DCR_AUTH_METHODS_def)

lemma dcr_valid_grants: "dcr_valid chosen f \<Longrightarrow> dcr_valid chosen (f\<lparr>dcr_grant_types := toggle_grant DCR_GRANT_TYPES i (dcr_grant_types f)\<rparr>)"
  using set_remove1_subset [of "DCR_GRANT_TYPES ! i" "dcr_grant_types f"] by (auto simp: dcr_valid_def toggle_grant_def)

lemma registration_ok_sent:
  "dcr_valid chosen f \<Longrightarrow> dcr_grant_types f \<noteq> [] \<Longrightarrow> (dcr_client_type f = ''CONFIDENTIAL'' \<Longrightarrow> splitUriList (dcr_redirect_uris f) \<noteq> []) \<Longrightarrow>
     registration_ok chosen (send_json ''POST'' ''/oauth2/register'' (JObj (dcr_fields f)))"
  unfolding registration_ok_def send_json_def by (intro impI exI [of _ f]) simp

lemma fetchClients_keeps: "keeps (clients_inv chosen) (registration_ok chosen) (fetchClients cur)"
  unfolding fetchClients_def by (rule keeps_fetching) (simp_all add: page_writes)

lemma client_action_keeps: "keeps (clients_inv chosen) (registration_ok chosen) (client_action cur a)"
  by (cases a) (simp_all add: keeps_attempt fetchClients_keeps page_writes with_data_def Let_def)

lemma dcr_valid_method:
  assumes "dcr_valid chosen f" "dcr_client_type f \<noteq> ''PUBLIC''" "i < length DCR_AUTH_METHODS" "i = 2 \<longrightarrow> chosen"
  shows "dcr_valid chosen (f\<lparr>dcr_auth_method := DCR_AUTH_METHODS ! i\<rparr>)"
proof -
  have "i = 0 \<or> i = 1 \<or> i = 2" using assms(3) by (auto simp: DCR_AUTH_METHODS_def)
  with assms show ?thesis by (auto simp: dcr_valid_def DCR_AUTH_METHODS_def)
qed

lemma clients_handlers_keep: "c \<in> set (clients_handlers_if chosen t cur e) \<Longrightarrow> keeps (clients_inv chosen) (registration_ok chosen) c"
  unfolding clients_handlers_if_def
proof (cases e)
  case (DcrInput n u l)
  then show "c \<in> set (if \<not> chosen \<and> e = choose_none then [] else clients_handlers t cur e) \<Longrightarrow> ?thesis" by (auto simp: dcr_valid_def)
next
  case (DcrMethod i)
  then show "c \<in> set (if \<not> chosen \<and> e = choose_none then [] else clients_handlers t cur e) \<Longrightarrow> ?thesis"
    by (auto intro!: dcr_valid_method split: if_splits)
next
  case SubmitDcr
  then show "c \<in> set (if \<not> chosen \<and> e = choose_none then [] else clients_handlers t cur e) \<Longrightarrow> ?thesis"
    by (auto simp: registerViaDcr_def keeps_attempt Let_def page_writes with_data_def fetchClients_keeps
        intro!: keeps_seq registration_ok_sent)
qed (auto simp: createClient_def deleteClient_def resetSecret_def setSuspended_def clients_runConfirm_def keeps_attempt Let_def page_writes
       with_data_def fetchClients_keeps client_action_keeps dcr_valid_type dcr_valid_grants
       intro!: keeps_seq split: option.splits prod.splits)

interpretation clients: page_handlers "clients_handlers_if chosen t cur" "clients_inv chosen" "registration_ok chosen" for chosen t cur
  by unfold_locales (rule clients_handlers_keep)

text \<open>A run without the choice is a run of the page without it.\<close>

lemma clients_unchosen:
  "exec (async_step (clients_handlers t cur)) es a = exec (async_step (clients_handlers_if (Act choose_none \<in> set es) t cur)) es a"
proof (rule exec_cong)
  fix e b
  assume e: "e \<in> set es"
  show "async_step (clients_handlers t cur) e b = async_step (clients_handlers_if (Act choose_none \<in> set es) t cur) e b"
  proof (cases e)
    case (Act x)
    have "\<not> (Act choose_none \<notin> set es \<and> x = choose_none)" using Act e by auto
    then have "clients_handlers_if (Act choose_none \<in> set es) t cur x = clients_handlers t cur x" unfolding clients_handlers_if_def by (rule if_not_P)
    with Act show ?thesis by (simp only: async_step.simps)
  qed simp
qed

text \<open>C39. What the page registers dynamically, in any interleaving: a public or a confidential client with an offered method, a non-empty
  choice of grants without the device grant, and for a confidential client a redirect URI.  A public client has the method \<open>none\<close>; a confidential one
  has it only when the administrator picked \<open>none\<close> from the list, never left over from a change of the type.\<close>

theorem registrations_valid:
  assumes "exec (async_step (clients_handlers t cur)) es (async_start clients_setup) = Some a"
    and "q \<in> set (lv_sent a)" and "ac_url q = ''/oauth2/register''"
  shows "\<exists>f. ac_body q = JsonText (stringify (JObj (dcr_fields f))) \<and> dcr_client_type f \<in> {''PUBLIC'', ''CONFIDENTIAL''} \<and>
     dcr_auth_method f \<in> set DCR_AUTH_METHODS \<and> (dcr_client_type f = ''PUBLIC'' \<longrightarrow> dcr_auth_method f = ''none'') \<and>
     (dcr_client_type f = ''CONFIDENTIAL'' \<longrightarrow> splitUriList (dcr_redirect_uris f) \<noteq> [] \<and>
        (dcr_auth_method f = ''none'' \<longrightarrow> Act choose_none \<in> set es)) \<and>
     dcr_grant_types f \<noteq> [] \<and> ''urn:ietf:params:oauth:grant-type:device_code'' \<notin> set (dcr_grant_types f)"
proof -
  define chosen where "chosen \<longleftrightarrow> Act choose_none \<in> set es"
  have run: "exec (async_step (clients_handlers_if chosen t cur)) es (async_start clients_setup) = Some a"
    using assms(1) by (simp only: clients_unchosen chosen_def)
  have "clients_inv chosen clients_setup" by (simp add: clients_setup_def)
  from clients.page_always [OF this run] assms(2,3) obtain f where
    "ac_body q = JsonText (stringify (JObj (dcr_fields f)))" "dcr_valid chosen f" "dcr_grant_types f \<noteq> []"
    "dcr_client_type f = ''CONFIDENTIAL'' \<longrightarrow> splitUriList (dcr_redirect_uris f) \<noteq> []" by (auto simp: registration_ok_def)
  then show ?thesis by (intro exI [of _ f]) (auto simp: dcr_valid_def DCR_GRANT_TYPES_def chosen_def)
qed

theorem registrations_valid_witness:
  "\<exists>a q f. exec (async_step (clients_handlers (\<lambda>k ps. k) ''en'')) [Act (DcrType True), Act (DcrType False), Act (DcrInput ''App'' ''https://a'' []), Act SubmitDcr]
       (async_start clients_setup) = Some a \<and>
     q \<in> set (lv_sent a) \<and> ac_body q = JsonText (stringify (JObj (dcr_fields f))) \<and> dcr_grant_types f \<noteq> [] \<and>
     (dcr_client_type f = ''CONFIDENTIAL'' \<longrightarrow> dcr_auth_method f \<noteq> ''none'')"
proof -
  let ?es = "[Act (DcrType True), Act (DcrType False), Act (DcrInput ''App'' ''https://a'' []), Act SubmitDcr]"
  let ?run = "exec (async_step (clients_handlers (\<lambda>k ps. k) ''en'')) ?es (async_start clients_setup)"
  have "\<exists>a q. ?run = Some a \<and> lv_sent a = [q] \<and> ac_url q = ''/oauth2/register''"
    by (simp add: async_start_def launch_def attempt_def Let_def registerViaDcr_def clients_setup_def DCR_FORM_DEFAULTS_def
        onDcrTypeChange_def send_json_def splitUriList_def js_trim_def white_space_def)
  then obtain a q where a: "?run = Some a" "lv_sent a = [q]" "ac_url q = ''/oauth2/register''" by blast
  then have "q \<in> set (lv_sent a)" by simp
  from registrations_valid [OF a(1) this a(3)] obtain f where "ac_body q = JsonText (stringify (JObj (dcr_fields f)))" "dcr_grant_types f \<noteq> []"
    "dcr_client_type f = ''CONFIDENTIAL'' \<longrightarrow> dcr_auth_method f \<noteq> ''none''" by auto
  with a show ?thesis by auto
qed

text \<open>The list of methods offers \<open>none\<close>, with the label of public clients, for confidential clients too, and the page sends it.\<close>

theorem confidential_without_secret:
  assumes "splitUriList u \<noteq> []"
  shows "\<exists>a f. exec (async_step (clients_handlers t cur)) [Act (DcrInput n u l), Act choose_none, Act SubmitDcr] (async_start clients_setup) = Some a \<and>
     lv_sent a = [send_json ''POST'' ''/oauth2/register'' (JObj (dcr_fields f))] \<and> dcr_client_type f = ''CONFIDENTIAL'' \<and> dcr_auth_method f = ''none''"
  using assms
  by (simp add: async_start_def launch_def attempt_def Let_def registerViaDcr_def clients_setup_def DCR_FORM_DEFAULTS_def DCR_AUTH_METHODS_def) auto

theorem confidential_without_secret_witness:
  "\<exists>a f. exec (async_step (clients_handlers (\<lambda>k ps. k) ''en'')) [Act (DcrInput ''App'' ''https://a'' []), Act choose_none, Act SubmitDcr] (async_start clients_setup) = Some a \<and>
     lv_sent a = [send_json ''POST'' ''/oauth2/register'' (JObj (dcr_fields f))] \<and> dcr_client_type f = ''CONFIDENTIAL'' \<and> dcr_auth_method f = ''none''"
  by (rule confidential_without_secret) (simp add: splitUriList_def js_trim_def white_space_def)

subsection \<open>The form of a client\<close>

lemma split_commas: "CHR 0x0A \<notin> set u \<Longrightarrow> split_on (CHR 0x0A) (commas_to_lines u) = split_on (CHR '','') u"
  by (induction u) (auto simp: commas_to_lines_def split: list.split)

text \<open>A client whose lists are stored the way the form writes them.\<close>

definition plain_client :: "jsval \<Rightarrow> bool" where
  "plain_client data \<longleftrightarrow>
     (\<exists>u. or_empty (getprop data ''redirect_uris'') = JStr u \<and> CHR 0x0A \<notin> set u \<and>
        join_with '','' (filter (\<lambda>x. x \<noteq> []) (map js_trim (split_on (CHR '','') u))) = u) \<and>
     (\<exists>g. or_empty (getprop data ''allowed_grant_types'') = JStr g \<and> join_with '','' (filter (\<lambda>x. x \<noteq> []) (split_on (CHR '','') g)) = g)"

lemma grant_list_joined:
  assumes "or_empty v = JStr g" and "join_with '','' (filter (\<lambda>x. x \<noteq> []) (split_on (CHR '','') g)) = g"
  shows "join_with '','' (grant_list v) = g"
  using assms by (cases v) (auto simp: grant_list_def or_empty_def js_or_def join_with_def split: if_splits)

lemma joined_uris_loaded:
  assumes "CHR 0x0A \<notin> set u" and "join_with '','' (filter (\<lambda>x. x \<noteq> []) (map js_trim (split_on (CHR '','') u))) = u"
  shows "joined_uris (commas_to_lines u) = u"
  using assms by (simp add: joined_uris_def split_commas)

interpretation client_form: edit_form load_client client_changes plain_client
  by unfold_locales
     (auto simp: load_client_def client_changes_def plain_client_def name_changed_def Let_def joined_uris_loaded grant_list_joined set_saving_def)

text \<open>The form of a client sends what was changed: a loaded client whose lists are in the form's notation sends
  nothing when it is not edited, a changed name that is blank sends nothing, and any other
  change sends one request with exactly the changed fields.\<close>

theorem client_save_sends_changes:
  assumes "plain_client data"
  shows "snd (run_co api (client_saveChanges t cur cid) (load_client data s) w) = w \<and>
     (blank_name s' \<longrightarrow> snd (run_co api (client_saveChanges t cur cid) s' w) = w) \<and>
     (\<not> blank_name s' \<and> client_changes s' \<noteq> [] \<longrightarrow>
        (\<exists>rest. fst (snd (run_co (logged_api api) (client_saveChanges t cur cid) s' ([], w))) =
           send_json ''PUT'' (client_url cid []) (JObj (client_changes s')) # rest))"
proof (intro conjI impI)
  have "\<not> blank_name (load_client data s)" by (simp add: blank_name_def name_changed_def load_client_def)
  then show "snd (run_co api (client_saveChanges t cur cid) (load_client data s) w) = w"
    by (simp add: client_saveChanges_def client_form.unedited_save [OF assms])
next
  assume "\<not> blank_name s' \<and> client_changes s' \<noteq> []"
  with client_form.edited_save [of s' api _ _ _ _ "([], w)"]
  show "\<exists>rest. fst (snd (run_co (logged_api api) (client_saveChanges t cur cid) s' ([], w))) =
           send_json ''PUT'' (client_url cid []) (JObj (client_changes s')) # rest"
    by (simp add: client_saveChanges_def)
qed (simp add: client_saveChanges_def)

theorem client_save_sends_changes_witness:
  "snd (run_co (\<lambda>c w. (AxNet, True)) (client_saveChanges (\<lambda>k ps. k) ''en'' ''web'')
     (load_client (JObj [(''name'', JStr ''Web''), (''redirect_uris'', JStr ''https://a,https://b'')]) client_setup) False) = False"
proof -
  have "plain_client (JObj [(''name'', JStr ''Web''), (''redirect_uris'', JStr ''https://a,https://b'')])"
    by (simp add: plain_client_def or_empty_def js_or_def js_trim_def white_space_def join_with_def proto_member_def object_prototype_def)
  from client_save_sends_changes [OF this, of "\<lambda>c w. (AxNet, True)" "\<lambda>k ps. k" "''en''" "''web''" client_setup False client_setup]
  show ?thesis by simp
qed

end
