(* ===== verification/Answered.thy ===== *)
theory Answered
  imports Async
begin

section \<open>Pages and the answers they were given\<close>

text \<open>
  The handlers of \<open>Async\<close> with the answers in view: a page invariant may speak about the requests that
  were answered so far and what the server said, so that a property can trace what a page shows back to
  the reply it came from.
\<close>

type_synonym answer_log = "(api_call \<times> (failure + jsval)) list"

text \<open>The answers that a run of events delivers.\<close>

fun answer_of :: "'e async_event \<Rightarrow> 's live \<Rightarrow> answer_log" where
  "answer_of (Act e) a = []"
| "answer_of (Answer i r) a =
     (if i < length (lv_waits a) then (case lv_waits a ! i of Some (q, k) \<Rightarrow> [(q, r)] | None \<Rightarrow> []) else [])"

fun answers_of :: "('e \<Rightarrow> 's co list) \<Rightarrow> 'e async_event list \<Rightarrow> 's live \<Rightarrow> answer_log" where
  "answers_of handlers [] a = []"
| "answers_of handlers (e # es) a =
     answer_of e a @ (case async_step handlers e a of Some b \<Rightarrow> answers_of handlers es b | None \<Rightarrow> [])"

text \<open>A handler that keeps an invariant at every write, given the answers it has seen itself and any others.\<close>

primrec keeps_from :: "(answer_log \<Rightarrow> 's \<Rightarrow> bool) \<Rightarrow> answer_log \<Rightarrow> 's co \<Rightarrow> bool" where
  "keeps_from P seen Halt = True"
| "keeps_from P seen (Do f c) = ((\<forall>log s. set seen \<subseteq> set log \<longrightarrow> P log s \<longrightarrow> P log (f s)) \<and> keeps_from P seen c)"
| "keeps_from P seen (Branch g) = (\<forall>log s. set seen \<subseteq> set log \<longrightarrow> P log s \<longrightarrow> keeps_from P seen (g s))"
| "keeps_from P seen (Await q k) = (\<forall>r. keeps_from P ((q, r) # seen) (k r))"

lemma keeps_from_more: "keeps_from P seen c \<Longrightarrow> set seen \<subseteq> set seen' \<Longrightarrow> keeps_from P seen' c"
proof (induction c arbitrary: seen seen')
  case (Branch g)
  show ?case
  proof (simp, intro allI impI)
    fix log s
    assume "set seen' \<subseteq> set log" and "P log s"
    with Branch.prems have "keeps_from P seen (g s)" by auto
    with Branch.IH [OF rangeI] Branch.prems(2) show "keeps_from P seen' (g s)" by blast
  qed
next
  case (Await q k)
  then show ?case by (fastforce intro: Await.IH [OF rangeI])
next
  case (Do f c)
  from Do.IH [of seen seen'] Do.prems show ?case by auto
qed simp

lemma keeps_from_Cons: "keeps_from P (x # seen) c \<Longrightarrow> set seen \<subseteq> set seen' \<Longrightarrow> keeps_from P (x # seen') c"
  by (erule keeps_from_more) auto

lemma keeps_from_seq: "keeps_from P seen c \<Longrightarrow> keeps_from P seen d \<Longrightarrow> keeps_from P seen (seq c d)"
proof (induction c arbitrary: seen)
  case (Await q k)
  then show ?case using keeps_from_more [of P seen d "(q, _) # seen"] by (auto intro!: Await.IH [OF rangeI])
qed (auto)

lemma keeps_from_attempt:
  "keeps_from P seen (attempt q ok bad) \<longleftrightarrow>
     (\<forall>d. keeps_from P ((q, Inr d) # seen) (ok d)) \<and> (\<forall>e. keeps_from P ((q, Inl e) # seen) (bad e))"
proof -
  have "(\<forall>r. keeps_from P ((q, r) # seen) (case r of Inr data \<Rightarrow> ok data | Inl e \<Rightarrow> bad e)) \<longleftrightarrow>
      (\<forall>d. keeps_from P ((q, Inr d) # seen) (ok d)) \<and> (\<forall>e. keeps_from P ((q, Inl e) # seen) (bad e))"
    by (smt (verit, ccfv_threshold) old.sum.simps(5,6) sum.exhaust)
  then show ?thesis by (simp add: attempt_def)
qed

lemma keeps_from_fetching:
  assumes "\<And>b log s. P log s \<Longrightarrow> P log (set_loading b s)" and "\<And>data log s. P log s \<Longrightarrow> P log (take_reply data s)"
    and "\<And>e log s. P log s \<Longrightarrow> P log (fail e s)"
  shows "keeps_from P seen (fetching call take_reply fail)"
  using assms by (simp add: fetching_def Let_def keeps_from_attempt with_data_def)

lemma advance_keeps_from:
  "keeps_from P seen c \<Longrightarrow> set seen \<subseteq> set log \<Longrightarrow> P log s \<Longrightarrow> advance c s = (s', w) \<Longrightarrow>
     P log s' \<and> (\<forall>q k r. w = Some (q, k) \<longrightarrow> keeps_from P ((q, r) # seen) (k r))"
proof (induction c arbitrary: s)
  case (Branch g)
  then have "keeps_from P seen (g s)" and "advance (g s) s = (s', w)" by auto
  with Branch.IH [OF rangeI] Branch.prems(2,3) show ?case by blast
qed auto

definition traced :: "(answer_log \<Rightarrow> 's \<Rightarrow> bool) \<Rightarrow> answer_log \<Rightarrow> 's live \<Rightarrow> bool" where
  "traced P log a \<longleftrightarrow> P log (lv_page a) \<and> (\<forall>q k r. Some (q, k) \<in> set (lv_waits a) \<longrightarrow> keeps_from P ((q, r) # log) (k r))"

text \<open>The contract: an invariant that more answers cannot break, kept by every handler from the start.\<close>

locale answered_page =
  fixes handlers :: "'e \<Rightarrow> 's co list"
    and P :: "answer_log \<Rightarrow> 's \<Rightarrow> bool"
  assumes more_answers: "P log s \<Longrightarrow> set log \<subseteq> set log' \<Longrightarrow> P log' s"
    and handlers_keep: "c \<in> set (handlers e) \<Longrightarrow> keeps_from P [] c"
begin

lemma traced_more: "traced P log a \<Longrightarrow> set log \<subseteq> set log' \<Longrightarrow> traced P log' a"
  unfolding traced_def using more_answers [of log "lv_page a" log']
  by (metis keeps_from_Cons)

lemma launch_traced: "keeps_from P seen c \<Longrightarrow> set seen \<subseteq> set log \<Longrightarrow> traced P log a \<Longrightarrow> traced P log (launch c a)"
  using advance_keeps_from [of P seen c log "lv_page a"]
  by (auto simp: traced_def launch_def split: prod.split option.split) (metis keeps_from_Cons)

lemma fold_launch_traced: "(\<And>c. c \<in> set cs \<Longrightarrow> keeps_from P [] c) \<Longrightarrow> traced P log a \<Longrightarrow> traced P log (fold launch cs a)"
proof (induction cs arbitrary: a)
  case (Cons c cs)
  from launch_traced [of "[]" c log a] Cons.prems have "traced P log (launch c a)" by simp
  with Cons.IH Cons.prems(1) show ?case by simp
qed simp

lemma step_traced:
  assumes "traced P log a" and "async_step handlers e a = Some b"
  shows "traced P (log @ answer_of e a) b"
proof (cases e)
  case (Act x)
  with assms show ?thesis by (auto intro: fold_launch_traced handlers_keep)
next
  case (Answer i r)
  with assms(2) obtain q k where k: "i < length (lv_waits a)" "lv_waits a ! i = Some (q, k)"
      "b = launch (k r) (a\<lparr>lv_waits := (lv_waits a)[i := None]\<rparr>)"
    by (auto split: if_splits option.splits)
  then have "Some (q, k) \<in> set (lv_waits a)" by (metis nth_mem)
  with assms(1) have kr: "keeps_from P ((q, r) # log) (k r)" by (simp add: traced_def)
  have "traced P (log @ [(q, r)]) a" using traced_more [OF assms(1), of "log @ [(q, r)]"] by (simp add: subset_insertI)
  then have "traced P (log @ [(q, r)]) (a\<lparr>lv_waits := (lv_waits a)[i := None]\<rparr>)"
    using set_update_subset_insert [of "lv_waits a" i None] by (auto simp: traced_def)
  with launch_traced [OF kr, of "log @ [(q, r)]"] k Answer show ?thesis by auto
qed

lemma run_traced:
  "traced P log a \<Longrightarrow> exec (async_step handlers) es a = Some b \<Longrightarrow> traced P (log @ answers_of handlers es a) b"
proof (induction es arbitrary: log a)
  case Nil
  then show ?case by simp
next
  case (Cons e es)
  then obtain x where x: "async_step handlers e a = Some x" "exec (async_step handlers) es x = Some b" by (auto split: option.splits)
  from Cons.IH [OF step_traced [OF Cons.prems(1) x(1)] x(2)] x(1) show ?case by simp
qed

lemma page_traced:
  "P [] s \<Longrightarrow> exec (async_step handlers) es (async_start s) = Some a \<Longrightarrow> P (answers_of handlers es (async_start s)) (lv_page a)"
  using run_traced [of "[]" "async_start s" es a] by (simp add: traced_def async_start_def)

end

end
