(* ===== verification/OrgPanels.thy ===== *)
theory OrgPanels
  imports AccountPages
begin

section \<open>The organizations page of the user portal\<close>

text \<open>
  \<open>OrganizationsPage.vue\<close>: the list of organizations with one members panel and one consents panel shared by
  all of them.  Handlers overlap here: the user opens another panel while requests of the
  first are under way, and the code guards every late reply with sequence numbers.  So the
  page is a step function over events: the clicks and inputs of the user, the timer of the
  success message, and one event per reply.  A request that is under way is an \<open>org_wait\<close>, the
  point of its handler that waits; its call is a function of it.  \<open>og_log\<close> lists the answered
  requests with their answers.
\<close>

subsection \<open>State\<close>

datatype org_action = ResolveRequest bool string jsval | RevokeConsents string string | RemoveMember string jsval

text \<open>What a handler does after \<open>await fetchOrgs()\<close>.\<close>

datatype org_then = NoMore | ThenMembers string | ThenCreating | ThenAccepting

datatype org_wait =
    OrgsWait org_then
  | SuccessionWait string
  | NominateWait string int
  | WithdrawWait string
  | RequestsWait string nat
  | ConsentsWait string nat
  | PanelWait string nat nat "jsval option" "jsval option"
  | ResolveWait bool string jsval
  | RevokeWait string string nat
  | RevokedWait string nat
  | CreateWait string string
  | MembersWait string nat
  | InviteWait string string string
  | RemoveWait string jsval
  | AcceptWait string

record org_page =
  og_orgs :: jsval
  og_loading :: bool
  og_error :: jsval
  og_success :: string
  og_confirm :: "org_action confirm"
  og_showCreate :: bool
  og_creating :: bool
  og_newSlug :: string
  og_newName :: string
  og_expandedSlug :: string
  og_members :: jsval
  og_inviteEmail :: string
  og_inviteRole :: string
  og_lastInviteToken :: jsval
  og_acceptToken :: string
  og_accepting :: bool
  og_pendingNominations :: jsval
  og_nominateUserId :: string
  og_expandedConsentsSlug :: string
  og_consents :: jsval
  og_grantClientId :: string
  og_grantRedirectUri :: string
  og_grantLink :: string
  og_consentsRequestSeq :: nat
  og_pendingRequests :: jsval
  og_pendingRequestsSeq :: nat
  og_membersRequestSeq :: nat
  og_waits :: "org_wait option list"
  og_log :: "(api_call \<times> (failure + jsval)) list"

definition org_setup :: org_page where
  "org_setup = \<lparr>og_orgs = JArr [], og_loading = True, og_error = JNull, og_success = [],
     og_confirm = \<lparr>cf_open = False, cf_message = [], cf_action = None\<rparr>, og_showCreate = False, og_creating = False,
     og_newSlug = [], og_newName = [], og_expandedSlug = [], og_members = JArr [], og_inviteEmail = [],
     og_inviteRole = ''member'', og_lastInviteToken = JStr [], og_acceptToken = [], og_accepting = False,
     og_pendingNominations = JArr [], og_nominateUserId = [], og_expandedConsentsSlug = [], og_consents = JArr [],
     og_grantClientId = [], og_grantRedirectUri = [], og_grantLink = [], og_consentsRequestSeq = 0,
     og_pendingRequests = JArr [], og_pendingRequestsSeq = 0, og_membersRequestSeq = 0, og_waits = [], og_log = []\<rparr>"

subsection \<open>Requests\<close>

definition org_url :: "string \<Rightarrow> string \<Rightarrow> string" where
  "org_url slug rest = ''/api/me/organizations/'' @ slug @ rest"

abbreviation members_call :: "string \<Rightarrow> api_call" where
  "members_call slug \<equiv> plain_call ''GET'' (org_url slug ''/members'')"

abbreviation consents_call :: "string \<Rightarrow> api_call" where
  "consents_call slug \<equiv> plain_call ''GET'' (org_url slug ''/consents'')"

abbreviation requests_call :: "string \<Rightarrow> api_call" where
  "requests_call slug \<equiv> plain_call ''GET'' (org_url slug ''/consent-requests'')"

text \<open>An empty object posted with the form content type of the HTTP layer is an empty form.\<close>

fun wait_call :: "org_wait \<Rightarrow> api_call" where
  "wait_call (OrgsWait k) = plain_call ''GET'' ''/api/me/organizations''"
| "wait_call (SuccessionWait slug) = post_form (org_url slug ''/successor-nomination/accept'') []"
| "wait_call (NominateWait slug n) = send_json ''POST'' (org_url slug ''/successor-nomination'') (JObj [(''user_id'', JNum n)])"
| "wait_call (WithdrawWait slug) = plain_call ''DELETE'' (org_url slug ''/successor-nomination'')"
| "wait_call (RequestsWait slug q) = requests_call slug"
| "wait_call (ConsentsWait slug q) = consents_call slug"
| "wait_call (PanelWait slug cs rs a b) = consents_call slug"
| "wait_call (ResolveWait approve slug req) =
     post_form (org_url slug (''/consent-requests/'' @ js_String (getprop req ''id'') @ (if approve then ''/approve'' else ''/reject''))) []"
| "wait_call (RevokeWait slug client q) = plain_call ''DELETE'' (org_url slug (''/consents/'' @ client))"
| "wait_call (RevokedWait slug q) = consents_call slug"
| "wait_call (CreateWait slug name) = send_json ''POST'' ''/api/me/organizations'' (JObj [(''slug'', JStr slug), (''name'', JStr name)])"
| "wait_call (MembersWait slug q) = members_call slug"
| "wait_call (InviteWait slug email role) =
     send_json ''POST'' (org_url slug ''/invitations'') (JObj [(''email'', JStr email), (''role'', JStr role)])"
| "wait_call (RemoveWait slug user) = plain_call ''DELETE'' (org_url slug (''/members/'' @ js_String user))"
| "wait_call (AcceptWait token) = send_json ''POST'' ''/api/me/org-invitations/accept'' (JObj [(''token'', JStr token)])"

definition begin_wait :: "org_wait \<Rightarrow> org_page \<Rightarrow> org_page" where
  "begin_wait w s = s\<lparr>og_waits := og_waits s @ [Some w]\<rparr>"

text \<open>\<open>resp.data?.key || []\<close>.\<close>

definition list_of :: "string \<Rightarrow> jsval \<Rightarrow> jsval" where
  "list_of key data = js_or (getprop data key) (JArr [])"

subsection \<open>Roles and dates\<close>

definition isManager :: "jsval \<Rightarrow> bool" where
  "isManager role \<longleftrightarrow> role = JStr ''owner'' \<or> role = JStr ''admin''"

text \<open>The pattern of \<open>shortDateTime\<close>: the shape \<open>dddd-dd-dd\<close>, a \<open>T\<close> or a blank, and \<open>dd:dd\<close>.\<close>

fun matches :: "string \<Rightarrow> string \<Rightarrow> bool" where
  "matches [] s = True"
| "matches (p # ps) [] = False"
| "matches (p # ps) (c # cs) =
     ((if p = CHR ''d'' then is_digit c else if p = CHR ''T'' then c = CHR ''T'' \<or> c = CHR '' '' else c = p) \<and> matches ps cs)"

definition shortDateTime :: "jsval \<Rightarrow> string" where
  "shortDateTime value = (case value of
     JStr s \<Rightarrow> if matches ''dddd-dd-ddTdd:dd'' s then take 10 s @ '' '' @ take 5 (drop 11 s) else s
   | _ \<Rightarrow> [])"

subsection \<open>Handlers up to their first request\<close>

definition fetchOrgs :: "org_then \<Rightarrow> org_page \<Rightarrow> org_page" where
  "fetchOrgs k s = begin_wait (OrgsWait k) (s\<lparr>og_loading := True\<rparr>)"

definition acceptSuccession :: "string \<Rightarrow> org_page \<Rightarrow> org_page" where
  "acceptSuccession slug s = begin_wait (SuccessionWait slug) (s\<lparr>og_error := JNull\<rparr>)"

definition nominateSuccessor :: "translate \<Rightarrow> string \<Rightarrow> org_page \<Rightarrow> org_page" where
  "nominateSuccessor t slug s = (case parseInt10 (og_nominateUserId s) of
     None \<Rightarrow> s\<lparr>og_error := JStr (t ''account.organizations.successionInvalidId'' [])\<rparr>
   | Some n \<Rightarrow> begin_wait (NominateWait slug n) (s\<lparr>og_error := JNull\<rparr>))"

definition withdrawSuccession :: "string \<Rightarrow> org_page \<Rightarrow> org_page" where
  "withdrawSuccession slug s = begin_wait (WithdrawWait slug) (s\<lparr>og_error := JNull\<rparr>)"

definition fetchPendingRequests :: "string \<Rightarrow> org_page \<Rightarrow> org_page" where
  "fetchPendingRequests slug s = (let seq = Suc (og_pendingRequestsSeq s) in
     begin_wait (RequestsWait slug seq) (s\<lparr>og_pendingRequestsSeq := seq\<rparr>))"

definition toggleConsents :: "string \<Rightarrow> org_page \<Rightarrow> org_page" where
  "toggleConsents slug s =
     (if og_expandedConsentsSlug s = slug then s\<lparr>og_expandedConsentsSlug := []\<rparr>
      else (let seq = Suc (og_consentsRequestSeq s);
                s = s\<lparr>og_consentsRequestSeq := seq, og_expandedConsentsSlug := slug, og_consents := JArr [],
                      og_pendingRequests := JArr [], og_grantClientId := [], og_grantRedirectUri := [], og_grantLink := []\<rparr>
            in begin_wait (ConsentsWait slug seq) (fetchPendingRequests slug s)))"

definition refreshConsentPanel :: "string \<Rightarrow> org_page \<Rightarrow> org_page" where
  "refreshConsentPanel slug s =
     (let consentsSeq = Suc (og_consentsRequestSeq s); requestsSeq = Suc (og_pendingRequestsSeq s) in
      begin_wait (PanelWait slug consentsSeq requestsSeq None None)
        (s\<lparr>og_consentsRequestSeq := consentsSeq, og_pendingRequestsSeq := requestsSeq\<rparr>))"

definition resolve_args :: "jsval \<Rightarrow> (string \<times> string) list" where
  "resolve_args req = [(''requester'', js_String (js_or (getprop req ''requester_username'') (getprop req ''requested_by''))),
     (''client'', js_String (getprop req ''client_id''))]"

definition approveConsentRequest :: "translate \<Rightarrow> string \<Rightarrow> jsval \<Rightarrow> org_page \<Rightarrow> org_page" where
  "approveConsentRequest t slug req s = s\<lparr>og_confirm := askConfirm
     (t ''account.organizations.pendingApproveConfirm'' (resolve_args req)) (ResolveRequest True slug req) (og_confirm s)\<rparr>"

definition rejectConsentRequest :: "translate \<Rightarrow> string \<Rightarrow> jsval \<Rightarrow> org_page \<Rightarrow> org_page" where
  "rejectConsentRequest t slug req s = s\<lparr>og_confirm := askConfirm
     (t ''account.organizations.pendingRejectConfirm'' (resolve_args req)) (ResolveRequest False slug req) (og_confirm s)\<rparr>"

definition revokeConsents :: "translate \<Rightarrow> string \<Rightarrow> string \<Rightarrow> org_page \<Rightarrow> org_page" where
  "revokeConsents t slug clientId s = s\<lparr>og_confirm := askConfirm
     (t ''account.organizations.consentsRevokeConfirm'' []) (RevokeConsents slug clientId) (og_confirm s)\<rparr>"

definition randomPkceChallenge :: "bytes \<Rightarrow> string" where
  "randomPkceChallenge bs = base64UrlEncode bs"

definition grant_params :: "string \<Rightarrow> int \<Rightarrow> bytes \<Rightarrow> org_page \<Rightarrow> params" where
  "grant_params slug now bs s =
     [(''response_type'', ''code''), (''client_id'', og_grantClientId s), (''redirect_uri'', og_grantRedirectUri s),
      (''scope'', ''openid profile org''), (''state'', ''orggrant-'' @ int_digits now), (''prompt'', ''consent''),
      (''org_id'', slug), (''code_challenge'', randomPkceChallenge bs), (''code_challenge_method'', ''S256'')]"

definition generateGrantLink :: "string \<Rightarrow> string \<Rightarrow> int \<Rightarrow> bytes \<Rightarrow> org_page \<Rightarrow> org_page" where
  "generateGrantLink origin slug now bs s =
     (if og_grantClientId s = [] \<or> og_grantRedirectUri s = [] then s
      else s\<lparr>og_grantLink := origin @ ''/oauth2/authorize?'' @ params_toString (grant_params slug now bs s)\<rparr>)"

definition createOrg :: "org_page \<Rightarrow> org_page" where
  "createOrg s = begin_wait (CreateWait (og_newSlug s) (og_newName s)) (s\<lparr>og_creating := True, og_error := JNull\<rparr>)"

definition toggleMembers :: "string \<Rightarrow> org_page \<Rightarrow> org_page" where
  "toggleMembers slug s =
     (if og_expandedSlug s = slug then s\<lparr>og_expandedSlug := []\<rparr>
      else (let seq = Suc (og_membersRequestSeq s) in
            begin_wait (MembersWait slug seq)
              (s\<lparr>og_membersRequestSeq := seq, og_expandedSlug := slug, og_members := JArr [], og_inviteEmail := [],
                 og_lastInviteToken := JStr []\<rparr>)))"

definition refreshMembers :: "string \<Rightarrow> org_page \<Rightarrow> org_page" where
  "refreshMembers slug s =
     (if og_expandedSlug s \<noteq> slug then s
      else (let seq = Suc (og_membersRequestSeq s) in
            begin_wait (MembersWait slug seq) (s\<lparr>og_membersRequestSeq := seq\<rparr>)))"

definition invite :: "string \<Rightarrow> org_page \<Rightarrow> org_page" where
  "invite slug s = (if og_inviteEmail s = [] then s
     else begin_wait (InviteWait slug (og_inviteEmail s) (og_inviteRole s)) (s\<lparr>og_error := JNull\<rparr>))"

definition removeMember :: "translate \<Rightarrow> string \<Rightarrow> jsval \<Rightarrow> org_page \<Rightarrow> org_page" where
  "removeMember t slug user s = s\<lparr>og_confirm := askConfirm
     (t ''account.organizations.removeConfirm'' []) (RemoveMember slug user) (og_confirm s)\<rparr>"

definition acceptInvite :: "org_page \<Rightarrow> org_page" where
  "acceptInvite s = (if og_acceptToken s = [] then s
     else begin_wait (AcceptWait (og_acceptToken s)) (s\<lparr>og_accepting := True, og_error := JNull\<rparr>))"

text \<open>\<open>runConfirm\<close> starts the action that was asked for.\<close>

fun start_action :: "org_action \<Rightarrow> org_page \<Rightarrow> org_page" where
  "start_action (ResolveRequest approve slug req) s = begin_wait (ResolveWait approve slug req) (s\<lparr>og_error := JNull\<rparr>)"
| "start_action (RevokeConsents slug clientId) s = (let seq = Suc (og_consentsRequestSeq s) in
     begin_wait (RevokeWait slug clientId seq) (s\<lparr>og_error := JNull, og_consentsRequestSeq := seq\<rparr>))"
| "start_action (RemoveMember slug user) s = begin_wait (RemoveWait slug user) s"

definition org_runConfirm :: "org_page \<Rightarrow> org_page" where
  "org_runConfirm s = (case take_confirm (og_confirm s) of
     (act, cf) \<Rightarrow> (let s = s\<lparr>og_confirm := cf\<rparr> in case act of None \<Rightarrow> s | Some a \<Rightarrow> start_action a s))"

subsection \<open>Replies\<close>

fun after_orgs :: "org_then \<Rightarrow> org_page \<Rightarrow> org_page" where
  "after_orgs NoMore s = s"
| "after_orgs (ThenMembers slug) s = refreshMembers slug s"
| "after_orgs ThenCreating s = s\<lparr>og_creating := False\<rparr>"
| "after_orgs ThenAccepting s = s\<lparr>og_accepting := False\<rparr>"

fun replied :: "translate \<Rightarrow> org_wait \<Rightarrow> jsval \<Rightarrow> org_page \<Rightarrow> org_page" where
  "replied t (OrgsWait k) data s = after_orgs k (s\<lparr>og_orgs := list_of ''organizations'' data,
     og_pendingNominations := list_of ''pending_succession_nominations'' data, og_loading := False\<rparr>)"
| "replied t (SuccessionWait slug) data s =
     fetchOrgs NoMore (s\<lparr>og_success := t ''account.organizations.successionAccepted'' []\<rparr>)"
| "replied t (NominateWait slug n) data s =
     fetchOrgs (ThenMembers slug) (s\<lparr>og_success := t ''account.organizations.successionPending'' [(''id'', og_nominateUserId s)],
       og_nominateUserId := []\<rparr>)"
| "replied t (WithdrawWait slug) data s = fetchOrgs NoMore s"
| "replied t (RequestsWait slug seq) data s =
     (if seq \<noteq> og_pendingRequestsSeq s \<or> og_expandedConsentsSlug s \<noteq> slug then s
      else s\<lparr>og_pendingRequests := list_of ''requests'' data\<rparr>)"
| "replied t (ConsentsWait slug seq) data s =
     (if seq \<noteq> og_consentsRequestSeq s \<or> og_expandedConsentsSlug s \<noteq> slug then s
      else s\<lparr>og_consents := list_of ''consents'' data\<rparr>)"
| "replied t (PanelWait slug cs rs a b) data s = s"
| "replied t (ResolveWait approve slug req) data s = refreshConsentPanel slug
     (s\<lparr>og_success := t (if approve then ''account.organizations.approved'' else ''account.organizations.rejected'') []\<rparr>)"
| "replied t (RevokeWait slug clientId seq) data s =
     begin_wait (RevokedWait slug seq) (s\<lparr>og_success := t ''account.organizations.consentsRevoked'' []\<rparr>)"
| "replied t (RevokedWait slug seq) data s =
     (if seq \<noteq> og_consentsRequestSeq s \<or> og_expandedConsentsSlug s \<noteq> slug then s
      else s\<lparr>og_consents := list_of ''consents'' data\<rparr>)"
| "replied t (CreateWait slug name) data s =
     fetchOrgs ThenCreating (s\<lparr>og_success := t ''account.organizations.created'' [], og_showCreate := False,
       og_newSlug := [], og_newName := []\<rparr>)"
| "replied t (MembersWait slug seq) data s =
     (if seq \<noteq> og_membersRequestSeq s \<or> og_expandedSlug s \<noteq> slug then s
      else s\<lparr>og_members := list_of ''members'' data\<rparr>)"
| "replied t (InviteWait slug email role) data s =
     s\<lparr>og_lastInviteToken := or_empty (getprop data ''token''), og_inviteEmail := [],
       og_success := t ''account.organizations.invited'' []\<rparr>"
| "replied t (RemoveWait slug user) data s = refreshMembers slug s"
| "replied t (AcceptWait token) data s =
     fetchOrgs ThenAccepting (s\<lparr>og_acceptToken := [], og_success := t ''account.organizations.accepted'' []\<rparr>)"

fun refused :: "translate \<Rightarrow> string \<Rightarrow> org_wait \<Rightarrow> failure \<Rightarrow> org_page \<Rightarrow> org_page" where
  "refused t cur (OrgsWait k) e s = after_orgs k
     (s\<lparr>og_error := JStr (t ''account.organizations.loadFailed'' []), og_loading := False\<rparr>)"
| "refused t cur (RequestsWait slug seq) e s =
     (if seq = og_pendingRequestsSeq s \<and> og_expandedConsentsSlug s = slug then s\<lparr>og_error := normalized cur e\<rparr> else s)"
| "refused t cur (ConsentsWait slug seq) e s =
     (if seq = og_consentsRequestSeq s \<and> og_expandedConsentsSlug s = slug then s\<lparr>og_error := normalized cur e\<rparr> else s)"
| "refused t cur (PanelWait slug cs rs a b) e s =
     (if cs = og_consentsRequestSeq s \<and> og_expandedConsentsSlug s = slug then s\<lparr>og_error := normalized cur e\<rparr> else s)"
| "refused t cur (RevokeWait slug clientId seq) e s =
     (if seq = og_consentsRequestSeq s then s\<lparr>og_error := normalized cur e\<rparr> else s)"
| "refused t cur (RevokedWait slug seq) e s =
     (if seq = og_consentsRequestSeq s then s\<lparr>og_error := normalized cur e\<rparr> else s)"
| "refused t cur (MembersWait slug seq) e s =
     (if seq = og_membersRequestSeq s then s\<lparr>og_error := normalized cur e\<rparr> else s)"
| "refused t cur (CreateWait slug name) e s = s\<lparr>og_error := normalized cur e, og_creating := False\<rparr>"
| "refused t cur (AcceptWait token) e s = s\<lparr>og_error := normalized cur e, og_accepting := False\<rparr>"
| "refused t cur w e s = s\<lparr>og_error := normalized cur e\<rparr>"

text \<open>\<open>Promise.all\<close> of \<open>refreshConsentPanel\<close>: it goes on when both replies are there, and fails with the first
  failure.\<close>

definition panel_done :: "string \<Rightarrow> nat \<Rightarrow> nat \<Rightarrow> jsval \<Rightarrow> jsval \<Rightarrow> org_page \<Rightarrow> org_page" where
  "panel_done slug cs rs a b s =
     (if cs \<noteq> og_consentsRequestSeq s \<or> rs \<noteq> og_pendingRequestsSeq s \<or> og_expandedConsentsSlug s \<noteq> slug then s
      else s\<lparr>og_consents := list_of ''consents'' a, og_pendingRequests := list_of ''requests'' b\<rparr>)"

definition set_wait :: "nat \<Rightarrow> org_wait option \<Rightarrow> org_page \<Rightarrow> org_page" where
  "set_wait i w s = s\<lparr>og_waits := (og_waits s)[i := w]\<rparr>"

definition log_answer :: "api_call \<Rightarrow> failure + jsval \<Rightarrow> org_page \<Rightarrow> org_page" where
  "log_answer c r s = s\<lparr>og_log := og_log s @ [(c, r)]\<rparr>"

definition is_panel :: "org_wait \<Rightarrow> bool" where
  "is_panel w = (case w of PanelWait slug cs rs a b \<Rightarrow> True | _ \<Rightarrow> False)"

definition org_reply :: "translate \<Rightarrow> string \<Rightarrow> nat \<Rightarrow> failure + jsval \<Rightarrow> org_page \<Rightarrow> org_page option" where
  "org_reply t cur i r s =
     (if i < length (og_waits s) then (case og_waits s ! i of
        Some w \<Rightarrow> if is_panel w then None
          else (let s = set_wait i None (log_answer (wait_call w) r s) in
                Some (case r of Inr data \<Rightarrow> replied t w data s | Inl e \<Rightarrow> refused t cur w e s))
      | None \<Rightarrow> None) else None)"

definition panel_reply :: "translate \<Rightarrow> string \<Rightarrow> nat \<Rightarrow> bool \<Rightarrow> failure + jsval \<Rightarrow> org_page \<Rightarrow> org_page option" where
  "panel_reply t cur i first r s =
     (if i < length (og_waits s) then (case og_waits s ! i of
        Some (PanelWait slug cs rs a b) \<Rightarrow>
          if (if first then a else b) \<noteq> None then None
          else (let s = log_answer (if first then consents_call slug else requests_call slug) r s in
            Some (case r of
                Inl e \<Rightarrow> refused t cur (PanelWait slug cs rs a b) e (set_wait i None s)
              | Inr data \<Rightarrow> (case (if first then Some data else a, if first then b else Some data) of
                    (Some x, Some y) \<Rightarrow> panel_done slug cs rs x y (set_wait i None s)
                  | (x, y) \<Rightarrow> set_wait i (Some (PanelWait slug cs rs x y)) s)))
      | _ \<Rightarrow> None) else None)"

subsection \<open>The page\<close>

datatype org_field = NewSlug | NewName | InviteEmail | InviteRole | AcceptToken | NominateUserId | GrantClientId | GrantRedirectUri

fun edit_field :: "org_field \<Rightarrow> string \<Rightarrow> org_page \<Rightarrow> org_page" where
  "edit_field NewSlug v s = s\<lparr>og_newSlug := v\<rparr>"
| "edit_field NewName v s = s\<lparr>og_newName := v\<rparr>"
| "edit_field InviteEmail v s = s\<lparr>og_inviteEmail := v\<rparr>"
| "edit_field InviteRole v s = s\<lparr>og_inviteRole := v\<rparr>"
| "edit_field AcceptToken v s = s\<lparr>og_acceptToken := v\<rparr>"
| "edit_field NominateUserId v s = s\<lparr>og_nominateUserId := v\<rparr>"
| "edit_field GrantClientId v s = s\<lparr>og_grantClientId := v\<rparr>"
| "edit_field GrantRedirectUri v s = s\<lparr>og_grantRedirectUri := v\<rparr>"

datatype org_event =
    Mounted | EditField org_field string | ToggleCreate | DismissToken | SuccessTimeout
  | ClickAcceptSuccession string | ClickNominate string | ClickWithdraw string
  | ClickConsents string | ClickApprove string jsval | ClickReject string jsval | ClickRevoke string string
  | ClickGrantLink string int bytes | SubmitCreate | ClickMembers string | ClickInvite string
  | ClickRemove string jsval | ClickAcceptInvite | ConfirmDialog | CancelDialog
  | Reply nat "failure + jsval" | PanelReply nat bool "failure + jsval"

fun org_step :: "translate \<Rightarrow> string \<Rightarrow> string \<Rightarrow> org_event \<Rightarrow> org_page \<Rightarrow> org_page option" where
  "org_step t cur origin Mounted s = Some (fetchOrgs NoMore s)"
| "org_step t cur origin (EditField f v) s = Some (edit_field f v s)"
| "org_step t cur origin ToggleCreate s = Some (s\<lparr>og_showCreate := \<not> og_showCreate s\<rparr>)"
| "org_step t cur origin DismissToken s = Some (s\<lparr>og_lastInviteToken := JStr []\<rparr>)"
| "org_step t cur origin SuccessTimeout s = Some (s\<lparr>og_success := []\<rparr>)"
| "org_step t cur origin (ClickAcceptSuccession slug) s = Some (acceptSuccession slug s)"
| "org_step t cur origin (ClickNominate slug) s = Some (nominateSuccessor t slug s)"
| "org_step t cur origin (ClickWithdraw slug) s = Some (withdrawSuccession slug s)"
| "org_step t cur origin (ClickConsents slug) s = Some (toggleConsents slug s)"
| "org_step t cur origin (ClickApprove slug req) s = Some (approveConsentRequest t slug req s)"
| "org_step t cur origin (ClickReject slug req) s = Some (rejectConsentRequest t slug req s)"
| "org_step t cur origin (ClickRevoke slug clientId) s = Some (revokeConsents t slug clientId s)"
| "org_step t cur origin (ClickGrantLink slug now bs) s = Some (generateGrantLink origin slug now bs s)"
| "org_step t cur origin SubmitCreate s = Some (createOrg s)"
| "org_step t cur origin (ClickMembers slug) s = Some (toggleMembers slug s)"
| "org_step t cur origin (ClickInvite slug) s = Some (invite slug s)"
| "org_step t cur origin (ClickRemove slug user) s = Some (removeMember t slug user s)"
| "org_step t cur origin ClickAcceptInvite s = Some (acceptInvite s)"
| "org_step t cur origin ConfirmDialog s = Some (org_runConfirm s)"
| "org_step t cur origin CancelDialog s = Some (s\<lparr>og_confirm := (og_confirm s)\<lparr>cf_open := False\<rparr>\<rparr>)"
| "org_step t cur origin (Reply i r) s = org_reply t cur i r s"
| "org_step t cur origin (PanelReply i first r) s = panel_reply t cur i first r s"

subsection \<open>What a panel shows\<close>

text \<open>A list that is empty or was delivered for this call, and the replies a pending \<open>Promise.all\<close> holds.\<close>

type_synonym answers = "(api_call \<times> (failure + jsval)) list"

definition delivered :: "answers \<Rightarrow> api_call \<Rightarrow> string \<Rightarrow> jsval \<Rightarrow> bool" where
  "delivered l c key v \<longleftrightarrow> v = JArr [] \<or> (\<exists>data. (c, Inr data) \<in> set l \<and> v = list_of key data)"

fun wait_ok :: "answers \<Rightarrow> org_wait \<Rightarrow> bool" where
  "wait_ok l (PanelWait slug cs rs a b) \<longleftrightarrow>
     (case a of None \<Rightarrow> True | Some x \<Rightarrow> (consents_call slug, Inr x) \<in> set l) \<and>
     (case b of None \<Rightarrow> True | Some y \<Rightarrow> (requests_call slug, Inr y) \<in> set l)"
| "wait_ok l w \<longleftrightarrow> True"

definition panels_own :: "org_page \<Rightarrow> bool" where
  "panels_own s \<longleftrightarrow>
     (og_expandedSlug s \<noteq> [] \<longrightarrow> delivered (og_log s) (members_call (og_expandedSlug s)) ''members'' (og_members s)) \<and>
     (og_expandedConsentsSlug s \<noteq> [] \<longrightarrow>
        delivered (og_log s) (consents_call (og_expandedConsentsSlug s)) ''consents'' (og_consents s) \<and>
        delivered (og_log s) (requests_call (og_expandedConsentsSlug s)) ''requests'' (og_pendingRequests s)) \<and>
     (\<forall>w. Some w \<in> set (og_waits s) \<longrightarrow> wait_ok (og_log s) w)"

lemmas org_handlers =
  fetchOrgs_def acceptSuccession_def nominateSuccessor_def withdrawSuccession_def fetchPendingRequests_def toggleConsents_def
  refreshConsentPanel_def approveConsentRequest_def rejectConsentRequest_def revokeConsents_def generateGrantLink_def createOrg_def
  toggleMembers_def refreshMembers_def invite_def removeMember_def acceptInvite_def org_runConfirm_def take_confirm_def
  begin_wait_def set_wait_def log_answer_def panel_done_def

lemma delivered_empty [simp]: "delivered l c key (JArr [])"
  by (simp add: delivered_def)

lemma delivered_snoc: "delivered l c key v \<Longrightarrow> delivered (l @ [a]) c key v"
  by (auto simp: delivered_def)

lemma delivered_last [simp]: "delivered (l @ [(c, Inr data)]) c key (list_of key data)"
  by (auto simp: delivered_def)

lemma wait_ok_snoc: "wait_ok l w \<Longrightarrow> wait_ok (l @ [a]) w"
  by (cases "(l, w)" rule: wait_ok.cases) (auto split: option.splits)

lemma panels_frame [simp]:
  "panels_own (s\<lparr>og_error := e\<rparr>) = panels_own s" "panels_own (s\<lparr>og_success := m\<rparr>) = panels_own s"
  "panels_own (s\<lparr>og_loading := b\<rparr>) = panels_own s" "panels_own (s\<lparr>og_creating := b\<rparr>) = panels_own s"
  "panels_own (s\<lparr>og_accepting := b\<rparr>) = panels_own s" "panels_own (s\<lparr>og_orgs := v\<rparr>) = panels_own s"
  "panels_own (s\<lparr>og_pendingNominations := v\<rparr>) = panels_own s" "panels_own (s\<lparr>og_nominateUserId := m\<rparr>) = panels_own s"
  "panels_own (s\<lparr>og_showCreate := b\<rparr>) = panels_own s" "panels_own (s\<lparr>og_newSlug := m\<rparr>) = panels_own s"
  "panels_own (s\<lparr>og_newName := m\<rparr>) = panels_own s" "panels_own (s\<lparr>og_lastInviteToken := v\<rparr>) = panels_own s"
  "panels_own (s\<lparr>og_inviteEmail := m\<rparr>) = panels_own s" "panels_own (s\<lparr>og_inviteRole := m\<rparr>) = panels_own s"
  "panels_own (s\<lparr>og_acceptToken := m\<rparr>) = panels_own s" "panels_own (s\<lparr>og_grantClientId := m\<rparr>) = panels_own s"
  "panels_own (s\<lparr>og_grantRedirectUri := m\<rparr>) = panels_own s" "panels_own (s\<lparr>og_grantLink := m\<rparr>) = panels_own s"
  "panels_own (s\<lparr>og_confirm := cf\<rparr>) = panels_own s" "panels_own (s\<lparr>og_consentsRequestSeq := n\<rparr>) = panels_own s"
  "panels_own (s\<lparr>og_pendingRequestsSeq := n\<rparr>) = panels_own s" "panels_own (s\<lparr>og_membersRequestSeq := n\<rparr>) = panels_own s"
  by (simp_all add: panels_own_def)

lemma begin_wait_panels [simp]: "panels_own (begin_wait w s) \<longleftrightarrow> panels_own s \<and> wait_ok (og_log s) w"
  by (auto simp: panels_own_def begin_wait_def)

lemma edit_field_panels [simp]: "panels_own (edit_field f v s) = panels_own s"
  by (cases f) simp_all

lemma refreshMembers_panels [simp]: "panels_own (refreshMembers slug s) = panels_own s"
  by (simp add: refreshMembers_def Let_def)

lemma fetchOrgs_panels [simp]: "panels_own (fetchOrgs k s) = panels_own s"
  by (simp add: fetchOrgs_def)

lemma start_action_panels [simp]: "panels_own (start_action a s) = panels_own s"
  by (cases a) (simp_all add: Let_def)

lemma after_orgs_panels [simp]: "panels_own (after_orgs k s) = panels_own s"
  by (cases k) simp_all

lemma refused_panels [simp]: "panels_own (refused t cur w e s) = panels_own s"
  by (cases "(t, cur, w, e, s)" rule: refused.cases) simp_all

lemma toggle_panels: "panels_own s \<Longrightarrow> panels_own (toggleMembers slug s) \<and> panels_own (toggleConsents slug s)"
  by (auto simp: panels_own_def toggleMembers_def toggleConsents_def fetchPendingRequests_def begin_wait_def Let_def)

lemma answer_simps [simp]:
  "og_log (set_wait i w s) = og_log s" "og_log (log_answer c r s) = og_log s @ [(c, r)]"
  "og_waits (set_wait i w s) = (og_waits s)[i := w]" "og_waits (log_answer c r s) = og_waits s"
  by (simp_all add: set_wait_def log_answer_def)

lemma log_panels:
  assumes "panels_own s" and "\<And>v. w = Some v \<Longrightarrow> wait_ok (og_log s @ [(c, r)]) v"
  shows "panels_own (set_wait i w (log_answer c r s))"
  using assms set_update_subset_insert [of "og_waits s" i w]
  by (auto simp: panels_own_def log_answer_def set_wait_def delivered_snoc intro: wait_ok_snoc)

lemma panels_waits: "panels_own s \<Longrightarrow> Some w \<in> set (og_waits s) \<Longrightarrow> wait_ok (og_log s) w"
  by (simp only: panels_own_def)

lemma show_panels:
  "panels_own s \<Longrightarrow> (members_call (og_expandedSlug s), Inr a) \<in> set (og_log s) \<Longrightarrow>
     panels_own (s\<lparr>og_members := list_of ''members'' a\<rparr>)"
  "panels_own s \<Longrightarrow> (consents_call (og_expandedConsentsSlug s), Inr b) \<in> set (og_log s) \<Longrightarrow>
     panels_own (s\<lparr>og_consents := list_of ''consents'' b\<rparr>)"
  "panels_own s \<Longrightarrow> (requests_call (og_expandedConsentsSlug s), Inr c) \<in> set (og_log s) \<Longrightarrow>
     panels_own (s\<lparr>og_pendingRequests := list_of ''requests'' c\<rparr>)"
  by (auto simp: panels_own_def delivered_def)

lemma replied_panels:
  "panels_own s \<Longrightarrow> (wait_call w, Inr data) \<in> set (og_log s) \<Longrightarrow> panels_own (replied t w data s)"
  by (cases w) (auto simp: refreshConsentPanel_def Let_def intro: show_panels)

lemma panel_done_panels:
  "panels_own s \<Longrightarrow> (consents_call slug, Inr a) \<in> set (og_log s) \<Longrightarrow> (requests_call slug, Inr b) \<in> set (og_log s) \<Longrightarrow>
     panels_own (panel_done slug cs rs a b s)"
  using show_panels(2) [of s a] show_panels(3) [of "s\<lparr>og_consents := list_of ''consents'' a\<rparr>" b]
  by (simp add: panel_done_def)

lemma org_reply_panels: "panels_own s \<Longrightarrow> org_reply t cur i r s = Some s' \<Longrightarrow> panels_own s'"
  by (auto simp: org_reply_def Let_def split: if_splits option.splits sum.splits intro!: replied_panels log_panels)

lemma panel_reply_panels:
  assumes "panels_own s" and "panel_reply t cur i first r s = Some s'"
  shows "panels_own s'"
proof -
  from assms(2) obtain slug cs rs a b where w: "i < length (og_waits s)" "og_waits s ! i = Some (PanelWait slug cs rs a b)"
    by (auto simp: panel_reply_def split: if_splits option.splits org_wait.splits)
  then have "Some (PanelWait slug cs rs a b) \<in> set (og_waits s)" by (metis nth_mem)
  with assms(1) have "wait_ok (og_log s) (PanelWait slug cs rs a b)" by (rule panels_waits)
  with assms w show ?thesis
    by (auto simp: panel_reply_def Let_def split: if_splits option.splits sum.splits intro!: panel_done_panels log_panels)
qed

lemma org_step_panels: "panels_own s \<Longrightarrow> org_step t cur origin e s = Some s' \<Longrightarrow> panels_own s'"
  by (cases "(t, cur, origin, e, s)" rule: org_step.cases)
     (auto simp: toggle_panels acceptSuccession_def nominateSuccessor_def withdrawSuccession_def approveConsentRequest_def
        rejectConsentRequest_def revokeConsents_def generateGrantLink_def createOrg_def invite_def removeMember_def acceptInvite_def
        org_runConfirm_def take_confirm_def Let_def split: option.splits if_splits intro: org_reply_panels panel_reply_panels)

lemma panels_setup: "panels_own org_setup"
  by (simp add: panels_own_def org_setup_def)

interpretation org: guarded_machine "org_step t cur origin" panels_own for t cur origin
  by unfold_locales (rule org_step_panels)

subsection \<open>The members panel settles\<close>

definition members_settled :: "org_page \<Rightarrow> bool" where
  "members_settled s \<longleftrightarrow> og_expandedSlug s \<noteq> [] \<longrightarrow>
     Some (MembersWait (og_expandedSlug s) (og_membersRequestSeq s)) \<in> set (og_waits s) \<or>
     (\<exists>r. (members_call (og_expandedSlug s), r) \<in> set (og_log s) \<and> (\<forall>data. r = Inr data \<longrightarrow> og_members s = list_of ''members'' data))"

lemma other_wait_stays: "Some w \<in> set ws \<Longrightarrow> ws ! i \<noteq> Some w \<Longrightarrow> Some w \<in> set (ws[i := v])"
  by (metis in_set_conv_nth length_list_update nth_list_update_neq)

lemma settled_frame [simp]:
  "members_settled (s\<lparr>og_error := e\<rparr>) = members_settled s" "members_settled (s\<lparr>og_success := m\<rparr>) = members_settled s"
  "members_settled (s\<lparr>og_loading := b\<rparr>) = members_settled s" "members_settled (s\<lparr>og_creating := b\<rparr>) = members_settled s"
  "members_settled (s\<lparr>og_accepting := b\<rparr>) = members_settled s" "members_settled (s\<lparr>og_orgs := v\<rparr>) = members_settled s"
  "members_settled (s\<lparr>og_pendingNominations := v\<rparr>) = members_settled s" "members_settled (s\<lparr>og_nominateUserId := m\<rparr>) = members_settled s"
  "members_settled (s\<lparr>og_showCreate := b\<rparr>) = members_settled s" "members_settled (s\<lparr>og_newSlug := m\<rparr>) = members_settled s"
  "members_settled (s\<lparr>og_newName := m\<rparr>) = members_settled s" "members_settled (s\<lparr>og_lastInviteToken := v\<rparr>) = members_settled s"
  "members_settled (s\<lparr>og_inviteEmail := m\<rparr>) = members_settled s" "members_settled (s\<lparr>og_inviteRole := m\<rparr>) = members_settled s"
  "members_settled (s\<lparr>og_acceptToken := m\<rparr>) = members_settled s" "members_settled (s\<lparr>og_grantClientId := m\<rparr>) = members_settled s"
  "members_settled (s\<lparr>og_grantRedirectUri := m\<rparr>) = members_settled s" "members_settled (s\<lparr>og_grantLink := m\<rparr>) = members_settled s"
  "members_settled (s\<lparr>og_confirm := cf\<rparr>) = members_settled s" "members_settled (s\<lparr>og_consentsRequestSeq := n\<rparr>) = members_settled s"
  "members_settled (s\<lparr>og_pendingRequestsSeq := n\<rparr>) = members_settled s" "members_settled (s\<lparr>og_expandedConsentsSlug := m\<rparr>) = members_settled s"
  "members_settled (s\<lparr>og_consents := v\<rparr>) = members_settled s" "members_settled (s\<lparr>og_pendingRequests := v\<rparr>) = members_settled s"
  by (simp_all add: members_settled_def)

lemma begin_wait_settled: "members_settled s \<Longrightarrow> members_settled (begin_wait w s)"
  by (auto simp: members_settled_def begin_wait_def)

lemma refreshMembers_settled: "members_settled s \<Longrightarrow> members_settled (refreshMembers slug s)"
  by (simp add: members_settled_def refreshMembers_def begin_wait_def Let_def)

lemma toggleMembers_settled: "members_settled s \<Longrightarrow> members_settled (toggleMembers slug s)"
  by (simp add: members_settled_def toggleMembers_def begin_wait_def Let_def)

lemmas settled_intros = begin_wait_settled refreshMembers_settled toggleMembers_settled

lemma fetchOrgs_settled: "members_settled s \<Longrightarrow> members_settled (fetchOrgs k s)"
  by (simp add: fetchOrgs_def begin_wait_settled)

lemma after_orgs_settled: "members_settled s \<Longrightarrow> members_settled (after_orgs k s)"
  by (cases k) (simp_all add: refreshMembers_settled)

lemma start_action_settled: "members_settled s \<Longrightarrow> members_settled (start_action a s)"
  by (cases a) (simp_all add: Let_def begin_wait_settled)

text \<open>An answer to another request keeps the members request that is waited for.\<close>

lemma other_answer_settled:
  assumes "members_settled s" and "\<And>slug q. og_waits s ! i \<noteq> Some (MembersWait slug q)"
  shows "members_settled (set_wait i w (log_answer c r s))"
proof -
  have "Some v \<in> set ((og_waits s)[i := w])" if "Some v \<in> set (og_waits s)" "v = MembersWait slug q" for v slug q
    using other_wait_stays [OF that(1), of i w] assms(2) that(2) by auto
  with assms(1) show ?thesis by (auto simp: members_settled_def set_wait_def log_answer_def)
qed

lemma members_answer_settled:
  assumes "members_settled s" and "og_waits s ! i = Some (MembersWait slug q)"
  shows "members_settled (case r of Inr data \<Rightarrow> replied t (MembersWait slug q) data (set_wait i None (log_answer (members_call slug) r s))
     | Inl e \<Rightarrow> refused t cur (MembersWait slug q) e (set_wait i None (log_answer (members_call slug) r s)))"
proof (cases "slug = og_expandedSlug s \<and> q = og_membersRequestSeq s")
  case True
  then show ?thesis by (auto simp: members_settled_def set_wait_def log_answer_def split: sum.split)
next
  case False
  then have "og_waits s ! i \<noteq> Some (MembersWait (og_expandedSlug s) (og_membersRequestSeq s))" using assms(2) by simp
  with assms(1) other_wait_stays [of _ "og_waits s" i None] have "members_settled (set_wait i None (log_answer (members_call slug) r s))"
    by (auto simp: members_settled_def set_wait_def log_answer_def)
  with False show ?thesis by (auto simp: set_wait_def log_answer_def split: sum.split)
qed

lemma replied_settled: "members_settled s \<Longrightarrow> (\<And>slug q. w \<noteq> MembersWait slug q) \<Longrightarrow> members_settled (replied t w data s)"
  by (cases w) (simp_all add: refreshConsentPanel_def Let_def settled_intros fetchOrgs_settled after_orgs_settled)

lemma refused_settled: "members_settled s \<Longrightarrow> members_settled (refused t cur w e s)"
  by (cases w) (simp_all add: after_orgs_settled)

lemma org_reply_settled:
  assumes "members_settled s" and "org_reply t cur i r s = Some s'"
  shows "members_settled s'"
proof -
  from assms(2) obtain w where w: "og_waits s ! i = Some w" and s': "s' = (case r of
      Inr data \<Rightarrow> replied t w data (set_wait i None (log_answer (wait_call w) r s))
    | Inl e \<Rightarrow> refused t cur w e (set_wait i None (log_answer (wait_call w) r s)))"
    by (auto simp: org_reply_def Let_def split: if_splits option.splits)
  show ?thesis
  proof (cases "\<exists>slug q. w = MembersWait slug q")
    case True
    then obtain slug q where "w = MembersWait slug q" by blast
    with members_answer_settled [OF assms(1), of i slug q t cur r] w s' show ?thesis by (simp only: wait_call.simps)
  next
    case False
    with other_answer_settled [OF assms(1)] w s' show ?thesis
      by (auto simp: split: sum.split intro!: replied_settled refused_settled)
  qed
qed

lemma panel_reply_settled:
  assumes "members_settled s" and "panel_reply t cur i first r s = Some s'"
  shows "members_settled s'"
proof -
  from assms(2) obtain slug cs rs a b where "og_waits s ! i = Some (PanelWait slug cs rs a b)"
    by (auto simp: panel_reply_def split: if_splits option.splits org_wait.splits)
  with assms other_answer_settled [OF assms(1), of i] show ?thesis
    by (auto simp: panel_reply_def Let_def panel_done_def split: if_splits option.splits sum.splits)
qed

lemma toggleConsents_settled: "members_settled s \<Longrightarrow> members_settled (toggleConsents slug s)"
  by (simp add: toggleConsents_def fetchPendingRequests_def Let_def settled_intros)

lemma edit_field_settled [simp]: "members_settled (edit_field f v s) = members_settled s"
  by (cases f) simp_all

lemma org_step_settled: "members_settled s \<Longrightarrow> org_step t cur origin e s = Some s' \<Longrightarrow> members_settled s'"
  by (cases "(t, cur, origin, e, s)" rule: org_step.cases)
     (auto simp: acceptSuccession_def nominateSuccessor_def withdrawSuccession_def approveConsentRequest_def
        rejectConsentRequest_def revokeConsents_def generateGrantLink_def createOrg_def invite_def removeMember_def acceptInvite_def
        org_runConfirm_def take_confirm_def Let_def settled_intros toggleConsents_settled fetchOrgs_settled start_action_settled
        split: option.splits if_splits intro: org_reply_settled panel_reply_settled)

interpretation org_members: guarded_machine "org_step t cur origin" members_settled for t cur origin
  by unfold_locales (rule org_step_settled)

subsection \<open>Properties\<close>

text \<open>C34. An open panel never shows another organization: after any interleaving of clicks and replies, the list of an
  open members panel is empty or was delivered for exactly its organization, and so are both
  lists of an open consents panel.\<close>

theorem panels_show_their_organization:
  assumes "exec (org_step t cur origin) es org_setup = Some s"
  shows "(og_expandedSlug s \<noteq> [] \<longrightarrow> delivered (og_log s) (members_call (og_expandedSlug s)) ''members'' (og_members s)) \<and>
     (og_expandedConsentsSlug s \<noteq> [] \<longrightarrow>
        delivered (og_log s) (consents_call (og_expandedConsentsSlug s)) ''consents'' (og_consents s) \<and>
        delivered (og_log s) (requests_call (og_expandedConsentsSlug s)) ''requests'' (og_pendingRequests s))"
  using org.exec_invar [OF panels_setup assms] by (simp only: panels_own_def) blast

lemmas org_run_simps = org_setup_def org_handlers org_reply_def panel_reply_def is_panel_def askConfirm_def Let_def

theorem panels_show_their_organization_witness:
  "\<exists>s. exec (org_step (\<lambda>k ps. k) ''en'' ''https://id'') [ClickMembers ''acme'', ClickMembers ''beta'',
       Reply 0 (Inr (JObj [(''members'', JArr [JNum 1])])), Reply 1 (Inr (JObj [(''members'', JArr [JNum 2])]))] org_setup = Some s \<and>
     og_expandedSlug s = ''beta'' \<and> og_members s = JArr [JNum 2] \<and>
     delivered (og_log s) (members_call ''beta'') ''members'' (og_members s)"
proof -
  let ?run = "exec (org_step (\<lambda>k ps. k) ''en'' ''https://id'') [ClickMembers ''acme'', ClickMembers ''beta'',
       Reply 0 (Inr (JObj [(''members'', JArr [JNum 1])])), Reply 1 (Inr (JObj [(''members'', JArr [JNum 2])]))] org_setup"
  have "\<exists>s. ?run = Some s \<and> og_expandedSlug s = ''beta'' \<and> og_members s = JArr [JNum 2]"
    by (simp add: org_run_simps list_of_def js_or_def)
  then obtain s where "?run = Some s" "og_expandedSlug s = ''beta''" "og_members s = JArr [JNum 2]" by blast
  with panels_show_their_organization [OF this(1)] show ?thesis by auto
qed

text \<open>The members panel always comes to rest: in every reachable state an open panel either still waits for its
  newest request, or a request for its organization was answered, and a delivered list is on
  display.\<close>

theorem members_panel_settles:
  assumes "exec (org_step t cur origin) es org_setup = Some s" and "og_expandedSlug s \<noteq> []"
    and "Some (MembersWait (og_expandedSlug s) (og_membersRequestSeq s)) \<notin> set (og_waits s)"
  shows "\<exists>r. (members_call (og_expandedSlug s), r) \<in> set (og_log s) \<and> (\<forall>data. r = Inr data \<longrightarrow> og_members s = list_of ''members'' data)"
proof -
  have "members_settled org_setup" by (simp add: members_settled_def org_setup_def)
  from org_members.exec_invar [OF this assms(1)] assms(2,3) show ?thesis by (simp add: members_settled_def)
qed

theorem members_panel_settles_witness:
  "\<exists>s r. exec (org_step (\<lambda>k ps. k) ''en'' ''https://id'') [ClickMembers ''acme'', Reply 0 (Inr (JObj []))] org_setup = Some s \<and>
     og_expandedSlug s = ''acme'' \<and> (members_call ''acme'', r) \<in> set (og_log s)"
proof -
  let ?run = "exec (org_step (\<lambda>k ps. k) ''en'' ''https://id'') [ClickMembers ''acme'', Reply 0 (Inr (JObj []))] org_setup"
  have "\<exists>s. ?run = Some s \<and> og_expandedSlug s = ''acme'' \<and> og_waits s = [None]" by (simp add: org_run_simps)
  then obtain s where s: "?run = Some s" "og_expandedSlug s = ''acme''" "og_waits s = [None]" by blast
  from members_panel_settles [OF s(1)] s(2,3) have "\<exists>r. (members_call ''acme'', r) \<in> set (og_log s)" by auto
  with s show ?thesis by blast
qed

text \<open>C35. The consents panel does not: an approval that is answered after the user has opened the panel of another
  organization refreshes with new sequence numbers first and compares the organization only
  afterwards.  The lists that were requested for the open panel are dropped when they arrive,
  its own lists are dropped too, and the panel stays empty with nothing under way.\<close>

theorem approval_blanks_other_panel:
  assumes "A \<noteq> B" and "A \<noteq> []" and "B \<noteq> []"
  shows "\<exists>s. exec (org_step t cur origin) [ClickConsents A, Reply 0 (Inr ra), Reply 1 (Inr ca), ClickApprove A req, ConfirmDialog,
       ClickConsents B, Reply 2 (Inr ok), Reply 3 (Inr rb), Reply 4 (Inr cb), PanelReply 5 True (Inr ca'), PanelReply 5 False (Inr ra')]
       org_setup = Some s \<and>
     og_expandedConsentsSlug s = B \<and> (consents_call B, Inr cb) \<in> set (og_log s) \<and> (requests_call B, Inr rb) \<in> set (og_log s) \<and>
     og_consents s = JArr [] \<and> og_pendingRequests s = JArr [] \<and> og_error s = JNull \<and> (\<forall>w\<in>set (og_waits s). w = None)"
  using assms by (simp add: org_run_simps)

theorem approval_blanks_other_panel_witness:
  "\<exists>s. exec (org_step (\<lambda>k ps. k) ''en'' ''https://id'') [ClickConsents ''acme'', Reply 0 (Inr JNull), Reply 1 (Inr JNull),
       ClickApprove ''acme'' (JObj [(''id'', JNum 1)]), ConfirmDialog, ClickConsents ''beta'', Reply 2 (Inr JNull), Reply 3 (Inr JNull),
       Reply 4 (Inr (JObj [(''consents'', JArr [JNum 7])])), PanelReply 5 True (Inr JNull), PanelReply 5 False (Inr JNull)] org_setup = Some s \<and>
     og_expandedConsentsSlug s = ''beta'' \<and> og_consents s = JArr []"
  using approval_blanks_other_panel [of "''acme''" "''beta''" "\<lambda>k ps. k" "''en''" "''https://id''" JNull JNull "JObj [(''id'', JNum 1)]"
      JNull JNull "JObj [(''consents'', JArr [JNum 7])]" JNull JNull] by auto

text \<open>The generated link: a server that decodes its query reads the chosen client, redirect URI and organization, and
  a challenge of 43 characters.\<close>

theorem grant_link_carries_organization:
  assumes "og_grantClientId s \<noteq> []" and "og_grantRedirectUri s \<noteq> []" and "length bs = 32"
  shows "\<exists>q. og_grantLink (generateGrantLink origin slug now bs s) = origin @ ''/oauth2/authorize?'' @ q \<and>
     params_get (parse_params q) ''client_id'' = Some (og_grantClientId s) \<and>
     params_get (parse_params q) ''redirect_uri'' = Some (og_grantRedirectUri s) \<and>
     params_get (parse_params q) ''org_id'' = Some slug \<and>
     (\<exists>c. params_get (parse_params q) ''code_challenge'' = Some c \<and> length c = 43)"
  using assms by (simp add: generateGrantLink_def grant_params_def params_get_def randomPkceChallenge_def
      base64UrlEncode_eq toBase64Url_length)

text \<open>A user id is read up to the first character that is no digit.\<close>

theorem nominate_takes_number_prefix:
  assumes "og_nominateUserId s = ds @ c # rest" and "ds \<noteq> []" and "\<forall>d\<in>set ds. is_digit d" and "\<not> is_digit c"
  shows "nominateSuccessor t slug s = begin_wait (NominateWait slug (digits_value ds)) (s\<lparr>og_error := JNull\<rparr>)"
proof -
  obtain d ds' where d: "ds = d # ds'" using assms(2) by (cases ds) auto
  with assms(3) have "\<not> white_space d" "d \<noteq> CHR ''-''" "d \<noteq> CHR ''+''"
    by (auto simp: is_digit_def white_space_def)
  moreover have "takeWhile is_digit (ds @ c # rest) = ds" using assms(3,4) by (simp add: takeWhile_append)
  ultimately have "parseInt10 (og_nominateUserId s) = Some (digits_value ds)"
    by (simp add: parseInt10_def Let_def assms(1) d)
  then show ?thesis by (simp add: nominateSuccessor_def)
qed

end
