(* ===== verification/MyApps.thy ===== *)
theory MyApps
  imports Answered OrgPanels
begin

section \<open>The applications page of the user portal\<close>

text \<open>
  \<open>pages/account/ApplicationsPage.vue\<close>: a user registers applications, rotates their secrets, deletes them and
  asks an organization to authorize them.  A new secret is shown once, next to the client it belongs to.  The
  handlers are resumptions, so that a reply may arrive after any number of further clicks.
\<close>

subsection \<open>Lists in a text field\<close>

text \<open>\<open>split(/[\s,]+/)\<close>: the pieces between the runs of separators.\<close>

definition list_sep :: "char \<Rightarrow> bool" where
  "list_sep c \<longleftrightarrow> white_space c \<or> c = CHR '',''"

function split_seps :: "string \<Rightarrow> string list" where
  "split_seps s = (let r = dropWhile (\<lambda>c. \<not> list_sep c) s in
     takeWhile (\<lambda>c. \<not> list_sep c) s # (if r = [] then [] else split_seps (dropWhile list_sep r)))"
  by pat_completeness auto

lemma dropWhile_shorter: "dropWhile (\<lambda>c. \<not> p c) s \<noteq> [] \<Longrightarrow> length (dropWhile p (dropWhile (\<lambda>c. \<not> p c) s)) < length s"
proof -
  assume r: "dropWhile (\<lambda>c. \<not> p c) s \<noteq> []"
  then have "p (hd (dropWhile (\<lambda>c. \<not> p c) s))" using hd_dropWhile [OF r] by simp
  with r have "length (dropWhile p (dropWhile (\<lambda>c. \<not> p c) s)) \<le> length (tl (dropWhile (\<lambda>c. \<not> p c) s))"
    by (cases "dropWhile (\<lambda>c. \<not> p c) s") (simp_all add: length_dropWhile_le)
  also have "\<dots> < length (dropWhile (\<lambda>c. \<not> p c) s)" using r by simp
  also have "\<dots> \<le> length s" by (rule length_dropWhile_le)
  finally show ?thesis .
qed

termination split_seps
  by (relation "measure length") (auto intro: dropWhile_shorter)

declare split_seps.simps [simp del]

definition entered_list :: "string \<Rightarrow> string list" where
  "entered_list s = filter (\<lambda>x. x \<noteq> []) (split_seps s)"

subsection \<open>The refs\<close>

datatype my_action = RotateSecret jsval | DeleteApp jsval

record my_page =
  my_apps :: jsval
  my_loading :: bool
  my_error :: jsval
  my_success :: jsval
  my_showCreate :: bool
  my_creating :: bool
  my_oneTimeSecret :: jsval
  my_oneTimeSecretFor :: jsval
  my_newName :: string
  my_newType :: string
  my_newRedirectUris :: string
  my_newScopes :: string
  my_newLogoUri :: string
  my_confirm :: "my_action confirm"
  my_authOpen :: bool
  my_authApp :: jsval
  my_authOrgs :: jsval
  my_authSlug :: string
  my_authLoading :: bool
  my_authNoOrgs :: bool
  my_authSubmitting :: bool

definition my_setup :: my_page where
  "my_setup = \<lparr>my_apps = JArr [], my_loading = True, my_error = JNull, my_success = JStr [], my_showCreate = False, my_creating = False,
     my_oneTimeSecret = JStr [], my_oneTimeSecretFor = JStr [], my_newName = [], my_newType = ''PUBLIC'', my_newRedirectUris = [],
     my_newScopes = ''openid profile'', my_newLogoUri = [], my_confirm = \<lparr>cf_open = False, cf_message = [], cf_action = None\<rparr>,
     my_authOpen = False, my_authApp = JNull, my_authOrgs = JArr [], my_authSlug = [], my_authLoading = False, my_authNoOrgs = False,
     my_authSubmitting = False\<rparr>"

definition app_name :: "jsval \<Rightarrow> string" where
  "app_name app = js_String (js_or (getprop app ''name'') (getprop app ''client_id''))"

definition my_app_url :: "jsval \<Rightarrow> string \<Rightarrow> string" where
  "my_app_url app rest = ''/api/me/applications/'' @ js_String (getprop app ''client_id'') @ rest"

subsection \<open>Handlers\<close>

definition my_fetchApps :: "translate \<Rightarrow> my_page co" where
  "my_fetchApps t = (let done = Do (\<lambda>s. s\<lparr>my_loading := False\<rparr>) Halt in
     Do (\<lambda>s. s\<lparr>my_loading := True\<rparr>) (attempt (plain_call ''GET'' ''/api/me/applications'')
       (\<lambda>data. Do (\<lambda>s. s\<lparr>my_apps := list_of ''applications'' data\<rparr>) done)
       (\<lambda>e. Do (\<lambda>s. s\<lparr>my_error := JStr (t ''account.applications.loadFailed'' [])\<rparr>) done)))"

definition create_body :: "my_page \<Rightarrow> (string \<times> jsval) list" where
  "create_body s =
     (let uris = entered_list (my_newRedirectUris s); scopes = entered_list (my_newScopes s); logo = js_trim (my_newLogoUri s) in
      [(''name'', JStr (my_newName s)), (''client_type'', JStr (my_newType s))] @
      (if uris \<noteq> [] then [(''redirect_uris'', JArr (map JStr uris))] else []) @
      (if scopes \<noteq> [] then [(''scopes'', JArr (map JStr scopes))] else []) @
      (if logo \<noteq> [] then [(''logo_uri'', JStr logo)] else []))"

definition create_call :: "my_page \<Rightarrow> api_call" where
  "create_call s = send_json ''POST'' ''/api/me/applications'' (JObj (create_body s))"

definition createApp :: "translate \<Rightarrow> string \<Rightarrow> my_page co" where
  "createApp t cur = (let done = Do (\<lambda>s. s\<lparr>my_creating := False\<rparr>) Halt in
     Do (\<lambda>s. s\<lparr>my_creating := True, my_error := JNull\<rparr>) (Branch (\<lambda>s. attempt (create_call s)
       (\<lambda>data. Do (\<lambda>s. s\<lparr>my_oneTimeSecret := or_empty (getprop data ''client_secret''),
            my_oneTimeSecretFor := or_empty (getprop data ''client_id''), my_showCreate := False, my_newName := [],
            my_success := JStr (t ''account.applications.created'' [])\<rparr>) (seq (my_fetchApps t) done))
       (\<lambda>e. Do (\<lambda>s. s\<lparr>my_error := normalized cur e\<rparr>) done))))"

definition rotateSecret :: "translate \<Rightarrow> jsval \<Rightarrow> my_page co" where
  "rotateSecret t app = Do (\<lambda>s. s\<lparr>my_confirm := askConfirm
     (t ''account.applications.rotateConfirm'' [(''app'', app_name app)]) (RotateSecret app) (my_confirm s)\<rparr>) Halt"

definition deleteApp :: "translate \<Rightarrow> jsval \<Rightarrow> my_page co" where
  "deleteApp t app = Do (\<lambda>s. s\<lparr>my_confirm := askConfirm
     (t ''account.applications.deleteConfirm'' [(''app'', app_name app)]) (DeleteApp app) (my_confirm s)\<rparr>) Halt"

definition rotate_call :: "jsval \<Rightarrow> api_call" where
  "rotate_call app = post_form (my_app_url app ''/rotate-secret'') []"

fun my_action_co :: "translate \<Rightarrow> string \<Rightarrow> my_action \<Rightarrow> my_page co" where
  "my_action_co t cur (RotateSecret app) = attempt (rotate_call app)
     (\<lambda>data. Do (\<lambda>s. s\<lparr>my_oneTimeSecret := or_empty (getprop data ''client_secret''), my_oneTimeSecretFor := getprop app ''client_id'',
        my_success := JStr (t ''account.applications.rotated'' [(''app'', app_name app)])\<rparr>) (my_fetchApps t))
     (\<lambda>e. Do (\<lambda>s. s\<lparr>my_error := normalized cur e\<rparr>) Halt)"
| "my_action_co t cur (DeleteApp app) = attempt (plain_call ''DELETE'' (my_app_url app []))
     (\<lambda>data. Do (\<lambda>s. s\<lparr>my_success := JStr (t ''account.applications.deleted'' [(''app'', app_name app)])\<rparr>) (my_fetchApps t))
     (\<lambda>e. Do (\<lambda>s. s\<lparr>my_error := normalized cur e\<rparr>) Halt)"

definition my_runConfirm :: "translate \<Rightarrow> string \<Rightarrow> my_page co" where
  "my_runConfirm t cur = Branch (\<lambda>s. case take_confirm (my_confirm s) of
     (act, cf) \<Rightarrow> Do (\<lambda>s. s\<lparr>my_confirm := cf\<rparr>) (case act of None \<Rightarrow> Halt | Some a \<Rightarrow> my_action_co t cur a))"

definition my_openRequestAuth :: "string \<Rightarrow> jsval \<Rightarrow> my_page co" where
  "my_openRequestAuth cur app = (let done = Do (\<lambda>s. s\<lparr>my_authLoading := False\<rparr>) Halt in
     Do (\<lambda>s. s\<lparr>my_authApp := app, my_authOrgs := JArr [], my_authSlug := [], my_authNoOrgs := False, my_authOpen := True, my_authLoading := True\<rparr>)
       (attempt (plain_call ''GET'' ''/api/me/organizations'')
         (\<lambda>data. let orgs = list_of ''organizations'' data in
            Do (\<lambda>s. s\<lparr>my_authOrgs := orgs, my_authNoOrgs := (getprop orgs ''length'' = JNum 0)\<rparr>) done)
         (\<lambda>e. Do (\<lambda>s. s\<lparr>my_authOpen := False, my_error := normalized cur e\<rparr>) done)))"

text \<open>The options of the organization picker; \<open>None\<close> where \<open>map\<close> or a member read throws.\<close>

definition requestAuthOptions :: "my_page \<Rightarrow> (jsval \<times> string) list option" where
  "requestAuthOptions s = (case my_authOrgs s of
     JArr orgs \<Rightarrow> if list_all (\<lambda>org. \<not> nullish org) orgs
       then Some (map (\<lambda>org. (getprop org ''slug'', js_String (getprop org ''name'') @ '' ('' @ js_String (getprop org ''slug'') @ '')'')) orgs) else None
   | _ \<Rightarrow> None)"

definition consent_request_call :: "my_page \<Rightarrow> api_call" where
  "consent_request_call s = send_json ''POST'' (org_url (my_authSlug s) ''/consent-requests'')
     (JObj [(''client_id'', getprop (my_authApp s) ''client_id'')])"

definition my_submitRequestAuth :: "translate \<Rightarrow> string \<Rightarrow> my_page co" where
  "my_submitRequestAuth t cur = Branch (\<lambda>s.
     if \<not> truthy (my_authApp s) \<or> my_authSlug s = [] then Halt
     else (let done = Do (\<lambda>s. s\<lparr>my_authSubmitting := False\<rparr>) Halt in
       Do (\<lambda>s. s\<lparr>my_authSubmitting := True, my_error := JNull\<rparr>) (attempt (consent_request_call s)
         (\<lambda>data. Do (\<lambda>s. s\<lparr>my_success := js_or (getprop data ''message'') (JStr (t ''account.applications.requestOrgAuthSuccess'' [])),
              my_authOpen := False\<rparr>) done)
         (\<lambda>e. Do (\<lambda>s. s\<lparr>my_error := normalized cur e, my_authOpen := False\<rparr>) done))))"

text \<open>The inputs and buttons of the template.  A submit button is disabled while its request runs or its field is empty, and
  the rotate button is there for confidential clients only.\<close>

datatype my_field = NewName | NewRedirectUris | NewScopes | NewLogoUri | AuthSlug

fun my_input :: "my_field \<Rightarrow> string \<Rightarrow> my_page \<Rightarrow> my_page" where
  "my_input NewName v s = s\<lparr>my_newName := v\<rparr>"
| "my_input NewRedirectUris v s = s\<lparr>my_newRedirectUris := v\<rparr>"
| "my_input NewScopes v s = s\<lparr>my_newScopes := v\<rparr>"
| "my_input NewLogoUri v s = s\<lparr>my_newLogoUri := v\<rparr>"
| "my_input AuthSlug v s = s\<lparr>my_authSlug := v\<rparr>"

datatype my_event =
    MyMounted | MyInput my_field string | MyType bool | ToggleMyCreate | SubmitApp | DismissSecret
  | ClickRotate jsval | ClickDelete jsval | ConfirmMine | CancelMine
  | ClickRequestAuth jsval | SubmitAuth | CloseAuth | MySuccessTimeout

fun my_handlers :: "translate \<Rightarrow> string \<Rightarrow> my_event \<Rightarrow> my_page co list" where
  "my_handlers t cur MyMounted = [my_fetchApps t]"
| "my_handlers t cur (MyInput f v) = [Do (my_input f v) Halt]"
| "my_handlers t cur (MyType public) = [Do (\<lambda>s. s\<lparr>my_newType := (if public then ''PUBLIC'' else ''CONFIDENTIAL'')\<rparr>) Halt]"
| "my_handlers t cur ToggleMyCreate = [Do (\<lambda>s. s\<lparr>my_showCreate := \<not> my_showCreate s\<rparr>) Halt]"
| "my_handlers t cur SubmitApp = [Branch (\<lambda>s. if my_creating s \<or> my_newName s = [] then Halt else createApp t cur)]"
| "my_handlers t cur DismissSecret = [Do (\<lambda>s. s\<lparr>my_oneTimeSecret := JStr [], my_oneTimeSecretFor := JStr []\<rparr>) Halt]"
| "my_handlers t cur (ClickRotate app) = (if getprop app ''client_type'' = JStr ''CONFIDENTIAL'' then [rotateSecret t app] else [])"
| "my_handlers t cur (ClickDelete app) = [deleteApp t app]"
| "my_handlers t cur ConfirmMine = [my_runConfirm t cur]"
| "my_handlers t cur CancelMine = [Do (\<lambda>s. s\<lparr>my_confirm := (my_confirm s)\<lparr>cf_open := False\<rparr>\<rparr>) Halt]"
| "my_handlers t cur (ClickRequestAuth app) = [my_openRequestAuth cur app]"
| "my_handlers t cur SubmitAuth = [Branch (\<lambda>s. if my_authSubmitting s \<or> my_authSlug s = [] then Halt else my_submitRequestAuth t cur)]"
| "my_handlers t cur CloseAuth = [Do (\<lambda>s. s\<lparr>my_authOpen := False\<rparr>) Halt]"
| "my_handlers t cur MySuccessTimeout = [Do (\<lambda>s. s\<lparr>my_success := JStr []\<rparr>) Halt]"

subsection \<open>The secret that is shown\<close>

text \<open>A shown secret was answered to the creation of the client it is shown for, or to the rotation of its secret.\<close>

definition secret_source :: "answer_log \<Rightarrow> jsval \<Rightarrow> jsval \<Rightarrow> bool" where
  "secret_source log secret owner \<longleftrightarrow> (\<exists>q data. (q, Inr data) \<in> set log \<and> secret = or_empty (getprop data ''client_secret'') \<and>
     ((ac_url q = ''/api/me/applications'' \<and> owner = or_empty (getprop data ''client_id'')) \<or>
      (\<exists>app. q = rotate_call app \<and> owner = getprop app ''client_id'')))"

definition secret_traced :: "answer_log \<Rightarrow> my_page \<Rightarrow> bool" where
  "secret_traced log s \<longleftrightarrow> my_oneTimeSecret s = JStr [] \<or> secret_source log (my_oneTimeSecret s) (my_oneTimeSecretFor s)"

lemma secret_traced_simps [simp]: "secret_traced log (s\<lparr>my_loading := b\<rparr>) = secret_traced log s"
  "secret_traced log (s\<lparr>my_apps := v\<rparr>) = secret_traced log s" "secret_traced log (s\<lparr>my_error := v\<rparr>) = secret_traced log s"
  "secret_traced log (s\<lparr>my_success := v\<rparr>) = secret_traced log s" "secret_traced log (s\<lparr>my_creating := b\<rparr>) = secret_traced log s"
  "secret_traced log (s\<lparr>my_confirm := cf\<rparr>) = secret_traced log s" "secret_traced log (s\<lparr>my_showCreate := b\<rparr>) = secret_traced log s"
  "secret_traced log (s\<lparr>my_newName := n\<rparr>) = secret_traced log s" "secret_traced log (s\<lparr>my_newType := n\<rparr>) = secret_traced log s"
  "secret_traced log (s\<lparr>my_authOpen := b\<rparr>) = secret_traced log s" "secret_traced log (s\<lparr>my_authApp := v\<rparr>) = secret_traced log s"
  "secret_traced log (s\<lparr>my_authOrgs := v\<rparr>) = secret_traced log s" "secret_traced log (s\<lparr>my_authSlug := n\<rparr>) = secret_traced log s"
  "secret_traced log (s\<lparr>my_authLoading := b\<rparr>) = secret_traced log s" "secret_traced log (s\<lparr>my_authNoOrgs := b\<rparr>) = secret_traced log s"
  "secret_traced log (s\<lparr>my_authSubmitting := b\<rparr>) = secret_traced log s" "secret_traced log (my_input f n s) = secret_traced log s"
  by (simp_all add: secret_traced_def) (cases f; simp)

lemma my_fetchApps_traced: "keeps_from secret_traced seen (my_fetchApps t)"
  by (simp add: my_fetchApps_def Let_def keeps_from_attempt)

lemma created_traced: "(create_call s, Inr data) \<in> set log \<Longrightarrow>
    secret_traced log (x\<lparr>my_oneTimeSecret := or_empty (getprop data ''client_secret''), my_oneTimeSecretFor := or_empty (getprop data ''client_id'')\<rparr>)"
  by (fastforce simp: secret_traced_def secret_source_def create_call_def send_json_def)

lemma rotated_traced: "(rotate_call app, Inr data) \<in> set log \<Longrightarrow>
    secret_traced log (x\<lparr>my_oneTimeSecret := or_empty (getprop data ''client_secret''), my_oneTimeSecretFor := getprop app ''client_id''\<rparr>)"
  by (fastforce simp: secret_traced_def secret_source_def)

lemma my_action_traced: "keeps_from secret_traced [] (my_action_co t cur a)"
  by (cases a) (simp_all add: keeps_from_attempt my_fetchApps_traced rotated_traced)

lemma createApp_traced: "keeps_from secret_traced [] (createApp t cur)"
  by (simp add: createApp_def Let_def keeps_from_attempt created_traced keeps_from_seq my_fetchApps_traced)

lemma my_handlers_traced: "c \<in> set (my_handlers t cur e) \<Longrightarrow> keeps_from secret_traced [] c"
proof (cases e)
  case DismissSecret
  then show "c \<in> set (my_handlers t cur e) \<Longrightarrow> ?thesis" by (auto simp: secret_traced_def)
qed (auto simp: my_fetchApps_traced createApp_traced rotateSecret_def deleteApp_def my_runConfirm_def my_action_traced my_openRequestAuth_def
       my_submitRequestAuth_def keeps_from_attempt Let_def split: if_splits option.splits prod.splits)

interpretation mine: answered_page "my_handlers t cur" secret_traced for t cur
proof
  show "secret_traced log s \<Longrightarrow> set log \<subseteq> set log' \<Longrightarrow> secret_traced log' s" for log log' s
    by (fastforce simp: secret_traced_def secret_source_def)
qed (rule my_handlers_traced)

text \<open>C36. In any interleaving of clicks and replies, a secret on the page was answered to a request for the very client it is
  shown for: to the creation of that client or to the rotation of its secret.\<close>

theorem shown_secret_belongs_to_client:
  assumes "exec (async_step (my_handlers t cur)) es (async_start my_setup) = Some a" and "truthy (my_oneTimeSecret (lv_page a))"
  shows "\<exists>q data. (q, Inr data) \<in> set (answers_of (my_handlers t cur) es (async_start my_setup)) \<and>
     my_oneTimeSecret (lv_page a) = or_empty (getprop data ''client_secret'') \<and>
     ((ac_url q = ''/api/me/applications'' \<and> my_oneTimeSecretFor (lv_page a) = or_empty (getprop data ''client_id'')) \<or>
      (\<exists>app. q = rotate_call app \<and> my_oneTimeSecretFor (lv_page a) = getprop app ''client_id''))"
proof -
  have "secret_traced [] my_setup" by (simp add: secret_traced_def my_setup_def)
  from mine.page_traced [OF this assms(1)] assms(2) show ?thesis by (auto simp: secret_traced_def secret_source_def)
qed

abbreviation demo_app :: "string \<Rightarrow> jsval" where
  "demo_app cid \<equiv> JObj [(''client_id'', JStr cid), (''client_type'', JStr ''CONFIDENTIAL'')]"

abbreviation demo_secret :: "string \<Rightarrow> failure + jsval" where
  "demo_secret v \<equiv> Inr (JObj [(''client_secret'', JStr v)])"

lemmas my_run_simps = async_start_def launch_def attempt_def Let_def my_setup_def rotateSecret_def my_runConfirm_def askConfirm_def
  take_confirm_def or_empty_def js_or_def

theorem shown_secret_belongs_to_client_witness:
  "\<exists>a q data. exec (async_step (my_handlers (\<lambda>k ps. k) ''en'')) [Act (ClickRotate (demo_app ''web'')), Act ConfirmMine, Answer 0 (demo_secret ''s1'')]
       (async_start my_setup) = Some a \<and> my_oneTimeSecret (lv_page a) = JStr ''s1'' \<and>
     (q, Inr data) \<in> set (answers_of (my_handlers (\<lambda>k ps. k) ''en'')
       [Act (ClickRotate (demo_app ''web'')), Act ConfirmMine, Answer 0 (demo_secret ''s1'')] (async_start my_setup))"
proof -
  let ?es = "[Act (ClickRotate (demo_app ''web'')), Act ConfirmMine, Answer 0 (demo_secret ''s1'')]"
  have "\<exists>a. exec (async_step (my_handlers (\<lambda>k ps. k) ''en'')) ?es (async_start my_setup) = Some a \<and> my_oneTimeSecret (lv_page a) = JStr ''s1''"
    by (simp add: my_run_simps my_fetchApps_def)
  then obtain a where a: "exec (async_step (my_handlers (\<lambda>k ps. k) ''en'')) ?es (async_start my_setup) = Some a"
      "my_oneTimeSecret (lv_page a) = JStr ''s1''" by blast
  then have "truthy (my_oneTimeSecret (lv_page a))" by simp
  from shown_secret_belongs_to_client [OF a(1) this] a show ?thesis by blast
qed

text \<open>The page keeps one secret: the reply to a second rotation takes the place of a secret that nobody has dismissed.\<close>

lemma second_rotation_replaces_secret:
  assumes "getprop app ''client_type'' = JStr ''CONFIDENTIAL''" and "getprop app' ''client_type'' = JStr ''CONFIDENTIAL''"
  shows "\<exists>a. exec (async_step (my_handlers t cur))
      [Act (ClickRotate app), Act ConfirmMine, Act (ClickRotate app'), Act ConfirmMine, Answer 0 (demo_secret v), Answer 1 (demo_secret v')]
      (async_start my_setup) = Some a \<and> length (filter (\<lambda>q. ac_method q = ''POST'') (lv_sent a)) = 2 \<and>
      my_oneTimeSecret (lv_page a) = (if v' = [] then JStr [] else JStr v') \<and> my_oneTimeSecretFor (lv_page a) = getprop app' ''client_id''"
  using assms by (simp add: my_run_simps my_fetchApps_def rotate_call_def post_form_def plain_call_def)

subsection \<open>The lists of a new application\<close>

lemma split_seps_append:
  assumes "\<forall>c\<in>set u. \<not> list_sep c" and "g \<noteq> []" and "\<forall>c\<in>set g. list_sep c"
  shows "split_seps (u @ g @ r) = u # split_seps (dropWhile list_sep r)"
proof -
  have "dropWhile (\<lambda>c. \<not> list_sep c) (u @ g @ r) = g @ r" "takeWhile (\<lambda>c. \<not> list_sep c) (u @ g @ r) = u"
    using assms by (cases g; simp add: dropWhile_append2 takeWhile_append2)+
  moreover have "dropWhile list_sep (g @ r) = dropWhile list_sep r" using assms(3) by (simp add: dropWhile_append2)
  ultimately show ?thesis using assms(2) by (subst split_seps.simps) simp
qed

lemma split_seps_word: "\<forall>c\<in>set u. \<not> list_sep c \<Longrightarrow> split_seps u = [u]"
  by (subst split_seps.simps) (simp add: dropWhile_eq_Nil_conv [THEN iffD2])

lemma entered_list_gap: "\<forall>c\<in>set g. list_sep c \<Longrightarrow> entered_list (g @ r) = entered_list r"
proof -
  assume g: "\<forall>c\<in>set g. list_sep c"
  have skip: "entered_list s = entered_list (dropWhile list_sep s)" for s
  proof (cases "takeWhile list_sep s = []")
    case True
    then show ?thesis by (cases s) (auto split: if_splits)
  next
    case False
    then have "split_seps s = [] # split_seps (dropWhile list_sep s)"
      using split_seps_append [of "[]" "takeWhile list_sep s" "dropWhile list_sep s"] by (auto dest: set_takeWhileD)
    then show ?thesis by (simp add: entered_list_def)
  qed
  from skip [of "g @ r"] skip [of r] g show ?thesis by (simp add: dropWhile_append2)
qed

lemma entered_list_words:
  assumes "\<forall>(u, g)\<in>set ps. u \<noteq> [] \<and> (\<forall>c\<in>set u. \<not> list_sep c) \<and> g \<noteq> [] \<and> (\<forall>c\<in>set g. list_sep c)" and "\<forall>c\<in>set final. \<not> list_sep c"
  shows "entered_list (concat (map (\<lambda>(u, g). u @ g) ps) @ final) = map fst ps @ (if final = [] then [] else [final])"
  using assms
proof (induction ps)
  case Nil
  then show ?case by (simp add: entered_list_def split_seps_word)
next
  case (Cons p ps)
  obtain u g where p: "p = (u, g)" by (cases p)
  let ?r = "concat (map (\<lambda>(u, g). u @ g) ps) @ final"
  from Cons.prems p have u: "u \<noteq> []" "\<forall>c\<in>set u. \<not> list_sep c" "g \<noteq> []" "\<forall>c\<in>set g. list_sep c" by auto
  have "entered_list (u @ g @ ?r) = u # entered_list (dropWhile list_sep ?r)"
    using split_seps_append [OF u(2-4)] u(1) by (simp add: entered_list_def)
  also have "entered_list (dropWhile list_sep ?r) = entered_list ?r"
    using entered_list_gap [of "takeWhile list_sep ?r" "dropWhile list_sep ?r"] by (metis set_takeWhileD takeWhile_dropWhile_id)
  finally show ?case using Cons p by simp
qed

text \<open>The creation request carries the redirect URIs that were typed, whatever commas, blanks and line breaks are before,
  between and after them, and no \<open>redirect_uris\<close> when none was typed.\<close>

theorem create_sends_entered_uris:
  assumes "my_newRedirectUris s = pre @ concat (map (\<lambda>(u, g). u @ g) ps) @ final" and "\<forall>c\<in>set pre. list_sep c"
    and "\<forall>(u, g)\<in>set ps. u \<noteq> [] \<and> (\<forall>c\<in>set u. \<not> list_sep c) \<and> g \<noteq> [] \<and> (\<forall>c\<in>set g. list_sep c)" and "\<forall>c\<in>set final. \<not> list_sep c"
  shows "\<exists>text body. ac_body (create_call s) = JsonText text \<and> json_parse text = Some body \<and>
     getprop body ''redirect_uris'' =
       (let us = map fst ps @ (if final = [] then [] else [final]) in if us = [] then JUndef else JArr (map JStr us))"
proof -
  have us: "entered_list (my_newRedirectUris s) = map fst ps @ (if final = [] then [] else [final])"
    using entered_list_words [OF assms(3,4)] entered_list_gap [OF assms(2)] assms(1) by simp
  have "json_ok (JObj (create_body s))" by (simp add: create_body_def Let_def list_all_iff)
  moreover have "ac_body (create_call s) = JsonText (stringify (JObj (create_body s)))" by (simp add: create_call_def send_json_def)
  moreover have "getprop (JObj (create_body s)) ''redirect_uris'' =
      (let us = entered_list (my_newRedirectUris s) in if us = [] then JUndef else JArr (map JStr us))"
    by (simp add: create_body_def Let_def proto_member_def object_prototype_def)
  ultimately show ?thesis using us by (metis json_parse_stringify)
qed

theorem create_sends_entered_uris_witness:
  "\<exists>text body. ac_body (create_call (my_setup\<lparr>my_newRedirectUris := '' https://a, https://b ''\<rparr>)) = JsonText text \<and>
     json_parse text = Some body \<and> getprop body ''redirect_uris'' = JArr [JStr ''https://a'', JStr ''https://b'']"
proof -
  let ?s = "my_setup\<lparr>my_newRedirectUris := '' https://a, https://b ''\<rparr>"
  have "my_newRedirectUris ?s = '' '' @ concat (map (\<lambda>(u, g). u @ g) [(''https://a'', '', ''), (''https://b'', '' '')]) @ []" by simp
  from create_sends_entered_uris [OF this] show ?thesis by (simp add: list_sep_def white_space_def)
qed

end
