(* ===== verification/Dictionary.thy ===== *)
theory Dictionary
  imports Prelude
begin

section \<open>Interface dictionaries\<close>

text \<open>
  The tables behind the translation function of the portals (\<open>i18n/en.ts\<close>, \<open>i18n/zh-CN.ts\<close>) are nested
  objects of texts.  This theory has the shape of such a table, the lookup of a dotted key, the flattening of
  the catalog test (\<open>i18nKeys.test.ts\<close>) and the contract between the tables of two languages: the same keys in
  the same nesting, and the same placeholders in every text.
\<close>

named_theorems dict_pairs

datatype dict = Text string | Sub "(string \<times> dict) list"

text \<open>\<open>flatten\<close> of the catalog test, with the texts.\<close>

fun dict_paths :: "string \<Rightarrow> dict \<Rightarrow> (string \<times> string) list" where
  "dict_paths prefix (Text v) = [(prefix, v)]"
| "dict_paths prefix (Sub ts) = concat (map (\<lambda>(k, t). dict_paths (if prefix = [] then k else prefix @ CHR ''.'' # k) t) ts)"

text \<open>The text of a key: one level of the table per segment.\<close>

fun walk :: "dict \<Rightarrow> string list \<Rightarrow> string option" where
  "walk (Text v) [] = Some v"
| "walk (Sub ts) (k # ks) = (case map_of ts k of Some t \<Rightarrow> walk t ks | None \<Rightarrow> None)"
| "walk _ _ = None"

definition dict_message :: "dict \<Rightarrow> string \<Rightarrow> string option" where
  "dict_message d key = walk d (split_on (CHR ''.'') key)"

text \<open>The names in braces of a text.\<close>

fun placeholders :: "string \<Rightarrow> string list" where
  "placeholders [] = []"
| "placeholders (c # cs) =
     (if c = CHR ''{'' then takeWhile (\<lambda>x. x \<noteq> CHR ''}'') cs # placeholders cs else placeholders cs)"

subsection \<open>Well-formed tables\<close>

fun dict_wf :: "dict \<Rightarrow> bool" where
  "dict_wf (Text v) = True"
| "dict_wf (Sub ts) = (distinct (map fst ts) \<and> list_all (\<lambda>(k, t). k \<noteq> [] \<and> CHR ''.'' \<notin> set k \<and> dict_wf t) ts)"

lemma map_of_wf: "dict_wf (Sub ts) \<Longrightarrow> (map_of ts k = Some t) = ((k, t) \<in> set ts)"
  by (simp add: map_of_eq_Some_iff)

lemma walk_Sub: "dict_wf (Sub ts) \<Longrightarrow> walk (Sub ts) ks = Some v \<longleftrightarrow> (\<exists>k t ks'. ks = k # ks' \<and> (k, t) \<in> set ts \<and> walk t ks' = Some v)"
  by (cases ks) (auto simp: map_of_wf [symmetric] simp del: dict_wf.simps split: option.split)

text \<open>The key of a path below a prefix.\<close>

definition path_key :: "string \<Rightarrow> string list \<Rightarrow> string" where
  "path_key prefix ks = join_with ''.'' (if prefix = [] then ks else prefix # ks)"

lemma path_key_Cons: "k \<noteq> [] \<Longrightarrow> path_key (if p = [] then k else p @ CHR ''.'' # k) ks = path_key p (k # ks)"
  by (cases ks) (auto simp: path_key_def join_with_def)

lemma path_key_Nil [simp]: "path_key p [] = p"
  by (simp add: path_key_def join_with_def)

lemma dict_paths_walk: "dict_wf d \<Longrightarrow> set (dict_paths p d) = {(path_key p ks, v) | ks v. walk d ks = Some v}"
proof (induction d arbitrary: p)
  case (Text v)
  have "walk (Text v) ks = Some w \<longleftrightarrow> ks = [] \<and> w = v" for ks w by (cases ks) auto
  then show ?case by auto
next
  case (Sub ts)
  have IH: "set (dict_paths (if p = [] then k else p @ CHR ''.'' # k) t) = {(path_key p (k # ks), v) | ks v. walk t ks = Some v}"
    if "(k, t) \<in> set ts" for k t
  proof -
    from that Sub.prems have "dict_wf t" "k \<noteq> []" by (auto simp: list_all_iff)
    with Sub.IH [OF that, of t] path_key_Cons [of k p] show ?thesis by auto
  qed
  have "set (dict_paths p (Sub ts)) = (\<Union>(k, t)\<in>set ts. set (dict_paths (if p = [] then k else p @ CHR ''.'' # k) t))"
    by (cases "p = []") force+
  also have "\<dots> = (\<Union>(k, t)\<in>set ts. {(path_key p (k # ks), v) | ks v. walk t ks = Some v})"
    by (rule SUP_cong [OF refl], clarify) (rule IH)
  also have "\<dots> = {(path_key p ks, v) | ks v. walk (Sub ts) ks = Some v}"
    unfolding walk_Sub [OF Sub.prems] by (intro set_eqI iffI; clarsimp; blast)
  finally show ?case .
qed

lemma walk_segments: "dict_wf d \<Longrightarrow> walk d ks = Some v \<Longrightarrow> list_all (\<lambda>k. CHR ''.'' \<notin> set k) ks"
proof (induction d ks rule: walk.induct)
  case (2 ts k ks)
  from 2(3) obtain t where t: "map_of ts k = Some t" "walk t ks = Some v" by (auto split: option.splits)
  then have "(k, t) \<in> set ts" by (auto dest: map_of_SomeD)
  with 2(2) have "dict_wf t" "CHR ''.'' \<notin> set k" by (auto simp: list_all_iff)
  with 2(1) [OF t(1)] t(2) show ?case by simp
qed auto

text \<open>The flattened table and the lookup have the same keys and texts.\<close>

lemma dict_paths_message:
  assumes "dict_wf (Sub ts)"
  shows "(key, v) \<in> set (dict_paths [] (Sub ts)) \<longleftrightarrow> dict_message (Sub ts) key = Some v"
proof -
  have "split_on (CHR ''.'') (join_with ''.'' ks) = ks" if "walk (Sub ts) ks = Some v" for ks
    using walk_segments [OF assms that] that split_on_join [of ks "CHR ''.''"] by (cases ks) (auto simp: list_all_iff)
  moreover have "(key, v) \<in> set (dict_paths [] (Sub ts)) \<longleftrightarrow> (\<exists>ks. key = join_with ''.'' ks \<and> walk (Sub ts) ks = Some v)"
    using dict_paths_walk [OF assms, of "[]"] by (auto simp: path_key_def simp del: dict_paths.simps)
  ultimately show ?thesis using join_split [of "CHR ''.''" key] by (metis dict_message_def)
qed

subsection \<open>Two languages\<close>

text \<open>The tables agree in nesting and keys, and each pair of texts in its placeholders; no text is empty.\<close>

definition same_placeholders :: "string \<Rightarrow> string \<Rightarrow> bool" where
  "same_placeholders v w \<longleftrightarrow> (let ps = placeholders v; qs = placeholders w in
     v \<noteq> [] \<and> w \<noteq> [] \<and> list_all (\<lambda>x. List.member qs x) ps \<and> list_all (\<lambda>x. List.member ps x) qs)"

fun lockstep :: "dict \<Rightarrow> dict \<Rightarrow> bool" where
  "lockstep (Text v) (Text w) = same_placeholders v w"
| "lockstep (Sub ts) (Sub us) = list_all2 (\<lambda>(k, t) (l, u). k = l \<and> lockstep t u) ts us"
| "lockstep _ _ = False"

lemma lockstep_map_of:
  "list_all2 (\<lambda>(k, t) (l, u). k = l \<and> P t u) ts us \<Longrightarrow> rel_option P (map_of ts key) (map_of us key)"
  by (induction rule: list_all2_induct) auto

lemma lockstep_walk: "lockstep d e \<Longrightarrow> rel_option same_placeholders (walk d ks) (walk e ks)"
proof (induction d e arbitrary: ks rule: lockstep.induct)
  case (1 v w)
  then show ?case by (cases ks) simp_all
next
  case (2 ts us)
  show ?case
  proof (cases ks)
    case (Cons k ks')
    have "list_all2 (\<lambda>(k, t) (l, u). k = l \<and> (\<forall>ks. rel_option same_placeholders (walk t ks) (walk u ks))) ts us"
      by (rule list.rel_mono_strong [OF 2(2) [unfolded lockstep.simps]]) (use 2(1) in force)
    from lockstep_map_of [OF this, of k] show ?thesis using Cons by (cases "map_of ts k"; cases "map_of us k") simp_all
  qed simp
qed auto

text \<open>The contract of a pair of dictionaries, and what a page may rely on.\<close>

locale dictionaries =
  fixes en :: dict
    and zh :: dict
  assumes in_lockstep: "lockstep en zh"
begin

lemma both_languages: "dict_message en key = None \<longleftrightarrow> dict_message zh key = None"
  using lockstep_walk [OF in_lockstep, of "split_on (CHR ''.'') key"] by (auto simp: dict_message_def rel_option_iff split: option.splits)

lemma texts_agree:
  "dict_message en key = Some v \<Longrightarrow> dict_message zh key = Some w \<Longrightarrow> v \<noteq> [] \<and> w \<noteq> [] \<and> set (placeholders v) = set (placeholders w)"
  using lockstep_walk [OF in_lockstep, of "split_on (CHR ''.'') key"]
  by (auto simp: dict_message_def same_placeholders_def Let_def list_all_iff)

end

end
