(* ===== verification/UserDict.thy ===== *)
theory UserDict
  imports Dictionary
begin

section \<open>The dictionaries of the user portal\<close>

text \<open>
  The tables \<open>user/src/i18n/en.ts\<close> and \<open>user/src/i18n/zh-CN.ts\<close> with all their entries, one definition per
  namespace.  A code unit above 127 is written \<open>%uXXXX\<close>.
\<close>

subsection \<open>English\<close>

definition portal_en_ui :: dict where
  "portal_en_ui = Sub
    [(''locale'', Sub
      [(''label'', Text ''Language''),
       (''en'', Text ''English''),
       (''zhCN'', Text ''%u7B80%u4F53%u4E2D%u6587'')]),
     (''alert'', Sub
      [(''dismiss'', Text ''Dismiss'')]),
     (''modal'', Sub
      [(''close'', Text ''Close dialog'')]),
     (''confirm'', Sub
      [(''title'', Text ''Confirm action''),
       (''confirm'', Text ''Confirm''),
       (''cancel'', Text ''Cancel'')]),
     (''table'', Sub
      [(''empty'', Text ''No data found'')])]"

definition portal_en_common :: dict where
  "portal_en_common = Sub
    [(''loading'', Text ''Loading...''),
     (''dismiss'', Text ''Dismiss''),
     (''cancel'', Text ''Cancel''),
     (''backToLogin'', Text ''Back to Login''),
     (''goToLogin'', Text ''Go to Login''),
     (''redirectingToLogin'', Text ''Redirecting to login...''),
     (''user'', Text ''User''),
     (''username'', Text ''Username''),
     (''email'', Text ''Email''),
     (''roles'', Text ''Roles''),
     (''password'', Text ''Password''),
     (''newPassword'', Text ''New Password''),
     (''confirmPassword'', Text ''Confirm Password''),
     (''confirmNewPassword'', Text ''Confirm New Password''),
     (''passwordsDoNotMatch'', Text ''Passwords do not match''),
     (''passwordMinLength'', Text ''Password must be at least 8 characters'')]"

definition portal_en_nav :: dict where
  "portal_en_nav = Sub
    [(''overview'', Text ''Overview''),
     (''profile'', Text ''Profile''),
     (''security'', Text ''Security''),
     (''authorizedApps'', Text ''Authorized Apps''),
     (''applications'', Text ''My Applications''),
     (''organizations'', Text ''My Organizations''),
     (''signOut'', Text ''Sign out'')]"

definition portal_en_appLayout :: dict where
  "portal_en_appLayout = Sub
    [(''switchToLightTheme'', Text ''Switch to light theme''),
     (''switchToDarkTheme'', Text ''Switch to dark theme''),
     (''lightTheme'', Text ''Light theme''),
     (''darkTheme'', Text ''Dark theme''),
     (''footer'', Text ''Fulla Identity Platform'')]"

definition portal_en_authLayout :: dict where
  "portal_en_authLayout = Sub
    [(''tagline'', Text ''Fulla Identity Platform %u00B7 MFA protected %u00B7 OIDC conformant'')]"

definition portal_en_auth :: dict where
  "portal_en_auth = Sub
    [(''login'', Sub
      [(''title'', Text ''Sign in to your account''),
       (''or'', Text ''Or''),
       (''createAccountLink'', Text ''create a new account''),
       (''continueTo'', Text ''Continue to {app}''),
       (''emailOrUsername'', Text ''Email or Username''),
       (''passwordPlaceholder'', Text ''Enter your password''),
       (''forgotPassword'', Text ''Forgot password?''),
       (''submit'', Text ''Sign In''),
       (''orContinueWith'', Text ''or continue with''),
       (''signInWithGitHub'', Text ''Sign in with GitHub''),
       (''signInWithGoogle'', Text ''Sign in with Google''),
       (''wechatNote'', Text ''WeChat sign-in uses the mobile app scan flow %u2014 scan the QR code shown by your provider on a WeChat-enabled device.''),
       (''mfa'', Sub
        [(''title'', Text ''Two-Factor Authentication''),
         (''subtitle'', Text ''Enter the 6-digit code from your authenticator app''),
         (''verify'', Text ''Verify Code''),
         (''back'', Text ''Back to sign in''),
         (''codeLabel'', Text ''Verification code'')]),
       (''passwordChangedNotice'', Text ''Password changed. Sign in again with your new password.''),
       (''passwordChange'', Sub
        [(''title'', Text ''Change Your Password''),
         (''subtitle'', Text ''Your account requires a password change before you can sign in.''),
         (''done'', Text ''Password changed successfully. Sign in with your new password.''),
         (''oldLabel'', Text ''Current Password''),
         (''oldPlaceholder'', Text ''Enter your current password''),
         (''newLabel'', Text ''New Password''),
         (''newPlaceholder'', Text ''Enter your new password''),
         (''confirmLabel'', Text ''Confirm New Password''),
         (''confirmPlaceholder'', Text ''Re-enter your new password''),
         (''submit'', Text ''Change Password''),
         (''mismatch'', Text ''New passwords do not match''),
         (''failed'', Text ''Password change failed'')])]),
     (''register'', Sub
      [(''title'', Text ''Create Account''),
       (''subtitle'', Text ''Join us today''),
       (''success'', Text ''Account created successfully!''),
       (''verifyEmailNotice'', Text ''A verification email has been sent to {email}. Please verify your address before signing in.''),
       (''usernameHint'', Text ''Optional %u2014 generated for you when left blank''),
       (''passwordHint'', Text ''Minimum 8 characters. A longer passphrase of 3%u20134 random words works well.''),
       (''submit'', Text ''Create Account''),
       (''creating'', Text ''Creating...''),
       (''haveAccount'', Text ''Already have an account?''),
       (''signIn'', Text ''Sign in'')]),
     (''forgot'', Sub
      [(''title'', Text ''Reset Password''),
       (''subtitle'', Text ''Enter your email to receive a reset link''),
       (''sent'', Text ''If an account with that email exists, we've sent a password reset link.''),
       (''sentHint'', Text ''Check your inbox and spam folder.''),
       (''emailAddress'', Text ''Email Address''),
       (''sending'', Text ''Sending...''),
       (''submit'', Text ''Send Reset Link'')]),
     (''reset'', Sub
      [(''title'', Text ''Set New Password''),
       (''invalidToken'', Text ''Invalid or missing reset token.''),
       (''requestNewLink'', Text ''Request a new link''),
       (''success'', Text ''Password reset successfully!''),
       (''resetting'', Text ''Resetting...''),
       (''submit'', Text ''Reset Password'')]),
     (''verify'', Sub
      [(''verifying'', Text ''Verifying your email...''),
       (''successTitle'', Text ''Email Verified!''),
       (''successDefault'', Text ''Email verified successfully!''),
       (''errorTitle'', Text ''Verification Failed''),
       (''missingToken'', Text ''Missing verification token'')])]"

definition portal_en_oauth :: dict where
  "portal_en_oauth = Sub
    [(''consent'', Sub
      [(''title'', Text ''Authorize Access''),
       (''subtitle'', Text ''This application is asking to access your account.''),
       (''unknownClient'', Text ''Unknown client''),
       (''providedBy'', Text ''Offered by {owner}''),
       (''orgBanner'', Text ''You are authorizing as a member of {org}''),
       (''permissionsHeading'', Text ''It will be able to''),
       (''missingUser'', Text ''Your session could not be identified. Please sign in again.''),
       (''deny'', Text ''Deny''),
       (''authorize'', Text ''Authorize''),
       (''authorizing'', Text ''Authorizing...''),
       (''signedInAs'', Text ''signed in as {name}'')]),
     (''scopes'', Sub
      [(''openid'', Text ''Verify your identity''),
       (''profile'', Text ''Access your basic profile (username)''),
       (''email'', Text ''Access your email address''),
       (''admin'', Text ''Administrative access''),
       (''users:read'', Text ''Read user accounts''),
       (''users:write'', Text ''Manage user accounts''),
       (''clients:read'', Text ''View registered applications''),
       (''clients:write'', Text ''Manage registered applications''),
       (''tokens:read'', Text ''View active tokens''),
       (''tokens:write'', Text ''Revoke tokens''),
       (''roles:read'', Text ''View roles and scopes''),
       (''roles:write'', Text ''Manage roles and scopes''),
       (''audit:read'', Text ''View audit logs and statistics'')]),
     (''callback'', Sub
      [(''errorTitle'', Text ''Authentication Error''),
       (''noCode'', Text ''No authorization code received''),
       (''completing'', Text ''Completing sign in...''),
       (''externalFlow'', Text ''Authorization complete''),
       (''externalFlowHint'', Text ''You can close this page and return to the application that sent you here.'')]),
     (''github'', Sub
      [(''errorTitle'', Text ''GitHub Login Failed''),
       (''completing'', Text ''Signing in with GitHub...'')]),
     (''social'', Sub
      [(''completing'', Text ''Completing {provider} sign-in%u2026'')]),
     (''noCodeFromProvider'', Text ''No authorization code from {provider}''),
     (''linkMissingState'', Text ''Missing link state; restart the link flow from the security page.''),
     (''linkSignInFirst'', Text ''Please sign in first, then retry linking your {provider} account.''),
     (''noAccessToken'', Text ''{provider} login did not return an access token'')]"

definition portal_en_account_dashboard :: dict where
  "portal_en_account_dashboard = Sub
    [(''title'', Text ''Dashboard''),
     (''welcomeBack'', Text ''Welcome back''),
     (''welcomeBackName'', Text ''Welcome back, {name}''),
     (''noEmail'', Text ''No email''),
     (''accountId'', Text ''Account ID''),
     (''noRoles'', Text ''None''),
     (''editProfile'', Text ''Edit Profile''),
     (''editProfileDesc'', Text ''Update your personal information''),
     (''securityTitle'', Text ''Security Settings''),
     (''securityDesc'', Text ''Manage MFA, password, and passkeys''),
     (''authorizedAppsDesc'', Text ''Review connected applications'')]"

definition portal_en_account_profile :: dict where
  "portal_en_account_profile = Sub
    [(''loadFailed'', Text ''Failed to load profile''),
     (''verificationSent'', Text ''Verification email sent!''),
     (''accountIdSub'', Text ''Account ID (sub)''),
     (''verified'', Text ''Verified''),
     (''unverified'', Text ''Unverified''),
     (''resendVerification'', Text ''Resend verification email''),
     (''editTitle'', Text ''Editable profile''),
     (''displayName'', Text ''Display name''),
     (''avatarUrl'', Text ''Avatar URL (https)''),
     (''save'', Text ''Save profile''),
     (''saved'', Text ''Profile saved'')]"

definition portal_en_account_security :: dict where
  "portal_en_account_security = Sub
    [(''title'', Text ''Security Settings''),
     (''backupCodesExhausted'', Text ''All backup codes have been used. Re-bind your authenticator (disable and re-enable MFA) %u2014 without a working second factor you can be locked out.''),
     (''changePassword'', Text ''Change Password''),
     (''currentPassword'', Text ''Current Password''),
     (''changing'', Text ''Changing...''),
     (''passwordChanged'', Text ''Password changed successfully''),
     (''mfa'', Sub
      [(''title'', Text ''Two-Factor Authentication (MFA)''),
       (''enabled'', Text ''Enabled''),
       (''protected'', Text ''Your account is protected with TOTP-based MFA.''),
       (''disablePrompt'', Text ''Enter your password to disable MFA:''),
       (''disablePlaceholder'', Text ''Your password''),
       (''disabling'', Text ''Disabling...''),
       (''disable'', Text ''Disable MFA''),
       (''passwordRequired'', Text ''Password required to disable MFA''),
       (''scanQr'', Text ''Scan this QR code with your authenticator app (Google Authenticator, Authy, etc.):''),
       (''manualKey'', Text ''Manual entry key:''),
       (''verificationCode'', Text ''Verification Code''),
       (''verifyEnable'', Text ''Verify & Enable''),
       (''totpIntro'', Text ''Add an extra layer of security to your account with time-based one-time passwords (TOTP).''),
       (''settingUp'', Text ''Setting up...''),
       (''enable'', Text ''Enable MFA''),
       (''enabledSuccess'', Text ''MFA enabled successfully!''),
       (''disabled'', Text ''MFA disabled'')]),
     (''passkeys'', Sub
      [(''title'', Text ''Passkeys (WebAuthn)''),
       (''intro'', Text ''Register a fingerprint, face, or security key to this account now %u2014 passkey sign-in becomes available once server-side assertion verification ships.''),
       (''fallbackName'', Text ''Passkey''),
       (''defaultName'', Text ''Passkey {date}''),
       (''signCounter'', Text ''Sign counter: {count}''),
       (''active'', Text ''Active''),
       (''empty'', Text ''No passkeys registered yet.''),
       (''namePlaceholder'', Text ''Passkey name (optional)''),
       (''registering'', Text ''Registering...''),
       (''add'', Text ''+ Add Passkey''),
       (''cancelled'', Text ''Passkey registration cancelled''),
       (''timedOut'', Text ''Passkey registration was cancelled or timed out''),
       (''alreadyRegistered'', Text ''This browser already has a passkey registered for your account.''),
       (''registrationFailed'', Text ''Passkey registration failed. Please try again.''),
       (''success'', Text ''Passkey registered successfully!'')]),
     (''social'', Sub
      [(''title'', Text ''Connected Accounts''),
       (''intro'', Text ''Link social identities to sign in with them. Unlinking removes the association but does not revoke active sessions.''),
       (''linkedOn'', Text ''Linked {date}''),
       (''unlinking'', Text ''Unlinking...''),
       (''unlink'', Text ''Unlink''),
       (''empty'', Text ''No social accounts linked.''),
       (''redirecting'', Text ''Redirecting...''),
       (''linkGithub'', Text ''Link GitHub Account''),
       (''linkGoogle'', Text ''Link Google Account''),
       (''unlinkConfirm'', Text ''Unlink your {provider} account? You will not be able to sign in with {provider} until it is linked to an account again.''),
       (''unlinked'', Text ''{provider} account unlinked'')]),
     (''danger'', Sub
      [(''title'', Text ''Danger Zone''),
       (''intro'', Text ''Permanently delete your account and all associated data. This action cannot be undone.''),
       (''typePrefix'', Text ''Type''),
       (''typeSuffix'', Text ''to confirm''),
       (''deleting'', Text ''Deleting...''),
       (''delete'', Text ''Delete My Account''),
       (''usernameMismatch'', Text ''Username does not match. Please type your username to confirm.'')]),
     (''backup'', Sub
      [(''ariaLabel'', Text ''Save your MFA backup codes''),
       (''title'', Text ''Save your backup codes''),
       (''warning'', Text ''These 10 one-time codes are the only way to sign in if you lose your authenticator. They cannot be shown again.''),
       (''copyAll'', Text ''Copy all''),
       (''download'', Text ''Download .txt''),
       (''saved'', Text ''I have safely saved my codes'')])]"

definition portal_en_account_authorizedApps :: dict where
  "portal_en_account_authorizedApps = Sub
    [(''title'', Text ''Authorized Applications''),
     (''intro'', Text ''These applications have been granted access to your account.''),
     (''loadFailed'', Text ''Failed to load authorized apps''),
     (''emptyTitle'', Text ''No authorized applications''),
     (''emptyDesc'', Text ''When you authorize third-party apps, they'll appear here.''),
     (''clientId'', Text ''Client ID:''),
     (''scopes'', Text ''Scopes:''),
     (''revoke'', Text ''Revoke''),
     (''revokeConfirm'', Text (''Revoke access for '' @ [CHR 0x22] @ ''{app}'' @ [CHR 0x22] @ ''? This app will no longer be able to access your data.'')),
     (''revoked'', Text (''Access revoked for '' @ [CHR 0x22] @ ''{app}'' @ [CHR 0x22])),
     (''requestOrgAuth'', Text ''Request organization authorization''),
     (''requestOrgAuthTitle'', Text ''Request organization authorization''),
     (''requestOrgAuthPick'', Text ''Choose organization''),
     (''requestOrgAuthSubmit'', Text ''Send request''),
     (''requestOrgAuthNoOrgs'', Text ''Join an organization before requesting organization authorization for this app.''),
     (''requestOrgAuthSuccess'', Text ''Request submitted %u2014 awaiting a manager decision'')]"

definition portal_en_account_applications :: dict where
  "portal_en_account_applications = Sub
    [(''title'', Text ''My Applications''),
     (''intro'', Text ''Applications you registered for OIDC sign-in or API automation.''),
     (''loadFailed'', Text ''Failed to load applications''),
     (''emptyTitle'', Text ''No applications yet''),
     (''emptyDesc'', Text ''Register an application to let your software sign in with Fulla.''),
     (''create'', Text ''Register application''),
     (''name'', Text ''Application name''),
     (''clientType'', Text ''Client type''),
     (''redirectUris'', Text ''Redirect URIs (https, comma- or space-separated)''),
     (''redirectUrisPlaceholder'', Text ''https://my-app.example/callback''),
     (''scopes'', Text ''Scopes (space-separated, from the self-service allowlist)''),
     (''logoUri'', Text ''Logo URI (optional, https)''),
     (''logoUriPlaceholder'', Text ''https://cdn.example.com/logo.svg''),
     (''submit'', Text ''Register''),
     (''clientId'', Text ''Client ID:''),
     (''rotate'', Text ''Rotate secret''),
     (''delete'', Text ''Delete''),
     (''created'', Text ''Application registered''),
     (''rotated'', Text (''Secret rotated for '' @ [CHR 0x22] @ ''{app}'' @ [CHR 0x22])),
     (''deleted'', Text (''Application '' @ [CHR 0x22] @ ''{app}'' @ [CHR 0x22] @ '' deleted'')),
     (''rotateConfirm'', Text (''Rotate the secret for '' @ [CHR 0x22] @ ''{app}'' @ [CHR 0x22] @ ''? The previous secret stops working immediately.'')),
     (''deleteConfirm'', Text (''Delete '' @ [CHR 0x22] @ ''{app}'' @ [CHR 0x22] @ ''? Existing user consents and issued tokens stop working.'')),
     (''secretTitle'', Text ''Secret for {id}''),
     (''secretOnce'', Text ''Copy it now %u2014 it will not be shown again.''),
     (''requestOrgAuth'', Text ''Request organization authorization''),
     (''requestOrgAuthTitle'', Text ''Request organization authorization''),
     (''requestOrgAuthPick'', Text ''Choose organization''),
     (''requestOrgAuthSubmit'', Text ''Send request''),
     (''requestOrgAuthNoOrgs'', Text ''Join an organization before requesting organization authorization for this app.''),
     (''requestOrgAuthSuccess'', Text ''Request submitted %u2014 awaiting a manager decision'')]"

definition portal_en_account_organizations :: dict where
  "portal_en_account_organizations = Sub
    [(''title'', Text ''My Organizations''),
     (''intro'', Text ''Organizations you own or belong to; invite people and manage membership.''),
     (''loadFailed'', Text ''Failed to load organizations''),
     (''emptyTitle'', Text ''No organizations''),
     (''emptyDesc'', Text ''Create an organization to manage applications together with your team.''),
     (''create'', Text ''Create organization''),
     (''slug'', Text ''Slug (lowercase letters, digits, hyphens)''),
     (''name'', Text ''Organization name''),
     (''submit'', Text ''Create''),
     (''members'', Text ''Members''),
     (''remove'', Text ''Remove''),
     (''removeConfirm'', Text ''Remove this member from the organization?''),
     (''inviteEmail'', Text ''Email to invite''),
     (''invite'', Text ''Invite''),
     (''inviteToken'', Text ''Invitation token (share with the invitee)''),
     (''invited'', Text ''Invitation created''),
     (''acceptTitle'', Text ''Accept an invitation''),
     (''acceptPlaceholder'', Text ''Invitation token''),
     (''accept'', Text ''Accept''),
     (''accepted'', Text ''Invitation accepted %u2014 welcome aboard!''),
     (''created'', Text ''Organization created''),
     (''consents'', Text ''Org authorizations''),
     (''consentsEmpty'', Text ''No organization authorizations yet''),
     (''consentsGrantedBy'', Text ''granted by user {id}''),
     (''consentsRevoke'', Text ''Revoke''),
     (''consentsRevokeConfirm'', Text ''Revoke this organization's authorization? Members will be asked for consent again on their next authorization. Already issued tokens are not affected.''),
     (''consentsRevoked'', Text ''Organization authorization revoked''),
     (''consentsStart'', Text ''Grant authorization''),
     (''consentsClientId'', Text ''Client ID of an org application''),
     (''consentsRedirectUri'', Text ''Registered redirect URI''),
     (''consentsLinkTitle'', Text ''Authorization link (open while signed in as an org owner/admin)''),
     (''consentsGenerate'', Text ''Generate link''),
     (''successionBannerTitle'', Text ''Ownership succession''),
     (''successionBannerDesc'', Text (''You have been nominated as the successor owner of '' @ [CHR 0x22] @ ''{name}'' @ [CHR 0x22] @ ''.'')),
     (''successionAccept'', Text ''Accept ownership''),
     (''successionNominate'', Text ''Nominate successor (user ID)''),
     (''successionNominateAction'', Text ''Nominate''),
     (''successionPending'', Text ''Pending successor nomination: user {id}''),
     (''successionInvalidId'', Text ''Enter a numeric user ID to nominate a successor''),
     (''successionWithdraw'', Text ''Withdraw nomination''),
     (''successionAccepted'', Text ''You are now the owner''),
     (''pendingRequests'', Text ''Pending approval requests''),
     (''approve'', Text ''Approve''),
     (''reject'', Text ''Reject''),
     (''approved'', Text ''Request approved %u2014 the application now has the organization's authorization''),
     (''rejected'', Text ''Request rejected''),
     (''pendingApproveConfirm'', Text (''Approve '' @ [CHR 0x22] @ ''{requester}'' @ [CHR 0x22] @ '''s authorization request for '' @ [CHR 0x22] @ ''{client}'' @ [CHR 0x22] @ ''? The application will be granted the organization's consent.'')),
     (''pendingRejectConfirm'', Text (''Reject '' @ [CHR 0x22] @ ''{requester}'' @ [CHR 0x22] @ '''s authorization request for '' @ [CHR 0x22] @ ''{client}'' @ [CHR 0x22] @ ''? The requester will stay authorized to file a new one.''))]"

definition portal_en_account :: dict where
  "portal_en_account = Sub
    [(''dashboard'', portal_en_account_dashboard),
     (''profile'', portal_en_account_profile),
     (''security'', portal_en_account_security),
     (''authorizedApps'', portal_en_account_authorizedApps),
     (''applications'', portal_en_account_applications),
     (''organizations'', portal_en_account_organizations)]"

definition portal_en :: dict where
  "portal_en = Sub
    [(''ui'', portal_en_ui), (''common'', portal_en_common), (''nav'', portal_en_nav), (''appLayout'', portal_en_appLayout), (''authLayout'', portal_en_authLayout), (''auth'', portal_en_auth), (''oauth'', portal_en_oauth), (''account'', portal_en_account)]"

subsection \<open>Chinese\<close>

definition portal_zh_ui :: dict where
  "portal_zh_ui = Sub
    [(''locale'', Sub
      [(''label'', Text ''%u8BED%u8A00''),
       (''en'', Text ''English''),
       (''zhCN'', Text ''%u7B80%u4F53%u4E2D%u6587'')]),
     (''alert'', Sub
      [(''dismiss'', Text ''%u5173%u95ED'')]),
     (''modal'', Sub
      [(''close'', Text ''%u5173%u95ED%u5BF9%u8BDD%u6846'')]),
     (''confirm'', Sub
      [(''title'', Text ''%u786E%u8BA4%u64CD%u4F5C''),
       (''confirm'', Text ''%u786E%u8BA4''),
       (''cancel'', Text ''%u53D6%u6D88'')]),
     (''table'', Sub
      [(''empty'', Text ''%u6682%u65E0%u6570%u636E'')])]"

definition portal_zh_common :: dict where
  "portal_zh_common = Sub
    [(''loading'', Text ''%u52A0%u8F7D%u4E2D%u2026''),
     (''dismiss'', Text ''%u5173%u95ED''),
     (''cancel'', Text ''%u53D6%u6D88''),
     (''backToLogin'', Text ''%u8FD4%u56DE%u767B%u5F55''),
     (''goToLogin'', Text ''%u524D%u5F80%u767B%u5F55''),
     (''redirectingToLogin'', Text ''%u6B63%u5728%u8DF3%u8F6C%u5230%u767B%u5F55%u9875%u2026''),
     (''user'', Text ''%u7528%u6237''),
     (''username'', Text ''%u7528%u6237%u540D''),
     (''email'', Text ''%u90AE%u7BB1''),
     (''roles'', Text ''%u89D2%u8272''),
     (''password'', Text ''%u5BC6%u7801''),
     (''newPassword'', Text ''%u65B0%u5BC6%u7801''),
     (''confirmPassword'', Text ''%u786E%u8BA4%u5BC6%u7801''),
     (''confirmNewPassword'', Text ''%u786E%u8BA4%u65B0%u5BC6%u7801''),
     (''passwordsDoNotMatch'', Text ''%u4E24%u6B21%u8F93%u5165%u7684%u5BC6%u7801%u4E0D%u4E00%u81F4''),
     (''passwordMinLength'', Text ''%u5BC6%u7801%u957F%u5EA6%u81F3%u5C11%u4E3A 8 %u4E2A%u5B57%u7B26'')]"

definition portal_zh_nav :: dict where
  "portal_zh_nav = Sub
    [(''overview'', Text ''%u603B%u89C8''),
     (''profile'', Text ''%u4E2A%u4EBA%u8D44%u6599''),
     (''security'', Text ''%u5B89%u5168%u8BBE%u7F6E''),
     (''authorizedApps'', Text ''%u5DF2%u6388%u6743%u5E94%u7528''),
     (''applications'', Text ''%u6211%u7684%u5E94%u7528''),
     (''organizations'', Text ''%u6211%u7684%u7EC4%u7EC7''),
     (''signOut'', Text ''%u9000%u51FA%u767B%u5F55'')]"

definition portal_zh_appLayout :: dict where
  "portal_zh_appLayout = Sub
    [(''switchToLightTheme'', Text ''%u5207%u6362%u5230%u6D45%u8272%u4E3B%u9898''),
     (''switchToDarkTheme'', Text ''%u5207%u6362%u5230%u6DF1%u8272%u4E3B%u9898''),
     (''lightTheme'', Text ''%u6D45%u8272%u4E3B%u9898''),
     (''darkTheme'', Text ''%u6DF1%u8272%u4E3B%u9898''),
     (''footer'', Text ''Fulla %u8EAB%u4EFD%u5E73%u53F0'')]"

definition portal_zh_authLayout :: dict where
  "portal_zh_authLayout = Sub
    [(''tagline'', Text ''Fulla %u8EAB%u4EFD%u5E73%u53F0 %u00B7 %u53CC%u91CD%u9A8C%u8BC1%u9632%u62A4 %u00B7 %u7B26%u5408 OIDC %u89C4%u8303'')]"

definition portal_zh_auth :: dict where
  "portal_zh_auth = Sub
    [(''login'', Sub
      [(''title'', Text ''%u767B%u5F55%u60A8%u7684%u8D26%u6237''),
       (''or'', Text ''%u6216''),
       (''createAccountLink'', Text ''%u521B%u5EFA%u65B0%u8D26%u6237''),
       (''continueTo'', Text ''%u7EE7%u7EED%u524D%u5F80 {app}''),
       (''emailOrUsername'', Text ''%u90AE%u7BB1%u6216%u7528%u6237%u540D''),
       (''passwordPlaceholder'', Text ''%u8BF7%u8F93%u5165%u5BC6%u7801''),
       (''forgotPassword'', Text ''%u5FD8%u8BB0%u5BC6%u7801%uFF1F''),
       (''submit'', Text ''%u767B%u5F55''),
       (''orContinueWith'', Text ''%u6216%u4F7F%u7528%u4EE5%u4E0B%u65B9%u5F0F%u7EE7%u7EED''),
       (''signInWithGitHub'', Text ''%u4F7F%u7528 GitHub %u767B%u5F55''),
       (''signInWithGoogle'', Text ''%u4F7F%u7528 Google %u767B%u5F55''),
       (''wechatNote'', Text ''%u5FAE%u4FE1%u767B%u5F55%u4F7F%u7528%u79FB%u52A8%u7AEF%u626B%u7801%u6D41%u7A0B %u2014%u2014 %u8BF7%u5728%u652F%u6301%u5FAE%u4FE1%u7684%u8BBE%u5907%u4E0A%u626B%u63CF%u63D0%u4F9B%u65B9%u5C55%u793A%u7684%u4E8C%u7EF4%u7801%u3002''),
       (''mfa'', Sub
        [(''title'', Text ''%u53CC%u91CD%u9A8C%u8BC1''),
         (''subtitle'', Text ''%u8BF7%u8F93%u5165%u9A8C%u8BC1%u5668%u5E94%u7528%u4E2D%u7684 6 %u4F4D%u9A8C%u8BC1%u7801''),
         (''verify'', Text ''%u9A8C%u8BC1''),
         (''back'', Text ''%u8FD4%u56DE%u767B%u5F55''),
         (''codeLabel'', Text ''%u9A8C%u8BC1%u7801'')]),
       (''passwordChangedNotice'', Text ''%u5BC6%u7801%u5DF2%u4FEE%u6539%uFF0C%u8BF7%u4F7F%u7528%u65B0%u5BC6%u7801%u91CD%u65B0%u767B%u5F55%u3002''),
       (''passwordChange'', Sub
        [(''title'', Text ''%u4FEE%u6539%u5BC6%u7801''),
         (''subtitle'', Text ''%u8BE5%u8D26%u53F7%u8981%u6C42%u5728%u767B%u5F55%u524D%u4FEE%u6539%u5BC6%u7801%u3002''),
         (''done'', Text ''%u5BC6%u7801%u4FEE%u6539%u6210%u529F%u3002%u8BF7%u4F7F%u7528%u65B0%u5BC6%u7801%u91CD%u65B0%u767B%u5F55%u3002''),
         (''oldLabel'', Text ''%u5F53%u524D%u5BC6%u7801''),
         (''oldPlaceholder'', Text ''%u8F93%u5165%u5F53%u524D%u5BC6%u7801''),
         (''newLabel'', Text ''%u65B0%u5BC6%u7801''),
         (''newPlaceholder'', Text ''%u8F93%u5165%u65B0%u5BC6%u7801''),
         (''confirmLabel'', Text ''%u786E%u8BA4%u65B0%u5BC6%u7801''),
         (''confirmPlaceholder'', Text ''%u518D%u6B21%u8F93%u5165%u65B0%u5BC6%u7801''),
         (''submit'', Text ''%u4FEE%u6539%u5BC6%u7801''),
         (''mismatch'', Text ''%u4E24%u6B21%u8F93%u5165%u7684%u65B0%u5BC6%u7801%u4E0D%u4E00%u81F4''),
         (''failed'', Text ''%u5BC6%u7801%u4FEE%u6539%u5931%u8D25'')])]),
     (''register'', Sub
      [(''title'', Text ''%u521B%u5EFA%u8D26%u6237''),
       (''subtitle'', Text ''%u7ACB%u5373%u52A0%u5165''),
       (''success'', Text ''%u8D26%u6237%u521B%u5EFA%u6210%u529F''),
       (''verifyEmailNotice'', Text ''%u9A8C%u8BC1%u90AE%u4EF6%u5DF2%u53D1%u9001%u81F3 {email}%uFF0C%u8BF7%u5148%u5B8C%u6210%u90AE%u7BB1%u9A8C%u8BC1%u518D%u767B%u5F55''),
       (''usernameHint'', Text ''%u53EF%u9009 %u2014%u2014 %u7559%u7A7A%u65F6%u5C06%u4E3A%u60A8%u81EA%u52A8%u751F%u6210''),
       (''passwordHint'', Text ''%u81F3%u5C11 8 %u4E2A%u5B57%u7B26%u3002%u4F7F%u7528 3%u20134 %u4E2A%u968F%u673A%u5355%u8BCD%u7EC4%u6210%u7684%u957F%u5BC6%u7801%u77ED%u8BED%u6548%u679C%u66F4%u4F73%u3002''),
       (''submit'', Text ''%u521B%u5EFA%u8D26%u6237''),
       (''creating'', Text ''%u521B%u5EFA%u4E2D%u2026''),
       (''haveAccount'', Text ''%u5DF2%u6709%u8D26%u6237%uFF1F''),
       (''signIn'', Text ''%u767B%u5F55'')]),
     (''forgot'', Sub
      [(''title'', Text ''%u91CD%u7F6E%u5BC6%u7801''),
       (''subtitle'', Text ''%u8F93%u5165%u60A8%u7684%u90AE%u7BB1%u4EE5%u63A5%u6536%u91CD%u7F6E%u94FE%u63A5''),
       (''sent'', Text ''%u5982%u679C%u8BE5%u90AE%u7BB1%u5BF9%u5E94%u7684%u8D26%u6237%u5B58%u5728%uFF0C%u6211%u4EEC%u5DF2%u5411%u60A8%u53D1%u9001%u5BC6%u7801%u91CD%u7F6E%u94FE%u63A5%u3002''),
       (''sentHint'', Text ''%u8BF7%u68C0%u67E5%u6536%u4EF6%u7BB1%u548C%u5783%u573E%u90AE%u4EF6%u6587%u4EF6%u5939%u3002''),
       (''emailAddress'', Text ''%u90AE%u7BB1%u5730%u5740''),
       (''sending'', Text ''%u53D1%u9001%u4E2D%u2026''),
       (''submit'', Text ''%u53D1%u9001%u91CD%u7F6E%u94FE%u63A5'')]),
     (''reset'', Sub
      [(''title'', Text ''%u8BBE%u7F6E%u65B0%u5BC6%u7801''),
       (''invalidToken'', Text ''%u91CD%u7F6E%u4EE4%u724C%u65E0%u6548%u6216%u7F3A%u5931%u3002''),
       (''requestNewLink'', Text ''%u91CD%u65B0%u7533%u8BF7%u94FE%u63A5''),
       (''success'', Text ''%u5BC6%u7801%u91CD%u7F6E%u6210%u529F''),
       (''resetting'', Text ''%u91CD%u7F6E%u4E2D%u2026''),
       (''submit'', Text ''%u91CD%u7F6E%u5BC6%u7801'')]),
     (''verify'', Sub
      [(''verifying'', Text ''%u6B63%u5728%u9A8C%u8BC1%u60A8%u7684%u90AE%u7BB1%u2026''),
       (''successTitle'', Text ''%u90AE%u7BB1%u9A8C%u8BC1%u6210%u529F''),
       (''successDefault'', Text ''%u90AE%u7BB1%u9A8C%u8BC1%u6210%u529F''),
       (''errorTitle'', Text ''%u9A8C%u8BC1%u5931%u8D25''),
       (''missingToken'', Text ''%u7F3A%u5C11%u9A8C%u8BC1%u4EE4%u724C'')])]"

definition portal_zh_oauth :: dict where
  "portal_zh_oauth = Sub
    [(''consent'', Sub
      [(''title'', Text ''%u6388%u6743%u8BBF%u95EE''),
       (''subtitle'', Text ''%u8BE5%u5E94%u7528%u6B63%u5728%u8BF7%u6C42%u8BBF%u95EE%u60A8%u7684%u8D26%u6237%u3002''),
       (''unknownClient'', Text ''%u672A%u77E5%u5BA2%u6237%u7AEF''),
       (''providedBy'', Text ''%u7531 {owner} %u63D0%u4F9B''),
       (''orgBanner'', Text ''%u60A8%u6B63%u4EE5%u300C{org}%u300D%u6210%u5458%u8EAB%u4EFD%u6388%u6743''),
       (''permissionsHeading'', Text ''%u8BE5%u5E94%u7528%u5C06%u80FD%u591F''),
       (''missingUser'', Text ''%u65E0%u6CD5%u8BC6%u522B%u60A8%u7684%u4F1A%u8BDD%uFF0C%u8BF7%u91CD%u65B0%u767B%u5F55%u3002''),
       (''deny'', Text ''%u62D2%u7EDD''),
       (''authorize'', Text ''%u6388%u6743''),
       (''authorizing'', Text ''%u6388%u6743%u4E2D%u2026''),
       (''signedInAs'', Text ''%u5DF2%u767B%u5F55%uFF1A{name}'')]),
     (''scopes'', Sub
      [(''openid'', Text ''%u9A8C%u8BC1%u60A8%u7684%u8EAB%u4EFD''),
       (''profile'', Text ''%u8BBF%u95EE%u60A8%u7684%u57FA%u672C%u8D44%u6599%uFF08%u7528%u6237%u540D%uFF09''),
       (''email'', Text ''%u8BBF%u95EE%u60A8%u7684%u90AE%u7BB1%u5730%u5740''),
       (''admin'', Text ''%u7BA1%u7406%u5458%u8BBF%u95EE%u6743%u9650''),
       (''users:read'', Text ''%u8BFB%u53D6%u7528%u6237%u8D26%u6237''),
       (''users:write'', Text ''%u7BA1%u7406%u7528%u6237%u8D26%u6237''),
       (''clients:read'', Text ''%u67E5%u770B%u5DF2%u6CE8%u518C%u7684%u5E94%u7528''),
       (''clients:write'', Text ''%u7BA1%u7406%u5DF2%u6CE8%u518C%u7684%u5E94%u7528''),
       (''tokens:read'', Text ''%u67E5%u770B%u6709%u6548%u4EE4%u724C''),
       (''tokens:write'', Text ''%u540A%u9500%u4EE4%u724C''),
       (''roles:read'', Text ''%u67E5%u770B%u89D2%u8272%u548C%u4F5C%u7528%u57DF''),
       (''roles:write'', Text ''%u7BA1%u7406%u89D2%u8272%u548C%u4F5C%u7528%u57DF''),
       (''audit:read'', Text ''%u67E5%u770B%u5BA1%u8BA1%u65E5%u5FD7%u548C%u7EDF%u8BA1%u6570%u636E'')]),
     (''callback'', Sub
      [(''errorTitle'', Text ''%u8BA4%u8BC1%u5931%u8D25''),
       (''noCode'', Text ''%u672A%u6536%u5230%u6388%u6743%u7801''),
       (''completing'', Text ''%u6B63%u5728%u5B8C%u6210%u767B%u5F55%u2026''),
       (''externalFlow'', Text ''%u6388%u6743%u5B8C%u6210''),
       (''externalFlowHint'', Text ''%u4F60%u53EF%u4EE5%u5173%u95ED%u6B64%u9875%uFF0C%u8FD4%u56DE%u53D1%u8D77%u6388%u6743%u7684%u5E94%u7528%u3002'')]),
     (''github'', Sub
      [(''errorTitle'', Text ''GitHub %u767B%u5F55%u5931%u8D25''),
       (''completing'', Text ''%u6B63%u5728%u901A%u8FC7 GitHub %u767B%u5F55%u2026'')]),
     (''social'', Sub
      [(''completing'', Text ''%u6B63%u5728%u5B8C%u6210 {provider} %u767B%u5F55%u2026'')]),
     (''noCodeFromProvider'', Text ''%u672A%u6536%u5230%u6765%u81EA {provider} %u7684%u6388%u6743%u7801''),
     (''linkMissingState'', Text ''%u7F3A%u5C11%u5173%u8054%u72B6%u6001%uFF0C%u8BF7%u4ECE%u5B89%u5168%u8BBE%u7F6E%u9875%u9762%u91CD%u65B0%u53D1%u8D77%u5173%u8054%u6D41%u7A0B%u3002''),
     (''linkSignInFirst'', Text ''%u8BF7%u5148%u767B%u5F55%uFF0C%u7136%u540E%u91CD%u8BD5%u5173%u8054%u60A8%u7684 {provider} %u8D26%u6237%u3002''),
     (''noAccessToken'', Text ''{provider} %u767B%u5F55%u672A%u8FD4%u56DE%u8BBF%u95EE%u4EE4%u724C'')]"

definition portal_zh_account_dashboard :: dict where
  "portal_zh_account_dashboard = Sub
    [(''title'', Text ''%u4EEA%u8868%u76D8''),
     (''welcomeBack'', Text ''%u6B22%u8FCE%u56DE%u6765''),
     (''welcomeBackName'', Text ''%u6B22%u8FCE%u56DE%u6765%uFF0C{name}''),
     (''noEmail'', Text ''%u6682%u65E0%u90AE%u7BB1''),
     (''accountId'', Text ''%u8D26%u6237 ID''),
     (''noRoles'', Text ''%u65E0''),
     (''editProfile'', Text ''%u7F16%u8F91%u4E2A%u4EBA%u8D44%u6599''),
     (''editProfileDesc'', Text ''%u66F4%u65B0%u60A8%u7684%u4E2A%u4EBA%u4FE1%u606F''),
     (''securityTitle'', Text ''%u5B89%u5168%u8BBE%u7F6E''),
     (''securityDesc'', Text ''%u7BA1%u7406%u53CC%u91CD%u9A8C%u8BC1%u3001%u5BC6%u7801%u548C%u5B89%u5168%u5BC6%u94A5''),
     (''authorizedAppsDesc'', Text ''%u67E5%u770B%u5DF2%u8FDE%u63A5%u7684%u5E94%u7528'')]"

definition portal_zh_account_profile :: dict where
  "portal_zh_account_profile = Sub
    [(''loadFailed'', Text ''%u52A0%u8F7D%u4E2A%u4EBA%u8D44%u6599%u5931%u8D25''),
     (''verificationSent'', Text ''%u9A8C%u8BC1%u90AE%u4EF6%u5DF2%u53D1%u9001''),
     (''accountIdSub'', Text ''%u8D26%u6237 ID%uFF08sub%uFF09''),
     (''verified'', Text ''%u5DF2%u9A8C%u8BC1''),
     (''unverified'', Text ''%u672A%u9A8C%u8BC1''),
     (''resendVerification'', Text ''%u91CD%u65B0%u53D1%u9001%u9A8C%u8BC1%u90AE%u4EF6''),
     (''editTitle'', Text ''%u53EF%u7F16%u8F91%u8D44%u6599''),
     (''displayName'', Text ''%u663E%u793A%u540D''),
     (''avatarUrl'', Text ''%u5934%u50CF URL%uFF08https%uFF09''),
     (''save'', Text ''%u4FDD%u5B58%u8D44%u6599''),
     (''saved'', Text ''%u8D44%u6599%u5DF2%u4FDD%u5B58'')]"

definition portal_zh_account_security :: dict where
  "portal_zh_account_security = Sub
    [(''title'', Text ''%u5B89%u5168%u8BBE%u7F6E''),
     (''backupCodesExhausted'', Text ''%u6062%u590D%u7801%u5DF2%u5168%u90E8%u7528%u5B8C%u3002%u8BF7%u91CD%u65B0%u7ED1%u5B9A%u8EAB%u4EFD%u9A8C%u8BC1%u5668%uFF08%u5148%u7981%u7528%u518D%u91CD%u65B0%u542F%u7528 MFA%uFF09%u2014%u2014%u6CA1%u6709%u53EF%u7528%u7684%u7B2C%u4E8C%u56E0%u5B50%u53EF%u80FD%u5BFC%u81F4%u8D26%u53F7%u88AB%u9501%u6B7B%u3002''),
     (''changePassword'', Text ''%u4FEE%u6539%u5BC6%u7801''),
     (''currentPassword'', Text ''%u5F53%u524D%u5BC6%u7801''),
     (''changing'', Text ''%u4FEE%u6539%u4E2D%u2026''),
     (''passwordChanged'', Text ''%u5BC6%u7801%u4FEE%u6539%u6210%u529F''),
     (''mfa'', Sub
      [(''title'', Text ''%u53CC%u91CD%u9A8C%u8BC1%uFF08MFA%uFF09''),
       (''enabled'', Text ''%u5DF2%u542F%u7528''),
       (''protected'', Text ''%u60A8%u7684%u8D26%u6237%u5DF2%u53D7%u57FA%u4E8E TOTP %u7684%u53CC%u91CD%u9A8C%u8BC1%u4FDD%u62A4%u3002''),
       (''disablePrompt'', Text ''%u8F93%u5165%u60A8%u7684%u5BC6%u7801%u4EE5%u505C%u7528%u53CC%u91CD%u9A8C%u8BC1%uFF1A''),
       (''disablePlaceholder'', Text ''%u60A8%u7684%u5BC6%u7801''),
       (''disabling'', Text ''%u505C%u7528%u4E2D%u2026''),
       (''disable'', Text ''%u505C%u7528%u53CC%u91CD%u9A8C%u8BC1''),
       (''passwordRequired'', Text ''%u505C%u7528%u53CC%u91CD%u9A8C%u8BC1%u9700%u8981%u8F93%u5165%u5BC6%u7801''),
       (''scanQr'', Text ''%u8BF7%u4F7F%u7528%u9A8C%u8BC1%u5668%u5E94%u7528%uFF08Google Authenticator%u3001Authy %u7B49%uFF09%u626B%u63CF%u6B64%u4E8C%u7EF4%u7801%uFF1A''),
       (''manualKey'', Text ''%u624B%u52A8%u8F93%u5165%u5BC6%u94A5%uFF1A''),
       (''verificationCode'', Text ''%u9A8C%u8BC1%u7801''),
       (''verifyEnable'', Text ''%u9A8C%u8BC1%u5E76%u542F%u7528''),
       (''totpIntro'', Text ''%u4F7F%u7528%u57FA%u4E8E%u65F6%u95F4%u7684%u4E00%u6B21%u6027%u5BC6%u7801%uFF08TOTP%uFF09%u4E3A%u60A8%u7684%u8D26%u6237%u589E%u52A0%u4E00%u5C42%u989D%u5916%u4FDD%u62A4%u3002''),
       (''settingUp'', Text ''%u8BBE%u7F6E%u4E2D%u2026''),
       (''enable'', Text ''%u542F%u7528%u53CC%u91CD%u9A8C%u8BC1''),
       (''enabledSuccess'', Text ''%u53CC%u91CD%u9A8C%u8BC1%u542F%u7528%u6210%u529F''),
       (''disabled'', Text ''%u53CC%u91CD%u9A8C%u8BC1%u5DF2%u505C%u7528'')]),
     (''passkeys'', Sub
      [(''title'', Text ''%u5B89%u5168%u5BC6%u94A5%uFF08WebAuthn%uFF09''),
       (''intro'', Text ''%u7ACB%u5373%u4E3A%u8BE5%u8D26%u6237%u6CE8%u518C%u6307%u7EB9%u3001%u9762%u5BB9%u6216%u5B89%u5168%u5BC6%u94A5 %u2014%u2014 %u670D%u52A1%u7AEF%u65AD%u8A00%u9A8C%u8BC1%u4E0A%u7EBF%u540E%uFF0C%u5373%u53EF%u4F7F%u7528%u5B89%u5168%u5BC6%u94A5%u767B%u5F55%u3002''),
       (''fallbackName'', Text ''%u5B89%u5168%u5BC6%u94A5''),
       (''defaultName'', Text ''%u5B89%u5168%u5BC6%u94A5 {date}''),
       (''signCounter'', Text ''%u7B7E%u540D%u8BA1%u6570%uFF1A{count}''),
       (''active'', Text ''%u6709%u6548''),
       (''empty'', Text ''%u5C1A%u672A%u6CE8%u518C%u5B89%u5168%u5BC6%u94A5%u3002''),
       (''namePlaceholder'', Text ''%u5B89%u5168%u5BC6%u94A5%u540D%u79F0%uFF08%u53EF%u9009%uFF09''),
       (''registering'', Text ''%u6CE8%u518C%u4E2D%u2026''),
       (''add'', Text ''+ %u6DFB%u52A0%u5B89%u5168%u5BC6%u94A5''),
       (''cancelled'', Text ''%u5B89%u5168%u5BC6%u94A5%u6CE8%u518C%u5DF2%u53D6%u6D88''),
       (''timedOut'', Text ''%u5B89%u5168%u5BC6%u94A5%u6CE8%u518C%u5DF2%u53D6%u6D88%u6216%u8D85%u65F6''),
       (''alreadyRegistered'', Text ''%u6B64%u6D4F%u89C8%u5668%u5DF2%u4E3A%u8BE5%u8D26%u6237%u6CE8%u518C%u8FC7%u5B89%u5168%u5BC6%u94A5%u3002''),
       (''registrationFailed'', Text ''%u5B89%u5168%u5BC6%u94A5%u6CE8%u518C%u5931%u8D25%uFF0C%u8BF7%u91CD%u8BD5%u3002''),
       (''success'', Text ''%u5B89%u5168%u5BC6%u94A5%u6CE8%u518C%u6210%u529F'')]),
     (''social'', Sub
      [(''title'', Text ''%u5DF2%u8FDE%u63A5%u7684%u8D26%u6237''),
       (''intro'', Text ''%u5173%u8054%u793E%u4EA4%u8EAB%u4EFD%u540E%u5373%u53EF%u4F7F%u7528%u5176%u767B%u5F55%u3002%u89E3%u9664%u5173%u8054%u4EC5%u79FB%u9664%u7ED1%u5B9A%u5173%u7CFB%uFF0C%u4E0D%u4F1A%u540A%u9500%u5DF2%u751F%u6548%u7684%u4F1A%u8BDD%u3002''),
       (''linkedOn'', Text ''%u5173%u8054%u4E8E {date}''),
       (''unlinking'', Text ''%u89E3%u9664%u4E2D%u2026''),
       (''unlink'', Text ''%u89E3%u9664%u5173%u8054''),
       (''empty'', Text ''%u5C1A%u672A%u5173%u8054%u793E%u4EA4%u8D26%u6237%u3002''),
       (''redirecting'', Text ''%u8DF3%u8F6C%u4E2D%u2026''),
       (''linkGithub'', Text ''%u5173%u8054 GitHub %u8D26%u6237''),
       (''linkGoogle'', Text ''%u5173%u8054 Google %u8D26%u6237''),
       (''unlinkConfirm'', Text ''%u786E%u5B9A%u89E3%u9664 {provider} %u8D26%u6237%u7684%u5173%u8054%uFF1F%u5728%u91CD%u65B0%u5173%u8054%u4E4B%u524D%uFF0C%u60A8%u5C06%u65E0%u6CD5%u4F7F%u7528 {provider} %u767B%u5F55%u3002''),
       (''unlinked'', Text ''%u5DF2%u89E3%u9664 {provider} %u8D26%u6237%u5173%u8054'')]),
     (''danger'', Sub
      [(''title'', Text ''%u5371%u9669%u533A%u57DF''),
       (''intro'', Text ''%u6C38%u4E45%u5220%u9664%u60A8%u7684%u8D26%u6237%u53CA%u6240%u6709%u5173%u8054%u6570%u636E%u3002%u6B64%u64CD%u4F5C%u65E0%u6CD5%u64A4%u9500%u3002''),
       (''typePrefix'', Text ''%u8F93%u5165''),
       (''typeSuffix'', Text ''%u4EE5%u786E%u8BA4''),
       (''deleting'', Text ''%u5220%u9664%u4E2D%u2026''),
       (''delete'', Text ''%u5220%u9664%u6211%u7684%u8D26%u6237''),
       (''usernameMismatch'', Text ''%u7528%u6237%u540D%u4E0D%u5339%u914D%uFF0C%u8BF7%u8F93%u5165%u60A8%u7684%u7528%u6237%u540D%u4EE5%u786E%u8BA4%u3002'')]),
     (''backup'', Sub
      [(''ariaLabel'', Text ''%u4FDD%u5B58%u60A8%u7684%u53CC%u91CD%u9A8C%u8BC1%u6062%u590D%u4EE3%u7801''),
       (''title'', Text ''%u4FDD%u5B58%u60A8%u7684%u6062%u590D%u4EE3%u7801''),
       (''warning'', Text ''%u8FD9 10 %u7EC4%u4E00%u6B21%u6027%u4EE3%u7801%u662F%u60A8%u4E22%u5931%u9A8C%u8BC1%u5668%u540E%u552F%u4E00%u7684%u767B%u5F55%u65B9%u5F0F%uFF0C%u6B64%u540E%u5C06%u65E0%u6CD5%u518D%u6B21%u67E5%u770B%u3002''),
       (''copyAll'', Text ''%u5168%u90E8%u590D%u5236''),
       (''download'', Text ''%u4E0B%u8F7D .txt''),
       (''saved'', Text ''%u6211%u5DF2%u59A5%u5584%u4FDD%u5B58%u6062%u590D%u4EE3%u7801'')])]"

definition portal_zh_account_authorizedApps :: dict where
  "portal_zh_account_authorizedApps = Sub
    [(''title'', Text ''%u5DF2%u6388%u6743%u5E94%u7528''),
     (''intro'', Text ''%u4EE5%u4E0B%u5E94%u7528%u5DF2%u83B7%u5F97%u60A8%u8D26%u6237%u7684%u8BBF%u95EE%u6743%u9650%u3002''),
     (''loadFailed'', Text ''%u52A0%u8F7D%u5DF2%u6388%u6743%u5E94%u7528%u5931%u8D25''),
     (''emptyTitle'', Text ''%u6682%u65E0%u5DF2%u6388%u6743%u5E94%u7528''),
     (''emptyDesc'', Text ''%u5F53%u60A8%u6388%u6743%u7B2C%u4E09%u65B9%u5E94%u7528%u540E%uFF0C%u5B83%u4EEC%u5C06%u663E%u793A%u5728%u8FD9%u91CC%u3002''),
     (''clientId'', Text ''%u5BA2%u6237%u7AEF ID%uFF1A''),
     (''scopes'', Text ''%u4F5C%u7528%u57DF%uFF1A''),
     (''revoke'', Text ''%u540A%u9500''),
     (''revokeConfirm'', Text ''%u786E%u5B9A%u540A%u9500%u201C{app}%u201D%u7684%u8BBF%u95EE%u6743%u9650%uFF1F%u8BE5%u5E94%u7528%u5C06%u65E0%u6CD5%u518D%u8BBF%u95EE%u60A8%u7684%u6570%u636E%u3002''),
     (''revoked'', Text ''%u5DF2%u540A%u9500%u201C{app}%u201D%u7684%u8BBF%u95EE%u6743%u9650''),
     (''requestOrgAuth'', Text ''%u7533%u8BF7%u7EC4%u7EC7%u6388%u6743''),
     (''requestOrgAuthTitle'', Text ''%u7533%u8BF7%u7EC4%u7EC7%u6388%u6743''),
     (''requestOrgAuthPick'', Text ''%u9009%u62E9%u7EC4%u7EC7''),
     (''requestOrgAuthSubmit'', Text ''%u63D0%u4EA4%u7533%u8BF7''),
     (''requestOrgAuthNoOrgs'', Text ''%u52A0%u5165%u7EC4%u7EC7%u540E%u624D%u80FD%u4E3A%u8BE5%u5E94%u7528%u7533%u8BF7%u7EC4%u7EC7%u6388%u6743%u3002''),
     (''requestOrgAuthSuccess'', Text ''%u7533%u8BF7%u5DF2%u63D0%u4EA4%uFF0C%u7B49%u5F85%u7BA1%u7406%u5458%u5BA1%u6279'')]"

definition portal_zh_account_applications :: dict where
  "portal_zh_account_applications = Sub
    [(''title'', Text ''%u6211%u7684%u5E94%u7528''),
     (''intro'', Text ''%u60A8%u6CE8%u518C%u7684%u5E94%u7528%uFF0C%u7528%u4E8E OIDC %u767B%u5F55%u63A5%u5165%u6216 API %u81EA%u52A8%u5316%u3002''),
     (''loadFailed'', Text ''%u52A0%u8F7D%u5E94%u7528%u5931%u8D25''),
     (''emptyTitle'', Text ''%u8FD8%u6CA1%u6709%u5E94%u7528''),
     (''emptyDesc'', Text ''%u6CE8%u518C%u4E00%u4E2A%u5E94%u7528%uFF0C%u8BA9%u60A8%u7684%u8F6F%u4EF6%u7528 Fulla %u767B%u5F55%u3002''),
     (''create'', Text ''%u6CE8%u518C%u5E94%u7528''),
     (''name'', Text ''%u5E94%u7528%u540D%u79F0''),
     (''clientType'', Text ''%u5BA2%u6237%u7AEF%u7C7B%u578B''),
     (''redirectUris'', Text ''%u56DE%u8C03 URI%uFF08https%uFF0C%u9017%u53F7%u6216%u7A7A%u683C%u5206%u9694%uFF09''),
     (''redirectUrisPlaceholder'', Text ''https://my-app.example/callback''),
     (''scopes'', Text ''%u4F5C%u7528%u57DF%uFF08%u7A7A%u683C%u5206%u9694%uFF0C%u9650%u81EA%u52A9%u767D%u540D%u5355%u5185%uFF09''),
     (''logoUri'', Text ''Logo URI%uFF08%u53EF%u9009%uFF0Chttps%uFF09''),
     (''logoUriPlaceholder'', Text ''https://cdn.example.com/logo.svg''),
     (''submit'', Text ''%u6CE8%u518C''),
     (''clientId'', Text ''%u5BA2%u6237%u7AEF ID%uFF1A''),
     (''rotate'', Text ''%u8F6E%u6362%u5BC6%u94A5''),
     (''delete'', Text ''%u5220%u9664''),
     (''created'', Text ''%u5E94%u7528%u5DF2%u6CE8%u518C''),
     (''rotated'', Text ''%u5DF2%u8F6E%u6362%u201C{app}%u201D%u7684%u5BC6%u94A5''),
     (''deleted'', Text ''%u5E94%u7528%u201C{app}%u201D%u5DF2%u5220%u9664''),
     (''rotateConfirm'', Text ''%u786E%u5B9A%u8F6E%u6362%u201C{app}%u201D%u7684%u5BC6%u94A5%uFF1F%u65E7%u5BC6%u94A5%u5C06%u7ACB%u5373%u5931%u6548%u3002''),
     (''deleteConfirm'', Text ''%u786E%u5B9A%u5220%u9664%u201C{app}%u201D%uFF1F%u5DF2%u6709%u7684%u7528%u6237%u6388%u6743%u548C%u5DF2%u7B7E%u53D1%u7684%u4EE4%u724C%u5C06%u7ACB%u5373%u5931%u6548%u3002''),
     (''secretTitle'', Text ''{id} %u7684%u5BC6%u94A5''),
     (''secretOnce'', Text ''%u8BF7%u7ACB%u5373%u590D%u5236%u2014%u2014%u6B64%u540E%u4E0D%u518D%u663E%u793A%u3002''),
     (''requestOrgAuth'', Text ''%u7533%u8BF7%u7EC4%u7EC7%u6388%u6743''),
     (''requestOrgAuthTitle'', Text ''%u7533%u8BF7%u7EC4%u7EC7%u6388%u6743''),
     (''requestOrgAuthPick'', Text ''%u9009%u62E9%u7EC4%u7EC7''),
     (''requestOrgAuthSubmit'', Text ''%u63D0%u4EA4%u7533%u8BF7''),
     (''requestOrgAuthNoOrgs'', Text ''%u52A0%u5165%u7EC4%u7EC7%u540E%u624D%u80FD%u4E3A%u8BE5%u5E94%u7528%u7533%u8BF7%u7EC4%u7EC7%u6388%u6743%u3002''),
     (''requestOrgAuthSuccess'', Text ''%u7533%u8BF7%u5DF2%u63D0%u4EA4%uFF0C%u7B49%u5F85%u7BA1%u7406%u5458%u5BA1%u6279'')]"

definition portal_zh_account_organizations :: dict where
  "portal_zh_account_organizations = Sub
    [(''title'', Text ''%u6211%u7684%u7EC4%u7EC7''),
     (''intro'', Text ''%u60A8%u521B%u5EFA%u6216%u52A0%u5165%u7684%u7EC4%u7EC7%uFF1B%u53EF%u9080%u8BF7%u6210%u5458%u5E76%u7BA1%u7406%u6210%u5458%u5173%u7CFB%u3002''),
     (''loadFailed'', Text ''%u52A0%u8F7D%u7EC4%u7EC7%u5931%u8D25''),
     (''emptyTitle'', Text ''%u6682%u65E0%u7EC4%u7EC7''),
     (''emptyDesc'', Text ''%u521B%u5EFA%u4E00%u4E2A%u7EC4%u7EC7%uFF0C%u4E0E%u56E2%u961F%u5171%u540C%u7BA1%u7406%u5E94%u7528%u3002''),
     (''create'', Text ''%u521B%u5EFA%u7EC4%u7EC7''),
     (''slug'', Text ''Slug%uFF08%u5C0F%u5199%u5B57%u6BCD%u3001%u6570%u5B57%u3001%u8FDE%u5B57%u7B26%uFF09''),
     (''name'', Text ''%u7EC4%u7EC7%u540D%u79F0''),
     (''submit'', Text ''%u521B%u5EFA''),
     (''members'', Text ''%u6210%u5458''),
     (''remove'', Text ''%u79FB%u9664''),
     (''removeConfirm'', Text ''%u786E%u5B9A%u5C06%u8BE5%u6210%u5458%u79FB%u51FA%u7EC4%u7EC7%uFF1F''),
     (''inviteEmail'', Text ''%u88AB%u9080%u4EBA%u90AE%u7BB1''),
     (''invite'', Text ''%u9080%u8BF7''),
     (''inviteToken'', Text ''%u9080%u8BF7%u4EE4%u724C%uFF08%u8BF7%u4EA4%u7ED9%u88AB%u9080%u4EBA%uFF09''),
     (''invited'', Text ''%u9080%u8BF7%u5DF2%u521B%u5EFA''),
     (''acceptTitle'', Text ''%u63A5%u53D7%u9080%u8BF7''),
     (''acceptPlaceholder'', Text ''%u9080%u8BF7%u4EE4%u724C''),
     (''accept'', Text ''%u63A5%u53D7''),
     (''accepted'', Text ''%u5DF2%u63A5%u53D7%u9080%u8BF7%uFF0C%u6B22%u8FCE%u52A0%u5165%uFF01''),
     (''created'', Text ''%u7EC4%u7EC7%u5DF2%u521B%u5EFA''),
     (''consents'', Text ''%u7EC4%u7EC7%u6388%u6743''),
     (''consentsEmpty'', Text ''%u6682%u65E0%u7EC4%u7EC7%u6388%u6743''),
     (''consentsGrantedBy'', Text ''%u7531%u7528%u6237 {id} %u6388%u6743''),
     (''consentsRevoke'', Text ''%u64A4%u9500''),
     (''consentsRevokeConfirm'', Text ''%u64A4%u9500%u8BE5%u7EC4%u7EC7%u7684%u8FD9%u9879%u6388%u6743%uFF1F%u6210%u5458%u4E0B%u6B21%u6388%u6743%u65F6%u4F1A%u91CD%u65B0%u5F39%u51FA%u540C%u610F%u9875%u3002%u5DF2%u7B7E%u53D1%u7684%u4EE4%u724C%u4E0D%u53D7%u5F71%u54CD%u3002''),
     (''consentsRevoked'', Text ''%u7EC4%u7EC7%u6388%u6743%u5DF2%u64A4%u9500''),
     (''consentsStart'', Text ''%u53D1%u8D77%u6388%u6743''),
     (''consentsClientId'', Text ''%u7EC4%u7EC7%u5E94%u7528%u7684 Client ID''),
     (''consentsRedirectUri'', Text ''%u5DF2%u767B%u8BB0%u7684%u56DE%u8C03%u5730%u5740''),
     (''consentsLinkTitle'', Text ''%u6388%u6743%u94FE%u63A5%uFF08%u4EE5%u7EC4%u7EC7 owner/admin %u8EAB%u4EFD%u767B%u5F55%u540E%u6253%u5F00%uFF09''),
     (''consentsGenerate'', Text ''%u751F%u6210%u94FE%u63A5''),
     (''successionBannerTitle'', Text ''%u6240%u6709%u6743%u7EE7%u4EFB''),
     (''successionBannerDesc'', Text ''%u4F60%u88AB%u63D0%u540D%u4E3A%u300C{name}%u300D%u7684%u7EE7%u4EFB%u6240%u6709%u8005%u3002''),
     (''successionAccept'', Text ''%u63A5%u53D7%u6240%u6709%u6743''),
     (''successionNominate'', Text ''%u63D0%u540D%u7EE7%u4EFB%u8005%uFF08%u7528%u6237 ID%uFF09''),
     (''successionNominateAction'', Text ''%u63D0%u540D''),
     (''successionPending'', Text ''%u5F85%u63A5%u53D7%u7684%u7EE7%u4EFB%u63D0%u540D%uFF1A%u7528%u6237 {id}''),
     (''successionInvalidId'', Text ''%u8BF7%u8F93%u5165%u6570%u5B57%u7528%u6237 ID %u4EE5%u63D0%u540D%u7EE7%u4EFB%u8005''),
     (''successionWithdraw'', Text ''%u64A4%u56DE%u63D0%u540D''),
     (''successionAccepted'', Text ''%u4F60%u5DF2%u6210%u4E3A%u6240%u6709%u8005''),
     (''pendingRequests'', Text ''%u5F85%u5BA1%u6279%u7533%u8BF7''),
     (''approve'', Text ''%u6279%u51C6''),
     (''reject'', Text ''%u62D2%u7EDD''),
     (''approved'', Text ''%u5DF2%u6279%u51C6%uFF1A%u8BE5%u5E94%u7528%u73B0%u5DF2%u83B7%u5F97%u7EC4%u7EC7%u6388%u6743''),
     (''rejected'', Text ''%u5DF2%u62D2%u7EDD%u8BE5%u7533%u8BF7''),
     (''pendingApproveConfirm'', Text ''%u6279%u51C6%u201C{requester}%u201D%u4E3A%u201C{client}%u201D%u63D0%u4EA4%u7684%u6388%u6743%u7533%u8BF7%uFF1F%u8BE5%u5E94%u7528%u5C06%u83B7%u5F97%u7EC4%u7EC7%u540C%u610F%u3002''),
     (''pendingRejectConfirm'', Text ''%u62D2%u7EDD%u201C{requester}%u201D%u4E3A%u201C{client}%u201D%u63D0%u4EA4%u7684%u6388%u6743%u7533%u8BF7%uFF1F%u7533%u8BF7%u4EBA%u4E4B%u540E%u4ECD%u53EF%u91CD%u65B0%u63D0%u4EA4%u3002'')]"

definition portal_zh_account :: dict where
  "portal_zh_account = Sub
    [(''dashboard'', portal_zh_account_dashboard),
     (''profile'', portal_zh_account_profile),
     (''security'', portal_zh_account_security),
     (''authorizedApps'', portal_zh_account_authorizedApps),
     (''applications'', portal_zh_account_applications),
     (''organizations'', portal_zh_account_organizations)]"

definition portal_zh :: dict where
  "portal_zh = Sub
    [(''ui'', portal_zh_ui), (''common'', portal_zh_common), (''nav'', portal_zh_nav), (''appLayout'', portal_zh_appLayout), (''authLayout'', portal_zh_authLayout), (''auth'', portal_zh_auth), (''oauth'', portal_zh_oauth), (''account'', portal_zh_account)]"

subsection \<open>The two languages\<close>

text \<open>Namespace by namespace, the tables have the same keys and every pair of texts the same placeholders.\<close>

lemma portal_ui_lockstep [dict_pairs]: "lockstep portal_en_ui portal_zh_ui"
  by code_simp

lemma portal_common_lockstep [dict_pairs]: "lockstep portal_en_common portal_zh_common"
  by code_simp

lemma portal_nav_lockstep [dict_pairs]: "lockstep portal_en_nav portal_zh_nav"
  by code_simp

lemma portal_appLayout_lockstep [dict_pairs]: "lockstep portal_en_appLayout portal_zh_appLayout"
  by code_simp

lemma portal_authLayout_lockstep [dict_pairs]: "lockstep portal_en_authLayout portal_zh_authLayout"
  by code_simp

lemma portal_auth_lockstep [dict_pairs]: "lockstep portal_en_auth portal_zh_auth"
  by code_simp

lemma portal_oauth_lockstep [dict_pairs]: "lockstep portal_en_oauth portal_zh_oauth"
  by code_simp

lemma portal_account_dashboard_lockstep [dict_pairs]: "lockstep portal_en_account_dashboard portal_zh_account_dashboard"
  by code_simp

lemma portal_account_profile_lockstep [dict_pairs]: "lockstep portal_en_account_profile portal_zh_account_profile"
  by code_simp

lemma portal_account_security_lockstep [dict_pairs]: "lockstep portal_en_account_security portal_zh_account_security"
  by code_simp

lemma portal_account_authorizedApps_lockstep [dict_pairs]: "lockstep portal_en_account_authorizedApps portal_zh_account_authorizedApps"
  by code_simp

lemma portal_account_applications_lockstep [dict_pairs]: "lockstep portal_en_account_applications portal_zh_account_applications"
  by code_simp

lemma portal_account_organizations_lockstep [dict_pairs]: "lockstep portal_en_account_organizations portal_zh_account_organizations"
  by code_simp

lemma portal_ui_wf [dict_pairs]: "dict_wf portal_en_ui"
  by code_simp

lemma portal_common_wf [dict_pairs]: "dict_wf portal_en_common"
  by code_simp

lemma portal_nav_wf [dict_pairs]: "dict_wf portal_en_nav"
  by code_simp

lemma portal_appLayout_wf [dict_pairs]: "dict_wf portal_en_appLayout"
  by code_simp

lemma portal_authLayout_wf [dict_pairs]: "dict_wf portal_en_authLayout"
  by code_simp

lemma portal_auth_wf [dict_pairs]: "dict_wf portal_en_auth"
  by code_simp

lemma portal_oauth_wf [dict_pairs]: "dict_wf portal_en_oauth"
  by code_simp

lemma portal_account_dashboard_wf [dict_pairs]: "dict_wf portal_en_account_dashboard"
  by code_simp

lemma portal_account_profile_wf [dict_pairs]: "dict_wf portal_en_account_profile"
  by code_simp

lemma portal_account_security_wf [dict_pairs]: "dict_wf portal_en_account_security"
  by code_simp

lemma portal_account_authorizedApps_wf [dict_pairs]: "dict_wf portal_en_account_authorizedApps"
  by code_simp

lemma portal_account_applications_wf [dict_pairs]: "dict_wf portal_en_account_applications"
  by code_simp

lemma portal_account_organizations_wf [dict_pairs]: "dict_wf portal_en_account_organizations"
  by code_simp

lemma portal_dict_wf: "dict_wf portal_en"
  by (simp add: portal_en_account_def portal_en_def dict_pairs)

interpretation portal_dict: dictionaries portal_en portal_zh
  by unfold_locales (simp add: portal_en_account_def portal_zh_account_def portal_en_def portal_zh_def dict_pairs)

end
