(* ===== verification/AdminDict.thy ===== *)
theory AdminDict
  imports Dictionary
begin

section \<open>The dictionaries of the admin console\<close>

text \<open>
  The tables \<open>admin/src/i18n/en.ts\<close> and \<open>admin/src/i18n/zh-CN.ts\<close> with all their entries, one definition per
  namespace.  A code unit above 127 is written \<open>%uXXXX\<close>.
\<close>

subsection \<open>English\<close>

definition console_en_ui :: dict where
  "console_en_ui = Sub
    [(''locale'', Sub
      [(''label'', Text ''Language''),
       (''en'', Text ''English''),
       (''zhCN'', Text ''%u7B80%u4F53%u4E2D%u6587'')]),
     (''alert'', Sub
      [(''dismiss'', Text ''Dismiss'')]),
     (''modal'', Sub
      [(''close'', Text ''Close dialog'')]),
     (''confirm'', Sub
      [(''title'', Text ''Confirm action''),
       (''confirm'', Text ''Confirm''),
       (''cancel'', Text ''Cancel'')]),
     (''table'', Sub
      [(''empty'', Text ''No data found'')])]"

definition console_en_common :: dict where
  "console_en_common = Sub
    [(''loading'', Text ''Loading...''),
     (''cancel'', Text ''Cancel''),
     (''confirm'', Text ''Confirm''),
     (''delete'', Text ''Delete''),
     (''edit'', Text ''Edit''),
     (''copy'', Text ''Copy''),
     (''copied'', Text ''Copied!''),
     (''done'', Text ''Done''),
     (''save'', Text ''Save''),
     (''saving'', Text ''Saving...''),
     (''saveChanges'', Text ''Save Changes''),
     (''create'', Text ''Create''),
     (''creating'', Text ''Creating...''),
     (''search'', Text ''Search''),
     (''apply'', Text ''Apply''),
     (''clear'', Text ''Clear''),
     (''name'', Text ''Name''),
     (''description'', Text ''Description''),
     (''actions'', Text ''Actions''),
     (''type'', Text ''Type''),
     (''username'', Text ''Username''),
     (''email'', Text ''Email''),
     (''previous'', Text ''Previous''),
     (''next'', Text ''Next''),
     (''previousArrow'', Text ''%u2190 Previous''),
     (''nextArrow'', Text ''Next %u2192''),
     (''passwordMinLength'', Text ''Password must be at least 8 characters''),
     (''requiresAdminRole'', Text ''Requires admin role''),
     (''builtin'', Text ''built-in''),
     (''identityPlatform'', Text ''Identity Platform'')]"

definition console_en_nav :: dict where
  "console_en_nav = Sub
    [(''overview'', Text ''Overview''),
     (''management'', Text ''Management''),
     (''monitoring'', Text ''Monitoring''),
     (''dashboard'', Text ''Dashboard''),
     (''applications'', Text ''Applications''),
     (''organizations'', Text ''Organizations''),
     (''users'', Text ''Users''),
     (''roles'', Text ''Roles''),
     (''scopes'', Text ''Scopes''),
     (''tokens'', Text ''Tokens''),
     (''devices'', Text ''Devices''),
     (''auditLogs'', Text ''Audit Logs''),
     (''emailTemplates'', Text ''Email Templates''),
     (''settings'', Text ''Settings''),
     (''signOut'', Text ''Sign out'')]"

definition console_en_adminLayout :: dict where
  "console_en_adminLayout = Sub
    [(''collapse'', Text ''Collapse''),
     (''toggleMenu'', Text ''Toggle menu''),
     (''breadcrumb'', Text ''Breadcrumb''),
     (''defaultUser'', Text ''Admin''),
     (''administrator'', Text ''Administrator''),
     (''switchToLightTheme'', Text ''Switch to light theme''),
     (''switchToDarkTheme'', Text ''Switch to dark theme''),
     (''lightTheme'', Text ''Light theme''),
     (''darkTheme'', Text ''Dark theme'')]"

definition console_en_login :: dict where
  "console_en_login = Sub
    [(''title'', Text ''Sign in to Fulla Admin''),
     (''subtitle'', Text ''Sign in to your administrator account''),
     (''username'', Text ''Username''),
     (''password'', Text ''Password''),
     (''passwordPlaceholder'', Text ''Enter your password''),
     (''submit'', Text ''Sign in''),
     (''signingIn'', Text ''Signing in...''),
     (''footer'', Text ''Fulla Identity Platform %u00B7 Enterprise OAuth2/OIDC Server''),
     (''mfa'', Sub
      [(''title'', Text ''Two-factor authentication''),
       (''subtitle'', Text ''Enter the 6-digit code from your authenticator app.''),
       (''codeLabel'', Text ''Authentication code''),
       (''verify'', Text ''Verify code''),
       (''verifying'', Text ''Verifying...''),
       (''back'', Text ''%u2190 Back to sign in'')]),
     (''passwordChange'', Sub
      [(''title'', Text ''Change your password''),
       (''subtitle'', Text ''Your account requires a password change before signing in.''),
       (''done'', Text ''Password changed successfully. Sign in with your new password.''),
       (''oldLabel'', Text ''Current password''),
       (''oldPlaceholder'', Text ''Enter your current password''),
       (''newLabel'', Text ''New password''),
       (''newPlaceholder'', Text ''Enter your new password''),
       (''confirmLabel'', Text ''Confirm new password''),
       (''confirmPlaceholder'', Text ''Re-enter your new password''),
       (''submit'', Text ''Change password''),
       (''submitting'', Text ''Changing...''),
       (''mismatch'', Text ''New passwords do not match''),
       (''back'', Text ''%u2190 Back to sign in'')])]"

definition console_en_admin_dashboard :: dict where
  "console_en_admin_dashboard = Sub
    [(''title'', Text ''Dashboard''),
     (''subtitle'', Text ''System overview and key metrics for your OAuth2 platform''),
     (''totalUsers'', Text ''Total Users''),
     (''totalUsersCaption'', Text ''Registered accounts''),
     (''applications'', Text ''Applications''),
     (''applicationsCaption'', Text ''OAuth2 clients''),
     (''activeTokens'', Text ''Active Tokens''),
     (''activeTokensCaption'', Text ''Issued & valid''),
     (''failuresToday'', Text ''Failures Today''),
     (''failuresTodayCaption'', Text ''Failed auth attempts''),
     (''logsToday'', Text ''Logs Today''),
     (''logsTodayCaption'', Text ''Audit events''),
     (''systemHealth'', Text ''System Health''),
     (''systemStatus'', Text ''System Status''),
     (''healthy'', Text ''Healthy''),
     (''degraded'', Text ''Degraded''),
     (''unhealthy'', Text ''Unhealthy''),
     (''database'', Text ''Database''),
     (''redis'', Text ''Redis''),
     (''unknown'', Text ''Unknown''),
     (''quickActions'', Text ''Quick Actions''),
     (''manageApplications'', Text ''Manage Applications''),
     (''manageUsers'', Text ''Manage Users''),
     (''manageRoles'', Text ''Manage Roles''),
     (''manageScopes'', Text ''Manage Scopes''),
     (''viewAuditLogs'', Text ''View Audit Logs'')]"

definition console_en_admin_applications :: dict where
  "console_en_admin_applications = Sub
    [(''title'', Text ''Applications''),
     (''create'', Text ''+ Create Application''),
     (''createTitle'', Text ''Create Application''),
     (''emptyTitle'', Text ''No applications registered yet''),
     (''emptyDescription'', Text ''Register an OAuth2 client to start issuing tokens.''),
     (''emptyAction'', Text ''Create your first application''),
     (''clientId'', Text ''Client ID''),
     (''owner'', Text ''Owner''),
     (''selfRegistered'', Text ''Self-registered application (open platform)''),
     (''selfRegisteredShort'', Text ''SELF''),
     (''adminManaged'', Text ''Admin-managed''),
     (''suspend'', Text ''Suspend''),
     (''resume'', Text ''Resume''),
     (''suspendConfirm'', Text (''Suspend '' @ [CHR 0x22] @ ''{name}'' @ [CHR 0x22] @ ''? Client validation fails immediately %u2014 no new codes or tokens until resumed.'')),
     (''resumeConfirm'', Text (''Resume '' @ [CHR 0x22] @ ''{name}'' @ [CHR 0x22] @ ''? The application becomes usable again.'')),
     (''resetSecret'', Text ''Reset Secret''),
     (''deleteConfirm'', Text (''Delete client '' @ [CHR 0x22] @ ''{name}'' @ [CHR 0x22] @ ''? This cannot be undone.'')),
     (''resetSecretConfirm'', Text (''Reset secret for '' @ [CHR 0x22] @ ''{name}'' @ [CHR 0x22] @ ''? The old secret will be immediately invalidated.'')),
     (''selectGrantType'', Text ''Please select at least one grant type''),
     (''dcrRegister'', Text ''Register (RFC 7591)''),
     (''dcrTitle'', Text ''Register Application (RFC 7591)''),
     (''dcrHint'', Text ''Dynamic client registration via POST /oauth2/register (admin-gated). Behaves exactly like the documented API call.''),
     (''dcrAuthBasic'', Text ''client_secret_basic (HTTP Basic)''),
     (''dcrAuthPost'', Text ''client_secret_post (request body)''),
     (''dcrAuthNone'', Text ''none (PUBLIC client)''),
     (''dcrAuthMethodHint'', Text (''Locked to '' @ [CHR 0x22] @ ''none'' @ [CHR 0x22] @ '' for PUBLIC clients (they have no secret). CONFIDENTIAL clients default to client_secret_basic.'')),
     (''dcrPostLogoutLabel'', Text ''Post-logout Redirect URIs (optional, comma-separated)''),
     (''dcrPostLogoutHint'', Text ''Dedicated logout targets. Non-empty is authoritative for end_session; empty falls back to the login redirect list.''),
     (''dcrRedirectRequired'', Text ''Confidential clients must register at least one redirect URI''),
     (''dcrSubmit'', Text ''Register''),
     (''dcrRegistering'', Text ''Registering%u2026''),
     (''nameLabel'', Text ''Name''),
     (''namePlaceholder'', Text ''My App''),
     (''confidential'', Text ''Confidential (Server-side)''),
     (''public'', Text ''Public (SPA / Mobile)''),
     (''redirectUrisComma'', Text ''Redirect URIs (comma-separated)''),
     (''backchannelLabel'', Text ''Backchannel Logout URI (optional)''),
     (''backchannelHint'', Text ''OIDC Back-Channel Logout 1.0 (https). Leave empty to disable.''),
     (''grantTypes'', Text ''Grant Types''),
     (''secretTitle'', Text ''Client Secret''),
     (''secretWarning'', Text ''Copy this secret now. It will not be shown again.''),
     (''nameRequired'', Text ''Application name cannot be empty''),
     (''backToList'', Text ''%u2190 Back to Applications''),
     (''notSet'', Text ''(not set)''),
     (''authMethodLabel'', Text ''Token Endpoint Auth Method''),
     (''authMethodHint'', Text ''How this client authenticates at the token endpoint. PUBLIC clients use {none}; CONFIDENTIAL clients use {basic} or {post}. Set automatically based on client type.''),
     (''redirectUrisLines'', Text ''Redirect URIs (one per line)''),
     (''allowedGrantTypes'', Text ''Allowed Grant Types''),
     (''backchannelLabelEdit'', Text ''Backchannel Logout URI''),
     (''backchannelHintEdit'', Text ''OIDC Back-Channel Logout 1.0. When set (https), the OP POSTs a signed logout_token here on user logout. Leave empty to disable.''),
     (''logoUriLabel'', Text ''Logo URI''),
     (''logoUriHint'', Text ''Brand image for the login/consent screens. https only (loopback hosts allowed for dev); leave empty for none.''),
     (''noChangesToSave'', Text ''No changes to save''),
     (''changesSaved'', Text ''Changes saved successfully''),
     (''scopesUpdated'', Text ''Scopes updated successfully''),
     (''copiedToClipboard'', Text ''Copied to clipboard''),
     (''clientCredentialsScopeNote'', Text ''These scopes determine the token permissions this application obtains through the Client Credentials grant.''),
     (''noScopesAvailable'', Text ''No scopes available in the system.''),
     (''saveScopes'', Text ''Save Scopes''),
     (''secretStoredHint'', Text ''The client secret is stored securely and cannot be viewed. You can reset it to generate a new one.''),
     (''resetClientSecret'', Text ''Reset Client Secret''),
     (''noClientSecret'', Text ''Public clients do not have a client secret.''),
     (''newSecretTitle'', Text ''New Client Secret''),
     (''applicationNamePlaceholder'', Text ''Application name''),
     (''tabs'', Sub
      [(''info'', Text ''Info''),
       (''auth'', Text ''Auth Config''),
       (''scopes'', Text ''Scopes''),
       (''credentials'', Text ''Credentials'')]),
     (''grantTypeOptions'', Sub
      [(''authorizationCode'', Sub
        [(''label'', Text ''Authorization Code''),
         (''description'', Text ''Standard authorization code flow (recommended)'')]),
       (''refreshToken'', Sub
        [(''label'', Text ''Refresh Token''),
         (''description'', Text ''Allows refreshing access tokens'')]),
       (''clientCredentials'', Sub
        [(''label'', Text ''Client Credentials''),
         (''description'', Text ''Service-to-service communication (M2M)'')]),
       (''deviceCode'', Sub
        [(''label'', Text ''Device Code''),
         (''description'', Text ''Authorization for browserless devices'')])])]"

definition console_en_admin_organizations :: dict where
  "console_en_admin_organizations = Sub
    [(''title'', Text ''Organizations''),
     (''create'', Text ''+ Create Organization''),
     (''intro'', Text ''System-wide organizations. Membership is managed by organization owners in the user portal.''),
     (''slug'', Text ''Slug''),
     (''name'', Text ''Name''),
     (''logoUri'', Text ''Logo URI (optional)''),
     (''primaryColor'', Text ''Primary color (optional)''),
     (''issuerOverride'', Text ''Issuer override''),
     (''submit'', Text ''Create''),
     (''created'', Text ''Organization created''),
     (''emptyTitle'', Text ''No organizations yet''),
     (''emptyDescription'', Text ''Create an organization here, or let users self-organize from the portal.''),
     (''orgDetail'', Sub
      [(''manage'', Text ''Manage''),
       (''editTitle'', Text ''Edit organization (slug is immutable)''),
       (''name'', Text ''Name''),
       (''primaryColor'', Text ''Primary color''),
       (''saved'', Text ''Organization updated''),
       (''noChanges'', Text ''No changes to save''),
       (''membersTitle'', Text ''Members''),
       (''userId'', Text ''User ID''),
       (''username'', Text ''Username''),
       (''role'', Text ''Role''),
       (''remove'', Text ''Remove''),
       (''removeConfirm'', Text (''Remove member '' @ [CHR 0x22] @ ''{user}'' @ [CHR 0x22] @ '' from this organization?'')),
       (''memberRemoved'', Text ''Member removed''),
       (''noMembers'', Text ''No members''),
       (''transferTo'', Text ''Transfer ownership to user ID''),
       (''transfer'', Text ''Transfer''),
       (''transferConfirm'', Text ''Transfer the owner seat to user #{id}?''),
       (''transferred'', Text ''Ownership transferred''),
       (''transferInvalid'', Text ''Enter a valid integer user id''),
       (''dangerTitle'', Text ''Danger zone''),
       (''dangerHint'', Text ''Soft-deletes the organization: the slug is tombstoned (cannot be re-registered), pending invitations and succession nominations are voided, org consents are revoked, owned applications are suspended, and all memberships are detached.''),
       (''delete'', Text ''Delete organization''),
       (''deleteConfirm'', Text (''Delete organization '' @ [CHR 0x22] @ ''{org}'' @ [CHR 0x22] @ ''? The slug cannot be reused and owned applications stop working immediately.''))])]"

definition console_en_admin_users :: dict where
  "console_en_admin_users = Sub
    [(''title'', Text ''Users''),
     (''create'', Text ''+ Create User''),
     (''createTitle'', Text ''Create User''),
     (''searchPlaceholder'', Text ''Search username or email...''),
     (''allRoles'', Text ''All roles''),
     (''allStatus'', Text ''All status''),
     (''locked'', Text ''Locked''),
     (''active'', Text ''Active''),
     (''verified'', Text ''Verified''),
     (''pending'', Text ''Pending''),
     (''enabled'', Text ''Enabled''),
     (''off'', Text ''Off''),
     (''assignRoles'', Text ''Assign Roles''),
     (''details'', Text ''Details''),
     (''paginationSummary'', Text ''{total} user(s) %u00B7 Page {current} of {totalPages}''),
     (''usernameRequired'', Text ''Username *''),
     (''passwordRequired'', Text ''Password *''),
     (''rolesCommaSeparated'', Text ''Roles (comma-separated)''),
     (''defaultRolesHint'', Text ''Default: user. Available: admin, user''),
     (''emailVerified'', Text ''Email verified''),
     (''mfaEnabled'', Text ''MFA enabled''),
     (''assignRolesTitle'', Text ''Assign Roles''),
     (''userPrefix'', Text ''User:''),
     (''availableRolesHint'', Text ''Available: admin, user''),
     (''saveRoles'', Text ''Save Roles''),
     (''usernamePasswordRequired'', Text ''Username and password are required''),
     (''rolesAssigned'', Text ''Roles assigned successfully''),
     (''userCreated'', Text ''User created successfully''),
     (''createdRolesFailed'', Text ''User created, but role assignment failed for: {roles}{warning}''),
     (''userDeleted'', Text ''User deleted successfully''),
     (''deletedRevokeIssue'', Text ''User deleted, but token revocation reported: {detail}''),
     (''someTokensNotRevoked'', Text ''some tokens could not be revoked''),
     (''deleteConfirm'', Text (''Delete user '' @ [CHR 0x22] @ ''{name}'' @ [CHR 0x22] @ ''? This action cannot be undone.'')),
     (''backToList'', Text ''%u2190 Back to Users''),
     (''enableAccount'', Text ''Enable Account''),
     (''disableAccount'', Text ''Disable Account''),
     (''emailVerifiedBadge'', Text ''Email Verified''),
     (''emailPendingBadge'', Text ''Email Pending''),
     (''mfaBadgeEnabled'', Text ''MFA Enabled''),
     (''mfaBadgeOff'', Text ''MFA Off''),
     (''accountLocked'', Text ''Account Locked''),
     (''createdAt'', Text ''Created At''),
     (''noChanges'', Text ''No changes''),
     (''userUpdated'', Text ''User updated successfully''),
     (''rolesUpdated'', Text ''Roles updated successfully''),
     (''userDisabled'', Text ''User disabled''),
     (''userEnabled'', Text ''User enabled''),
     (''disableConfirm'', Text (''Disable user '' @ [CHR 0x22] @ ''{name}'' @ [CHR 0x22] @ ''? They will not be able to log in.'')),
     (''failedLoginCount'', Text ''Failed Login Count''),
     (''accountStatus'', Text ''Account Status''),
     (''lockedUntil'', Text ''Account is locked until: {time}''),
     (''unlockAccount'', Text ''Unlock Account''),
     (''mfaStatus'', Text ''MFA Status''),
     (''mfaFullEnabled'', Text ''Multi-Factor Authentication Enabled''),
     (''mfaNotConfigured'', Text ''MFA Not Configured''),
     (''rolesTabIntro'', Text ''Assign roles to control what this user can access.''),
     (''noRolesAvailable'', Text ''No roles available.''),
     (''userCount'', Text ''{count} user(s)''),
     (''tabs'', Sub
      [(''info'', Text ''Info''),
       (''security'', Text ''Security''),
       (''roles'', Text ''Roles'')])]"

definition console_en_admin_roles :: dict where
  "console_en_admin_roles = Sub
    [(''title'', Text ''Roles''),
     (''create'', Text ''+ Create Role''),
     (''createTitle'', Text ''Create Role''),
     (''users'', Text ''Users''),
     (''noneFound'', Text ''No roles found''),
     (''namePlaceholder'', Text ''e.g. editor''),
     (''optionalDescription'', Text ''Optional description''),
     (''created'', Text (''Role '' @ [CHR 0x22] @ ''{name}'' @ [CHR 0x22] @ '' created'')),
     (''updated'', Text ''Role updated''),
     (''deleted'', Text (''Role '' @ [CHR 0x22] @ ''{name}'' @ [CHR 0x22] @ '' deleted'')),
     (''deleteConfirm'', Text (''Delete role '' @ [CHR 0x22] @ ''{name}'' @ [CHR 0x22] @ ''? This cannot be undone.'')),
     (''editTitle'', Text ''Edit Role: {name}''),
     (''permissions'', Text ''Permissions (delegated administration)''),
     (''permissionsHint'', Text ''Full-replace on save; a role with no permissions keeps only its scope-independent access.'')]"

definition console_en_admin_scopes :: dict where
  "console_en_admin_scopes = Sub
    [(''title'', Text ''Scopes''),
     (''create'', Text ''+ Create Scope''),
     (''createTitle'', Text ''Create Scope''),
     (''mappedRole'', Text ''Mapped Role''),
     (''flags'', Text ''Flags''),
     (''defaultBadge'', Text ''default''),
     (''adminOnlyBadge'', Text ''admin only''),
     (''noneFound'', Text ''No scopes found''),
     (''namePlaceholder'', Text ''e.g. reports:read''),
     (''descriptionPlaceholder'', Text ''What this scope grants access to''),
     (''descriptionZh'', Text ''Description (zh-CN)''),
     (''descriptionZhPlaceholder'', Text ''Consent-screen copy shown on zh pages''),
     (''mappedRolePlaceholder'', Text ''e.g. user''),
     (''defaultScope'', Text ''Default scope''),
     (''created'', Text (''Scope '' @ [CHR 0x22] @ ''{name}'' @ [CHR 0x22] @ '' created'')),
     (''updated'', Text ''Scope updated''),
     (''deleted'', Text (''Scope '' @ [CHR 0x22] @ ''{name}'' @ [CHR 0x22] @ '' deleted'')),
     (''deleteConfirm'', Text (''Delete scope '' @ [CHR 0x22] @ ''{name}'' @ [CHR 0x22] @ ''? This cannot be undone.'')),
     (''editTitle'', Text ''Edit Scope:'')]"

definition console_en_admin_logs :: dict where
  "console_en_admin_logs = Sub
    [(''title'', Text ''Audit Logs''),
     (''actionLabel'', Text ''Action:''),
     (''outcomeLabel'', Text ''Outcome:''),
     (''actorIdLabel'', Text ''Actor ID:''),
     (''actionPlaceholder'', Text ''e.g. login_success''),
     (''anyOutcome'', Text ''(any)''),
     (''actorPlaceholder'', Text ''filter by actor uuid''),
     (''emptyTitle'', Text ''No audit logs recorded yet''),
     (''emptyDescription'', Text ''Audit events will appear here as administrators and services act.''),
     (''time'', Text ''Time''),
     (''action'', Text ''Action''),
     (''actor'', Text ''Actor''),
     (''target'', Text ''Target''),
     (''outcome'', Text ''Outcome''),
     (''ip'', Text ''IP''),
     (''pageOf'', Text ''Page {page}'')]"

definition console_en_admin_tokens :: dict where
  "console_en_admin_tokens = Sub
    [(''title'', Text ''Tokens''),
     (''revokeAll'', Text ''Revoke All%u2026''),
     (''noClientsInResults'', Text ''No clients in current results''),
     (''clientIdLabel'', Text ''Client ID:''),
     (''userIdLabel'', Text ''User ID:''),
     (''clientFilterPlaceholder'', Text ''Filter by client_id''),
     (''userFilterPlaceholder'', Text ''Filter by user_id''),
     (''revokeAllForUserLabel'', Text ''Revoke All for User''),
     (''revokeAllForUser'', Text ''Revoke All for User''),
     (''emptyTitle'', Text ''No active tokens found''),
     (''emptyDescription'', Text ''Issued access tokens will be listed here.''),
     (''token'', Text ''Token''),
     (''client'', Text ''Client''),
     (''user'', Text ''User''),
     (''scope'', Text ''Scope''),
     (''expires'', Text ''Expires''),
     (''revoke'', Text ''Revoke''),
     (''pageTotal'', Text ''Page {page} %u00B7 {total} total''),
     (''revokeTokenConfirm'', Text (''Revoke token starting with '' @ [CHR 0x22] @ ''{prefix}'' @ [CHR 0x22] @ ''?'')),
     (''revokeClientConfirm'', Text (''Revoke ALL tokens for client '' @ [CHR 0x22] @ ''{name}'' @ [CHR 0x22] @ ''?'')),
     (''revokeUserConfirm'', Text (''Revoke ALL tokens for user '' @ [CHR 0x22] @ ''{name}'' @ [CHR 0x22] @ ''?'')),
     (''revokedCountForClient'', Text (''Revoked {count} token(s) for client '' @ [CHR 0x22] @ ''{name}'' @ [CHR 0x22])),
     (''revokedCountForUser'', Text (''Revoked {count} token(s) for user '' @ [CHR 0x22] @ ''{name}'' @ [CHR 0x22]))]"

definition console_en_admin_devices :: dict where
  "console_en_admin_devices = Sub
    [(''title'', Text ''Device Approval''),
     (''subtitle'', Text ''Approve a device sign-in request by entering the code shown on the device screen.''),
     (''approvedTitle'', Text ''Device approved''),
     (''approvedBody'', Text ''You can close this page and return to your device.''),
     (''codeLabel'', Text ''Device code''),
     (''codePlaceholder'', Text ''e.g. WDJB-MJHT''),
     (''approve'', Text ''Approve device''),
     (''approving'', Text ''Approving...''),
     (''notApproved'', Text ''The device code could not be approved'')]"

definition console_en_admin_settings :: dict where
  "console_en_admin_settings = Sub
    [(''title'', Text ''Settings & Scopes''),
     (''oauth2Scopes'', Text ''OAuth2 Scopes''),
     (''mappedRole'', Text ''Mapped Role''),
     (''defaultColumn'', Text ''Default''),
     (''adminOnlyColumn'', Text ''Admin Only''),
     (''oidcSigningKeys'', Text ''OIDC Signing Keys''),
     (''keyCount'', Text ''Loaded Keys''),
     (''activeKeyId'', Text ''Active Key ID (kid)''),
     (''activeKey'', Text ''active''),
     (''keyId'', Text ''Key ID (kid)''),
     (''keyType'', Text ''Key Type (kty)''),
     (''algorithm'', Text ''Algorithm (alg)''),
     (''usage'', Text ''Usage (use)''),
     (''status'', Text ''Status''),
     (''jwksEndpoint'', Text ''JWKS Endpoint''),
     (''discoveryEndpoint'', Text ''Discovery Endpoint''),
     (''loadFailed'', Text ''Failed to load OIDC key information.'')]"

definition console_en_admin_emailTemplates :: dict where
  "console_en_admin_emailTemplates = Sub
    [(''title'', Text ''Email Templates''),
     (''subtitle'', Text ''Templates for verification, password-reset and org-invitation emails. Variables use double-brace placeholders; saves are validated against the tag blacklist and the outbound-link domain allowlist.''),
     (''key'', Text ''Template key''),
     (''locale'', Text ''Locale''),
     (''subject'', Text ''Subject''),
     (''updatedAt'', Text ''Updated at''),
     (''plainText'', Text ''Plain-text body''),
     (''policyHint'', Text ''Content policy: script/iframe/form tags are rejected; outbound link domains must be listed in email.allowed_link_domains; variable values are HTML-escaped at send time.''),
     (''empty'', Text ''No templates (PostgreSQL storage required)''),
     (''saved'', Text ''Template saved''),
     (''testSend'', Text ''Test send''),
     (''testRecipientPlaceholder'', Text ''Test recipient (defaults to your own address)''),
     (''testRecipientHint'', Text ''Recipients must be your own address or listed in email.test_recipients''),
     (''testRecipientRequired'', Text ''Enter a test recipient address first''),
     (''testSent'', Text ''Test email sent (subject: {subject})''),
     (''editTitle'', Text ''Edit template {key} / {locale}'')]"

definition console_en_admin :: dict where
  "console_en_admin = Sub
    [(''dashboard'', console_en_admin_dashboard),
     (''applications'', console_en_admin_applications),
     (''organizations'', console_en_admin_organizations),
     (''users'', console_en_admin_users),
     (''roles'', console_en_admin_roles),
     (''scopes'', console_en_admin_scopes),
     (''logs'', console_en_admin_logs),
     (''tokens'', console_en_admin_tokens),
     (''devices'', console_en_admin_devices),
     (''settings'', console_en_admin_settings),
     (''emailTemplates'', console_en_admin_emailTemplates)]"

definition console_en :: dict where
  "console_en = Sub
    [(''ui'', console_en_ui), (''common'', console_en_common), (''nav'', console_en_nav), (''adminLayout'', console_en_adminLayout), (''login'', console_en_login), (''admin'', console_en_admin)]"

subsection \<open>Chinese\<close>

definition console_zh_ui :: dict where
  "console_zh_ui = Sub
    [(''locale'', Sub
      [(''label'', Text ''%u8BED%u8A00''),
       (''en'', Text ''English''),
       (''zhCN'', Text ''%u7B80%u4F53%u4E2D%u6587'')]),
     (''alert'', Sub
      [(''dismiss'', Text ''%u5173%u95ED'')]),
     (''modal'', Sub
      [(''close'', Text ''%u5173%u95ED%u5BF9%u8BDD%u6846'')]),
     (''confirm'', Sub
      [(''title'', Text ''%u786E%u8BA4%u64CD%u4F5C''),
       (''confirm'', Text ''%u786E%u8BA4''),
       (''cancel'', Text ''%u53D6%u6D88'')]),
     (''table'', Sub
      [(''empty'', Text ''%u6682%u65E0%u6570%u636E'')])]"

definition console_zh_common :: dict where
  "console_zh_common = Sub
    [(''loading'', Text ''%u52A0%u8F7D%u4E2D%u2026''),
     (''cancel'', Text ''%u53D6%u6D88''),
     (''confirm'', Text ''%u786E%u8BA4''),
     (''delete'', Text ''%u5220%u9664''),
     (''edit'', Text ''%u7F16%u8F91''),
     (''copy'', Text ''%u590D%u5236''),
     (''copied'', Text ''%u5DF2%u590D%u5236''),
     (''done'', Text ''%u5B8C%u6210''),
     (''save'', Text ''%u4FDD%u5B58''),
     (''saving'', Text ''%u4FDD%u5B58%u4E2D%u2026''),
     (''saveChanges'', Text ''%u4FDD%u5B58%u66F4%u6539''),
     (''create'', Text ''%u521B%u5EFA''),
     (''creating'', Text ''%u521B%u5EFA%u4E2D%u2026''),
     (''search'', Text ''%u641C%u7D22''),
     (''apply'', Text ''%u5E94%u7528''),
     (''clear'', Text ''%u6E05%u9664''),
     (''name'', Text ''%u540D%u79F0''),
     (''description'', Text ''%u63CF%u8FF0''),
     (''actions'', Text ''%u64CD%u4F5C''),
     (''type'', Text ''%u7C7B%u578B''),
     (''username'', Text ''%u7528%u6237%u540D''),
     (''email'', Text ''%u90AE%u7BB1''),
     (''previous'', Text ''%u4E0A%u4E00%u9875''),
     (''next'', Text ''%u4E0B%u4E00%u9875''),
     (''previousArrow'', Text ''%u2190 %u4E0A%u4E00%u9875''),
     (''nextArrow'', Text ''%u4E0B%u4E00%u9875 %u2192''),
     (''passwordMinLength'', Text ''%u5BC6%u7801%u957F%u5EA6%u81F3%u5C11%u4E3A 8 %u4E2A%u5B57%u7B26''),
     (''requiresAdminRole'', Text ''%u9700%u8981%u7BA1%u7406%u5458%u89D2%u8272''),
     (''builtin'', Text ''%u5185%u7F6E''),
     (''identityPlatform'', Text ''%u8EAB%u4EFD%u5E73%u53F0'')]"

definition console_zh_nav :: dict where
  "console_zh_nav = Sub
    [(''overview'', Text ''%u603B%u89C8''),
     (''management'', Text ''%u7BA1%u7406''),
     (''monitoring'', Text ''%u76D1%u63A7''),
     (''dashboard'', Text ''%u4EEA%u8868%u76D8''),
     (''applications'', Text ''%u5E94%u7528%u7BA1%u7406''),
     (''organizations'', Text ''%u7EC4%u7EC7%u7BA1%u7406''),
     (''users'', Text ''%u7528%u6237%u7BA1%u7406''),
     (''roles'', Text ''%u89D2%u8272%u7BA1%u7406''),
     (''scopes'', Text ''%u4F5C%u7528%u57DF%u7BA1%u7406''),
     (''tokens'', Text ''%u4EE4%u724C%u7BA1%u7406''),
     (''devices'', Text ''%u8BBE%u5907%u5BA1%u6279''),
     (''auditLogs'', Text ''%u5BA1%u8BA1%u65E5%u5FD7''),
     (''emailTemplates'', Text ''%u90AE%u4EF6%u6A21%u677F''),
     (''settings'', Text ''%u7CFB%u7EDF%u8BBE%u7F6E''),
     (''signOut'', Text ''%u9000%u51FA%u767B%u5F55'')]"

definition console_zh_adminLayout :: dict where
  "console_zh_adminLayout = Sub
    [(''collapse'', Text ''%u6536%u8D77''),
     (''toggleMenu'', Text ''%u5207%u6362%u83DC%u5355''),
     (''breadcrumb'', Text ''%u9762%u5305%u5C51%u5BFC%u822A''),
     (''defaultUser'', Text ''%u7BA1%u7406%u5458''),
     (''administrator'', Text ''%u7BA1%u7406%u5458''),
     (''switchToLightTheme'', Text ''%u5207%u6362%u5230%u6D45%u8272%u4E3B%u9898''),
     (''switchToDarkTheme'', Text ''%u5207%u6362%u5230%u6DF1%u8272%u4E3B%u9898''),
     (''lightTheme'', Text ''%u6D45%u8272%u4E3B%u9898''),
     (''darkTheme'', Text ''%u6DF1%u8272%u4E3B%u9898'')]"

definition console_zh_login :: dict where
  "console_zh_login = Sub
    [(''title'', Text ''%u767B%u5F55 Fulla %u7BA1%u7406%u63A7%u5236%u53F0''),
     (''subtitle'', Text ''%u767B%u5F55%u60A8%u7684%u7BA1%u7406%u5458%u8D26%u6237''),
     (''username'', Text ''%u7528%u6237%u540D''),
     (''password'', Text ''%u5BC6%u7801''),
     (''passwordPlaceholder'', Text ''%u8BF7%u8F93%u5165%u5BC6%u7801''),
     (''submit'', Text ''%u767B%u5F55''),
     (''signingIn'', Text ''%u767B%u5F55%u4E2D%u2026''),
     (''footer'', Text ''Fulla %u8EAB%u4EFD%u5E73%u53F0 %u00B7 %u4F01%u4E1A%u7EA7 OAuth2/OIDC %u670D%u52A1%u5668''),
     (''mfa'', Sub
      [(''title'', Text ''%u53CC%u91CD%u9A8C%u8BC1''),
       (''subtitle'', Text ''%u8BF7%u8F93%u5165%u9A8C%u8BC1%u5668%u5E94%u7528%u4E2D%u7684 6 %u4F4D%u9A8C%u8BC1%u7801%u3002''),
       (''codeLabel'', Text ''%u9A8C%u8BC1%u7801''),
       (''verify'', Text ''%u9A8C%u8BC1''),
       (''verifying'', Text ''%u9A8C%u8BC1%u4E2D%u2026''),
       (''back'', Text ''%u2190 %u8FD4%u56DE%u767B%u5F55'')]),
     (''passwordChange'', Sub
      [(''title'', Text ''%u4FEE%u6539%u5BC6%u7801''),
       (''subtitle'', Text ''%u8BE5%u8D26%u53F7%u8981%u6C42%u5728%u767B%u5F55%u524D%u4FEE%u6539%u5BC6%u7801%u3002''),
       (''done'', Text ''%u5BC6%u7801%u4FEE%u6539%u6210%u529F%u3002%u8BF7%u4F7F%u7528%u65B0%u5BC6%u7801%u91CD%u65B0%u767B%u5F55%u3002''),
       (''oldLabel'', Text ''%u5F53%u524D%u5BC6%u7801''),
       (''oldPlaceholder'', Text ''%u8F93%u5165%u5F53%u524D%u5BC6%u7801''),
       (''newLabel'', Text ''%u65B0%u5BC6%u7801''),
       (''newPlaceholder'', Text ''%u8F93%u5165%u65B0%u5BC6%u7801''),
       (''confirmLabel'', Text ''%u786E%u8BA4%u65B0%u5BC6%u7801''),
       (''confirmPlaceholder'', Text ''%u518D%u6B21%u8F93%u5165%u65B0%u5BC6%u7801''),
       (''submit'', Text ''%u4FEE%u6539%u5BC6%u7801''),
       (''submitting'', Text ''%u4FEE%u6539%u4E2D%u2026''),
       (''mismatch'', Text ''%u4E24%u6B21%u8F93%u5165%u7684%u65B0%u5BC6%u7801%u4E0D%u4E00%u81F4''),
       (''back'', Text ''%u2190 %u8FD4%u56DE%u767B%u5F55'')])]"

definition console_zh_admin_dashboard :: dict where
  "console_zh_admin_dashboard = Sub
    [(''title'', Text ''%u4EEA%u8868%u76D8''),
     (''subtitle'', Text ''OAuth2 %u5E73%u53F0%u7684%u7CFB%u7EDF%u6982%u89C8%u4E0E%u5173%u952E%u6307%u6807''),
     (''totalUsers'', Text ''%u7528%u6237%u603B%u6570''),
     (''totalUsersCaption'', Text ''%u5DF2%u6CE8%u518C%u8D26%u6237''),
     (''applications'', Text ''%u5E94%u7528%u6570''),
     (''applicationsCaption'', Text ''OAuth2 %u5BA2%u6237%u7AEF''),
     (''activeTokens'', Text ''%u6D3B%u8DC3%u4EE4%u724C''),
     (''activeTokensCaption'', Text ''%u5DF2%u7B7E%u53D1%u4E14%u6709%u6548''),
     (''failuresToday'', Text ''%u4ECA%u65E5%u5931%u8D25''),
     (''failuresTodayCaption'', Text ''%u8BA4%u8BC1%u5931%u8D25%u6B21%u6570''),
     (''logsToday'', Text ''%u4ECA%u65E5%u65E5%u5FD7''),
     (''logsTodayCaption'', Text ''%u5BA1%u8BA1%u4E8B%u4EF6''),
     (''systemHealth'', Text ''%u7CFB%u7EDF%u5065%u5EB7%u72B6%u6001''),
     (''systemStatus'', Text ''%u7CFB%u7EDF%u72B6%u6001''),
     (''healthy'', Text ''%u5065%u5EB7''),
     (''degraded'', Text ''%u964D%u7EA7''),
     (''unhealthy'', Text ''%u5F02%u5E38''),
     (''database'', Text ''%u6570%u636E%u5E93''),
     (''redis'', Text ''Redis''),
     (''unknown'', Text ''%u672A%u77E5''),
     (''quickActions'', Text ''%u5FEB%u6377%u64CD%u4F5C''),
     (''manageApplications'', Text ''%u7BA1%u7406%u5E94%u7528''),
     (''manageUsers'', Text ''%u7BA1%u7406%u7528%u6237''),
     (''manageRoles'', Text ''%u7BA1%u7406%u89D2%u8272''),
     (''manageScopes'', Text ''%u7BA1%u7406%u4F5C%u7528%u57DF''),
     (''viewAuditLogs'', Text ''%u67E5%u770B%u5BA1%u8BA1%u65E5%u5FD7'')]"

definition console_zh_admin_applications :: dict where
  "console_zh_admin_applications = Sub
    [(''title'', Text ''%u5E94%u7528%u7BA1%u7406''),
     (''create'', Text ''+ %u521B%u5EFA%u5E94%u7528''),
     (''createTitle'', Text ''%u521B%u5EFA%u5E94%u7528''),
     (''emptyTitle'', Text ''%u5C1A%u65E0%u5DF2%u6CE8%u518C%u7684%u5E94%u7528''),
     (''emptyDescription'', Text ''%u6CE8%u518C OAuth2 %u5BA2%u6237%u7AEF%u4EE5%u5F00%u59CB%u7B7E%u53D1%u4EE4%u724C%u3002''),
     (''emptyAction'', Text ''%u521B%u5EFA%u60A8%u7684%u7B2C%u4E00%u4E2A%u5E94%u7528''),
     (''clientId'', Text ''%u5BA2%u6237%u7AEF ID''),
     (''owner'', Text ''%u5C5E%u4E3B''),
     (''selfRegistered'', Text ''%u81EA%u52A9%u6CE8%u518C%u5E94%u7528%uFF08%u5F00%u653E%u5E73%u53F0%uFF09''),
     (''selfRegisteredShort'', Text ''%u81EA%u52A9''),
     (''adminManaged'', Text ''%u7BA1%u7406%u5458%u7BA1%u7406''),
     (''suspend'', Text ''%u505C%u7528''),
     (''resume'', Text ''%u6062%u590D''),
     (''suspendConfirm'', Text ''%u505C%u7528%u201C{name}%u201D%uFF1F%u5BA2%u6237%u7AEF%u6821%u9A8C%u7ACB%u5373%u5931%u8D25%u2014%u2014%u6062%u590D%u524D%u4E0D%u518D%u7B7E%u53D1%u4EFB%u4F55%u7801%u6216%u4EE4%u724C%u3002''),
     (''resumeConfirm'', Text ''%u6062%u590D%u201C{name}%u201D%uFF1F%u5E94%u7528%u5C06%u91CD%u65B0%u53EF%u7528%u3002''),
     (''resetSecret'', Text ''%u91CD%u7F6E%u5BC6%u94A5''),
     (''deleteConfirm'', Text ''%u786E%u5B9A%u5220%u9664%u5BA2%u6237%u7AEF%u201C{name}%u201D%uFF1F%u6B64%u64CD%u4F5C%u65E0%u6CD5%u64A4%u9500%u3002''),
     (''resetSecretConfirm'', Text ''%u786E%u5B9A%u91CD%u7F6E%u201C{name}%u201D%u7684%u5BC6%u94A5%uFF1F%u65E7%u5BC6%u94A5%u5C06%u7ACB%u5373%u5931%u6548%u3002''),
     (''selectGrantType'', Text ''%u8BF7%u81F3%u5C11%u9009%u62E9%u4E00%u79CD%u6388%u6743%u7C7B%u578B''),
     (''dcrRegister'', Text ''%u6CE8%u518C%uFF08RFC 7591%uFF09''),
     (''dcrTitle'', Text ''%u6CE8%u518C%u5E94%u7528%uFF08RFC 7591%uFF09''),
     (''dcrHint'', Text ''%u901A%u8FC7 POST /oauth2/register %u7684%u52A8%u6001%u5BA2%u6237%u7AEF%u6CE8%u518C%uFF08%u4EC5%u7BA1%u7406%u5458%u53EF%u7528%uFF09%u3002%u4E0E%u6587%u6863%u4E2D%u7684 API %u8C03%u7528%u884C%u4E3A%u5B8C%u5168%u4E00%u81F4%u3002''),
     (''dcrAuthBasic'', Text ''client_secret_basic%uFF08HTTP Basic%uFF09''),
     (''dcrAuthPost'', Text ''client_secret_post%uFF08%u8BF7%u6C42%u4F53%uFF09''),
     (''dcrAuthNone'', Text ''none%uFF08PUBLIC %u5BA2%u6237%u7AEF%uFF09''),
     (''dcrAuthMethodHint'', Text ''PUBLIC %u5BA2%u6237%u7AEF%u9501%u5B9A%u4E3A none%uFF08%u65E0%u5BC6%u94A5%uFF09%uFF1BCONFIDENTIAL %u5BA2%u6237%u7AEF%u9ED8%u8BA4 client_secret_basic%u3002''),
     (''dcrPostLogoutLabel'', Text ''%u767B%u51FA%u56DE%u8C03%u5730%u5740%uFF08%u53EF%u9009%uFF0C%u9017%u53F7%u5206%u9694%uFF09''),
     (''dcrPostLogoutHint'', Text ''%u4E13%u7528%u767B%u51FA%u76EE%u6807%u3002%u975E%u7A7A%u65F6%u5BF9 end_session %u6743%u5A01%u751F%u6548%uFF1B%u7559%u7A7A%u5219%u56DE%u9000%u5230%u767B%u5F55%u56DE%u8C03%u5217%u8868%u3002''),
     (''dcrRedirectRequired'', Text ''%u673A%u5BC6%u5BA2%u6237%u7AEF%u5FC5%u987B%u767B%u8BB0%u81F3%u5C11%u4E00%u4E2A%u56DE%u8C03%u5730%u5740''),
     (''dcrSubmit'', Text ''%u6CE8%u518C''),
     (''dcrRegistering'', Text ''%u6CE8%u518C%u4E2D%u2026''),
     (''nameLabel'', Text ''%u540D%u79F0''),
     (''namePlaceholder'', Text ''%u6211%u7684%u5E94%u7528''),
     (''confidential'', Text ''%u673A%u5BC6%uFF08%u670D%u52A1%u7AEF%uFF09''),
     (''public'', Text ''%u516C%u5F00%uFF08SPA / %u79FB%u52A8%u7AEF%uFF09''),
     (''redirectUrisComma'', Text ''%u56DE%u8C03%u5730%u5740%uFF08%u9017%u53F7%u5206%u9694%uFF09''),
     (''backchannelLabel'', Text ''Backchannel Logout URI%uFF08%u53EF%u9009%uFF09''),
     (''backchannelHint'', Text ''OIDC Back-Channel Logout 1.0%uFF08https%uFF09%u3002%u7559%u7A7A%u8868%u793A%u7981%u7528%u3002''),
     (''grantTypes'', Text ''%u6388%u6743%u7C7B%u578B''),
     (''secretTitle'', Text ''%u5BA2%u6237%u7AEF%u5BC6%u94A5''),
     (''secretWarning'', Text ''%u8BF7%u7ACB%u5373%u590D%u5236%u6B64%u5BC6%u94A5%uFF0C%u5B83%u5C06%u4E0D%u4F1A%u518D%u6B21%u663E%u793A%u3002''),
     (''nameRequired'', Text ''%u5E94%u7528%u540D%u79F0%u4E0D%u80FD%u4E3A%u7A7A''),
     (''backToList'', Text ''%u2190 %u8FD4%u56DE%u5E94%u7528%u5217%u8868''),
     (''notSet'', Text ''%uFF08%u672A%u8BBE%u7F6E%uFF09''),
     (''authMethodLabel'', Text ''%u4EE4%u724C%u7AEF%u70B9%u8BA4%u8BC1%u65B9%u5F0F''),
     (''authMethodHint'', Text ''%u8BE5%u5BA2%u6237%u7AEF%u5728%u4EE4%u724C%u7AEF%u70B9%u7684%u8BA4%u8BC1%u65B9%u5F0F%u3002PUBLIC %u5BA2%u6237%u7AEF%u4F7F%u7528 {none}%uFF1BCONFIDENTIAL %u5BA2%u6237%u7AEF%u4F7F%u7528 {basic} %u6216 {post}%u3002%u5C06%u6839%u636E%u5BA2%u6237%u7AEF%u7C7B%u578B%u81EA%u52A8%u8BBE%u7F6E%u3002''),
     (''redirectUrisLines'', Text ''%u56DE%u8C03%u5730%u5740%uFF08%u6BCF%u884C%u4E00%u4E2A%uFF09''),
     (''allowedGrantTypes'', Text ''%u5141%u8BB8%u7684%u6388%u6743%u7C7B%u578B''),
     (''backchannelLabelEdit'', Text ''Backchannel Logout URI''),
     (''backchannelHintEdit'', Text ''OIDC Back-Channel Logout 1.0%u3002%u8BBE%u7F6E%u540E%uFF08https%uFF09%uFF0C%u7528%u6237%u767B%u51FA%u65F6 OP %u4F1A%u5411%u6B64%u5730%u5740 POST %u4E00%u4E2A%u7B7E%u540D%u7684 logout_token%u3002%u7559%u7A7A%u8868%u793A%u7981%u7528%u3002''),
     (''logoUriLabel'', Text ''Logo URI''),
     (''logoUriHint'', Text ''%u767B%u5F55/%u540C%u610F%u9875%u5C55%u793A%u7684%u54C1%u724C%u56FE%u7247%u3002%u4EC5%u5141%u8BB8 https%uFF08%u5F00%u53D1%u53EF%u7528%u56DE%u73AF%u5730%u5740%uFF09%uFF1B%u7559%u7A7A%u8868%u793A%u4E0D%u8BBE%u7F6E%u3002''),
     (''noChangesToSave'', Text ''%u6CA1%u6709%u9700%u8981%u4FDD%u5B58%u7684%u66F4%u6539''),
     (''changesSaved'', Text ''%u66F4%u6539%u5DF2%u4FDD%u5B58''),
     (''scopesUpdated'', Text ''%u4F5C%u7528%u57DF%u5DF2%u66F4%u65B0''),
     (''copiedToClipboard'', Text ''%u5DF2%u590D%u5236%u5230%u526A%u8D34%u677F''),
     (''clientCredentialsScopeNote'', Text ''%u8FD9%u4E9B Scope %u51B3%u5B9A%u4E86%u8BE5%u5E94%u7528%u901A%u8FC7 Client Credentials %u6A21%u5F0F%u83B7%u53D6%u7684 Token %u6743%u9650%u8303%u56F4''),
     (''noScopesAvailable'', Text ''%u7CFB%u7EDF%u4E2D%u6682%u65E0%u53EF%u7528%u4F5C%u7528%u57DF%u3002''),
     (''saveScopes'', Text ''%u4FDD%u5B58%u4F5C%u7528%u57DF''),
     (''secretStoredHint'', Text ''%u5BA2%u6237%u7AEF%u5BC6%u94A5%u5DF2%u5B89%u5168%u5B58%u50A8%uFF0C%u65E0%u6CD5%u67E5%u770B%u3002%u60A8%u53EF%u4EE5%u91CD%u7F6E%u4EE5%u751F%u6210%u65B0%u5BC6%u94A5%u3002''),
     (''resetClientSecret'', Text ''%u91CD%u7F6E%u5BA2%u6237%u7AEF%u5BC6%u94A5''),
     (''noClientSecret'', Text ''%u516C%u5F00%u5BA2%u6237%u7AEF%u6CA1%u6709%u5BA2%u6237%u7AEF%u5BC6%u94A5%u3002''),
     (''newSecretTitle'', Text ''%u65B0%u5BA2%u6237%u7AEF%u5BC6%u94A5''),
     (''applicationNamePlaceholder'', Text ''%u5E94%u7528%u540D%u79F0''),
     (''tabs'', Sub
      [(''info'', Text ''%u4FE1%u606F''),
       (''auth'', Text ''%u8BA4%u8BC1%u914D%u7F6E''),
       (''scopes'', Text ''%u4F5C%u7528%u57DF''),
       (''credentials'', Text ''%u51ED%u8BC1'')]),
     (''grantTypeOptions'', Sub
      [(''authorizationCode'', Sub
        [(''label'', Text ''%u6388%u6743%u7801''),
         (''description'', Text ''%u6807%u51C6%u6388%u6743%u7801%u6D41%u7A0B%uFF08%u63A8%u8350%uFF09'')]),
       (''refreshToken'', Sub
        [(''label'', Text ''%u5237%u65B0%u4EE4%u724C''),
         (''description'', Text ''%u5141%u8BB8%u5237%u65B0%u8BBF%u95EE%u4EE4%u724C'')]),
       (''clientCredentials'', Sub
        [(''label'', Text ''%u5BA2%u6237%u7AEF%u51ED%u8BC1''),
         (''description'', Text ''%u670D%u52A1%u95F4%u901A%u4FE1%uFF08M2M%uFF09'')]),
       (''deviceCode'', Sub
        [(''label'', Text ''%u8BBE%u5907%u7801''),
         (''description'', Text ''%u65E0%u6D4F%u89C8%u5668%u8BBE%u5907%u6388%u6743'')])])]"

definition console_zh_admin_organizations :: dict where
  "console_zh_admin_organizations = Sub
    [(''title'', Text ''%u7EC4%u7EC7%u7BA1%u7406''),
     (''create'', Text ''+ %u521B%u5EFA%u7EC4%u7EC7''),
     (''intro'', Text ''%u7CFB%u7EDF%u5168%u90E8%u7EC4%u7EC7%u3002%u6210%u5458%u5173%u7CFB%u7531%u7EC4%u7EC7%u6240%u6709%u8005%u5728%u7528%u6237%u95E8%u6237%u4E2D%u7BA1%u7406%u3002''),
     (''slug'', Text ''Slug''),
     (''name'', Text ''%u540D%u79F0''),
     (''logoUri'', Text ''Logo URI%uFF08%u53EF%u9009%uFF09''),
     (''primaryColor'', Text ''%u4E3B%u8272%uFF08%u53EF%u9009%uFF09''),
     (''issuerOverride'', Text ''Issuer %u8986%u76D6''),
     (''submit'', Text ''%u521B%u5EFA''),
     (''created'', Text ''%u7EC4%u7EC7%u5DF2%u521B%u5EFA''),
     (''emptyTitle'', Text ''%u6682%u65E0%u7EC4%u7EC7''),
     (''emptyDescription'', Text ''%u5728%u6B64%u521B%u5EFA%u7EC4%u7EC7%uFF0C%u6216%u8BA9%u7528%u6237%u5728%u95E8%u6237%u4E2D%u81EA%u52A9%u521B%u5EFA%u3002''),
     (''orgDetail'', Sub
      [(''manage'', Text ''%u7BA1%u7406''),
       (''editTitle'', Text ''%u7F16%u8F91%u7EC4%u7EC7%uFF08slug %u4E0D%u53EF%u4FEE%u6539%uFF09''),
       (''name'', Text ''%u540D%u79F0''),
       (''primaryColor'', Text ''%u4E3B%u8272''),
       (''saved'', Text ''%u7EC4%u7EC7%u5DF2%u66F4%u65B0''),
       (''noChanges'', Text ''%u6CA1%u6709%u9700%u8981%u4FDD%u5B58%u7684%u66F4%u6539''),
       (''membersTitle'', Text ''%u6210%u5458''),
       (''userId'', Text ''%u7528%u6237 ID''),
       (''username'', Text ''%u7528%u6237%u540D''),
       (''role'', Text ''%u89D2%u8272''),
       (''remove'', Text ''%u79FB%u9664''),
       (''removeConfirm'', Text ''%u5C06%u6210%u5458%u201C{user}%u201D%u79FB%u51FA%u8BE5%u7EC4%u7EC7%uFF1F''),
       (''memberRemoved'', Text ''%u6210%u5458%u5DF2%u79FB%u9664''),
       (''noMembers'', Text ''%u6682%u65E0%u6210%u5458''),
       (''transferTo'', Text ''%u79FB%u4EA4%u6240%u6709%u6743%u81F3%u7528%u6237 ID''),
       (''transfer'', Text ''%u79FB%u4EA4''),
       (''transferConfirm'', Text ''%u5C06%u6240%u6709%u8005%u5E2D%u4F4D%u79FB%u4EA4%u7ED9%u7528%u6237 #{id}%uFF1F''),
       (''transferred'', Text ''%u6240%u6709%u6743%u5DF2%u79FB%u4EA4''),
       (''transferInvalid'', Text ''%u8BF7%u8F93%u5165%u6709%u6548%u7684%u6574%u6570%u7528%u6237 ID''),
       (''dangerTitle'', Text ''%u5371%u9669%u533A''),
       (''dangerHint'', Text ''%u8F6F%u5220%u9664%u8BE5%u7EC4%u7EC7%uFF1Aslug %u5C06%u88AB%u5360%u4F4D%uFF08%u4E0D%u53EF%u91CD%u65B0%u6CE8%u518C%uFF09%u3001%u5F85%u5904%u7406%u9080%u8BF7%u4E0E%u7EE7%u4EFB%u63D0%u540D%u4F5C%u5E9F%u3001%u7EC4%u7EC7%u6388%u6743%u64A4%u9500%u3001%u540D%u4E0B%u5E94%u7528%u6302%u8D77%u3001%u5168%u90E8%u6210%u5458%u5173%u7CFB%u89E3%u9664%u3002''),
       (''delete'', Text ''%u5220%u9664%u7EC4%u7EC7''),
       (''deleteConfirm'', Text ''%u5220%u9664%u7EC4%u7EC7%u201C{org}%u201D%uFF1Fslug %u5C06%u65E0%u6CD5%u590D%u7528%uFF0C%u540D%u4E0B%u5E94%u7528%u7ACB%u5373%u505C%u6B62%u5DE5%u4F5C%u3002'')])]"

definition console_zh_admin_users :: dict where
  "console_zh_admin_users = Sub
    [(''title'', Text ''%u7528%u6237%u7BA1%u7406''),
     (''create'', Text ''+ %u521B%u5EFA%u7528%u6237''),
     (''createTitle'', Text ''%u521B%u5EFA%u7528%u6237''),
     (''searchPlaceholder'', Text ''%u641C%u7D22%u7528%u6237%u540D%u6216%u90AE%u7BB1%u2026''),
     (''allRoles'', Text ''%u5168%u90E8%u89D2%u8272''),
     (''allStatus'', Text ''%u5168%u90E8%u72B6%u6001''),
     (''locked'', Text ''%u5DF2%u9501%u5B9A''),
     (''active'', Text ''%u6B63%u5E38''),
     (''verified'', Text ''%u5DF2%u9A8C%u8BC1''),
     (''pending'', Text ''%u5F85%u9A8C%u8BC1''),
     (''enabled'', Text ''%u5DF2%u542F%u7528''),
     (''off'', Text ''%u672A%u5F00%u542F''),
     (''assignRoles'', Text ''%u5206%u914D%u89D2%u8272''),
     (''details'', Text ''%u8BE6%u60C5''),
     (''paginationSummary'', Text ''{total} %u4E2A%u7528%u6237 %u00B7 %u7B2C {current} / {totalPages} %u9875''),
     (''usernameRequired'', Text ''%u7528%u6237%u540D *''),
     (''passwordRequired'', Text ''%u5BC6%u7801 *''),
     (''rolesCommaSeparated'', Text ''%u89D2%u8272%uFF08%u9017%u53F7%u5206%u9694%uFF09''),
     (''defaultRolesHint'', Text ''%u9ED8%u8BA4%uFF1Auser%u3002%u53EF%u7528%uFF1Aadmin%u3001user''),
     (''emailVerified'', Text ''%u90AE%u7BB1%u5DF2%u9A8C%u8BC1''),
     (''mfaEnabled'', Text ''%u5DF2%u542F%u7528 MFA''),
     (''assignRolesTitle'', Text ''%u5206%u914D%u89D2%u8272''),
     (''userPrefix'', Text ''%u7528%u6237%uFF1A''),
     (''availableRolesHint'', Text ''%u53EF%u7528%uFF1Aadmin%u3001user''),
     (''saveRoles'', Text ''%u4FDD%u5B58%u89D2%u8272''),
     (''usernamePasswordRequired'', Text ''%u7528%u6237%u540D%u548C%u5BC6%u7801%u4E3A%u5FC5%u586B%u9879''),
     (''rolesAssigned'', Text ''%u89D2%u8272%u5206%u914D%u6210%u529F''),
     (''userCreated'', Text ''%u7528%u6237%u521B%u5EFA%u6210%u529F''),
     (''createdRolesFailed'', Text ''%u7528%u6237%u5DF2%u521B%u5EFA%uFF0C%u4F46%u4EE5%u4E0B%u89D2%u8272%u5206%u914D%u5931%u8D25%uFF1A{roles}{warning}''),
     (''userDeleted'', Text ''%u7528%u6237%u5220%u9664%u6210%u529F''),
     (''deletedRevokeIssue'', Text ''%u7528%u6237%u5DF2%u5220%u9664%uFF0C%u4F46%u4EE4%u724C%u540A%u9500%u60C5%u51B5%uFF1A{detail}''),
     (''someTokensNotRevoked'', Text ''%u90E8%u5206%u4EE4%u724C%u65E0%u6CD5%u540A%u9500''),
     (''deleteConfirm'', Text ''%u786E%u5B9A%u5220%u9664%u7528%u6237%u201C{name}%u201D%uFF1F%u6B64%u64CD%u4F5C%u65E0%u6CD5%u64A4%u9500%u3002''),
     (''backToList'', Text ''%u2190 %u8FD4%u56DE%u7528%u6237%u5217%u8868''),
     (''enableAccount'', Text ''%u542F%u7528%u8D26%u6237''),
     (''disableAccount'', Text ''%u505C%u7528%u8D26%u6237''),
     (''emailVerifiedBadge'', Text ''%u90AE%u7BB1%u5DF2%u9A8C%u8BC1''),
     (''emailPendingBadge'', Text ''%u90AE%u7BB1%u5F85%u9A8C%u8BC1''),
     (''mfaBadgeEnabled'', Text ''MFA %u5DF2%u542F%u7528''),
     (''mfaBadgeOff'', Text ''MFA %u672A%u5F00%u542F''),
     (''accountLocked'', Text ''%u8D26%u6237%u5DF2%u9501%u5B9A''),
     (''createdAt'', Text ''%u521B%u5EFA%u65F6%u95F4''),
     (''noChanges'', Text ''%u6CA1%u6709%u66F4%u6539''),
     (''userUpdated'', Text ''%u7528%u6237%u66F4%u65B0%u6210%u529F''),
     (''rolesUpdated'', Text ''%u89D2%u8272%u66F4%u65B0%u6210%u529F''),
     (''userDisabled'', Text ''%u7528%u6237%u5DF2%u505C%u7528''),
     (''userEnabled'', Text ''%u7528%u6237%u5DF2%u542F%u7528''),
     (''disableConfirm'', Text ''%u786E%u5B9A%u505C%u7528%u7528%u6237%u201C{name}%u201D%uFF1F%u8BE5%u7528%u6237%u5C06%u65E0%u6CD5%u767B%u5F55%u3002''),
     (''failedLoginCount'', Text ''%u767B%u5F55%u5931%u8D25%u6B21%u6570''),
     (''accountStatus'', Text ''%u8D26%u6237%u72B6%u6001''),
     (''lockedUntil'', Text ''%u8D26%u6237%u9501%u5B9A%u81F3%uFF1A{time}''),
     (''unlockAccount'', Text ''%u89E3%u9501%u8D26%u6237''),
     (''mfaStatus'', Text ''MFA %u72B6%u6001''),
     (''mfaFullEnabled'', Text ''%u5DF2%u542F%u7528%u53CC%u91CD%u9A8C%u8BC1''),
     (''mfaNotConfigured'', Text ''%u672A%u914D%u7F6E%u53CC%u91CD%u9A8C%u8BC1''),
     (''rolesTabIntro'', Text ''%u5206%u914D%u89D2%u8272%u4EE5%u63A7%u5236%u8BE5%u7528%u6237%u53EF%u4EE5%u8BBF%u95EE%u7684%u5185%u5BB9%u3002''),
     (''noRolesAvailable'', Text ''%u6682%u65E0%u53EF%u7528%u89D2%u8272%u3002''),
     (''userCount'', Text ''{count} %u4F4D%u7528%u6237''),
     (''tabs'', Sub
      [(''info'', Text ''%u4FE1%u606F''),
       (''security'', Text ''%u5B89%u5168''),
       (''roles'', Text ''%u89D2%u8272'')])]"

definition console_zh_admin_roles :: dict where
  "console_zh_admin_roles = Sub
    [(''title'', Text ''%u89D2%u8272%u7BA1%u7406''),
     (''create'', Text ''+ %u521B%u5EFA%u89D2%u8272''),
     (''createTitle'', Text ''%u521B%u5EFA%u89D2%u8272''),
     (''users'', Text ''%u7528%u6237%u6570''),
     (''noneFound'', Text ''%u672A%u627E%u5230%u89D2%u8272''),
     (''namePlaceholder'', Text ''%u4F8B%u5982 editor''),
     (''optionalDescription'', Text ''%u53EF%u9009%u63CF%u8FF0''),
     (''created'', Text ''%u89D2%u8272%u201C{name}%u201D%u5DF2%u521B%u5EFA''),
     (''updated'', Text ''%u89D2%u8272%u5DF2%u66F4%u65B0''),
     (''deleted'', Text ''%u89D2%u8272%u201C{name}%u201D%u5DF2%u5220%u9664''),
     (''deleteConfirm'', Text ''%u786E%u5B9A%u5220%u9664%u89D2%u8272%u201C{name}%u201D%uFF1F%u6B64%u64CD%u4F5C%u65E0%u6CD5%u64A4%u9500%u3002''),
     (''editTitle'', Text ''%u7F16%u8F91%u89D2%u8272%uFF1A{name}''),
     (''permissions'', Text ''%u6743%u9650%uFF08%u59D4%u6258%u7BA1%u7406%uFF09''),
     (''permissionsHint'', Text ''%u4FDD%u5B58%u65F6%u5168%u91CF%u66FF%u6362%uFF1B%u65E0%u6743%u9650%u7684%u89D2%u8272%u4EC5%u4FDD%u7559%u4E0E scope %u65E0%u5173%u7684%u8BBF%u95EE%u3002'')]"

definition console_zh_admin_scopes :: dict where
  "console_zh_admin_scopes = Sub
    [(''title'', Text ''%u4F5C%u7528%u57DF%u7BA1%u7406''),
     (''create'', Text ''+ %u521B%u5EFA%u4F5C%u7528%u57DF''),
     (''createTitle'', Text ''%u521B%u5EFA%u4F5C%u7528%u57DF''),
     (''mappedRole'', Text ''%u6620%u5C04%u89D2%u8272''),
     (''flags'', Text ''%u6807%u8BB0''),
     (''defaultBadge'', Text ''%u9ED8%u8BA4''),
     (''adminOnlyBadge'', Text ''%u4EC5%u7BA1%u7406%u5458''),
     (''noneFound'', Text ''%u672A%u627E%u5230%u4F5C%u7528%u57DF''),
     (''namePlaceholder'', Text ''%u4F8B%u5982 reports:read''),
     (''descriptionPlaceholder'', Text ''%u8BE5%u4F5C%u7528%u57DF%u6388%u4E88%u7684%u8BBF%u95EE%u6743%u9650''),
     (''descriptionZh'', Text ''%u63CF%u8FF0%uFF08zh-CN%uFF09''),
     (''descriptionZhPlaceholder'', Text ''%u4E2D%u6587%u9875%u9762%u540C%u610F%u5C4F%u5C55%u793A%u7684%u6587%u6848''),
     (''mappedRolePlaceholder'', Text ''%u4F8B%u5982 user''),
     (''defaultScope'', Text ''%u9ED8%u8BA4%u4F5C%u7528%u57DF''),
     (''created'', Text ''%u4F5C%u7528%u57DF%u201C{name}%u201D%u5DF2%u521B%u5EFA''),
     (''updated'', Text ''%u4F5C%u7528%u57DF%u5DF2%u66F4%u65B0''),
     (''deleted'', Text ''%u4F5C%u7528%u57DF%u201C{name}%u201D%u5DF2%u5220%u9664''),
     (''deleteConfirm'', Text ''%u786E%u5B9A%u5220%u9664%u4F5C%u7528%u57DF%u201C{name}%u201D%uFF1F%u6B64%u64CD%u4F5C%u65E0%u6CD5%u64A4%u9500%u3002''),
     (''editTitle'', Text ''%u7F16%u8F91%u4F5C%u7528%u57DF%uFF1A'')]"

definition console_zh_admin_logs :: dict where
  "console_zh_admin_logs = Sub
    [(''title'', Text ''%u5BA1%u8BA1%u65E5%u5FD7''),
     (''actionLabel'', Text ''%u64CD%u4F5C%uFF1A''),
     (''outcomeLabel'', Text ''%u7ED3%u679C%uFF1A''),
     (''actorIdLabel'', Text ''%u53C2%u4E0E%u8005 ID%uFF1A''),
     (''actionPlaceholder'', Text ''%u4F8B%u5982 login_success''),
     (''anyOutcome'', Text ''%uFF08%u4EFB%u610F%uFF09''),
     (''actorPlaceholder'', Text ''%u6309%u53C2%u4E0E%u8005 UUID %u7B5B%u9009''),
     (''emptyTitle'', Text ''%u5C1A%u65E0%u5BA1%u8BA1%u65E5%u5FD7''),
     (''emptyDescription'', Text ''%u7BA1%u7406%u5458%u548C%u670D%u52A1%u7684%u64CD%u4F5C%u4E8B%u4EF6%u5C06%u663E%u793A%u5728%u8FD9%u91CC%u3002''),
     (''time'', Text ''%u65F6%u95F4''),
     (''action'', Text ''%u64CD%u4F5C''),
     (''actor'', Text ''%u53C2%u4E0E%u8005''),
     (''target'', Text ''%u76EE%u6807''),
     (''outcome'', Text ''%u7ED3%u679C''),
     (''ip'', Text ''IP''),
     (''pageOf'', Text ''%u7B2C {page} %u9875'')]"

definition console_zh_admin_tokens :: dict where
  "console_zh_admin_tokens = Sub
    [(''title'', Text ''%u4EE4%u724C%u7BA1%u7406''),
     (''revokeAll'', Text ''%u6279%u91CF%u64A4%u9500%u2026''),
     (''noClientsInResults'', Text ''%u5F53%u524D%u7ED3%u679C%u4E2D%u6CA1%u6709%u5BA2%u6237%u7AEF''),
     (''clientIdLabel'', Text ''%u5BA2%u6237%u7AEF ID%uFF1A''),
     (''userIdLabel'', Text ''%u7528%u6237 ID%uFF1A''),
     (''clientFilterPlaceholder'', Text ''%u6309 client_id %u7B5B%u9009''),
     (''userFilterPlaceholder'', Text ''%u6309 user_id %u7B5B%u9009''),
     (''revokeAllForUserLabel'', Text ''%u64A4%u9500%u6307%u5B9A%u7528%u6237%u5168%u90E8%u4EE4%u724C''),
     (''revokeAllForUser'', Text ''%u540A%u9500%u8BE5%u7528%u6237%u5168%u90E8%u4EE4%u724C''),
     (''emptyTitle'', Text ''%u672A%u627E%u5230%u6D3B%u8DC3%u4EE4%u724C''),
     (''emptyDescription'', Text ''%u5DF2%u7B7E%u53D1%u7684%u8BBF%u95EE%u4EE4%u724C%u5C06%u663E%u793A%u5728%u8FD9%u91CC%u3002''),
     (''token'', Text ''%u4EE4%u724C''),
     (''client'', Text ''%u5BA2%u6237%u7AEF''),
     (''user'', Text ''%u7528%u6237''),
     (''scope'', Text ''%u4F5C%u7528%u57DF''),
     (''expires'', Text ''%u8FC7%u671F%u65F6%u95F4''),
     (''revoke'', Text ''%u540A%u9500''),
     (''pageTotal'', Text ''%u7B2C {page} %u9875 %u00B7 %u5171 {total} %u6761''),
     (''revokeTokenConfirm'', Text ''%u786E%u5B9A%u540A%u9500%u4EE5%u201C{prefix}%u201D%u5F00%u5934%u7684%u4EE4%u724C%uFF1F''),
     (''revokeClientConfirm'', Text ''%u786E%u5B9A%u540A%u9500%u5BA2%u6237%u7AEF%u201C{name}%u201D%u7684%u5168%u90E8%u4EE4%u724C%uFF1F''),
     (''revokeUserConfirm'', Text ''%u786E%u5B9A%u540A%u9500%u7528%u6237%u201C{name}%u201D%u7684%u5168%u90E8%u4EE4%u724C%uFF1F''),
     (''revokedCountForClient'', Text ''%u5DF2%u4E3A%u5BA2%u6237%u7AEF%u201C{name}%u201D%u540A%u9500 {count} %u4E2A%u4EE4%u724C''),
     (''revokedCountForUser'', Text ''%u5DF2%u4E3A%u7528%u6237%u201C{name}%u201D%u540A%u9500 {count} %u4E2A%u4EE4%u724C'')]"

definition console_zh_admin_devices :: dict where
  "console_zh_admin_devices = Sub
    [(''title'', Text ''%u8BBE%u5907%u5BA1%u6279''),
     (''subtitle'', Text ''%u8F93%u5165%u8BBE%u5907%u5C4F%u5E55%u4E0A%u663E%u793A%u7684%u4EE3%u7801%uFF0C%u5BA1%u6279%u8BBE%u5907%u767B%u5F55%u8BF7%u6C42%u3002''),
     (''approvedTitle'', Text ''%u8BBE%u5907%u5DF2%u5BA1%u6279''),
     (''approvedBody'', Text ''%u60A8%u53EF%u4EE5%u5173%u95ED%u6B64%u9875%u9762%u5E76%u8FD4%u56DE%u8BBE%u5907%u3002''),
     (''codeLabel'', Text ''%u8BBE%u5907%u7801''),
     (''codePlaceholder'', Text ''%u4F8B%u5982 WDJB-MJHT''),
     (''approve'', Text ''%u5BA1%u6279%u8BBE%u5907''),
     (''approving'', Text ''%u5BA1%u6279%u4E2D%u2026''),
     (''notApproved'', Text ''%u8BBE%u5907%u7801%u65E0%u6CD5%u901A%u8FC7%u5BA1%u6279'')]"

definition console_zh_admin_settings :: dict where
  "console_zh_admin_settings = Sub
    [(''title'', Text ''%u8BBE%u7F6E%u4E0E%u4F5C%u7528%u57DF''),
     (''oauth2Scopes'', Text ''OAuth2 %u4F5C%u7528%u57DF''),
     (''mappedRole'', Text ''%u6620%u5C04%u89D2%u8272''),
     (''defaultColumn'', Text ''%u9ED8%u8BA4''),
     (''adminOnlyColumn'', Text ''%u4EC5%u7BA1%u7406%u5458''),
     (''oidcSigningKeys'', Text ''OIDC %u7B7E%u540D%u5BC6%u94A5''),
     (''keyCount'', Text ''%u5DF2%u52A0%u8F7D%u5BC6%u94A5%u6570''),
     (''activeKeyId'', Text ''%u5F53%u524D%u7B7E%u540D%u5BC6%u94A5 ID%uFF08kid%uFF09''),
     (''activeKey'', Text ''%u5F53%u524D''),
     (''keyId'', Text ''%u5BC6%u94A5 ID%uFF08kid%uFF09''),
     (''keyType'', Text ''%u5BC6%u94A5%u7C7B%u578B%uFF08kty%uFF09''),
     (''algorithm'', Text ''%u7B97%u6CD5%uFF08alg%uFF09''),
     (''usage'', Text ''%u7528%u9014%uFF08use%uFF09''),
     (''status'', Text ''%u72B6%u6001''),
     (''jwksEndpoint'', Text ''JWKS %u7AEF%u70B9''),
     (''discoveryEndpoint'', Text ''%u53D1%u73B0%u7AEF%u70B9''),
     (''loadFailed'', Text ''%u52A0%u8F7D OIDC %u5BC6%u94A5%u4FE1%u606F%u5931%u8D25%u3002'')]"

definition console_zh_admin_emailTemplates :: dict where
  "console_zh_admin_emailTemplates = Sub
    [(''title'', Text ''%u90AE%u4EF6%u6A21%u677F''),
     (''subtitle'', Text ''%u9A8C%u8BC1%u3001%u5BC6%u7801%u91CD%u7F6E%u4E0E%u7EC4%u7EC7%u9080%u8BF7%u90AE%u4EF6%u7684%u6A21%u677F%u3002%u53D8%u91CF%u7528%u53CC%u82B1%u62EC%u53F7%u5360%u4F4D%u7B26%u8868%u793A%uFF1B%u4FDD%u5B58%u65F6%u6821%u9A8C%u7981%u7528%u6807%u7B7E%u4E0E%u5916%u94FE%u57DF%u540D%u767D%u540D%u5355%u3002''),
     (''key'', Text ''%u6A21%u677F%u952E''),
     (''locale'', Text ''%u8BED%u8A00''),
     (''subject'', Text ''%u4E3B%u9898''),
     (''updatedAt'', Text ''%u66F4%u65B0%u65F6%u95F4''),
     (''plainText'', Text ''%u7EAF%u6587%u672C%u6B63%u6587''),
     (''policyHint'', Text ''%u5185%u5BB9%u7B56%u7565%uFF1A%u7981%u6B62 script/iframe/form %u7B49%u6807%u7B7E%uFF1B%u5916%u94FE%u57DF%u540D%u5FC5%u987B%u5728 email.allowed_link_domains %u914D%u7F6E%u4E2D%uFF1B%u53D8%u91CF%u503C%u53D1%u9001%u65F6%u81EA%u52A8 HTML %u8F6C%u4E49%u3002''),
     (''empty'', Text ''%u6682%u65E0%u6A21%u677F%uFF08%u9700%u8981 PostgreSQL %u5B58%u50A8%uFF09''),
     (''saved'', Text ''%u6A21%u677F%u5DF2%u4FDD%u5B58''),
     (''testSend'', Text ''%u6D4B%u8BD5%u53D1%u9001''),
     (''testRecipientPlaceholder'', Text ''%u6D4B%u8BD5%u6536%u4EF6%u90AE%u7BB1%uFF08%u9ED8%u8BA4%u672C%u4EBA%uFF09''),
     (''testRecipientHint'', Text ''%u6536%u4EF6%u4EBA%u987B%u4E3A%u672C%u4EBA%u90AE%u7BB1%u6216 email.test_recipients %u914D%u7F6E%u9879''),
     (''testRecipientRequired'', Text ''%u8BF7%u5148%u586B%u5199%u6D4B%u8BD5%u6536%u4EF6%u90AE%u7BB1''),
     (''testSent'', Text ''%u6D4B%u8BD5%u90AE%u4EF6%u5DF2%u53D1%u9001%uFF08%u4E3B%u9898%uFF1A{subject}%uFF09''),
     (''editTitle'', Text ''%u7F16%u8F91%u6A21%u677F {key} / {locale}'')]"

definition console_zh_admin :: dict where
  "console_zh_admin = Sub
    [(''dashboard'', console_zh_admin_dashboard),
     (''applications'', console_zh_admin_applications),
     (''organizations'', console_zh_admin_organizations),
     (''users'', console_zh_admin_users),
     (''roles'', console_zh_admin_roles),
     (''scopes'', console_zh_admin_scopes),
     (''logs'', console_zh_admin_logs),
     (''tokens'', console_zh_admin_tokens),
     (''devices'', console_zh_admin_devices),
     (''settings'', console_zh_admin_settings),
     (''emailTemplates'', console_zh_admin_emailTemplates)]"

definition console_zh :: dict where
  "console_zh = Sub
    [(''ui'', console_zh_ui), (''common'', console_zh_common), (''nav'', console_zh_nav), (''adminLayout'', console_zh_adminLayout), (''login'', console_zh_login), (''admin'', console_zh_admin)]"

subsection \<open>The two languages\<close>

text \<open>Namespace by namespace, the tables have the same keys and every pair of texts the same placeholders.\<close>

lemma console_ui_lockstep [dict_pairs]: "lockstep console_en_ui console_zh_ui"
  by code_simp

lemma console_common_lockstep [dict_pairs]: "lockstep console_en_common console_zh_common"
  by code_simp

lemma console_nav_lockstep [dict_pairs]: "lockstep console_en_nav console_zh_nav"
  by code_simp

lemma console_adminLayout_lockstep [dict_pairs]: "lockstep console_en_adminLayout console_zh_adminLayout"
  by code_simp

lemma console_login_lockstep [dict_pairs]: "lockstep console_en_login console_zh_login"
  by code_simp

lemma console_admin_dashboard_lockstep [dict_pairs]: "lockstep console_en_admin_dashboard console_zh_admin_dashboard"
  by code_simp

lemma console_admin_applications_lockstep [dict_pairs]: "lockstep console_en_admin_applications console_zh_admin_applications"
  by code_simp

lemma console_admin_organizations_lockstep [dict_pairs]: "lockstep console_en_admin_organizations console_zh_admin_organizations"
  by code_simp

lemma console_admin_users_lockstep [dict_pairs]: "lockstep console_en_admin_users console_zh_admin_users"
  by code_simp

lemma console_admin_roles_lockstep [dict_pairs]: "lockstep console_en_admin_roles console_zh_admin_roles"
  by code_simp

lemma console_admin_scopes_lockstep [dict_pairs]: "lockstep console_en_admin_scopes console_zh_admin_scopes"
  by code_simp

lemma console_admin_logs_lockstep [dict_pairs]: "lockstep console_en_admin_logs console_zh_admin_logs"
  by code_simp

lemma console_admin_tokens_lockstep [dict_pairs]: "lockstep console_en_admin_tokens console_zh_admin_tokens"
  by code_simp

lemma console_admin_devices_lockstep [dict_pairs]: "lockstep console_en_admin_devices console_zh_admin_devices"
  by code_simp

lemma console_admin_settings_lockstep [dict_pairs]: "lockstep console_en_admin_settings console_zh_admin_settings"
  by code_simp

lemma console_admin_emailTemplates_lockstep [dict_pairs]: "lockstep console_en_admin_emailTemplates console_zh_admin_emailTemplates"
  by code_simp

lemma console_ui_wf [dict_pairs]: "dict_wf console_en_ui"
  by code_simp

lemma console_common_wf [dict_pairs]: "dict_wf console_en_common"
  by code_simp

lemma console_nav_wf [dict_pairs]: "dict_wf console_en_nav"
  by code_simp

lemma console_adminLayout_wf [dict_pairs]: "dict_wf console_en_adminLayout"
  by code_simp

lemma console_login_wf [dict_pairs]: "dict_wf console_en_login"
  by code_simp

lemma console_admin_dashboard_wf [dict_pairs]: "dict_wf console_en_admin_dashboard"
  by code_simp

lemma console_admin_applications_wf [dict_pairs]: "dict_wf console_en_admin_applications"
  by code_simp

lemma console_admin_organizations_wf [dict_pairs]: "dict_wf console_en_admin_organizations"
  by code_simp

lemma console_admin_users_wf [dict_pairs]: "dict_wf console_en_admin_users"
  by code_simp

lemma console_admin_roles_wf [dict_pairs]: "dict_wf console_en_admin_roles"
  by code_simp

lemma console_admin_scopes_wf [dict_pairs]: "dict_wf console_en_admin_scopes"
  by code_simp

lemma console_admin_logs_wf [dict_pairs]: "dict_wf console_en_admin_logs"
  by code_simp

lemma console_admin_tokens_wf [dict_pairs]: "dict_wf console_en_admin_tokens"
  by code_simp

lemma console_admin_devices_wf [dict_pairs]: "dict_wf console_en_admin_devices"
  by code_simp

lemma console_admin_settings_wf [dict_pairs]: "dict_wf console_en_admin_settings"
  by code_simp

lemma console_admin_emailTemplates_wf [dict_pairs]: "dict_wf console_en_admin_emailTemplates"
  by code_simp

lemma console_dict_wf: "dict_wf console_en"
  by (simp add: console_en_admin_def console_en_def dict_pairs)

interpretation console_dict: dictionaries console_en console_zh
  by unfold_locales (simp add: console_en_admin_def console_zh_admin_def console_en_def console_zh_def dict_pairs)

end
