(* ===== verification/AdminOps.thy ===== *)
theory AdminOps
  imports Async AdminAuth
begin

section \<open>The operations pages of the admin console\<close>

text \<open>
  \<open>TokensPage.vue\<close>, \<open>LogsPage.vue\<close>, \<open>SettingsPage.vue\<close>, \<open>DashboardPage.vue\<close>, the two organization pages,
  \<open>EmailTemplatesPage.vue\<close>, \<open>DeviceApprovePage.vue\<close> and \<open>LoginPage.vue\<close> of the console.  Formatting by the
  locale of the browser is left out: \<open>time_source\<close> is the instant that is formatted.
\<close>

subsection \<open>TokensPage\<close>

datatype tokens_action = RevokeToken string | RevokeByClient string | RevokeByUser string

record tokens_page = page_refs +
  tk_tokens :: jsval
  tk_page :: int
  tk_perPage :: int
  tk_total :: jsval
  tk_clientIdFilter :: string
  tk_userIdFilter :: string
  tk_showBulkMenu :: bool
  tk_bulkUserId :: string
  tk_confirm :: "tokens_action confirm"

definition tokens_setup :: tokens_page where
  "tokens_setup = \<lparr>pg_loading = True, pg_saving = False, pg_success = [], pg_error = JNull, tk_tokens = JArr [], tk_page = 1, tk_perPage = 50,
     tk_total = JNum 0, tk_clientIdFilter = [], tk_userIdFilter = [], tk_showBulkMenu = False, tk_bulkUserId = [],
     tk_confirm = \<lparr>cf_open = False, cf_message = [], cf_action = None\<rparr>\<rparr>"

text \<open>\<open>Array.from(new Set(...))\<close> keeps the first occurrence of each value.\<close>

definition uniqueClientIds :: "tokens_page \<Rightarrow> jsval list" where
  "uniqueClientIds s = (case tk_tokens s of
     JArr xs \<Rightarrow> rev (remdups (rev (filter truthy (map (\<lambda>x. getprop x ''client_id'') xs)))) | _ \<Rightarrow> [])"

definition tokens_query :: "tokens_page \<Rightarrow> api_call" where
  "tokens_query s = get_query ''/api/admin/tokens''
     ([(''page'', int_digits (tk_page s)), (''per_page'', int_digits (tk_perPage s))] @
      (if tk_clientIdFilter s \<noteq> [] then [(''client_id'', tk_clientIdFilter s)] else []) @
      (if tk_userIdFilter s \<noteq> [] then [(''user_id'', tk_userIdFilter s)] else []))"

definition fetchTokens :: "string \<Rightarrow> tokens_page co" where
  "fetchTokens cur = fetching tokens_query
     (\<lambda>data s. s\<lparr>tk_tokens := admin_list ''tokens'' data, tk_total := js_or (getprop data ''total'') (JNum 0)\<rparr>)
     (\<lambda>e. put_error (admin_normalized cur e))"

definition tokens_applyFilters :: "string \<Rightarrow> tokens_page co" where
  "tokens_applyFilters cur = Do (\<lambda>s. s\<lparr>tk_page := 1\<rparr>) (fetchTokens cur)"

definition tokens_clearFilters :: "string \<Rightarrow> tokens_page co" where
  "tokens_clearFilters cur = Do (\<lambda>s. s\<lparr>tk_clientIdFilter := [], tk_userIdFilter := [], tk_page := 1\<rparr>) (fetchTokens cur)"

definition showConfirm :: "string \<Rightarrow> tokens_action \<Rightarrow> tokens_page \<Rightarrow> tokens_page" where
  "showConfirm message action s = s\<lparr>tk_confirm := askConfirm message action (tk_confirm s)\<rparr>"

definition revokeToken :: "translate \<Rightarrow> string \<Rightarrow> tokens_page co" where
  "revokeToken t prefix = Do (showConfirm (t ''admin.tokens.revokeTokenConfirm'' [(''prefix'', prefix)]) (RevokeToken prefix)) Halt"

definition revokeByClient :: "translate \<Rightarrow> string \<Rightarrow> tokens_page co" where
  "revokeByClient t clientId = Do (\<lambda>s. showConfirm (t ''admin.tokens.revokeClientConfirm'' [(''name'', clientId)])
     (RevokeByClient clientId) (s\<lparr>tk_showBulkMenu := False\<rparr>)) Halt"

definition revokeByUser :: "translate \<Rightarrow> tokens_page co" where
  "revokeByUser t = Branch (\<lambda>s. let userId = js_trim (tk_bulkUserId s) in
     if userId = [] then Halt
     else Do (\<lambda>s. showConfirm (t ''admin.tokens.revokeUserConfirm'' [(''name'', userId)]) (RevokeByUser userId)
       (s\<lparr>tk_showBulkMenu := False\<rparr>)) Halt)"

definition revoked_count :: "jsval \<Rightarrow> string" where
  "revoked_count data = js_String (let c = getprop data ''count'' in if nullish c then JNum 0 else c)"

definition clear_banners :: "tokens_page \<Rightarrow> tokens_page" where
  "clear_banners s = s\<lparr>pg_error := JNull, pg_success := []\<rparr>"

definition doRevokeByUser :: "translate \<Rightarrow> string \<Rightarrow> string \<Rightarrow> tokens_page co" where
  "doRevokeByUser t cur userId = (if userId = [] then Halt
     else Do clear_banners (attempt (send_json ''POST'' ''/api/admin/tokens/revoke-by-user'' (JObj [(''user_id'', JStr userId)]))
       (\<lambda>data. Do (put_success (t ''admin.tokens.revokedCountForUser'' [(''count'', revoked_count data), (''name'', userId)])) (fetchTokens cur))
       (\<lambda>e. Do (put_error (admin_normalized cur e)) Halt)))"

fun tokens_action_co :: "translate \<Rightarrow> string \<Rightarrow> tokens_action \<Rightarrow> tokens_page co" where
  "tokens_action_co t cur (RevokeToken prefix) = Do clear_banners (attempt (plain_call ''DELETE'' (''/api/admin/tokens/'' @ prefix))
     (\<lambda>data. fetchTokens cur) (\<lambda>e. Do (put_error (admin_normalized cur e)) Halt))"
| "tokens_action_co t cur (RevokeByClient clientId) =
     Do clear_banners (attempt (send_json ''POST'' ''/api/admin/tokens/revoke-by-client'' (JObj [(''client_id'', JStr clientId)]))
       (\<lambda>data. Do (put_success (t ''admin.tokens.revokedCountForClient'' [(''count'', revoked_count data), (''name'', clientId)])) (fetchTokens cur))
       (\<lambda>e. Do (put_error (admin_normalized cur e)) Halt))"
| "tokens_action_co t cur (RevokeByUser userId) = doRevokeByUser t cur userId"

definition tokens_runConfirm :: "translate \<Rightarrow> string \<Rightarrow> tokens_page co" where
  "tokens_runConfirm t cur = Branch (\<lambda>s. case take_confirm (tk_confirm s) of
     (act, cf) \<Rightarrow> Do (\<lambda>s. s\<lparr>tk_confirm := cf\<rparr>) (case act of None \<Rightarrow> Halt | Some a \<Rightarrow> tokens_action_co t cur a))"

datatype time_source = NoTime | EpochMs int | DateText string

definition integer_text :: "string \<Rightarrow> bool" where
  "integer_text s = (let ds = (if s \<noteq> [] \<and> hd s = CHR ''-'' then tl s else s) in ds \<noteq> [] \<and> list_all is_digit ds)"

definition tokens_formatTime :: "string \<Rightarrow> time_source" where
  "tokens_formatTime ts =
     (if ts = [] then NoTime
      else (case js_Number ts of
          Some n \<Rightarrow> if integer_text (js_trim ts) then EpochMs (n * 1000) else DateText ts
        | None \<Rightarrow> DateText ts))"

datatype tokens_event =
    TokensMounted | TokensFilter string string | BulkInput string | BulkMenu bool | ApplyTokens | ClearTokens
  | ClickRevoke string | ClickRevokeClient string | ClickRevokeUser | ConfirmTokens | CancelTokens

fun tokens_handlers :: "translate \<Rightarrow> string \<Rightarrow> tokens_event \<Rightarrow> tokens_page co list" where
  "tokens_handlers t cur TokensMounted = [fetchTokens cur]"
| "tokens_handlers t cur (TokensFilter c u) = [Do (\<lambda>s. s\<lparr>tk_clientIdFilter := c, tk_userIdFilter := u\<rparr>) Halt]"
| "tokens_handlers t cur (BulkInput v) = [Do (\<lambda>s. s\<lparr>tk_bulkUserId := v\<rparr>) Halt]"
| "tokens_handlers t cur (BulkMenu b) = [Do (\<lambda>s. s\<lparr>tk_showBulkMenu := b\<rparr>) Halt]"
| "tokens_handlers t cur ApplyTokens = [tokens_applyFilters cur]"
| "tokens_handlers t cur ClearTokens = [tokens_clearFilters cur]"
| "tokens_handlers t cur (ClickRevoke p) = [revokeToken t p]"
| "tokens_handlers t cur (ClickRevokeClient c) = [revokeByClient t c]"
| "tokens_handlers t cur ClickRevokeUser = [revokeByUser t]"
| "tokens_handlers t cur ConfirmTokens = [tokens_runConfirm t cur]"
| "tokens_handlers t cur CancelTokens = [Do (\<lambda>s. s\<lparr>tk_confirm := (tk_confirm s)\<lparr>cf_open := False\<rparr>\<rparr>) Halt]"

subsection \<open>LogsPage and SettingsPage\<close>

record logs_page = page_refs +
  lo_logs :: jsval
  lo_page :: int
  lo_actionFilter :: string
  lo_outcomeFilter :: string
  lo_actorIdFilter :: string

definition logs_query :: "logs_page \<Rightarrow> api_call" where
  "logs_query s = get_query ''/api/admin/logs''
     ([(''page'', int_digits (lo_page s)), (''per_page'', ''50'')] @
      (if lo_actionFilter s \<noteq> [] then [(''action'', lo_actionFilter s)] else []) @
      (if lo_outcomeFilter s \<noteq> [] then [(''outcome'', lo_outcomeFilter s)] else []) @
      (if lo_actorIdFilter s \<noteq> [] then [(''actor_id'', lo_actorIdFilter s)] else []))"

definition fetchLogs :: "string \<Rightarrow> logs_page co" where
  "fetchLogs cur = Do (put_error JNull) (fetching logs_query (\<lambda>data s. s\<lparr>lo_logs := admin_list ''logs'' data\<rparr>)
     (\<lambda>e. put_error (admin_normalized cur e)))"

definition logs_applyFilters :: "string \<Rightarrow> logs_page co" where
  "logs_applyFilters cur = Do (\<lambda>s. s\<lparr>lo_page := 1\<rparr>) (fetchLogs cur)"

definition logs_clearFilters :: "string \<Rightarrow> logs_page co" where
  "logs_clearFilters cur = Do (\<lambda>s. s\<lparr>lo_actionFilter := [], lo_outcomeFilter := [], lo_actorIdFilter := [], lo_page := 1\<rparr>) (fetchLogs cur)"

definition logs_formatTime :: "string \<Rightarrow> time_source" where
  "logs_formatTime ts = (if ts = [] then NoTime else DateText ts)"

record settings_page = page_refs +
  st_scopes :: jsval
  st_oidcKeys :: jsval
  st_oidcLoading :: bool
  st_oidcError :: jsval
  st_copySuccess :: string

definition settings_fetchScopes :: "string \<Rightarrow> settings_page co" where
  "settings_fetchScopes cur = Do (put_error JNull) (fetching (\<lambda>s. plain_call ''GET'' ''/api/admin/scopes'')
     (\<lambda>data s. s\<lparr>st_scopes := admin_list ''scopes'' data\<rparr>) (\<lambda>e. put_error (admin_normalized cur e)))"

definition fetchOidcKeys :: "string \<Rightarrow> settings_page co" where
  "fetchOidcKeys cur = Do (\<lambda>s. s\<lparr>st_oidcLoading := True, st_oidcError := JNull\<rparr>)
     (attempt (plain_call ''GET'' ''/api/admin/oidc/keys'')
       (\<lambda>data. Do (\<lambda>s. s\<lparr>st_oidcKeys := data, st_oidcLoading := False\<rparr>) Halt)
       (\<lambda>e. Do (\<lambda>s. s\<lparr>st_oidcError := admin_normalized cur e, st_oidcLoading := False\<rparr>) Halt))"

definition settings_copy :: "bool \<Rightarrow> string \<Rightarrow> settings_page co" where
  "settings_copy allowed label = Do (\<lambda>s. if allowed then s\<lparr>st_copySuccess := label\<rparr> else s) Halt"

subsection \<open>DashboardPage\<close>

record dashboard_page = page_refs +
  db_health :: jsval
  db_stats :: jsval

definition componentDotClass :: "jsval \<Rightarrow> string" where
  "componentDotClass value = (if \<not> truthy value \<or> value = JStr ''connected'' \<or> value = JStr ''not_configured''
     then ''bg-success-500'' else ''bg-error-500'')"

definition overall :: "translate \<Rightarrow> dashboard_page \<Rightarrow> string \<times> string \<times> string" where
  "overall t s = (let status = getprop (db_health s) ''status'' in
     if status = JStr ''ok'' then (''bg-success-500'', ''text-success-600'', t ''admin.dashboard.healthy'' [])
     else if status = JStr ''degraded'' then (''bg-warning-500'', ''text-warning-600'', t ''admin.dashboard.degraded'' [])
     else (''bg-error-500'', ''text-error-600'', t ''admin.dashboard.unhealthy'' []))"

text \<open>\<open>validateStatus\<close> of the readiness probe accepts a 503 with its body.\<close>

definition probe_body :: "failure + jsval \<Rightarrow> jsval" where
  "probe_body r = (case r of
     Inr data \<Rightarrow> data
   | Inl (Failed (AxHttp code data)) \<Rightarrow> if code = 503 then data else JObj [(''status'', JStr ''error'')]
   | Inl e \<Rightarrow> JObj [(''status'', JStr ''error'')])"

text \<open>\<open>Promise.allSettled\<close> of both requests: no reply of one hides the other.\<close>

definition dashboard_mounted :: "string \<Rightarrow> dashboard_page co" where
  "dashboard_mounted cur = Await (plain_call ''GET'' ''/health/ready'') (\<lambda>h.
     Await (plain_call ''GET'' ''/api/admin/dashboard/stats'') (\<lambda>r.
       Do (\<lambda>s. set_loading False ((case r of Inr data \<Rightarrow> s\<lparr>db_stats := data\<rparr> | Inl e \<Rightarrow> put_error (admin_normalized cur e) s)
         \<lparr>db_health := probe_body h\<rparr>)) Halt))"

subsection \<open>Organizations\<close>

record org_form =
  of_slug :: string
  of_name :: string
  of_logo_uri :: string
  of_primary_color :: string

definition empty_org :: org_form where
  "empty_org = \<lparr>of_slug = [], of_name = [], of_logo_uri = [], of_primary_color = []\<rparr>"

record orgs_page = page_refs +
  ao_orgs :: jsval
  ao_showCreate :: bool
  ao_createForm :: org_form

definition admin_fetchOrgs :: "string \<Rightarrow> orgs_page co" where
  "admin_fetchOrgs cur = fetching (\<lambda>s. plain_call ''GET'' ''/api/admin/organizations'')
     (\<lambda>data s. s\<lparr>ao_orgs := admin_list ''organizations'' data\<rparr>) (\<lambda>e. put_error (admin_normalized cur e))"

definition admin_createOrg :: "translate \<Rightarrow> string \<Rightarrow> orgs_page co" where
  "admin_createOrg t cur = Do (set_saving True) (Branch (\<lambda>s. let f = ao_createForm s in attempt
     (send_json ''POST'' ''/api/admin/organizations'' (JObj [(''slug'', JStr (of_slug f)), (''name'', JStr (of_name f)),
        (''logo_uri'', JStr (of_logo_uri f)), (''primary_color'', JStr (of_primary_color f))]))
     (\<lambda>data. Do (\<lambda>s. put_success (t ''admin.organizations.created'' []) (s\<lparr>ao_showCreate := False, ao_createForm := empty_org\<rparr>))
        (seq (admin_fetchOrgs cur) (Do (set_saving False) Halt)))
     (\<lambda>e. Do (put_error (admin_normalized cur e)) (Do (set_saving False) Halt))))"

datatype org_detail_action = RemoveOrgMember jsval | TransferTo int | DeleteOrg

record org_detail = page_refs +
  od_org :: jsval
  od_name :: jsval
  od_logo_uri :: jsval
  od_primary_color :: jsval
  od_members :: jsval
  od_transferUserId :: jsval
  od_confirm :: "org_detail_action confirm"
  od_goto :: "string option"

definition admin_org_url :: "string \<Rightarrow> string \<Rightarrow> string" where
  "admin_org_url slug rest = ''/api/admin/organizations/'' @ slug @ rest"

definition load_org :: "jsval \<Rightarrow> org_detail \<Rightarrow> org_detail" where
  "load_org data s = s\<lparr>od_org := data, od_name := or_empty (getprop data ''name''), od_logo_uri := or_empty (getprop data ''logo_uri''),
     od_primary_color := or_empty (getprop data ''primary_color'')\<rparr>"

text \<open>The body is assigned to \<open>org\<close> before its members are read, also when it is \<open>null\<close>.\<close>

definition fetchOrg :: "string \<Rightarrow> string \<Rightarrow> org_detail co" where
  "fetchOrg cur slug =
     (let done = Do (set_loading False) Halt; bad = (\<lambda>e. Do (error_only (admin_normalized cur e)) done) in
      Do (set_loading True) (attempt (plain_call ''GET'' (admin_org_url slug []))
        (\<lambda>data. if nullish data then Do (\<lambda>s. s\<lparr>od_org := data\<rparr>) (bad (Threw TypeErr)) else Do (load_org data) done) bad))"

definition fetchMembers :: "string \<Rightarrow> org_detail co" where
  "fetchMembers slug = attempt (plain_call ''GET'' (admin_org_url slug ''/members''))
     (\<lambda>data. Do (\<lambda>s. s\<lparr>od_members := (let m = getprop data ''members'' in if nullish data \<or> nullish m then JArr [] else m)\<rparr>) Halt)
     (\<lambda>e. Do (\<lambda>s. s\<lparr>od_members := JArr []\<rparr>) Halt)"

definition org_changes :: "org_detail \<Rightarrow> (string \<times> jsval) list" where
  "org_changes s = (let o1 = od_org s in
     (if od_name s \<noteq> or_empty (getprop o1 ''name'') then [(''name'', od_name s)] else []) @
     (if od_logo_uri s \<noteq> or_empty (getprop o1 ''logo_uri'') then [(''logo_uri'', od_logo_uri s)] else []) @
     (if od_primary_color s \<noteq> or_empty (getprop o1 ''primary_color'') then [(''primary_color'', od_primary_color s)] else []))"

definition org_saveChanges :: "translate \<Rightarrow> string \<Rightarrow> string \<Rightarrow> org_detail co" where
  "org_saveChanges t cur slug = Branch (\<lambda>s.
     if nullish (od_org s) then Do (error_only (admin_normalized cur (Threw TypeErr))) (Do (set_saving False) Halt)
     else save_form org_changes (\<lambda>body. send_json ''PATCH'' (admin_org_url slug []) (JObj body))
       (success_only (t ''admin.organizations.orgDetail.noChanges'' []))
       (Do (success_only (t ''admin.organizations.orgDetail.saved'' [])) (fetchOrg cur slug))
       (\<lambda>e. error_only (admin_normalized cur e)))"

definition ask_org :: "string \<Rightarrow> org_detail_action \<Rightarrow> org_detail \<Rightarrow> org_detail" where
  "ask_org message action s = s\<lparr>od_confirm := askConfirm message action (od_confirm s)\<rparr>"

definition admin_removeMember :: "translate \<Rightarrow> jsval \<Rightarrow> org_detail co" where
  "admin_removeMember t m = Do (ask_org (t ''admin.organizations.orgDetail.removeConfirm''
     [(''user'', js_String (js_or (getprop m ''username'') (getprop m ''user_id'')))]) (RemoveOrgMember m)) Halt"

definition transferOwnership :: "translate \<Rightarrow> org_detail co" where
  "transferOwnership t = Branch (\<lambda>s. case to_number (od_transferUserId s) of
     Some uid \<Rightarrow> if uid \<le> 0 then Do (error_only (JStr (t ''admin.organizations.orgDetail.transferInvalid'' []))) Halt
       else Do (ask_org (t ''admin.organizations.orgDetail.transferConfirm'' [(''id'', js_String (od_transferUserId s))]) (TransferTo uid)) Halt
   | None \<Rightarrow> Do (error_only (JStr (t ''admin.organizations.orgDetail.transferInvalid'' []))) Halt)"

definition deleteOrg :: "translate \<Rightarrow> string \<Rightarrow> org_detail co" where
  "deleteOrg t slug = Do (\<lambda>s. ask_org (t ''admin.organizations.orgDetail.deleteConfirm''
     [(''org'', js_String (js_or (getprop (od_org s) ''name'') (JStr slug)))]) DeleteOrg s) Halt"

fun org_action_co :: "translate \<Rightarrow> string \<Rightarrow> string \<Rightarrow> org_detail_action \<Rightarrow> org_detail co" where
  "org_action_co t cur slug (RemoveOrgMember m) =
     attempt (plain_call ''DELETE'' (admin_org_url slug (''/members/'' @ js_String (getprop m ''user_id''))))
       (\<lambda>data. Do (success_only (t ''admin.organizations.orgDetail.memberRemoved'' [])) (fetchMembers slug))
       (\<lambda>e. Do (error_only (admin_normalized cur e)) Halt)"
| "org_action_co t cur slug (TransferTo uid) =
     attempt (send_json ''POST'' (admin_org_url slug ''/transfer-ownership'') (JObj [(''user_id'', JNum uid)]))
       (\<lambda>data. Do (\<lambda>s. (success_only (t ''admin.organizations.orgDetail.transferred'' []) s)\<lparr>od_transferUserId := JStr []\<rparr>) (fetchMembers slug))
       (\<lambda>e. Do (error_only (admin_normalized cur e)) Halt)"
| "org_action_co t cur slug DeleteOrg = attempt (plain_call ''DELETE'' (admin_org_url slug []))
       (\<lambda>data. Do (\<lambda>s. s\<lparr>od_goto := Some ''/admin/organizations''\<rparr>) Halt)
       (\<lambda>e. Do (error_only (admin_normalized cur e)) Halt)"

definition org_detail_runConfirm :: "translate \<Rightarrow> string \<Rightarrow> string \<Rightarrow> org_detail co" where
  "org_detail_runConfirm t cur slug = Branch (\<lambda>s. case take_confirm (od_confirm s) of
     (act, cf) \<Rightarrow> Do (\<lambda>s. s\<lparr>od_confirm := cf\<rparr>) (case act of None \<Rightarrow> Halt | Some a \<Rightarrow> org_action_co t cur slug a))"

subsection \<open>EmailTemplatesPage\<close>

record email_page = page_refs +
  em_templates :: jsval
  em_showEditModal :: bool
  em_editing :: jsval
  em_subject :: jsval
  em_body_html :: jsval
  em_body_text :: jsval
  em_testTo :: string

definition template_url :: "jsval \<Rightarrow> string" where
  "template_url row = ''/api/admin/email-templates/'' @ encodeURIComponent (js_String (getprop row ''template_key'')) @ ''/'' @
     encodeURIComponent (js_String (getprop row ''locale''))"

definition fetchTemplates :: "string \<Rightarrow> email_page co" where
  "fetchTemplates cur = fetching (\<lambda>s. plain_call ''GET'' ''/api/admin/email-templates'')
     (\<lambda>data s. s\<lparr>em_templates := (let v = getprop data ''templates'' in if nullish v then JArr [] else v)\<rparr>)
     (\<lambda>e. error_only (admin_normalized cur e))"

definition openEdit :: "jsval \<Rightarrow> email_page co" where
  "openEdit row = Do (\<lambda>s. s\<lparr>em_editing := row, em_subject := getprop row ''subject'', em_body_html := getprop row ''body_html'',
     em_body_text := getprop row ''body_text'', em_showEditModal := True\<rparr>) Halt"

definition saveTemplate :: "translate \<Rightarrow> string \<Rightarrow> email_page co" where
  "saveTemplate t cur = Branch (\<lambda>s. if \<not> truthy (em_editing s) then Halt
     else Do (set_saving True) (attempt
       (send_json ''PUT'' (template_url (em_editing s))
         (JObj [(''subject'', em_subject s), (''body_html'', em_body_html s), (''body_text'', em_body_text s)]))
       (\<lambda>data. Do (\<lambda>s. success_only (t ''admin.emailTemplates.saved'' []) (s\<lparr>em_showEditModal := False\<rparr>))
          (seq (fetchTemplates cur) (Do (set_saving False) Halt)))
       (\<lambda>e. Do (error_only (admin_normalized cur e)) (Do (set_saving False) Halt))))"

definition testSend :: "translate \<Rightarrow> string \<Rightarrow> jsval \<Rightarrow> email_page co" where
  "testSend t cur row = Branch (\<lambda>s.
     if em_testTo s = [] then Do (error_only (JStr (t ''admin.emailTemplates.testRecipientRequired'' []))) Halt
     else (let bad = (\<lambda>e. Do (error_only (admin_normalized cur e)) Halt) in
       attempt (send_json ''POST'' (template_url row @ ''/test-send'') (JObj [(''to'', JStr (em_testTo s))]))
         (\<lambda>data. with_data data bad (Do (success_only (t ''admin.emailTemplates.testSent'' [(''subject'',
            js_String (let v = getprop data ''subject'' in if nullish v then getprop row ''subject'' else v))])) Halt))
         bad))"

subsection \<open>DeviceApprovePage\<close>

record device_page =
  dv_userCode :: string
  dv_approving :: bool
  dv_success :: bool
  dv_error :: jsval

definition device_setup :: "jsval \<Rightarrow> device_page" where
  "device_setup query_code = \<lparr>dv_userCode = (case query_code of JStr s \<Rightarrow> s | _ \<Rightarrow> []), dv_approving = False, dv_success = False, dv_error = JNull\<rparr>"

text \<open>\<open>toUpperCase\<close> of one code unit; two letters leave the range of the model and are written as escapes.\<close>

definition to_upper :: "char \<Rightarrow> string" where
  "to_upper c = (let n = of_char c :: nat in
     if 97 \<le> n \<and> n \<le> 122 \<or> 224 \<le> n \<and> n \<le> 254 \<and> n \<noteq> 247 then [char_of (n - 32)]
     else if n = 223 then ''SS'' else if n = 181 then ''%u039C'' else if n = 255 then ''%u0178'' else [c])"

definition normalizeCode :: "device_page \<Rightarrow> string" where
  "normalizeCode s = concat (map to_upper (js_trim (dv_userCode s)))"

definition approve_call :: "jsval \<Rightarrow> string \<Rightarrow> api_call" where
  "approve_call user code = form_call ''/oauth2/device/approve''
     [(''user_code'', code), (''user_id'', js_String (js_or (getprop user ''id'') (or_empty (getprop user ''sub''))))]"

definition approve :: "translate \<Rightarrow> string \<Rightarrow> jsval \<Rightarrow> device_page co" where
  "approve t cur user = Branch (\<lambda>s. let code = normalizeCode s in
     if code = [] then Halt
     else Do (\<lambda>s. s\<lparr>dv_approving := True, dv_success := False, dv_error := JNull\<rparr>) (attempt (approve_call user code)
       (\<lambda>data. Do (\<lambda>s. (if getprop data ''status'' = JStr ''approved'' then s\<lparr>dv_success := True, dv_userCode := []\<rparr>
            else s\<lparr>dv_success := False, dv_error := JStr (t ''admin.devices.notApproved'' [])\<rparr>)\<lparr>dv_approving := False\<rparr>) Halt)
       (\<lambda>e. Do (\<lambda>s. s\<lparr>dv_error := admin_normalized cur e, dv_approving := False\<rparr>) Halt)))"

subsection \<open>LoginPage\<close>

record 'w login_view =
  av_auth :: "'w admin"
  av_username :: string
  av_password :: string
  av_loading :: bool
  av_showMfa :: bool
  av_mfaToken :: jsval
  av_mfaCode :: string
  av_showPasswordChange :: bool
  av_oldPassword :: string
  av_newPassword :: string
  av_confirmPassword :: string
  av_passwordChangeDone :: bool
  av_goto :: "string option"

definition login_view_setup :: "'w admin \<Rightarrow> jsval \<Rightarrow> 'w login_view" where
  "login_view_setup auth must_change = \<lparr>av_auth = auth, av_username = [], av_password = [], av_loading = False, av_showMfa = False,
     av_mfaToken = JStr [], av_mfaCode = [], av_showPasswordChange = (must_change = JStr ''1''), av_oldPassword = [], av_newPassword = [],
     av_confirmPassword = [], av_passwordChangeDone = False, av_goto = None\<rparr>"

definition admin_handleLogin ::
    "string \<Rightarrow> digest \<Rightarrow> random \<Rightarrow> string \<Rightarrow> 'w api \<Rightarrow> string \<Rightarrow> 'w login_view \<Rightarrow> 'w login_view" where
  "admin_handleLogin origin sha256 rnd uuid api cur v =
     (case admin_login origin sha256 rnd uuid api cur (av_username v) (av_password v) (av_auth v) of
        (r, auth) \<Rightarrow> (let v = v\<lparr>av_auth := auth, av_loading := False\<rparr> in case r of
            AMfaRequired token \<Rightarrow> v\<lparr>av_mfaToken := token, av_showMfa := True\<rparr>
          | APasswordChangeRequired \<Rightarrow> v\<lparr>av_oldPassword := av_password v, av_password := [], av_showPasswordChange := True\<rparr>
          | ASuccess \<Rightarrow> v\<lparr>av_goto := Some ''/''\<rparr>
          | AError e \<Rightarrow> v))"

definition admin_handleMfa :: "string \<Rightarrow> 'w api \<Rightarrow> string \<Rightarrow> 'w login_view \<Rightarrow> 'w login_view" where
  "admin_handleMfa origin api cur v =
     (case admin_verifyMfa origin api cur (js_String (av_mfaToken v)) (av_mfaCode v) (av_auth v) of
        (Inr ASuccess, auth) \<Rightarrow> v\<lparr>av_auth := auth, av_goto := Some ''/''\<rparr>
      | (r, auth) \<Rightarrow> v\<lparr>av_auth := auth\<rparr>)"

definition admin_handlePasswordChange :: "translate \<Rightarrow> 'w api \<Rightarrow> string \<Rightarrow> 'w login_view \<Rightarrow> 'w login_view" where
  "admin_handlePasswordChange t api cur v =
     (if av_newPassword v \<noteq> av_confirmPassword v
      then v\<lparr>av_auth := (av_auth v)\<lparr>ad_error := JStr (t ''login.passwordChange.mismatch'' [])\<rparr>\<rparr>
      else (case admin_changePasswordForced api cur (av_oldPassword v) (av_newPassword v) (av_auth v) of
          (Inr u, auth) \<Rightarrow> v\<lparr>av_auth := auth\<lparr>ad_error := JNull\<rparr>, av_passwordChangeDone := True\<rparr>
        | (Inl e, auth) \<Rightarrow> v\<lparr>av_auth := auth\<rparr>))"

definition backToLogin :: "'w login_view \<Rightarrow> 'w login_view" where
  "backToLogin v = v\<lparr>av_showMfa := False, av_mfaCode := [], av_mfaToken := JStr [], av_showPasswordChange := False,
     av_passwordChangeDone := False, av_auth := (av_auth v)\<lparr>ad_error := JNull\<rparr>\<rparr>"

subsection \<open>Properties\<close>

lemma fetchTokens_quiet: "quiet (fetchTokens cur)"
  unfolding fetchTokens_def by (rule quiet_fetching) (simp add: tokens_query_def)

abbreviation tokens_submits :: "tokens_event \<Rightarrow> bool" where
  "tokens_submits e \<equiv> e = ConfirmTokens"

lemma tokens_action_once: "once (tokens_action_co t cur a)"
  by (cases a) (simp_all add: once_attempt fetchTokens_quiet doRevokeByUser_def)

interpretation tokens: submit_page "tokens_handlers t cur" tokens_submits for t cur
proof
  fix e c
  assume "\<not> tokens_submits e" and "c \<in> set (tokens_handlers t cur e)"
  then show "quiet c"
    by (cases e) (auto simp: fetchTokens_quiet tokens_applyFilters_def tokens_clearFilters_def revokeToken_def revokeByClient_def
        revokeByUser_def Let_def)
next
  fix e :: tokens_event
  assume "tokens_submits e"
  then show "\<exists>c. tokens_handlers t cur e = [c] \<and> once c"
    by (auto simp: tokens_runConfirm_def tokens_action_once split: prod.split option.split)
qed

text \<open>A revocation needs a confirmation and runs once: over every interleaving the tokens page has sent at most as
  many changing requests as its dialog was confirmed, also when it is confirmed twice in a row.\<close>

theorem revocations_confirmed:
  assumes "exec (async_step (tokens_handlers t cur)) es (async_start tokens_setup) = Some a"
  shows "length (filter (\<lambda>q. ac_method q \<noteq> ''GET'') (lv_sent a)) \<le> length (filter (\<lambda>e. e = Act ConfirmTokens) es) \<and>
     (cf_action (tk_confirm (lv_page a)) = None \<longrightarrow> (\<exists>b. async_step (tokens_handlers t cur) (Act ConfirmTokens) a = Some b \<and> lv_sent b = lv_sent a))"
proof (intro conjI impI)
  have eq: "filter (submit_event tokens_submits) es = filter (\<lambda>e. e = Act ConfirmTokens) es"
    by (rule filter_cong [OF refl]) (metis submit_event.simps async_event.exhaust async_event.inject(1) async_event.distinct(1))
  show "length (filter (\<lambda>q. ac_method q \<noteq> ''GET'') (lv_sent a)) \<le> length (filter (\<lambda>e. e = Act ConfirmTokens) es)"
    using tokens.run_changes [OF assms] eq by (simp add: changes_sent_def)
qed (simp add: tokens_runConfirm_def take_confirm_def launch_def)

theorem revocations_confirmed_witness:
  "\<exists>a. exec (async_step (tokens_handlers (\<lambda>k ps. k) ''en'')) [Act (ClickRevoke ''abc''), Act ConfirmTokens, Act ConfirmTokens]
       (async_start tokens_setup) = Some a \<and> length (filter (\<lambda>q. ac_method q \<noteq> ''GET'') (lv_sent a)) \<le> 2 \<and>
     lv_sent a = [plain_call ''DELETE'' ''/api/admin/tokens/abc'']"
proof -
  let ?es = "[Act (ClickRevoke ''abc''), Act ConfirmTokens, Act ConfirmTokens]"
  have "\<exists>a. exec (async_step (tokens_handlers (\<lambda>k ps. k) ''en'')) ?es (async_start tokens_setup) = Some a \<and>
      lv_sent a = [plain_call ''DELETE'' ''/api/admin/tokens/abc'']"
    by (simp add: async_start_def launch_def attempt_def revokeToken_def showConfirm_def askConfirm_def tokens_runConfirm_def take_confirm_def tokens_setup_def
        clear_banners_def)
  then obtain a where a: "exec (async_step (tokens_handlers (\<lambda>k ps. k) ''en'')) ?es (async_start tokens_setup) = Some a"
    "lv_sent a = [plain_call ''DELETE'' ''/api/admin/tokens/abc'']" by blast
  from revocations_confirmed [OF a(1)] a show ?thesis by auto
qed

interpretation org_form: edit_form load_org org_changes "\<lambda>data. True"
  by unfold_locales (simp_all add: load_org_def org_changes_def set_saving_def Let_def)

text \<open>The login page of the console leaves for the dashboard only with an administrator: after either handler a
  navigation means that the loaded profile has the admin role, and a mismatched forced
  password change sends nothing.\<close>

theorem admin_login_page_leaves_as_admin:
  assumes "av_goto v = None"
  shows "(av_goto (admin_handleLogin origin sha256 rnd uuid api cur v) \<noteq> None \<longrightarrow>
       includes_admin (ad_user (av_auth (admin_handleLogin origin sha256 rnd uuid api cur v))) = Inr True) \<and>
     (av_goto (admin_handleMfa origin api cur v) \<noteq> None \<longrightarrow>
       includes_admin (ad_user (av_auth (admin_handleMfa origin api cur v))) = Inr True) \<and>
     (av_newPassword v \<noteq> av_confirmPassword v \<longrightarrow>
       ad_world (av_auth (admin_handlePasswordChange t api cur v)) = ad_world (av_auth v))"
  using assms admin_login_gate [of origin sha256 rnd uuid api cur "av_username v" "av_password v" "av_auth v"]
    admin_verifyMfa_gate [of origin api cur "js_String (av_mfaToken v)" "av_mfaCode v" "av_auth v"]
  by (auto simp: admin_handleLogin_def admin_handleMfa_def admin_handlePasswordChange_def Let_def
      split: prod.splits admin_login_result.splits sum.splits)

theorem admin_login_page_leaves_as_admin_witness:
  "includes_admin (ad_user (av_auth (admin_handleLogin ''https://id'' (\<lambda>_. []) (\<lambda>_. []) ''u'' demo_admin_api ''en''
     (login_view_setup demo_admin JUndef)))) = Inr True"
proof -
  have "av_goto (login_view_setup demo_admin JUndef) = None" by (simp add: login_view_setup_def)
  moreover have "av_goto (admin_handleLogin ''https://id'' (\<lambda>_. []) (\<lambda>_. []) ''u'' demo_admin_api ''en'' (login_view_setup demo_admin JUndef)) \<noteq> None"
    by (simp add: admin_handleLogin_def login_view_setup_def admin_login_def catching_def Let_def and_then_def admin_send_def demo_admin_api_def
        demo_admin_def member_def get_member_def applySession_def fetchUserInfo_def includes_admin_def proto_member_def object_prototype_def
        plain_call_def)
  ultimately show ?thesis using admin_login_page_leaves_as_admin by blast
qed

text \<open>A device is approved with the trimmed upper-case code only: the request carries that code and the id of the
  signed-in user, the page reports success exactly when the server says approved, and a blank
  code sends nothing.\<close>

theorem device_approval_outcome:
  shows "(normalizeCode s = [] \<longrightarrow> run_co (logged_api api) (approve t cur user) s ([], w) = (s, ([], w))) \<and>
     (normalizeCode s \<noteq> [] \<longrightarrow>
       fst (snd (run_co (logged_api api) (approve t cur user) s ([], w))) = [approve_call user (normalizeCode s)] \<and>
       (dv_success (fst (run_co (logged_api api) (approve t cur user) s ([], w))) \<longleftrightarrow>
          (\<exists>data. fst (api (approve_call user (normalizeCode s)) w) = AxOk data \<and> getprop data ''status'' = JStr ''approved'')) \<and>
       \<not> dv_approving (fst (run_co (logged_api api) (approve t cur user) s ([], w))))"
  by (auto simp: approve_def run_simps logged_api_def Let_def split: prod.splits ax_result.splits)

theorem device_approval_outcome_witness:
  "dv_success (fst (run_co (logged_api (\<lambda>c w. (AxOk (JObj [(''status'', JStr ''approved'')]), w)))
     (approve (\<lambda>k ps. k) ''en'' (JObj [(''id'', JNum 1)])) (device_setup (JStr '' ab'')) ([], ())))"
proof -
  have "normalizeCode (device_setup (JStr '' ab'')) \<noteq> []"
    by (simp add: normalizeCode_def device_setup_def js_trim_def white_space_def to_upper_def)
  with device_approval_outcome [of "device_setup (JStr '' ab'')" "\<lambda>c w. (AxOk (JObj [(''status'', JStr ''approved'')]), w)"
      "\<lambda>k ps. k" "''en''" "JObj [(''id'', JNum 1)]" "()"] show ?thesis by simp
qed

end
