(* ===== verification/Shell.thy ===== *)
theory Shell
  imports AdminNet AdminOps
begin

section \<open>Layouts and shared components\<close>

text \<open>
  The frame around the pages: \<open>components/layout/AdminLayout.vue\<close> of the console with its navigation and
  breadcrumbs, \<open>layouts/AppLayout.vue\<close> of the user portal, and two components that both portals share and that keep
  state: the modal dialog with its focus trap (\<open>AppModal.vue\<close>) and the language menu (\<open>LocaleSwitcher.vue\<close>).
\<close>

subsection \<open>The layout of the console\<close>

record nav_item =
  ni_name :: string
  ni_path :: string
  ni_icon :: string

definition nav_item_of :: "translate \<Rightarrow> string \<Rightarrow> string \<Rightarrow> string \<Rightarrow> nav_item" where
  "nav_item_of t key path icon = \<lparr>ni_name = t key [], ni_path = path, ni_icon = icon\<rparr>"

definition navSections :: "translate \<Rightarrow> (string \<times> nav_item list) list" where
  "navSections t =
     [(t ''nav.overview'' [], [nav_item_of t ''nav.dashboard'' ''/'' ''dashboard'']),
      (t ''nav.management'' [],
        [nav_item_of t ''nav.applications'' ''/applications'' ''apps'', nav_item_of t ''nav.organizations'' ''/organizations'' ''roles'',
         nav_item_of t ''nav.users'' ''/users'' ''users'', nav_item_of t ''nav.roles'' ''/roles'' ''roles'',
         nav_item_of t ''nav.scopes'' ''/scopes'' ''scopes'', nav_item_of t ''nav.tokens'' ''/tokens'' ''tokens'',
         nav_item_of t ''nav.devices'' ''/devices'' ''devices'']),
      (t ''nav.monitoring'' [],
        [nav_item_of t ''nav.auditLogs'' ''/logs'' ''logs'', nav_item_of t ''nav.emailTemplates'' ''/email-templates'' ''settings'',
         nav_item_of t ''nav.settings'' ''/settings'' ''settings''])]"

definition isActive :: "string \<Rightarrow> string \<Rightarrow> bool" where
  "isActive loc path = (if path = ''/'' then loc = ''/'' else starts_with path loc)"

definition CRUMB_KEYS :: jsval where
  "CRUMB_KEYS = JObj [(''applications'', JStr ''nav.applications''), (''users'', JStr ''nav.users''), (''roles'', JStr ''nav.roles''),
     (''scopes'', JStr ''nav.scopes''), (''tokens'', JStr ''nav.tokens''), (''devices'', JStr ''nav.devices''),
     (''logs'', JStr ''nav.auditLogs''), (''settings'', JStr ''nav.settings'')]"

text \<open>The text of a segment that has no key: \<open>charAt(0).toUpperCase() + slice(1).replace(/-/g, ' ')\<close>.\<close>

definition raw_crumb :: "string \<Rightarrow> string" where
  "raw_crumb part = concat (map to_upper (take 1 part)) @ map (\<lambda>c. if c = CHR ''-'' then CHR '' '' else c) (drop 1 part)"

text \<open>What a breadcrumb shows: the value handed to the translation function, or a text.  The lookup in the plain object finds
  inherited members too.\<close>

definition crumb_label :: "string \<Rightarrow> jsval + string" where
  "crumb_label part = (let key = getprop CRUMB_KEYS part in if truthy key then Inl key else Inr (raw_crumb part))"

fun crumb_trail :: "string \<Rightarrow> string list \<Rightarrow> ((jsval + string) \<times> string) list" where
  "crumb_trail cur [] = []"
| "crumb_trail cur (part # parts) =
     (let cur = cur @ ''/'' @ part in (crumb_label part, cur) # crumb_trail cur parts)"

definition breadcrumbs :: "string \<Rightarrow> ((jsval + string) \<times> string) list" where
  "breadcrumbs loc = (Inl (JStr ''nav.dashboard''), ''/'') # crumb_trail [] (filter (\<lambda>p. p \<noteq> []) (split_on (CHR ''/'') loc))"

record layout =
  ly_sidebarCollapsed :: bool
  ly_mobileMenuOpen :: bool
  ly_userMenuOpen :: bool

definition on_route_change :: "layout \<Rightarrow> layout" where
  "on_route_change l = l\<lparr>ly_userMenuOpen := False, ly_mobileMenuOpen := False\<rparr>"

definition admin_handleLogout :: "'w api \<Rightarrow> 'w admin \<Rightarrow> 'w admin \<times> string" where
  "admin_handleLogout api s = (settle_logout (admin_logout api s), ''/login'')"

definition displayName :: "translate \<Rightarrow> 'w admin \<Rightarrow> jsval" where
  "displayName t s = js_or (getprop (ad_user s) ''name'') (JStr (t ''adminLayout.defaultUser'' []))"

subsection \<open>The layout of the user portal\<close>

definition navItems :: "translate \<Rightarrow> nav_item list" where
  "navItems t =
     [nav_item_of t ''nav.overview'' ''/'' ''dashboard'', nav_item_of t ''nav.profile'' ''/profile'' ''profile'',
      nav_item_of t ''nav.security'' ''/security'' ''security'', nav_item_of t ''nav.authorizedApps'' ''/authorized-apps'' ''apps'',
      nav_item_of t ''nav.applications'' ''/apps'' ''apps'', nav_item_of t ''nav.organizations'' ''/organizations'' ''dashboard'']"

definition user_handleLogout :: "portal_env \<Rightarrow> 'w api \<Rightarrow> 'w session \<Rightarrow> 'w session \<times> string" where
  "user_handleLogout env api s = (store_logout env api s, ''/login'')"

subsection \<open>The modal dialog\<close>

text \<open>The focusable elements of the panel in document order, each with whether the keyboard can reach it (a disabled button
  matches the selector and cannot), and where the focus is.\<close>

datatype focus = OnPanel | OnElement nat | Outside

text \<open>What the browser does with a Tab key that is not prevented: the next reachable element, or out of the dialog, which is the
  last child of the body.  The panel itself has \<open>tabindex="-1"\<close>.\<close>

definition next_reachable :: "bool list \<Rightarrow> nat \<Rightarrow> nat option" where
  "next_reachable els i = find (\<lambda>j. els ! j) [i..<length els]"

definition prev_reachable :: "bool list \<Rightarrow> nat \<Rightarrow> nat option" where
  "prev_reachable els i = find (\<lambda>j. els ! j) (rev [0..<min i (length els)])"

definition default_tab :: "bool \<Rightarrow> bool list \<Rightarrow> focus \<Rightarrow> focus" where
  "default_tab shift els f = (case (case f of
       OnPanel \<Rightarrow> if shift then None else next_reachable els 0
     | OnElement i \<Rightarrow> if shift then prev_reachable els i else next_reachable els (Suc i)
     | Outside \<Rightarrow> None) of
     Some j \<Rightarrow> OnElement j | None \<Rightarrow> Outside)"

text \<open>\<open>focus()\<close> of an element that cannot take the focus changes nothing.\<close>

definition try_focus :: "bool list \<Rightarrow> nat \<Rightarrow> focus \<Rightarrow> focus" where
  "try_focus els i f = (if els ! i then OnElement i else f)"

datatype modal_key = Escape | Tab bool | OtherKey

text \<open>\<open>handleKeydown\<close>: whether \<open>close\<close> is emitted, and the focus after it and the default action of the browser.\<close>

fun handleKeydown :: "modal_key \<Rightarrow> bool list \<Rightarrow> focus \<Rightarrow> bool \<times> focus" where
  "handleKeydown Escape els f = (True, f)"
| "handleKeydown OtherKey els f = (False, f)"
| "handleKeydown (Tab shift) els f = (False,
     if els \<noteq> [] \<and> shift \<and> f = OnElement 0 then try_focus els (length els - 1) f
     else if els \<noteq> [] \<and> \<not> shift \<and> f = OnElement (length els - 1) then try_focus els 0 f
     else default_tab shift els f)"

record modal =
  md_open :: bool
  md_overflow :: string
  md_previous :: focus
  md_focus :: focus

text \<open>The watcher of \<open>open\<close>, and the hook that releases the scroll lock.\<close>

definition watch_open :: "bool \<Rightarrow> modal \<Rightarrow> modal" where
  "watch_open isOpen m = (if isOpen = md_open m then m
     else if isOpen then m\<lparr>md_open := True, md_previous := md_focus m, md_overflow := ''hidden'', md_focus := OnPanel\<rparr>
     else m\<lparr>md_open := False, md_overflow := [], md_focus := md_previous m\<rparr>)"

definition modal_unmounted :: "modal \<Rightarrow> modal" where
  "modal_unmounted m = m\<lparr>md_overflow := []\<rparr>"

subsection \<open>The language menu\<close>

datatype menu_focus = OnTrigger | OnItem nat | OffMenu

record switcher =
  sw_open :: bool
  sw_focus :: menu_focus
  sw_language :: locale_state

definition pick_locale :: "string \<Rightarrow> switcher \<Rightarrow> switcher" where
  "pick_locale next s = s\<lparr>sw_language := setLocale next (sw_language s), sw_open := False, sw_focus := OnTrigger\<rparr>"

definition onClickOutside :: "bool \<Rightarrow> switcher \<Rightarrow> switcher" where
  "onClickOutside inside s = (if inside then s else s\<lparr>sw_open := False\<rparr>)"

datatype menu_key = MenuEscape | ArrowDown | ArrowUp | MenuOther

definition menu_step :: "menu_key \<Rightarrow> nat \<Rightarrow> menu_focus \<Rightarrow> nat" where
  "menu_step key n f = (case f of
     OnItem idx \<Rightarrow> nat ((int idx + (if key = ArrowDown then 1 else -1) + int n) mod int n)
   | _ \<Rightarrow> 0)"

definition onMenuKeydown :: "menu_key \<Rightarrow> switcher \<Rightarrow> switcher" where
  "onMenuKeydown key s = (case key of
     MenuEscape \<Rightarrow> s\<lparr>sw_open := False, sw_focus := OnTrigger\<rparr>
   | MenuOther \<Rightarrow> s
   | _ \<Rightarrow> s\<lparr>sw_focus := OnItem (menu_step key (length SUPPORTED_LOCALES) (sw_focus s))\<rparr>)"

datatype menu_event = ToggleMenu | PickItem nat | MenuKey menu_key | DocumentClick bool

text \<open>The menu exists while it is open; the offered languages are the supported ones.\<close>

fun switcher_step :: "menu_event \<Rightarrow> switcher \<Rightarrow> switcher option" where
  "switcher_step ToggleMenu s = Some (s\<lparr>sw_open := \<not> sw_open s, sw_focus := OnTrigger\<rparr>)"
| "switcher_step (PickItem i) s = (if sw_open s \<and> i < length SUPPORTED_LOCALES then Some (pick_locale (SUPPORTED_LOCALES ! i) s) else None)"
| "switcher_step (MenuKey key) s = (if sw_open s then Some (onMenuKeydown key s) else None)"
| "switcher_step (DocumentClick inside) s = Some (onClickOutside inside s)"

definition SHORT_LABELS :: jsval where
  "SHORT_LABELS = JObj [(''en'', JStr ''EN''), (''zh-CN'', JStr ''%u4E2D%u6587'')]"

definition NATIVE_LABELS :: "translate \<Rightarrow> jsval" where
  "NATIVE_LABELS t = JObj [(''en'', JStr (t ''ui.locale.en'' [])), (''zh-CN'', JStr (t ''ui.locale.zhCN'' []))]"

subsection \<open>Navigation\<close>

abbreviation nav_paths :: "translate \<Rightarrow> string \<Rightarrow> string list" where
  "nav_paths t loc \<equiv> map ni_path (filter (\<lambda>i. isActive loc (ni_path i)) (concat (map snd (navSections t))))"

text \<open>A location of a route: its literal segments, and any segment for a parameter.\<close>

definition location_of :: "string \<Rightarrow> string \<Rightarrow> bool" where
  "location_of pattern loc = list_all2 (\<lambda>p s. if starts_with '':'' p then s \<noteq> [] else s = p) (split_on (CHR ''/'') pattern) (split_on (CHR ''/'') loc)"

definition console_segments :: "string list" where
  "console_segments = [''applications'', ''organizations'', ''users'', ''roles'', ''scopes'', ''logs'', ''tokens'', ''devices'',
     ''settings'', ''email-templates'']"

lemma console_location:
  assumes "r \<in> set admin_routes" and "snd (snd r) = Some True" and "location_of (fst (snd r)) loc"
  shows "split_on (CHR ''/'') loc = [[], []] \<or> (\<exists>seg\<in>set console_segments.
     split_on (CHR ''/'') loc = [[], seg] \<or> (\<exists>x. x \<noteq> [] \<and> split_on (CHR ''/'') loc = [[], seg, x]))"
proof -
  have "r \<in> set (tl admin_routes)" using assms(1,2) by (auto simp: admin_routes_def)
  then show ?thesis using assms(3) unfolding admin_routes_def layout_child_def location_of_def
    by (simp, elim disjE) (simp_all add: list_all2_Cons1 console_segments_def, auto)
qed

lemma nav_of_segment: "seg \<in> set console_segments \<Longrightarrow> nav_paths t (CHR ''/'' # seg @ rest) = [CHR ''/'' # seg]"
  unfolding console_segments_def navSections_def nav_item_of_def isActive_def
  by (simp) (elim disjE; simp)

text \<open>On every page of the console exactly one entry of the navigation is marked active, and the breadcrumbs lead from the
  dashboard through the prefixes of the location to the location itself.\<close>

theorem console_page_is_located:
  assumes "r \<in> set admin_routes" and "snd (snd r) = Some True" and "location_of (fst (snd r)) loc"
  shows "(\<exists>p. nav_paths t loc = [p]) \<and> snd (last (breadcrumbs loc)) = loc \<and> snd (hd (breadcrumbs loc)) = ''/''"
proof -
  note loc = join_split [of "CHR ''/''" loc, symmetric]
  from console_location [OF assms] consider
      "split_on (CHR ''/'') loc = [[], []]"
    | seg where "seg \<in> set console_segments" "split_on (CHR ''/'') loc = [[], seg]"
    | seg x where "seg \<in> set console_segments" "x \<noteq> []" "split_on (CHR ''/'') loc = [[], seg, x]" by blast
  then show ?thesis
  proof cases
    case 1
    then have "loc = ''/''" using loc by (simp add: join_with_def)
    then show ?thesis by (simp add: breadcrumbs_def navSections_def nav_item_of_def isActive_def)
  next
    case 2
    then have "loc = CHR ''/'' # seg @ []" using loc by (simp add: join_with_def)
    moreover have "seg \<noteq> []" using 2(1) by (auto simp: console_segments_def)
    ultimately show ?thesis using nav_of_segment [OF 2(1), where rest = "[]"] 2(2) by (simp add: breadcrumbs_def Let_def)
  next
    case 3
    then have "loc = CHR ''/'' # seg @ CHR ''/'' # x" using loc by (simp add: join_with_def)
    moreover have "seg \<noteq> []" using 3(1) by (auto simp: console_segments_def)
    ultimately show ?thesis using nav_of_segment [OF 3(1), where rest = "CHR ''/'' # x"] 3(2,3) by (simp add: breadcrumbs_def Let_def)
  qed
qed

theorem console_page_is_located_witness:
  "(\<exists>p. nav_paths (\<lambda>k ps. k) ''/users/7'' = [p]) \<and> snd (last (breadcrumbs ''/users/7'')) = ''/users/7'' \<and>
     snd (hd (breadcrumbs ''/users/7'')) = ''/''"
  by (rule console_page_is_located [of "(''user-detail'', ''/users/:id'', Some True)"])
     (simp_all add: admin_routes_def layout_child_def location_of_def)

text \<open>No entry of either navigation is a dead link: the entries of the user portal are protected routes of its router, and those
  of the console are protected routes of the console.\<close>

theorem navigation_links_resolve:
  "list_all (\<lambda>i. to_auth (resolve (ni_path i) (ni_path i))) (navItems t) \<and>
   list_all (\<lambda>i. \<exists>name. (name, ni_path i, Some True) \<in> set admin_routes) (concat (map snd (navSections t)))"
  by (simp add: navItems_def navSections_def nav_item_of_def resolve_def target_of_def routes_def auth_route_def guest_route_def open_route_def
      admin_routes_def layout_child_def)

text \<open>Two top-level pages of the navigation have no breadcrumb key, so their crumb is the English segment in every language,
  and an inherited member of the key table is taken for a key.\<close>

lemma crumb_keys_incomplete:
  "crumb_label ''organizations'' = Inr ''Organizations'' \<and> crumb_label ''email-templates'' = Inr ''Email templates'' \<and>
   ''/organizations'' \<in> set (map ni_path (concat (map snd (navSections t)))) \<and>
   ''/email-templates'' \<in> set (map ni_path (concat (map snd (navSections t)))) \<and>
   crumb_label ''constructor'' = Inl (JHost ''constructor'')"
proof -
  have "raw_crumb ''organizations'' = ''Organizations''" "raw_crumb ''email-templates'' = ''Email templates''" by code_simp+
  then show ?thesis by (simp add: crumb_label_def CRUMB_KEYS_def proto_member_def object_prototype_def navSections_def nav_item_of_def)
qed

subsection \<open>The focus trap\<close>

definition tab_step :: "bool list \<Rightarrow> bool \<Rightarrow> focus \<Rightarrow> focus option" where
  "tab_step els shift f = Some (snd (handleKeydown (Tab shift) els f))"

lemma next_reachable_all: "list_all id els \<Longrightarrow> i < length els \<Longrightarrow> next_reachable els i = Some i"
  by (simp add: next_reachable_def upt_conv_Cons list_all_length)

lemma prev_reachable_all: "list_all id els \<Longrightarrow> 0 < i \<Longrightarrow> i \<le> length els \<Longrightarrow> prev_reachable els i = Some (i - 1)"
  by (cases i) (simp_all add: prev_reachable_def list_all_length)

lemma trap_step:
  assumes "list_all id els" and "i < length els"
  shows "snd (handleKeydown (Tab shift) els (OnElement i)) =
     OnElement (if shift then (i + length els - 1) mod length els else Suc i mod length els)"
proof (cases shift)
  case True
  show ?thesis
  proof (cases "i = 0")
    case False
    then have "(i + length els - 1) mod length els = i - 1" using assms(2) by (simp add: mod_if)
    with False True assms prev_reachable_all [of els i] show ?thesis by (simp add: default_tab_def)
  qed (use True assms in \<open>auto simp: try_focus_def list_all_length\<close>)
next
  case False
  show ?thesis
  proof (cases "i = length els - 1")
    case True
    then have "Suc i mod length els = 0" using assms(2) by (cases "length els") simp_all
    with True False assms show ?thesis by (auto simp: try_focus_def list_all_length)
  next
    case later: False
    then have "Suc i < length els" using assms(2) by simp
    with later False assms next_reachable_all [of els "Suc i"] show ?thesis by (auto simp: default_tab_def)
  qed
qed

interpretation focus_trap: guarded_machine "tab_step els" "\<lambda>f. list_all id els \<and> (\<exists>i<length els. f = OnElement i)" for els
proof
  fix f shift f'
  assume "list_all id els \<and> (\<exists>i<length els. f = OnElement i)" and "tab_step els shift f = Some f'"
  then obtain i where i: "list_all id els" "i < length els" "f' = snd (handleKeydown (Tab shift) els (OnElement i))"
    by (auto simp: tab_step_def)
  moreover have "n mod length els < length els" for n using i(2) by (intro mod_less_divisor) auto
  ultimately show "list_all id els \<and> (\<exists>i<length els. f' = OnElement i)" using trap_step [OF i(1,2), of shift] by auto
qed

text \<open>In a dialog whose elements can all be reached, no sequence of Tab and Shift+Tab takes the focus out of the dialog, and
  Tab runs through the elements in a circle.\<close>

theorem modal_traps_focus:
  assumes "list_all id els" and "i < length els" and "exec (tab_step els) keys (OnElement i) = Some f"
  shows "(\<exists>j<length els. f = OnElement j) \<and> (list_all Not keys \<longrightarrow> f = OnElement ((i + length keys) mod length els))"
proof
  from assms focus_trap.exec_invar [OF _ assms(3)] show "\<exists>j<length els. f = OnElement j" by blast
  show "list_all Not keys \<longrightarrow> f = OnElement ((i + length keys) mod length els)"
    using assms(2,3)
  proof (induction keys arbitrary: i)
    case (Cons k keys)
    then have "tab_step els k (OnElement i) = Some (OnElement (Suc i mod length els))" if "\<not> k"
      using trap_step [OF assms(1), of i k] that by (simp add: tab_step_def)
    moreover have "Suc i mod length els < length els" using Cons.prems by (intro mod_less_divisor) auto
    ultimately show ?case using Cons.IH [of "Suc i mod length els"] Cons.prems
      by (auto simp: mod_add_left_eq)
  qed simp
qed

theorem modal_traps_focus_witness:
  "\<exists>f. exec (tab_step [True, True, True]) [False, False] (OnElement 2) = Some f \<and> f = OnElement 1"
  using modal_traps_focus [of "[True, True, True]" 2 "[False, False]"] by (auto simp: tab_step_def)

text \<open>The trap has two gaps: Shift+Tab right after the dialog opened, when the panel has the focus, and Tab on the last reachable
  element when the last button is disabled, lead out of the dialog.\<close>

theorem modal_focus_gaps:
  assumes "i < length els" and "\<not> last els" and "\<forall>j. i < j \<and> j < length els \<longrightarrow> \<not> els ! j" and "els ! i"
  shows "snd (handleKeydown (Tab True) els (md_focus (watch_open True (m\<lparr>md_open := False\<rparr>)))) = Outside \<and>
     snd (handleKeydown (Tab False) els (OnElement i)) = Outside"
proof -
  have "i \<noteq> length els - 1" using assms by (metis last_conv_nth length_0_conv not_less_zero)
  moreover have "next_reachable els (Suc i) = None" using assms(3) by (auto simp: next_reachable_def find_None_iff)
  ultimately show ?thesis by (simp add: watch_open_def default_tab_def)
qed

theorem modal_focus_gaps_witness:
  "snd (handleKeydown (Tab False) [True, True, False] (OnElement 1)) = Outside"
proof -
  have "\<forall>j. 1 < j \<and> j < length [True, True, False] \<longrightarrow> \<not> [True, True, False] ! j" by (auto simp: less_Suc_eq numeral_3_eq_3)
  from modal_focus_gaps [of 1 "[True, True, False]", OF _ _ this] show ?thesis by simp
qed

subsection \<open>The language menu\<close>

definition menu_inv :: "switcher \<Rightarrow> bool" where
  "menu_inv s \<longleftrightarrow> locale_inv (sw_language s) \<and> (\<forall>i. sw_focus s = OnItem i \<longrightarrow> i < length SUPPORTED_LOCALES)"

interpretation language_menu: guarded_machine switcher_step menu_inv
proof
  fix s e s'
  assume s: "menu_inv s" and e: "switcher_step e s = Some s'"
  have "SUPPORTED_LOCALES ! i \<in> set SUPPORTED_LOCALES \<Longrightarrow> menu_inv (pick_locale (SUPPORTED_LOCALES ! i) s)" for i
    using s applyLocale_inv [of "SUPPORTED_LOCALES ! i" "sw_language s"] by (simp add: menu_inv_def pick_locale_def setLocale_def locale_inv_def)
  moreover have "menu_step key (length SUPPORTED_LOCALES) f < length SUPPORTED_LOCALES" for key f
    by (auto simp: menu_step_def SUPPORTED_LOCALES_def nat_less_iff split: menu_focus.split)
  ultimately show "menu_inv s'" using s e
    by (cases e; auto split: if_splits menu_key.splits simp: onClickOutside_def onMenuKeydown_def) (auto simp: menu_inv_def)
qed

text \<open>Through every sequence of clicks and keys on the language menu the page stays in a supported language on which all its
  copies agree, and the focus is on an offered language whenever it is in the menu.  ArrowUp undoes ArrowDown.\<close>

theorem language_menu_consistent:
  assumes "exec switcher_step es \<lparr>sw_open = False, sw_focus = OffMenu, sw_language = initI18n (load_i18n st nav lang)\<rparr> = Some s"
  shows "getCurrentLocale (sw_language s) \<in> set SUPPORTED_LOCALES \<and> html_lang (sw_language s) = getCurrentLocale (sw_language s) \<and>
     (\<forall>i. sw_focus s = OnItem i \<longrightarrow> i < length SUPPORTED_LOCALES \<and> onMenuKeydown ArrowUp (onMenuKeydown ArrowDown s) = s)"
proof -
  have "locale_inv (initI18n (load_i18n st nav lang))"
    unfolding initI18n_def by (rule applyLocale_inv) (simp_all add: load_i18n_def setLocaleGetter_def detect_supported)
  then have "menu_inv \<lparr>sw_open = False, sw_focus = OffMenu, sw_language = initI18n (load_i18n st nav lang)\<rparr>" by (simp add: menu_inv_def)
  from language_menu.exec_invar [OF this assms] have "menu_inv s" .
  moreover have "onMenuKeydown ArrowUp (onMenuKeydown ArrowDown s) = s" if "sw_focus s = OnItem i" "i < 2" for i
    using that by (cases s) (auto simp: onMenuKeydown_def menu_step_def SUPPORTED_LOCALES_def less_2_cases_iff)
  ultimately show ?thesis by (auto simp: menu_inv_def locale_inv_def getCurrentLocale_def SUPPORTED_LOCALES_def)
qed

theorem language_menu_consistent_witness:
  "\<exists>s. exec switcher_step [ToggleMenu, PickItem 1] \<lparr>sw_open = False, sw_focus = OffMenu, sw_language = initI18n (load_i18n Unavailable None [])\<rparr> = Some s \<and>
     getCurrentLocale (sw_language s) \<in> set SUPPORTED_LOCALES \<and> html_lang (sw_language s) = getCurrentLocale (sw_language s)"
proof -
  let ?run = "exec switcher_step [ToggleMenu, PickItem 1] \<lparr>sw_open = False, sw_focus = OffMenu, sw_language = initI18n (load_i18n Unavailable None [])\<rparr>"
  have "\<exists>s. ?run = Some s" by (simp add: SUPPORTED_LOCALES_def)
  with language_menu_consistent show ?thesis by blast
qed

end
