(* ===== verification/Dictionaries.thy ===== *)
theory Dictionaries
  imports UserDict AdminDict Shell
begin

section \<open>What the pages can rely on\<close>

text \<open>
  The properties of the interface dictionaries that \<open>i18nKeys.test.ts\<close> is about, over the whole tables: the
  languages agree, the key set that the test computes is the set of keys that resolve, the shared components find
  the same texts in both portals, and the labels of both layouts have a text in every language.
\<close>

text \<open>C40. A key has a text in English exactly when it has one in Chinese, and the two texts are not empty and have the same
  placeholders; so in both portals.\<close>

theorem dictionaries_in_lockstep:
  "(dict_message portal_en key = None \<longleftrightarrow> dict_message portal_zh key = None) \<and>
   (dict_message console_en key = None \<longleftrightarrow> dict_message console_zh key = None) \<and>
   (dict_message portal_en key = Some v \<and> dict_message portal_zh key = Some w \<or>
    dict_message console_en key = Some v \<and> dict_message console_zh key = Some w \<longrightarrow>
      v \<noteq> [] \<and> w \<noteq> [] \<and> set (placeholders v) = set (placeholders w))"
  using portal_dict.both_languages [of key] console_dict.both_languages [of key] portal_dict.texts_agree [of key v w]
    console_dict.texts_agree [of key v w] by blast

theorem dictionaries_in_lockstep_witness:
  "\<exists>v w. dict_message console_en ''admin.users.deleteConfirm'' = Some v \<and> dict_message console_zh ''admin.users.deleteConfirm'' = Some w \<and>
     set (placeholders v) = set (placeholders w) \<and> placeholders v = [''name'']"
proof -
  have "case (dict_message console_en ''admin.users.deleteConfirm'', dict_message console_zh ''admin.users.deleteConfirm'') of
      (Some v, Some w) \<Rightarrow> placeholders v = [''name''] | _ \<Rightarrow> False" by code_simp
  then obtain v w where vw: "dict_message console_en ''admin.users.deleteConfirm'' = Some v"
      "dict_message console_zh ''admin.users.deleteConfirm'' = Some w" "placeholders v = [''name'']" by (auto split: option.splits)
  with dictionaries_in_lockstep [of "''admin.users.deleteConfirm''" v w] show ?thesis by blast
qed

text \<open>The keys that the catalog test collects by flattening a table are exactly the keys that resolve, with their texts.\<close>

theorem flattened_keys_resolve:
  "((key, v) \<in> set (dict_paths [] portal_en) \<longleftrightarrow> dict_message portal_en key = Some v) \<and>
   ((key, v) \<in> set (dict_paths [] console_en) \<longleftrightarrow> dict_message console_en key = Some v)"
proof -
  from portal_dict_wf have "(key, v) \<in> set (dict_paths [] portal_en) \<longleftrightarrow> dict_message portal_en key = Some v"
    unfolding portal_en_def by (rule dict_paths_message)
  moreover from console_dict_wf have "(key, v) \<in> set (dict_paths [] console_en) \<longleftrightarrow> dict_message console_en key = Some v"
    unfolding console_en_def by (rule dict_paths_message)
  ultimately show ?thesis by blast
qed

text \<open>The components that both portals share find the same texts: a key below \<open>ui\<close> resolves to the same text in both, in
  each language.\<close>

theorem shared_ui_texts:
  assumes "starts_with ''ui.'' key"
  shows "dict_message portal_en key = dict_message console_en key \<and> dict_message portal_zh key = dict_message console_zh key"
proof -
  from assms obtain rest where "key = ''ui'' @ CHR ''.'' # rest" by (auto simp: starts_with_iff)
  then have "split_on (CHR ''.'') key = ''ui'' # split_on (CHR ''.'') rest" by (simp add: split_on_append)
  moreover have "portal_en_ui = console_en_ui" "portal_zh_ui = console_zh_ui"
    by (simp_all add: portal_en_ui_def console_en_ui_def portal_zh_ui_def console_zh_ui_def)
  ultimately show ?thesis by (simp add: dict_message_def portal_en_def console_en_def portal_zh_def console_zh_def)
qed

theorem shared_ui_texts_witness:
  "dict_message portal_en ''ui.modal.close'' = dict_message console_en ''ui.modal.close'' \<and>
   dict_message portal_zh ''ui.modal.close'' = dict_message console_zh ''ui.modal.close''"
  by (rule shared_ui_texts) simp

text \<open>The keys of the layouts: the navigation, its section titles, the breadcrumbs and the language menu.\<close>

definition layout_keys :: "string list" where
  "layout_keys = (let t = (\<lambda>k ps. k) in map fst (navSections t) @ map ni_name (concat (map snd (navSections t))) @
     [''nav.dashboard'', ''adminLayout.defaultUser''] @
     [js_String (getprop (NATIVE_LABELS t) ''en''), js_String (getprop (NATIVE_LABELS t) ''zh-CN'')])"

lemma console_has_layout_keys: "list_all (\<lambda>k. dict_message console_en k \<noteq> None) layout_keys"
  by code_simp

lemma portal_has_nav_keys: "list_all (\<lambda>i. dict_message portal_en (ni_name i) \<noteq> None) (navItems (\<lambda>k ps. k))"
  by code_simp

text \<open>Every label of the two layouts has a text in both languages.\<close>

theorem layout_labels_translated:
  "list_all (\<lambda>k. dict_message console_en k \<noteq> None \<and> dict_message console_zh k \<noteq> None) layout_keys \<and>
   list_all (\<lambda>i. dict_message portal_en (ni_name i) \<noteq> None \<and> dict_message portal_zh (ni_name i) \<noteq> None) (navItems (\<lambda>k ps. k))"
  using console_has_layout_keys portal_has_nav_keys portal_dict.both_languages console_dict.both_languages
  by (simp add: list_all_iff)

end
