(* ===== verification/TsTypes.thy ===== *)
theory TsTypes
  imports Prelude
begin

section \<open>The types of the generated client\<close>

text \<open>
  The part of the type language of TypeScript that \<open>types.gen.ts\<close> is written in, and the values of a type.  A member of an object
  type is a name, whether it is optional, and its type; objects may have further members.
\<close>

datatype ts =
    TString
  | TNumber
  | TBoolean
  | TNull
  | TUnknown
  | TNever
  | TLit string
  | TUnion "ts list"
  | TBoth ts ts
  | TArray ts
  | TObject "(string \<times> bool \<times> ts) list"
  | TDict ts

fun conforms :: "ts \<Rightarrow> jsval \<Rightarrow> bool" where
  "conforms TString v = is_string v"
| "conforms TNumber v = is_number v"
| "conforms TBoolean v = (case v of JBool b \<Rightarrow> True | _ \<Rightarrow> False)"
| "conforms TNull v = (v = JNull)"
| "conforms TUnknown v = True"
| "conforms TNever v = False"
| "conforms (TLit s) v = (v = JStr s)"
| "conforms (TUnion ts) v = list_ex (\<lambda>t. conforms t v) ts"
| "conforms (TBoth s t) v = (conforms s v \<and> conforms t v)"
| "conforms (TArray t) v = (case v of JArr xs \<Rightarrow> list_all (conforms t) xs | _ \<Rightarrow> False)"
| "conforms (TObject fs) v = (case v of
     JObj ps \<Rightarrow> list_all (\<lambda>(k, optional, t). case map_of ps k of None \<Rightarrow> optional | Some x \<Rightarrow> optional \<and> x = JUndef \<or> conforms t x) fs
   | _ \<Rightarrow> False)"
| "conforms (TDict t) v = (case v of JObj ps \<Rightarrow> list_all (\<lambda>p. conforms t (snd p)) ps | _ \<Rightarrow> False)"

text \<open>The members of an object type, and the type of one of them.\<close>

fun members :: "ts \<Rightarrow> (string \<times> bool \<times> ts) list" where
  "members (TObject fs) = fs"
| "members t = []"

definition member_type :: "ts \<Rightarrow> string \<Rightarrow> ts option" where
  "member_type t k = map_option snd (map_of (members t) k)"

lemma conforms_member:
  "conforms (TObject fs) v \<Longrightarrow> (k, False, t) \<in> set fs \<Longrightarrow> \<exists>ps x. v = JObj ps \<and> map_of ps k = Some x \<and> conforms t x"
  by (auto simp: list_all_iff split: jsval.splits option.splits)

lemma conforms_getprop: "conforms (TObject fs) v \<Longrightarrow> (k, False, t) \<in> set fs \<Longrightarrow> conforms t (getprop v k)"
  using conforms_member by fastforce

lemma conforms_string: "conforms TString v \<longleftrightarrow> (\<exists>s. v = JStr s)"
  by (cases v) simp_all

lemma conforms_number: "conforms TNumber v \<longleftrightarrow> (\<exists>n. v = JNum n)"
  by (cases v) simp_all

end
