(* ===== verification/SdkTypes.thy ===== *)
theory SdkTypes
  imports TsTypes
begin

section \<open>Requests of the generated client\<close>

text \<open>
  The schemas of \<open>types.gen.ts\<close> and, for each endpoint, the type of its options: body, path, query and address.
\<close>

definition Error :: ts where
  "Error = TObject
    [(''category'', True, TString),
     (''code'', True, TString),
     (''message'', True, TString),
     (''request_id'', True, TString),
     (''numeric_code'', True, TNumber),
     (''details'', True, TString)]"

definition ErrorEnvelope :: ts where
  "ErrorEnvelope = TObject
    [(''error'', False, Error)]"

definition OAuth2Error :: ts where
  "OAuth2Error = TObject
    [(''error'', False, TUnion [TLit ''invalid_request'', TLit ''invalid_client'', TLit ''invalid_grant'', TLit ''unauthorized_client'', TLit ''unsupported_grant_type'', TLit ''invalid_scope'', TLit ''access_denied'', TLit ''unsupported_token_type'', TLit ''invalid_token'', TLit ''insufficient_scope'', TLit ''authorization_pending'', TLit ''slow_down'', TLit ''expired_token'', TLit ''server_error'', TLit ''temporarily_unavailable'']),
     (''error_description'', True, TString),
     (''error_uri'', True, TString)]"

definition TokenResponse :: ts where
  "TokenResponse = TObject
    [(''access_token'', False, TString),
     (''token_type'', False, TString),
     (''expires_in'', False, TNumber),
     (''refresh_token'', True, TString),
     (''scope'', True, TString),
     (''roles'', True, TArray TString),
     (''id_token'', True, TString)]"

definition SocialLoginTokenResponse :: ts where
  "SocialLoginTokenResponse = TObject
    [(''access_token'', False, TString),
     (''token_type'', False, TString),
     (''expires_in'', False, TNumber),
     (''refresh_token'', False, TString)]"

definition WebAuthnRegistrationCredential :: ts where
  "WebAuthnRegistrationCredential = TObject
    [(''id'', False, TString),
     (''rawId'', False, TString),
     (''response'', False, TObject
      [(''attestationObject'', False, TString),
       (''clientDataJSON'', False, TString)]),
     (''name'', True, TString)]"

definition WebAuthnAssertionCredential :: ts where
  "WebAuthnAssertionCredential = TObject
    [(''id'', False, TString),
     (''rawId'', False, TString),
     (''response'', False, TObject
      [(''authenticatorData'', False, TString),
       (''clientDataJSON'', False, TString),
       (''signature'', False, TString)]),
     (''userHandle'', True, TString)]"

definition IntrospectionResponse :: ts where
  "IntrospectionResponse = TObject
    [(''active'', False, TBoolean),
     (''client_id'', True, TString),
     (''token_type'', True, TString),
     (''exp'', True, TNumber),
     (''iat'', True, TNumber),
     (''nbf'', True, TNumber),
     (''sub'', True, TString),
     (''aud'', True, TString),
     (''iss'', True, TString),
     (''scope'', True, TString),
     (''org_id'', True, TNumber)]"

definition UserInfoResponse :: ts where
  "UserInfoResponse = TObject
    [(''sub'', False, TString),
     (''name'', False, TString),
     (''preferred_username'', True, TString),
     (''username'', True, TString),
     (''picture'', True, TString),
     (''email'', True, TString),
     (''email_verified'', True, TBoolean),
     (''roles'', True, TArray TString),
     (''org_ctx'', True, TObject
      [(''org_id'', True, TNumber),
       (''org_name'', True, TString),
       (''roles'', True, TArray TString)])]"

definition OpenIdConfiguration :: ts where
  "OpenIdConfiguration = TObject
    [(''issuer'', True, TString),
     (''authorization_endpoint'', True, TString),
     (''token_endpoint'', True, TString),
     (''device_authorization_endpoint'', True, TString),
     (''userinfo_endpoint'', True, TString),
     (''jwks_uri'', True, TString),
     (''introspection_endpoint'', True, TString),
     (''revocation_endpoint'', True, TString),
     (''registration_endpoint'', True, TString),
     (''scopes_supported'', True, TArray TString),
     (''response_types_supported'', True, TArray TString),
     (''grant_types_supported'', True, TArray TString),
     (''subject_types_supported'', True, TArray TString),
     (''id_token_signing_alg_values_supported'', True, TArray TString),
     (''token_endpoint_auth_methods_supported'', True, TArray TString),
     (''code_challenge_methods_supported'', True, TArray TString),
     (''prompt_values_supported'', True, TArray TString),
     (''acr_values_supported'', True, TArray TString),
     (''end_session_endpoint'', True, TString),
     (''backchannel_logout_supported'', True, TBoolean),
     (''backchannel_logout_session_supported'', True, TBoolean),
     (''claims_supported'', True, TArray TString)]"

definition OAuthAuthorizationServerMetadata :: ts where
  "OAuthAuthorizationServerMetadata = TObject
    [(''issuer'', True, TString),
     (''authorization_endpoint'', True, TString),
     (''token_endpoint'', True, TString),
     (''device_authorization_endpoint'', True, TString),
     (''introspection_endpoint'', True, TString),
     (''introspection_endpoint_auth_methods_supported'', True, TArray TString),
     (''revocation_endpoint'', True, TString),
     (''revocation_endpoint_auth_methods_supported'', True, TArray TString),
     (''registration_endpoint'', True, TString),
     (''scopes_supported'', True, TArray TString),
     (''response_types_supported'', True, TArray TString),
     (''response_modes_supported'', True, TArray TString),
     (''grant_types_supported'', True, TArray TString),
     (''subject_types_supported'', True, TArray TString),
     (''code_challenge_methods_supported'', True, TArray TString),
     (''token_endpoint_auth_methods_supported'', True, TArray TString),
     (''service_documentation'', True, TString),
     (''op_policy_uri'', True, TString),
     (''op_tos_uri'', True, TString)]"

definition JwkSet :: ts where
  "JwkSet = TObject
    [(''keys'', False, TArray (TObject
        [(''kty'', False, TString),
         (''kid'', True, TString),
         (''use'', True, TString),
         (''alg'', True, TString),
         (''n'', True, TString),
         (''e'', True, TString),
         (''x5c'', True, TArray TString)]))]"

definition LoginSuccessResponse :: ts where
  "LoginSuccessResponse = TObject
    [(''code'', False, TString),
     (''location'', False, TString)]"

definition MfaRequiredResponse :: ts where
  "MfaRequiredResponse = TObject
    [(''mfa_required'', False, TBoolean),
     (''mfa_token'', False, TString),
     (''message'', True, TString)]"

definition PasswordChangeRequiredResponse :: ts where
  "PasswordChangeRequiredResponse = TObject
    [(''password_change_required'', False, TBoolean),
     (''message'', True, TString)]"

definition MessageResponse :: ts where
  "MessageResponse = TObject
    [(''message'', False, TString)]"

definition SocialLinkEntry :: ts where
  "SocialLinkEntry = TObject
    [(''provider'', False, TUnion [TLit ''github'', TLit ''google'', TLit ''wechat'']),
     (''subject'', False, TString),
     (''linked_at'', True, TString)]"

definition SocialLinksList :: ts where
  "SocialLinksList = TObject
    [(''social_links'', False, TArray SocialLinkEntry),
     (''total'', False, TNumber)]"

definition SocialLinkResult :: ts where
  "SocialLinkResult = TObject
    [(''provider'', False, TUnion [TLit ''github'', TLit ''google'', TLit ''wechat'']),
     (''subject'', True, TString),
     (''message'', False, TString)]"

definition AuthProvider :: ts where
  "AuthProvider = TObject
    [(''authorize_url'', False, TString),
     (''provider'', False, TUnion [TLit ''github'', TLit ''google'', TLit ''wechat''])]"

definition AuthProvidersResponse :: ts where
  "AuthProvidersResponse = TObject
    [(''providers'', False, TArray AuthProvider)]"

definition DeviceAuthorizationResponse :: ts where
  "DeviceAuthorizationResponse = TObject
    [(''device_code'', False, TString),
     (''user_code'', False, TString),
     (''verification_uri'', False, TString),
     (''verification_uri_complete'', True, TString),
     (''expires_in'', False, TNumber),
     (''interval'', False, TNumber)]"

definition HealthStatus :: ts where
  "HealthStatus = TObject
    [(''status'', False, TUnion [TLit ''ok'', TLit ''degraded'', TLit ''unhealthy'']),
     (''service'', True, TString),
     (''timestamp'', True, TNumber),
     (''storage_type'', True, TString),
     (''database'', True, TString),
     (''redis'', True, TString)]"

definition Organization :: ts where
  "Organization = TObject
    [(''id'', True, TNumber),
     (''slug'', True, TString),
     (''name'', True, TString),
     (''logo_uri'', True, TString),
     (''primary_color'', True, TString),
     (''issuer_override'', True, TString)]"

definition TokenRequest :: ts where
  "TokenRequest = TObject
    [(''grant_type'', False, TUnion [TLit ''authorization_code'', TLit ''refresh_token'', TLit ''client_credentials'', TLit ''urn:ietf:params:oauth:grant-type:device_code'']),
     (''code'', True, TString),
     (''redirect_uri'', True, TString),
     (''refresh_token'', True, TString),
     (''code_verifier'', True, TString),
     (''client_id'', True, TString),
     (''client_secret'', True, TString),
     (''scope'', True, TString),
     (''device_code'', True, TString)]"

definition LoginRequest :: ts where
  "LoginRequest = TObject
    [(''username'', False, TString),
     (''password'', False, TString),
     (''client_id'', True, TString),
     (''redirect_uri'', True, TString),
     (''scope'', True, TString),
     (''state'', True, TString),
     (''code_challenge'', True, TString),
     (''code_challenge_method'', True, TString),
     (''nonce'', True, TString),
     (''json'', True, TString)]"

definition MfaVerifyRequest :: ts where
  "MfaVerifyRequest = TObject
    [(''mfa_token'', False, TString),
     (''code'', False, TString),
     (''client_id'', False, TString),
     (''redirect_uri'', False, TString),
     (''scope'', True, TString),
     (''nonce'', True, TString),
     (''code_verifier'', True, TString)]"

definition GetWellKnownJwksJsonData :: ts where
  "GetWellKnownJwksJsonData = TObject
    [(''body'', True, TNever),
     (''path'', True, TNever),
     (''query'', True, TNever),
     (''url'', False, TLit ''/.well-known/jwks.json'')]"

definition GetWellKnownOauthAuthorizationServerData :: ts where
  "GetWellKnownOauthAuthorizationServerData = TObject
    [(''body'', True, TNever),
     (''path'', True, TNever),
     (''query'', True, TNever),
     (''url'', False, TLit ''/.well-known/oauth-authorization-server'')]"

definition GetWellKnownOpenidConfigurationData :: ts where
  "GetWellKnownOpenidConfigurationData = TObject
    [(''body'', True, TNever),
     (''path'', True, TNever),
     (''query'', True, TNever),
     (''url'', False, TLit ''/.well-known/openid-configuration'')]"

definition GetApiAdminClaimMappingsData :: ts where
  "GetApiAdminClaimMappingsData = TObject
    [(''body'', True, TNever),
     (''path'', True, TNever),
     (''query'', True, TNever),
     (''url'', False, TLit ''/api/admin/claim-mappings'')]"

definition PostApiAdminClaimMappingsData :: ts where
  "PostApiAdminClaimMappingsData = TObject
    [(''body'', False, TObject
      [(''scope_name'', False, TString),
       (''claim_name'', False, TString),
       (''source_path'', False, TString),
       (''include_in'', True, TUnion [TLit ''id_token'', TLit ''userinfo'', TLit ''both''])]),
     (''path'', True, TNever),
     (''query'', True, TNever),
     (''url'', False, TLit ''/api/admin/claim-mappings'')]"

definition DeleteApiAdminClaimMappingsMappingIdData :: ts where
  "DeleteApiAdminClaimMappingsMappingIdData = TObject
    [(''body'', True, TNever),
     (''path'', False, TObject
      [(''mappingId'', False, TNumber)]),
     (''query'', True, TNever),
     (''url'', False, TLit ''/api/admin/claim-mappings/{mappingId}'')]"

definition PutApiAdminClaimMappingsMappingIdData :: ts where
  "PutApiAdminClaimMappingsMappingIdData = TObject
    [(''body'', False, TObject
      [(''scope_name'', False, TString),
       (''claim_name'', False, TString),
       (''source_path'', False, TString),
       (''include_in'', True, TString),
       (''enabled'', True, TBoolean)]),
     (''path'', False, TObject
      [(''mappingId'', False, TNumber)]),
     (''query'', True, TNever),
     (''url'', False, TLit ''/api/admin/claim-mappings/{mappingId}'')]"

definition GetApiAdminClientsData :: ts where
  "GetApiAdminClientsData = TObject
    [(''body'', True, TNever),
     (''path'', True, TNever),
     (''query'', True, TNever),
     (''url'', False, TLit ''/api/admin/clients'')]"

definition PostApiAdminClientsData :: ts where
  "PostApiAdminClientsData = TObject
    [(''body'', False, TObject
      [(''name'', False, TString),
       (''client_type'', True, TUnion [TLit ''CONFIDENTIAL'', TLit ''PUBLIC'']),
       (''redirect_uris'', True, TString),
       (''allowed_grant_types'', True, TString),
       (''token_endpoint_auth_method'', True, TString),
       (''backchannel_logout_uri'', True, TString),
       (''logo_uri'', True, TString)]),
     (''path'', True, TNever),
     (''query'', True, TNever),
     (''url'', False, TLit ''/api/admin/clients'')]"

definition DeleteApiAdminClientsClientIdData :: ts where
  "DeleteApiAdminClientsClientIdData = TObject
    [(''body'', True, TNever),
     (''path'', False, TObject
      [(''clientId'', False, TString)]),
     (''query'', True, TNever),
     (''url'', False, TLit ''/api/admin/clients/{clientId}'')]"

definition GetApiAdminClientsClientIdData :: ts where
  "GetApiAdminClientsClientIdData = TObject
    [(''body'', True, TNever),
     (''path'', False, TObject
      [(''clientId'', False, TString)]),
     (''query'', True, TNever),
     (''url'', False, TLit ''/api/admin/clients/{clientId}'')]"

definition PutApiAdminClientsClientIdData :: ts where
  "PutApiAdminClientsClientIdData = TObject
    [(''body'', False, TObject
      [(''name'', True, TString),
       (''redirect_uris'', True, TString),
       (''allowed_grant_types'', True, TString),
       (''backchannel_logout_uri'', True, TString),
       (''logo_uri'', True, TString)]),
     (''path'', False, TObject
      [(''clientId'', False, TString)]),
     (''query'', True, TNever),
     (''url'', False, TLit ''/api/admin/clients/{clientId}'')]"

definition PostApiAdminClientsClientIdResetSecretData :: ts where
  "PostApiAdminClientsClientIdResetSecretData = TObject
    [(''body'', True, TDict TUnknown),
     (''path'', False, TObject
      [(''clientId'', False, TString)]),
     (''query'', True, TNever),
     (''url'', False, TLit ''/api/admin/clients/{clientId}/reset-secret'')]"

definition PostApiAdminClientsClientIdResumeData :: ts where
  "PostApiAdminClientsClientIdResumeData = TObject
    [(''body'', True, TDict TUnknown),
     (''path'', False, TObject
      [(''clientId'', False, TString)]),
     (''query'', True, TNever),
     (''url'', False, TLit ''/api/admin/clients/{clientId}/resume'')]"

definition GetApiAdminClientsClientIdScopesData :: ts where
  "GetApiAdminClientsClientIdScopesData = TObject
    [(''body'', True, TNever),
     (''path'', False, TObject
      [(''clientId'', False, TString)]),
     (''query'', True, TNever),
     (''url'', False, TLit ''/api/admin/clients/{clientId}/scopes'')]"

definition PutApiAdminClientsClientIdScopesData :: ts where
  "PutApiAdminClientsClientIdScopesData = TObject
    [(''body'', True, TDict TUnknown),
     (''path'', False, TObject
      [(''clientId'', False, TString)]),
     (''query'', True, TNever),
     (''url'', False, TLit ''/api/admin/clients/{clientId}/scopes'')]"

definition PostApiAdminClientsClientIdSuspendData :: ts where
  "PostApiAdminClientsClientIdSuspendData = TObject
    [(''body'', True, TDict TUnknown),
     (''path'', False, TObject
      [(''clientId'', False, TString)]),
     (''query'', True, TNever),
     (''url'', False, TLit ''/api/admin/clients/{clientId}/suspend'')]"

definition GetApiAdminDashboardData :: ts where
  "GetApiAdminDashboardData = TObject
    [(''body'', True, TNever),
     (''path'', True, TNever),
     (''query'', True, TNever),
     (''url'', False, TLit ''/api/admin/dashboard'')]"

definition GetApiAdminDashboardStatsData :: ts where
  "GetApiAdminDashboardStatsData = TObject
    [(''body'', True, TNever),
     (''path'', True, TNever),
     (''query'', True, TNever),
     (''url'', False, TLit ''/api/admin/dashboard/stats'')]"

definition GetApiAdminEmailTemplatesData :: ts where
  "GetApiAdminEmailTemplatesData = TObject
    [(''body'', True, TNever),
     (''path'', True, TNever),
     (''query'', True, TNever),
     (''url'', False, TLit ''/api/admin/email-templates'')]"

definition GetApiAdminEmailTemplatesKeyLocaleData :: ts where
  "GetApiAdminEmailTemplatesKeyLocaleData = TObject
    [(''body'', True, TNever),
     (''path'', False, TObject
      [(''key'', False, TString),
       (''locale'', False, TString)]),
     (''query'', True, TNever),
     (''url'', False, TLit ''/api/admin/email-templates/{key}/{locale}'')]"

definition PutApiAdminEmailTemplatesKeyLocaleData :: ts where
  "PutApiAdminEmailTemplatesKeyLocaleData = TObject
    [(''body'', False, TObject
      [(''subject'', False, TString),
       (''body_html'', False, TString),
       (''body_text'', True, TString)]),
     (''path'', False, TObject
      [(''key'', False, TString),
       (''locale'', False, TString)]),
     (''query'', True, TNever),
     (''url'', False, TLit ''/api/admin/email-templates/{key}/{locale}'')]"

definition PostApiAdminEmailTemplatesKeyLocaleTestSendData :: ts where
  "PostApiAdminEmailTemplatesKeyLocaleTestSendData = TObject
    [(''body'', False, TObject
      [(''to'', False, TString)]),
     (''path'', False, TObject
      [(''key'', False, TString),
       (''locale'', False, TString)]),
     (''query'', True, TNever),
     (''url'', False, TLit ''/api/admin/email-templates/{key}/{locale}/test-send'')]"

definition GetApiAdminLogsData :: ts where
  "GetApiAdminLogsData = TObject
    [(''body'', True, TNever),
     (''path'', True, TNever),
     (''query'', True, TNever),
     (''url'', False, TLit ''/api/admin/logs'')]"

definition GetApiAdminLogsExportData :: ts where
  "GetApiAdminLogsExportData = TObject
    [(''body'', True, TNever),
     (''path'', True, TNever),
     (''query'', True, TObject
      [(''action'', True, TString),
       (''outcome'', True, TString),
       (''actor_id'', True, TString),
       (''from'', True, TNumber),
       (''to'', True, TNumber),
       (''all'', True, TUnion [TLit ''true'', TLit ''1'']),
       (''limit'', True, TNumber)]),
     (''url'', False, TLit ''/api/admin/logs/export'')]"

definition GetApiAdminOidcKeysData :: ts where
  "GetApiAdminOidcKeysData = TObject
    [(''body'', True, TNever),
     (''path'', True, TNever),
     (''query'', True, TNever),
     (''url'', False, TLit ''/api/admin/oidc/keys'')]"

definition GetApiAdminOrganizationsData :: ts where
  "GetApiAdminOrganizationsData = TObject
    [(''body'', True, TNever),
     (''path'', True, TNever),
     (''query'', True, TNever),
     (''url'', False, TLit ''/api/admin/organizations'')]"

definition PostApiAdminOrganizationsData :: ts where
  "PostApiAdminOrganizationsData = TObject
    [(''body'', False, TObject
      [(''slug'', False, TString),
       (''name'', False, TString),
       (''logo_uri'', True, TString),
       (''primary_color'', True, TString),
       (''issuer_override'', True, TString)]),
     (''path'', True, TNever),
     (''query'', True, TNever),
     (''url'', False, TLit ''/api/admin/organizations'')]"

definition DeleteApiAdminOrganizationsSlugData :: ts where
  "DeleteApiAdminOrganizationsSlugData = TObject
    [(''body'', True, TNever),
     (''path'', False, TObject
      [(''slug'', False, TString)]),
     (''query'', True, TNever),
     (''url'', False, TLit ''/api/admin/organizations/{slug}'')]"

definition GetApiAdminOrganizationsSlugData :: ts where
  "GetApiAdminOrganizationsSlugData = TObject
    [(''body'', True, TNever),
     (''path'', False, TObject
      [(''slug'', False, TString)]),
     (''query'', True, TNever),
     (''url'', False, TLit ''/api/admin/organizations/{slug}'')]"

definition PatchApiAdminOrganizationsSlugData :: ts where
  "PatchApiAdminOrganizationsSlugData = TObject
    [(''body'', False, TObject
      [(''name'', True, TString),
       (''logo_uri'', True, TString),
       (''primary_color'', True, TString)]),
     (''path'', False, TObject
      [(''slug'', False, TString)]),
     (''query'', True, TNever),
     (''url'', False, TLit ''/api/admin/organizations/{slug}'')]"

definition GetApiAdminOrganizationsSlugMembersData :: ts where
  "GetApiAdminOrganizationsSlugMembersData = TObject
    [(''body'', True, TNever),
     (''path'', False, TObject
      [(''slug'', False, TString)]),
     (''query'', True, TNever),
     (''url'', False, TLit ''/api/admin/organizations/{slug}/members'')]"

definition DeleteApiAdminOrganizationsSlugMembersUserIdData :: ts where
  "DeleteApiAdminOrganizationsSlugMembersUserIdData = TObject
    [(''body'', True, TNever),
     (''path'', False, TObject
      [(''slug'', False, TString),
       (''userId'', False, TNumber)]),
     (''query'', True, TNever),
     (''url'', False, TLit ''/api/admin/organizations/{slug}/members/{userId}'')]"

definition PostApiAdminOrganizationsSlugTransferOwnershipData :: ts where
  "PostApiAdminOrganizationsSlugTransferOwnershipData = TObject
    [(''body'', False, TObject
      [(''user_id'', False, TNumber)]),
     (''path'', False, TObject
      [(''slug'', False, TString)]),
     (''query'', True, TNever),
     (''url'', False, TLit ''/api/admin/organizations/{slug}/transfer-ownership'')]"

definition GetApiAdminRolesData :: ts where
  "GetApiAdminRolesData = TObject
    [(''body'', True, TNever),
     (''path'', True, TNever),
     (''query'', True, TNever),
     (''url'', False, TLit ''/api/admin/roles'')]"

definition PostApiAdminRolesData :: ts where
  "PostApiAdminRolesData = TObject
    [(''body'', True, TObject
      [(''description'', True, TString),
       (''name'', False, TString)]),
     (''path'', True, TNever),
     (''query'', True, TNever),
     (''url'', False, TLit ''/api/admin/roles'')]"

definition GetApiAdminRolesRoleIdPermissionsData :: ts where
  "GetApiAdminRolesRoleIdPermissionsData = TObject
    [(''body'', True, TNever),
     (''path'', False, TObject
      [(''roleId'', False, TNumber)]),
     (''query'', True, TNever),
     (''url'', False, TLit ''/api/admin/roles/{roleId}/permissions'')]"

definition PutApiAdminRolesRoleIdPermissionsData :: ts where
  "PutApiAdminRolesRoleIdPermissionsData = TObject
    [(''body'', False, TObject
      [(''permissions'', False, TArray TString)]),
     (''path'', False, TObject
      [(''roleId'', False, TNumber)]),
     (''query'', True, TNever),
     (''url'', False, TLit ''/api/admin/roles/{roleId}/permissions'')]"

definition DeleteApiAdminRolesRoleIdData :: ts where
  "DeleteApiAdminRolesRoleIdData = TObject
    [(''body'', True, TNever),
     (''path'', False, TObject
      [(''roleId'', False, TNumber)]),
     (''query'', True, TNever),
     (''url'', False, TLit ''/api/admin/roles/{roleId}'')]"

definition PutApiAdminRolesRoleIdData :: ts where
  "PutApiAdminRolesRoleIdData = TObject
    [(''body'', True, TObject
      [(''description'', True, TString)]),
     (''path'', False, TObject
      [(''roleId'', False, TNumber)]),
     (''query'', True, TNever),
     (''url'', False, TLit ''/api/admin/roles/{roleId}'')]"

definition GetApiAdminScopesData :: ts where
  "GetApiAdminScopesData = TObject
    [(''body'', True, TNever),
     (''path'', True, TNever),
     (''query'', True, TNever),
     (''url'', False, TLit ''/api/admin/scopes'')]"

definition PostApiAdminScopesData :: ts where
  "PostApiAdminScopesData = TObject
    [(''body'', True, TObject
      [(''description'', True, TString),
       (''description_zh'', True, TString),
       (''is_default'', True, TBoolean),
       (''mapped_role'', True, TString),
       (''name'', False, TString),
       (''requires_admin_role'', True, TBoolean)]),
     (''path'', True, TNever),
     (''query'', True, TNever),
     (''url'', False, TLit ''/api/admin/scopes'')]"

definition DeleteApiAdminScopesScopeIdData :: ts where
  "DeleteApiAdminScopesScopeIdData = TObject
    [(''body'', True, TNever),
     (''path'', False, TObject
      [(''scopeId'', False, TNumber)]),
     (''query'', True, TNever),
     (''url'', False, TLit ''/api/admin/scopes/{scopeId}'')]"

definition PutApiAdminScopesScopeIdData :: ts where
  "PutApiAdminScopesScopeIdData = TObject
    [(''body'', True, TObject
      [(''description'', True, TString),
       (''description_zh'', True, TString),
       (''is_default'', True, TBoolean),
       (''mapped_role'', True, TString),
       (''requires_admin_role'', True, TBoolean)]),
     (''path'', False, TObject
      [(''scopeId'', False, TNumber)]),
     (''query'', True, TNever),
     (''url'', False, TLit ''/api/admin/scopes/{scopeId}'')]"

definition GetApiAdminScopesResourcesData :: ts where
  "GetApiAdminScopesResourcesData = TObject
    [(''body'', True, TNever),
     (''path'', True, TNever),
     (''query'', True, TNever),
     (''url'', False, TLit ''/api/admin/scopes/resources'')]"

definition GetApiAdminTokensData :: ts where
  "GetApiAdminTokensData = TObject
    [(''body'', True, TNever),
     (''path'', True, TNever),
     (''query'', True, TNever),
     (''url'', False, TLit ''/api/admin/tokens'')]"

definition PostApiAdminTokensRevokeByClientData :: ts where
  "PostApiAdminTokensRevokeByClientData = TObject
    [(''body'', True, TDict TUnknown),
     (''path'', True, TNever),
     (''query'', True, TNever),
     (''url'', False, TLit ''/api/admin/tokens/revoke-by-client'')]"

definition PostApiAdminTokensRevokeByUserData :: ts where
  "PostApiAdminTokensRevokeByUserData = TObject
    [(''body'', True, TDict TUnknown),
     (''path'', True, TNever),
     (''query'', True, TNever),
     (''url'', False, TLit ''/api/admin/tokens/revoke-by-user'')]"

definition DeleteApiAdminTokensTokenPrefixData :: ts where
  "DeleteApiAdminTokensTokenPrefixData = TObject
    [(''body'', True, TNever),
     (''path'', False, TObject
      [(''tokenPrefix'', False, TString)]),
     (''query'', True, TNever),
     (''url'', False, TLit ''/api/admin/tokens/{tokenPrefix}'')]"

definition GetApiAdminUsersData :: ts where
  "GetApiAdminUsersData = TObject
    [(''body'', True, TNever),
     (''path'', True, TNever),
     (''query'', True, TObject
      [(''page'', True, TNumber),
       (''per_page'', True, TNumber),
       (''q'', True, TString),
       (''role'', True, TString),
       (''locked'', True, TUnion [TLit ''true'', TLit ''false''])]),
     (''url'', False, TLit ''/api/admin/users'')]"

definition PostApiAdminUsersData :: ts where
  "PostApiAdminUsersData = TObject
    [(''body'', False, TObject
      [(''username'', False, TString),
       (''password'', False, TString),
       (''email'', True, TString),
       (''email_verified'', True, TBoolean),
       (''mfa_enabled'', True, TBoolean),
       (''must_change_password'', True, TBoolean),
       (''roles'', True, TArray TString)]),
     (''path'', True, TNever),
     (''query'', True, TNever),
     (''url'', False, TLit ''/api/admin/users'')]"

definition DeleteApiAdminUsersUserIdData :: ts where
  "DeleteApiAdminUsersUserIdData = TObject
    [(''body'', True, TNever),
     (''path'', False, TObject
      [(''userId'', False, TNumber)]),
     (''query'', True, TNever),
     (''url'', False, TLit ''/api/admin/users/{userId}'')]"

definition GetApiAdminUsersUserIdData :: ts where
  "GetApiAdminUsersUserIdData = TObject
    [(''body'', True, TNever),
     (''path'', False, TObject
      [(''userId'', False, TNumber)]),
     (''query'', True, TNever),
     (''url'', False, TLit ''/api/admin/users/{userId}'')]"

definition PutApiAdminUsersUserIdData :: ts where
  "PutApiAdminUsersUserIdData = TObject
    [(''body'', True, TObject
      [(''username'', True, TString),
       (''email'', True, TString),
       (''email_verified'', True, TBoolean),
       (''mfa_enabled'', True, TBoolean),
       (''must_change_password'', True, TBoolean),
       (''locked'', True, TBoolean)]),
     (''path'', False, TObject
      [(''userId'', False, TNumber)]),
     (''query'', True, TNever),
     (''url'', False, TLit ''/api/admin/users/{userId}'')]"

definition PutApiAdminUsersUserIdDisableData :: ts where
  "PutApiAdminUsersUserIdDisableData = TObject
    [(''body'', True, TDict TUnknown),
     (''path'', False, TObject
      [(''userId'', False, TNumber)]),
     (''query'', True, TNever),
     (''url'', False, TLit ''/api/admin/users/{userId}/disable'')]"

definition PostApiAdminUsersUserIdEnableData :: ts where
  "PostApiAdminUsersUserIdEnableData = TObject
    [(''body'', True, TDict TUnknown),
     (''path'', False, TObject
      [(''userId'', False, TNumber)]),
     (''query'', True, TNever),
     (''url'', False, TLit ''/api/admin/users/{userId}/enable'')]"

definition GetApiAdminUsersUserIdRolesData :: ts where
  "GetApiAdminUsersUserIdRolesData = TObject
    [(''body'', True, TNever),
     (''path'', False, TObject
      [(''userId'', False, TNumber)]),
     (''query'', True, TNever),
     (''url'', False, TLit ''/api/admin/users/{userId}/roles'')]"

definition PutApiAdminUsersUserIdRolesData :: ts where
  "PutApiAdminUsersUserIdRolesData = TObject
    [(''body'', True, TObject
      [(''roles'', False, TArray TString)]),
     (''path'', False, TObject
      [(''userId'', False, TNumber)]),
     (''query'', True, TNever),
     (''url'', False, TLit ''/api/admin/users/{userId}/roles'')]"

definition GetApiAuthProvidersData :: ts where
  "GetApiAuthProvidersData = TObject
    [(''body'', True, TNever),
     (''path'', True, TNever),
     (''query'', True, TNever),
     (''url'', False, TLit ''/api/auth/providers'')]"

definition PostApiGithubLoginData :: ts where
  "PostApiGithubLoginData = TObject
    [(''body'', True, TDict TUnknown),
     (''path'', True, TNever),
     (''query'', False, TObject
      [(''code'', False, TString)]),
     (''url'', False, TLit ''/api/github/login'')]"

definition PostApiGoogleLoginData :: ts where
  "PostApiGoogleLoginData = TObject
    [(''body'', True, TDict TUnknown),
     (''path'', True, TNever),
     (''query'', False, TObject
      [(''code'', False, TString)]),
     (''url'', False, TLit ''/api/google/login'')]"

definition DeleteApiMeData :: ts where
  "DeleteApiMeData = TObject
    [(''body'', True, TNever),
     (''path'', True, TNever),
     (''query'', True, TNever),
     (''url'', False, TLit ''/api/me'')]"

definition GetApiMeData :: ts where
  "GetApiMeData = TObject
    [(''body'', True, TNever),
     (''path'', True, TNever),
     (''query'', True, TNever),
     (''url'', False, TLit ''/api/me'')]"

definition GetApiMeAuthorizedAppsData :: ts where
  "GetApiMeAuthorizedAppsData = TObject
    [(''body'', True, TNever),
     (''path'', True, TNever),
     (''query'', True, TNever),
     (''url'', False, TLit ''/api/me/authorized-apps'')]"

definition DeleteApiMeAuthorizedAppsClientIdData :: ts where
  "DeleteApiMeAuthorizedAppsClientIdData = TObject
    [(''body'', True, TNever),
     (''path'', False, TObject
      [(''clientId'', False, TString)]),
     (''query'', True, TNever),
     (''url'', False, TLit ''/api/me/authorized-apps/{clientId}'')]"

definition GetApiMeApplicationsData :: ts where
  "GetApiMeApplicationsData = TObject
    [(''body'', True, TNever),
     (''path'', True, TNever),
     (''query'', True, TNever),
     (''url'', False, TLit ''/api/me/applications'')]"

definition PostApiMeApplicationsData :: ts where
  "PostApiMeApplicationsData = TObject
    [(''body'', False, TObject
      [(''name'', True, TString),
       (''client_type'', True, TUnion [TLit ''PUBLIC'', TLit ''CONFIDENTIAL'']),
       (''redirect_uris'', True, TArray TString),
       (''scopes'', True, TArray TString),
       (''allowed_grant_types'', True, TArray TString),
       (''org_slug'', True, TString),
       (''logo_uri'', True, TString)]),
     (''path'', True, TNever),
     (''query'', True, TNever),
     (''url'', False, TLit ''/api/me/applications'')]"

definition DeleteApiMeApplicationsClientIdData :: ts where
  "DeleteApiMeApplicationsClientIdData = TObject
    [(''body'', True, TNever),
     (''path'', False, TObject
      [(''clientId'', False, TString)]),
     (''query'', True, TNever),
     (''url'', False, TLit ''/api/me/applications/{clientId}'')]"

definition PatchApiMeApplicationsClientIdData :: ts where
  "PatchApiMeApplicationsClientIdData = TObject
    [(''body'', False, TObject
      [(''name'', True, TString),
       (''redirect_uris'', True, TArray TString),
       (''allowed_grant_types'', True, TArray TString),
       (''scopes'', True, TArray TString),
       (''logo_uri'', True, TString)]),
     (''path'', False, TObject
      [(''clientId'', False, TString)]),
     (''query'', True, TNever),
     (''url'', False, TLit ''/api/me/applications/{clientId}'')]"

definition PostApiMeApplicationsClientIdRotateSecretData :: ts where
  "PostApiMeApplicationsClientIdRotateSecretData = TObject
    [(''body'', True, TDict TUnknown),
     (''path'', False, TObject
      [(''clientId'', False, TString)]),
     (''query'', True, TNever),
     (''url'', False, TLit ''/api/me/applications/{clientId}/rotate-secret'')]"

definition PostApiMeApplicationsClientIdTransferData :: ts where
  "PostApiMeApplicationsClientIdTransferData = TObject
    [(''body'', False, TObject
      [(''org_slug'', False, TUnion [TString, TNull])]),
     (''path'', False, TObject
      [(''clientId'', False, TString)]),
     (''query'', True, TNever),
     (''url'', False, TLit ''/api/me/applications/{clientId}/transfer'')]"

definition PostApiMeMfaDisableData :: ts where
  "PostApiMeMfaDisableData = TObject
    [(''body'', True, TDict TUnknown),
     (''path'', True, TNever),
     (''query'', True, TNever),
     (''url'', False, TLit ''/api/me/mfa/disable'')]"

definition PostApiMeMfaSetupData :: ts where
  "PostApiMeMfaSetupData = TObject
    [(''body'', True, TDict TUnknown),
     (''path'', True, TNever),
     (''query'', True, TNever),
     (''url'', False, TLit ''/api/me/mfa/setup'')]"

definition PostApiMeMfaVerifyData :: ts where
  "PostApiMeMfaVerifyData = TObject
    [(''body'', False, TObject
      [(''code'', False, TString)]),
     (''path'', True, TNever),
     (''query'', True, TNever),
     (''url'', False, TLit ''/api/me/mfa/verify'')]"

definition PostApiMeOrgInvitationsAcceptData :: ts where
  "PostApiMeOrgInvitationsAcceptData = TObject
    [(''body'', False, TObject
      [(''token'', False, TString)]),
     (''path'', True, TNever),
     (''query'', True, TNever),
     (''url'', False, TLit ''/api/me/org-invitations/accept'')]"

definition GetApiMeOrganizationsData :: ts where
  "GetApiMeOrganizationsData = TObject
    [(''body'', True, TNever),
     (''path'', True, TNever),
     (''query'', True, TNever),
     (''url'', False, TLit ''/api/me/organizations'')]"

definition PostApiMeOrganizationsData :: ts where
  "PostApiMeOrganizationsData = TObject
    [(''body'', False, TObject
      [(''slug'', False, TString),
       (''name'', False, TString),
       (''logo_uri'', True, TString),
       (''primary_color'', True, TString)]),
     (''path'', True, TNever),
     (''query'', True, TNever),
     (''url'', False, TLit ''/api/me/organizations'')]"

definition GetApiMeOrganizationsSlugInvitationsData :: ts where
  "GetApiMeOrganizationsSlugInvitationsData = TObject
    [(''body'', True, TNever),
     (''path'', False, TObject
      [(''slug'', False, TString)]),
     (''query'', True, TNever),
     (''url'', False, TLit ''/api/me/organizations/{slug}/invitations'')]"

definition PostApiMeOrganizationsSlugInvitationsData :: ts where
  "PostApiMeOrganizationsSlugInvitationsData = TObject
    [(''body'', False, TObject
      [(''email'', False, TString),
       (''role'', True, TUnion [TLit ''member'', TLit ''admin''])]),
     (''path'', False, TObject
      [(''slug'', False, TString)]),
     (''query'', True, TNever),
     (''url'', False, TLit ''/api/me/organizations/{slug}/invitations'')]"

definition GetApiMeOrganizationsSlugConsentsData :: ts where
  "GetApiMeOrganizationsSlugConsentsData = TObject
    [(''body'', True, TNever),
     (''path'', False, TObject
      [(''slug'', False, TString)]),
     (''query'', True, TNever),
     (''url'', False, TLit ''/api/me/organizations/{slug}/consents'')]"

definition DeleteApiMeOrganizationsSlugConsentsClientIdData :: ts where
  "DeleteApiMeOrganizationsSlugConsentsClientIdData = TObject
    [(''body'', True, TNever),
     (''path'', False, TObject
      [(''slug'', False, TString),
       (''clientId'', False, TString)]),
     (''query'', True, TNever),
     (''url'', False, TLit ''/api/me/organizations/{slug}/consents/{clientId}'')]"

definition GetApiMeOrganizationsSlugConsentRequestsData :: ts where
  "GetApiMeOrganizationsSlugConsentRequestsData = TObject
    [(''body'', True, TNever),
     (''path'', False, TObject
      [(''slug'', False, TString)]),
     (''query'', True, TNever),
     (''url'', False, TLit ''/api/me/organizations/{slug}/consent-requests'')]"

definition PostApiMeOrganizationsSlugConsentRequestsData :: ts where
  "PostApiMeOrganizationsSlugConsentRequestsData = TObject
    [(''body'', False, TObject
      [(''client_id'', False, TString)]),
     (''path'', False, TObject
      [(''slug'', False, TString)]),
     (''query'', True, TNever),
     (''url'', False, TLit ''/api/me/organizations/{slug}/consent-requests'')]"

definition PostApiMeOrganizationsSlugConsentRequestsRequestIdApproveData :: ts where
  "PostApiMeOrganizationsSlugConsentRequestsRequestIdApproveData = TObject
    [(''body'', True, TDict TUnknown),
     (''path'', False, TObject
      [(''slug'', False, TString),
       (''requestId'', False, TNumber)]),
     (''query'', True, TNever),
     (''url'', False, TLit ''/api/me/organizations/{slug}/consent-requests/{requestId}/approve'')]"

definition PostApiMeOrganizationsSlugConsentRequestsRequestIdRejectData :: ts where
  "PostApiMeOrganizationsSlugConsentRequestsRequestIdRejectData = TObject
    [(''body'', True, TObject
      [(''reason'', True, TString)]),
     (''path'', False, TObject
      [(''slug'', False, TString),
       (''requestId'', False, TNumber)]),
     (''query'', True, TNever),
     (''url'', False, TLit ''/api/me/organizations/{slug}/consent-requests/{requestId}/reject'')]"

definition DeleteApiMeOrganizationsSlugConsentRequestsRequestIdData :: ts where
  "DeleteApiMeOrganizationsSlugConsentRequestsRequestIdData = TObject
    [(''body'', True, TNever),
     (''path'', False, TObject
      [(''slug'', False, TString),
       (''requestId'', False, TNumber)]),
     (''query'', True, TNever),
     (''url'', False, TLit ''/api/me/organizations/{slug}/consent-requests/{requestId}'')]"

definition DeleteApiMeOrganizationsSlugSuccessorNominationData :: ts where
  "DeleteApiMeOrganizationsSlugSuccessorNominationData = TObject
    [(''body'', True, TNever),
     (''path'', False, TObject
      [(''slug'', False, TString)]),
     (''query'', True, TNever),
     (''url'', False, TLit ''/api/me/organizations/{slug}/successor-nomination'')]"

definition PostApiMeOrganizationsSlugSuccessorNominationData :: ts where
  "PostApiMeOrganizationsSlugSuccessorNominationData = TObject
    [(''body'', False, TObject
      [(''user_id'', False, TNumber)]),
     (''path'', False, TObject
      [(''slug'', False, TString)]),
     (''query'', True, TNever),
     (''url'', False, TLit ''/api/me/organizations/{slug}/successor-nomination'')]"

definition PostApiMeOrganizationsSlugSuccessorNominationAcceptData :: ts where
  "PostApiMeOrganizationsSlugSuccessorNominationAcceptData = TObject
    [(''body'', True, TDict TUnknown),
     (''path'', False, TObject
      [(''slug'', False, TString)]),
     (''query'', True, TNever),
     (''url'', False, TLit ''/api/me/organizations/{slug}/successor-nomination/accept'')]"

definition DeleteApiMeOrganizationsSlugInvitationsInvitationIdData :: ts where
  "DeleteApiMeOrganizationsSlugInvitationsInvitationIdData = TObject
    [(''body'', True, TNever),
     (''path'', False, TObject
      [(''slug'', False, TString),
       (''invitationId'', False, TString)]),
     (''query'', True, TNever),
     (''url'', False, TLit ''/api/me/organizations/{slug}/invitations/{invitationId}'')]"

definition GetApiMeOrganizationsSlugMembersData :: ts where
  "GetApiMeOrganizationsSlugMembersData = TObject
    [(''body'', True, TNever),
     (''path'', False, TObject
      [(''slug'', False, TString)]),
     (''query'', True, TNever),
     (''url'', False, TLit ''/api/me/organizations/{slug}/members'')]"

definition DeleteApiMeOrganizationsSlugMembersUserIdData :: ts where
  "DeleteApiMeOrganizationsSlugMembersUserIdData = TObject
    [(''body'', True, TNever),
     (''path'', False, TObject
      [(''slug'', False, TString),
       (''userId'', False, TString)]),
     (''query'', True, TNever),
     (''url'', False, TLit ''/api/me/organizations/{slug}/members/{userId}'')]"

definition PutApiMePasswordData :: ts where
  "PutApiMePasswordData = TObject
    [(''body'', True, TDict TUnknown),
     (''path'', True, TNever),
     (''query'', True, TNever),
     (''url'', False, TLit ''/api/me/password'')]"

definition PatchApiMeProfileData :: ts where
  "PatchApiMeProfileData = TObject
    [(''body'', False, TObject
      [(''display_name'', True, TString),
       (''avatar_url'', True, TString)]),
     (''path'', True, TNever),
     (''query'', True, TNever),
     (''url'', False, TLit ''/api/me/profile'')]"

definition GetApiMeSocialLinksData :: ts where
  "GetApiMeSocialLinksData = TObject
    [(''body'', True, TNever),
     (''path'', True, TNever),
     (''query'', True, TNever),
     (''url'', False, TLit ''/api/me/social/links'')]"

definition PostApiMeSocialLinksProviderAuthorizeData :: ts where
  "PostApiMeSocialLinksProviderAuthorizeData = TObject
    [(''body'', True, TDict TUnknown),
     (''path'', False, TObject
      [(''provider'', False, TUnion [TLit ''github'', TLit ''google'', TLit ''wechat''])]),
     (''query'', True, TNever),
     (''url'', False, TLit ''/api/me/social/links/{provider}/authorize'')]"

definition DeleteApiMeSocialLinksProviderData :: ts where
  "DeleteApiMeSocialLinksProviderData = TObject
    [(''body'', True, TNever),
     (''path'', False, TObject
      [(''provider'', False, TUnion [TLit ''github'', TLit ''google'', TLit ''wechat''])]),
     (''query'', True, TNever),
     (''url'', False, TLit ''/api/me/social/links/{provider}'')]"

definition PostApiMeSocialLinksProviderData :: ts where
  "PostApiMeSocialLinksProviderData = TObject
    [(''body'', False, TObject
      [(''code'', False, TString),
       (''state'', False, TString)]),
     (''path'', False, TObject
      [(''provider'', False, TUnion [TLit ''github'', TLit ''google'', TLit ''wechat''])]),
     (''query'', True, TNever),
     (''url'', False, TLit ''/api/me/social/links/{provider}'')]"

definition GetApiMeWebauthnCredentialsData :: ts where
  "GetApiMeWebauthnCredentialsData = TObject
    [(''body'', True, TNever),
     (''path'', True, TNever),
     (''query'', True, TNever),
     (''url'', False, TLit ''/api/me/webauthn/credentials'')]"

definition DeleteApiMeWebauthnCredentialsCredentialIdData :: ts where
  "DeleteApiMeWebauthnCredentialsCredentialIdData = TObject
    [(''body'', True, TNever),
     (''path'', False, TObject
      [(''credentialId'', False, TString)]),
     (''query'', True, TNever),
     (''url'', False, TLit ''/api/me/webauthn/credentials/{credentialId}'')]"

definition GetApiMeProfileCustomAttributesData :: ts where
  "GetApiMeProfileCustomAttributesData = TObject
    [(''body'', True, TNever),
     (''path'', True, TNever),
     (''query'', True, TNever),
     (''url'', False, TLit ''/api/me/profile/custom-attributes'')]"

definition PutApiMeProfileCustomAttributesData :: ts where
  "PutApiMeProfileCustomAttributesData = TObject
    [(''body'', False, TDict TUnknown),
     (''path'', True, TNever),
     (''query'', True, TNever),
     (''url'', False, TLit ''/api/me/profile/custom-attributes'')]"

definition PostApiMeWebauthnRegisterBeginData :: ts where
  "PostApiMeWebauthnRegisterBeginData = TObject
    [(''body'', True, TDict TUnknown),
     (''path'', True, TNever),
     (''query'', True, TNever),
     (''url'', False, TLit ''/api/me/webauthn/register/begin'')]"

definition PostApiMeWebauthnRegisterFinishData :: ts where
  "PostApiMeWebauthnRegisterFinishData = TObject
    [(''body'', False, WebAuthnRegistrationCredential),
     (''path'', True, TNever),
     (''query'', True, TNever),
     (''url'', False, TLit ''/api/me/webauthn/register/finish'')]"

definition PostApiPasswordResetConfirmData :: ts where
  "PostApiPasswordResetConfirmData = TObject
    [(''body'', True, TDict TUnknown),
     (''path'', True, TNever),
     (''query'', True, TNever),
     (''url'', False, TLit ''/api/password-reset/confirm'')]"

definition PostApiPasswordResetRequestData :: ts where
  "PostApiPasswordResetRequestData = TObject
    [(''body'', True, TDict TUnknown),
     (''path'', True, TNever),
     (''query'', True, TNever),
     (''url'', False, TLit ''/api/password-reset/request'')]"

definition PostApiRegisterData :: ts where
  "PostApiRegisterData = TObject
    [(''body'', True, TDict TUnknown),
     (''path'', True, TNever),
     (''query'', False, TObject
      [(''username'', False, TString),
       (''password'', False, TString),
       (''email'', True, TString)]),
     (''url'', False, TLit ''/api/register'')]"

definition GetApiVerifyEmailData :: ts where
  "GetApiVerifyEmailData = TObject
    [(''body'', True, TNever),
     (''path'', True, TNever),
     (''query'', True, TNever),
     (''url'', False, TLit ''/api/verify-email'')]"

definition PostApiVerifyEmailResendData :: ts where
  "PostApiVerifyEmailResendData = TObject
    [(''body'', True, TDict TUnknown),
     (''path'', True, TNever),
     (''query'', True, TNever),
     (''url'', False, TLit ''/api/verify-email/resend'')]"

definition PostApiVerifyEmailResendByEmailData :: ts where
  "PostApiVerifyEmailResendByEmailData = TObject
    [(''body'', True, TObject
      [(''email'', False, TString)]),
     (''path'', True, TNever),
     (''query'', True, TNever),
     (''url'', False, TLit ''/api/verify-email/resend-by-email'')]"

definition PostApiWechatLoginData :: ts where
  "PostApiWechatLoginData = TObject
    [(''body'', True, TDict TUnknown),
     (''path'', True, TNever),
     (''query'', False, TObject
      [(''code'', False, TString)]),
     (''url'', False, TLit ''/api/wechat/login'')]"

definition GetHealthData :: ts where
  "GetHealthData = TObject
    [(''body'', True, TNever),
     (''path'', True, TNever),
     (''query'', True, TNever),
     (''url'', False, TLit ''/health'')]"

definition GetHealthLiveData :: ts where
  "GetHealthLiveData = TObject
    [(''body'', True, TNever),
     (''path'', True, TNever),
     (''query'', True, TNever),
     (''url'', False, TLit ''/health/live'')]"

definition GetHealthReadyData :: ts where
  "GetHealthReadyData = TObject
    [(''body'', True, TNever),
     (''path'', True, TNever),
     (''query'', True, TNever),
     (''url'', False, TLit ''/health/ready'')]"

definition GetOauth2AuthorizeData :: ts where
  "GetOauth2AuthorizeData = TObject
    [(''body'', True, TNever),
     (''path'', True, TNever),
     (''query'', False, TObject
      [(''client_id'', False, TString),
       (''redirect_uri'', False, TString),
       (''response_type'', False, TString),
       (''scope'', True, TString),
       (''state'', True, TString),
       (''code_challenge'', True, TString),
       (''code_challenge_method'', True, TString),
       (''nonce'', True, TString),
       (''prompt'', True, TString),
       (''max_age'', True, TNumber),
       (''org_id'', True, TString)]),
     (''url'', False, TLit ''/oauth2/authorize'')]"

definition PostOauth2ConsentData :: ts where
  "PostOauth2ConsentData = TObject
    [(''body'', True, TNever),
     (''path'', True, TNever),
     (''query'', False, TObject
      [(''client_id'', False, TString),
       (''user_id'', False, TString),
       (''scope'', False, TString),
       (''redirect_uri'', False, TString),
       (''state'', True, TString),
       (''action'', False, TUnion [TLit ''approve'', TLit ''deny'']),
       (''consent_csrf'', False, TString)]),
     (''url'', False, TLit ''/oauth2/consent'')]"

definition GetOauth2AuthorizeContextData :: ts where
  "GetOauth2AuthorizeContextData = TObject
    [(''body'', True, TNever),
     (''path'', True, TNever),
     (''query'', False, TObject
      [(''client_id'', False, TString)]),
     (''url'', False, TLit ''/oauth2/authorize-context'')]"

definition GetOauth2ConsentContextData :: ts where
  "GetOauth2ConsentContextData = TObject
    [(''body'', True, TNever),
     (''path'', True, TNever),
     (''query'', False, TObject
      [(''consent_csrf'', False, TString),
       (''client_id'', False, TString),
       (''redirect_uri'', False, TString),
       (''state'', True, TString),
       (''user_id'', False, TString),
       (''scope'', True, TString),
       (''locale'', True, TString)]),
     (''url'', False, TLit ''/oauth2/consent/context'')]"

definition PostOauth2DeviceApproveData :: ts where
  "PostOauth2DeviceApproveData = TObject
    [(''body'', False, TObject
      [(''user_code'', False, TString),
       (''user_id'', False, TString)]),
     (''path'', True, TNever),
     (''query'', True, TNever),
     (''url'', False, TLit ''/oauth2/device/approve'')]"

definition PostOauth2DeviceAuthorizationData :: ts where
  "PostOauth2DeviceAuthorizationData = TObject
    [(''body'', False, TObject
      [(''client_id'', False, TString),
       (''client_secret'', True, TString),
       (''scope'', True, TString)]),
     (''path'', True, TNever),
     (''query'', True, TNever),
     (''url'', False, TLit ''/oauth2/device_authorization'')]"

definition GetOauth2EndSessionData :: ts where
  "GetOauth2EndSessionData = TObject
    [(''body'', True, TNever),
     (''path'', True, TNever),
     (''query'', True, TObject
      [(''id_token_hint'', True, TString),
       (''post_logout_redirect_uri'', True, TString),
       (''client_id'', True, TString),
       (''state'', True, TString)]),
     (''url'', False, TLit ''/oauth2/end_session'')]"

definition PostOauth2EndSessionData :: ts where
  "PostOauth2EndSessionData = TObject
    [(''body'', True, TNever),
     (''path'', True, TNever),
     (''query'', True, TObject
      [(''id_token_hint'', True, TString),
       (''client_id'', True, TString),
       (''post_logout_redirect_uri'', True, TString),
       (''state'', True, TString)]),
     (''url'', False, TLit ''/oauth2/end_session'')]"

definition PostOauth2IntrospectData :: ts where
  "PostOauth2IntrospectData = TObject
    [(''body'', False, TObject
      [(''token'', False, TString),
       (''token_type_hint'', True, TString),
       (''client_id'', True, TString),
       (''client_secret'', True, TString)]),
     (''path'', True, TNever),
     (''query'', True, TNever),
     (''url'', False, TLit ''/oauth2/introspect'')]"

definition PostOauth2LoginData :: ts where
  "PostOauth2LoginData = TObject
    [(''body'', False, LoginRequest),
     (''path'', True, TNever),
     (''query'', True, TNever),
     (''url'', False, TLit ''/oauth2/login'')]"

definition PostOauth2LogoutData :: ts where
  "PostOauth2LogoutData = TObject
    [(''body'', True, TDict TUnknown),
     (''path'', True, TNever),
     (''query'', True, TNever),
     (''url'', False, TLit ''/oauth2/logout'')]"

definition PostOauth2MfaVerifyData :: ts where
  "PostOauth2MfaVerifyData = TObject
    [(''body'', False, MfaVerifyRequest),
     (''path'', True, TNever),
     (''query'', True, TNever),
     (''url'', False, TLit ''/oauth2/mfa/verify'')]"

definition PostOauth2PasswordChangeData :: ts where
  "PostOauth2PasswordChangeData = TObject
    [(''body'', False, TObject
      [(''old_password'', False, TString),
       (''new_password'', False, TString)]),
     (''path'', True, TNever),
     (''query'', True, TNever),
     (''url'', False, TLit ''/oauth2/password/change'')]"

definition PostOauth2RegisterData :: ts where
  "PostOauth2RegisterData = TObject
    [(''body'', False, TObject
      [(''client_name'', True, TString),
       (''client_type'', True, TUnion [TLit ''CONFIDENTIAL'', TLit ''PUBLIC'']),
       (''token_endpoint_auth_method'', True, TString),
       (''redirect_uris'', True, TArray TString),
       (''grant_types'', True, TArray TString),
       (''post_logout_redirect_uris'', True, TArray TString)]),
     (''path'', True, TNever),
     (''query'', True, TNever),
     (''url'', False, TLit ''/oauth2/register'')]"

definition PostOauth2RevokeData :: ts where
  "PostOauth2RevokeData = TObject
    [(''body'', False, TObject
      [(''token'', False, TString),
       (''token_type_hint'', True, TString),
       (''client_id'', True, TString),
       (''client_secret'', True, TString)]),
     (''path'', True, TNever),
     (''query'', True, TNever),
     (''url'', False, TLit ''/oauth2/revoke'')]"

definition PostOauth2TokenData :: ts where
  "PostOauth2TokenData = TObject
    [(''body'', False, TokenRequest),
     (''path'', True, TNever),
     (''query'', True, TNever),
     (''url'', False, TLit ''/oauth2/token'')]"

definition GetOauth2UserinfoData :: ts where
  "GetOauth2UserinfoData = TObject
    [(''body'', True, TNever),
     (''path'', True, TNever),
     (''query'', True, TNever),
     (''url'', False, TLit ''/oauth2/userinfo'')]"

definition PostOauth2WebauthnAuthenticateBeginData :: ts where
  "PostOauth2WebauthnAuthenticateBeginData = TObject
    [(''body'', True, TNever),
     (''path'', True, TNever),
     (''query'', True, TNever),
     (''url'', False, TLit ''/oauth2/webauthn/authenticate/begin'')]"

definition PostOauth2WebauthnAuthenticateFinishData :: ts where
  "PostOauth2WebauthnAuthenticateFinishData = TObject
    [(''body'', False, WebAuthnAssertionCredential),
     (''path'', True, TNever),
     (''query'', True, TNever),
     (''url'', False, TLit ''/oauth2/webauthn/authenticate/finish'')]"

end
