(* ===== verification/SdkReplies.thy ===== *)
theory SdkReplies
  imports SdkTypes
begin

section \<open>Replies of the generated client\<close>

text \<open>
  For each endpoint, the types of its replies by status: \<open>Responses\<close> for those that are ok and \<open>Errors\<close> for the others.
\<close>

definition GetWellKnownJwksJsonResponses :: ts where
  "GetWellKnownJwksJsonResponses = TObject
    [(''200'', False, JwkSet)]"

definition GetWellKnownOauthAuthorizationServerResponses :: ts where
  "GetWellKnownOauthAuthorizationServerResponses = TObject
    [(''200'', False, OAuthAuthorizationServerMetadata)]"

definition GetWellKnownOpenidConfigurationResponses :: ts where
  "GetWellKnownOpenidConfigurationResponses = TObject
    [(''200'', False, OpenIdConfiguration)]"

definition GetApiAdminClaimMappingsResponses :: ts where
  "GetApiAdminClaimMappingsResponses = TObject
    [(''200'', False, TObject
      [(''status'', True, TString),
       (''total'', True, TNumber),
       (''mappings'', True, TArray (TObject
          [(''id'', True, TNumber),
           (''scope_name'', True, TString),
           (''claim_name'', True, TString),
           (''source_path'', True, TString),
           (''include_in'', True, TString),
           (''enabled'', True, TBoolean)]))])]"

definition PostApiAdminClaimMappingsErrors :: ts where
  "PostApiAdminClaimMappingsErrors = TObject
    [(''400'', False, TUnknown)]"

definition PostApiAdminClaimMappingsResponses :: ts where
  "PostApiAdminClaimMappingsResponses = TObject
    [(''201'', False, TUnknown)]"

definition DeleteApiAdminClaimMappingsMappingIdErrors :: ts where
  "DeleteApiAdminClaimMappingsMappingIdErrors = TObject
    [(''404'', False, TUnknown)]"

definition DeleteApiAdminClaimMappingsMappingIdResponses :: ts where
  "DeleteApiAdminClaimMappingsMappingIdResponses = TObject
    [(''200'', False, TUnknown)]"

definition PutApiAdminClaimMappingsMappingIdErrors :: ts where
  "PutApiAdminClaimMappingsMappingIdErrors = TObject
    [(''404'', False, TUnknown)]"

definition PutApiAdminClaimMappingsMappingIdResponses :: ts where
  "PutApiAdminClaimMappingsMappingIdResponses = TObject
    [(''200'', False, TUnknown)]"

definition GetApiAdminClientsErrors :: ts where
  "GetApiAdminClientsErrors = TObject
    [(''401'', False, TUnknown),
     (''403'', False, TUnknown)]"

definition GetApiAdminClientsResponses :: ts where
  "GetApiAdminClientsResponses = TObject
    [(''200'', False, TUnknown)]"

definition PostApiAdminClientsErrors :: ts where
  "PostApiAdminClientsErrors = TObject
    [(''401'', False, TUnknown)]"

definition PostApiAdminClientsResponses :: ts where
  "PostApiAdminClientsResponses = TObject
    [(''201'', False, TUnknown)]"

definition DeleteApiAdminClientsClientIdErrors :: ts where
  "DeleteApiAdminClientsClientIdErrors = TObject
    [(''401'', False, TUnknown),
     (''404'', False, TUnknown)]"

definition DeleteApiAdminClientsClientIdResponses :: ts where
  "DeleteApiAdminClientsClientIdResponses = TObject
    [(''200'', False, TUnknown)]"

definition GetApiAdminClientsClientIdErrors :: ts where
  "GetApiAdminClientsClientIdErrors = TObject
    [(''401'', False, TUnknown),
     (''404'', False, TUnknown)]"

definition GetApiAdminClientsClientIdResponses :: ts where
  "GetApiAdminClientsClientIdResponses = TObject
    [(''200'', False, TUnknown)]"

definition PutApiAdminClientsClientIdErrors :: ts where
  "PutApiAdminClientsClientIdErrors = TObject
    [(''400'', False, TUnknown),
     (''401'', False, TUnknown),
     (''404'', False, TUnknown)]"

definition PutApiAdminClientsClientIdResponses :: ts where
  "PutApiAdminClientsClientIdResponses = TObject
    [(''200'', False, TUnknown)]"

definition PostApiAdminClientsClientIdResetSecretErrors :: ts where
  "PostApiAdminClientsClientIdResetSecretErrors = TObject
    [(''401'', False, TUnknown),
     (''404'', False, TUnknown)]"

definition PostApiAdminClientsClientIdResetSecretResponses :: ts where
  "PostApiAdminClientsClientIdResetSecretResponses = TObject
    [(''200'', False, TUnknown)]"

definition PostApiAdminClientsClientIdResumeErrors :: ts where
  "PostApiAdminClientsClientIdResumeErrors = TObject
    [(''401'', False, ErrorEnvelope),
     (''404'', False, ErrorEnvelope)]"

definition PostApiAdminClientsClientIdResumeResponses :: ts where
  "PostApiAdminClientsClientIdResumeResponses = TObject
    [(''200'', False, TObject
      [(''client_id'', True, TString),
       (''status'', True, TString)])]"

definition GetApiAdminClientsClientIdScopesErrors :: ts where
  "GetApiAdminClientsClientIdScopesErrors = TObject
    [(''401'', False, TUnknown)]"

definition GetApiAdminClientsClientIdScopesResponses :: ts where
  "GetApiAdminClientsClientIdScopesResponses = TObject
    [(''200'', False, TUnknown)]"

definition PutApiAdminClientsClientIdScopesErrors :: ts where
  "PutApiAdminClientsClientIdScopesErrors = TObject
    [(''400'', False, TUnknown),
     (''401'', False, TUnknown)]"

definition PutApiAdminClientsClientIdScopesResponses :: ts where
  "PutApiAdminClientsClientIdScopesResponses = TObject
    [(''200'', False, TUnknown)]"

definition PostApiAdminClientsClientIdSuspendErrors :: ts where
  "PostApiAdminClientsClientIdSuspendErrors = TObject
    [(''401'', False, ErrorEnvelope),
     (''404'', False, ErrorEnvelope)]"

definition PostApiAdminClientsClientIdSuspendResponses :: ts where
  "PostApiAdminClientsClientIdSuspendResponses = TObject
    [(''200'', False, TObject
      [(''client_id'', True, TString),
       (''status'', True, TString)])]"

definition GetApiAdminDashboardErrors :: ts where
  "GetApiAdminDashboardErrors = TObject
    [(''401'', False, TUnknown),
     (''403'', False, TUnknown)]"

definition GetApiAdminDashboardResponses :: ts where
  "GetApiAdminDashboardResponses = TObject
    [(''200'', False, TObject
      [(''message'', True, TString),
       (''status'', True, TString)])]"

definition GetApiAdminDashboardStatsResponses :: ts where
  "GetApiAdminDashboardStatsResponses = TObject
    [(''200'', False, TObject
      [(''active_tokens'', True, TNumber),
       (''failures_today'', True, TNumber),
       (''logs_today'', True, TNumber),
       (''status'', True, TString),
       (''total_clients'', True, TNumber),
       (''total_users'', True, TNumber)])]"

definition GetApiAdminEmailTemplatesErrors :: ts where
  "GetApiAdminEmailTemplatesErrors = TObject
    [(''404'', False, TUnknown)]"

definition GetApiAdminEmailTemplatesResponses :: ts where
  "GetApiAdminEmailTemplatesResponses = TObject
    [(''200'', False, TObject
      [(''status'', True, TString),
       (''total'', True, TNumber),
       (''templates'', True, TArray (TObject
          [(''template_key'', True, TString),
           (''locale'', True, TString),
           (''subject'', True, TString),
           (''body_html'', True, TString),
           (''body_text'', True, TString),
           (''updated_at'', True, TString)]))])]"

definition GetApiAdminEmailTemplatesKeyLocaleErrors :: ts where
  "GetApiAdminEmailTemplatesKeyLocaleErrors = TObject
    [(''404'', False, TUnknown)]"

definition GetApiAdminEmailTemplatesKeyLocaleResponses :: ts where
  "GetApiAdminEmailTemplatesKeyLocaleResponses = TObject
    [(''200'', False, TUnknown)]"

definition PutApiAdminEmailTemplatesKeyLocaleErrors :: ts where
  "PutApiAdminEmailTemplatesKeyLocaleErrors = TObject
    [(''400'', False, TUnknown)]"

definition PutApiAdminEmailTemplatesKeyLocaleResponses :: ts where
  "PutApiAdminEmailTemplatesKeyLocaleResponses = TObject
    [(''200'', False, TUnknown)]"

definition PostApiAdminEmailTemplatesKeyLocaleTestSendErrors :: ts where
  "PostApiAdminEmailTemplatesKeyLocaleTestSendErrors = TObject
    [(''403'', False, TUnknown),
     (''404'', False, TUnknown),
     (''429'', False, TUnknown)]"

definition PostApiAdminEmailTemplatesKeyLocaleTestSendResponses :: ts where
  "PostApiAdminEmailTemplatesKeyLocaleTestSendResponses = TObject
    [(''200'', False, TUnknown)]"

definition GetApiAdminLogsErrors :: ts where
  "GetApiAdminLogsErrors = TObject
    [(''401'', False, TUnknown)]"

definition GetApiAdminLogsResponses :: ts where
  "GetApiAdminLogsResponses = TObject
    [(''200'', False, TUnknown)]"

definition GetApiAdminLogsExportErrors :: ts where
  "GetApiAdminLogsExportErrors = TObject
    [(''400'', False, TUnknown),
     (''404'', False, TUnknown)]"

definition GetApiAdminLogsExportResponses :: ts where
  "GetApiAdminLogsExportResponses = TObject
    [(''200'', False, TString)]"

definition GetApiAdminOidcKeysErrors :: ts where
  "GetApiAdminOidcKeysErrors = TObject
    [(''401'', False, TUnknown)]"

definition GetApiAdminOidcKeysResponses :: ts where
  "GetApiAdminOidcKeysResponses = TObject
    [(''200'', False, TUnknown)]"

definition GetApiAdminOrganizationsErrors :: ts where
  "GetApiAdminOrganizationsErrors = TObject
    [(''401'', False, TUnknown),
     (''403'', False, TUnknown)]"

definition GetApiAdminOrganizationsResponses :: ts where
  "GetApiAdminOrganizationsResponses = TObject
    [(''200'', False, TObject
      [(''organizations'', True, TArray Organization),
       (''total'', True, TNumber)])]"

definition PostApiAdminOrganizationsErrors :: ts where
  "PostApiAdminOrganizationsErrors = TObject
    [(''400'', False, ErrorEnvelope),
     (''401'', False, TUnknown),
     (''409'', False, TUnknown)]"

definition PostApiAdminOrganizationsResponses :: ts where
  "PostApiAdminOrganizationsResponses = TObject
    [(''200'', False, TBoth Organization (TObject
        [(''message'', True, TString)]))]"

definition DeleteApiAdminOrganizationsSlugErrors :: ts where
  "DeleteApiAdminOrganizationsSlugErrors = TObject
    [(''401'', False, TUnknown),
     (''404'', False, TUnknown)]"

definition DeleteApiAdminOrganizationsSlugResponses :: ts where
  "DeleteApiAdminOrganizationsSlugResponses = TObject
    [(''200'', False, TUnknown)]"

definition GetApiAdminOrganizationsSlugErrors :: ts where
  "GetApiAdminOrganizationsSlugErrors = TObject
    [(''401'', False, TUnknown),
     (''404'', False, TUnknown)]"

definition GetApiAdminOrganizationsSlugResponses :: ts where
  "GetApiAdminOrganizationsSlugResponses = TObject
    [(''200'', False, Organization)]"

definition PatchApiAdminOrganizationsSlugErrors :: ts where
  "PatchApiAdminOrganizationsSlugErrors = TObject
    [(''400'', False, TUnknown),
     (''404'', False, TUnknown)]"

definition PatchApiAdminOrganizationsSlugResponses :: ts where
  "PatchApiAdminOrganizationsSlugResponses = TObject
    [(''200'', False, TUnknown)]"

definition GetApiAdminOrganizationsSlugMembersErrors :: ts where
  "GetApiAdminOrganizationsSlugMembersErrors = TObject
    [(''404'', False, TUnknown)]"

definition GetApiAdminOrganizationsSlugMembersResponses :: ts where
  "GetApiAdminOrganizationsSlugMembersResponses = TObject
    [(''200'', False, TObject
      [(''status'', True, TString),
       (''total'', True, TNumber),
       (''members'', True, TArray (TObject
          [(''user_id'', True, TNumber),
           (''username'', True, TString),
           (''role'', True, TString),
           (''joined_at'', True, TString)]))])]"

definition DeleteApiAdminOrganizationsSlugMembersUserIdErrors :: ts where
  "DeleteApiAdminOrganizationsSlugMembersUserIdErrors = TObject
    [(''404'', False, TUnknown),
     (''409'', False, TUnknown)]"

definition DeleteApiAdminOrganizationsSlugMembersUserIdResponses :: ts where
  "DeleteApiAdminOrganizationsSlugMembersUserIdResponses = TObject
    [(''200'', False, TUnknown)]"

definition PostApiAdminOrganizationsSlugTransferOwnershipErrors :: ts where
  "PostApiAdminOrganizationsSlugTransferOwnershipErrors = TObject
    [(''400'', False, ErrorEnvelope),
     (''401'', False, TUnknown),
     (''404'', False, TUnknown),
     (''409'', False, TUnknown),
     (''500'', False, TUnknown)]"

definition PostApiAdminOrganizationsSlugTransferOwnershipResponses :: ts where
  "PostApiAdminOrganizationsSlugTransferOwnershipResponses = TObject
    [(''200'', False, TObject
      [(''slug'', True, TString),
       (''organization_id'', True, TNumber),
       (''owner_user_id'', True, TNumber)])]"

definition GetApiAdminRolesResponses :: ts where
  "GetApiAdminRolesResponses = TObject
    [(''200'', False, TObject
      [(''roles'', True, TArray (TObject
          [(''created_at'', True, TString),
           (''description'', True, TString),
           (''id'', True, TNumber),
           (''name'', True, TString),
           (''user_count'', True, TNumber)])),
       (''status'', True, TString),
       (''total'', True, TNumber)])]"

definition PostApiAdminRolesErrors :: ts where
  "PostApiAdminRolesErrors = TObject
    [(''400'', False, TUnknown),
     (''409'', False, TUnknown)]"

definition PostApiAdminRolesResponses :: ts where
  "PostApiAdminRolesResponses = TObject
    [(''201'', False, TUnknown)]"

definition GetApiAdminRolesRoleIdPermissionsErrors :: ts where
  "GetApiAdminRolesRoleIdPermissionsErrors = TObject
    [(''404'', False, TUnknown)]"

definition GetApiAdminRolesRoleIdPermissionsResponses :: ts where
  "GetApiAdminRolesRoleIdPermissionsResponses = TObject
    [(''200'', False, TObject
      [(''status'', True, TString),
       (''total'', True, TNumber),
       (''permissions'', True, TArray TString)])]"

definition PutApiAdminRolesRoleIdPermissionsErrors :: ts where
  "PutApiAdminRolesRoleIdPermissionsErrors = TObject
    [(''400'', False, TUnknown),
     (''404'', False, TUnknown)]"

definition PutApiAdminRolesRoleIdPermissionsResponses :: ts where
  "PutApiAdminRolesRoleIdPermissionsResponses = TObject
    [(''200'', False, TUnknown)]"

definition DeleteApiAdminRolesRoleIdErrors :: ts where
  "DeleteApiAdminRolesRoleIdErrors = TObject
    [(''404'', False, TUnknown)]"

definition DeleteApiAdminRolesRoleIdResponses :: ts where
  "DeleteApiAdminRolesRoleIdResponses = TObject
    [(''200'', False, TUnknown)]"

definition PutApiAdminRolesRoleIdErrors :: ts where
  "PutApiAdminRolesRoleIdErrors = TObject
    [(''404'', False, TUnknown)]"

definition PutApiAdminRolesRoleIdResponses :: ts where
  "PutApiAdminRolesRoleIdResponses = TObject
    [(''200'', False, TUnknown)]"

definition GetApiAdminScopesResponses :: ts where
  "GetApiAdminScopesResponses = TObject
    [(''200'', False, TObject
      [(''scopes'', True, TArray (TObject
          [(''description'', True, TString),
           (''id'', True, TNumber),
           (''is_default'', True, TBoolean),
           (''mapped_role'', True, TString),
           (''name'', True, TString),
           (''requires_admin_role'', True, TBoolean)])),
       (''status'', True, TString),
       (''total'', True, TNumber)])]"

definition PostApiAdminScopesErrors :: ts where
  "PostApiAdminScopesErrors = TObject
    [(''400'', False, TUnknown),
     (''409'', False, TUnknown)]"

definition PostApiAdminScopesResponses :: ts where
  "PostApiAdminScopesResponses = TObject
    [(''201'', False, TUnknown)]"

definition DeleteApiAdminScopesScopeIdErrors :: ts where
  "DeleteApiAdminScopesScopeIdErrors = TObject
    [(''404'', False, TUnknown)]"

definition DeleteApiAdminScopesScopeIdResponses :: ts where
  "DeleteApiAdminScopesScopeIdResponses = TObject
    [(''200'', False, TUnknown)]"

definition PutApiAdminScopesScopeIdErrors :: ts where
  "PutApiAdminScopesScopeIdErrors = TObject
    [(''404'', False, TUnknown)]"

definition PutApiAdminScopesScopeIdResponses :: ts where
  "PutApiAdminScopesScopeIdResponses = TObject
    [(''200'', False, TUnknown)]"

definition GetApiAdminScopesResourcesResponses :: ts where
  "GetApiAdminScopesResourcesResponses = TObject
    [(''200'', False, TObject
      [(''resources'', True, TArray (TObject
          [(''path'', True, TString),
           (''method'', True, TString),
           (''required_scopes'', True, TArray TString),
           (''implied_by'', True, TArray TString)]))])]"

definition GetApiAdminTokensErrors :: ts where
  "GetApiAdminTokensErrors = TObject
    [(''401'', False, TUnknown)]"

definition GetApiAdminTokensResponses :: ts where
  "GetApiAdminTokensResponses = TObject
    [(''200'', False, TUnknown)]"

definition PostApiAdminTokensRevokeByClientErrors :: ts where
  "PostApiAdminTokensRevokeByClientErrors = TObject
    [(''400'', False, TUnknown),
     (''401'', False, TUnknown)]"

definition PostApiAdminTokensRevokeByClientResponses :: ts where
  "PostApiAdminTokensRevokeByClientResponses = TObject
    [(''200'', False, TUnknown)]"

definition PostApiAdminTokensRevokeByUserErrors :: ts where
  "PostApiAdminTokensRevokeByUserErrors = TObject
    [(''400'', False, TUnknown),
     (''401'', False, TUnknown)]"

definition PostApiAdminTokensRevokeByUserResponses :: ts where
  "PostApiAdminTokensRevokeByUserResponses = TObject
    [(''200'', False, TUnknown)]"

definition DeleteApiAdminTokensTokenPrefixErrors :: ts where
  "DeleteApiAdminTokensTokenPrefixErrors = TObject
    [(''401'', False, TUnknown),
     (''404'', False, TUnknown)]"

definition DeleteApiAdminTokensTokenPrefixResponses :: ts where
  "DeleteApiAdminTokensTokenPrefixResponses = TObject
    [(''200'', False, TUnknown)]"

definition GetApiAdminUsersErrors :: ts where
  "GetApiAdminUsersErrors = TObject
    [(''401'', False, TUnknown)]"

definition GetApiAdminUsersResponses :: ts where
  "GetApiAdminUsersResponses = TObject
    [(''200'', False, TUnknown)]"

definition PostApiAdminUsersErrors :: ts where
  "PostApiAdminUsersErrors = TObject
    [(''400'', False, TUnknown),
     (''401'', False, TUnknown),
     (''403'', False, TUnknown)]"

definition PostApiAdminUsersResponses :: ts where
  "PostApiAdminUsersResponses = TObject
    [(''201'', False, TUnknown)]"

definition DeleteApiAdminUsersUserIdErrors :: ts where
  "DeleteApiAdminUsersUserIdErrors = TObject
    [(''400'', False, TUnknown),
     (''404'', False, TUnknown),
     (''409'', False, TUnknown)]"

definition DeleteApiAdminUsersUserIdResponses :: ts where
  "DeleteApiAdminUsersUserIdResponses = TObject
    [(''200'', False, TUnknown)]"

definition GetApiAdminUsersUserIdErrors :: ts where
  "GetApiAdminUsersUserIdErrors = TObject
    [(''404'', False, TUnknown)]"

definition GetApiAdminUsersUserIdResponses :: ts where
  "GetApiAdminUsersUserIdResponses = TObject
    [(''200'', False, TObject
      [(''created_at'', True, TString),
       (''email'', True, TString),
       (''email_verified'', True, TBoolean),
       (''failed_login_count'', True, TNumber),
       (''id'', True, TNumber),
       (''locked'', True, TBoolean),
       (''locked_until'', True, TNumber),
       (''mfa_enabled'', True, TBoolean),
       (''org_id'', True, TUnion [TNumber, TNull]),
       (''roles'', True, TArray TString),
       (''status'', True, TString),
       (''username'', True, TString)])]"

definition PutApiAdminUsersUserIdErrors :: ts where
  "PutApiAdminUsersUserIdErrors = TObject
    [(''400'', False, TUnknown),
     (''404'', False, TUnknown),
     (''409'', False, TUnknown)]"

definition PutApiAdminUsersUserIdResponses :: ts where
  "PutApiAdminUsersUserIdResponses = TObject
    [(''200'', False, TUnknown)]"

definition PutApiAdminUsersUserIdDisableErrors :: ts where
  "PutApiAdminUsersUserIdDisableErrors = TObject
    [(''401'', False, TUnknown),
     (''404'', False, TUnknown),
     (''409'', False, TUnknown)]"

definition PutApiAdminUsersUserIdDisableResponses :: ts where
  "PutApiAdminUsersUserIdDisableResponses = TObject
    [(''200'', False, TUnknown)]"

definition PostApiAdminUsersUserIdEnableErrors :: ts where
  "PostApiAdminUsersUserIdEnableErrors = TObject
    [(''404'', False, TUnknown)]"

definition PostApiAdminUsersUserIdEnableResponses :: ts where
  "PostApiAdminUsersUserIdEnableResponses = TObject
    [(''200'', False, TUnknown)]"

definition GetApiAdminUsersUserIdRolesErrors :: ts where
  "GetApiAdminUsersUserIdRolesErrors = TObject
    [(''404'', False, TUnknown)]"

definition GetApiAdminUsersUserIdRolesResponses :: ts where
  "GetApiAdminUsersUserIdRolesResponses = TObject
    [(''200'', False, TObject
      [(''roles'', True, TArray (TObject
          [(''description'', True, TString),
           (''id'', True, TNumber),
           (''name'', True, TString)])),
       (''status'', True, TString)])]"

definition PutApiAdminUsersUserIdRolesErrors :: ts where
  "PutApiAdminUsersUserIdRolesErrors = TObject
    [(''400'', False, TUnknown),
     (''409'', False, TUnknown)]"

definition PutApiAdminUsersUserIdRolesResponses :: ts where
  "PutApiAdminUsersUserIdRolesResponses = TObject
    [(''200'', False, TUnknown)]"

definition GetApiAuthProvidersResponses :: ts where
  "GetApiAuthProvidersResponses = TObject
    [(''200'', False, AuthProvidersResponse)]"

definition PostApiGithubLoginErrors :: ts where
  "PostApiGithubLoginErrors = TObject
    [(''400'', False, TUnknown),
     (''403'', False, TUnknown),
     (''502'', False, TUnknown)]"

definition PostApiGithubLoginResponses :: ts where
  "PostApiGithubLoginResponses = TObject
    [(''200'', False, SocialLoginTokenResponse)]"

definition PostApiGoogleLoginErrors :: ts where
  "PostApiGoogleLoginErrors = TObject
    [(''400'', False, TUnknown),
     (''403'', False, TUnknown),
     (''502'', False, TUnknown)]"

definition PostApiGoogleLoginResponses :: ts where
  "PostApiGoogleLoginResponses = TObject
    [(''200'', False, SocialLoginTokenResponse)]"

definition DeleteApiMeErrors :: ts where
  "DeleteApiMeErrors = TObject
    [(''401'', False, TUnknown),
     (''404'', False, TUnknown)]"

definition DeleteApiMeResponses :: ts where
  "DeleteApiMeResponses = TObject
    [(''200'', False, TUnknown)]"

definition GetApiMeErrors :: ts where
  "GetApiMeErrors = TObject
    [(''401'', False, TUnknown),
     (''403'', False, TUnknown),
     (''404'', False, TUnknown)]"

definition GetApiMeResponses :: ts where
  "GetApiMeResponses = TObject
    [(''200'', False, TUnknown)]"

definition GetApiMeAuthorizedAppsErrors :: ts where
  "GetApiMeAuthorizedAppsErrors = TObject
    [(''401'', False, TUnknown)]"

definition GetApiMeAuthorizedAppsResponses :: ts where
  "GetApiMeAuthorizedAppsResponses = TObject
    [(''200'', False, TUnknown)]"

definition DeleteApiMeAuthorizedAppsClientIdErrors :: ts where
  "DeleteApiMeAuthorizedAppsClientIdErrors = TObject
    [(''401'', False, TUnknown),
     (''404'', False, TUnknown)]"

definition DeleteApiMeAuthorizedAppsClientIdResponses :: ts where
  "DeleteApiMeAuthorizedAppsClientIdResponses = TObject
    [(''200'', False, TUnknown)]"

definition GetApiMeApplicationsErrors :: ts where
  "GetApiMeApplicationsErrors = TObject
    [(''401'', False, ErrorEnvelope)]"

definition GetApiMeApplicationsResponses :: ts where
  "GetApiMeApplicationsResponses = TObject
    [(''200'', False, TObject
      [(''applications'', True, TArray (TObject
          [(''client_id'', True, TString),
           (''name'', True, TString),
           (''client_type'', True, TUnion [TLit ''PUBLIC'', TLit ''CONFIDENTIAL'']),
           (''status'', True, TUnion [TLit ''active'', TLit ''suspended'']),
           (''org_id'', True, TUnion [TNumber, TNull]),
           (''creator_user_id'', True, TNumber),
           (''redirect_uris'', True, TArray TString),
           (''allowed_grant_types'', True, TArray TString),
           (''created_at'', True, TString)])),
       (''total'', True, TNumber)])]"

definition PostApiMeApplicationsErrors :: ts where
  "PostApiMeApplicationsErrors = TObject
    [(''400'', False, ErrorEnvelope),
     (''401'', False, ErrorEnvelope),
     (''403'', False, ErrorEnvelope),
     (''404'', False, ErrorEnvelope),
     (''409'', False, ErrorEnvelope),
     (''429'', False, ErrorEnvelope)]"

definition PostApiMeApplicationsResponses :: ts where
  "PostApiMeApplicationsResponses = TObject
    [(''201'', False, TObject
      [(''client_id'', True, TString),
       (''client_type'', True, TUnion [TLit ''PUBLIC'', TLit ''CONFIDENTIAL'']),
       (''client_secret'', True, TString),
       (''org_id'', True, TNumber),
       (''message'', True, TString)])]"

definition DeleteApiMeApplicationsClientIdErrors :: ts where
  "DeleteApiMeApplicationsClientIdErrors = TObject
    [(''401'', False, ErrorEnvelope),
     (''404'', False, ErrorEnvelope)]"

definition DeleteApiMeApplicationsClientIdResponses :: ts where
  "DeleteApiMeApplicationsClientIdResponses = TObject
    [(''200'', False, TObject
      [(''message'', True, TString)])]"

definition PatchApiMeApplicationsClientIdErrors :: ts where
  "PatchApiMeApplicationsClientIdErrors = TObject
    [(''400'', False, ErrorEnvelope),
     (''401'', False, ErrorEnvelope),
     (''403'', False, ErrorEnvelope),
     (''404'', False, ErrorEnvelope)]"

definition PatchApiMeApplicationsClientIdResponses :: ts where
  "PatchApiMeApplicationsClientIdResponses = TObject
    [(''200'', False, TObject
      [(''message'', True, TString)])]"

definition PostApiMeApplicationsClientIdRotateSecretErrors :: ts where
  "PostApiMeApplicationsClientIdRotateSecretErrors = TObject
    [(''400'', False, ErrorEnvelope),
     (''401'', False, ErrorEnvelope),
     (''403'', False, ErrorEnvelope),
     (''404'', False, ErrorEnvelope)]"

definition PostApiMeApplicationsClientIdRotateSecretResponses :: ts where
  "PostApiMeApplicationsClientIdRotateSecretResponses = TObject
    [(''200'', False, TObject
      [(''client_id'', True, TString),
       (''client_secret'', True, TString),
       (''message'', True, TString)])]"

definition PostApiMeApplicationsClientIdTransferErrors :: ts where
  "PostApiMeApplicationsClientIdTransferErrors = TObject
    [(''400'', False, ErrorEnvelope),
     (''401'', False, ErrorEnvelope),
     (''403'', False, ErrorEnvelope),
     (''404'', False, ErrorEnvelope),
     (''409'', False, ErrorEnvelope)]"

definition PostApiMeApplicationsClientIdTransferResponses :: ts where
  "PostApiMeApplicationsClientIdTransferResponses = TObject
    [(''200'', False, TObject
      [(''message'', True, TString),
       (''org_id'', True, TNumber)])]"

definition PostApiMeMfaDisableErrors :: ts where
  "PostApiMeMfaDisableErrors = TObject
    [(''401'', False, ErrorEnvelope)]"

definition PostApiMeMfaDisableResponses :: ts where
  "PostApiMeMfaDisableResponses = TObject
    [(''200'', False, MessageResponse)]"

definition PostApiMeMfaSetupErrors :: ts where
  "PostApiMeMfaSetupErrors = TObject
    [(''401'', False, ErrorEnvelope)]"

definition PostApiMeMfaSetupResponses :: ts where
  "PostApiMeMfaSetupResponses = TObject
    [(''200'', False, TObject
      [(''secret'', False, TString),
       (''otpauth_uri'', False, TString),
       (''message'', True, TString)])]"

definition PostApiMeMfaVerifyErrors :: ts where
  "PostApiMeMfaVerifyErrors = TObject
    [(''400'', False, ErrorEnvelope),
     (''401'', False, ErrorEnvelope)]"

definition PostApiMeMfaVerifyResponses :: ts where
  "PostApiMeMfaVerifyResponses = TObject
    [(''200'', False, TObject
      [(''message'', True, TString),
       (''backup_codes'', True, TArray TString),
       (''warning'', True, TString)])]"

definition PostApiMeOrgInvitationsAcceptErrors :: ts where
  "PostApiMeOrgInvitationsAcceptErrors = TObject
    [(''400'', False, ErrorEnvelope),
     (''401'', False, ErrorEnvelope),
     (''403'', False, ErrorEnvelope),
     (''404'', False, ErrorEnvelope),
     (''409'', False, ErrorEnvelope)]"

definition PostApiMeOrgInvitationsAcceptResponses :: ts where
  "PostApiMeOrgInvitationsAcceptResponses = TObject
    [(''200'', False, TObject
      [(''organization_id'', True, TNumber),
       (''role'', True, TString),
       (''message'', True, TString)])]"

definition GetApiMeOrganizationsErrors :: ts where
  "GetApiMeOrganizationsErrors = TObject
    [(''401'', False, ErrorEnvelope)]"

definition GetApiMeOrganizationsResponses :: ts where
  "GetApiMeOrganizationsResponses = TObject
    [(''200'', False, TObject
      [(''organizations'', True, TArray (TObject
          [(''id'', True, TNumber),
           (''slug'', True, TString),
           (''name'', True, TString),
           (''logo_uri'', True, TString),
           (''primary_color'', True, TString),
           (''role'', True, TUnion [TLit ''owner'', TLit ''admin'', TLit ''member'']),
           (''successor_nomination'', True, TUnion [TObject
              [(''nominee_user_id'', True, TNumber),
               (''nominated_by'', True, TNumber),
               (''created_at'', True, TString)], TNull])])),
       (''total'', True, TNumber),
       (''pending_succession_nominations'', True, TArray (TObject
          [(''organization_id'', True, TNumber),
           (''slug'', True, TString),
           (''name'', True, TString),
           (''created_at'', True, TString)]))])]"

definition PostApiMeOrganizationsErrors :: ts where
  "PostApiMeOrganizationsErrors = TObject
    [(''400'', False, ErrorEnvelope),
     (''401'', False, ErrorEnvelope),
     (''403'', False, ErrorEnvelope),
     (''409'', False, ErrorEnvelope)]"

definition PostApiMeOrganizationsResponses :: ts where
  "PostApiMeOrganizationsResponses = TObject
    [(''201'', False, TObject
      [(''slug'', True, TString),
       (''role'', True, TString),
       (''message'', True, TString)])]"

definition GetApiMeOrganizationsSlugInvitationsErrors :: ts where
  "GetApiMeOrganizationsSlugInvitationsErrors = TObject
    [(''401'', False, ErrorEnvelope),
     (''403'', False, ErrorEnvelope),
     (''404'', False, ErrorEnvelope)]"

definition GetApiMeOrganizationsSlugInvitationsResponses :: ts where
  "GetApiMeOrganizationsSlugInvitationsResponses = TObject
    [(''200'', False, TObject
      [(''invitations'', True, TArray (TObject
          [(''id'', True, TNumber),
           (''email'', True, TString),
           (''role'', True, TString),
           (''expires_at'', True, TString)])),
       (''total'', True, TNumber)])]"

definition PostApiMeOrganizationsSlugInvitationsErrors :: ts where
  "PostApiMeOrganizationsSlugInvitationsErrors = TObject
    [(''400'', False, ErrorEnvelope),
     (''401'', False, ErrorEnvelope),
     (''403'', False, ErrorEnvelope),
     (''404'', False, ErrorEnvelope),
     (''409'', False, ErrorEnvelope)]"

definition PostApiMeOrganizationsSlugInvitationsResponses :: ts where
  "PostApiMeOrganizationsSlugInvitationsResponses = TObject
    [(''201'', False, TObject
      [(''id'', True, TNumber),
       (''email'', True, TString),
       (''role'', True, TString),
       (''token'', True, TString),
       (''expires_at'', True, TString),
       (''message'', True, TString)])]"

definition GetApiMeOrganizationsSlugConsentsErrors :: ts where
  "GetApiMeOrganizationsSlugConsentsErrors = TObject
    [(''401'', False, ErrorEnvelope),
     (''403'', False, ErrorEnvelope),
     (''404'', False, ErrorEnvelope)]"

definition GetApiMeOrganizationsSlugConsentsResponses :: ts where
  "GetApiMeOrganizationsSlugConsentsResponses = TObject
    [(''200'', False, TObject
      [(''slug'', True, TString),
       (''consents'', True, TArray (TObject
          [(''client_id'', True, TString),
           (''scopes'', True, TArray (TObject
              [(''scope'', True, TString),
               (''granted_by'', True, TNumber),
               (''granted_at'', True, TString)]))])),
       (''total'', True, TNumber)])]"

definition DeleteApiMeOrganizationsSlugConsentsClientIdErrors :: ts where
  "DeleteApiMeOrganizationsSlugConsentsClientIdErrors = TObject
    [(''401'', False, ErrorEnvelope),
     (''403'', False, ErrorEnvelope),
     (''404'', False, ErrorEnvelope)]"

definition DeleteApiMeOrganizationsSlugConsentsClientIdResponses :: ts where
  "DeleteApiMeOrganizationsSlugConsentsClientIdResponses = TObject
    [(''200'', False, TObject
      [(''slug'', True, TString),
       (''client_id'', True, TString),
       (''revoked'', True, TNumber),
       (''message'', True, TString)])]"

definition GetApiMeOrganizationsSlugConsentRequestsErrors :: ts where
  "GetApiMeOrganizationsSlugConsentRequestsErrors = TObject
    [(''401'', False, ErrorEnvelope),
     (''403'', False, ErrorEnvelope),
     (''404'', False, ErrorEnvelope)]"

definition GetApiMeOrganizationsSlugConsentRequestsResponses :: ts where
  "GetApiMeOrganizationsSlugConsentRequestsResponses = TObject
    [(''200'', False, TObject
      [(''slug'', True, TString),
       (''requests'', True, TArray (TObject
          [(''id'', True, TNumber),
           (''organization_id'', True, TNumber),
           (''client_id'', True, TString),
           (''requested_by'', True, TNumber),
           (''requester_username'', True, TString),
           (''requested_at'', True, TString),
           (''status'', True, TString)])),
       (''total'', True, TNumber)])]"

definition PostApiMeOrganizationsSlugConsentRequestsErrors :: ts where
  "PostApiMeOrganizationsSlugConsentRequestsErrors = TObject
    [(''400'', False, ErrorEnvelope),
     (''401'', False, ErrorEnvelope),
     (''403'', False, ErrorEnvelope),
     (''404'', False, ErrorEnvelope),
     (''409'', False, ErrorEnvelope)]"

definition PostApiMeOrganizationsSlugConsentRequestsResponses :: ts where
  "PostApiMeOrganizationsSlugConsentRequestsResponses = TObject
    [(''200'', False, TObject
      [(''id'', True, TNumber),
       (''organization_id'', True, TNumber),
       (''client_id'', True, TString),
       (''requested_by'', True, TNumber),
       (''requested_at'', True, TString),
       (''status'', True, TString),
       (''message'', True, TString)])]"

definition PostApiMeOrganizationsSlugConsentRequestsRequestIdApproveErrors :: ts where
  "PostApiMeOrganizationsSlugConsentRequestsRequestIdApproveErrors = TObject
    [(''400'', False, ErrorEnvelope),
     (''401'', False, ErrorEnvelope),
     (''403'', False, ErrorEnvelope),
     (''404'', False, ErrorEnvelope),
     (''409'', False, ErrorEnvelope),
     (''500'', False, ErrorEnvelope)]"

definition PostApiMeOrganizationsSlugConsentRequestsRequestIdApproveResponses :: ts where
  "PostApiMeOrganizationsSlugConsentRequestsRequestIdApproveResponses = TObject
    [(''200'', False, TObject
      [(''id'', True, TNumber),
       (''client_id'', True, TString),
       (''status'', True, TString),
       (''scopes'', True, TArray TString),
       (''message'', True, TString)])]"

definition PostApiMeOrganizationsSlugConsentRequestsRequestIdRejectErrors :: ts where
  "PostApiMeOrganizationsSlugConsentRequestsRequestIdRejectErrors = TObject
    [(''400'', False, ErrorEnvelope),
     (''401'', False, ErrorEnvelope),
     (''403'', False, ErrorEnvelope),
     (''404'', False, ErrorEnvelope),
     (''409'', False, ErrorEnvelope)]"

definition PostApiMeOrganizationsSlugConsentRequestsRequestIdRejectResponses :: ts where
  "PostApiMeOrganizationsSlugConsentRequestsRequestIdRejectResponses = TObject
    [(''200'', False, TObject
      [(''id'', True, TNumber),
       (''client_id'', True, TString),
       (''status'', True, TString),
       (''message'', True, TString)])]"

definition DeleteApiMeOrganizationsSlugConsentRequestsRequestIdErrors :: ts where
  "DeleteApiMeOrganizationsSlugConsentRequestsRequestIdErrors = TObject
    [(''400'', False, ErrorEnvelope),
     (''401'', False, ErrorEnvelope),
     (''403'', False, ErrorEnvelope),
     (''404'', False, ErrorEnvelope)]"

definition DeleteApiMeOrganizationsSlugConsentRequestsRequestIdResponses :: ts where
  "DeleteApiMeOrganizationsSlugConsentRequestsRequestIdResponses = TObject
    [(''200'', False, TObject
      [(''id'', True, TNumber),
       (''status'', True, TString),
       (''message'', True, TString)])]"

definition DeleteApiMeOrganizationsSlugSuccessorNominationErrors :: ts where
  "DeleteApiMeOrganizationsSlugSuccessorNominationErrors = TObject
    [(''401'', False, ErrorEnvelope),
     (''403'', False, ErrorEnvelope),
     (''404'', False, ErrorEnvelope)]"

definition DeleteApiMeOrganizationsSlugSuccessorNominationResponses :: ts where
  "DeleteApiMeOrganizationsSlugSuccessorNominationResponses = TObject
    [(''200'', False, TObject
      [(''slug'', True, TString),
       (''message'', True, TString)])]"

definition PostApiMeOrganizationsSlugSuccessorNominationErrors :: ts where
  "PostApiMeOrganizationsSlugSuccessorNominationErrors = TObject
    [(''400'', False, ErrorEnvelope),
     (''401'', False, ErrorEnvelope),
     (''403'', False, ErrorEnvelope),
     (''404'', False, ErrorEnvelope)]"

definition PostApiMeOrganizationsSlugSuccessorNominationResponses :: ts where
  "PostApiMeOrganizationsSlugSuccessorNominationResponses = TObject
    [(''200'', False, TObject
      [(''slug'', True, TString),
       (''nominee_user_id'', True, TNumber),
       (''message'', True, TString)])]"

definition PostApiMeOrganizationsSlugSuccessorNominationAcceptErrors :: ts where
  "PostApiMeOrganizationsSlugSuccessorNominationAcceptErrors = TObject
    [(''401'', False, ErrorEnvelope),
     (''403'', False, ErrorEnvelope),
     (''404'', False, ErrorEnvelope),
     (''409'', False, ErrorEnvelope)]"

definition PostApiMeOrganizationsSlugSuccessorNominationAcceptResponses :: ts where
  "PostApiMeOrganizationsSlugSuccessorNominationAcceptResponses = TObject
    [(''200'', False, TObject
      [(''slug'', True, TString),
       (''owner_user_id'', True, TNumber),
       (''message'', True, TString)])]"

definition DeleteApiMeOrganizationsSlugInvitationsInvitationIdErrors :: ts where
  "DeleteApiMeOrganizationsSlugInvitationsInvitationIdErrors = TObject
    [(''400'', False, ErrorEnvelope),
     (''401'', False, ErrorEnvelope),
     (''403'', False, ErrorEnvelope),
     (''404'', False, ErrorEnvelope)]"

definition DeleteApiMeOrganizationsSlugInvitationsInvitationIdResponses :: ts where
  "DeleteApiMeOrganizationsSlugInvitationsInvitationIdResponses = TObject
    [(''200'', False, TObject
      [(''message'', True, TString)])]"

definition GetApiMeOrganizationsSlugMembersErrors :: ts where
  "GetApiMeOrganizationsSlugMembersErrors = TObject
    [(''401'', False, ErrorEnvelope),
     (''403'', False, ErrorEnvelope),
     (''404'', False, ErrorEnvelope)]"

definition GetApiMeOrganizationsSlugMembersResponses :: ts where
  "GetApiMeOrganizationsSlugMembersResponses = TObject
    [(''200'', False, TObject
      [(''members'', True, TArray (TObject
          [(''user_id'', True, TNumber),
           (''username'', True, TString),
           (''display_name'', True, TString),
           (''role'', True, TUnion [TLit ''owner'', TLit ''admin'', TLit ''member''])])),
       (''total'', True, TNumber)])]"

definition DeleteApiMeOrganizationsSlugMembersUserIdErrors :: ts where
  "DeleteApiMeOrganizationsSlugMembersUserIdErrors = TObject
    [(''400'', False, ErrorEnvelope),
     (''401'', False, ErrorEnvelope),
     (''403'', False, ErrorEnvelope),
     (''404'', False, ErrorEnvelope)]"

definition DeleteApiMeOrganizationsSlugMembersUserIdResponses :: ts where
  "DeleteApiMeOrganizationsSlugMembersUserIdResponses = TObject
    [(''200'', False, TObject
      [(''message'', True, TString)])]"

definition PutApiMePasswordErrors :: ts where
  "PutApiMePasswordErrors = TObject
    [(''400'', False, TUnknown),
     (''401'', False, TUnknown),
     (''404'', False, TUnknown)]"

definition PutApiMePasswordResponses :: ts where
  "PutApiMePasswordResponses = TObject
    [(''200'', False, TUnknown)]"

definition PatchApiMeProfileErrors :: ts where
  "PatchApiMeProfileErrors = TObject
    [(''400'', False, ErrorEnvelope),
     (''401'', False, ErrorEnvelope),
     (''404'', False, ErrorEnvelope)]"

definition PatchApiMeProfileResponses :: ts where
  "PatchApiMeProfileResponses = TObject
    [(''200'', False, TObject
      [(''message'', True, TString)])]"

definition GetApiMeSocialLinksErrors :: ts where
  "GetApiMeSocialLinksErrors = TObject
    [(''401'', False, ErrorEnvelope),
     (''404'', False, ErrorEnvelope),
     (''500'', False, ErrorEnvelope)]"

definition GetApiMeSocialLinksResponses :: ts where
  "GetApiMeSocialLinksResponses = TObject
    [(''200'', False, SocialLinksList)]"

definition PostApiMeSocialLinksProviderAuthorizeErrors :: ts where
  "PostApiMeSocialLinksProviderAuthorizeErrors = TObject
    [(''400'', False, ErrorEnvelope),
     (''401'', False, ErrorEnvelope),
     (''500'', False, ErrorEnvelope)]"

definition PostApiMeSocialLinksProviderAuthorizeResponses :: ts where
  "PostApiMeSocialLinksProviderAuthorizeResponses = TObject
    [(''200'', False, TObject
      [(''provider'', True, TString),
       (''state'', True, TString),
       (''authorize_url'', True, TString)])]"

definition DeleteApiMeSocialLinksProviderErrors :: ts where
  "DeleteApiMeSocialLinksProviderErrors = TObject
    [(''400'', False, ErrorEnvelope),
     (''401'', False, ErrorEnvelope),
     (''404'', False, ErrorEnvelope),
     (''409'', False, ErrorEnvelope),
     (''500'', False, ErrorEnvelope)]"

definition DeleteApiMeSocialLinksProviderResponses :: ts where
  "DeleteApiMeSocialLinksProviderResponses = TObject
    [(''200'', False, SocialLinkResult)]"

definition PostApiMeSocialLinksProviderErrors :: ts where
  "PostApiMeSocialLinksProviderErrors = TObject
    [(''400'', False, ErrorEnvelope),
     (''401'', False, ErrorEnvelope),
     (''404'', False, ErrorEnvelope),
     (''409'', False, ErrorEnvelope),
     (''500'', False, ErrorEnvelope),
     (''502'', False, ErrorEnvelope)]"

definition PostApiMeSocialLinksProviderResponses :: ts where
  "PostApiMeSocialLinksProviderResponses = TObject
    [(''200'', False, SocialLinkResult)]"

definition GetApiMeWebauthnCredentialsErrors :: ts where
  "GetApiMeWebauthnCredentialsErrors = TObject
    [(''401'', False, TUnknown)]"

definition GetApiMeWebauthnCredentialsResponses :: ts where
  "GetApiMeWebauthnCredentialsResponses = TObject
    [(''200'', False, TUnknown)]"

definition DeleteApiMeWebauthnCredentialsCredentialIdErrors :: ts where
  "DeleteApiMeWebauthnCredentialsCredentialIdErrors = TObject
    [(''401'', False, TUnknown),
     (''404'', False, TUnknown)]"

definition DeleteApiMeWebauthnCredentialsCredentialIdResponses :: ts where
  "DeleteApiMeWebauthnCredentialsCredentialIdResponses = TObject
    [(''200'', False, TUnknown)]"

definition GetApiMeProfileCustomAttributesResponses :: ts where
  "GetApiMeProfileCustomAttributesResponses = TObject
    [(''200'', False, TObject
      [(''status'', True, TString),
       (''custom_attributes'', True, TDict TUnknown)])]"

definition PutApiMeProfileCustomAttributesErrors :: ts where
  "PutApiMeProfileCustomAttributesErrors = TObject
    [(''400'', False, TUnknown)]"

definition PutApiMeProfileCustomAttributesResponses :: ts where
  "PutApiMeProfileCustomAttributesResponses = TObject
    [(''200'', False, TUnknown)]"

definition PostApiMeWebauthnRegisterBeginErrors :: ts where
  "PostApiMeWebauthnRegisterBeginErrors = TObject
    [(''401'', False, TUnknown)]"

definition PostApiMeWebauthnRegisterBeginResponses :: ts where
  "PostApiMeWebauthnRegisterBeginResponses = TObject
    [(''200'', False, TUnknown)]"

definition PostApiMeWebauthnRegisterFinishErrors :: ts where
  "PostApiMeWebauthnRegisterFinishErrors = TObject
    [(''400'', False, TUnknown),
     (''401'', False, TUnknown)]"

definition PostApiMeWebauthnRegisterFinishResponses :: ts where
  "PostApiMeWebauthnRegisterFinishResponses = TObject
    [(''201'', False, TUnknown)]"

definition PostApiPasswordResetConfirmErrors :: ts where
  "PostApiPasswordResetConfirmErrors = TObject
    [(''400'', False, TUnknown)]"

definition PostApiPasswordResetConfirmResponses :: ts where
  "PostApiPasswordResetConfirmResponses = TObject
    [(''200'', False, TUnknown)]"

definition PostApiPasswordResetRequestErrors :: ts where
  "PostApiPasswordResetRequestErrors = TObject
    [(''400'', False, TUnknown)]"

definition PostApiPasswordResetRequestResponses :: ts where
  "PostApiPasswordResetRequestResponses = TObject
    [(''200'', False, TUnknown)]"

definition PostApiRegisterErrors :: ts where
  "PostApiRegisterErrors = TObject
    [(''400'', False, TUnknown)]"

definition PostApiRegisterResponses :: ts where
  "PostApiRegisterResponses = TObject
    [(''200'', False, TUnknown)]"

definition GetApiVerifyEmailErrors :: ts where
  "GetApiVerifyEmailErrors = TObject
    [(''400'', False, TUnknown)]"

definition GetApiVerifyEmailResponses :: ts where
  "GetApiVerifyEmailResponses = TObject
    [(''200'', False, TUnknown)]"

definition PostApiVerifyEmailResendErrors :: ts where
  "PostApiVerifyEmailResendErrors = TObject
    [(''400'', False, TUnknown),
     (''401'', False, TUnknown),
     (''404'', False, TUnknown)]"

definition PostApiVerifyEmailResendResponses :: ts where
  "PostApiVerifyEmailResendResponses = TObject
    [(''200'', False, TUnknown)]"

definition PostApiVerifyEmailResendByEmailErrors :: ts where
  "PostApiVerifyEmailResendByEmailErrors = TObject
    [(''400'', False, TUnknown),
     (''429'', False, TUnknown)]"

definition PostApiVerifyEmailResendByEmailResponses :: ts where
  "PostApiVerifyEmailResendByEmailResponses = TObject
    [(''200'', False, TUnknown)]"

definition PostApiWechatLoginErrors :: ts where
  "PostApiWechatLoginErrors = TObject
    [(''400'', False, TUnknown),
     (''403'', False, TUnknown),
     (''502'', False, TUnknown)]"

definition PostApiWechatLoginResponses :: ts where
  "PostApiWechatLoginResponses = TObject
    [(''200'', False, SocialLoginTokenResponse)]"

definition GetHealthErrors :: ts where
  "GetHealthErrors = TObject
    [(''503'', False, HealthStatus)]"

definition GetHealthResponses :: ts where
  "GetHealthResponses = TObject
    [(''200'', False, HealthStatus)]"

definition GetHealthLiveResponses :: ts where
  "GetHealthLiveResponses = TObject
    [(''200'', False, HealthStatus)]"

definition GetHealthReadyErrors :: ts where
  "GetHealthReadyErrors = TObject
    [(''503'', False, HealthStatus)]"

definition GetHealthReadyResponses :: ts where
  "GetHealthReadyResponses = TObject
    [(''200'', False, HealthStatus)]"

definition GetOauth2AuthorizeErrors :: ts where
  "GetOauth2AuthorizeErrors = TObject
    [(''400'', False, TUnknown)]"

definition PostOauth2ConsentErrors :: ts where
  "PostOauth2ConsentErrors = TObject
    [(''400'', False, TUnknown),
     (''401'', False, TUnknown),
     (''403'', False, TUnknown)]"

definition GetOauth2AuthorizeContextErrors :: ts where
  "GetOauth2AuthorizeContextErrors = TObject
    [(''400'', False, TUnknown),
     (''404'', False, TUnknown)]"

definition GetOauth2AuthorizeContextResponses :: ts where
  "GetOauth2AuthorizeContextResponses = TObject
    [(''200'', False, TObject
      [(''client_name'', True, TString),
       (''logo_uri'', True, TString),
       (''org'', True, TUnion [TObject
          [(''org_name'', True, TString),
           (''logo_uri'', True, TString),
           (''primary_color'', True, TString)], TNull])])]"

definition GetOauth2ConsentContextErrors :: ts where
  "GetOauth2ConsentContextErrors = TObject
    [(''400'', False, TUnknown),
     (''401'', False, TUnknown),
     (''403'', False, TUnknown)]"

definition GetOauth2ConsentContextResponses :: ts where
  "GetOauth2ConsentContextResponses = TObject
    [(''200'', False, TObject
      [(''owner_name'', True, TString),
       (''client_name'', True, TString),
       (''logo_uri'', True, TString),
       (''scope_descriptions'', True, TArray (TObject
          [(''scope'', True, TString),
           (''description_i18n'', True, TString)])),
       (''org'', True, TUnion [TObject
          [(''org_id'', True, TNumber),
           (''org_name'', True, TString),
           (''logo_uri'', True, TString),
           (''primary_color'', True, TString)], TNull])])]"

definition PostOauth2DeviceApproveErrors :: ts where
  "PostOauth2DeviceApproveErrors = TObject
    [(''400'', False, ErrorEnvelope),
     (''401'', False, ErrorEnvelope),
     (''403'', False, ErrorEnvelope)]"

definition PostOauth2DeviceApproveResponses :: ts where
  "PostOauth2DeviceApproveResponses = TObject
    [(''200'', False, TObject
      [(''status'', True, TString),
       (''user_code'', True, TString)])]"

definition PostOauth2DeviceAuthorizationErrors :: ts where
  "PostOauth2DeviceAuthorizationErrors = TObject
    [(''400'', False, OAuth2Error),
     (''401'', False, OAuth2Error),
     (''500'', False, OAuth2Error)]"

definition PostOauth2DeviceAuthorizationResponses :: ts where
  "PostOauth2DeviceAuthorizationResponses = TObject
    [(''200'', False, DeviceAuthorizationResponse)]"

definition GetOauth2EndSessionErrors :: ts where
  "GetOauth2EndSessionErrors = TObject
    [(''400'', False, ErrorEnvelope)]"

definition GetOauth2EndSessionResponses :: ts where
  "GetOauth2EndSessionResponses = TObject
    [(''200'', False, MessageResponse)]"

definition PostOauth2EndSessionErrors :: ts where
  "PostOauth2EndSessionErrors = TObject
    [(''400'', False, ErrorEnvelope)]"

definition PostOauth2EndSessionResponses :: ts where
  "PostOauth2EndSessionResponses = TObject
    [(''200'', False, MessageResponse)]"

definition PostOauth2IntrospectErrors :: ts where
  "PostOauth2IntrospectErrors = TObject
    [(''400'', False, OAuth2Error),
     (''401'', False, OAuth2Error),
     (''429'', False, TUnknown)]"

definition PostOauth2IntrospectResponses :: ts where
  "PostOauth2IntrospectResponses = TObject
    [(''200'', False, IntrospectionResponse)]"

definition PostOauth2LoginErrors :: ts where
  "PostOauth2LoginErrors = TObject
    [(''400'', False, ErrorEnvelope),
     (''401'', False, ErrorEnvelope),
     (''403'', False, ErrorEnvelope)]"

definition PostOauth2LoginResponses :: ts where
  "PostOauth2LoginResponses = TObject
    [(''200'', False, TUnion [LoginSuccessResponse, MfaRequiredResponse, PasswordChangeRequiredResponse])]"

definition PostOauth2LogoutErrors :: ts where
  "PostOauth2LogoutErrors = TObject
    [(''401'', False, ErrorEnvelope)]"

definition PostOauth2LogoutResponses :: ts where
  "PostOauth2LogoutResponses = TObject
    [(''200'', False, MessageResponse)]"

definition PostOauth2MfaVerifyErrors :: ts where
  "PostOauth2MfaVerifyErrors = TObject
    [(''400'', False, ErrorEnvelope),
     (''401'', False, ErrorEnvelope)]"

definition PostOauth2MfaVerifyResponses :: ts where
  "PostOauth2MfaVerifyResponses = TObject
    [(''200'', False, TBoth TokenResponse (TObject
        [(''message'', True, TString),
         (''mfa_verified'', True, TBoolean)]))]"

definition PostOauth2PasswordChangeErrors :: ts where
  "PostOauth2PasswordChangeErrors = TObject
    [(''400'', False, ErrorEnvelope),
     (''401'', False, ErrorEnvelope),
     (''500'', False, ErrorEnvelope)]"

definition PostOauth2PasswordChangeResponses :: ts where
  "PostOauth2PasswordChangeResponses = TObject
    [(''200'', False, MessageResponse)]"

definition PostOauth2RegisterErrors :: ts where
  "PostOauth2RegisterErrors = TObject
    [(''400'', False, TUnknown),
     (''401'', False, TUnknown)]"

definition PostOauth2RegisterResponses :: ts where
  "PostOauth2RegisterResponses = TObject
    [(''201'', False, TUnknown)]"

definition PostOauth2RevokeErrors :: ts where
  "PostOauth2RevokeErrors = TObject
    [(''400'', False, OAuth2Error),
     (''401'', False, OAuth2Error),
     (''429'', False, TUnknown)]"

definition PostOauth2RevokeResponses :: ts where
  "PostOauth2RevokeResponses = TObject
    [(''200'', False, TUnknown)]"

definition PostOauth2TokenErrors :: ts where
  "PostOauth2TokenErrors = TObject
    [(''400'', False, OAuth2Error),
     (''401'', False, OAuth2Error),
     (''429'', False, OAuth2Error)]"

definition PostOauth2TokenResponses :: ts where
  "PostOauth2TokenResponses = TObject
    [(''200'', False, TokenResponse)]"

definition GetOauth2UserinfoErrors :: ts where
  "GetOauth2UserinfoErrors = TObject
    [(''400'', False, TUnknown),
     (''401'', False, OAuth2Error),
     (''403'', False, OAuth2Error),
     (''404'', False, TUnknown)]"

definition GetOauth2UserinfoResponses :: ts where
  "GetOauth2UserinfoResponses = TObject
    [(''200'', False, UserInfoResponse)]"

definition PostOauth2WebauthnAuthenticateBeginResponses :: ts where
  "PostOauth2WebauthnAuthenticateBeginResponses = TObject
    [(''200'', False, TUnknown)]"

definition PostOauth2WebauthnAuthenticateFinishErrors :: ts where
  "PostOauth2WebauthnAuthenticateFinishErrors = TObject
    [(''400'', False, TUnknown),
     (''401'', False, TUnknown)]"

definition PostOauth2WebauthnAuthenticateFinishResponses :: ts where
  "PostOauth2WebauthnAuthenticateFinishResponses = TObject
    [(''200'', False, TUnknown)]"

end
