(* ===== verification/SdkWire.thy ===== *)
theory SdkWire
  imports Json Base64
begin

section \<open>The wire format of the SDK client\<close>

text \<open>
  \<open>core/\<close> and \<open>client/utils.gen.ts\<close> of the TypeScript client: how the values of a call become a URL, a query, headers
  and a body.  The values are those of the model, without dates; the per-parameter overrides of the query serializer
  are an argument.  Header names and values are taken as valid.
\<close>

subsection \<open>Parameters\<close>

datatype style = StForm | StSpaceDelimited | StPipeDelimited | StLabel | StMatrix | StSimple | StDeepObject

definition separatorArrayExplode :: "style \<Rightarrow> string" where
  "separatorArrayExplode st = (case st of StLabel \<Rightarrow> ''.'' | StMatrix \<Rightarrow> '';'' | StSimple \<Rightarrow> '','' | _ \<Rightarrow> ''&'')"

definition separatorArrayNoExplode :: "style \<Rightarrow> string" where
  "separatorArrayNoExplode st = (case st of StForm \<Rightarrow> '','' | StPipeDelimited \<Rightarrow> ''|'' | StSpaceDelimited \<Rightarrow> ''%20'' | _ \<Rightarrow> '','')"

definition separatorObjectExplode :: "style \<Rightarrow> string" where
  "separatorObjectExplode st = (case st of StLabel \<Rightarrow> ''.'' | StMatrix \<Rightarrow> '';'' | StSimple \<Rightarrow> '','' | _ \<Rightarrow> ''&'')"

definition uri_text :: "bool \<Rightarrow> jsval \<Rightarrow> string" where
  "uri_text allowReserved v = (if allowReserved then js_String v else encodeURIComponent (js_String v))"

text \<open>An element of \<open>values.join(sep)\<close>: \<open>null\<close> and \<open>undefined\<close> are empty unless they were encoded first.\<close>

definition join_text :: "bool \<Rightarrow> jsval \<Rightarrow> string" where
  "join_text allowReserved v = (if allowReserved \<and> nullish v then [] else uri_text allowReserved v)"

definition nested_error :: js_throw where
  "nested_error = PlainError ''Deeply-nested arrays/objects aren%u2019t supported. Provide your own `querySerializer()` to handle these.''"

definition serializePrimitiveParam :: "bool \<Rightarrow> string \<Rightarrow> jsval \<Rightarrow> js_throw + string" where
  "serializePrimitiveParam allowReserved name v =
     (if nullish v then Inr [] else if is_object v then Inl nested_error else Inr (name @ ''='' @ uri_text allowReserved v))"

text \<open>\<open>xs.map(f)\<close> for a callback that may throw.\<close>

fun map_res :: "('a \<Rightarrow> js_throw + 'b) \<Rightarrow> 'a list \<Rightarrow> js_throw + 'b list" where
  "map_res f [] = Inr []"
| "map_res f (x # xs) = bind_res (f x) (\<lambda>y. bind_res (map_res f xs) (\<lambda>ys. Inr (y # ys)))"

definition serializeArrayParam :: "bool \<Rightarrow> bool \<Rightarrow> string \<Rightarrow> style \<Rightarrow> jsval list \<Rightarrow> js_throw + string" where
  "serializeArrayParam allowReserved explode name st vs =
     (if \<not> explode then
        (let joined = join_with (separatorArrayNoExplode st) (map (join_text allowReserved) vs) in
         Inr (case st of StLabel \<Rightarrow> ''.'' @ joined | StMatrix \<Rightarrow> '';'' @ name @ ''='' @ joined | StSimple \<Rightarrow> joined
              | _ \<Rightarrow> name @ ''='' @ joined))
      else
        (let sep = separatorArrayExplode st in
         bind_res (if st = StLabel \<or> st = StSimple then Inr (map (join_text allowReserved) vs)
                   else map_res (serializePrimitiveParam allowReserved name) vs)
           (\<lambda>ts. let joined = join_with sep ts in Inr (if st = StLabel \<or> st = StMatrix then sep @ joined else joined))))"

definition serializeObjectParam :: "bool \<Rightarrow> bool \<Rightarrow> string \<Rightarrow> style \<Rightarrow> (string \<times> jsval) list \<Rightarrow> js_throw + string" where
  "serializeObjectParam allowReserved explode name st ps =
     (if st \<noteq> StDeepObject \<and> \<not> explode then
        (let joined = join_with '','' (concat (map (\<lambda>(k, v). [k, join_text allowReserved v]) ps)) in
         Inr (case st of StForm \<Rightarrow> name @ ''='' @ joined | StLabel \<Rightarrow> ''.'' @ joined | StMatrix \<Rightarrow> '';'' @ name @ ''='' @ joined | _ \<Rightarrow> joined))
      else
        (let sep = separatorObjectExplode st in
         bind_res (map_res (\<lambda>(k, v). serializePrimitiveParam allowReserved (if st = StDeepObject then name @ ''['' @ k @ '']'' else k) v) ps)
           (\<lambda>ts. let joined = join_with sep ts in Inr (if st = StLabel \<or> st = StMatrix then sep @ joined else joined))))"

subsection \<open>Paths\<close>

text \<open>\<open>url.match(/\{[^{}]+\}/g)\<close>, without the braces.\<close>

function path_params :: "string \<Rightarrow> string list" where
  "path_params [] = []"
| "path_params (c # cs) =
     (let name = takeWhile (\<lambda>x. x \<noteq> CHR ''{'' \<and> x \<noteq> CHR ''}'') cs; rest = dropWhile (\<lambda>x. x \<noteq> CHR ''{'' \<and> x \<noteq> CHR ''}'') cs in
      if c = CHR ''{'' \<and> name \<noteq> [] \<and> rest \<noteq> [] \<and> hd rest = CHR ''}'' then name # path_params (tl rest)
      else path_params cs)"
  by pat_completeness auto

termination path_params
proof (relation "measure length")
  fix c :: char and cs x xa
  assume "xa = dropWhile (\<lambda>x. x \<noteq> CHR ''{'' \<and> x \<noteq> CHR ''}'') cs"
  then have "length xa \<le> length cs" by (simp add: length_dropWhile_le)
  then show "(tl xa, c # cs) \<in> measure length" by simp
qed simp_all

declare path_params.simps(2) [simp del]

text \<open>\<open>s.replace(pattern, replacement)\<close> for a string pattern: the first occurrence, with the dollar patterns of the replacement.\<close>

fun find_sub :: "string \<Rightarrow> string \<Rightarrow> (string \<times> string) option" where
  "find_sub p [] = (if p = [] then Some ([], []) else None)"
| "find_sub p (x # xs) = (if starts_with p (x # xs) then Some ([], drop (length p) (x # xs))
     else map_option (\<lambda>(a, b). (x # a, b)) (find_sub p xs))"

fun dollar_patterns :: "string \<Rightarrow> string \<Rightarrow> string \<Rightarrow> string \<Rightarrow> string" where
  "dollar_patterns pre hit post [] = []"
| "dollar_patterns pre hit post [c] = [c]"
| "dollar_patterns pre hit post (c # d # r) =
     (if c \<noteq> CHR ''$'' then c # dollar_patterns pre hit post (d # r)
      else if d = CHR ''$'' then CHR ''$'' # dollar_patterns pre hit post r
      else if d = CHR ''&'' then hit @ dollar_patterns pre hit post r
      else if d = CHR ''`'' then pre @ dollar_patterns pre hit post r
      else if d = CHR 0x27 then post @ dollar_patterns pre hit post r
      else c # dollar_patterns pre hit post (d # r))"

definition replace_first :: "string \<Rightarrow> string \<Rightarrow> string \<Rightarrow> string" where
  "replace_first p rep s = (case find_sub p s of None \<Rightarrow> s | Some (a, b) \<Rightarrow> a @ dollar_patterns a p b rep @ b)"

text \<open>The name in the braces with its modifiers: explode, style and name.\<close>

definition param_spec :: "string \<Rightarrow> bool \<times> style \<times> string" where
  "param_spec spec =
     (let explode = (spec \<noteq> [] \<and> last spec = CHR ''*''); name = (if explode then butlast spec else spec) in
      if starts_with ''.'' name then (explode, StLabel, tl name)
      else if starts_with '';'' name then (explode, StMatrix, tl name)
      else (explode, StSimple, name))"

definition param_text :: "jsval \<Rightarrow> string \<Rightarrow> js_throw + string option" where
  "param_text path spec = (case param_spec spec of (explode, st, name) \<Rightarrow>
     (let v = getprop path name in
      if nullish v then Inr None
      else bind_res (case v of
          JArr xs \<Rightarrow> serializeArrayParam False explode name st xs
        | JObj ps \<Rightarrow> serializeObjectParam False explode name st ps
        | _ \<Rightarrow> if st = StMatrix then bind_res (serializePrimitiveParam False name v) (\<lambda>x. Inr ('';'' @ x))
               else Inr (encodeURIComponent ((if st = StLabel then ''.'' else []) @ js_String v)))
        (\<lambda>x. Inr (Some x))))"

fun fill_params :: "jsval \<Rightarrow> string list \<Rightarrow> string \<Rightarrow> js_throw + string" where
  "fill_params path [] url = Inr url"
| "fill_params path (spec # specs) url = bind_res (param_text path spec) (\<lambda>x. fill_params path specs (case x of
     None \<Rightarrow> url | Some rep \<Rightarrow> replace_first (CHR ''{'' # spec @ ''}'') rep url))"

definition defaultPathSerializer :: "jsval \<Rightarrow> string \<Rightarrow> js_throw + string" where
  "defaultPathSerializer path url = fill_params path (path_params url) url"

subsection \<open>Queries\<close>

record query_options =
  qo_allowReserved :: bool
  qo_arrayExplode :: bool
  qo_arrayStyle :: style
  qo_objectExplode :: bool
  qo_objectStyle :: style

definition defaultQueryOptions :: query_options where
  "defaultQueryOptions = \<lparr>qo_allowReserved = False, qo_arrayExplode = True, qo_arrayStyle = StForm, qo_objectExplode = True,
     qo_objectStyle = StDeepObject\<rparr>"

text \<open>\<open>createQuerySerializer\<close>: the options of a name are those given for it, else the common ones.\<close>

definition query_pair :: "query_options \<Rightarrow> string \<Rightarrow> jsval \<Rightarrow> js_throw + string" where
  "query_pair o' name v = (case v of
     JArr xs \<Rightarrow> serializeArrayParam (qo_allowReserved o') (qo_arrayExplode o') name (qo_arrayStyle o') xs
   | JObj ps \<Rightarrow> serializeObjectParam (qo_allowReserved o') (qo_objectExplode o') name (qo_objectStyle o') ps
   | _ \<Rightarrow> serializePrimitiveParam (qo_allowReserved o') name v)"

definition createQuerySerializer :: "(string \<Rightarrow> query_options) \<Rightarrow> (string \<times> jsval) list \<Rightarrow> js_throw + string" where
  "createQuerySerializer opts ps =
     bind_res (map_res (\<lambda>(name, v). query_pair (opts name) name v) (filter (\<lambda>(name, v). \<not> nullish v) ps))
       (\<lambda>search. Inr (join_with ''&'' (filter (\<lambda>x. x \<noteq> []) search)))"

definition defaultQuerySerializer :: "(string \<times> jsval) list \<Rightarrow> js_throw + string" where
  "defaultQuerySerializer = createQuerySerializer (\<lambda>name. defaultQueryOptions)"

definition getUrl ::
    "string option \<Rightarrow> jsval \<Rightarrow> (string \<times> jsval) list option \<Rightarrow> ((string \<times> jsval) list \<Rightarrow> js_throw + string) \<Rightarrow> string \<Rightarrow> js_throw + string" where
  "getUrl baseUrl path query querySerializer url' =
     (let url = (case baseUrl of Some b \<Rightarrow> b | None \<Rightarrow> []) @ (if starts_with ''/'' url' then url' else ''/'' @ url') in
      bind_res (if truthy path then defaultPathSerializer path url else Inr url) (\<lambda>url.
      bind_res (case query of Some q \<Rightarrow> querySerializer q | None \<Rightarrow> Inr []) (\<lambda>search.
      let search = (if starts_with ''?'' search then tl search else search) in
      Inr (if search \<noteq> [] then url @ ''?'' @ search else url))))"

subsection \<open>What encodeURIComponent produces\<close>

lemma uri_byte_chars:
  assumes "b < 256" and "c \<in> set (uri_byte b)"
  shows "of_char c = (37::nat) \<or> uri_safe (of_char c)"
proof -
  have "b div 16 < 16" "b mod 16 < 16" using assms(1) by auto
  then have hex: "uri_safe (of_char (hex_digit (b div 16)))" "uri_safe (of_char (hex_digit (b mod 16)))"
    by (auto simp: of_char_hex_digit uri_safe_def)
  from assms show ?thesis by (auto simp: uri_byte_def hex split: if_splits)
qed

lemma encodeURIComponent_chars: "c \<in> set (encodeURIComponent s) \<Longrightarrow> of_char c = (37::nat) \<or> uri_safe (of_char c)"
  using uri_byte_chars [OF utf8_codes_small] unfolding encodeURIComponent_def by fastforce

lemma encodeURIComponent_plain:
  assumes "c \<in> set (encodeURIComponent s)"
  shows "of_char c < (128::nat)" "c \<notin> {CHR ''/'', CHR ''?'', CHR ''#'', CHR ''&'', CHR ''='', CHR ''+'', CHR ''$'', CHR ''{'', CHR ''}''}"
  using encodeURIComponent_chars [OF assms] by (auto simp: uri_safe_def)

lemma percent_decode_uri_byte:
  "b < 256 \<Longrightarrow> percent_decode (map of_char (uri_byte b) @ r) = b # percent_decode r"
  using percent_decode_escape [of b r] by (auto simp: uri_byte_def uri_safe_def percent_decode_plain)

lemma percent_decode_uri:
  "(\<And>b. b \<in> set bs \<Longrightarrow> b < 256) \<Longrightarrow> percent_decode (map of_char (concat (map uri_byte bs))) = bs"
  by (induction bs) (simp_all add: percent_decode_uri_byte)

text \<open>The reader of a segment of a path: percent-decoding of UTF-8.\<close>

definition uri_decode :: "string \<Rightarrow> string" where
  "uri_decode s = utf8_decode (percent_decode (utf8_codes s))"

lemma utf8_codes_uri: "utf8_codes (encodeURIComponent s) = map of_char (encodeURIComponent s)"
  by (rule utf8_codes_ascii) (rule encodeURIComponent_plain(1))

lemma percent_decode_component: "percent_decode (map of_char (encodeURIComponent s)) = utf8_codes s"
  unfolding encodeURIComponent_def by (rule percent_decode_uri) (rule utf8_codes_small)

lemma uri_decode_encode [simp]: "uri_decode (encodeURIComponent s) = s"
  by (simp add: uri_decode_def utf8_codes_uri percent_decode_component)

lemma form_decode_encode [simp]: "form_decode (encodeURIComponent s) = s"
proof -
  have "unplus (map of_char (encodeURIComponent s)) = map of_char (encodeURIComponent s)"
    using encodeURIComponent_chars [of _ s] by (fastforce simp: uri_safe_def)
  then show ?thesis by (simp only: form_decode_def utf8_codes_uri percent_decode_component utf8_roundtrip)
qed

subsection \<open>Routes\<close>

text \<open>
  The templates of the endpoints: segments that are literal, or a whole parameter in braces.
\<close>

datatype seg = Lit string | Par string

fun seg_text :: "seg \<Rightarrow> string" where
  "seg_text (Lit s) = s"
| "seg_text (Par n) = CHR ''{'' # n @ ''}''"

definition route_text :: "seg list \<Rightarrow> string" where
  "route_text segs = concat (map (\<lambda>s. CHR ''/'' # seg_text s) segs)"

definition name_char :: "char \<Rightarrow> bool" where
  "name_char c \<longleftrightarrow> c \<notin> {CHR ''/'', CHR ''{'', CHR ''}'', CHR ''%'', CHR ''?'', CHR ''#'', CHR ''*'', CHR '';''} \<and> of_char c < (128::nat)"

fun seg_ok :: "seg \<Rightarrow> bool" where
  "seg_ok (Lit s) = list_all name_char s"
| "seg_ok (Par n) = (n \<noteq> [] \<and> list_all name_char n \<and> hd n \<noteq> CHR ''.'')"

text \<open>The value of a segment: the literal, or the text of the parameter.\<close>

fun seg_value :: "jsval \<Rightarrow> seg \<Rightarrow> string" where
  "seg_value path (Lit s) = s"
| "seg_value path (Par n) = js_String (getprop path n)"

fun primitive :: "jsval \<Rightarrow> bool" where
  "primitive (JStr s) = True"
| "primitive (JNum n) = True"
| "primitive (JBool b) = True"
| "primitive v = False"

definition seg_given :: "jsval \<Rightarrow> seg \<Rightarrow> bool" where
  "seg_given path s = (case s of Lit l \<Rightarrow> True | Par n \<Rightarrow> primitive (getprop path n))"

fun seg_fill :: "jsval \<Rightarrow> seg \<Rightarrow> string" where
  "seg_fill path (Lit s) = s"
| "seg_fill path (Par n) = encodeURIComponent (js_String (getprop path n))"

definition route_fill :: "jsval \<Rightarrow> seg list \<Rightarrow> string" where
  "route_fill path segs = concat (map (\<lambda>s. CHR ''/'' # seg_fill path s) segs)"

definition route_params :: "seg list \<Rightarrow> string list" where
  "route_params segs = concat (map (\<lambda>s. case s of Lit l \<Rightarrow> [] | Par n \<Rightarrow> [n]) segs)"

lemma path_params_skip: "CHR ''{'' \<notin> set s \<Longrightarrow> path_params (s @ r) = path_params r"
  by (induction s) (auto simp: path_params.simps(2) Let_def)

lemma path_params_param:
  assumes "n \<noteq> []" "CHR ''{'' \<notin> set n" "CHR ''}'' \<notin> set n"
  shows "path_params (CHR ''{'' # n @ CHR ''}'' # r) = n # path_params r"
proof -
  let ?P = "\<lambda>x. x \<noteq> CHR ''{'' \<and> x \<noteq> CHR ''}''"
  have "\<And>x. x \<in> set n \<Longrightarrow> ?P x" using assms by auto
  then have "takeWhile ?P (n @ CHR ''}'' # r) = n" "dropWhile ?P (n @ CHR ''}'' # r) = CHR ''}'' # r"
    by (simp_all add: takeWhile_append2 dropWhile_append2)
  with assms(1) show ?thesis by (simp add: path_params.simps(2))
qed

lemma name_chars: "list_all name_char s \<Longrightarrow> c \<in> set s \<Longrightarrow> name_char c"
  by (simp add: list_all_iff)

lemma name_char_not: "\<not> name_char (CHR ''{'')" "\<not> name_char (CHR ''}'')" "\<not> name_char (CHR ''/'')" "\<not> name_char (CHR ''*'')"
    "\<not> name_char (CHR '';'')" "\<not> name_char (CHR ''?'')" "\<not> name_char (CHR ''#'')" "\<not> name_char (CHR ''%'')"
  by (simp_all add: name_char_def)

lemma names_avoid: "list_all name_char s \<Longrightarrow> \<not> name_char c \<Longrightarrow> c \<notin> set s"
  using name_chars by blast

lemmas route_simps = route_text_def route_fill_def route_params_def seg_given_def

lemma path_params_route: "list_all seg_ok segs \<Longrightarrow> path_params (route_text segs) = route_params segs"
proof (induction segs)
  case (Cons s segs)
  show ?case
  proof (cases s)
    case (Lit l)
    with Cons have "path_params ((CHR ''/'' # l) @ route_text segs) = route_params segs"
      by (subst path_params_skip) (auto dest: names_avoid [OF _ name_char_not(1)])
    with Lit show ?thesis by (simp add: route_simps)
  next
    case (Par n)
    with Cons have "n \<noteq> []" "CHR ''{'' \<notin> set n" "CHR ''}'' \<notin> set n" "path_params (route_text segs) = route_params segs"
      by (auto dest: names_avoid [OF _ name_char_not(1)] names_avoid [OF _ name_char_not(2)])
    with Par show ?thesis using path_params_skip [of "''/''"] by (simp add: route_simps path_params_param)
  qed
qed (simp add: route_simps)

lemma find_sub_first: "CHR ''{'' \<notin> set a \<Longrightarrow> find_sub (CHR ''{'' # p) (a @ CHR ''{'' # p @ b) = Some (a, b)"
  by (induction a) (auto simp: starts_with_iff)

lemma dollar_patterns_plain: "CHR ''$'' \<notin> set s \<Longrightarrow> dollar_patterns pre hit post s = s"
  by (induction pre hit post s rule: dollar_patterns.induct) auto

lemma replace_first_param:
  "CHR ''{'' \<notin> set a \<Longrightarrow> replace_first (CHR ''{'' # n @ ''}'') (encodeURIComponent v) (a @ CHR ''{'' # n @ CHR ''}'' # b)
     = a @ encodeURIComponent v @ b"
  using find_sub_first [of a "n @ ''}''" b] encodeURIComponent_plain(2) [of _ v]
  by (simp add: replace_first_def) (subst dollar_patterns_plain, auto)

lemma param_spec_plain:
  assumes "n \<noteq> []" "list_all name_char n" "hd n \<noteq> CHR ''.''"
  shows "param_spec n = (False, StSimple, n)"
proof -
  have "last n \<in> set n" "hd n \<in> set n" using assms by simp_all
  then have "last n \<noteq> CHR ''*''" "hd n \<noteq> CHR '';''"
    using names_avoid [OF assms(2)] name_char_not by metis+
  with assms show ?thesis by (cases n) (simp_all add: param_spec_def)
qed

lemma param_text_plain:
  assumes "seg_ok (Par n)" "primitive (getprop path n)"
  shows "param_text path n = Inr (Some (encodeURIComponent (js_String (getprop path n))))"
  using assms by (cases "getprop path n") (simp_all add: param_text_def param_spec_plain)

lemma seg_fill_plain: "seg_ok s \<Longrightarrow> c \<in> set (seg_fill path s) \<Longrightarrow> c \<notin> {CHR ''/'', CHR ''?'', CHR ''#'', CHR ''{'', CHR ''}''}"
  using encodeURIComponent_plain(2) by (cases s) (auto dest: name_chars simp: name_char_not)

lemma fill_route:
  assumes "list_all seg_ok segs" "list_all (seg_given path) segs" "CHR ''{'' \<notin> set done'"
  shows "fill_params path (route_params segs) (done' @ route_text segs) = Inr (done' @ route_fill path segs)"
  using assms
proof (induction segs arbitrary: done')
  case (Cons s segs)
  have next': "CHR ''{'' \<notin> set (done' @ CHR ''/'' # seg_fill path s)"
    using Cons.prems seg_fill_plain [of s "CHR ''{''" path] by auto
  note IH = Cons.IH [OF _ _ next']
  show ?case
  proof (cases s)
    case (Lit l)
    with IH Cons.prems show ?thesis by (simp add: route_simps)
  next
    case (Par n)
    with Cons.prems have "param_text path n = Inr (Some (encodeURIComponent (js_String (getprop path n))))"
      by (intro param_text_plain) (simp_all add: seg_given_def)
    with Par IH Cons.prems replace_first_param [of "done' @ ''/''" n "js_String (getprop path n)"]
    show ?thesis by (simp add: route_simps)
  qed
qed (simp add: route_simps)

lemma defaultPathSerializer_route:
  "list_all seg_ok segs \<Longrightarrow> list_all (seg_given path) segs \<Longrightarrow> defaultPathSerializer path (route_text segs) = Inr (route_fill path segs)"
  using fill_route [of segs path "[]"] by (simp add: defaultPathSerializer_def path_params_route)

lemma split_route:
  "list_all seg_ok segs \<Longrightarrow> split_on (CHR ''/'') (route_fill path segs) = [] # map (seg_fill path) segs"
proof (induction segs rule: rev_induct)
  case Nil
  then show ?case by (simp add: route_simps)
next
  case (snoc s segs)
  have "CHR ''/'' \<notin> set (seg_fill path t)" if "t \<in> set (segs @ [s])" for t
    using snoc.prems seg_fill_plain [of t _ path] that by (auto simp: list_all_iff)
  moreover have "route_fill path (segs @ [s]) = join_with [CHR ''/''] ([] # map (seg_fill path) (segs @ [s]))"
    by (simp add: route_fill_def join_with_def comp_def)
  ultimately show ?case by (simp only: split_on_join) (subst split_on_join, auto)
qed

lemma percent_decode_none: "37 \<notin> set bs \<Longrightarrow> percent_decode bs = bs"
  by (induction bs) (simp_all add: percent_decode_plain)

lemma uri_decode_seg: "seg_ok s \<Longrightarrow> uri_decode (seg_fill path s) = seg_value path s"
proof (cases s)
  case (Lit l)
  assume ok: "seg_ok s"
  have "utf8_codes l = map of_char l"
    using ok Lit by (intro utf8_codes_ascii) (auto dest: name_chars simp: name_char_def)
  moreover have "char_of (37::nat) = CHR ''%''" by (simp add: char_of_eq_iff)
  then have "37 \<notin> set (map of_char l :: nat list)"
    using ok Lit names_avoid [OF _ name_char_not(8), of l] by (auto dest!: char_of_code)
  ultimately have "percent_decode (utf8_codes l) = utf8_codes l" by (simp add: percent_decode_none)
  with Lit show ?thesis by (simp add: uri_decode_def)
qed simp

lemma route_fill_decodes: "list_all seg_ok segs \<Longrightarrow> map uri_decode (split_on (CHR ''/'') (route_fill path segs)) = [] # map (seg_value path) segs"
proof -
  assume ok: "list_all seg_ok segs"
  then have "map (uri_decode \<circ> seg_fill path) segs = map (seg_value path) segs" by (auto simp: list_all_iff uri_decode_seg)
  moreover have "uri_decode [] = []" by (simp add: uri_decode_def)
  ultimately show ?thesis by (simp add: split_route [OF ok])
qed

lemma route_fill_plain: "list_all seg_ok segs \<Longrightarrow> CHR ''?'' \<notin> set (route_fill path segs) \<and> CHR ''#'' \<notin> set (route_fill path segs)"
  using seg_fill_plain [of _ _ path] by (auto simp: route_fill_def list_all_iff)

lemma defaultPathSerializer_base:
  assumes "list_all seg_ok segs" "list_all (seg_given path) segs" "CHR ''{'' \<notin> set base"
  shows "defaultPathSerializer path (base @ route_text segs) = Inr (base @ route_fill path segs)"
  using fill_route [OF assms] assms by (simp add: defaultPathSerializer_def path_params_skip path_params_route)

text \<open>A path parameter arrives as it was given and stays in its segment: for a template whose segments are literal or one
  parameter, the serialized path has one segment for each segment of the template, and decoding them gives the literals and the
  texts of the parameters; so no value adds a segment, a query or a fragment.\<close>

theorem path_parameters_arrive:
  assumes "list_all seg_ok segs" and "list_all (seg_given path) segs"
  shows "\<exists>u. defaultPathSerializer path (route_text segs) = Inr u \<and>
    map uri_decode (split_on (CHR ''/'') u) = [] # map (seg_value path) segs \<and> CHR ''?'' \<notin> set u \<and> CHR ''#'' \<notin> set u"
  using defaultPathSerializer_route [OF assms] route_fill_decodes [OF assms(1)] route_fill_plain [OF assms(1)] by blast

theorem path_parameters_arrive_witness:
  "\<exists>u. defaultPathSerializer (JObj [(''slug'', JStr ''a/b?c#d'')]) (route_text [Lit ''api'', Par ''slug'', Lit ''members'']) = Inr u \<and>
    map uri_decode (split_on (CHR ''/'') u) = [[], ''api'', ''a/b?c#d'', ''members''] \<and> CHR ''?'' \<notin> set u \<and> CHR ''#'' \<notin> set u"
  using path_parameters_arrive [of "[Lit ''api'', Par ''slug'', Lit ''members'']" "JObj [(''slug'', JStr ''a/b?c#d'')]"]
  by (simp add: name_char_def seg_given_def)

subsection \<open>Queries arrive\<close>

definition query_char :: "char \<Rightarrow> bool" where
  "query_char c \<longleftrightarrow> c \<notin> {CHR ''%'', CHR ''+'', CHR ''&'', CHR ''='', CHR ''?'', CHR ''#''} \<and> of_char c < (128::nat)"

fun optional :: "jsval \<Rightarrow> bool" where
  "optional v = (nullish v \<or> primitive v)"

text \<open>The values the query of an endpoint takes: absent, a primitive, a list of them, or an object of them with plain names.\<close>

fun query_value :: "jsval \<Rightarrow> bool" where
  "query_value (JArr xs) = list_all optional xs"
| "query_value (JObj ps) = list_all (\<lambda>(k, v). list_all query_char k \<and> optional v) ps"
| "query_value v = optional v"

text \<open>The pairs a reader of the query is to see for a parameter: one for each element of a list, and the members of an object in brackets.\<close>

fun query_texts :: "string \<times> jsval \<Rightarrow> params" where
  "query_texts (name, JArr xs) = map (\<lambda>x. (name, js_String x)) (filter (\<lambda>x. \<not> nullish x) xs)"
| "query_texts (name, JObj ps) = map (\<lambda>(k, x). (name @ ''['' @ k @ '']'', js_String x)) (filter (\<lambda>(k, x). \<not> nullish x) ps)"
| "query_texts (name, v) = (if nullish v then [] else [(name, js_String v)])"

text \<open>The non-empty pieces between the separators.\<close>

definition pieces :: "string \<Rightarrow> string list" where
  "pieces q = filter (\<lambda>p. p \<noteq> []) (split_on (CHR ''&'') q)"

lemma split_on_sep: "split_on c (xs @ c # ys) = split_on c xs @ split_on c ys"
  by (induction xs) (auto split: list.splits)

lemma pieces_join: "pieces (join_with ''&'' qs) = concat (map pieces qs)"
proof (induction qs)
  case Nil
  then show ?case by (simp add: pieces_def join_with_def)
next
  case (Cons q qs)
  then show ?case by (cases "qs = []") (simp_all add: join_with_Cons pieces_def split_on_sep)
qed

lemma pieces_nonempty: "concat (map pieces (filter (\<lambda>x. x \<noteq> []) qs)) = concat (map pieces qs)"
  by (induction qs) (auto simp: pieces_def)

definition param_piece :: "string \<times> string \<Rightarrow> string" where
  "param_piece p = fst p @ ''='' @ encodeURIComponent (snd p)"

lemma pieces_param: "list_all query_char n \<Longrightarrow> pieces (param_piece (n, v)) = [param_piece (n, v)]"
  using encodeURIComponent_plain(2) [of "CHR ''&''" v]
  by (simp add: pieces_def) (subst split_on_no_sep, auto simp: param_piece_def query_char_def list_all_iff)

lemma form_decode_name: "list_all query_char n \<Longrightarrow> form_decode n = n"
proof -
  assume n: "list_all query_char n"
  then have codes: "utf8_codes n = map of_char n"
    by (intro utf8_codes_ascii) (simp add: list_all_iff query_char_def)
  have chars: "char_of (37::nat) = CHR ''%''" "char_of (43::nat) = CHR ''+''" by (simp_all add: char_of_eq_iff)
  have "CHR ''%'' \<notin> set n" "CHR ''+'' \<notin> set n" using n by (auto simp: list_all_iff query_char_def)
  then have no: "37 \<notin> set (map of_char n :: nat list)" "43 \<notin> set (map of_char n :: nat list)"
    using chars by (auto dest!: char_of_code)
  then have "percent_decode (map of_char n) = map of_char n" by (simp add: percent_decode_none)
  moreover have "unplus (map of_char n) = map of_char n" using no(2) by (intro map_idI) auto
  ultimately show ?thesis using codes utf8_roundtrip [of n] by (simp only: form_decode_def)
qed

lemma parse_pair_param: "list_all query_char n \<Longrightarrow> parse_pair (param_piece (n, v)) = (n, v)"
proof -
  assume n: "list_all query_char n"
  then have "\<And>c. c \<in> set n \<Longrightarrow> c \<noteq> CHR ''=''" by (auto simp: list_all_iff query_char_def)
  then have "takeWhile (\<lambda>c. c \<noteq> CHR ''='') (param_piece (n, v)) = n"
    "dropWhile (\<lambda>c. c \<noteq> CHR ''='') (param_piece (n, v)) = ''='' @ encodeURIComponent v"
    by (simp_all add: param_piece_def takeWhile_append2 dropWhile_append2)
  then show ?thesis by (simp add: parse_pair_def form_decode_name [OF n])
qed

text \<open>\<open>map\<close> of a callback that does not throw on the given list.\<close>

lemma map_res_Inr: "(\<And>x. x \<in> set xs \<Longrightarrow> f x = Inr (g x)) \<Longrightarrow> map_res f xs = Inr (map g xs)"
  by (induction xs) simp_all

definition prim_piece :: "string \<Rightarrow> jsval \<Rightarrow> string" where
  "prim_piece name v = (if nullish v then [] else param_piece (name, js_String v))"

lemma serializePrimitiveParam_piece: "optional v \<Longrightarrow> serializePrimitiveParam False name v = Inr (prim_piece name v)"
  by (cases v) (simp_all add: serializePrimitiveParam_def prim_piece_def param_piece_def uri_text_def)

definition query_piece :: "string \<times> jsval \<Rightarrow> string" where
  "query_piece p = (case p of
     (name, JArr xs) \<Rightarrow> join_with ''&'' (map (prim_piece name) xs)
   | (name, JObj ps) \<Rightarrow> join_with ''&'' (map (\<lambda>(k, v). prim_piece (name @ ''['' @ k @ '']'') v) ps)
   | (name, v) \<Rightarrow> prim_piece name v)"

lemma query_pair_piece: "query_value v \<Longrightarrow> query_pair defaultQueryOptions name v = Inr (query_piece (name, v))"
proof (cases v)
  case (JArr xs)
  moreover assume "query_value v"
  ultimately have "map_res (serializePrimitiveParam False name) xs = Inr (map (prim_piece name) xs)"
    by (intro map_res_Inr serializePrimitiveParam_piece) (simp add: list_all_iff)
  with JArr show ?thesis
    by (simp add: query_pair_def defaultQueryOptions_def serializeArrayParam_def separatorArrayExplode_def query_piece_def)
next
  case (JObj ps)
  moreover assume "query_value v"
  ultimately have "map_res (\<lambda>(k, v). serializePrimitiveParam False (name @ ''['' @ k @ '']'') v) ps
      = Inr (map (\<lambda>(k, v). prim_piece (name @ ''['' @ k @ '']'') v) ps)"
    by (intro map_res_Inr) (auto simp: list_all_iff intro!: serializePrimitiveParam_piece)
  with JObj show ?thesis
    by (simp add: query_pair_def defaultQueryOptions_def serializeObjectParam_def separatorObjectExplode_def query_piece_def)
qed (simp_all add: query_pair_def defaultQueryOptions_def query_piece_def serializePrimitiveParam_piece)

lemma pieces_prim: "list_all query_char n \<Longrightarrow> map parse_pair (pieces (prim_piece n v)) = (if nullish v then [] else [(n, js_String v)])"
  by (simp add: prim_piece_def pieces_param parse_pair_param) (simp add: pieces_def)

lemma query_brackets: "list_all query_char n \<Longrightarrow> list_all query_char k \<Longrightarrow> list_all query_char (n @ ''['' @ k @ '']'')"
  by (simp add: query_char_def)

lemma concat_map_if: "concat (map (\<lambda>x. if P x then [] else [f x]) xs) = map f (filter (\<lambda>x. \<not> P x) xs)"
  by (induction xs) simp_all

lemma pieces_query: "list_all query_char n \<Longrightarrow> query_value v \<Longrightarrow> map parse_pair (pieces (query_piece (n, v))) = query_texts (n, v)"
proof (cases v)
  case (JArr xs)
  moreover assume "list_all query_char n"
  ultimately show ?thesis
    by (simp add: query_piece_def pieces_join map_concat comp_def pieces_prim concat_map_if)
next
  case (JObj ps)
  moreover assume n: "list_all query_char n" and "query_value v"
  ultimately have "map parse_pair (pieces (prim_piece (n @ ''['' @ k @ '']'') x))
      = (if nullish x then [] else [(n @ ''['' @ k @ '']'', js_String x)])" if "(k, x) \<in> set ps" for k x
    using that by (intro pieces_prim query_brackets) (auto simp: list_all_iff)
  then have "concat (map (\<lambda>p. map parse_pair (pieces (prim_piece (n @ ''['' @ fst p @ '']'') (snd p)))) ps)
      = concat (map (\<lambda>p. if nullish (snd p) then [] else [(n @ ''['' @ fst p @ '']'', js_String (snd p))]) ps)"
    by (intro arg_cong [of _ _ concat] map_cong refl) simp
  with JObj show ?thesis
    by (simp only: concat_map_if) (simp add: query_piece_def pieces_join map_concat comp_def case_prod_unfold)
qed (simp_all add: query_piece_def pieces_prim)

lemma prim_piece_chars: "list_all query_char n \<Longrightarrow> c \<in> set (prim_piece n v) \<Longrightarrow> c \<noteq> CHR ''?'' \<and> c \<noteq> CHR ''#''"
  using encodeURIComponent_plain(2) [of c "js_String v"]
  by (auto simp: prim_piece_def param_piece_def list_all_iff query_char_def split: if_splits)

lemma query_piece_chars:
  "list_all query_char n \<Longrightarrow> query_value v \<Longrightarrow> c \<in> set (query_piece (n, v)) \<Longrightarrow> c \<noteq> CHR ''?'' \<and> c \<noteq> CHR ''#''"
proof (cases v)
  case (JObj ps)
  assume n: "list_all query_char n" and v: "query_value v" and "c \<in> set (query_piece (n, v))"
  with JObj have "c \<in> set (join_with ''&'' (map (\<lambda>(k, v). prim_piece (n @ ''['' @ k @ '']'') v) ps))" by (simp add: query_piece_def)
  then consider "c = CHR ''&''" | k x where "(k, x) \<in> set ps" "c \<in> set (prim_piece (n @ ''['' @ k @ '']'') x)"
    by (auto dest!: join_with_chars)
  then show ?thesis
  proof cases
    case (2 k x)
    then have "list_all query_char (n @ ''['' @ k @ '']'')" using v JObj by (intro query_brackets n) (auto simp: list_all_iff)
    then show ?thesis using 2(2) by (rule prim_piece_chars)
  qed simp
qed (auto simp: query_piece_def dest!: join_with_chars dest: prim_piece_chars)

lemma defaultQuerySerializer_arrives:
  assumes "list_all (\<lambda>(n, v). list_all query_char n \<and> query_value v) ps"
  shows "\<exists>q. defaultQuerySerializer ps = Inr q \<and> parse_params q = concat (map query_texts ps) \<and> CHR ''?'' \<notin> set q \<and> CHR ''#'' \<notin> set q"
proof (intro exI conjI)
  let ?ps = "filter (\<lambda>(n, v). \<not> nullish v) ps"
  let ?q = "join_with ''&'' (filter (\<lambda>x. x \<noteq> []) (map query_piece ?ps))"
  have "map_res (\<lambda>(n, v). query_pair defaultQueryOptions n v) ?ps = Inr (map query_piece ?ps)"
    using assms by (intro map_res_Inr) (auto simp: list_all_iff query_pair_piece)
  then show "defaultQuerySerializer ps = Inr ?q"
    by (simp add: defaultQuerySerializer_def createQuerySerializer_def)
  have chars: "c \<noteq> CHR ''?'' \<and> c \<noteq> CHR ''#''" if "c \<in> set ?q" for c
    using that assms query_piece_chars by (fastforce simp: list_all_iff dest!: join_with_chars)
  then show "CHR ''?'' \<notin> set ?q" "CHR ''#'' \<notin> set ?q" by blast+
  have "parse_params ?q = map parse_pair (pieces ?q)"
    using chars by (cases ?q) (auto simp: parse_params_def pieces_def)
  also have "\<dots> = concat (map (\<lambda>p. map parse_pair (pieces (query_piece p))) ?ps)"
    by (simp add: pieces_join pieces_nonempty map_concat comp_def)
  also have "\<dots> = concat (map query_texts ?ps)"
    using assms by (intro arg_cong [of _ _ concat] map_cong refl) (auto simp: list_all_iff pieces_query)
  also have "\<dots> = concat (map query_texts ps)"
    by (induction ps) (auto elim: nullish.elims)
  finally show "parse_params ?q = concat (map query_texts ps)" .
qed

text \<open>The query of a call arrives as it was given: parsing the serialized query gives back the parameters that are neither
  \<open>null\<close> nor \<open>undefined\<close> in their order, a list as one pair for each element and an object as its members in brackets; the
  serialization never throws and leaves the query.\<close>

theorem query_arrives:
  assumes "list_all (\<lambda>(n, v). list_all query_char n \<and> query_value v) ps"
  shows "\<exists>q. defaultQuerySerializer ps = Inr q \<and> parse_params q = concat (map query_texts ps) \<and> CHR ''#'' \<notin> set q"
  using defaultQuerySerializer_arrives [OF assms] by blast

theorem query_arrives_witness:
  "\<exists>q. defaultQuerySerializer [(''all'', JBool True), (''q'', JStr ''a&b=c''), (''role'', JArr [JStr ''x'', JNull, JStr ''#'']), (''sort'', JUndef)] = Inr q \<and>
     parse_params q = [(''all'', ''true''), (''q'', ''a&b=c''), (''role'', ''x''), (''role'', ''#'')] \<and> CHR ''#'' \<notin> set q"
  using query_arrives [of "[(''all'', JBool True), (''q'', JStr ''a&b=c''), (''role'', JArr [JStr ''x'', JNull, JStr ''#'']), (''sort'', JUndef)]"]
  by (simp add: query_char_def)

end
