(* ===== verification/SdkStream.thy ===== *)
theory SdkStream
  imports Json
begin

section \<open>Server-sent events of the SDK\<close>

text \<open>
  \<open>core/serverSentEvents.gen.ts\<close> of the TypeScript client: the reader that cuts a stream of text into events, and the
  loop around it that reconnects with a growing delay.  The text arrives in chunks of any size; the reader keeps
  what is after the last blank line.  What the platform answers, the abort signal and the two
  hooks of the caller (validator and transformer) are arguments.  The callbacks \<open>onSseEvent\<close> and \<open>onSseError\<close> are the lists of what they are called with.
\<close>

subsection \<open>Lines and events\<close>

abbreviation CR :: char where "CR \<equiv> CHR 0x0D"
abbreviation LF :: char where "LF \<equiv> CHR 0x0A"

text \<open>\<open>replace(/\r\n?/g, '\n')\<close>.\<close>

fun unify_newlines :: "string \<Rightarrow> string" where
  "unify_newlines [] = []"
| "unify_newlines [c] = [if c = CR then LF else c]"
| "unify_newlines (c # d # cs) = (if c = CR then LF # (if d = LF then unify_newlines cs else unify_newlines (d # cs))
     else c # unify_newlines (d # cs))"

text \<open>\<open>split('\n\n')\<close>.\<close>

fun split_blank :: "string \<Rightarrow> string list" where
  "split_blank [] = [[]]"
| "split_blank [c] = [[c]]"
| "split_blank (c # d # cs) = (if c = LF \<and> d = LF then [] # split_blank cs
     else (case split_blank (d # cs) of [] \<Rightarrow> [[c]] | p # ps \<Rightarrow> (c # p) # ps))"

text \<open>\<open>line.replace(/^name:\s*/, '')\<close> of a line that starts with the name.\<close>

definition field_value :: "string \<Rightarrow> string \<Rightarrow> string" where
  "field_value name line = dropWhile white_space (drop (length name) line)"

record sse_state =
  ev_lastEventId :: "string option"
  ev_retryDelay :: int

record sse_block =
  bl_data :: "string list"
  bl_event :: "string option"
  bl_state :: sse_state

definition sse_line :: "string \<Rightarrow> sse_block \<Rightarrow> sse_block" where
  "sse_line line b =
     (if starts_with ''data:'' line then b\<lparr>bl_data := bl_data b @ [field_value ''data:'' line]\<rparr>
      else if starts_with ''event:'' line then b\<lparr>bl_event := Some (field_value ''event:'' line)\<rparr>
      else if starts_with ''id:'' line then b\<lparr>bl_state := (bl_state b)\<lparr>ev_lastEventId := Some (field_value ''id:'' line)\<rparr>\<rparr>
      else if starts_with ''retry:'' line
      then (case parseInt10 (field_value ''retry:'' line) of
              Some n \<Rightarrow> b\<lparr>bl_state := (bl_state b)\<lparr>ev_retryDelay := n\<rparr>\<rparr> | None \<Rightarrow> b)
      else b)"

text \<open>What is reported for an event, and whether its data is yielded.\<close>

record stream_event =
  se_data :: jsval
  se_event :: "string option"
  se_id :: "string option"
  se_retry :: int
  se_yield :: bool

type_synonym hook = "jsval \<Rightarrow> js_throw + jsval"

text \<open>\<open>valid\<close> stands for \<open>responseValidator\<close> (its result is not used) and \<open>conv\<close> for \<open>responseTransformer\<close>.\<close>

definition sse_event :: "hook \<Rightarrow> hook \<Rightarrow> string \<Rightarrow> sse_state \<Rightarrow> sse_state \<times> (js_throw + stream_event)" where
  "sse_event valid conv chunk st =
     (let b = fold sse_line (split_on LF chunk) \<lparr>bl_data = [], bl_event = None, bl_state = st\<rparr>;
          raw = join_with [LF] (bl_data b);
          report = (\<lambda>data. \<lparr>se_data = data, se_event = bl_event b, se_id = ev_lastEventId (bl_state b),
                      se_retry = ev_retryDelay (bl_state b), se_yield = (bl_data b \<noteq> [])\<rparr>)
      in (bl_state b,
          if bl_data b = [] then Inr (report JUndef)
          else (case json_parse raw of
            None \<Rightarrow> Inr (report (JStr raw))
          | Some v \<Rightarrow> bind_res (valid v) (\<lambda>_. bind_res (conv v) (\<lambda>v'. Inr (report v'))))))"

text \<open>The events of the complete chunks of a buffer, up to one whose hook throws.\<close>

fun sse_events :: "hook \<Rightarrow> hook \<Rightarrow> string list \<Rightarrow> sse_state \<Rightarrow> (stream_event list \<times> sse_state) \<times> js_throw option" where
  "sse_events valid conv [] st = (([], st), None)"
| "sse_events valid conv (c # cs) st = (case sse_event valid conv c st of
     (st', Inl e) \<Rightarrow> (([], st'), Some e)
   | (st', Inr ev) \<Rightarrow> (case sse_events valid conv cs st' of ((evs, st''), r) \<Rightarrow> ((ev # evs, st''), r)))"

subsection \<open>The reader\<close>

text \<open>One body: the values of \<open>reader.read()\<close> until \<open>done\<close> or until it rejects.\<close>

fun sse_read :: "hook \<Rightarrow> hook \<Rightarrow> string list \<Rightarrow> js_throw option \<Rightarrow> string \<Rightarrow> sse_state \<Rightarrow> (stream_event list \<times> sse_state) \<times> js_throw option" where
  "sse_read valid conv [] ending buffer st = (([], st), ending)"
| "sse_read valid conv (value # values) ending buffer st =
     (let chunks = split_blank (unify_newlines (buffer @ value)) in
      case sse_events valid conv (butlast chunks) st of
        ((evs, st'), Some e) \<Rightarrow> ((evs, st'), Some e)
      | ((evs, st'), None) \<Rightarrow> (case sse_read valid conv values ending (last chunks) st' of
            ((evs', st''), r) \<Rightarrow> ((evs @ evs', st''), r)))"

subsection \<open>The connection loop\<close>

text \<open>How the request for the stream is answered: it fails, it is refused, it has no body, or its body can be read.\<close>

datatype connection = Unreachable js_throw | Refused nat string | Bodiless | Opened

record sse_options =
  so_maxAttempts :: "int option"
  so_defaultDelay :: "int option"
  so_maxDelay :: "int option"
  so_valid :: hook
  so_conv :: hook

definition connection_error :: "connection \<Rightarrow> js_throw option" where
  "connection_error c = (case c of
     Unreachable e \<Rightarrow> Some e
   | Refused status text \<Rightarrow> Some (PlainError (''SSE failed: '' @ nat_digits status @ '' '' @ text))
   | Bodiless \<Rightarrow> Some (PlainError ''No body in SSE response'')
   | Opened \<Rightarrow> None)"

text \<open>\<open>Math.min(retryDelay * 2 ** (attempt - 1), sseMaxRetryDelay ?? 30000)\<close>.\<close>

definition backoff :: "sse_options \<Rightarrow> int \<Rightarrow> nat \<Rightarrow> int" where
  "backoff opts delay attempt = min (delay * 2 ^ (attempt - 1)) (case so_maxDelay opts of Some m \<Rightarrow> m | None \<Rightarrow> 30000)"

text \<open>Where the generator waits: for the response, for \<open>reader.read()\<close> with the buffer it has, or for \<open>sleep\<close>.\<close>

datatype sse_phase = Fetching | Reading string | Sleeping | Ended

record sse_run =
  sr_phase :: sse_phase
  sr_attempt :: nat
  sr_aborted :: bool
  sr_events :: "stream_event list"
  sr_errors :: "js_throw list"
  sr_sleeps :: "int list"
  sr_requests :: "string option list"
  sr_state :: sse_state

text \<open>The top of \<open>while (true)\<close>, up to the \<open>await\<close> of the response; a request carries the last event id.\<close>

definition sse_top :: "sse_run \<Rightarrow> sse_run" where
  "sse_top r =
     (if sr_aborted r then r\<lparr>sr_phase := Ended\<rparr>
      else r\<lparr>sr_phase := Fetching, sr_attempt := sr_attempt r + 1, sr_requests := sr_requests r @ [ev_lastEventId (sr_state r)]\<rparr>)"

text \<open>The \<open>catch\<close> block, up to its \<open>await\<close>.\<close>

definition sse_caught :: "sse_options \<Rightarrow> js_throw \<Rightarrow> sse_run \<Rightarrow> sse_run" where
  "sse_caught opts e r =
     (let r = r\<lparr>sr_errors := sr_errors r @ [e]\<rparr> in
      if (case so_maxAttempts opts of Some m \<Rightarrow> int (sr_attempt r) \<ge> m | None \<Rightarrow> False) then r\<lparr>sr_phase := Ended\<rparr>
      else r\<lparr>sr_phase := Sleeping, sr_sleeps := sr_sleeps r @ [backoff opts (ev_retryDelay (sr_state r)) (sr_attempt r)]\<rparr>)"

text \<open>One turn of the reading loop.\<close>

definition sse_chunk :: "sse_options \<Rightarrow> string \<Rightarrow> string \<Rightarrow> sse_run \<Rightarrow> sse_run" where
  "sse_chunk opts buffer value r =
     (let chunks = split_blank (unify_newlines (buffer @ value)) in
      case sse_events (so_valid opts) (so_conv opts) (butlast chunks) (sr_state r) of ((evs, st), failed) \<Rightarrow>
        let r = r\<lparr>sr_events := sr_events r @ evs, sr_state := st\<rparr> in
        (case failed of Some e \<Rightarrow> sse_caught opts e r | None \<Rightarrow> r\<lparr>sr_phase := Reading (last chunks)\<rparr>))"

text \<open>What the generator waits for, and the abort signal.  A connection may stay open for ever and may deliver any number of
  chunks: \<open>Closed\<close> (the end of the body, also by the abort handler, which cancels the reader) or \<open>Broken\<close> need never come.\<close>

datatype sse_input = Connected connection | Chunk string | Closed | Broken js_throw | Woke | Abort

fun createStream :: "sse_options \<Rightarrow> sse_input \<Rightarrow> sse_run \<Rightarrow> sse_run option" where
  "createStream opts (Connected c) r = (case sr_phase r of
     Fetching \<Rightarrow> Some (case connection_error c of Some e \<Rightarrow> sse_caught opts e r | None \<Rightarrow> r\<lparr>sr_phase := Reading []\<rparr>)
   | _ \<Rightarrow> None)"
| "createStream opts (Chunk value) r = (case sr_phase r of Reading buffer \<Rightarrow> Some (sse_chunk opts buffer value r) | _ \<Rightarrow> None)"
| "createStream opts Closed r = (case sr_phase r of Reading buffer \<Rightarrow> Some (r\<lparr>sr_phase := Ended\<rparr>) | _ \<Rightarrow> None)"
| "createStream opts (Broken e) r = (case sr_phase r of Reading buffer \<Rightarrow> Some (sse_caught opts e r) | _ \<Rightarrow> None)"
| "createStream opts Woke r = (case sr_phase r of Sleeping \<Rightarrow> Some (sse_top r) | _ \<Rightarrow> None)"
| "createStream opts Abort r = Some (r\<lparr>sr_aborted := True\<rparr>)"

definition createSseClient :: "sse_options \<Rightarrow> bool \<Rightarrow> sse_run" where
  "createSseClient opts aborted = sse_top
     \<lparr>sr_phase = Ended, sr_attempt = 0, sr_aborted = aborted, sr_events = [], sr_errors = [], sr_sleeps = [], sr_requests = [],
      sr_state = \<lparr>ev_lastEventId = None, ev_retryDelay = (case so_defaultDelay opts of Some d \<Rightarrow> d | None \<Rightarrow> 3000)\<rparr>\<rparr>"

subsection \<open>Chunks do not matter\<close>

lemma unify_newlines_none: "CR \<notin> set s \<Longrightarrow> unify_newlines s = s"
  by (induction s rule: unify_newlines.induct) auto

lemma unify_newlines_clean: "CR \<notin> set (unify_newlines s)"
  by (induction s rule: unify_newlines.induct) (auto split: list.splits)

lemma unify_newlines_append: "a = [] \<or> last a \<noteq> CR \<Longrightarrow> unify_newlines (a @ b) = unify_newlines a @ unify_newlines b"
proof (induction a rule: unify_newlines.induct)
  case (2 c)
  then show ?case by (cases b) simp_all
qed (auto split: if_splits)

lemma split_blank_nonempty [simp]: "split_blank s \<noteq> []"
  by (induction s rule: split_blank.induct) (auto split: list.splits)

lemma split_blank_single: "split_blank s = [p] \<Longrightarrow> p = s"
  by (induction s arbitrary: p rule: split_blank.induct) (auto split: if_splits list.splits)

text \<open>Cutting a longer text gives the complete pieces of its beginning first.\<close>

lemma split_blank_append: "split_blank (a @ b) = butlast (split_blank a) @ split_blank (last (split_blank a) @ b)"
proof (induction a rule: split_blank.induct)
  case (3 c d cs)
  show ?case
  proof (cases "c = LF \<and> d = LF")
    case False
    obtain p ps where p: "split_blank (d # cs) = p # ps" by (cases "split_blank (d # cs)") simp_all
    show ?thesis
    proof (cases "ps = []")
      case True
      with p have "split_blank (d # cs) = [d # cs]" using split_blank_single [of "d # cs" p] by simp
      with False show ?thesis by auto
    next
      case more: False
      with False 3 p show ?thesis by (auto split: list.splits)
    qed
  qed (use 3 in simp)
qed simp_all

lemma sse_events_append:
  "sse_events valid conv (xs @ ys) st = (case sse_events valid conv xs st of
     ((evs, st'), Some e) \<Rightarrow> ((evs, st'), Some e)
   | ((evs, st'), None) \<Rightarrow> (case sse_events valid conv ys st' of ((evs', st''), r) \<Rightarrow> ((evs @ evs', st''), r)))"
  by (induction xs arbitrary: st) (auto split: prod.split sum.split option.split)

lemma split_blank_chars: "p \<in> set (split_blank s) \<Longrightarrow> c \<in> set p \<Longrightarrow> c \<in> set s"
proof (induction s arbitrary: p rule: split_blank.induct)
  case (3 a d cs)
  then show ?case by (cases "split_blank (d # cs)") (fastforce split: if_splits)+
qed auto

text \<open>The reader over chunks of which none ends inside a line break is the reader over the whole text.\<close>

definition whole_breaks :: "string list \<Rightarrow> bool" where
  "whole_breaks values = list_all (\<lambda>v. v = [] \<or> last v \<noteq> CR) (butlast values)"

lemma sse_read_whole:
  assumes "values \<noteq> []" and "whole_breaks values" and "CR \<notin> set buffer"
  shows "sse_read valid conv values None buffer st = sse_read valid conv [concat values] None buffer st"
  using assms
proof (induction "values" arbitrary: buffer st)
  case (Cons v vs)
  show ?case
  proof (cases "vs = []")
    case False
    let ?chunks = "split_blank (unify_newlines (buffer @ v))"
    have v: "v = [] \<or> last v \<noteq> CR" and vs: "whole_breaks vs" using Cons.prems(2) False by (auto simp: whole_breaks_def)
    have bv: "buffer @ v = [] \<or> last (buffer @ v) \<noteq> CR" using v Cons.prems(3) by (metis append_Nil2 last_append last_in_set)
    have clean: "CR \<notin> set (last ?chunks)"
      using split_blank_chars [of "last ?chunks"] unify_newlines_clean [of "buffer @ v"] by (metis last_in_set split_blank_nonempty)
    have chunks: "split_blank (unify_newlines (buffer @ v @ concat vs)) =
        butlast ?chunks @ split_blank (unify_newlines (last ?chunks @ concat vs))"
      using split_blank_append [of "unify_newlines (buffer @ v)" "unify_newlines (concat vs)"] unify_newlines_append [OF bv, of "concat vs"]
        unify_newlines_append [of "last ?chunks" "concat vs"] clean unify_newlines_none [OF clean] by (metis append_assoc last_in_set)
    note rest = Cons.IH [OF False vs clean]
    show ?thesis
      by (simp add: chunks Let_def butlast_append sse_events_append rest split: prod.split option.split)
  qed simp
qed simp

text \<open>C15. The events that a stream delivers do not depend on the chunks in which its text arrives, as long as no chunk ends between
  the two characters of a line break; so never for texts with plain line feeds.\<close>

theorem sse_events_independent_of_chunks:
  assumes "concat chunks = concat chunks'" and "chunks \<noteq> []" and "chunks' \<noteq> []" and "whole_breaks chunks" and "whole_breaks chunks'"
  shows "sse_read valid conv chunks None [] st = sse_read valid conv chunks' None [] st"
  using sse_read_whole [of chunks "[]"] sse_read_whole [of chunks' "[]"] assms by simp

theorem sse_events_independent_of_chunks_witness:
  "sse_read Inr Inr [''data: a'' @ [LF], LF # ''data: b''] None [] \<lparr>ev_lastEventId = None, ev_retryDelay = 3000\<rparr> = sse_read Inr Inr [''data: a'' @ [LF, LF] @ ''data: b''] None [] \<lparr>ev_lastEventId = None, ev_retryDelay = 3000\<rparr>"
  by (rule sse_events_independent_of_chunks) (simp_all add: whole_breaks_def)

lemma unify_newlines_plain: "CR \<notin> set a \<Longrightarrow> unify_newlines (a @ r) = a @ unify_newlines r"
  using unify_newlines_append [of a r] unify_newlines_none [of a] last_in_set [of a] by fastforce

lemma split_blank_lines: "LF \<notin> set a \<Longrightarrow> split_blank (a @ LF # LF # r) = a # split_blank r"
proof (induction a)
  case (Cons x a)
  then show ?case by (cases a) auto
qed simp

lemma split_blank_line: "LF \<notin> set a \<Longrightarrow> b \<noteq> LF \<Longrightarrow> split_blank (a @ LF # b # r) = (a @ LF # hd (split_blank (b # r))) # tl (split_blank (b # r))"
proof (induction a)
  case Nil
  then show ?case by (cases "split_blank (b # r)") simp_all
next
  case (Cons x a)
  then show ?case by (cases a) (auto split: list.split)
qed

lemma split_blank_trail: "LF \<notin> set a \<Longrightarrow> split_blank (a @ [LF]) = [a @ [LF]]"
proof (induction a)
  case (Cons x a)
  then show ?case by (cases a) auto
qed simp

lemma no_white_space: "\<forall>c\<in>set u. \<not> white_space c \<Longrightarrow> CR \<notin> set u \<and> LF \<notin> set u \<and> dropWhile white_space u = u"
  by (cases u) (auto simp: white_space_def)

lemma sse_event_data:
  assumes "\<forall>c\<in>set u. \<not> white_space c" and "json_parse u = None"
  shows "sse_event valid conv (''data: '' @ u) st = (st, Inr \<lparr>se_data = JStr u, se_event = None, se_id = ev_lastEventId st,
     se_retry = ev_retryDelay st, se_yield = True\<rparr>)"
  using assms no_white_space [OF assms(1)]
  by (simp add: sse_event_def split_on_no_sep sse_line_def field_value_def Let_def white_space_def join_with_def)

lemma sse_event_two_lines:
  assumes "\<forall>c\<in>set u. \<not> white_space c" and "\<forall>c\<in>set v. \<not> white_space c" and "json_parse (u @ LF # v) = None"
  shows "sse_event valid conv ((''data: '' @ u) @ LF # (''data: '' @ v)) st = (st, Inr \<lparr>se_data = JStr (u @ LF # v), se_event = None,
     se_id = ev_lastEventId st, se_retry = ev_retryDelay st, se_yield = True\<rparr>)"
proof -
  have "split_on LF ((''data: '' @ u) @ LF # (''data: '' @ v)) = [''data: '' @ u, ''data: '' @ v]"
    using no_white_space [OF assms(1)] no_white_space [OF assms(2)] by (subst split_on_append) (simp_all add: split_on_no_sep)
  then show ?thesis using assms(3) no_white_space [OF assms(1)] no_white_space [OF assms(2)]
    by (simp add: sse_event_def sse_line_def field_value_def Let_def white_space_def join_with_def)
qed

text \<open>A chunk that ends between carriage return and line feed cuts an event in two: two data lines that are one event arrive as
  two events.\<close>

theorem sse_cut_line_break_splits_event:
  assumes u: "\<forall>c\<in>set u. \<not> white_space c" and v: "\<forall>c\<in>set v. \<not> white_space c"
    and json: "json_parse u = None" "json_parse v = None" "json_parse (u @ LF # v) = None"
  shows "map se_data (fst (fst (sse_read valid conv [(''data: '' @ u) @ [CR, LF] @ (''data: '' @ v) @ [CR, LF, CR, LF]] None [] st))) = [JStr (u @ LF # v)] \<and>
     map se_data (fst (fst (sse_read valid conv [(''data: '' @ u) @ [CR], LF # (''data: '' @ v) @ [CR, LF, CR, LF]] None [] st))) = [JStr u, JStr v]"
proof
  note nu = no_white_space [OF u] and nv = no_white_space [OF v]
  let ?u = "''data: '' @ u" and ?v = "''data: '' @ v"
  have cr: "CR \<notin> set ?u" "CR \<notin> set ?v" "CR \<notin> set (LF # ?v)" and lf: "LF \<notin> set ?u" "LF \<notin> set ?v" using nu nv by auto
  have one: "unify_newlines (?u @ [CR, LF] @ ?v @ [CR, LF, CR, LF]) = ?u @ LF # ?v @ [LF, LF]"
    using unify_newlines_plain [OF cr(1), of "[CR, LF] @ ?v @ [CR, LF, CR, LF]"] unify_newlines_plain [OF cr(2), of "[CR, LF, CR, LF]"] by simp
  have two: "unify_newlines (?u @ [CR]) = ?u @ [LF]" "unify_newlines ((?u @ [LF]) @ LF # ?v @ [CR, LF, CR, LF]) = ?u @ LF # LF # ?v @ [LF, LF]"
    using unify_newlines_plain [OF cr(1), of "[CR]"] unify_newlines_plain [of "?u @ LF # LF # ?v" "[CR, LF, CR, LF]"] cr by simp_all
  have "split_blank (?v @ [LF, LF]) = [?v, []]" using split_blank_lines [OF lf(2), of "[]"] by simp
  then have pieces: "split_blank (?u @ LF # ?v @ [LF, LF]) = [?u @ LF # ?v, []]" "split_blank (?u @ LF # LF # ?v @ [LF, LF]) = [?u, ?v, []]"
      "split_blank (?u @ [LF]) = [?u @ [LF]]"
    using split_blank_line [OF lf(1), of "CHR ''d''" "''ata: '' @ v @ [LF, LF]"] split_blank_lines [OF lf(1), of "?v @ [LF, LF]"]
      split_blank_trail [OF lf(1)] by simp_all
  show "map se_data (fst (fst (sse_read valid conv [?u @ [CR, LF] @ ?v @ [CR, LF, CR, LF]] None [] st))) = [JStr (u @ LF # v)]"
    using one pieces(1) sse_event_two_lines [OF u v json(3), of valid conv st] by simp
  show "map se_data (fst (fst (sse_read valid conv [?u @ [CR], LF # ?v @ [CR, LF, CR, LF]] None [] st))) = [JStr u, JStr v]"
    using two pieces(2,3) sse_event_data [OF u json(1), of valid conv st] sse_event_data [OF v json(2), of valid conv st] by simp
qed

theorem sse_cut_line_break_splits_event_witness:
  "map se_data (fst (fst (sse_read Inr Inr [(''data: '' @ ''a'') @ [CR], LF # (''data: '' @ ''b'') @ [CR, LF, CR, LF]] None []
     \<lparr>ev_lastEventId = None, ev_retryDelay = 3000\<rparr>))) = [JStr ''a'', JStr ''b'']"
proof -
  have "json_parse ''a'' = None" "json_parse ''b'' = None" "json_parse (''a'' @ LF # ''b'') = None" by code_simp+
  from sse_cut_line_break_splits_event [OF _ _ this] show ?thesis by (simp add: white_space_def)
qed

subsection \<open>The loop is bounded\<close>

text \<open>The loop reads as the reader does: as long as no hook throws, the chunks of a connection report the events of \<open>sse_read\<close>.\<close>

lemma createStream_reads:
  assumes "sr_phase r = Reading b" and "sse_read (so_valid opts) (so_conv opts) values None b (sr_state r) = ((evs, st), None)"
  shows "\<exists>b'. exec (createStream opts) (map Chunk values) r = Some (r\<lparr>sr_phase := Reading b', sr_events := sr_events r @ evs, sr_state := st\<rparr>)"
  using assms
proof (induction "values" arbitrary: r b evs)
  case Nil
  then show ?case by (intro exI [of _ b]) simp
next
  case (Cons v vs)
  let ?chunks = "split_blank (unify_newlines (b @ v))"
  obtain evs1 st1 where one: "sse_events (so_valid opts) (so_conv opts) (butlast ?chunks) (sr_state r) = ((evs1, st1), None)"
    using Cons.prems(2) by (auto simp: Let_def split: prod.splits option.splits)
  obtain evs2 where rest: "sse_read (so_valid opts) (so_conv opts) vs None (last ?chunks) st1 = ((evs2, st), None)" and evs: "evs = evs1 @ evs2"
    using Cons.prems(2) one by (auto simp: Let_def split: prod.splits)
  let ?r = "r\<lparr>sr_events := sr_events r @ evs1, sr_state := st1, sr_phase := Reading (last ?chunks)\<rparr>"
  have "createStream opts (Chunk v) r = Some ?r"
    using Cons.prems(1) one by (simp add: sse_chunk_def Let_def)
  moreover have "\<exists>b'. exec (createStream opts) (map Chunk vs) ?r = Some (?r\<lparr>sr_phase := Reading b', sr_events := sr_events ?r @ evs2, sr_state := st\<rparr>)"
    using rest by (intro Cons.IH [where b = "last ?chunks"]) simp_all
  ultimately show ?case by (simp add: evs)
qed

abbreviation delay_cap :: "sse_options \<Rightarrow> int" where
  "delay_cap opts \<equiv> (case so_maxDelay opts of Some m \<Rightarrow> m | None \<Rightarrow> 30000)"

abbreviation attempt_limit :: "sse_options \<Rightarrow> nat" where
  "attempt_limit opts \<equiv> (case so_maxAttempts opts of Some m \<Rightarrow> max (nat m) 1 | None \<Rightarrow> 0)"

definition sse_inv :: "sse_options \<Rightarrow> sse_run \<Rightarrow> bool" where
  "sse_inv opts r \<longleftrightarrow> so_maxAttempts opts \<noteq> None \<and> length (sr_requests r) = sr_attempt r \<and> sr_attempt r \<le> attempt_limit opts \<and>
     (sr_phase r = Sleeping \<longrightarrow> sr_attempt r < attempt_limit opts) \<and> (\<forall>d\<in>set (sr_sleeps r). d \<le> delay_cap opts)"

text \<open>How many inputs, the chunks and the abort signal apart, the generator can still take.\<close>

definition sse_rank :: "sse_options \<Rightarrow> sse_run \<Rightarrow> nat" where
  "sse_rank opts r = (case sr_phase r of
     Ended \<Rightarrow> 0
   | Sleeping \<Rightarrow> 3 * (attempt_limit opts - sr_attempt r) + 1
   | Reading b \<Rightarrow> 3 * (attempt_limit opts - sr_attempt r) + 2
   | Fetching \<Rightarrow> 3 * (attempt_limit opts - sr_attempt r) + 3)"

fun turns :: "sse_input \<Rightarrow> bool" where
  "turns (Chunk v) = False"
| "turns Abort = False"
| "turns _ = True"

lemma sse_inv_frame:
  "sse_inv opts r \<Longrightarrow> p \<noteq> Sleeping \<Longrightarrow> sse_inv opts (r\<lparr>sr_phase := p\<rparr>)" "sse_inv opts (r\<lparr>sr_aborted := b\<rparr>) = sse_inv opts r"
  "sse_inv opts (r\<lparr>sr_events := evs, sr_state := st\<rparr>) = sse_inv opts r"
  "sse_inv opts r \<Longrightarrow> p \<noteq> Sleeping \<Longrightarrow> sse_inv opts (r\<lparr>sr_phase := p, sr_events := evs, sr_state := st\<rparr>)"
  by (simp_all add: sse_inv_def)

lemma sse_caught_inv: "sse_inv opts r \<Longrightarrow> sse_inv opts (sse_caught opts e r)"
  by (auto simp: sse_inv_def sse_caught_def backoff_def Let_def split: option.splits)

lemma sse_caught_rank: "sr_phase r \<in> {Fetching, Reading b} \<Longrightarrow> sse_rank opts (sse_caught opts e r) < sse_rank opts r"
  by (auto simp: sse_rank_def sse_caught_def Let_def)

lemma sse_chunk_inv: "sse_inv opts r \<Longrightarrow> sse_inv opts (sse_chunk opts b v r)"
  by (auto simp: sse_chunk_def Let_def sse_inv_frame split: prod.split option.split intro!: sse_caught_inv)

lemma sse_chunk_rank: "sr_phase r = Reading b \<Longrightarrow> sse_rank opts (sse_chunk opts b v r) \<le> sse_rank opts r"
proof -
  assume r: "sr_phase r = Reading b"
  have "sse_rank opts (sse_caught opts e (r\<lparr>sr_events := evs, sr_state := st\<rparr>)) \<le> sse_rank opts r" for e evs st
    using sse_caught_rank [of "r\<lparr>sr_events := evs, sr_state := st\<rparr>" b opts e] r by (simp add: sse_rank_def)
  then show ?thesis using r by (auto simp: sse_chunk_def Let_def sse_rank_def [of _ r] split: prod.split option.split) (auto simp: sse_rank_def)
qed

interpretation sse: ranked_machine "createStream opts" "sse_inv opts" "sse_rank opts" turns for opts
proof
  fix r r' i
  assume inv: "sse_inv opts r" and step: "createStream opts i r = Some r'"
  show "sse_inv opts r'"
  proof (cases i)
    case (Connected c)
    with inv step show ?thesis
      by (auto simp: sse_inv_frame split: sse_phase.splits option.splits intro: sse_caught_inv)
  next
    case Woke
    with inv step show ?thesis by (auto simp: sse_top_def sse_inv_def split: sse_phase.splits if_splits)
  qed (use inv step in \<open>auto simp: sse_inv_frame split: sse_phase.splits intro: sse_caught_inv sse_chunk_inv\<close>)
  show "if turns i then sse_rank opts r' < sse_rank opts r else sse_rank opts r' \<le> sse_rank opts r"
  proof (cases i)
    case (Connected c)
    with step show ?thesis
      by (auto split: sse_phase.splits option.splits intro: sse_caught_rank) (simp add: sse_rank_def)
  next
    case Woke
    with inv step show ?thesis by (auto simp: sse_top_def sse_inv_def sse_rank_def split: sse_phase.splits)
  next
    case (Chunk v)
    with step show ?thesis by (auto split: sse_phase.splits intro: sse_chunk_rank)
  next
    case (Broken e)
    with step show ?thesis by (auto split: sse_phase.splits intro: sse_caught_rank)
  qed (use step in \<open>auto simp: sse_rank_def split: sse_phase.splits\<close>)
qed

text \<open>C16. With a limit on the attempts, whatever the connections deliver and however long they stay open, the generator sends at most
  that many requests (and at least the first), never sleeps longer than the cap, and takes at most three inputs for each
  attempt besides the chunks and the abort signal, and one fewer while it has not ended: only a connection that stays open keeps it
  running.\<close>

theorem sse_retries_bounded:
  assumes "so_maxAttempts opts = Some m" and "exec (createStream opts) inputs (createSseClient opts aborted) = Some r"
  shows "length (sr_requests r) \<le> max (nat m) 1 \<and> (\<forall>d\<in>set (sr_sleeps r). d \<le> delay_cap opts) \<and>
     length (filter turns inputs) + (if sr_phase r = Ended then 0 else 1) \<le> 3 * max (nat m) 1"
proof -
  let ?r = "createSseClient opts aborted"
  have start: "sse_inv opts ?r" "sse_rank opts ?r \<le> 3 * max (nat m) 1"
    using assms(1) by (auto simp: createSseClient_def sse_top_def sse_inv_def sse_rank_def)
  have "sse_inv opts r" using start(1) assms(2) by (rule sse.exec_invar)
  moreover have "length (filter turns inputs) + sse_rank opts r \<le> sse_rank opts ?r" using start(1) assms(2) by (rule sse.exec_rank)
  moreover have "(if sr_phase r = Ended then 0 else 1) \<le> sse_rank opts r" by (auto simp: sse_rank_def split: sse_phase.split)
  ultimately show ?thesis using start(2) assms(1) unfolding sse_inv_def by auto
qed

text \<open>A failing connection, and a second that stays open.\<close>

theorem sse_retries_bounded_witness:
  "\<exists>r. exec (createStream \<lparr>so_maxAttempts = Some 2, so_defaultDelay = None, so_maxDelay = Some 5, so_valid = Inr, so_conv = Inr\<rparr>)
        [Connected Bodiless, Woke, Connected Opened, Chunk ''data: a'']
        (createSseClient \<lparr>so_maxAttempts = Some 2, so_defaultDelay = None, so_maxDelay = Some 5, so_valid = Inr, so_conv = Inr\<rparr> False) = Some r \<and>
     length (sr_requests r) \<le> 2 \<and> sr_phase r \<noteq> Ended"
proof -
  let ?o = "\<lparr>so_maxAttempts = Some 2, so_defaultDelay = None, so_maxDelay = Some 5, so_valid = Inr, so_conv = Inr\<rparr>"
  let ?run = "exec (createStream ?o) [Connected Bodiless, Woke, Connected Opened, Chunk ''data: a''] (createSseClient ?o False)"
  have "\<exists>r. ?run = Some r \<and> sr_phase r \<noteq> Ended"
    by (simp add: createSseClient_def sse_top_def sse_caught_def connection_error_def sse_chunk_def Let_def)
  then obtain r where r: "?run = Some r" "sr_phase r \<noteq> Ended" by blast
  from sse_retries_bounded [OF _ r(1)] r show ?thesis by auto
qed

end
