(* ===== verification/SdkClient.thy ===== *)
theory SdkClient
  imports SdkWire SdkStream
begin

section \<open>The SDK client\<close>

text \<open>
  \<open>client/client.gen.ts\<close> and \<open>client/utils.gen.ts\<close> of the TypeScript client: bodies, headers, credentials, the registry of
  interceptors, the configuration, and a request from the options of a call to its answer.  The network, the hooks of the
  caller and the interceptors are functions that may throw.  A configuration field is \<open>None\<close> when it is absent; a field set to
  \<open>undefined\<close> is not told apart from it.  Of the options of \<open>Request\<close> the model has the method, the headers and the body; the
  content type the constructor derives from a body without one is not added.
\<close>

subsection \<open>Bodies\<close>

text \<open>\<open>JSON.stringify(v)\<close> at the top: \<open>None\<close> is \<open>undefined\<close>.\<close>

definition json_text :: "jsval \<Rightarrow> string option" where
  "json_text v = (if json_skipped v then None else Some (stringify v))"

definition appended_text :: "jsval \<Rightarrow> string" where
  "appended_text v = (case v of JStr s \<Rightarrow> s | _ \<Rightarrow> (case json_text v of Some t \<Rightarrow> t | None \<Rightarrow> ''undefined''))"

definition serializeFormDataPair :: "string \<Rightarrow> jsval \<Rightarrow> params \<Rightarrow> params" where
  "serializeFormDataPair key v data = data @ [(key, appended_text v)]"

definition serializeUrlSearchParamsPair :: "string \<Rightarrow> jsval \<Rightarrow> params \<Rightarrow> params" where
  "serializeUrlSearchParamsPair key v data = data @ [(key, appended_text v)]"

text \<open>\<open>Object.entries(v)\<close>.\<close>

definition object_entries :: "jsval \<Rightarrow> js_throw + (string \<times> jsval) list" where
  "object_entries v = (case v of
     JObj ps \<Rightarrow> Inr ps
   | JArr xs \<Rightarrow> Inr (map (\<lambda>(i, x). (nat_digits i, x)) (enumerate 0 xs))
   | JStr s \<Rightarrow> Inr (map (\<lambda>(i, c). (nat_digits i, JStr [c])) (enumerate 0 s))
   | _ \<Rightarrow> if nullish v then Inl TypeErr else Inr [])"

definition append_entry :: "(string \<Rightarrow> jsval \<Rightarrow> params \<Rightarrow> params) \<Rightarrow> string \<times> jsval \<Rightarrow> params \<Rightarrow> params" where
  "append_entry pair = (\<lambda>(key, v) data.
     if nullish v then data else (case v of JArr xs \<Rightarrow> fold (pair key) xs data | _ \<Rightarrow> pair key v data))"

datatype serialized = SText string | SForm params

type_synonym body_serializer = "jsval \<Rightarrow> js_throw + serialized option"

definition formDataBodySerializer :: body_serializer where
  "formDataBodySerializer body = bind_res (object_entries body) (\<lambda>es. Inr (Some (SForm (fold (append_entry serializeFormDataPair) es []))))"

definition jsonBodySerializer :: body_serializer where
  "jsonBodySerializer body = Inr (map_option SText (json_text body))"

definition urlSearchParamsBodySerializer :: body_serializer where
  "urlSearchParamsBodySerializer body = bind_res (object_entries body)
     (\<lambda>es. Inr (Some (SText (params_toString (fold (append_entry serializeUrlSearchParamsPair) es [])))))"

text \<open>What is handed on as the body; \<open>serializedBody\<close> is \<open>None\<close> when the options do not have the member.\<close>

datatype valid_body = NoBody | NullBody | SerializedBody serialized | RawBody jsval

definition getValidRequestBody :: "jsval \<Rightarrow> bool \<Rightarrow> serialized option option \<Rightarrow> valid_body" where
  "getValidRequestBody body hasSerializer serializedBody =
     (if body \<noteq> JUndef \<and> hasSerializer
      then (case serializedBody of
              Some sb \<Rightarrow> (case sb of Some t \<Rightarrow> if t \<noteq> SText [] then SerializedBody t else NullBody | None \<Rightarrow> NullBody)
            | None \<Rightarrow> if body \<noteq> JStr [] then RawBody body else NullBody)
      else if body \<noteq> JUndef then RawBody body else NoBody)"

subsection \<open>Headers\<close>

text \<open>A \<open>Headers\<close> object: distinct names in lower case.  The order of its entries is not observed: every reader asks by name or
  sets each name once.\<close>

type_synonym headers = "(string \<times> string) list"

definition h_get :: "headers \<Rightarrow> string \<Rightarrow> string option" where
  "h_get hs name = map_of hs (map to_lower name)"

definition h_set :: "string \<Rightarrow> string \<Rightarrow> headers \<Rightarrow> headers" where
  "h_set name v hs = AList.update (map to_lower name) v hs"

definition h_append :: "string \<Rightarrow> string \<Rightarrow> headers \<Rightarrow> headers" where
  "h_append name v hs = h_set name (case h_get hs name of Some w \<Rightarrow> w @ '', '' @ v | None \<Rightarrow> v) hs"

definition h_delete :: "string \<Rightarrow> headers \<Rightarrow> headers" where
  "h_delete name hs = AList.delete (map to_lower name) hs"

datatype headers_init = HeadersObject headers | HeadersValue jsval

definition headersEntries :: "headers \<Rightarrow> (string \<times> jsval) list" where
  "headersEntries hs = map (\<lambda>(k, v). (k, JStr v)) hs"

definition mergeHeader :: "string \<times> jsval \<Rightarrow> headers \<Rightarrow> headers" where
  "mergeHeader = (\<lambda>(key, v) hs. case v of
     JNull \<Rightarrow> h_delete key hs
   | JArr xs \<Rightarrow> fold (\<lambda>x. h_append key (js_String x)) xs hs
   | JUndef \<Rightarrow> hs
   | _ \<Rightarrow> h_set key (if is_object v then stringify v else js_String v) hs)"

definition headers_entries :: "headers_init option \<Rightarrow> (string \<times> jsval) list" where
  "headers_entries h = (case h of
     None \<Rightarrow> []
   | Some (HeadersObject hs) \<Rightarrow> headersEntries hs
   | Some (HeadersValue v) \<Rightarrow> if truthy v then (case object_entries v of Inr es \<Rightarrow> es | Inl e \<Rightarrow> []) else [])"

definition mergeHeaders :: "headers_init option list \<Rightarrow> headers" where
  "mergeHeaders hss = fold (\<lambda>h. fold mergeHeader (headers_entries h)) hss []"

subsection \<open>Credentials\<close>

datatype auth_in = InHeader | InQuery | InCookie
datatype http_scheme = Basic | Bearer
datatype auth_type = ApiKey | Http

record auth =
  au_in :: "auth_in option"
  au_key :: "string option"
  au_name :: "string option"
  au_scheme :: "http_scheme option"
  au_type :: auth_type

datatype token_source = Token string | TokenOf "auth \<Rightarrow> js_throw + string option"

definition getAuthToken :: "auth \<Rightarrow> token_source option \<Rightarrow> js_throw + string option" where
  "getAuthToken auth callback =
     bind_res (case callback of None \<Rightarrow> Inr None | Some (Token t) \<Rightarrow> Inr (Some t) | Some (TokenOf f) \<Rightarrow> f auth) (\<lambda>token.
       Inr (case token of
         None \<Rightarrow> None
       | Some t \<Rightarrow> if t = [] then None
           else (case au_scheme auth of
             Some Bearer \<Rightarrow> Some (''Bearer '' @ t)
           | Some Basic \<Rightarrow> Some (''Basic '' @ btoa t)
           | None \<Rightarrow> Some t)))"

type_synonym query = "(string \<times> jsval) list"

definition checkForExistence :: "headers \<Rightarrow> query option \<Rightarrow> string option \<Rightarrow> bool" where
  "checkForExistence hs q name = (case name of
     None \<Rightarrow> False
   | Some n \<Rightarrow> n \<noteq> [] \<and>
       (h_get hs n \<noteq> None \<or> truthy (case q of Some ps \<Rightarrow> getprop (JObj ps) n | None \<Rightarrow> JUndef) \<or>
        (case h_get hs ''Cookie'' of Some c \<Rightarrow> js_includes (n @ ''='') c | None \<Rightarrow> False)))"

definition put_token :: "auth \<Rightarrow> string \<Rightarrow> headers \<times> query option \<Rightarrow> headers \<times> query option" where
  "put_token auth token = (\<lambda>(hs, q).
     let name = (case au_name auth of Some n \<Rightarrow> n | None \<Rightarrow> ''Authorization'') in
     case au_in auth of
       Some InQuery \<Rightarrow> (hs, Some (AList.update name (JStr token) (case q of Some ps \<Rightarrow> ps | None \<Rightarrow> [])))
     | Some InCookie \<Rightarrow> (h_append ''Cookie'' (name @ ''='' @ token) hs, q)
     | _ \<Rightarrow> (h_set name token hs, q))"

fun setAuthParams :: "auth list \<Rightarrow> token_source option \<Rightarrow> headers \<times> query option \<Rightarrow> js_throw + headers \<times> query option" where
  "setAuthParams [] callback s = Inr s"
| "setAuthParams (auth # auths) callback s =
     (if checkForExistence (fst s) (snd s) (au_name auth) then setAuthParams auths callback s
      else bind_res (getAuthToken auth callback) (\<lambda>token. setAuthParams auths callback
        (case token of None \<Rightarrow> s | Some t \<Rightarrow> put_token auth t s)))"

subsection \<open>Interceptors\<close>

text \<open>\<open>fns\<close>: an ejected interceptor leaves \<open>null\<close>.  An interceptor is named by its position or by itself.\<close>

type_synonym 'f fns = "'f option list"

datatype 'f fn_id = ById int | ByFn 'f

definition fn_at :: "'f fns \<Rightarrow> int \<Rightarrow> 'f option" where
  "fn_at fns i = (if 0 \<le> i \<and> i < int (length fns) then fns ! nat i else None)"

fun indexOf :: "'f \<Rightarrow> 'f fns \<Rightarrow> int" where
  "indexOf f [] = -1"
| "indexOf f (g # gs) = (if g = Some f then 0 else let i = indexOf f gs in if i = -1 then -1 else i + 1)"

definition getInterceptorIndex :: "'f fn_id \<Rightarrow> 'f fns \<Rightarrow> int" where
  "getInterceptorIndex id' fns = (case id' of
     ById i \<Rightarrow> if fn_at fns i \<noteq> None then i else -1
   | ByFn f \<Rightarrow> indexOf f fns)"

definition ic_clear :: "'f fns \<Rightarrow> 'f fns" where
  "ic_clear fns = []"

definition ic_eject :: "'f fn_id \<Rightarrow> 'f fns \<Rightarrow> 'f fns" where
  "ic_eject id' fns = (let i = getInterceptorIndex id' fns in if fn_at fns i \<noteq> None then fns[nat i := None] else fns)"

definition ic_exists :: "'f fn_id \<Rightarrow> 'f fns \<Rightarrow> bool" where
  "ic_exists id' fns = (fn_at fns (getInterceptorIndex id' fns) \<noteq> None)"

text \<open>\<open>update\<close> and whether it returned the name.\<close>

definition ic_update :: "'f fn_id \<Rightarrow> 'f \<Rightarrow> 'f fns \<Rightarrow> 'f fns \<times> bool" where
  "ic_update id' f fns = (let i = getInterceptorIndex id' fns in if fn_at fns i \<noteq> None then (fns[nat i := Some f], True) else (fns, False))"

definition ic_use :: "'f \<Rightarrow> 'f fns \<Rightarrow> 'f fns \<times> int" where
  "ic_use f fns = (fns @ [Some f], int (length (fns @ [Some f])) - 1)"

subsection \<open>Requests and responses\<close>

datatype parse_as = PaArrayBuffer | PaAuto | PaBlob | PaFormData | PaJson | PaStream | PaText

definition some_prefix :: "string list \<Rightarrow> string \<Rightarrow> bool" where
  "some_prefix ps s = list_ex (\<lambda>p. starts_with p s) ps"

definition getParseAs :: "string option \<Rightarrow> parse_as option" where
  "getParseAs contentType = (case contentType of
     None \<Rightarrow> Some PaStream
   | Some ct \<Rightarrow>
       if ct = [] then Some PaStream
       else (let clean = js_trim (hd (split_on (CHR '';'') ct)) in
         if clean = [] then None
         else if starts_with ''application/json'' clean \<or> starts_with (rev ''+json'') (rev clean) then Some PaJson
         else if clean = ''multipart/form-data'' then Some PaFormData
         else if some_prefix [''application/'', ''audio/'', ''image/'', ''video/''] clean then Some PaBlob
         else if starts_with ''text/'' clean then Some PaText
         else None))"

record request =
  rq_url :: string
  rq_method :: string
  rq_headers :: headers
  rq_body :: valid_body

text \<open>What is read from a response: a value, the body in one of the binary forms, or a form.\<close>

datatype payload = Value jsval | Raw parse_as string | Form params

record response =
  rs_status :: nat
  rs_headers :: headers
  rs_text :: "js_throw + string"
  rs_formData :: "js_throw + params"

definition rs_ok :: "response \<Rightarrow> bool" where
  "rs_ok r \<longleftrightarrow> 200 \<le> rs_status r \<and> rs_status r \<le> 299"

text \<open>\<open>response[parseAs]()\<close>.\<close>

definition read_as :: "parse_as \<Rightarrow> response \<Rightarrow> js_throw + payload" where
  "read_as p r = (if p = PaFormData then bind_res (rs_formData r) (\<lambda>f. Inr (Form f))
     else bind_res (rs_text r) (\<lambda>t. Inr (if p = PaText then Value (JStr t) else Raw p t)))"

text \<open>\<open>response.body\<close>, not read.\<close>

definition body_stream :: "response \<Rightarrow> payload" where
  "body_stream r = Raw PaStream (case rs_text r of Inr t \<Rightarrow> t | Inl e \<Rightarrow> [])"

definition syntax_error :: js_throw where
  "syntax_error = PlainError ''SyntaxError: JSON.parse''"

text \<open>\<open>new Request(url, init)\<close>: the forbidden methods and a body on \<open>GET\<close> or \<open>HEAD\<close> are refused, and an address that does not parse;
  \<open>url_ok\<close> stands for the parser of the host, which decides about relative addresses.\<close>

definition new_Request :: "(string \<Rightarrow> bool) \<Rightarrow> request \<Rightarrow> js_throw + request" where
  "new_Request url_ok r =
     (if \<not> url_ok (rq_url r) \<or> rq_method r \<in> {''CONNECT'', ''TRACE'', ''TRACK''} \<or>
         rq_method r \<in> {''GET'', ''HEAD''} \<and> rq_body r \<notin> {NoBody, NullBody}
      then Inl TypeErr else Inr r)"

subsection \<open>Configuration\<close>

datatype response_style = StyleData | StyleFields

type_synonym value_hook = "jsval \<Rightarrow> js_throw + jsval"

record config =
  cf_baseUrl :: "string option"
  cf_headers :: "headers_init option"
  cf_auth :: "token_source option"
  cf_bodySerializer :: "body_serializer option option"
  cf_querySerializer :: "(query \<Rightarrow> js_throw + string) option"
  cf_method :: "string option"
  cf_parseAs :: "parse_as option"
  cf_responseStyle :: "response_style option"
  cf_throwOnError :: "bool option"
  cf_requestValidator :: "(request \<Rightarrow> js_throw + jsval) option"
  cf_responseValidator :: "value_hook option"
  cf_responseTransformer :: "value_hook option"
  cf_fetch :: "(request \<Rightarrow> js_throw + response) option"

definition no_config :: config where
  "no_config = \<lparr>cf_baseUrl = None, cf_headers = None, cf_auth = None, cf_bodySerializer = None, cf_querySerializer = None, cf_method = None,
     cf_parseAs = None, cf_responseStyle = None, cf_throwOnError = None, cf_requestValidator = None, cf_responseValidator = None,
     cf_responseTransformer = None, cf_fetch = None\<rparr>"

text \<open>One member of \<open>{ ...a, ...b }\<close>.\<close>

definition spread :: "'a option \<Rightarrow> 'a option \<Rightarrow> 'a option" where
  "spread a b = (case b of Some x \<Rightarrow> Some x | None \<Rightarrow> a)"

definition spread_config :: "config \<Rightarrow> config \<Rightarrow> config" where
  "spread_config a b = \<lparr>
     cf_baseUrl = spread (cf_baseUrl a) (cf_baseUrl b),
     cf_headers = spread (cf_headers a) (cf_headers b),
     cf_auth = spread (cf_auth a) (cf_auth b),
     cf_bodySerializer = spread (cf_bodySerializer a) (cf_bodySerializer b),
     cf_querySerializer = spread (cf_querySerializer a) (cf_querySerializer b),
     cf_method = spread (cf_method a) (cf_method b),
     cf_parseAs = spread (cf_parseAs a) (cf_parseAs b),
     cf_responseStyle = spread (cf_responseStyle a) (cf_responseStyle b),
     cf_throwOnError = spread (cf_throwOnError a) (cf_throwOnError b),
     cf_requestValidator = spread (cf_requestValidator a) (cf_requestValidator b),
     cf_responseValidator = spread (cf_responseValidator a) (cf_responseValidator b),
     cf_responseTransformer = spread (cf_responseTransformer a) (cf_responseTransformer b),
     cf_fetch = spread (cf_fetch a) (cf_fetch b)\<rparr>"

text \<open>One slash at the end is dropped.\<close>

definition drop_slash :: "string \<Rightarrow> string" where
  "drop_slash s = (if s \<noteq> [] \<and> last s = CHR ''/'' then butlast s else s)"

definition mergeConfigs :: "config \<Rightarrow> config \<Rightarrow> config" where
  "mergeConfigs a b = (let config = spread_config a b in
     config\<lparr>cf_baseUrl := map_option drop_slash (cf_baseUrl config),
            cf_headers := Some (HeadersObject (mergeHeaders [cf_headers a, cf_headers b]))\<rparr>)"

definition defaultHeaders :: headers_init where
  "defaultHeaders = HeadersValue (JObj [(''Content-Type'', JStr ''application/json'')])"

definition createConfig :: "config \<Rightarrow> config" where
  "createConfig override = spread_config (no_config\<lparr>cf_bodySerializer := Some (Some jsonBodySerializer), cf_headers := Some defaultHeaders,
     cf_parseAs := Some PaAuto, cf_querySerializer := Some defaultQuerySerializer\<rparr>) override"

text \<open>The state of a client: its configuration and the interceptors.\<close>

record client =
  cl_config :: config
  cl_error :: "(js_throw \<Rightarrow> response option \<Rightarrow> request option \<Rightarrow> js_throw + js_throw) fns"
  cl_request :: "(request \<Rightarrow> js_throw + request) fns"
  cl_response :: "(response \<Rightarrow> request \<Rightarrow> js_throw + response) fns"

definition createClient :: "config \<Rightarrow> client" where
  "createClient config = \<lparr>cl_config = mergeConfigs (createConfig no_config) config, cl_error = [], cl_request = [], cl_response = []\<rparr>"

definition setConfig :: "config \<Rightarrow> client \<Rightarrow> client" where
  "setConfig config cl = cl\<lparr>cl_config := mergeConfigs (cl_config cl) config\<rparr>"

text \<open>\<open>client\<close>, the instance of \<open>client.gen.ts\<close>.\<close>

definition default_client :: client where
  "default_client = createClient (createConfig (no_config\<lparr>cf_baseUrl := Some ''/''\<rparr>))"

subsection \<open>A request\<close>

record call_options =
  co_config :: config
  co_body :: jsval
  co_path :: jsval
  co_query :: "query option"
  co_security :: "auth list option"
  co_url :: string

text \<open>The options as \<open>beforeRequest\<close> resolves them, with the address.\<close>

record resolved =
  ro_config :: config
  ro_headers :: headers
  ro_query :: "query option"
  ro_serialized :: "serialized option"
  ro_url :: string

definition buildUrl :: "config \<Rightarrow> jsval \<Rightarrow> query option \<Rightarrow> string \<Rightarrow> js_throw + string" where
  "buildUrl config path q url = getUrl (cf_baseUrl config) path q
     (case cf_querySerializer config of Some f \<Rightarrow> f | None \<Rightarrow> createQuerySerializer (\<lambda>name. defaultQueryOptions)) url"

definition optional_hook :: "('a \<Rightarrow> js_throw + 'b) option \<Rightarrow> 'a \<Rightarrow> js_throw + unit" where
  "optional_hook h x = (case h of Some f \<Rightarrow> bind_res (f x) (\<lambda>_. Inr ()) | None \<Rightarrow> Inr ())"

definition has_serializer :: "config \<Rightarrow> body_serializer option" where
  "has_serializer config = (case cf_bodySerializer config of Some (Some f) \<Rightarrow> Some f | _ \<Rightarrow> None)"

definition call_method :: "config \<Rightarrow> string" where
  "call_method config = (case cf_method config of Some m \<Rightarrow> m | None \<Rightarrow> ''GET'')"

definition beforeRequest :: "config \<Rightarrow> call_options \<Rightarrow> js_throw + resolved" where
  "beforeRequest config options =
     (let opts = spread_config config (co_config options);
          headers = mergeHeaders [cf_headers config, cf_headers (co_config options)] in
      bind_res (case co_security options of
          Some auths \<Rightarrow> setAuthParams auths (cf_auth opts) (headers, co_query options)
        | None \<Rightarrow> Inr (headers, co_query options)) (\<lambda>(headers, q).
      bind_res (optional_hook (cf_requestValidator opts)
          \<lparr>rq_url = co_url options, rq_method = call_method opts, rq_headers = headers, rq_body = RawBody (co_body options)\<rparr>) (\<lambda>_.
      bind_res (case has_serializer opts of
          Some f \<Rightarrow> if co_body options \<noteq> JUndef then f (co_body options) else Inr None
        | None \<Rightarrow> Inr None) (\<lambda>serializedBody.
      let headers = (if co_body options = JUndef \<or> serializedBody = Some (SText []) then h_delete ''Content-Type'' headers else headers) in
      bind_res (buildUrl opts (co_path options) q (co_url options)) (\<lambda>url.
      Inr \<lparr>ro_config = opts, ro_headers = headers, ro_query = q, ro_serialized = serializedBody, ro_url = url\<rparr>)))))"

text \<open>The loops over the interceptors: the last value assigned, and what was thrown.\<close>

fun through_request :: "(request \<Rightarrow> js_throw + request) fns \<Rightarrow> request \<Rightarrow> request \<times> js_throw option" where
  "through_request [] r = (r, None)"
| "through_request (None # fns) r = through_request fns r"
| "through_request (Some f # fns) r = (case f r of Inl e \<Rightarrow> (r, Some e) | Inr r' \<Rightarrow> through_request fns r')"

fun through_response :: "(response \<Rightarrow> request \<Rightarrow> js_throw + response) fns \<Rightarrow> request \<Rightarrow> response \<Rightarrow> response \<times> js_throw option" where
  "through_response [] rq r = (r, None)"
| "through_response (None # fns) rq r = through_response fns rq r"
| "through_response (Some f # fns) rq r = (case f r rq of Inl e \<Rightarrow> (r, Some e) | Inr r' \<Rightarrow> through_response fns rq r')"

fun through_error :: "(js_throw \<Rightarrow> response option \<Rightarrow> request option \<Rightarrow> js_throw + js_throw) fns \<Rightarrow> response option \<Rightarrow> request option \<Rightarrow>
    js_throw \<Rightarrow> js_throw + js_throw" where
  "through_error [] rs rq e = Inr e"
| "through_error (None # fns) rs rq e = through_error fns rs rq e"
| "through_error (Some f # fns) rs rq e = bind_res (f e rs rq) (through_error fns rs rq)"

definition read_mode :: "config \<Rightarrow> response \<Rightarrow> parse_as" where
  "read_mode opts r =
     (case (if cf_parseAs opts = Some PaAuto then getParseAs (h_get (rs_headers r) ''Content-Type'') else cf_parseAs opts) of
        Some p \<Rightarrow> p | None \<Rightarrow> PaJson)"

definition empty_data :: "parse_as \<Rightarrow> response \<Rightarrow> js_throw + payload" where
  "empty_data p r = (case p of
     PaArrayBuffer \<Rightarrow> read_as p r | PaBlob \<Rightarrow> read_as p r | PaText \<Rightarrow> read_as p r
   | PaFormData \<Rightarrow> Inr (Form []) | PaStream \<Rightarrow> Inr (body_stream r) | _ \<Rightarrow> Inr (Value (JObj [])))"

definition json_data :: "config \<Rightarrow> response \<Rightarrow> js_throw + payload" where
  "json_data opts r = bind_res (rs_text r) (\<lambda>text.
     bind_res (if text = [] then Inr (JObj []) else (case json_parse text of Some v \<Rightarrow> Inr v | None \<Rightarrow> Inl syntax_error)) (\<lambda>v.
     bind_res (optional_hook (cf_responseValidator opts) v) (\<lambda>_.
     bind_res (case cf_responseTransformer opts of Some f \<Rightarrow> f v | None \<Rightarrow> Inr v) (\<lambda>v'. Inr (Value v')))))"

text \<open>The data of a response that is ok; the second switch of \<open>request\<close> has no case for \<open>auto\<close>.\<close>

definition response_data :: "config \<Rightarrow> response \<Rightarrow> js_throw + payload" where
  "response_data opts r =
     (let p = read_mode opts r in
      if rs_status r = 204 \<or> h_get (rs_headers r) ''Content-Length'' = Some ''0'' then empty_data p r
      else (case p of
        PaJson \<Rightarrow> json_data opts r
      | PaStream \<Rightarrow> Inr (body_stream r)
      | PaAuto \<Rightarrow> Inr (Value JUndef)
      | _ \<Rightarrow> read_as p r))"

text \<open>\<open>throw jsonError ?? textError\<close>.\<close>

definition response_error :: "response \<Rightarrow> js_throw" where
  "response_error r = (case rs_text r of
     Inl e \<Rightarrow> e
   | Inr text \<Rightarrow> Thrown (case json_parse text of Some v \<Rightarrow> if nullish v then JStr text else v | None \<Rightarrow> JStr text))"

text \<open>What the promise of a request settles to: the data alone, \<open>undefined\<close>, or an object with \<open>data\<close> or with \<open>error\<close>.\<close>

datatype answer =
    DataOnly payload
  | Undefined
  | DataFields payload request response
  | ErrorFields js_throw "request option" "response option"

definition data_answer :: "config \<Rightarrow> payload \<Rightarrow> request \<Rightarrow> response \<Rightarrow> answer" where
  "data_answer opts p rq rs = (if cf_responseStyle opts = Some StyleData then DataOnly p else DataFields p rq rs)"

text \<open>The \<open>try\<close> block, with the variables \<open>request\<close> and \<open>response\<close> as it leaves them.\<close>

type_synonym env = "(string \<Rightarrow> bool) \<times> (request \<Rightarrow> js_throw + response)"

definition call_fetch :: "env \<Rightarrow> config \<Rightarrow> request \<Rightarrow> js_throw + response" where
  "call_fetch env opts = (case cf_fetch opts of Some f \<Rightarrow> f | None \<Rightarrow> snd env)"

definition receive :: "client \<Rightarrow> config \<Rightarrow> request \<Rightarrow> response \<Rightarrow> (request option \<times> response option) \<times> (js_throw + answer)" where
  "receive cl opts rq rs =
     (case through_response (cl_response cl) rq rs of
        (rs, Some e) \<Rightarrow> ((Some rq, Some rs), Inl e)
      | (rs, None) \<Rightarrow> ((Some rq, Some rs),
          if rs_ok rs then bind_res (response_data opts rs) (\<lambda>p. Inr (data_answer opts p rq rs)) else Inl (response_error rs)))"

definition attempt :: "env \<Rightarrow> client \<Rightarrow> call_options \<Rightarrow> (request option \<times> response option) \<times> (js_throw + answer)" where
  "attempt env cl options =
     (case beforeRequest (cl_config cl) options of
        Inl e \<Rightarrow> ((None, None), Inl e)
      | Inr ro \<Rightarrow>
          (case new_Request (fst env) \<lparr>rq_url = ro_url ro, rq_method = call_method (ro_config ro), rq_headers = ro_headers ro,
              rq_body = getValidRequestBody (co_body options) (has_serializer (ro_config ro) \<noteq> None) (Some (ro_serialized ro))\<rparr> of
             Inl e \<Rightarrow> ((None, None), Inl e)
           | Inr rq \<Rightarrow>
               (case through_request (cl_request cl) rq of
                  (rq, Some e) \<Rightarrow> ((Some rq, None), Inl e)
                | (rq, None) \<Rightarrow>
                    (case call_fetch env (ro_config ro) rq of
                       Inl e \<Rightarrow> ((Some rq, None), Inl e)
                     | Inr rs \<Rightarrow> receive cl (ro_config ro) rq rs))))"

text \<open>\<open>finalError || {}\<close>.\<close>

definition or_empty :: "js_throw \<Rightarrow> js_throw" where
  "or_empty e = (case e of Thrown v \<Rightarrow> if truthy v then e else Thrown (JObj []) | _ \<Rightarrow> e)"

definition request :: "env \<Rightarrow> client \<Rightarrow> call_options \<Rightarrow> js_throw + answer" where
  "request env cl options =
     (let throwOnError = spread (cf_throwOnError (cl_config cl)) (cf_throwOnError (co_config options));
          responseStyle = spread (cf_responseStyle (cl_config cl)) (cf_responseStyle (co_config options)) in
      case attempt env cl options of
        (vars, Inr a) \<Rightarrow> Inr a
      | ((rq, rs), Inl e) \<Rightarrow>
          bind_res (through_error (cl_error cl) rs rq e) (\<lambda>e.
            if throwOnError = Some True then Inl (or_empty e)
            else Inr (if responseStyle = Some StyleData then Undefined else ErrorFields (or_empty e) rq rs)))"

definition makeMethodFn :: "string \<Rightarrow> env \<Rightarrow> client \<Rightarrow> call_options \<Rightarrow> js_throw + answer" where
  "makeMethodFn method env cl options = request env cl (options\<lparr>co_config := (co_config options)\<lparr>cf_method := Some method\<rparr>\<rparr>)"

text \<open>The event stream of an endpoint: the resolved request, the options with the hooks of the configuration, and the stream.  The interceptors of
  requests run before each request of the stream and are part of what answers it.\<close>

definition makeSseFn :: "string \<Rightarrow> client \<Rightarrow> call_options \<Rightarrow> sse_options \<Rightarrow> bool \<Rightarrow> js_throw + resolved \<times> sse_options \<times> sse_run" where
  "makeSseFn method cl options sse aborted =
     bind_res (beforeRequest (cl_config cl) options) (\<lambda>ro.
       let hook = (\<lambda>h. case h of Some f \<Rightarrow> f | None \<Rightarrow> Inr);
           ro = ro\<lparr>ro_config := (ro_config ro)\<lparr>cf_method := Some method\<rparr>\<rparr>;
           sse = sse\<lparr>so_valid := hook (cf_responseValidator (ro_config ro)), so_conv := hook (cf_responseTransformer (ro_config ro))\<rparr> in
       Inr (ro, sse, createSseClient sse aborted))"

subsection \<open>Facts about headers\<close>

lemma h_get_set: "h_get (h_set n v hs) m = (if map to_lower m = map to_lower n then Some v else h_get hs m)"
  by (simp add: h_get_def h_set_def update_conv')

lemma h_get_delete: "h_get (h_delete n hs) m = (if map to_lower m = map to_lower n then None else h_get hs m)"
  by (simp add: h_get_def h_delete_def AList.delete_conv')

lemma h_get_append: "map to_lower m \<noteq> map to_lower n \<Longrightarrow> h_get (h_append n v hs) m = h_get hs m"
  by (simp add: h_append_def h_get_set)

lemma lower_names: "map to_lower ''Content-Type'' = ''content-type''" "map to_lower ''Authorization'' = ''authorization''"
    "map to_lower ''content-type'' = ''content-type''" "map to_lower ''X-A'' = ''x-a''"
  by code_simp+

lemma digits_zero: "nat_digits 0 = ''0''"
  by (simp add: nat_digits.simps char_of_eq_iff)

lemmas header_simps = h_get_set h_get_delete h_get_append

text \<open>An entry concerns its own name only.\<close>

lemma fold_append_other: "map to_lower m \<noteq> map to_lower n \<Longrightarrow> h_get (fold (\<lambda>x. h_append n (js_String x)) xs hs) m = h_get hs m"
  by (induction xs arbitrary: hs) (simp_all add: h_get_append)

lemma mergeHeader_other: "map to_lower m \<noteq> map to_lower (fst p) \<Longrightarrow> h_get (mergeHeader p hs) m = h_get hs m"
  by (cases p; cases "snd p") (simp_all add: mergeHeader_def header_simps fold_append_other)

lemma merge_entries_other:
  "map to_lower m \<notin> (\<lambda>p. map to_lower (fst p)) ` set es \<Longrightarrow> h_get (fold mergeHeader es hs) m = h_get hs m"
  by (induction es arbitrary: hs) (simp_all add: mergeHeader_other)

text \<open>What an entry leaves under its own name, of the values that do not append.\<close>

fun entry_value :: "jsval \<Rightarrow> string option \<Rightarrow> string option" where
  "entry_value JNull old = None"
| "entry_value JUndef old = old"
| "entry_value v old = Some (if is_object v then stringify v else js_String v)"

lemma mergeHeader_own:
  "map to_lower m = map to_lower k \<Longrightarrow> (\<And>xs. v \<noteq> JArr xs) \<Longrightarrow> h_get (mergeHeader (k, v) hs) m = entry_value v (h_get hs m)"
  by (cases v) (auto simp: mergeHeader_def header_simps)

lemma merge_entries_own:
  assumes "distinct (map (\<lambda>p. map to_lower (fst p)) es)" "(k, v) \<in> set es" "map to_lower m = map to_lower k" "\<And>xs. v \<noteq> JArr xs"
  shows "h_get (fold mergeHeader es hs) m = entry_value v (h_get hs m)"
proof -
  obtain es1 es2 where es: "es = es1 @ (k, v) # es2" using assms(2) by (meson split_list)
  with assms(1,3) have "map to_lower m \<notin> (\<lambda>p. map to_lower (fst p)) ` set es1" "map to_lower m \<notin> (\<lambda>p. map to_lower (fst p)) ` set es2"
    by auto
  with assms(3,4) es show ?thesis by (simp add: merge_entries_other mergeHeader_own)
qed

lemma mergeHeaders_snoc: "mergeHeaders (hss @ [h]) = fold mergeHeader (headers_entries h) (mergeHeaders hss)"
  by (simp add: mergeHeaders_def)

text \<open>The headers of a call go over those of the client, name by name and without regard to case: a text replaces the
  client's value, \<open>null\<close> removes it, \<open>undefined\<close> and the names the call does not mention leave it.\<close>

theorem call_headers_override:
  assumes "distinct (map (\<lambda>p. map to_lower (fst p)) ps)" and "\<And>xs. JArr xs \<notin> snd ` set ps"
  shows "h_get (mergeHeaders [config, Some (HeadersValue (JObj ps))]) name =
    (case find (\<lambda>p. map to_lower (fst p) = map to_lower name) ps of
       Some (k, v) \<Rightarrow> entry_value v (h_get (mergeHeaders [config]) name) | None \<Rightarrow> h_get (mergeHeaders [config]) name)"
proof -
  have merged: "mergeHeaders [config, Some (HeadersValue (JObj ps))] = fold mergeHeader ps (mergeHeaders [config])"
    using mergeHeaders_snoc [of "[config]"] by (simp add: headers_entries_def object_entries_def)
  show ?thesis
  proof (cases "find (\<lambda>p. map to_lower (fst p) = map to_lower name) ps")
    case None
    then have "map to_lower name \<notin> (\<lambda>p. map to_lower (fst p)) ` set ps" by (auto simp: find_None_iff)
    with None merged show ?thesis by (simp add: merge_entries_other)
  next
    case (Some p)
    then have p: "p \<in> set ps" "map to_lower (fst p) = map to_lower name" by (auto simp: find_Some_iff)
    then have "h_get (fold mergeHeader ps (mergeHeaders [config])) name = entry_value (snd p) (h_get (mergeHeaders [config]) name)"
      using assms by (intro merge_entries_own [of _ "fst p"]) force+
    with Some merged show ?thesis by (simp add: case_prod_unfold)
  qed
qed

theorem call_headers_override_witness:
  "h_get (mergeHeaders [Some defaultHeaders, Some (HeadersValue (JObj [(''content-type'', JNull), (''X-A'', JStr ''1'')]))]) ''Content-Type'' = None"
proof -
  let ?ps = "[(''content-type'', JNull), (''X-A'', JStr ''1'')]"
  have "distinct (map (\<lambda>p. map to_lower (fst p)) ?ps)"
    "find (\<lambda>p. map to_lower (fst p) = map to_lower ''Content-Type'') ?ps = Some (''content-type'', JNull)"
    by code_simp+
  then show ?thesis using call_headers_override [of ?ps "Some defaultHeaders" "''Content-Type''"] by simp
qed

text \<open>Headers given as a list of pairs, which the type of the options allows, are not sent under their names: the pair is taken
  for the value of a header called by its index.\<close>

theorem header_pairs_lost:
  "h_get (mergeHeaders [Some (HeadersValue (JArr [JArr [JStr ''x-a'', JStr v]]))]) ''x-a'' = None \<and>
   h_get (mergeHeaders [Some (HeadersValue (JArr [JArr [JStr ''x-a'', JStr v]]))]) ''0'' = Some (''x-a, '' @ v)"
  by (simp add: mergeHeaders_def headers_entries_def object_entries_def mergeHeader_def h_append_def h_set_def h_get_def to_lower_def
      digits_zero)

subsection \<open>Credentials and content type\<close>

abbreviation http_bearer :: auth where
  "http_bearer \<equiv> \<lparr>au_in = None, au_key = None, au_name = None, au_scheme = Some Bearer, au_type = Http\<rparr>"

abbreviation http_basic :: auth where
  "http_basic \<equiv> \<lparr>au_in = None, au_key = None, au_name = None, au_scheme = Some Basic, au_type = Http\<rparr>"

lemma beforeRequest_parts:
  assumes "beforeRequest config options = Inr ro"
  obtains headers where
    "(case co_security options of
        Some auths \<Rightarrow> setAuthParams auths (cf_auth (spread_config config (co_config options)))
          (mergeHeaders [cf_headers config, cf_headers (co_config options)], co_query options)
      | None \<Rightarrow> Inr (mergeHeaders [cf_headers config, cf_headers (co_config options)], co_query options)) = Inr (headers, ro_query ro)"
    "ro_headers ro = (if co_body options = JUndef \<or> ro_serialized ro = Some (SText []) then h_delete ''Content-Type'' headers else headers)"
    "buildUrl (ro_config ro) (co_path options) (ro_query ro) (co_url options) = Inr (ro_url ro)"
    "ro_config ro = spread_config config (co_config options)"
  using assms by (auto simp: beforeRequest_def Let_def split: prod.splits)

lemma setAuthParams_bearer:
  "setAuthParams [http_bearer] callback s = bind_res (getAuthToken http_bearer callback)
     (\<lambda>token. Inr (case token of None \<Rightarrow> s | Some t \<Rightarrow> (h_set ''Authorization'' t (fst s), snd s)))"
  by (cases "getAuthToken http_bearer callback") (auto simp: checkForExistence_def put_token_def split: option.split prod.split)

lemma content_type_not_authorization: "map to_lower ''Authorization'' \<noteq> map to_lower ''Content-Type''"
  by code_simp

text \<open>The token of the client goes to the endpoints that declare it and to no other: with bearer security the request carries
  the token in \<open>Authorization\<close>, over a header of the caller; without declared security the header is the caller's alone.  A request
  without a body names no content type.\<close>

theorem credentials_where_declared:
  assumes "beforeRequest config options = Inr ro" and "cf_auth (spread_config config (co_config options)) = Some (Token t)" and "t \<noteq> []"
  shows "(co_security options = Some [http_bearer] \<longrightarrow> h_get (ro_headers ro) ''Authorization'' = Some (''Bearer '' @ t)) \<and>
    (co_security options = None \<longrightarrow>
       h_get (ro_headers ro) ''Authorization'' = h_get (mergeHeaders [cf_headers config, cf_headers (co_config options)]) ''Authorization'') \<and>
    (co_body options = JUndef \<longrightarrow> h_get (ro_headers ro) ''Content-Type'' = None)"
proof -
  obtain headers where hs: "(case co_security options of
        Some auths \<Rightarrow> setAuthParams auths (cf_auth (spread_config config (co_config options)))
          (mergeHeaders [cf_headers config, cf_headers (co_config options)], co_query options)
      | None \<Rightarrow> Inr (mergeHeaders [cf_headers config, cf_headers (co_config options)], co_query options)) = Inr (headers, ro_query ro)"
    and ro: "ro_headers ro = (if co_body options = JUndef \<or> ro_serialized ro = Some (SText []) then h_delete ''Content-Type'' headers else headers)"
    using assms(1) by (rule beforeRequest_parts)
  have "h_get (ro_headers ro) ''Authorization'' = h_get headers ''Authorization''"
    using content_type_not_authorization by (simp only: ro h_get_delete if_False split: if_split) blast
  moreover have "co_body options = JUndef \<longrightarrow> h_get (ro_headers ro) ''Content-Type'' = None"
    by (simp add: ro h_get_delete)
  moreover have "co_security options = Some [http_bearer] \<longrightarrow> h_get headers ''Authorization'' = Some (''Bearer '' @ t)"
    using hs assms(2,3) by (auto simp only: setAuthParams_bearer option.case fst_conv snd_conv) (auto simp: getAuthToken_def h_get_set)
  moreover have "co_security options = None \<longrightarrow> headers = mergeHeaders [cf_headers config, cf_headers (co_config options)]"
    using hs by auto
  ultimately show ?thesis by simp
qed

text \<open>A call of an endpoint with bearer security by a client that has a token.\<close>

definition sample_client :: client where
  "sample_client = setConfig (no_config\<lparr>cf_baseUrl := Some ''https://id.example/'', cf_auth := Some (Token ''tk'')\<rparr>) default_client"

definition sample_call :: call_options where
  "sample_call = \<lparr>co_config = no_config, co_body = JUndef, co_path = JUndef, co_query = None, co_security = Some [http_bearer], co_url = ''/api/me''\<rparr>"

lemmas sample_simps = sample_client_def sample_call_def default_client_def setConfig_def createClient_def createConfig_def mergeConfigs_def
  spread_config_def spread_def no_config_def

theorem credentials_where_declared_witness:
  "\<exists>ro. beforeRequest (cl_config sample_client) sample_call = Inr ro \<and> h_get (ro_headers ro) ''Authorization'' = Some ''Bearer tk'' \<and>
     h_get (ro_headers ro) ''Content-Type'' = None"
proof -
  have "\<not> isl (beforeRequest (cl_config sample_client) sample_call)" by code_simp
  then obtain ro where "beforeRequest (cl_config sample_client) sample_call = Inr ro" by (metis sum.collapse(2))
  moreover have "cf_auth (spread_config (cl_config sample_client) (co_config sample_call)) = Some (Token ''tk'')"
    by (simp add: sample_simps)
  moreover have "co_security sample_call = Some [http_bearer]" "co_body sample_call = JUndef" by (simp_all add: sample_call_def)
  ultimately show ?thesis using credentials_where_declared [of "cl_config sample_client" sample_call ro "''tk''"] by auto
qed

subsection \<open>A request settles\<close>

definition truthy_throw :: "js_throw \<Rightarrow> bool" where
  "truthy_throw e = (case e of Thrown v \<Rightarrow> truthy v | _ \<Rightarrow> True)"

lemma or_empty_truthy: "truthy_throw (or_empty e)"
  by (simp add: or_empty_def truthy_throw_def split: js_throw.split)

lemma through_error_thrown: "through_error fns rs rq e = Inl e' \<Longrightarrow> \<exists>f e. Some f \<in> set fns \<and> f e rs rq = Inl e'"
proof (induction fns rs rq e rule: through_error.induct)
  case (3 f fns rs rq e)
  then show ?case by (cases "f e rs rq") fastforce+
qed auto

lemma attempt_data:
  assumes "attempt env cl options = (vars, Inr a)"
  shows "\<exists>p rq rs. rs_ok rs \<and> vars = (Some rq, Some rs) \<and>
     a = data_answer (spread_config (cl_config cl) (co_config options)) p rq rs"
  using assms
  by (auto simp: attempt_def receive_def beforeRequest_def Let_def split: sum.splits prod.splits option.splits if_splits)

text \<open>The two settings of a call that decide about the form of its answer.\<close>

definition throws_errors :: "client \<Rightarrow> call_options \<Rightarrow> bool" where
  "throws_errors cl options \<longleftrightarrow> spread (cf_throwOnError (cl_config cl)) (cf_throwOnError (co_config options)) = Some True"

definition data_style :: "client \<Rightarrow> call_options \<Rightarrow> bool" where
  "data_style cl options \<longleftrightarrow> spread (cf_responseStyle (cl_config cl)) (cf_responseStyle (co_config options)) = Some StyleData"

text \<open>C11. How a request settles, under every setting and with any interceptors.  It answers with data only for a response that is ok,
  in the form of its style; a failure is answered with a truthy error, so that testing \<open>error\<close> tells the two apart, or under the style \<open>data\<close>
  with \<open>undefined\<close>; and it rejects only when it was told to throw, then with something truthy, or with what an interceptor of
  errors has thrown itself.\<close>

theorem request_answers:
  "case request env cl options of
     Inr (DataFields p rq rs) \<Rightarrow> \<not> data_style cl options \<and> rs_ok rs \<and> attempt env cl options = ((Some rq, Some rs), Inr (DataFields p rq rs))
   | Inr (DataOnly p) \<Rightarrow> data_style cl options \<and> (\<exists>rq rs. rs_ok rs \<and> attempt env cl options = ((Some rq, Some rs), Inr (DataOnly p)))
   | Inr (ErrorFields e rq rs) \<Rightarrow> \<not> data_style cl options \<and> \<not> throws_errors cl options \<and> truthy_throw e \<and>
       fst (attempt env cl options) = (rq, rs) \<and> isl (snd (attempt env cl options))
   | Inr Undefined \<Rightarrow> data_style cl options \<and> \<not> throws_errors cl options \<and> isl (snd (attempt env cl options))
   | Inl e \<Rightarrow> isl (snd (attempt env cl options)) \<and>
       (throws_errors cl options \<and> truthy_throw e \<or>
        (\<exists>f e'. Some f \<in> set (cl_error cl) \<and> f e' (snd (fst (attempt env cl options))) (fst (fst (attempt env cl options))) = Inl e))"
proof (cases "attempt env cl options")
  case (Pair vars r)
  obtain rq rs where vars: "vars = (rq, rs)" by (cases vars)
  show ?thesis
  proof (cases r)
    case (Inl e)
    show ?thesis
    proof (cases "through_error (cl_error cl) rs rq e")
      case thrown: (Inl e')
      then have "\<exists>f e0. Some f \<in> set (cl_error cl) \<and> f e0 rs rq = Inl e'" by (rule through_error_thrown)
      with Inl thrown show ?thesis by (simp add: request_def Pair vars)
    qed (use Inl or_empty_truthy in \<open>simp add: request_def Pair vars throws_errors_def data_style_def\<close>)
  next
    case (Inr a)
    then obtain p rq' rs' where "rs_ok rs'" "vars = (Some rq', Some rs')"
      "a = data_answer (spread_config (cl_config cl) (co_config options)) p rq' rs'"
      using Pair attempt_data by blast
    with Inr show ?thesis by (simp add: request_def Pair data_answer_def data_style_def spread_config_def)
  qed
qed

text \<open>The methods \<open>connect\<close> and \<open>trace\<close> of the client never send anything: the platform refuses to build such a request, whatever
  the configuration.\<close>

theorem connect_and_trace_never_sent:
  assumes "method \<in> {''CONNECT'', ''TRACE''}"
  shows "\<exists>e. attempt env cl (options\<lparr>co_config := (co_config options)\<lparr>cf_method := Some method\<rparr>\<rparr>) = ((None, None), Inl e)"
proof -
  let ?o = "options\<lparr>co_config := (co_config options)\<lparr>cf_method := Some method\<rparr>\<rparr>"
  show ?thesis
  proof (cases "beforeRequest (cl_config cl) ?o")
    case (Inr ro)
    then have "ro_config ro = spread_config (cl_config cl) (co_config ?o)" by (rule beforeRequest_parts)
    then have "call_method (ro_config ro) = method" by (simp add: call_method_def spread_config_def spread_def)
    with assms(1) have "call_method (ro_config ro) \<in> {''CONNECT'', ''TRACE''}" by simp
    then show ?thesis using Inr by (auto simp: attempt_def new_Request_def)
  qed (simp add: attempt_def)
qed

theorem connect_and_trace_never_sent_witness:
  "\<exists>e. attempt (\<lambda>u. True, \<lambda>rq. Inl TypeErr) sample_client (sample_call\<lparr>co_config := (co_config sample_call)\<lparr>cf_method := Some ''TRACE''\<rparr>\<rparr>)
     = ((None, None), Inl e)"
  by (rule connect_and_trace_never_sent) simp

subsection \<open>The registry of interceptors\<close>

text \<open>What the users of a registry rely on: a registration gets a name of its own, and an operation on one name leaves the others.\<close>

locale registry =
  fixes find_fn :: "'r \<Rightarrow> 'i \<Rightarrow> 'f option"
    and add :: "'f \<Rightarrow> 'r \<Rightarrow> 'r \<times> 'i"
    and drop_fn :: "'i \<Rightarrow> 'r \<Rightarrow> 'r"
    and replace :: "'i \<Rightarrow> 'f \<Rightarrow> 'r \<Rightarrow> 'r"
  assumes add_fresh: "add f r = (r', i) \<Longrightarrow> find_fn r i = None"
    and find_add: "add f r = (r', i) \<Longrightarrow> find_fn r' j = (if j = i then Some f else find_fn r j)"
    and find_drop: "find_fn (drop_fn i r) j = (if j = i then None else find_fn r j)"
    and find_replace: "find_fn (replace i f r) j = (if j = i \<and> find_fn r i \<noteq> None then Some f else find_fn r j)"
begin

lemma drop_after_add: "add f r = (r', i) \<Longrightarrow> find_fn (drop_fn i r') j = find_fn r j"
  using add_fresh by (auto simp: find_drop find_add)

lemma add_keeps: "add f r = (r', i) \<Longrightarrow> find_fn r j = Some g \<Longrightarrow> find_fn r' j = Some g"
  using add_fresh by (fastforce simp: find_add)

lemma replaced_dropped: "find_fn (replace i f (drop_fn i r)) j = find_fn (drop_fn i r) j"
  by (simp add: find_replace find_drop)

end

lemma fn_at_index: "fn_at fns (getInterceptorIndex (ById i) fns) = fn_at fns i"
  by (auto simp: getInterceptorIndex_def fn_at_def)

lemma fn_at_update: "fn_at fns i \<noteq> None \<Longrightarrow> fn_at (fns[nat i := x]) j = (if j = i then x else fn_at fns j)"
  by (auto simp: fn_at_def nth_list_update split: if_splits)

lemma index_own: "fn_at fns i \<noteq> None \<Longrightarrow> getInterceptorIndex (ById i) fns = i"
  by (simp add: getInterceptorIndex_def)

interpretation interceptors: registry fn_at ic_use "\<lambda>i. ic_eject (ById i)" "\<lambda>i f r. fst (ic_update (ById i) f r)"
proof
  fix f :: 'f and r r' :: "'f fns" and i j
  assume "ic_use f r = (r', i)"
  then show "fn_at r i = None" "fn_at r' j = (if j = i then Some f else fn_at r j)"
    by (auto simp: ic_use_def fn_at_def nth_append split: if_splits)
next
  fix r :: "'f fns" and i j
  show "fn_at (ic_eject (ById i) r) j = (if j = i then None else fn_at r j)"
    by (cases "fn_at r i") (auto simp: ic_eject_def Let_def fn_at_index index_own fn_at_update)
  fix f :: 'f
  show "fn_at (fst (ic_update (ById i) f r)) j = (if j = i \<and> fn_at r i \<noteq> None then Some f else fn_at r j)"
    by (cases "fn_at r i") (auto simp: ic_update_def Let_def fn_at_index index_own fn_at_update)
qed

text \<open>The operations by position, and what they leave.\<close>

datatype 'f ic_op = Use 'f | Eject int | Replace int 'f

fun ic_step :: "'f ic_op \<Rightarrow> 'f fns \<Rightarrow> 'f fns" where
  "ic_step (Use f) r = fst (ic_use f r)"
| "ic_step (Eject i) r = ic_eject (ById i) r"
| "ic_step (Replace i f) r = fst (ic_update (ById i) f r)"

fun names :: "'f ic_op \<Rightarrow> int option" where
  "names (Use f) = None"
| "names (Eject i) = Some i"
| "names (Replace i f) = Some i"

lemma ic_step_keeps: "fn_at r i = Some g \<Longrightarrow> names op \<noteq> Some i \<Longrightarrow> fn_at (ic_step op r) i = Some g"
proof (cases op)
  case (Use f)
  moreover assume "fn_at r i = Some g"
  ultimately show ?thesis using interceptors.add_keeps [of f r "fst (ic_use f r)" "snd (ic_use f r)" i g] by simp
qed (auto simp: interceptors.find_drop interceptors.find_replace)

text \<open>The number \<open>use\<close> returns stays the interceptor's: whatever is registered, ejected or replaced under other numbers
  afterwards, the number finds the interceptor that was registered, and ejecting it then removes it and nothing else.\<close>

theorem interceptor_numbers_stable:
  assumes "ic_use f r = (r', i)" and "\<forall>op \<in> set ops. names op \<noteq> Some i"
  shows "ic_exists (ById i) (fold ic_step ops r') \<and> fn_at (fold ic_step ops r') i = Some f \<and>
    (\<forall>j. fn_at (ic_eject (ById i) (fold ic_step ops r')) j = (if j = i then None else fn_at (fold ic_step ops r') j))"
proof -
  have "fn_at r' i = Some f" using interceptors.find_add [OF assms(1)] by simp
  then have "fn_at (fold ic_step ops r') i = Some f"
    using assms(2) by (induction ops arbitrary: r') (auto simp: ic_step_keeps)
  then show ?thesis by (simp add: ic_exists_def fn_at_index interceptors.find_drop)
qed

theorem interceptor_numbers_stable_witness:
  "ic_exists (ById 1) (fold ic_step [Eject 0, Use (7::nat)] [Some 5, Some 6]) \<and> fn_at (fold ic_step [Eject 0, Use (7::nat)] [Some 5, Some 6]) 1 = Some 6"
  using interceptor_numbers_stable [of 6 "[Some 5]" "[Some 5, Some 6]" 1 "[Eject 0, Use (7::nat)]"] by (simp add: ic_use_def)

end
