(* ===== verification/SdkTable.thy ===== *)
theory SdkTable
  imports SdkReplies SdkClient
begin

section \<open>The endpoints of the generated client\<close>

text \<open>
  The functions of \<open>sdk.gen.ts\<close>, one record each: the method, the template of the address, the declared security, the content type of
  the body, whether the body is serialized as a form, and the types of the options and of the replies.  What a function does with its
  options is \<open>endpoint_options\<close> in \<open>SdkEndpoints\<close>.
\<close>

record endpoint =
  ep_method :: string
  ep_url :: string
  ep_security :: "auth list option"
  ep_contentType :: "string option"
  ep_form :: bool
  ep_data :: ts
  ep_responses :: ts
  ep_errors :: ts

definition getWellKnownJwksJson :: endpoint where
  "getWellKnownJwksJson = \<lparr>ep_method = ''GET'', ep_url = ''/.well-known/jwks.json'',
     ep_security = None, ep_contentType = None, ep_form = False,
     ep_data = GetWellKnownJwksJsonData, ep_responses = GetWellKnownJwksJsonResponses, ep_errors = TUnknown\<rparr>"

definition getWellKnownOauthAuthorizationServer :: endpoint where
  "getWellKnownOauthAuthorizationServer = \<lparr>ep_method = ''GET'', ep_url = ''/.well-known/oauth-authorization-server'',
     ep_security = None, ep_contentType = None, ep_form = False,
     ep_data = GetWellKnownOauthAuthorizationServerData, ep_responses = GetWellKnownOauthAuthorizationServerResponses, ep_errors = TUnknown\<rparr>"

definition getWellKnownOpenidConfiguration :: endpoint where
  "getWellKnownOpenidConfiguration = \<lparr>ep_method = ''GET'', ep_url = ''/.well-known/openid-configuration'',
     ep_security = None, ep_contentType = None, ep_form = False,
     ep_data = GetWellKnownOpenidConfigurationData, ep_responses = GetWellKnownOpenidConfigurationResponses, ep_errors = TUnknown\<rparr>"

definition getApiAdminClaimMappings :: endpoint where
  "getApiAdminClaimMappings = \<lparr>ep_method = ''GET'', ep_url = ''/api/admin/claim-mappings'',
     ep_security = Some [http_bearer], ep_contentType = None, ep_form = False,
     ep_data = GetApiAdminClaimMappingsData, ep_responses = GetApiAdminClaimMappingsResponses, ep_errors = TUnknown\<rparr>"

definition postApiAdminClaimMappings :: endpoint where
  "postApiAdminClaimMappings = \<lparr>ep_method = ''POST'', ep_url = ''/api/admin/claim-mappings'',
     ep_security = Some [http_bearer], ep_contentType = Some ''application/json'', ep_form = False,
     ep_data = PostApiAdminClaimMappingsData, ep_responses = PostApiAdminClaimMappingsResponses, ep_errors = PostApiAdminClaimMappingsErrors\<rparr>"

definition deleteApiAdminClaimMappingsMappingId :: endpoint where
  "deleteApiAdminClaimMappingsMappingId = \<lparr>ep_method = ''DELETE'', ep_url = ''/api/admin/claim-mappings/{mappingId}'',
     ep_security = Some [http_bearer], ep_contentType = None, ep_form = False,
     ep_data = DeleteApiAdminClaimMappingsMappingIdData, ep_responses = DeleteApiAdminClaimMappingsMappingIdResponses, ep_errors = DeleteApiAdminClaimMappingsMappingIdErrors\<rparr>"

definition putApiAdminClaimMappingsMappingId :: endpoint where
  "putApiAdminClaimMappingsMappingId = \<lparr>ep_method = ''PUT'', ep_url = ''/api/admin/claim-mappings/{mappingId}'',
     ep_security = Some [http_bearer], ep_contentType = Some ''application/json'', ep_form = False,
     ep_data = PutApiAdminClaimMappingsMappingIdData, ep_responses = PutApiAdminClaimMappingsMappingIdResponses, ep_errors = PutApiAdminClaimMappingsMappingIdErrors\<rparr>"

definition getApiAdminClients :: endpoint where
  "getApiAdminClients = \<lparr>ep_method = ''GET'', ep_url = ''/api/admin/clients'',
     ep_security = Some [http_bearer], ep_contentType = None, ep_form = False,
     ep_data = GetApiAdminClientsData, ep_responses = GetApiAdminClientsResponses, ep_errors = GetApiAdminClientsErrors\<rparr>"

definition postApiAdminClients :: endpoint where
  "postApiAdminClients = \<lparr>ep_method = ''POST'', ep_url = ''/api/admin/clients'',
     ep_security = Some [http_bearer], ep_contentType = Some ''application/json'', ep_form = False,
     ep_data = PostApiAdminClientsData, ep_responses = PostApiAdminClientsResponses, ep_errors = PostApiAdminClientsErrors\<rparr>"

definition deleteApiAdminClientsClientId :: endpoint where
  "deleteApiAdminClientsClientId = \<lparr>ep_method = ''DELETE'', ep_url = ''/api/admin/clients/{clientId}'',
     ep_security = Some [http_bearer], ep_contentType = None, ep_form = False,
     ep_data = DeleteApiAdminClientsClientIdData, ep_responses = DeleteApiAdminClientsClientIdResponses, ep_errors = DeleteApiAdminClientsClientIdErrors\<rparr>"

definition getApiAdminClientsClientId :: endpoint where
  "getApiAdminClientsClientId = \<lparr>ep_method = ''GET'', ep_url = ''/api/admin/clients/{clientId}'',
     ep_security = Some [http_bearer], ep_contentType = None, ep_form = False,
     ep_data = GetApiAdminClientsClientIdData, ep_responses = GetApiAdminClientsClientIdResponses, ep_errors = GetApiAdminClientsClientIdErrors\<rparr>"

definition putApiAdminClientsClientId :: endpoint where
  "putApiAdminClientsClientId = \<lparr>ep_method = ''PUT'', ep_url = ''/api/admin/clients/{clientId}'',
     ep_security = Some [http_bearer], ep_contentType = Some ''application/json'', ep_form = False,
     ep_data = PutApiAdminClientsClientIdData, ep_responses = PutApiAdminClientsClientIdResponses, ep_errors = PutApiAdminClientsClientIdErrors\<rparr>"

definition postApiAdminClientsClientIdResetSecret :: endpoint where
  "postApiAdminClientsClientIdResetSecret = \<lparr>ep_method = ''POST'', ep_url = ''/api/admin/clients/{clientId}/reset-secret'',
     ep_security = Some [http_bearer], ep_contentType = Some ''application/json'', ep_form = False,
     ep_data = PostApiAdminClientsClientIdResetSecretData, ep_responses = PostApiAdminClientsClientIdResetSecretResponses, ep_errors = PostApiAdminClientsClientIdResetSecretErrors\<rparr>"

definition postApiAdminClientsClientIdResume :: endpoint where
  "postApiAdminClientsClientIdResume = \<lparr>ep_method = ''POST'', ep_url = ''/api/admin/clients/{clientId}/resume'',
     ep_security = Some [http_bearer], ep_contentType = Some ''application/json'', ep_form = False,
     ep_data = PostApiAdminClientsClientIdResumeData, ep_responses = PostApiAdminClientsClientIdResumeResponses, ep_errors = PostApiAdminClientsClientIdResumeErrors\<rparr>"

definition getApiAdminClientsClientIdScopes :: endpoint where
  "getApiAdminClientsClientIdScopes = \<lparr>ep_method = ''GET'', ep_url = ''/api/admin/clients/{clientId}/scopes'',
     ep_security = Some [http_bearer], ep_contentType = None, ep_form = False,
     ep_data = GetApiAdminClientsClientIdScopesData, ep_responses = GetApiAdminClientsClientIdScopesResponses, ep_errors = GetApiAdminClientsClientIdScopesErrors\<rparr>"

definition putApiAdminClientsClientIdScopes :: endpoint where
  "putApiAdminClientsClientIdScopes = \<lparr>ep_method = ''PUT'', ep_url = ''/api/admin/clients/{clientId}/scopes'',
     ep_security = Some [http_bearer], ep_contentType = Some ''application/json'', ep_form = False,
     ep_data = PutApiAdminClientsClientIdScopesData, ep_responses = PutApiAdminClientsClientIdScopesResponses, ep_errors = PutApiAdminClientsClientIdScopesErrors\<rparr>"

definition postApiAdminClientsClientIdSuspend :: endpoint where
  "postApiAdminClientsClientIdSuspend = \<lparr>ep_method = ''POST'', ep_url = ''/api/admin/clients/{clientId}/suspend'',
     ep_security = Some [http_bearer], ep_contentType = Some ''application/json'', ep_form = False,
     ep_data = PostApiAdminClientsClientIdSuspendData, ep_responses = PostApiAdminClientsClientIdSuspendResponses, ep_errors = PostApiAdminClientsClientIdSuspendErrors\<rparr>"

definition getApiAdminDashboard :: endpoint where
  "getApiAdminDashboard = \<lparr>ep_method = ''GET'', ep_url = ''/api/admin/dashboard'',
     ep_security = Some [http_bearer], ep_contentType = None, ep_form = False,
     ep_data = GetApiAdminDashboardData, ep_responses = GetApiAdminDashboardResponses, ep_errors = GetApiAdminDashboardErrors\<rparr>"

definition getApiAdminDashboardStats :: endpoint where
  "getApiAdminDashboardStats = \<lparr>ep_method = ''GET'', ep_url = ''/api/admin/dashboard/stats'',
     ep_security = Some [http_bearer], ep_contentType = None, ep_form = False,
     ep_data = GetApiAdminDashboardStatsData, ep_responses = GetApiAdminDashboardStatsResponses, ep_errors = TUnknown\<rparr>"

definition getApiAdminEmailTemplates :: endpoint where
  "getApiAdminEmailTemplates = \<lparr>ep_method = ''GET'', ep_url = ''/api/admin/email-templates'',
     ep_security = Some [http_bearer], ep_contentType = None, ep_form = False,
     ep_data = GetApiAdminEmailTemplatesData, ep_responses = GetApiAdminEmailTemplatesResponses, ep_errors = GetApiAdminEmailTemplatesErrors\<rparr>"

definition getApiAdminEmailTemplatesKeyLocale :: endpoint where
  "getApiAdminEmailTemplatesKeyLocale = \<lparr>ep_method = ''GET'', ep_url = ''/api/admin/email-templates/{key}/{locale}'',
     ep_security = Some [http_bearer], ep_contentType = None, ep_form = False,
     ep_data = GetApiAdminEmailTemplatesKeyLocaleData, ep_responses = GetApiAdminEmailTemplatesKeyLocaleResponses, ep_errors = GetApiAdminEmailTemplatesKeyLocaleErrors\<rparr>"

definition putApiAdminEmailTemplatesKeyLocale :: endpoint where
  "putApiAdminEmailTemplatesKeyLocale = \<lparr>ep_method = ''PUT'', ep_url = ''/api/admin/email-templates/{key}/{locale}'',
     ep_security = Some [http_bearer], ep_contentType = Some ''application/json'', ep_form = False,
     ep_data = PutApiAdminEmailTemplatesKeyLocaleData, ep_responses = PutApiAdminEmailTemplatesKeyLocaleResponses, ep_errors = PutApiAdminEmailTemplatesKeyLocaleErrors\<rparr>"

definition postApiAdminEmailTemplatesKeyLocaleTestSend :: endpoint where
  "postApiAdminEmailTemplatesKeyLocaleTestSend = \<lparr>ep_method = ''POST'', ep_url = ''/api/admin/email-templates/{key}/{locale}/test-send'',
     ep_security = Some [http_bearer], ep_contentType = Some ''application/json'', ep_form = False,
     ep_data = PostApiAdminEmailTemplatesKeyLocaleTestSendData, ep_responses = PostApiAdminEmailTemplatesKeyLocaleTestSendResponses, ep_errors = PostApiAdminEmailTemplatesKeyLocaleTestSendErrors\<rparr>"

definition getApiAdminLogs :: endpoint where
  "getApiAdminLogs = \<lparr>ep_method = ''GET'', ep_url = ''/api/admin/logs'',
     ep_security = Some [http_bearer], ep_contentType = None, ep_form = False,
     ep_data = GetApiAdminLogsData, ep_responses = GetApiAdminLogsResponses, ep_errors = GetApiAdminLogsErrors\<rparr>"

definition getApiAdminLogsExport :: endpoint where
  "getApiAdminLogsExport = \<lparr>ep_method = ''GET'', ep_url = ''/api/admin/logs/export'',
     ep_security = Some [http_bearer], ep_contentType = None, ep_form = False,
     ep_data = GetApiAdminLogsExportData, ep_responses = GetApiAdminLogsExportResponses, ep_errors = GetApiAdminLogsExportErrors\<rparr>"

definition getApiAdminOidcKeys :: endpoint where
  "getApiAdminOidcKeys = \<lparr>ep_method = ''GET'', ep_url = ''/api/admin/oidc/keys'',
     ep_security = Some [http_bearer], ep_contentType = None, ep_form = False,
     ep_data = GetApiAdminOidcKeysData, ep_responses = GetApiAdminOidcKeysResponses, ep_errors = GetApiAdminOidcKeysErrors\<rparr>"

definition getApiAdminOrganizations :: endpoint where
  "getApiAdminOrganizations = \<lparr>ep_method = ''GET'', ep_url = ''/api/admin/organizations'',
     ep_security = Some [http_bearer], ep_contentType = None, ep_form = False,
     ep_data = GetApiAdminOrganizationsData, ep_responses = GetApiAdminOrganizationsResponses, ep_errors = GetApiAdminOrganizationsErrors\<rparr>"

definition postApiAdminOrganizations :: endpoint where
  "postApiAdminOrganizations = \<lparr>ep_method = ''POST'', ep_url = ''/api/admin/organizations'',
     ep_security = Some [http_bearer], ep_contentType = Some ''application/json'', ep_form = False,
     ep_data = PostApiAdminOrganizationsData, ep_responses = PostApiAdminOrganizationsResponses, ep_errors = PostApiAdminOrganizationsErrors\<rparr>"

definition deleteApiAdminOrganizationsSlug :: endpoint where
  "deleteApiAdminOrganizationsSlug = \<lparr>ep_method = ''DELETE'', ep_url = ''/api/admin/organizations/{slug}'',
     ep_security = Some [http_bearer], ep_contentType = None, ep_form = False,
     ep_data = DeleteApiAdminOrganizationsSlugData, ep_responses = DeleteApiAdminOrganizationsSlugResponses, ep_errors = DeleteApiAdminOrganizationsSlugErrors\<rparr>"

definition getApiAdminOrganizationsSlug :: endpoint where
  "getApiAdminOrganizationsSlug = \<lparr>ep_method = ''GET'', ep_url = ''/api/admin/organizations/{slug}'',
     ep_security = Some [http_bearer], ep_contentType = None, ep_form = False,
     ep_data = GetApiAdminOrganizationsSlugData, ep_responses = GetApiAdminOrganizationsSlugResponses, ep_errors = GetApiAdminOrganizationsSlugErrors\<rparr>"

definition patchApiAdminOrganizationsSlug :: endpoint where
  "patchApiAdminOrganizationsSlug = \<lparr>ep_method = ''PATCH'', ep_url = ''/api/admin/organizations/{slug}'',
     ep_security = Some [http_bearer], ep_contentType = Some ''application/json'', ep_form = False,
     ep_data = PatchApiAdminOrganizationsSlugData, ep_responses = PatchApiAdminOrganizationsSlugResponses, ep_errors = PatchApiAdminOrganizationsSlugErrors\<rparr>"

definition getApiAdminOrganizationsSlugMembers :: endpoint where
  "getApiAdminOrganizationsSlugMembers = \<lparr>ep_method = ''GET'', ep_url = ''/api/admin/organizations/{slug}/members'',
     ep_security = Some [http_bearer], ep_contentType = None, ep_form = False,
     ep_data = GetApiAdminOrganizationsSlugMembersData, ep_responses = GetApiAdminOrganizationsSlugMembersResponses, ep_errors = GetApiAdminOrganizationsSlugMembersErrors\<rparr>"

definition deleteApiAdminOrganizationsSlugMembersUserId :: endpoint where
  "deleteApiAdminOrganizationsSlugMembersUserId = \<lparr>ep_method = ''DELETE'', ep_url = ''/api/admin/organizations/{slug}/members/{userId}'',
     ep_security = Some [http_bearer], ep_contentType = None, ep_form = False,
     ep_data = DeleteApiAdminOrganizationsSlugMembersUserIdData, ep_responses = DeleteApiAdminOrganizationsSlugMembersUserIdResponses, ep_errors = DeleteApiAdminOrganizationsSlugMembersUserIdErrors\<rparr>"

definition postApiAdminOrganizationsSlugTransferOwnership :: endpoint where
  "postApiAdminOrganizationsSlugTransferOwnership = \<lparr>ep_method = ''POST'', ep_url = ''/api/admin/organizations/{slug}/transfer-ownership'',
     ep_security = Some [http_bearer], ep_contentType = Some ''application/json'', ep_form = False,
     ep_data = PostApiAdminOrganizationsSlugTransferOwnershipData, ep_responses = PostApiAdminOrganizationsSlugTransferOwnershipResponses, ep_errors = PostApiAdminOrganizationsSlugTransferOwnershipErrors\<rparr>"

definition getApiAdminRoles :: endpoint where
  "getApiAdminRoles = \<lparr>ep_method = ''GET'', ep_url = ''/api/admin/roles'',
     ep_security = Some [http_bearer], ep_contentType = None, ep_form = False,
     ep_data = GetApiAdminRolesData, ep_responses = GetApiAdminRolesResponses, ep_errors = TUnknown\<rparr>"

definition postApiAdminRoles :: endpoint where
  "postApiAdminRoles = \<lparr>ep_method = ''POST'', ep_url = ''/api/admin/roles'',
     ep_security = Some [http_bearer], ep_contentType = Some ''application/json'', ep_form = False,
     ep_data = PostApiAdminRolesData, ep_responses = PostApiAdminRolesResponses, ep_errors = PostApiAdminRolesErrors\<rparr>"

definition getApiAdminRolesRoleIdPermissions :: endpoint where
  "getApiAdminRolesRoleIdPermissions = \<lparr>ep_method = ''GET'', ep_url = ''/api/admin/roles/{roleId}/permissions'',
     ep_security = Some [http_bearer], ep_contentType = None, ep_form = False,
     ep_data = GetApiAdminRolesRoleIdPermissionsData, ep_responses = GetApiAdminRolesRoleIdPermissionsResponses, ep_errors = GetApiAdminRolesRoleIdPermissionsErrors\<rparr>"

definition putApiAdminRolesRoleIdPermissions :: endpoint where
  "putApiAdminRolesRoleIdPermissions = \<lparr>ep_method = ''PUT'', ep_url = ''/api/admin/roles/{roleId}/permissions'',
     ep_security = Some [http_bearer], ep_contentType = Some ''application/json'', ep_form = False,
     ep_data = PutApiAdminRolesRoleIdPermissionsData, ep_responses = PutApiAdminRolesRoleIdPermissionsResponses, ep_errors = PutApiAdminRolesRoleIdPermissionsErrors\<rparr>"

definition deleteApiAdminRolesRoleId :: endpoint where
  "deleteApiAdminRolesRoleId = \<lparr>ep_method = ''DELETE'', ep_url = ''/api/admin/roles/{roleId}'',
     ep_security = Some [http_bearer], ep_contentType = None, ep_form = False,
     ep_data = DeleteApiAdminRolesRoleIdData, ep_responses = DeleteApiAdminRolesRoleIdResponses, ep_errors = DeleteApiAdminRolesRoleIdErrors\<rparr>"

definition putApiAdminRolesRoleId :: endpoint where
  "putApiAdminRolesRoleId = \<lparr>ep_method = ''PUT'', ep_url = ''/api/admin/roles/{roleId}'',
     ep_security = Some [http_bearer], ep_contentType = Some ''application/json'', ep_form = False,
     ep_data = PutApiAdminRolesRoleIdData, ep_responses = PutApiAdminRolesRoleIdResponses, ep_errors = PutApiAdminRolesRoleIdErrors\<rparr>"

definition getApiAdminScopes :: endpoint where
  "getApiAdminScopes = \<lparr>ep_method = ''GET'', ep_url = ''/api/admin/scopes'',
     ep_security = Some [http_bearer], ep_contentType = None, ep_form = False,
     ep_data = GetApiAdminScopesData, ep_responses = GetApiAdminScopesResponses, ep_errors = TUnknown\<rparr>"

definition postApiAdminScopes :: endpoint where
  "postApiAdminScopes = \<lparr>ep_method = ''POST'', ep_url = ''/api/admin/scopes'',
     ep_security = Some [http_bearer], ep_contentType = Some ''application/json'', ep_form = False,
     ep_data = PostApiAdminScopesData, ep_responses = PostApiAdminScopesResponses, ep_errors = PostApiAdminScopesErrors\<rparr>"

definition deleteApiAdminScopesScopeId :: endpoint where
  "deleteApiAdminScopesScopeId = \<lparr>ep_method = ''DELETE'', ep_url = ''/api/admin/scopes/{scopeId}'',
     ep_security = Some [http_bearer], ep_contentType = None, ep_form = False,
     ep_data = DeleteApiAdminScopesScopeIdData, ep_responses = DeleteApiAdminScopesScopeIdResponses, ep_errors = DeleteApiAdminScopesScopeIdErrors\<rparr>"

definition putApiAdminScopesScopeId :: endpoint where
  "putApiAdminScopesScopeId = \<lparr>ep_method = ''PUT'', ep_url = ''/api/admin/scopes/{scopeId}'',
     ep_security = Some [http_bearer], ep_contentType = Some ''application/json'', ep_form = False,
     ep_data = PutApiAdminScopesScopeIdData, ep_responses = PutApiAdminScopesScopeIdResponses, ep_errors = PutApiAdminScopesScopeIdErrors\<rparr>"

definition getApiAdminScopesResources :: endpoint where
  "getApiAdminScopesResources = \<lparr>ep_method = ''GET'', ep_url = ''/api/admin/scopes/resources'',
     ep_security = Some [http_bearer], ep_contentType = None, ep_form = False,
     ep_data = GetApiAdminScopesResourcesData, ep_responses = GetApiAdminScopesResourcesResponses, ep_errors = TUnknown\<rparr>"

definition getApiAdminTokens :: endpoint where
  "getApiAdminTokens = \<lparr>ep_method = ''GET'', ep_url = ''/api/admin/tokens'',
     ep_security = Some [http_bearer], ep_contentType = None, ep_form = False,
     ep_data = GetApiAdminTokensData, ep_responses = GetApiAdminTokensResponses, ep_errors = GetApiAdminTokensErrors\<rparr>"

definition postApiAdminTokensRevokeByClient :: endpoint where
  "postApiAdminTokensRevokeByClient = \<lparr>ep_method = ''POST'', ep_url = ''/api/admin/tokens/revoke-by-client'',
     ep_security = Some [http_bearer], ep_contentType = Some ''application/json'', ep_form = False,
     ep_data = PostApiAdminTokensRevokeByClientData, ep_responses = PostApiAdminTokensRevokeByClientResponses, ep_errors = PostApiAdminTokensRevokeByClientErrors\<rparr>"

definition postApiAdminTokensRevokeByUser :: endpoint where
  "postApiAdminTokensRevokeByUser = \<lparr>ep_method = ''POST'', ep_url = ''/api/admin/tokens/revoke-by-user'',
     ep_security = Some [http_bearer], ep_contentType = Some ''application/json'', ep_form = False,
     ep_data = PostApiAdminTokensRevokeByUserData, ep_responses = PostApiAdminTokensRevokeByUserResponses, ep_errors = PostApiAdminTokensRevokeByUserErrors\<rparr>"

definition deleteApiAdminTokensTokenPrefix :: endpoint where
  "deleteApiAdminTokensTokenPrefix = \<lparr>ep_method = ''DELETE'', ep_url = ''/api/admin/tokens/{tokenPrefix}'',
     ep_security = Some [http_bearer], ep_contentType = None, ep_form = False,
     ep_data = DeleteApiAdminTokensTokenPrefixData, ep_responses = DeleteApiAdminTokensTokenPrefixResponses, ep_errors = DeleteApiAdminTokensTokenPrefixErrors\<rparr>"

definition getApiAdminUsers :: endpoint where
  "getApiAdminUsers = \<lparr>ep_method = ''GET'', ep_url = ''/api/admin/users'',
     ep_security = Some [http_bearer], ep_contentType = None, ep_form = False,
     ep_data = GetApiAdminUsersData, ep_responses = GetApiAdminUsersResponses, ep_errors = GetApiAdminUsersErrors\<rparr>"

definition postApiAdminUsers :: endpoint where
  "postApiAdminUsers = \<lparr>ep_method = ''POST'', ep_url = ''/api/admin/users'',
     ep_security = Some [http_bearer], ep_contentType = Some ''application/json'', ep_form = False,
     ep_data = PostApiAdminUsersData, ep_responses = PostApiAdminUsersResponses, ep_errors = PostApiAdminUsersErrors\<rparr>"

definition deleteApiAdminUsersUserId :: endpoint where
  "deleteApiAdminUsersUserId = \<lparr>ep_method = ''DELETE'', ep_url = ''/api/admin/users/{userId}'',
     ep_security = Some [http_bearer], ep_contentType = None, ep_form = False,
     ep_data = DeleteApiAdminUsersUserIdData, ep_responses = DeleteApiAdminUsersUserIdResponses, ep_errors = DeleteApiAdminUsersUserIdErrors\<rparr>"

definition getApiAdminUsersUserId :: endpoint where
  "getApiAdminUsersUserId = \<lparr>ep_method = ''GET'', ep_url = ''/api/admin/users/{userId}'',
     ep_security = Some [http_bearer], ep_contentType = None, ep_form = False,
     ep_data = GetApiAdminUsersUserIdData, ep_responses = GetApiAdminUsersUserIdResponses, ep_errors = GetApiAdminUsersUserIdErrors\<rparr>"

definition putApiAdminUsersUserId :: endpoint where
  "putApiAdminUsersUserId = \<lparr>ep_method = ''PUT'', ep_url = ''/api/admin/users/{userId}'',
     ep_security = Some [http_bearer], ep_contentType = Some ''application/json'', ep_form = False,
     ep_data = PutApiAdminUsersUserIdData, ep_responses = PutApiAdminUsersUserIdResponses, ep_errors = PutApiAdminUsersUserIdErrors\<rparr>"

definition putApiAdminUsersUserIdDisable :: endpoint where
  "putApiAdminUsersUserIdDisable = \<lparr>ep_method = ''PUT'', ep_url = ''/api/admin/users/{userId}/disable'',
     ep_security = Some [http_bearer], ep_contentType = Some ''application/json'', ep_form = False,
     ep_data = PutApiAdminUsersUserIdDisableData, ep_responses = PutApiAdminUsersUserIdDisableResponses, ep_errors = PutApiAdminUsersUserIdDisableErrors\<rparr>"

definition postApiAdminUsersUserIdEnable :: endpoint where
  "postApiAdminUsersUserIdEnable = \<lparr>ep_method = ''POST'', ep_url = ''/api/admin/users/{userId}/enable'',
     ep_security = Some [http_bearer], ep_contentType = Some ''application/json'', ep_form = False,
     ep_data = PostApiAdminUsersUserIdEnableData, ep_responses = PostApiAdminUsersUserIdEnableResponses, ep_errors = PostApiAdminUsersUserIdEnableErrors\<rparr>"

definition getApiAdminUsersUserIdRoles :: endpoint where
  "getApiAdminUsersUserIdRoles = \<lparr>ep_method = ''GET'', ep_url = ''/api/admin/users/{userId}/roles'',
     ep_security = Some [http_bearer], ep_contentType = None, ep_form = False,
     ep_data = GetApiAdminUsersUserIdRolesData, ep_responses = GetApiAdminUsersUserIdRolesResponses, ep_errors = GetApiAdminUsersUserIdRolesErrors\<rparr>"

definition putApiAdminUsersUserIdRoles :: endpoint where
  "putApiAdminUsersUserIdRoles = \<lparr>ep_method = ''PUT'', ep_url = ''/api/admin/users/{userId}/roles'',
     ep_security = Some [http_bearer], ep_contentType = Some ''application/json'', ep_form = False,
     ep_data = PutApiAdminUsersUserIdRolesData, ep_responses = PutApiAdminUsersUserIdRolesResponses, ep_errors = PutApiAdminUsersUserIdRolesErrors\<rparr>"

definition getApiAuthProviders :: endpoint where
  "getApiAuthProviders = \<lparr>ep_method = ''GET'', ep_url = ''/api/auth/providers'',
     ep_security = None, ep_contentType = None, ep_form = False,
     ep_data = GetApiAuthProvidersData, ep_responses = GetApiAuthProvidersResponses, ep_errors = TUnknown\<rparr>"

definition postApiGithubLogin :: endpoint where
  "postApiGithubLogin = \<lparr>ep_method = ''POST'', ep_url = ''/api/github/login'',
     ep_security = None, ep_contentType = Some ''application/json'', ep_form = False,
     ep_data = PostApiGithubLoginData, ep_responses = PostApiGithubLoginResponses, ep_errors = PostApiGithubLoginErrors\<rparr>"

definition postApiGoogleLogin :: endpoint where
  "postApiGoogleLogin = \<lparr>ep_method = ''POST'', ep_url = ''/api/google/login'',
     ep_security = None, ep_contentType = Some ''application/json'', ep_form = False,
     ep_data = PostApiGoogleLoginData, ep_responses = PostApiGoogleLoginResponses, ep_errors = PostApiGoogleLoginErrors\<rparr>"

definition deleteApiMe :: endpoint where
  "deleteApiMe = \<lparr>ep_method = ''DELETE'', ep_url = ''/api/me'',
     ep_security = Some [http_bearer], ep_contentType = None, ep_form = False,
     ep_data = DeleteApiMeData, ep_responses = DeleteApiMeResponses, ep_errors = DeleteApiMeErrors\<rparr>"

definition getApiMe :: endpoint where
  "getApiMe = \<lparr>ep_method = ''GET'', ep_url = ''/api/me'',
     ep_security = Some [http_bearer], ep_contentType = None, ep_form = False,
     ep_data = GetApiMeData, ep_responses = GetApiMeResponses, ep_errors = GetApiMeErrors\<rparr>"

definition getApiMeAuthorizedApps :: endpoint where
  "getApiMeAuthorizedApps = \<lparr>ep_method = ''GET'', ep_url = ''/api/me/authorized-apps'',
     ep_security = Some [http_bearer], ep_contentType = None, ep_form = False,
     ep_data = GetApiMeAuthorizedAppsData, ep_responses = GetApiMeAuthorizedAppsResponses, ep_errors = GetApiMeAuthorizedAppsErrors\<rparr>"

definition deleteApiMeAuthorizedAppsClientId :: endpoint where
  "deleteApiMeAuthorizedAppsClientId = \<lparr>ep_method = ''DELETE'', ep_url = ''/api/me/authorized-apps/{clientId}'',
     ep_security = Some [http_bearer], ep_contentType = None, ep_form = False,
     ep_data = DeleteApiMeAuthorizedAppsClientIdData, ep_responses = DeleteApiMeAuthorizedAppsClientIdResponses, ep_errors = DeleteApiMeAuthorizedAppsClientIdErrors\<rparr>"

definition getApiMeApplications :: endpoint where
  "getApiMeApplications = \<lparr>ep_method = ''GET'', ep_url = ''/api/me/applications'',
     ep_security = Some [http_bearer], ep_contentType = None, ep_form = False,
     ep_data = GetApiMeApplicationsData, ep_responses = GetApiMeApplicationsResponses, ep_errors = GetApiMeApplicationsErrors\<rparr>"

definition postApiMeApplications :: endpoint where
  "postApiMeApplications = \<lparr>ep_method = ''POST'', ep_url = ''/api/me/applications'',
     ep_security = Some [http_bearer], ep_contentType = Some ''application/json'', ep_form = False,
     ep_data = PostApiMeApplicationsData, ep_responses = PostApiMeApplicationsResponses, ep_errors = PostApiMeApplicationsErrors\<rparr>"

definition deleteApiMeApplicationsClientId :: endpoint where
  "deleteApiMeApplicationsClientId = \<lparr>ep_method = ''DELETE'', ep_url = ''/api/me/applications/{clientId}'',
     ep_security = Some [http_bearer], ep_contentType = None, ep_form = False,
     ep_data = DeleteApiMeApplicationsClientIdData, ep_responses = DeleteApiMeApplicationsClientIdResponses, ep_errors = DeleteApiMeApplicationsClientIdErrors\<rparr>"

definition patchApiMeApplicationsClientId :: endpoint where
  "patchApiMeApplicationsClientId = \<lparr>ep_method = ''PATCH'', ep_url = ''/api/me/applications/{clientId}'',
     ep_security = Some [http_bearer], ep_contentType = Some ''application/json'', ep_form = False,
     ep_data = PatchApiMeApplicationsClientIdData, ep_responses = PatchApiMeApplicationsClientIdResponses, ep_errors = PatchApiMeApplicationsClientIdErrors\<rparr>"

definition postApiMeApplicationsClientIdRotateSecret :: endpoint where
  "postApiMeApplicationsClientIdRotateSecret = \<lparr>ep_method = ''POST'', ep_url = ''/api/me/applications/{clientId}/rotate-secret'',
     ep_security = Some [http_bearer], ep_contentType = Some ''application/json'', ep_form = False,
     ep_data = PostApiMeApplicationsClientIdRotateSecretData, ep_responses = PostApiMeApplicationsClientIdRotateSecretResponses, ep_errors = PostApiMeApplicationsClientIdRotateSecretErrors\<rparr>"

definition postApiMeApplicationsClientIdTransfer :: endpoint where
  "postApiMeApplicationsClientIdTransfer = \<lparr>ep_method = ''POST'', ep_url = ''/api/me/applications/{clientId}/transfer'',
     ep_security = Some [http_bearer], ep_contentType = Some ''application/json'', ep_form = False,
     ep_data = PostApiMeApplicationsClientIdTransferData, ep_responses = PostApiMeApplicationsClientIdTransferResponses, ep_errors = PostApiMeApplicationsClientIdTransferErrors\<rparr>"

definition postApiMeMfaDisable :: endpoint where
  "postApiMeMfaDisable = \<lparr>ep_method = ''POST'', ep_url = ''/api/me/mfa/disable'',
     ep_security = Some [http_bearer], ep_contentType = Some ''application/json'', ep_form = False,
     ep_data = PostApiMeMfaDisableData, ep_responses = PostApiMeMfaDisableResponses, ep_errors = PostApiMeMfaDisableErrors\<rparr>"

definition postApiMeMfaSetup :: endpoint where
  "postApiMeMfaSetup = \<lparr>ep_method = ''POST'', ep_url = ''/api/me/mfa/setup'',
     ep_security = Some [http_bearer], ep_contentType = Some ''application/json'', ep_form = False,
     ep_data = PostApiMeMfaSetupData, ep_responses = PostApiMeMfaSetupResponses, ep_errors = PostApiMeMfaSetupErrors\<rparr>"

definition postApiMeMfaVerify :: endpoint where
  "postApiMeMfaVerify = \<lparr>ep_method = ''POST'', ep_url = ''/api/me/mfa/verify'',
     ep_security = Some [http_bearer], ep_contentType = Some ''application/json'', ep_form = False,
     ep_data = PostApiMeMfaVerifyData, ep_responses = PostApiMeMfaVerifyResponses, ep_errors = PostApiMeMfaVerifyErrors\<rparr>"

definition postApiMeOrgInvitationsAccept :: endpoint where
  "postApiMeOrgInvitationsAccept = \<lparr>ep_method = ''POST'', ep_url = ''/api/me/org-invitations/accept'',
     ep_security = Some [http_bearer], ep_contentType = Some ''application/json'', ep_form = False,
     ep_data = PostApiMeOrgInvitationsAcceptData, ep_responses = PostApiMeOrgInvitationsAcceptResponses, ep_errors = PostApiMeOrgInvitationsAcceptErrors\<rparr>"

definition getApiMeOrganizations :: endpoint where
  "getApiMeOrganizations = \<lparr>ep_method = ''GET'', ep_url = ''/api/me/organizations'',
     ep_security = Some [http_bearer], ep_contentType = None, ep_form = False,
     ep_data = GetApiMeOrganizationsData, ep_responses = GetApiMeOrganizationsResponses, ep_errors = GetApiMeOrganizationsErrors\<rparr>"

definition postApiMeOrganizations :: endpoint where
  "postApiMeOrganizations = \<lparr>ep_method = ''POST'', ep_url = ''/api/me/organizations'',
     ep_security = Some [http_bearer], ep_contentType = Some ''application/json'', ep_form = False,
     ep_data = PostApiMeOrganizationsData, ep_responses = PostApiMeOrganizationsResponses, ep_errors = PostApiMeOrganizationsErrors\<rparr>"

definition getApiMeOrganizationsSlugInvitations :: endpoint where
  "getApiMeOrganizationsSlugInvitations = \<lparr>ep_method = ''GET'', ep_url = ''/api/me/organizations/{slug}/invitations'',
     ep_security = Some [http_bearer], ep_contentType = None, ep_form = False,
     ep_data = GetApiMeOrganizationsSlugInvitationsData, ep_responses = GetApiMeOrganizationsSlugInvitationsResponses, ep_errors = GetApiMeOrganizationsSlugInvitationsErrors\<rparr>"

definition postApiMeOrganizationsSlugInvitations :: endpoint where
  "postApiMeOrganizationsSlugInvitations = \<lparr>ep_method = ''POST'', ep_url = ''/api/me/organizations/{slug}/invitations'',
     ep_security = Some [http_bearer], ep_contentType = Some ''application/json'', ep_form = False,
     ep_data = PostApiMeOrganizationsSlugInvitationsData, ep_responses = PostApiMeOrganizationsSlugInvitationsResponses, ep_errors = PostApiMeOrganizationsSlugInvitationsErrors\<rparr>"

definition getApiMeOrganizationsSlugConsents :: endpoint where
  "getApiMeOrganizationsSlugConsents = \<lparr>ep_method = ''GET'', ep_url = ''/api/me/organizations/{slug}/consents'',
     ep_security = Some [http_bearer], ep_contentType = None, ep_form = False,
     ep_data = GetApiMeOrganizationsSlugConsentsData, ep_responses = GetApiMeOrganizationsSlugConsentsResponses, ep_errors = GetApiMeOrganizationsSlugConsentsErrors\<rparr>"

definition deleteApiMeOrganizationsSlugConsentsClientId :: endpoint where
  "deleteApiMeOrganizationsSlugConsentsClientId = \<lparr>ep_method = ''DELETE'', ep_url = ''/api/me/organizations/{slug}/consents/{clientId}'',
     ep_security = Some [http_bearer], ep_contentType = None, ep_form = False,
     ep_data = DeleteApiMeOrganizationsSlugConsentsClientIdData, ep_responses = DeleteApiMeOrganizationsSlugConsentsClientIdResponses, ep_errors = DeleteApiMeOrganizationsSlugConsentsClientIdErrors\<rparr>"

definition getApiMeOrganizationsSlugConsentRequests :: endpoint where
  "getApiMeOrganizationsSlugConsentRequests = \<lparr>ep_method = ''GET'', ep_url = ''/api/me/organizations/{slug}/consent-requests'',
     ep_security = Some [http_bearer], ep_contentType = None, ep_form = False,
     ep_data = GetApiMeOrganizationsSlugConsentRequestsData, ep_responses = GetApiMeOrganizationsSlugConsentRequestsResponses, ep_errors = GetApiMeOrganizationsSlugConsentRequestsErrors\<rparr>"

definition postApiMeOrganizationsSlugConsentRequests :: endpoint where
  "postApiMeOrganizationsSlugConsentRequests = \<lparr>ep_method = ''POST'', ep_url = ''/api/me/organizations/{slug}/consent-requests'',
     ep_security = Some [http_bearer], ep_contentType = Some ''application/json'', ep_form = False,
     ep_data = PostApiMeOrganizationsSlugConsentRequestsData, ep_responses = PostApiMeOrganizationsSlugConsentRequestsResponses, ep_errors = PostApiMeOrganizationsSlugConsentRequestsErrors\<rparr>"

definition postApiMeOrganizationsSlugConsentRequestsRequestIdApprove :: endpoint where
  "postApiMeOrganizationsSlugConsentRequestsRequestIdApprove = \<lparr>ep_method = ''POST'', ep_url = ''/api/me/organizations/{slug}/consent-requests/{requestId}/approve'',
     ep_security = Some [http_bearer], ep_contentType = Some ''application/json'', ep_form = False,
     ep_data = PostApiMeOrganizationsSlugConsentRequestsRequestIdApproveData, ep_responses = PostApiMeOrganizationsSlugConsentRequestsRequestIdApproveResponses, ep_errors = PostApiMeOrganizationsSlugConsentRequestsRequestIdApproveErrors\<rparr>"

definition postApiMeOrganizationsSlugConsentRequestsRequestIdReject :: endpoint where
  "postApiMeOrganizationsSlugConsentRequestsRequestIdReject = \<lparr>ep_method = ''POST'', ep_url = ''/api/me/organizations/{slug}/consent-requests/{requestId}/reject'',
     ep_security = Some [http_bearer], ep_contentType = Some ''application/json'', ep_form = False,
     ep_data = PostApiMeOrganizationsSlugConsentRequestsRequestIdRejectData, ep_responses = PostApiMeOrganizationsSlugConsentRequestsRequestIdRejectResponses, ep_errors = PostApiMeOrganizationsSlugConsentRequestsRequestIdRejectErrors\<rparr>"

definition deleteApiMeOrganizationsSlugConsentRequestsRequestId :: endpoint where
  "deleteApiMeOrganizationsSlugConsentRequestsRequestId = \<lparr>ep_method = ''DELETE'', ep_url = ''/api/me/organizations/{slug}/consent-requests/{requestId}'',
     ep_security = Some [http_bearer], ep_contentType = None, ep_form = False,
     ep_data = DeleteApiMeOrganizationsSlugConsentRequestsRequestIdData, ep_responses = DeleteApiMeOrganizationsSlugConsentRequestsRequestIdResponses, ep_errors = DeleteApiMeOrganizationsSlugConsentRequestsRequestIdErrors\<rparr>"

definition deleteApiMeOrganizationsSlugSuccessorNomination :: endpoint where
  "deleteApiMeOrganizationsSlugSuccessorNomination = \<lparr>ep_method = ''DELETE'', ep_url = ''/api/me/organizations/{slug}/successor-nomination'',
     ep_security = Some [http_bearer], ep_contentType = None, ep_form = False,
     ep_data = DeleteApiMeOrganizationsSlugSuccessorNominationData, ep_responses = DeleteApiMeOrganizationsSlugSuccessorNominationResponses, ep_errors = DeleteApiMeOrganizationsSlugSuccessorNominationErrors\<rparr>"

definition postApiMeOrganizationsSlugSuccessorNomination :: endpoint where
  "postApiMeOrganizationsSlugSuccessorNomination = \<lparr>ep_method = ''POST'', ep_url = ''/api/me/organizations/{slug}/successor-nomination'',
     ep_security = Some [http_bearer], ep_contentType = Some ''application/json'', ep_form = False,
     ep_data = PostApiMeOrganizationsSlugSuccessorNominationData, ep_responses = PostApiMeOrganizationsSlugSuccessorNominationResponses, ep_errors = PostApiMeOrganizationsSlugSuccessorNominationErrors\<rparr>"

definition postApiMeOrganizationsSlugSuccessorNominationAccept :: endpoint where
  "postApiMeOrganizationsSlugSuccessorNominationAccept = \<lparr>ep_method = ''POST'', ep_url = ''/api/me/organizations/{slug}/successor-nomination/accept'',
     ep_security = Some [http_bearer], ep_contentType = Some ''application/json'', ep_form = False,
     ep_data = PostApiMeOrganizationsSlugSuccessorNominationAcceptData, ep_responses = PostApiMeOrganizationsSlugSuccessorNominationAcceptResponses, ep_errors = PostApiMeOrganizationsSlugSuccessorNominationAcceptErrors\<rparr>"

definition deleteApiMeOrganizationsSlugInvitationsInvitationId :: endpoint where
  "deleteApiMeOrganizationsSlugInvitationsInvitationId = \<lparr>ep_method = ''DELETE'', ep_url = ''/api/me/organizations/{slug}/invitations/{invitationId}'',
     ep_security = Some [http_bearer], ep_contentType = None, ep_form = False,
     ep_data = DeleteApiMeOrganizationsSlugInvitationsInvitationIdData, ep_responses = DeleteApiMeOrganizationsSlugInvitationsInvitationIdResponses, ep_errors = DeleteApiMeOrganizationsSlugInvitationsInvitationIdErrors\<rparr>"

definition getApiMeOrganizationsSlugMembers :: endpoint where
  "getApiMeOrganizationsSlugMembers = \<lparr>ep_method = ''GET'', ep_url = ''/api/me/organizations/{slug}/members'',
     ep_security = Some [http_bearer], ep_contentType = None, ep_form = False,
     ep_data = GetApiMeOrganizationsSlugMembersData, ep_responses = GetApiMeOrganizationsSlugMembersResponses, ep_errors = GetApiMeOrganizationsSlugMembersErrors\<rparr>"

definition deleteApiMeOrganizationsSlugMembersUserId :: endpoint where
  "deleteApiMeOrganizationsSlugMembersUserId = \<lparr>ep_method = ''DELETE'', ep_url = ''/api/me/organizations/{slug}/members/{userId}'',
     ep_security = Some [http_bearer], ep_contentType = None, ep_form = False,
     ep_data = DeleteApiMeOrganizationsSlugMembersUserIdData, ep_responses = DeleteApiMeOrganizationsSlugMembersUserIdResponses, ep_errors = DeleteApiMeOrganizationsSlugMembersUserIdErrors\<rparr>"

definition putApiMePassword :: endpoint where
  "putApiMePassword = \<lparr>ep_method = ''PUT'', ep_url = ''/api/me/password'',
     ep_security = Some [http_bearer], ep_contentType = Some ''application/json'', ep_form = False,
     ep_data = PutApiMePasswordData, ep_responses = PutApiMePasswordResponses, ep_errors = PutApiMePasswordErrors\<rparr>"

definition patchApiMeProfile :: endpoint where
  "patchApiMeProfile = \<lparr>ep_method = ''PATCH'', ep_url = ''/api/me/profile'',
     ep_security = Some [http_bearer], ep_contentType = Some ''application/json'', ep_form = False,
     ep_data = PatchApiMeProfileData, ep_responses = PatchApiMeProfileResponses, ep_errors = PatchApiMeProfileErrors\<rparr>"

definition getApiMeSocialLinks :: endpoint where
  "getApiMeSocialLinks = \<lparr>ep_method = ''GET'', ep_url = ''/api/me/social/links'',
     ep_security = Some [http_bearer], ep_contentType = None, ep_form = False,
     ep_data = GetApiMeSocialLinksData, ep_responses = GetApiMeSocialLinksResponses, ep_errors = GetApiMeSocialLinksErrors\<rparr>"

definition postApiMeSocialLinksProviderAuthorize :: endpoint where
  "postApiMeSocialLinksProviderAuthorize = \<lparr>ep_method = ''POST'', ep_url = ''/api/me/social/links/{provider}/authorize'',
     ep_security = Some [http_bearer], ep_contentType = Some ''application/json'', ep_form = False,
     ep_data = PostApiMeSocialLinksProviderAuthorizeData, ep_responses = PostApiMeSocialLinksProviderAuthorizeResponses, ep_errors = PostApiMeSocialLinksProviderAuthorizeErrors\<rparr>"

definition deleteApiMeSocialLinksProvider :: endpoint where
  "deleteApiMeSocialLinksProvider = \<lparr>ep_method = ''DELETE'', ep_url = ''/api/me/social/links/{provider}'',
     ep_security = Some [http_bearer], ep_contentType = None, ep_form = False,
     ep_data = DeleteApiMeSocialLinksProviderData, ep_responses = DeleteApiMeSocialLinksProviderResponses, ep_errors = DeleteApiMeSocialLinksProviderErrors\<rparr>"

definition postApiMeSocialLinksProvider :: endpoint where
  "postApiMeSocialLinksProvider = \<lparr>ep_method = ''POST'', ep_url = ''/api/me/social/links/{provider}'',
     ep_security = Some [http_bearer], ep_contentType = Some ''application/json'', ep_form = False,
     ep_data = PostApiMeSocialLinksProviderData, ep_responses = PostApiMeSocialLinksProviderResponses, ep_errors = PostApiMeSocialLinksProviderErrors\<rparr>"

definition getApiMeWebauthnCredentials :: endpoint where
  "getApiMeWebauthnCredentials = \<lparr>ep_method = ''GET'', ep_url = ''/api/me/webauthn/credentials'',
     ep_security = Some [http_bearer], ep_contentType = None, ep_form = False,
     ep_data = GetApiMeWebauthnCredentialsData, ep_responses = GetApiMeWebauthnCredentialsResponses, ep_errors = GetApiMeWebauthnCredentialsErrors\<rparr>"

definition deleteApiMeWebauthnCredentialsCredentialId :: endpoint where
  "deleteApiMeWebauthnCredentialsCredentialId = \<lparr>ep_method = ''DELETE'', ep_url = ''/api/me/webauthn/credentials/{credentialId}'',
     ep_security = Some [http_bearer], ep_contentType = None, ep_form = False,
     ep_data = DeleteApiMeWebauthnCredentialsCredentialIdData, ep_responses = DeleteApiMeWebauthnCredentialsCredentialIdResponses, ep_errors = DeleteApiMeWebauthnCredentialsCredentialIdErrors\<rparr>"

definition getApiMeProfileCustomAttributes :: endpoint where
  "getApiMeProfileCustomAttributes = \<lparr>ep_method = ''GET'', ep_url = ''/api/me/profile/custom-attributes'',
     ep_security = Some [http_bearer], ep_contentType = None, ep_form = False,
     ep_data = GetApiMeProfileCustomAttributesData, ep_responses = GetApiMeProfileCustomAttributesResponses, ep_errors = TUnknown\<rparr>"

definition putApiMeProfileCustomAttributes :: endpoint where
  "putApiMeProfileCustomAttributes = \<lparr>ep_method = ''PUT'', ep_url = ''/api/me/profile/custom-attributes'',
     ep_security = Some [http_bearer], ep_contentType = Some ''application/json'', ep_form = False,
     ep_data = PutApiMeProfileCustomAttributesData, ep_responses = PutApiMeProfileCustomAttributesResponses, ep_errors = PutApiMeProfileCustomAttributesErrors\<rparr>"

definition postApiMeWebauthnRegisterBegin :: endpoint where
  "postApiMeWebauthnRegisterBegin = \<lparr>ep_method = ''POST'', ep_url = ''/api/me/webauthn/register/begin'',
     ep_security = Some [http_bearer], ep_contentType = Some ''application/json'', ep_form = False,
     ep_data = PostApiMeWebauthnRegisterBeginData, ep_responses = PostApiMeWebauthnRegisterBeginResponses, ep_errors = PostApiMeWebauthnRegisterBeginErrors\<rparr>"

definition postApiMeWebauthnRegisterFinish :: endpoint where
  "postApiMeWebauthnRegisterFinish = \<lparr>ep_method = ''POST'', ep_url = ''/api/me/webauthn/register/finish'',
     ep_security = Some [http_bearer], ep_contentType = Some ''application/json'', ep_form = False,
     ep_data = PostApiMeWebauthnRegisterFinishData, ep_responses = PostApiMeWebauthnRegisterFinishResponses, ep_errors = PostApiMeWebauthnRegisterFinishErrors\<rparr>"

definition postApiPasswordResetConfirm :: endpoint where
  "postApiPasswordResetConfirm = \<lparr>ep_method = ''POST'', ep_url = ''/api/password-reset/confirm'',
     ep_security = None, ep_contentType = Some ''application/json'', ep_form = False,
     ep_data = PostApiPasswordResetConfirmData, ep_responses = PostApiPasswordResetConfirmResponses, ep_errors = PostApiPasswordResetConfirmErrors\<rparr>"

definition postApiPasswordResetRequest :: endpoint where
  "postApiPasswordResetRequest = \<lparr>ep_method = ''POST'', ep_url = ''/api/password-reset/request'',
     ep_security = None, ep_contentType = Some ''application/json'', ep_form = False,
     ep_data = PostApiPasswordResetRequestData, ep_responses = PostApiPasswordResetRequestResponses, ep_errors = PostApiPasswordResetRequestErrors\<rparr>"

definition postApiRegister :: endpoint where
  "postApiRegister = \<lparr>ep_method = ''POST'', ep_url = ''/api/register'',
     ep_security = None, ep_contentType = Some ''application/json'', ep_form = False,
     ep_data = PostApiRegisterData, ep_responses = PostApiRegisterResponses, ep_errors = PostApiRegisterErrors\<rparr>"

definition getApiVerifyEmail :: endpoint where
  "getApiVerifyEmail = \<lparr>ep_method = ''GET'', ep_url = ''/api/verify-email'',
     ep_security = None, ep_contentType = None, ep_form = False,
     ep_data = GetApiVerifyEmailData, ep_responses = GetApiVerifyEmailResponses, ep_errors = GetApiVerifyEmailErrors\<rparr>"

definition postApiVerifyEmailResend :: endpoint where
  "postApiVerifyEmailResend = \<lparr>ep_method = ''POST'', ep_url = ''/api/verify-email/resend'',
     ep_security = None, ep_contentType = Some ''application/json'', ep_form = False,
     ep_data = PostApiVerifyEmailResendData, ep_responses = PostApiVerifyEmailResendResponses, ep_errors = PostApiVerifyEmailResendErrors\<rparr>"

definition postApiVerifyEmailResendByEmail :: endpoint where
  "postApiVerifyEmailResendByEmail = \<lparr>ep_method = ''POST'', ep_url = ''/api/verify-email/resend-by-email'',
     ep_security = None, ep_contentType = Some ''application/json'', ep_form = False,
     ep_data = PostApiVerifyEmailResendByEmailData, ep_responses = PostApiVerifyEmailResendByEmailResponses, ep_errors = PostApiVerifyEmailResendByEmailErrors\<rparr>"

definition postApiWechatLogin :: endpoint where
  "postApiWechatLogin = \<lparr>ep_method = ''POST'', ep_url = ''/api/wechat/login'',
     ep_security = None, ep_contentType = Some ''application/json'', ep_form = False,
     ep_data = PostApiWechatLoginData, ep_responses = PostApiWechatLoginResponses, ep_errors = PostApiWechatLoginErrors\<rparr>"

definition getHealth :: endpoint where
  "getHealth = \<lparr>ep_method = ''GET'', ep_url = ''/health'',
     ep_security = None, ep_contentType = None, ep_form = False,
     ep_data = GetHealthData, ep_responses = GetHealthResponses, ep_errors = GetHealthErrors\<rparr>"

definition getHealthLive :: endpoint where
  "getHealthLive = \<lparr>ep_method = ''GET'', ep_url = ''/health/live'',
     ep_security = None, ep_contentType = None, ep_form = False,
     ep_data = GetHealthLiveData, ep_responses = GetHealthLiveResponses, ep_errors = TUnknown\<rparr>"

definition getHealthReady :: endpoint where
  "getHealthReady = \<lparr>ep_method = ''GET'', ep_url = ''/health/ready'',
     ep_security = None, ep_contentType = None, ep_form = False,
     ep_data = GetHealthReadyData, ep_responses = GetHealthReadyResponses, ep_errors = GetHealthReadyErrors\<rparr>"

definition getOauth2Authorize :: endpoint where
  "getOauth2Authorize = \<lparr>ep_method = ''GET'', ep_url = ''/oauth2/authorize'',
     ep_security = None, ep_contentType = None, ep_form = False,
     ep_data = GetOauth2AuthorizeData, ep_responses = TUnknown, ep_errors = GetOauth2AuthorizeErrors\<rparr>"

definition postOauth2Consent :: endpoint where
  "postOauth2Consent = \<lparr>ep_method = ''POST'', ep_url = ''/oauth2/consent'',
     ep_security = None, ep_contentType = None, ep_form = False,
     ep_data = PostOauth2ConsentData, ep_responses = TUnknown, ep_errors = PostOauth2ConsentErrors\<rparr>"

definition getOauth2AuthorizeContext :: endpoint where
  "getOauth2AuthorizeContext = \<lparr>ep_method = ''GET'', ep_url = ''/oauth2/authorize-context'',
     ep_security = None, ep_contentType = None, ep_form = False,
     ep_data = GetOauth2AuthorizeContextData, ep_responses = GetOauth2AuthorizeContextResponses, ep_errors = GetOauth2AuthorizeContextErrors\<rparr>"

definition getOauth2ConsentContext :: endpoint where
  "getOauth2ConsentContext = \<lparr>ep_method = ''GET'', ep_url = ''/oauth2/consent/context'',
     ep_security = None, ep_contentType = None, ep_form = False,
     ep_data = GetOauth2ConsentContextData, ep_responses = GetOauth2ConsentContextResponses, ep_errors = GetOauth2ConsentContextErrors\<rparr>"

definition postOauth2DeviceApprove :: endpoint where
  "postOauth2DeviceApprove = \<lparr>ep_method = ''POST'', ep_url = ''/oauth2/device/approve'',
     ep_security = Some [http_bearer], ep_contentType = Some ''application/x-www-form-urlencoded'', ep_form = True,
     ep_data = PostOauth2DeviceApproveData, ep_responses = PostOauth2DeviceApproveResponses, ep_errors = PostOauth2DeviceApproveErrors\<rparr>"

definition postOauth2DeviceAuthorization :: endpoint where
  "postOauth2DeviceAuthorization = \<lparr>ep_method = ''POST'', ep_url = ''/oauth2/device_authorization'',
     ep_security = None, ep_contentType = Some ''application/x-www-form-urlencoded'', ep_form = True,
     ep_data = PostOauth2DeviceAuthorizationData, ep_responses = PostOauth2DeviceAuthorizationResponses, ep_errors = PostOauth2DeviceAuthorizationErrors\<rparr>"

definition getOauth2EndSession :: endpoint where
  "getOauth2EndSession = \<lparr>ep_method = ''GET'', ep_url = ''/oauth2/end_session'',
     ep_security = None, ep_contentType = None, ep_form = False,
     ep_data = GetOauth2EndSessionData, ep_responses = GetOauth2EndSessionResponses, ep_errors = GetOauth2EndSessionErrors\<rparr>"

definition postOauth2EndSession :: endpoint where
  "postOauth2EndSession = \<lparr>ep_method = ''POST'', ep_url = ''/oauth2/end_session'',
     ep_security = None, ep_contentType = None, ep_form = False,
     ep_data = PostOauth2EndSessionData, ep_responses = PostOauth2EndSessionResponses, ep_errors = PostOauth2EndSessionErrors\<rparr>"

definition postOauth2Introspect :: endpoint where
  "postOauth2Introspect = \<lparr>ep_method = ''POST'', ep_url = ''/oauth2/introspect'',
     ep_security = Some [http_basic], ep_contentType = Some ''application/x-www-form-urlencoded'', ep_form = True,
     ep_data = PostOauth2IntrospectData, ep_responses = PostOauth2IntrospectResponses, ep_errors = PostOauth2IntrospectErrors\<rparr>"

definition postOauth2Login :: endpoint where
  "postOauth2Login = \<lparr>ep_method = ''POST'', ep_url = ''/oauth2/login'',
     ep_security = None, ep_contentType = Some ''application/json'', ep_form = False,
     ep_data = PostOauth2LoginData, ep_responses = PostOauth2LoginResponses, ep_errors = PostOauth2LoginErrors\<rparr>"

definition postOauth2Logout :: endpoint where
  "postOauth2Logout = \<lparr>ep_method = ''POST'', ep_url = ''/oauth2/logout'',
     ep_security = Some [http_bearer], ep_contentType = Some ''application/json'', ep_form = False,
     ep_data = PostOauth2LogoutData, ep_responses = PostOauth2LogoutResponses, ep_errors = PostOauth2LogoutErrors\<rparr>"

definition postOauth2MfaVerify :: endpoint where
  "postOauth2MfaVerify = \<lparr>ep_method = ''POST'', ep_url = ''/oauth2/mfa/verify'',
     ep_security = None, ep_contentType = Some ''application/json'', ep_form = False,
     ep_data = PostOauth2MfaVerifyData, ep_responses = PostOauth2MfaVerifyResponses, ep_errors = PostOauth2MfaVerifyErrors\<rparr>"

definition postOauth2PasswordChange :: endpoint where
  "postOauth2PasswordChange = \<lparr>ep_method = ''POST'', ep_url = ''/oauth2/password/change'',
     ep_security = None, ep_contentType = Some ''application/json'', ep_form = False,
     ep_data = PostOauth2PasswordChangeData, ep_responses = PostOauth2PasswordChangeResponses, ep_errors = PostOauth2PasswordChangeErrors\<rparr>"

definition postOauth2Register :: endpoint where
  "postOauth2Register = \<lparr>ep_method = ''POST'', ep_url = ''/oauth2/register'',
     ep_security = Some [http_bearer], ep_contentType = Some ''application/json'', ep_form = False,
     ep_data = PostOauth2RegisterData, ep_responses = PostOauth2RegisterResponses, ep_errors = PostOauth2RegisterErrors\<rparr>"

definition postOauth2Revoke :: endpoint where
  "postOauth2Revoke = \<lparr>ep_method = ''POST'', ep_url = ''/oauth2/revoke'',
     ep_security = Some [http_basic], ep_contentType = Some ''application/x-www-form-urlencoded'', ep_form = True,
     ep_data = PostOauth2RevokeData, ep_responses = PostOauth2RevokeResponses, ep_errors = PostOauth2RevokeErrors\<rparr>"

definition postOauth2Token :: endpoint where
  "postOauth2Token = \<lparr>ep_method = ''POST'', ep_url = ''/oauth2/token'',
     ep_security = None, ep_contentType = Some ''application/x-www-form-urlencoded'', ep_form = True,
     ep_data = PostOauth2TokenData, ep_responses = PostOauth2TokenResponses, ep_errors = PostOauth2TokenErrors\<rparr>"

definition getOauth2Userinfo :: endpoint where
  "getOauth2Userinfo = \<lparr>ep_method = ''GET'', ep_url = ''/oauth2/userinfo'',
     ep_security = Some [http_bearer], ep_contentType = None, ep_form = False,
     ep_data = GetOauth2UserinfoData, ep_responses = GetOauth2UserinfoResponses, ep_errors = GetOauth2UserinfoErrors\<rparr>"

definition postOauth2WebauthnAuthenticateBegin :: endpoint where
  "postOauth2WebauthnAuthenticateBegin = \<lparr>ep_method = ''POST'', ep_url = ''/oauth2/webauthn/authenticate/begin'',
     ep_security = None, ep_contentType = None, ep_form = False,
     ep_data = PostOauth2WebauthnAuthenticateBeginData, ep_responses = PostOauth2WebauthnAuthenticateBeginResponses, ep_errors = TUnknown\<rparr>"

definition postOauth2WebauthnAuthenticateFinish :: endpoint where
  "postOauth2WebauthnAuthenticateFinish = \<lparr>ep_method = ''POST'', ep_url = ''/oauth2/webauthn/authenticate/finish'',
     ep_security = None, ep_contentType = Some ''application/json'', ep_form = False,
     ep_data = PostOauth2WebauthnAuthenticateFinishData, ep_responses = PostOauth2WebauthnAuthenticateFinishResponses, ep_errors = PostOauth2WebauthnAuthenticateFinishErrors\<rparr>"

definition open_endpoints :: "endpoint list" where
  "open_endpoints =
    [getWellKnownJwksJson, getWellKnownOauthAuthorizationServer, getWellKnownOpenidConfiguration, getHealth, getHealthLive,
     getHealthReady]"

definition admin_client_endpoints :: "endpoint list" where
  "admin_client_endpoints =
    [getApiAdminClaimMappings, postApiAdminClaimMappings, deleteApiAdminClaimMappingsMappingId,
     putApiAdminClaimMappingsMappingId, getApiAdminClients, postApiAdminClients, deleteApiAdminClientsClientId,
     getApiAdminClientsClientId, putApiAdminClientsClientId, postApiAdminClientsClientIdResetSecret,
     postApiAdminClientsClientIdResume, getApiAdminClientsClientIdScopes, putApiAdminClientsClientIdScopes,
     postApiAdminClientsClientIdSuspend, getApiAdminDashboard, getApiAdminDashboardStats, getApiAdminEmailTemplates,
     getApiAdminEmailTemplatesKeyLocale, putApiAdminEmailTemplatesKeyLocale, postApiAdminEmailTemplatesKeyLocaleTestSend,
     getApiAdminLogs, getApiAdminLogsExport]"

definition admin_organization_endpoints :: "endpoint list" where
  "admin_organization_endpoints =
    [getApiAdminOidcKeys, getApiAdminOrganizations, postApiAdminOrganizations, deleteApiAdminOrganizationsSlug,
     getApiAdminOrganizationsSlug, patchApiAdminOrganizationsSlug, getApiAdminOrganizationsSlugMembers,
     deleteApiAdminOrganizationsSlugMembersUserId, postApiAdminOrganizationsSlugTransferOwnership, getApiAdminTokens,
     postApiAdminTokensRevokeByClient, postApiAdminTokensRevokeByUser, deleteApiAdminTokensTokenPrefix]"

definition admin_user_endpoints :: "endpoint list" where
  "admin_user_endpoints =
    [getApiAdminRoles, postApiAdminRoles, getApiAdminRolesRoleIdPermissions, putApiAdminRolesRoleIdPermissions,
     deleteApiAdminRolesRoleId, putApiAdminRolesRoleId, getApiAdminScopes, postApiAdminScopes, deleteApiAdminScopesScopeId,
     putApiAdminScopesScopeId, getApiAdminScopesResources, getApiAdminUsers, postApiAdminUsers, deleteApiAdminUsersUserId,
     getApiAdminUsersUserId, putApiAdminUsersUserId, putApiAdminUsersUserIdDisable, postApiAdminUsersUserIdEnable,
     getApiAdminUsersUserIdRoles, putApiAdminUsersUserIdRoles]"

definition account_endpoints :: "endpoint list" where
  "account_endpoints =
    [getApiAuthProviders, postApiGithubLogin, postApiGoogleLogin, postApiPasswordResetConfirm, postApiPasswordResetRequest,
     postApiRegister, getApiVerifyEmail, postApiVerifyEmailResend, postApiVerifyEmailResendByEmail, postApiWechatLogin]"

definition me_endpoints :: "endpoint list" where
  "me_endpoints =
    [deleteApiMe, getApiMe, getApiMeAuthorizedApps, deleteApiMeAuthorizedAppsClientId, getApiMeApplications,
     postApiMeApplications, deleteApiMeApplicationsClientId, patchApiMeApplicationsClientId,
     postApiMeApplicationsClientIdRotateSecret, postApiMeApplicationsClientIdTransfer, postApiMeMfaDisable, postApiMeMfaSetup,
     postApiMeMfaVerify, putApiMePassword, patchApiMeProfile, getApiMeSocialLinks, postApiMeSocialLinksProviderAuthorize,
     deleteApiMeSocialLinksProvider, postApiMeSocialLinksProvider, getApiMeWebauthnCredentials,
     deleteApiMeWebauthnCredentialsCredentialId, getApiMeProfileCustomAttributes, putApiMeProfileCustomAttributes,
     postApiMeWebauthnRegisterBegin, postApiMeWebauthnRegisterFinish]"

definition me_organization_endpoints :: "endpoint list" where
  "me_organization_endpoints =
    [postApiMeOrgInvitationsAccept, getApiMeOrganizations, postApiMeOrganizations, getApiMeOrganizationsSlugInvitations,
     postApiMeOrganizationsSlugInvitations, getApiMeOrganizationsSlugConsents, deleteApiMeOrganizationsSlugConsentsClientId,
     getApiMeOrganizationsSlugConsentRequests, postApiMeOrganizationsSlugConsentRequests,
     postApiMeOrganizationsSlugConsentRequestsRequestIdApprove, postApiMeOrganizationsSlugConsentRequestsRequestIdReject,
     deleteApiMeOrganizationsSlugConsentRequestsRequestId, deleteApiMeOrganizationsSlugSuccessorNomination,
     postApiMeOrganizationsSlugSuccessorNomination, postApiMeOrganizationsSlugSuccessorNominationAccept,
     deleteApiMeOrganizationsSlugInvitationsInvitationId, getApiMeOrganizationsSlugMembers,
     deleteApiMeOrganizationsSlugMembersUserId]"

definition oauth2_endpoints :: "endpoint list" where
  "oauth2_endpoints =
    [getOauth2Authorize, postOauth2Consent, getOauth2AuthorizeContext, getOauth2ConsentContext, postOauth2DeviceApprove,
     postOauth2DeviceAuthorization, getOauth2EndSession, postOauth2EndSession, postOauth2Introspect, postOauth2Login,
     postOauth2Logout, postOauth2MfaVerify, postOauth2PasswordChange, postOauth2Register, postOauth2Revoke, postOauth2Token,
     getOauth2Userinfo, postOauth2WebauthnAuthenticateBegin, postOauth2WebauthnAuthenticateFinish]"

definition endpoints :: "endpoint list" where
  "endpoints = open_endpoints @ admin_client_endpoints @ admin_organization_endpoints @ admin_user_endpoints @
     account_endpoints @ me_endpoints @ me_organization_endpoints @ oauth2_endpoints"

end
