(* ===== verification/SdkEndpoints.thy ===== *)
theory SdkEndpoints
  imports SdkTable
begin

section \<open>Calls of the generated client\<close>

text \<open>
  What a function of \<open>sdk.gen.ts\<close> does with its options, and the properties of all of them: the table agrees with the types, the
  protected parts of the service are called with a token, a call arrives as it was meant, and a reply that keeps to the documented
  types reaches the caller under its type.
\<close>

subsection \<open>The functions\<close>

text \<open>\<open>{ 'Content-Type': ct, ...options.headers }\<close>: the own members of what is spread; a \<open>Headers\<close> object has none.\<close>

definition spread_entries :: "headers_init option \<Rightarrow> (string \<times> jsval) list" where
  "spread_entries h = (case h of
     None \<Rightarrow> []
   | Some (HeadersObject hs) \<Rightarrow> []
   | Some (HeadersValue v) \<Rightarrow> (case object_entries v of Inr es \<Rightarrow> es | Inl e \<Rightarrow> []))"

definition with_content_type :: "string \<Rightarrow> headers_init option \<Rightarrow> headers_init" where
  "with_content_type ct h = HeadersValue (JObj (fold (\<lambda>(k, v). AList.update k v) (spread_entries h) [(''Content-Type'', JStr ct)]))"

definition endpoint_options :: "endpoint \<Rightarrow> call_options \<Rightarrow> call_options" where
  "endpoint_options e options =
     (let config = co_config options;
          config = (if ep_form e
            then config\<lparr>cf_bodySerializer := spread (Some (Some urlSearchParamsBodySerializer)) (cf_bodySerializer config)\<rparr> else config);
          config = (case ep_contentType e of Some ct \<Rightarrow> config\<lparr>cf_headers := Some (with_content_type ct (cf_headers config))\<rparr> | None \<Rightarrow> config)
      in options\<lparr>co_config := config, co_security := spread (ep_security e) (co_security options), co_url := ep_url e\<rparr>)"

definition call_endpoint :: "endpoint \<Rightarrow> env \<Rightarrow> client \<Rightarrow> call_options \<Rightarrow> js_throw + answer" where
  "call_endpoint e env cl options = makeMethodFn (ep_method e) env cl (endpoint_options e options)"

subsection \<open>The table\<close>

definition parse_seg :: "string \<Rightarrow> seg" where
  "parse_seg s = (if s \<noteq> [] \<and> hd s = CHR ''{'' \<and> last s = CHR ''}'' then Par (butlast (tl s)) else Lit s)"

definition route :: "string \<Rightarrow> seg list" where
  "route url = map parse_seg (tl (split_on (CHR ''/'') url))"

definition path_type :: "endpoint \<Rightarrow> (string \<times> bool \<times> ts) list" where
  "path_type e = (case member_type (ep_data e) ''path'' of Some t \<Rightarrow> members t | None \<Rightarrow> [])"

text \<open>A parameter of a path is required, and is a text, a number or one of some texts.\<close>

fun path_member :: "string \<times> bool \<times> ts \<Rightarrow> bool" where
  "path_member (k, opt, TString) = (\<not> opt)"
| "path_member (k, opt, TNumber) = (\<not> opt)"
| "path_member (k, opt, TUnion ts) = (\<not> opt \<and> list_all (\<lambda>t. case t of TLit s \<Rightarrow> True | _ \<Rightarrow> False) ts)"
| "path_member p = False"

text \<open>An endpoint agrees with its types: the same address, its path parameters are the members of the type of the path, and it
  names a content type exactly when the type has a body.\<close>

definition endpoint_typed :: "endpoint \<Rightarrow> bool" where
  "endpoint_typed e \<longleftrightarrow>
     member_type (ep_data e) ''url'' = Some (TLit (ep_url e)) \<and>
     route_text (route (ep_url e)) = ep_url e \<and> route (ep_url e) \<noteq> [] \<and> list_all seg_ok (route (ep_url e)) \<and>
     map fst (path_type e) = route_params (route (ep_url e)) \<and> list_all path_member (path_type e) \<and>
     ((ep_contentType e = None) = (member_type (ep_data e) ''body'' = Some TNever)) \<and>
     ep_method e \<in> {''GET'', ''POST'', ''PUT'', ''PATCH'', ''DELETE''} \<and> (ep_form e \<longrightarrow> ep_contentType e = Some ''application/x-www-form-urlencoded'')"

text \<open>The parts of the service that belong to an account or to the console.\<close>

definition protected :: "string \<Rightarrow> bool" where
  "protected url \<longleftrightarrow> starts_with ''/api/admin/'' url \<or> url = ''/api/me'' \<or> starts_with ''/api/me/'' url"

definition endpoint_secured :: "endpoint \<Rightarrow> bool" where
  "endpoint_secured e \<longleftrightarrow>
     (if protected (ep_url e) then ep_security e = Some [http_bearer]
      else ep_security e \<in> {None, Some [http_bearer], Some [http_basic]})"

text \<open>The statuses of the replies: those that are ok under \<open>Responses\<close>, the others under \<open>Errors\<close>.\<close>

definition endpoint_replies :: "endpoint \<Rightarrow> bool" where
  "endpoint_replies e \<longleftrightarrow>
     list_all (\<lambda>p. fst p \<in> {''200'', ''201''}) (members (ep_responses e)) \<and>
     list_all (\<lambda>p. fst p \<in> {''400'', ''401'', ''403'', ''404'', ''409'', ''429'', ''500'', ''502'', ''503''}) (members (ep_errors e))"

text \<open>An error is documented as an object or not described.\<close>

fun error_type :: "ts \<Rightarrow> bool" where
  "error_type (TObject fs) = True"
| "error_type TUnknown = True"
| "error_type t = False"

definition endpoint_errors :: "endpoint \<Rightarrow> bool" where
  "endpoint_errors e \<longleftrightarrow> list_all (\<lambda>p. error_type (snd (snd p))) (members (ep_errors e))"

definition endpoint_ok :: "endpoint \<Rightarrow> bool" where
  "endpoint_ok e \<longleftrightarrow> endpoint_typed e \<and> endpoint_secured e \<and> endpoint_replies e \<and> endpoint_errors e"

text \<open>The groups of the table are told apart by the beginning of the address.\<close>

definition area :: "string \<Rightarrow> nat" where
  "area url =
     (if starts_with ''/oauth2/'' url then 7
      else if starts_with ''/api/me/org'' url then 6
      else if starts_with ''/api/me'' url then 5
      else if starts_with ''/api/admin/'' url then
        (let c = hd (drop 11 url) in if c \<in> set ''cdel'' then 1 else if c \<in> set ''ot'' then 2 else 3)
      else if starts_with ''/api/'' url then 4 else 0)"

definition request_key :: "endpoint \<Rightarrow> string \<times> string" where
  "request_key e = (ep_method e, ep_url e)"

definition group_ok :: "nat \<Rightarrow> endpoint list \<Rightarrow> bool" where
  "group_ok k es \<longleftrightarrow> list_all (\<lambda>e. endpoint_ok e \<and> area (ep_url e) = k) es \<and> distinct (map request_key es)"

lemma open_endpoints_ok: "group_ok 0 open_endpoints"
  by code_simp

lemma admin_client_endpoints_ok: "group_ok 1 admin_client_endpoints"
  by code_simp

lemma admin_organization_endpoints_ok: "group_ok 2 admin_organization_endpoints"
  by code_simp

lemma admin_user_endpoints_ok: "group_ok 3 admin_user_endpoints"
  by code_simp

lemma account_endpoints_ok: "group_ok 4 account_endpoints"
  by code_simp

lemma me_endpoints_ok: "group_ok 5 me_endpoints"
  by code_simp

lemma me_organization_endpoints_ok: "group_ok 6 me_organization_endpoints"
  by code_simp

lemma oauth2_endpoints_ok: "group_ok 7 oauth2_endpoints"
  by code_simp

lemmas endpoint_groups_ok = open_endpoints_ok admin_client_endpoints_ok admin_organization_endpoints_ok admin_user_endpoints_ok
  account_endpoints_ok me_endpoints_ok me_organization_endpoints_ok oauth2_endpoints_ok

text \<open>Groups in the order of their areas make a table without repetitions.\<close>

definition table_from :: "nat \<Rightarrow> endpoint list \<Rightarrow> bool" where
  "table_from k es \<longleftrightarrow> list_all (\<lambda>e. endpoint_ok e \<and> k \<le> area (ep_url e)) es \<and> distinct (map request_key es)"

lemma group_table: "group_ok k es \<Longrightarrow> table_from k es"
  by (auto simp: group_ok_def table_from_def list_all_iff)

lemma table_step: "group_ok k xs \<Longrightarrow> table_from (Suc k) ys \<Longrightarrow> table_from k (xs @ ys)"
  by (fastforce simp: group_ok_def table_from_def list_all_iff request_key_def)

lemma endpoints_table: "table_from 0 endpoints"
  unfolding endpoints_def
  by (intro table_step group_table) (use endpoint_groups_ok in \<open>simp_all add: eval_nat_numeral\<close>)

lemma endpoint_checked: "e \<in> set endpoints \<Longrightarrow> endpoint_typed e \<and> endpoint_secured e \<and> endpoint_replies e \<and> endpoint_errors e"
  using endpoints_table by (auto simp: table_from_def list_all_iff endpoint_ok_def)

text \<open>C12. The functions of the client agree with their types: each asks for the address its options are typed for, its path parameters
  are the members of the type of the path, it names a content type exactly when it has a body, its documented responses have a status
  that is ok and its documented errors one that is not, and no two functions make the same request.\<close>

theorem endpoints_match_types:
  "list_all endpoint_typed endpoints \<and> list_all endpoint_replies endpoints \<and> distinct (map request_key endpoints)"
  using endpoints_table by (simp add: table_from_def list_all_iff endpoint_ok_def)

end
