(* ===== verification/SdkCalls.thy ===== *)
theory SdkCalls
  imports SdkEndpoints
begin

section \<open>Calls of the generated client arrive\<close>

text \<open>
  The properties of every function of the generated client: what is sent for a call, with which credentials, and what the caller gets
  for a reply; and the cases in which a call does not do what its signature says.
\<close>

subsection \<open>A call is resolved\<close>

text \<open>A client as \<open>createClient\<close> makes it, with a base address and possibly a token.\<close>

definition standard :: "string \<Rightarrow> config \<Rightarrow> bool" where
  "standard base config \<longleftrightarrow>
     cf_baseUrl config = Some base \<and> CHR ''{'' \<notin> set base \<and> cf_querySerializer config = Some defaultQuerySerializer \<and>
     cf_bodySerializer config = Some (Some jsonBodySerializer) \<and> cf_requestValidator config = None \<and>
     (cf_auth config = None \<or> (\<exists>t. cf_auth config = Some (Token t)))"

text \<open>The options of a call that its type allows: the parameters of the path, a query of plain names, and nothing of the configuration but headers.\<close>

definition plain_call :: "endpoint \<Rightarrow> call_options \<Rightarrow> bool" where
  "plain_call e options \<longleftrightarrow>
     (\<exists>h. co_config options = no_config\<lparr>cf_headers := h\<rparr>) \<and> co_security options = None \<and>
     list_all (seg_given (co_path options)) (route (ep_url e)) \<and> (co_path options = JUndef \<or> (\<exists>ps. co_path options = JObj ps)) \<and>
     (case co_query options of None \<Rightarrow> True | Some ps \<Rightarrow> list_all (\<lambda>(n, v). list_all query_char n \<and> query_value v) ps) \<and>
     (co_body options = JUndef \<or> \<not> ep_form e)"

lemma stringify_nonempty: "stringify v \<noteq> []"
  using stringify_hd [of v] by auto

text \<open>The options \<open>request\<close> gets from a function of the client.\<close>

definition sent_options :: "endpoint \<Rightarrow> call_options \<Rightarrow> call_options" where
  "sent_options e options = (let o' = endpoint_options e options in o'\<lparr>co_config := (co_config o')\<lparr>cf_method := Some (ep_method e)\<rparr>\<rparr>)"

lemma call_endpoint_eq: "call_endpoint e env cl options = request env cl (sent_options e options)"
  by (simp add: call_endpoint_def makeMethodFn_def sent_options_def Let_def)

lemma setAuthParams_http:
  assumes "cf_auth config = None \<or> (\<exists>t. cf_auth config = Some (Token t))" "auths \<in> {[], [http_bearer], [http_basic]}"
  shows "\<exists>hs. setAuthParams auths (cf_auth config) (headers, q) = Inr (hs, q)"
  using assms
  by (auto simp: getAuthToken_def put_token_def checkForExistence_def Let_def split: option.split)

lemma getUrl_route:
  assumes "list_all seg_ok segs" "segs \<noteq> []" "list_all (seg_given path) segs" "path = JUndef \<or> (\<exists>ps. path = JObj ps)" "CHR ''{'' \<notin> set base"
    and "(case q of None \<Rightarrow> search = [] | Some ps \<Rightarrow> defaultQuerySerializer ps = Inr search)" "CHR ''?'' \<notin> set search"
  shows "getUrl (Some base) path q defaultQuerySerializer (route_text segs)
    = Inr (base @ route_fill path segs @ (if search = [] then [] else ''?'' @ search))"
proof -
  have slash: "starts_with ''/'' (route_text segs)" using assms(2) by (cases segs) (simp_all add: route_text_def)
  have fill: "(if truthy path then defaultPathSerializer path (base @ route_text segs) else Inr (base @ route_text segs))
      = Inr (base @ route_fill path segs)"
  proof (cases "path = JUndef")
    case True
    have "seg_text s = seg_fill path s" if "s \<in> set segs" for s
    proof -
      have "seg_given path s" using that assms(3) by (simp add: list_all_iff)
      with True show ?thesis by (simp add: seg_given_def split: seg.splits)
    qed
    then have "route_text segs = route_fill path segs"
      unfolding route_text_def route_fill_def by (intro arg_cong [of _ _ concat] map_cong) auto
    with True show ?thesis by simp
  next
    case False
    with assms show ?thesis by (auto simp: defaultPathSerializer_base)
  qed
  have "\<not> starts_with ''?'' search" using assms(7) by (cases search) auto
  with slash fill assms(6) show ?thesis
    by (cases q) (simp_all add: getUrl_def)
qed

text \<open>The query a call sends.\<close>

lemma query_search:
  assumes "case q of None \<Rightarrow> True | Some ps \<Rightarrow> list_all (\<lambda>(n, v). list_all query_char n \<and> query_value v) ps"
  obtains search where "case q of None \<Rightarrow> search = [] | Some ps \<Rightarrow> defaultQuerySerializer ps = Inr search"
    "parse_params search = (case q of None \<Rightarrow> [] | Some ps \<Rightarrow> concat (map query_texts ps))" "CHR ''?'' \<notin> set search" "CHR ''#'' \<notin> set search"
proof (cases q)
  case None
  then show ?thesis using that [of "[]"] by (simp add: parse_params_def)
next
  case (Some ps)
  with assms defaultQuerySerializer_arrives [of ps] that show ?thesis by auto
qed

text \<open>What a plain call resolves to.\<close>

lemma call_resolved:
  assumes "e \<in> set endpoints" "standard base config" "plain_call e options"
  obtains ro search where "beforeRequest config (sent_options e options) = Inr ro"
    "ro_url ro = base @ route_fill (co_path options) (route (ep_url e)) @ (if search = [] then [] else ''?'' @ search)"
    "parse_params search = (case co_query options of None \<Rightarrow> [] | Some ps \<Rightarrow> concat (map query_texts ps))"
    "CHR ''#'' \<notin> set search" "search = [] \<or> hd search \<noteq> CHR ''?''"
    "ro_serialized ro = (if co_body options = JUndef then None else map_option SText (json_text (co_body options)))"
    "ro_config ro = spread_config config (co_config (sent_options e options))"
    "case co_query options of None \<Rightarrow> search = [] | Some ps \<Rightarrow> defaultQuerySerializer ps = Inr search"
proof -
  let ?o = "sent_options e options"
  let ?c = "spread_config config (co_config ?o)"
  have typed: "endpoint_typed e" and secured: "endpoint_secured e" using endpoint_checked [OF assms(1)] by simp_all
  obtain h where h: "co_config options = no_config\<lparr>cf_headers := h\<rparr>" using assms(3) by (auto simp: plain_call_def)
  obtain search where search: "case co_query options of None \<Rightarrow> search = [] | Some ps \<Rightarrow> defaultQuerySerializer ps = Inr search"
    "parse_params search = (case co_query options of None \<Rightarrow> [] | Some ps \<Rightarrow> concat (map query_texts ps))"
    "CHR ''?'' \<notin> set search" "CHR ''#'' \<notin> set search"
    using assms(3) query_search [of "co_query options"] unfolding plain_call_def by metis
  have no_mark: "search = [] \<or> hd search \<noteq> CHR ''?''" using search(3) hd_in_set [of search] by fastforce
  have members: "co_security ?o = ep_security e" "co_path ?o = co_path options" "co_query ?o = co_query options"
      "co_body ?o = co_body options" "co_url ?o = ep_url e"
    using assms(3) by (simp_all add: sent_options_def endpoint_options_def plain_call_def spread_def Let_def)
  have c: "cf_baseUrl ?c = Some base" "CHR ''{'' \<notin> set base" "cf_querySerializer ?c = Some defaultQuerySerializer" "cf_requestValidator ?c = None"
      "cf_auth ?c = cf_auth config" "cf_auth config = None \<or> (\<exists>t. cf_auth config = Some (Token t))"
      "\<not> ep_form e \<Longrightarrow> cf_bodySerializer ?c = Some (Some jsonBodySerializer)"
    using assms(2) h
    by (auto simp: standard_def spread_config_def spread_def sent_options_def endpoint_options_def no_config_def Let_def split: option.split)
  have url: "buildUrl ?c (co_path options) (co_query options) (ep_url e)
      = Inr (base @ route_fill (co_path options) (route (ep_url e)) @ (if search = [] then [] else ''?'' @ search))"
    using getUrl_route [of "route (ep_url e)" "co_path options" base] typed assms(3) search c
    by (simp add: buildUrl_def endpoint_typed_def plain_call_def)
  have body: "(case has_serializer ?c of Some f \<Rightarrow> if co_body options \<noteq> JUndef then f (co_body options) else Inr None | None \<Rightarrow> Inr None)
      = Inr (if co_body options = JUndef then None else map_option SText (json_text (co_body options)))"
    using c(7) assms(3) by (auto simp: plain_call_def has_serializer_def jsonBodySerializer_def split: option.split)
  obtain hs where auth: "(case ep_security e of Some auths \<Rightarrow> setAuthParams auths (cf_auth config) (mergeHeaders [cf_headers config, cf_headers (co_config ?o)], co_query options)
      | None \<Rightarrow> Inr (mergeHeaders [cf_headers config, cf_headers (co_config ?o)], co_query options)) = Inr (hs, co_query options)"
    using setAuthParams_http [OF c(6)] secured unfolding endpoint_secured_def by (force split: if_splits)
  define serialized where "serialized = (if co_body options = JUndef then None else map_option SText (json_text (co_body options)))"
  have "beforeRequest config ?o = Inr \<lparr>ro_config = ?c,
      ro_headers = (if co_body options = JUndef \<or> serialized = Some (SText []) then h_delete ''Content-Type'' hs else hs), ro_query = co_query options,
      ro_serialized = serialized, ro_url = base @ route_fill (co_path options) (route (ep_url e)) @ (if search = [] then [] else ''?'' @ search)\<rparr>"
    by (simp only: beforeRequest_def Let_def members c(4,5) auth body url optional_hook_def bind_res.simps prod.case option.case
        flip: serialized_def)
  then show ?thesis by (rule that [of _ search]) (use search no_mark in \<open>simp_all add: serialized_def\<close>)
qed

lemma call_method_sent: "c = spread_config config (co_config (sent_options e options)) \<Longrightarrow> call_method c = ep_method e"
  by (simp add: call_method_def spread_config_def spread_def sent_options_def Let_def)

text \<open>The request of a call that goes out, and what becomes of it: the network is asked with this request and no other.\<close>

lemma call_sent:
  assumes "e \<in> set endpoints" "standard base (cl_config cl)" "plain_call e options" "cl_request cl = []" "cf_fetch (cl_config cl) = None"
    "ep_method e = ''GET'' \<longrightarrow> co_body options = JUndef" "\<And>p. fst env (base @ p)"
  obtains rq search where
    "attempt env cl (sent_options e options) = (case snd env rq of
       Inl err \<Rightarrow> ((Some rq, None), Inl err)
     | Inr rs \<Rightarrow> receive cl (spread_config (cl_config cl) (co_config (sent_options e options))) rq rs)"
    "rq_url rq = base @ route_fill (co_path options) (route (ep_url e)) @ (if search = [] then [] else ''?'' @ search)"
    "parse_params search = (case co_query options of None \<Rightarrow> [] | Some ps \<Rightarrow> concat (map query_texts ps))" "CHR ''#'' \<notin> set search"
    "search = [] \<or> hd search \<noteq> CHR ''?''" "rq_method rq = ep_method e"
    "rq_body rq = (if co_body options = JUndef then NoBody
       else case json_text (co_body options) of Some t \<Rightarrow> if t = [] then NullBody else SerializedBody (SText t) | None \<Rightarrow> NullBody)"
proof -
  let ?o = "sent_options e options"
  let ?c = "spread_config (cl_config cl) (co_config ?o)"
  obtain ro search where ro: "beforeRequest (cl_config cl) ?o = Inr ro"
    "ro_url ro = base @ route_fill (co_path options) (route (ep_url e)) @ (if search = [] then [] else ''?'' @ search)"
    "parse_params search = (case co_query options of None \<Rightarrow> [] | Some ps \<Rightarrow> concat (map query_texts ps))" "CHR ''#'' \<notin> set search"
    "search = [] \<or> hd search \<noteq> CHR ''?''" "ro_config ro = ?c"
    "ro_serialized ro = (if co_body options = JUndef then None else map_option SText (json_text (co_body options)))"
    using assms(1-3) by (rule call_resolved)
  define rq where "rq = \<lparr>rq_url = ro_url ro, rq_method = call_method (ro_config ro), rq_headers = ro_headers ro,
      rq_body = getValidRequestBody (co_body ?o) (has_serializer (ro_config ro) \<noteq> None) (Some (ro_serialized ro))\<rparr>"
  obtain h where "co_config options = no_config\<lparr>cf_headers := h\<rparr>" using assms(3) by (auto simp: plain_call_def)
  then have fetch: "cf_fetch ?c = None" and serializer: "\<not> ep_form e \<Longrightarrow> has_serializer ?c \<noteq> None"
    using assms(2,5) by (auto simp: standard_def has_serializer_def spread_config_def spread_def sent_options_def endpoint_options_def no_config_def
        Let_def split: option.split)
  have meth: "rq_method rq = ep_method e" using call_method_sent [OF ro(6)] by (simp add: rq_def)
  have "co_body ?o = co_body options" by (simp add: sent_options_def endpoint_options_def Let_def)
  moreover have "co_body options = JUndef \<or> \<not> ep_form e" using assms(3) by (simp add: plain_call_def)
  ultimately have body: "rq_body rq = (if co_body options = JUndef then NoBody
       else case json_text (co_body options) of Some t \<Rightarrow> if t = [] then NullBody else SerializedBody (SText t) | None \<Rightarrow> NullBody)"
    using serializer by (auto simp: rq_def ro(6,7) getValidRequestBody_def split: option.split)
  have "ep_method e \<in> {''GET'', ''POST'', ''PUT'', ''PATCH'', ''DELETE''}"
    using endpoint_checked [OF assms(1)] by (simp only: endpoint_typed_def)
  then have "new_Request (fst env) rq = Inr rq"
    using assms(6,7) ro(2) by (auto simp: new_Request_def meth body rq_def [THEN arg_cong [of _ _ rq_url]])
  then have "attempt env cl ?o = (case snd env rq of Inl err \<Rightarrow> ((Some rq, None), Inl err) | Inr rs \<Rightarrow> receive cl ?c rq rs)"
    unfolding attempt_def ro(1) sum.case rq_def [symmetric] using assms(4) fetch ro(6) by (simp add: call_fetch_def split: sum.split)
  with ro(2-5) meth body show ?thesis by (intro that [of rq search]) (simp_all add: rq_def)
qed

subsection \<open>Addresses\<close>

text \<open>How an address is resolved: a segment of one dot is dropped and one of two dots takes the segment before it away; at the end
  either leaves an empty segment.  A dot may be percent-encoded.\<close>

fun resolve_dots :: "string list \<Rightarrow> string list \<Rightarrow> string list" where
  "resolve_dots done' [] = rev done'"
| "resolve_dots done' (s # r) =
     (if uri_decode s = ''..'' then resolve_dots (if r = [] then [] # tl done' else tl done') r
      else if uri_decode s = ''.'' then resolve_dots (if r = [] then [] # done' else done') r
      else resolve_dots (s # done') r)"

text \<open>The segments of the path of an address after its origin, and its query.\<close>

definition address_path :: "string \<Rightarrow> string list" where
  "address_path url = resolve_dots [] (tl (split_on (CHR ''/'') (takeWhile (\<lambda>c. c \<noteq> CHR ''?'' \<and> c \<noteq> CHR ''#'') url)))"

definition address_query :: "string \<Rightarrow> params" where
  "address_query url = parse_params (takeWhile (\<lambda>c. c \<noteq> CHR ''#'') (dropWhile (\<lambda>c. c \<noteq> CHR ''?'' \<and> c \<noteq> CHR ''#'') url))"

text \<open>What a server below a base reads from an address: the decoded segments, and the query.\<close>

definition read_address :: "string \<Rightarrow> string \<Rightarrow> (string list \<times> params) option" where
  "read_address base url =
     (if take (length base) url = base \<and> CHR ''?'' \<notin> set base \<and> CHR ''#'' \<notin> set base
      then Some (map uri_decode (address_path (drop (length base) url)), address_query (drop (length base) url)) else None)"

lemma resolve_dots_none: "list_all (\<lambda>s. uri_decode s \<notin> {''.'', ''..''}) segs \<Longrightarrow> resolve_dots done' segs = rev done' @ segs"
  by (induction segs arbitrary: done') auto

lemma before_query:
  assumes "CHR ''?'' \<notin> set p" "CHR ''#'' \<notin> set p"
  shows "takeWhile (\<lambda>c. c \<noteq> CHR ''?'' \<and> c \<noteq> CHR ''#'') (p @ (if q = [] then [] else ''?'' @ q)) = p"
    "dropWhile (\<lambda>c. c \<noteq> CHR ''?'' \<and> c \<noteq> CHR ''#'') (p @ (if q = [] then [] else ''?'' @ q)) = (if q = [] then [] else ''?'' @ q)"
proof -
  have p: "\<forall>c\<in>set p. c \<noteq> CHR ''?'' \<and> c \<noteq> CHR ''#''" using assms by auto
  then show "takeWhile (\<lambda>c. c \<noteq> CHR ''?'' \<and> c \<noteq> CHR ''#'') (p @ (if q = [] then [] else ''?'' @ q)) = p"
    "dropWhile (\<lambda>c. c \<noteq> CHR ''?'' \<and> c \<noteq> CHR ''#'') (p @ (if q = [] then [] else ''?'' @ q)) = (if q = [] then [] else ''?'' @ q)"
    by (simp_all add: takeWhile_append2 dropWhile_append2)
qed

lemma parse_params_mark: "CHR ''#'' \<notin> set q \<Longrightarrow> parse_params (takeWhile (\<lambda>c. c \<noteq> CHR ''#'') (if q = [] then [] else ''?'' @ q))
    = (if q = [] then [] else parse_params (''?'' @ q))"
proof -
  assume "CHR ''#'' \<notin> set q"
  then have "takeWhile (\<lambda>c. c \<noteq> CHR ''#'') q = q" by (intro takeWhile_eq_all_conv [THEN iffD2]) auto
  then show ?thesis by (simp add: parse_params_def del: takeWhile_eq_all_conv)
qed

text \<open>A call whose parameters stay in their segments, and that \<open>Request\<close> accepts: no path parameter is one or two dots, and there is no body
  with \<open>GET\<close>.\<close>

definition exact_call :: "endpoint \<Rightarrow> call_options \<Rightarrow> bool" where
  "exact_call e options \<longleftrightarrow> plain_call e options \<and> (ep_method e = ''GET'' \<longrightarrow> co_body options = JUndef) \<and>
     list_all (\<lambda>s. seg_value (co_path options) s \<notin> {''.'', ''..''}) (route (ep_url e))"

lemma route_fill_read:
  assumes "list_all seg_ok segs" "list_all (\<lambda>s. seg_value path s \<notin> {''.'', ''..''}) segs" "CHR ''#'' \<notin> set q" "CHR ''?'' \<notin> set base" "CHR ''#'' \<notin> set base"
    "parse_params q = ps" "q = [] \<or> hd q \<noteq> CHR ''?''"
  shows "read_address base (base @ route_fill path segs @ (if q = [] then [] else ''?'' @ q)) = Some (map (seg_value path) segs, ps)"
proof -
  let ?p = "route_fill path segs"
  have plain: "CHR ''?'' \<notin> set ?p" "CHR ''#'' \<notin> set ?p" using route_fill_plain [OF assms(1)] by auto
  have decoded: "map uri_decode (tl (split_on (CHR ''/'') ?p)) = map (seg_value path) segs"
    using route_fill_decodes [OF assms(1), of path] by (simp add: map_tl)
  have "list_all (\<lambda>s. s \<notin> {''.'', ''..''}) (map (seg_value path) segs)" using assms(2) by (simp add: list.pred_map comp_def)
  then have "list_all (\<lambda>s. uri_decode s \<notin> {''.'', ''..''}) (tl (split_on (CHR ''/'') ?p))"
    by (simp only: list.pred_map comp_def flip: decoded)
  then have "address_path (?p @ (if q = [] then [] else ''?'' @ q)) = tl (split_on (CHR ''/'') ?p)"
    by (simp add: address_path_def before_query [OF plain] resolve_dots_none del: append_is_Nil_conv)
  moreover have "address_query (?p @ (if q = [] then [] else ''?'' @ q)) = ps"
    unfolding address_query_def before_query(2) [OF plain] parse_params_mark [OF assms(3)] using assms(6,7)
    by (cases q) (auto simp: parse_params_def)
  ultimately show ?thesis using assms(4,5) decoded by (simp add: read_address_def del: append_is_Nil_conv)
qed

text \<open>C8. A call arrives as it was meant.  For every function of the client and every call of it whose path parameters are no dot segments and which has
  no body with \<open>GET\<close>, a client without request interceptors below a base without query or fragment asks the network once,
  with the method of the function; the server, which resolves dots, cuts the query off and decodes, reads the literals of the template and the path
  parameters of the call in their segments and the query parameters of the call; the JSON body parses to the body of the call, and
  there is none without one.\<close>

theorem endpoint_calls_arrive:
  assumes "e \<in> set endpoints" and "standard base (cl_config cl)" and "exact_call e options" and "CHR ''?'' \<notin> set base" and "CHR ''#'' \<notin> set base"
    and "cl_request cl = []" and "cf_fetch (cl_config cl) = None" and "\<And>p. fst env (base @ p)"
  shows "\<exists>rq. attempt env cl (sent_options e options) = (case snd env rq of
       Inl err \<Rightarrow> ((Some rq, None), Inl err)
     | Inr rs \<Rightarrow> receive cl (spread_config (cl_config cl) (co_config (sent_options e options))) rq rs) \<and>
    rq_method rq = ep_method e \<and>
    read_address base (rq_url rq) = Some (map (seg_value (co_path options)) (route (ep_url e)),
      case co_query options of None \<Rightarrow> [] | Some ps \<Rightarrow> concat (map query_texts ps)) \<and>
    (co_body options = JUndef \<longrightarrow> rq_body rq = NoBody) \<and>
    (json_ok (co_body options) \<longrightarrow> (\<exists>text. rq_body rq = SerializedBody (SText text) \<and> json_parse text = Some (co_body options)))"
proof -
  have plain: "plain_call e options" "ep_method e = ''GET'' \<longrightarrow> co_body options = JUndef"
    and dots: "list_all (\<lambda>s. seg_value (co_path options) s \<notin> {''.'', ''..''}) (route (ep_url e))"
    using assms(3) by (simp_all add: exact_call_def)
  obtain rq search where rq: "attempt env cl (sent_options e options) = (case snd env rq of
       Inl err \<Rightarrow> ((Some rq, None), Inl err)
     | Inr rs \<Rightarrow> receive cl (spread_config (cl_config cl) (co_config (sent_options e options))) rq rs)"
    "rq_url rq = base @ route_fill (co_path options) (route (ep_url e)) @ (if search = [] then [] else ''?'' @ search)"
    "parse_params search = (case co_query options of None \<Rightarrow> [] | Some ps \<Rightarrow> concat (map query_texts ps))" "CHR ''#'' \<notin> set search"
    "search = [] \<or> hd search \<noteq> CHR ''?''" "rq_method rq = ep_method e"
    "rq_body rq = (if co_body options = JUndef then NoBody
       else case json_text (co_body options) of Some t \<Rightarrow> if t = [] then NullBody else SerializedBody (SText t) | None \<Rightarrow> NullBody)"
    using assms(1,2) plain(1) assms(6,7) plain(2) assms(8) by (rule call_sent)
  have ok: "list_all seg_ok (route (ep_url e))" using endpoint_checked [OF assms(1)] by (simp add: endpoint_typed_def)
  have "json_ok (co_body options) \<longrightarrow> rq_body rq = SerializedBody (SText (stringify (co_body options)))"
    using rq(7) stringify_nonempty [of "co_body options"] by (auto simp: json_text_def dest: json_ok_not_skipped)
  then have "json_ok (co_body options) \<longrightarrow> (\<exists>text. rq_body rq = SerializedBody (SText text) \<and> json_parse text = Some (co_body options))"
    using json_parse_stringify by blast
  moreover have "co_body options = JUndef \<longrightarrow> rq_body rq = NoBody" using rq(7) by simp
  moreover have "read_address base (rq_url rq) = Some (map (seg_value (co_path options)) (route (ep_url e)),
      case co_query options of None \<Rightarrow> [] | Some ps \<Rightarrow> concat (map query_texts ps))"
    unfolding rq(2) using ok dots rq(4) assms(4,5) rq(3,5) by (rule route_fill_read)
  ultimately show ?thesis using rq(1,6) by (intro exI [of _ rq] conjI) assumption+
qed

text \<open>An update of a member's organization, with a body.\<close>

definition sample_update :: call_options where
  "sample_update = \<lparr>co_config = no_config\<lparr>cf_headers := None\<rparr>, co_body = JObj [(''name'', JStr ''A'')],
     co_path = JObj [(''slug'', JStr ''a/b'')], co_query = None, co_security = None, co_url = []\<rparr>"

lemma standard_sample: "standard ''https://id.example'' (cl_config sample_client)"
  by (simp add: standard_def sample_simps drop_slash_def)

lemma plain_sample: "plain_call patchApiAdminOrganizationsSlug sample_update"
proof -
  have "route (ep_url patchApiAdminOrganizationsSlug) = [Lit ''api'', Lit ''admin'', Lit ''organizations'', Par ''slug'']" by code_simp
  then show ?thesis by (auto simp: plain_call_def sample_update_def seg_given_def patchApiAdminOrganizationsSlug_def)
qed

lemma listed_sample: "patchApiAdminOrganizationsSlug \<in> set endpoints"
  by (simp add: endpoints_def admin_organization_endpoints_def)

theorem endpoint_calls_arrive_witness:
  "\<exists>rq. attempt (\<lambda>u. True, \<lambda>rq. Inl TypeErr) sample_client (sent_options patchApiAdminOrganizationsSlug sample_update) = ((Some rq, None), Inl TypeErr) \<and>
    rq_method rq = ''PATCH'' \<and> read_address ''https://id.example'' (rq_url rq) = Some ([''api'', ''admin'', ''organizations'', ''a/b''], []) \<and>
    (\<exists>text. rq_body rq = SerializedBody (SText text) \<and> json_parse text = Some (JObj [(''name'', JStr ''A'')]))"
proof -
  have "route (ep_url patchApiAdminOrganizationsSlug) = [Lit ''api'', Lit ''admin'', Lit ''organizations'', Par ''slug'']" by code_simp
  then have parts: "map (seg_value (co_path sample_update)) (route (ep_url patchApiAdminOrganizationsSlug)) = [''api'', ''admin'', ''organizations'', ''a/b'']"
    by (simp add: sample_update_def)
  then have "list_all (\<lambda>x. x \<notin> {''.'', ''..''}) (map (seg_value (co_path sample_update)) (route (ep_url patchApiAdminOrganizationsSlug)))" by simp
  then have exact: "exact_call patchApiAdminOrganizationsSlug sample_update"
    using plain_sample by (simp add: exact_call_def list.pred_map comp_def patchApiAdminOrganizationsSlug_def [THEN arg_cong [of _ _ ep_method]])
  have sample: "co_body sample_update = JObj [(''name'', JStr ''A'')]" "co_query sample_update = None"
    "ep_method patchApiAdminOrganizationsSlug = ''PATCH''" "json_ok (JObj [(''name'', JStr ''A'')])"
    by (simp_all add: sample_update_def patchApiAdminOrganizationsSlug_def)
  have "cl_request sample_client = []" "cf_fetch (cl_config sample_client) = None" by (simp_all add: sample_simps)
  then show ?thesis
    using endpoint_calls_arrive [OF listed_sample standard_sample exact, of "(\<lambda>u. True, \<lambda>rq. Inl TypeErr)"] sample unfolding parts by simp
qed

subsection \<open>Credentials\<close>

text \<open>C9. Every function for the console and for the account of the user sends the token of the client as a bearer token, whatever
  headers the caller gives; and a function that declares no security does not send it: its \<open>Authorization\<close> is the one of the headers.\<close>

theorem protected_calls_carry_token:
  assumes "e \<in> set endpoints" and "standard base config" and "plain_call e options" and "cf_auth config = Some (Token t)" and "t \<noteq> []"
  shows "\<exists>ro. beforeRequest config (sent_options e options) = Inr ro \<and>
    (protected (ep_url e) \<longrightarrow> h_get (ro_headers ro) ''Authorization'' = Some (''Bearer '' @ t)) \<and>
    (ep_security e = None \<longrightarrow> h_get (ro_headers ro) ''Authorization'' =
       h_get (mergeHeaders [cf_headers config, cf_headers (co_config (sent_options e options))]) ''Authorization'')"
proof -
  let ?o = "sent_options e options"
  obtain ro where ro: "beforeRequest config ?o = Inr ro" using assms(1-3) by (rule call_resolved)
  have "co_security ?o = ep_security e" using assms(3) by (simp add: sent_options_def endpoint_options_def plain_call_def spread_def Let_def)
  moreover have "protected (ep_url e) \<longrightarrow> ep_security e = Some [http_bearer]"
    using endpoint_checked [OF assms(1)] by (simp add: endpoint_secured_def)
  moreover have "cf_auth (spread_config config (co_config ?o)) = Some (Token t)"
    using assms(3,4) by (auto simp: plain_call_def sent_options_def endpoint_options_def spread_config_def spread_def no_config_def Let_def split: option.split)
  ultimately show ?thesis using credentials_where_declared [OF ro _ assms(5)] ro by auto
qed

theorem protected_calls_carry_token_witness:
  "\<exists>ro. beforeRequest (cl_config sample_client) (sent_options patchApiAdminOrganizationsSlug sample_update) = Inr ro \<and>
     h_get (ro_headers ro) ''Authorization'' = Some ''Bearer tk''"
proof -
  have "cf_auth (cl_config sample_client) = Some (Token ''tk'')" by (simp add: sample_simps)
  moreover have "protected (ep_url patchApiAdminOrganizationsSlug)" by code_simp
  ultimately show ?thesis using protected_calls_carry_token [OF listed_sample standard_sample plain_sample, of "''tk''"] by auto
qed

subsection \<open>Replies\<close>

lemma nat_digits_inj: "nat_digits m = nat_digits n \<Longrightarrow> m = n"
  using parse_nat_digits [of "[]" m] parse_nat_digits [of "[]" n] by simp

lemma status_digits:
  "nat_digits 200 = ''200''" "nat_digits 201 = ''201''" "nat_digits 400 = ''400''" "nat_digits 401 = ''401''" "nat_digits 403 = ''403''"
  "nat_digits 404 = ''404''" "nat_digits 409 = ''409''" "nat_digits 429 = ''429''" "nat_digits 500 = ''500''" "nat_digits 502 = ''502''"
  "nat_digits 503 = ''503''"
  by code_simp+

lemma documented_response: "endpoint_replies e \<Longrightarrow> member_type (ep_responses e) (nat_digits n) = Some t \<Longrightarrow> n \<in> {200, 201}"
proof -
  assume e: "endpoint_replies e" and "member_type (ep_responses e) (nat_digits n) = Some t"
  then obtain opt where "(nat_digits n, opt, t) \<in> set (members (ep_responses e))"
    by (auto simp: member_type_def dest: map_of_SomeD)
  with e have "nat_digits n \<in> {nat_digits 200, nat_digits 201}"
    by (force simp: endpoint_replies_def list_all_iff status_digits)
  then show ?thesis by (auto dest: nat_digits_inj)
qed

lemma documented_error: "endpoint_replies e \<Longrightarrow> member_type (ep_errors e) (nat_digits n) = Some t \<Longrightarrow> n \<in> {400, 401, 403, 404, 409, 429, 500, 502, 503}"
proof -
  assume e: "endpoint_replies e" and "member_type (ep_errors e) (nat_digits n) = Some t"
  then obtain opt where "(nat_digits n, opt, t) \<in> set (members (ep_errors e))"
    by (auto simp: member_type_def dest: map_of_SomeD)
  with e have "nat_digits n \<in> nat_digits ` {400, 401, 403, 404, 409, 429, 500, 502, 503}"
    by (force simp: endpoint_replies_def list_all_iff status_digits)
  then show ?thesis by (auto dest: nat_digits_inj)
qed

text \<open>A client without interceptors and hooks, and a reply in JSON.\<close>

definition plain_reader :: "client \<Rightarrow> bool" where
  "plain_reader cl \<longleftrightarrow> cl_error cl = [] \<and> cl_request cl = [] \<and> cl_response cl = [] \<and> cf_parseAs (cl_config cl) = Some PaAuto \<and>
     cf_responseStyle (cl_config cl) = None \<and> cf_throwOnError (cl_config cl) \<noteq> Some True \<and> cf_responseValidator (cl_config cl) = None \<and>
     cf_responseTransformer (cl_config cl) = None \<and> cf_fetch (cl_config cl) = None"

text \<open>A reply that is read as JSON: its text is JSON in any layout, its content type is \<open>application/json\<close> or one with the suffix \<open>+json\<close>, with or without parameters,
  and it does not announce an empty body.\<close>

definition json_reply :: "response \<Rightarrow> jsval \<Rightarrow> bool" where
  "json_reply rs v \<longleftrightarrow> (\<exists>text. rs_text rs = Inr text \<and> json_parse text = Some v) \<and>
     getParseAs (h_get (rs_headers rs) ''Content-Type'') = Some PaJson \<and> h_get (rs_headers rs) ''Content-Length'' \<noteq> Some ''0''"

lemma json_parse_empty: "json_parse [] = None"
  by code_simp

lemma response_data_json:
  assumes "json_reply rs v" "cf_parseAs opts = Some PaAuto" "cf_responseValidator opts = None" "cf_responseTransformer opts = None" "rs_status rs \<noteq> 204"
  shows "response_data opts rs = Inr (Value v)"
proof -
  obtain b where b: "rs_text rs = Inr b" "json_parse b = Some v"
    and reply: "getParseAs (h_get (rs_headers rs) ''Content-Type'') = Some PaJson" "h_get (rs_headers rs) ''Content-Length'' \<noteq> Some ''0''"
    using assms(1) by (auto simp only: json_reply_def)
  have "read_mode opts rs = PaJson" by (simp only: read_mode_def assms(2) reply(1) simp_thms if_True option.case)
  moreover have "json_data opts rs = Inr (Value v)"
    using b json_parse_empty assms(3,4) by (auto simp: json_data_def optional_hook_def)
  ultimately show ?thesis using assms(5) reply(2) unfolding response_data_def Let_def by (simp only: if_False simp_thms parse_as.case)
qed

text \<open>The error of such a reply: the value itself, or some value when it is falsy.\<close>

lemma response_error_json: "json_reply rs v \<Longrightarrow> \<exists>e. or_empty (response_error rs) = Thrown e \<and> (truthy v \<longrightarrow> e = v)"
  by (cases v) (auto simp: response_error_def json_reply_def or_empty_def)

lemma object_truthy: "conforms (TObject fs) v \<Longrightarrow> truthy v"
  by (cases v) simp_all

lemma error_conforms: "error_type t \<Longrightarrow> conforms t v \<Longrightarrow> (truthy v \<longrightarrow> e = v) \<Longrightarrow> conforms t e"
  by (cases t rule: error_type.cases) (use object_truthy in auto)

lemma documented_error_type: "endpoint_errors e \<Longrightarrow> member_type (ep_errors e) k = Some t \<Longrightarrow> error_type t"
  by (auto simp: member_type_def endpoint_errors_def list_all_iff dest!: map_of_SomeD)

lemma spread_sent:
  assumes "plain_call e options" "plain_reader cl"
  shows "cf_parseAs (spread_config (cl_config cl) (co_config (sent_options e options))) = Some PaAuto"
    "cf_responseValidator (spread_config (cl_config cl) (co_config (sent_options e options))) = None"
    "cf_responseTransformer (spread_config (cl_config cl) (co_config (sent_options e options))) = None"
    "cf_responseStyle (spread_config (cl_config cl) (co_config (sent_options e options))) = None"
    "cf_fetch (spread_config (cl_config cl) (co_config (sent_options e options))) = None"
    "spread (cf_throwOnError (cl_config cl)) (cf_throwOnError (co_config (sent_options e options))) \<noteq> Some True"
    "spread (cf_responseStyle (cl_config cl)) (cf_responseStyle (co_config (sent_options e options))) = None"
  using assms by (auto simp: plain_call_def plain_reader_def sent_options_def endpoint_options_def spread_config_def spread_def no_config_def Let_def
      split: option.split)

text \<open>C10. A reply that keeps to the documentation reaches the caller under its type.  For every function of the client, every plain call of it
  without a body on \<open>GET\<close>, and a client with the default reading mode and style and without interceptors and hooks: a JSON reply
  with a status documented as a response is returned as \<open>data\<close> of the documented type, and one with a status documented as an error is
  returned as \<open>error\<close> of the documented type.\<close>

theorem replies_as_documented:
  assumes "e \<in> set endpoints" and "standard base (cl_config cl)" and "plain_call e options" and "plain_reader cl"
    and "ep_method e = ''GET'' \<longrightarrow> co_body options = JUndef" and "\<And>p. fst env (base @ p)" and "\<And>rq. snd env rq = Inr rs"
    and "json_reply rs v"
  shows "(\<forall>t. member_type (ep_responses e) (nat_digits (rs_status rs)) = Some t \<and> conforms t v \<longrightarrow>
      (\<exists>data rq. call_endpoint e env cl options = Inr (DataFields (Value data) rq rs) \<and> conforms t data)) \<and>
    (\<forall>t. member_type (ep_errors e) (nat_digits (rs_status rs)) = Some t \<and> conforms t v \<longrightarrow>
      (\<exists>error rq. call_endpoint e env cl options = Inr (ErrorFields (Thrown error) (Some rq) (Some rs)) \<and> conforms t error))"
proof -
  let ?c = "spread_config (cl_config cl) (co_config (sent_options e options))"
  have replies: "endpoint_replies e" "endpoint_errors e" using endpoint_checked [OF assms(1)] by simp_all
  have reader: "cl_request cl = []" "cl_response cl = []" "cl_error cl = []" "cf_fetch (cl_config cl) = None"
    using assms(4) by (simp_all add: plain_reader_def)
  obtain rq where rq: "attempt env cl (sent_options e options) = receive cl ?c rq rs"
    using assms(1-3) reader(1,4) assms(5,6) by (rule call_sent) (simp add: assms(7))
  note plain = spread_sent [OF assms(3,4)]
  obtain error where error: "or_empty (response_error rs) = Thrown error" "truthy v \<longrightarrow> error = v"
    using response_error_json [OF assms(8)] by blast
  have "call_endpoint e env cl options = Inr (DataFields (Value v) rq rs)" if "rs_status rs \<in> {200, 201}"
    using that reader response_data_json [OF assms(8), of ?c] plain
    by (auto simp: call_endpoint_eq request_def rq receive_def data_answer_def rs_ok_def)
  moreover have "call_endpoint e env cl options = Inr (ErrorFields (Thrown error) (Some rq) (Some rs))"
    if "rs_status rs \<in> {400, 401, 403, 404, 409, 429, 500, 502, 503}"
    using that reader error(1) plain by (auto simp: call_endpoint_eq request_def rq receive_def rs_ok_def)
  moreover have "conforms t error" if "member_type (ep_errors e) (nat_digits (rs_status rs)) = Some t" "conforms t v" for t
    using documented_error_type [OF replies(2) that(1)] that(2) error(2) by (rule error_conforms)
  ultimately show ?thesis using documented_response [OF replies(1)] documented_error [OF replies(1)] by meson
qed

text \<open>A refused list of applications.\<close>

definition sample_list :: call_options where
  "sample_list = \<lparr>co_config = no_config\<lparr>cf_headers := None\<rparr>, co_body = JUndef, co_path = JUndef, co_query = None, co_security = None, co_url = []\<rparr>"

definition sample_refusal :: jsval where
  "sample_refusal = JObj [(''error'', JObj [(''code'', JStr ''AUTH_REQUIRED'')])]"

definition sample_reply :: response where
  "sample_reply = \<lparr>rs_status = 401, rs_headers = [(''content-type'', ''application/json; charset=utf-8''), (''content-length'', ''38'')],
     rs_text = Inr (stringify sample_refusal), rs_formData = Inr []\<rparr>"

theorem replies_as_documented_witness:
  "\<exists>error rq. call_endpoint getApiMeApplications (\<lambda>u. True, \<lambda>rq. Inr sample_reply) sample_client sample_list
     = Inr (ErrorFields (Thrown error) (Some rq) (Some sample_reply)) \<and> conforms ErrorEnvelope error"
proof -
  have "getApiMeApplications \<in> set endpoints" by (simp add: endpoints_def me_endpoints_def)
  moreover have "plain_call getApiMeApplications sample_list"
  proof -
    have "route (ep_url getApiMeApplications) = [Lit ''api'', Lit ''me'', Lit ''applications'']" by code_simp
    then show ?thesis by (auto simp: plain_call_def sample_list_def seg_given_def)
  qed
  moreover have "plain_reader sample_client" by (simp add: plain_reader_def sample_simps)
  moreover have "ep_method getApiMeApplications = ''GET'' \<longrightarrow> co_body sample_list = JUndef" by (simp add: sample_list_def)
  moreover have "json_reply sample_reply sample_refusal"
  proof -
    have "getParseAs (h_get (rs_headers sample_reply) ''Content-Type'') = Some PaJson" "h_get (rs_headers sample_reply) ''Content-Length'' \<noteq> Some ''0''"
      by code_simp+
    moreover have "json_parse (stringify sample_refusal) = Some sample_refusal" by (rule json_parse_stringify) (simp add: sample_refusal_def)
    ultimately show ?thesis unfolding json_reply_def by (simp only: simp_thms) (simp add: sample_reply_def)
  qed
  ultimately have "\<forall>t. member_type (ep_errors getApiMeApplications) (nat_digits (rs_status sample_reply)) = Some t \<and> conforms t sample_refusal \<longrightarrow>
      (\<exists>error rq. call_endpoint getApiMeApplications (\<lambda>u. True, \<lambda>rq. Inr sample_reply) sample_client sample_list
         = Inr (ErrorFields (Thrown error) (Some rq) (Some sample_reply)) \<and> conforms t error)"
    using replies_as_documented [of getApiMeApplications "''https://id.example''" sample_client sample_list "(\<lambda>u. True, \<lambda>rq. Inr sample_reply)"
        sample_reply sample_refusal] standard_sample by simp
  moreover have "member_type (ep_errors getApiMeApplications) (nat_digits (rs_status sample_reply)) = Some ErrorEnvelope" by code_simp
  moreover have "conforms ErrorEnvelope sample_refusal" by code_simp
  ultimately show ?thesis by blast
qed

subsection \<open>Calls that do not do what they say\<close>

text \<open>Headers given as a \<open>Headers\<close> object, which the type of the options allows, are dropped by every function that has a body: the
  call is the one without them.\<close>

theorem headers_object_dropped:
  assumes "ep_contentType e = Some ct"
  shows "endpoint_options e (options\<lparr>co_config := (co_config options)\<lparr>cf_headers := Some (HeadersObject hs)\<rparr>\<rparr>)
    = endpoint_options e (options\<lparr>co_config := (co_config options)\<lparr>cf_headers := None\<rparr>\<rparr>)"
  using assms by (simp add: endpoint_options_def with_content_type_def spread_entries_def Let_def)

theorem headers_object_dropped_witness:
  "endpoint_options patchApiAdminOrganizationsSlug (sample_update\<lparr>co_config := (co_config sample_update)\<lparr>cf_headers := Some (HeadersObject [(''x'', ''1'')])\<rparr>\<rparr>)
    = endpoint_options patchApiAdminOrganizationsSlug (sample_update\<lparr>co_config := (co_config sample_update)\<lparr>cf_headers := None\<rparr>\<rparr>)"
  by (rule headers_object_dropped [of _ "''application/json''"]) (simp add: patchApiAdminOrganizationsSlug_def)

text \<open>Registering through the generated client puts the password into the address: the type of its options has the credentials in
  the query.\<close>

theorem registration_password_in_address:
  assumes "standard base config"
    and "options = \<lparr>co_config = no_config\<lparr>cf_headers := None\<rparr>, co_body = JUndef, co_path = JUndef,
      co_query = Some [(''username'', JStr user), (''password'', JStr password)], co_security = None, co_url = []\<rparr>"
  shows "\<exists>ro. beforeRequest config (sent_options postApiRegister options) = Inr ro \<and>
    ro_url ro = base @ ''/api/register?username='' @ encodeURIComponent user @ ''&password='' @ encodeURIComponent password"
proof -
  have route: "route (ep_url postApiRegister) = [Lit ''api'', Lit ''register'']" by code_simp
  have "\<not> ep_form postApiRegister" by (simp add: postApiRegister_def)
  with assms(2) have plain: "plain_call postApiRegister options"
    by (auto simp: plain_call_def seg_given_def route query_char_def)
  have listed: "postApiRegister \<in> set endpoints" by (simp add: endpoints_def account_endpoints_def)
  obtain ro search where ro: "beforeRequest config (sent_options postApiRegister options) = Inr ro"
    "ro_url ro = base @ route_fill (co_path options) (route (ep_url postApiRegister)) @ (if search = [] then [] else ''?'' @ search)"
    and search: "case co_query options of None \<Rightarrow> search = [] | Some ps \<Rightarrow> defaultQuerySerializer ps = Inr search"
    using listed assms(1) plain by (rule call_resolved)
  have "search = ''username='' @ encodeURIComponent user @ ''&password='' @ encodeURIComponent password"
    using search by (simp add: assms(2) defaultQuerySerializer_def createQuerySerializer_def query_pair_def defaultQueryOptions_def
        serializePrimitiveParam_def uri_text_def join_with_def)
  with ro show ?thesis by (simp add: route route_fill_def)
qed

text \<open>The password of the witness stands in the address in the clear.\<close>

theorem registration_password_in_address_witness:
  "\<exists>ro. beforeRequest (cl_config sample_client) (sent_options postApiRegister \<lparr>co_config = no_config\<lparr>cf_headers := None\<rparr>, co_body = JUndef, co_path = JUndef,
      co_query = Some [(''username'', JStr ''ann''), (''password'', JStr ''secret'')], co_security = None, co_url = []\<rparr>) = Inr ro \<and>
    ro_url ro = ''https://id.example/api/register?username='' @ encodeURIComponent ''ann'' @ ''&password='' @ encodeURIComponent ''secret''"
  using registration_password_in_address [OF standard_sample refl, of "''ann''" "''secret''"] by simp

text \<open>Two dots as a path parameter leave the path they are meant for: they are sent unencoded, and the address of the call that deletes
  an application resolves to that of the account itself, which has the same method, with a slash at the end.\<close>

theorem dots_leave_the_path:
  "\<exists>u. defaultPathSerializer (JObj [(''clientId'', JStr ''..'')]) (ep_url deleteApiMeApplicationsClientId) = Inr u \<and>
     resolve_dots [] (tl (split_on (CHR ''/'') u)) = [''api'', ''me'', []] \<and> ep_method deleteApiMeApplicationsClientId = ep_method deleteApiMe \<and>
     route (ep_url deleteApiMe) = [Lit ''api'', Lit ''me'']"
proof (intro exI conjI)
  show "defaultPathSerializer (JObj [(''clientId'', JStr ''..'')]) (ep_url deleteApiMeApplicationsClientId) = Inr ''/api/me/applications/..''"
    by code_simp
qed code_simp+

end
