(* ===== verification/Contracts.thy ===== *)
theory Contracts
  imports SdkCalls UserAuth SdkAuth
begin

section \<open>The hand-written code and the documented interface\<close>

text \<open>
  The types of the generated client are the documented interface of the service.  The hand-written code keeps to it: the token flow of the
  SDK accepts every documented reply of the token endpoint, the error adapter of the portals reads every documented error, and the services
  of the user portal send only documented requests.
\<close>

subsection \<open>The token endpoint\<close>

lemma map_of_update: "map_of (AList.update k v ps) k' = (if k' = k then Some v else map_of ps k')"
  by (simp add: update_conv')

text \<open>Members that are set again to what they were.\<close>

lemma conforms_object_cong:
  "(\<And>k opt t. (k, opt, t) \<in> set fs \<Longrightarrow> map_of ps k = map_of qs k) \<Longrightarrow> conforms (TObject fs) (JObj ps) = conforms (TObject fs) (JObj qs)"
  by (auto simp: list_all_iff)

lemma conforms_object: "conforms (TObject fs) v \<Longrightarrow> \<exists>ps. v = JObj ps"
  by (cases v) simp_all

lemma conforms_optional:
  "conforms (TObject fs) (JObj ps) \<Longrightarrow> (k, True, t) \<in> set fs \<Longrightarrow> map_of ps k = None \<or> map_of ps k = Some JUndef \<or> (\<exists>x. map_of ps k = Some x \<and> conforms t x)"
  by (cases "map_of ps k") (auto simp: list_all_iff)

lemma token_parts:
  assumes "conforms TokenResponse v"
  obtains ps a tt n where "v = JObj ps" "map_of ps ''access_token'' = Some (JStr a)" "map_of ps ''token_type'' = Some (JStr tt)"
    "map_of ps ''expires_in'' = Some (JNum n)"
proof -
  obtain ps where ps: "v = JObj ps" using assms by (cases v) (simp_all add: TokenResponse_def)
  have "\<exists>x. map_of ps ''access_token'' = Some x \<and> conforms TString x" "\<exists>x. map_of ps ''token_type'' = Some x \<and> conforms TString x"
    "\<exists>x. map_of ps ''expires_in'' = Some x \<and> conforms TNumber x"
    using assms ps by (auto simp: TokenResponse_def split: option.splits)
  with that ps show ?thesis by (auto simp only: conforms_string conforms_number)
qed

text \<open>C14. The token flow of the SDK understands the documented replies: a token response with a token in it is returned as it is, and an
  error of the documented shape becomes an error with the server's code and description and the status.\<close>

theorem documented_tokens_understood:
  "(conforms TokenResponse v \<and> getprop v ''access_token'' \<noteq> JStr [] \<longrightarrow>
     (\<exists>tokens. token_result (Response 200 (Some v)) = Inr tokens \<and> conforms TokenResponse tokens \<and>
        (\<forall>k. getprop tokens k = getprop v k))) \<and>
   (conforms OAuth2Error v \<and> st \<noteq> 200 \<longrightarrow>
     (\<exists>code. getprop v ''error'' = JStr code \<and> code \<noteq> [] \<and>
        token_result (Response st (Some v)) = Inl (FullaAuthError code (opt_str (getprop v ''error_description'')) (Some st))))"
proof (intro conjI impI; elim conjE)
  assume v: "conforms TokenResponse v" "getprop v ''access_token'' \<noteq> JStr []"
  from v(1) obtain ps a tt n where ps: "v = JObj ps" "map_of ps ''access_token'' = Some (JStr a)" "map_of ps ''token_type'' = Some (JStr tt)"
    "map_of ps ''expires_in'' = Some (JNum n)" by (rule token_parts)
  let ?t = "AList.update ''expires_in'' (JNum n) (AList.update ''token_type'' (JStr tt) (AList.update ''access_token'' (JStr a) ps))"
  have same: "map_of ?t k = map_of ps k" for k using ps by (simp add: map_of_update)
  have "token_result (Response 200 (Some v)) = Inr (JObj ?t)"
    using v ps by (simp add: token_result_def get_member_def)
  moreover have "conforms TokenResponse (JObj ?t)"
    using v(1) conforms_object_cong [of _ "?t" ps] unfolding ps(1) TokenResponse_def using same by blast
  moreover have "getprop (JObj ?t) k = getprop v k" for k using same ps(1) by simp
  ultimately show "\<exists>tokens. token_result (Response 200 (Some v)) = Inr tokens \<and> conforms TokenResponse tokens \<and> (\<forall>k. getprop tokens k = getprop v k)"
    by blast
next
  assume v: "conforms OAuth2Error v" "st \<noteq> 200"
  then obtain ps where ps: "v = JObj ps" by (cases v) (simp_all add: OAuth2Error_def)
  have "\<exists>code. map_of ps ''error'' = Some (JStr code) \<and> code \<noteq> []"
    using v(1) ps by (auto simp: OAuth2Error_def split: option.splits)
  then obtain code where "map_of ps ''error'' = Some (JStr code)" "code \<noteq> []" by blast
  with ps v(2) show "\<exists>code. getprop v ''error'' = JStr code \<and> code \<noteq> [] \<and>
      token_result (Response st (Some v)) = Inl (FullaAuthError code (opt_str (getprop v ''error_description'')) (Some st))"
    by (simp add: token_result_def get_member_def str_or_def)
qed

text \<open>A token reply and a refusal.\<close>

theorem documented_tokens_understood_witness:
  "(\<exists>tokens. token_result (Response 200 (Some (JObj [(''access_token'', JStr ''at''), (''token_type'', JStr ''Bearer''), (''expires_in'', JNum 60)])))
      = Inr tokens \<and> conforms TokenResponse tokens)"
  using documented_tokens_understood [of "JObj [(''access_token'', JStr ''at''), (''token_type'', JStr ''Bearer''), (''expires_in'', JNum 60)]" 400]
  by (auto simp: TokenResponse_def)

subsection \<open>Errors\<close>

text \<open>The code the documented errors carry.\<close>

definition documented_code :: "jsval \<Rightarrow> string" where
  "documented_code v = (case getprop (getprop v ''error'') ''code'' of JStr c \<Rightarrow> if c = [] then UNKNOWN_CODE else c | _ \<Rightarrow> UNKNOWN_CODE)"

lemma normalize_fields: "getprop (normalize_with msg cur (http_error st v) locl) ''httpStatus'' = JNum st"
  by (simp add: normalize_with_def http_error_def isNormalizedError_def NORMALIZED_BRAND_def proto_member_def object_prototype_def isObject_def Let_def)

lemma response_parts: "isObject (http_error st v)" "isObject (getprop (http_error st v) ''response'')"
    "getprop (getprop (http_error st v) ''response'') ''status'' = JNum st" "getprop (getprop (http_error st v) ''response'') ''data'' = v"
  by (simp_all add: http_error_def isObject_def)

lemma normalize_envelope:
  assumes "conforms ErrorEnvelope v"
  shows "getprop (normalize_with msg cur (http_error st v) locl) ''code'' = JStr (documented_code v)"
proof -
  obtain ps x where ps: "v = JObj ps" "map_of ps ''error'' = Some x" "conforms Error x"
    using assms conforms_member [of "[(''error'', False, Error)]" v "''error''" Error] unfolding ErrorEnvelope_def by auto
  then obtain fs where x: "x = JObj fs" using conforms_object unfolding Error_def by blast
  have "map_of fs ''code'' = None \<or> map_of fs ''code'' = Some JUndef \<or> (\<exists>c. map_of fs ''code'' = Some c \<and> conforms TString c)"
    using ps(3) unfolding x Error_def by (rule conforms_optional) simp
  then have "getprop x ''code'' = JUndef \<or> (\<exists>c. getprop x ''code'' = JStr c)"
    by (auto simp: x proto_member_def object_prototype_def conforms_string simp del: conforms.simps)
  moreover have "getprop v ''error'' = x" "isObject v" "isObject x" using ps x by (simp_all add: isObject_def)
  ultimately show ?thesis
    by (auto simp: normalize_with_def documented_code_def isRateLimitBody_def isNonEmptyString_def x response_parts Let_def simp del: getprop.simps)
qed

lemma normalize_oauth2:
  assumes "conforms OAuth2Error v" "st \<noteq> 429"
  shows "getprop (normalize_with msg cur (http_error st v) locl) ''code'' = getprop v ''error''"
proof -
  obtain ps where ps: "v = JObj ps" using assms(1) conforms_object unfolding OAuth2Error_def by blast
  have "\<exists>c. map_of ps ''error'' = Some (JStr c) \<and> c \<noteq> []" using assms(1) ps by (auto simp: OAuth2Error_def split: option.splits)
  then obtain c where "getprop v ''error'' = JStr c" "c \<noteq> []" "isObject v" using ps by (auto simp: isObject_def)
  with assms(2) show ?thesis
    by (simp add: normalize_with_def isNonEmptyString_def isObject_def [of "JStr c"] response_parts Let_def del: getprop.simps)
qed

text \<open>The error adapter of both portals reads the documented errors: of an application error it reports the code, or the unknown error
  when the envelope has none, and of an OAuth 2 error the error string, with the status of the response.\<close>

theorem documented_errors_reported:
  "(conforms ErrorEnvelope v \<longrightarrow> getprop (normalizeError cur (http_error st v) locl) ''code'' = JStr (documented_code v) \<and>
      getprop (admin_normalizeError cur (http_error st v) locl) ''code'' = JStr (documented_code v)) \<and>
   (conforms OAuth2Error v \<and> st \<noteq> 429 \<longrightarrow> getprop (normalizeError cur (http_error st v) locl) ''code'' = getprop v ''error'' \<and>
      getprop (admin_normalizeError cur (http_error st v) locl) ''code'' = getprop v ''error'') \<and>
   getprop (normalizeError cur (http_error st v) locl) ''httpStatus'' = JNum st \<and>
   getprop (admin_normalizeError cur (http_error st v) locl) ''httpStatus'' = JNum st"
  unfolding normalizeError_def admin_normalizeError_def by (simp add: normalize_envelope normalize_oauth2 normalize_fields del: getprop.simps)

theorem documented_errors_reported_witness:
  "getprop (normalizeError ''en'' (http_error 403 (JObj [(''error'', JObj [(''code'', JStr ''AUTHZ_DENIED'')])])) JUndef) ''code'' = JStr ''AUTHZ_DENIED''"
  using documented_errors_reported [of "JObj [(''error'', JObj [(''code'', JStr ''AUTHZ_DENIED'')])]" "''en''" 403 JUndef]
  by (simp add: ErrorEnvelope_def Error_def documented_code_def)

subsection \<open>The services of the user portal\<close>

text \<open>A segment of a resolved address fits a segment of a template; a parameter takes any text but the empty one.\<close>

fun seg_fits :: "seg \<Rightarrow> string \<Rightarrow> bool" where
  "seg_fits (Lit l) s = (s = l)"
| "seg_fits (Par n) s = (s \<noteq> [])"

definition fits :: "endpoint \<Rightarrow> string \<Rightarrow> string \<Rightarrow> bool" where
  "fits e meth url \<longleftrightarrow> ep_method e = meth \<and> list_all2 seg_fits (SdkEndpoints.route (ep_url e)) (address_path url)"

definition documented :: "api_call \<Rightarrow> bool" where
  "documented c \<longleftrightarrow> list_ex (\<lambda>e. fits e (ac_method c) (ac_url c)) endpoints"

lemma documentedI: "e \<in> set endpoints \<Longrightarrow> fits e (ac_method c) (ac_url c) \<Longrightarrow> documented c"
  by (auto simp: documented_def list_ex_iff)

text \<open>The calls of the services, one for each endpoint they use.\<close>

definition service_calls :: "(endpoint \<times> string \<times> string) list" where
  "service_calls =
     [(postOauth2Login, ''POST'', ''/oauth2/login''), (postOauth2Token, ''POST'', ''/oauth2/token''), (postOauth2MfaVerify, ''POST'', ''/oauth2/mfa/verify''),
      (postOauth2PasswordChange, ''POST'', ''/oauth2/password/change''), (postApiRegister, ''POST'', ''/api/register''),
      (getApiAuthProviders, ''GET'', ''/api/auth/providers''), (getOauth2AuthorizeContext, ''GET'', ''/oauth2/authorize-context''),
      (postApiPasswordResetRequest, ''POST'', ''/api/password-reset/request''), (postApiPasswordResetConfirm, ''POST'', ''/api/password-reset/confirm''),
      (postOauth2Logout, ''POST'', ''/oauth2/logout''), (postOauth2Revoke, ''POST'', ''/oauth2/revoke''), (getOauth2Userinfo, ''GET'', ''/oauth2/userinfo''),
      (getApiMe, ''GET'', ''/api/me''), (putApiMePassword, ''PUT'', ''/api/me/password''), (postApiMeMfaSetup, ''POST'', ''/api/me/mfa/setup''),
      (postApiMeMfaVerify, ''POST'', ''/api/me/mfa/verify''), (postApiMeMfaDisable, ''POST'', ''/api/me/mfa/disable''),
      (getApiMeAuthorizedApps, ''GET'', ''/api/me/authorized-apps''), (postApiVerifyEmailResend, ''POST'', ''/api/verify-email/resend''),
      (getApiMeSocialLinks, ''GET'', ''/api/me/social/links'')]"

lemma address_path_plain:
  assumes "CHR ''?'' \<notin> set u" "CHR ''#'' \<notin> set u"
  shows "address_path u = resolve_dots [] (tl (split_on (CHR ''/'') u))"
proof -
  have "takeWhile (\<lambda>c. c \<noteq> CHR ''?'' \<and> c \<noteq> CHR ''#'') u = u" using before_query(1) [OF assms, of "[]"] by simp
  then show ?thesis by (simp only: address_path_def)
qed

lemma uri_decode_name: "list_all name_char l \<Longrightarrow> uri_decode l = l"
  using uri_decode_seg [of "Lit l" JUndef] by simp

text \<open>The fixed addresses have plain segments only.\<close>

definition plain_address :: "string \<Rightarrow> bool" where
  "plain_address u \<longleftrightarrow> CHR ''?'' \<notin> set u \<and> CHR ''#'' \<notin> set u \<and>
     list_all (\<lambda>s. list_all name_char s \<and> s \<notin> {''.'', ''..''}) (tl (split_on (CHR ''/'') u))"

lemma plain_address_path: "plain_address u \<Longrightarrow> address_path u = tl (split_on (CHR ''/'') u)"
proof -
  assume u: "plain_address u"
  then have "list_all (\<lambda>s. uri_decode s \<notin> {''.'', ''..''}) (tl (split_on (CHR ''/'') u))"
    unfolding plain_address_def by (metis (no_types, lifting) list.pred_mono_strong uri_decode_name)
  from resolve_dots_none [OF this, of "[]"] u show ?thesis by (simp add: address_path_plain plain_address_def)
qed

lemma literal_segments: "uri_decode ''api'' = ''api''" "uri_decode ''me'' = ''me''" "uri_decode ''authorized-apps'' = ''authorized-apps''"
    "uri_decode ''social'' = ''social''" "uri_decode ''links'' = ''links''" "uri_decode ''authorize'' = ''authorize''" "uri_decode ''verify-email'' = ''verify-email''"
  by (rule uri_decode_name, simp add: name_char_def)+

lemma service_calls_listed: "set (map fst service_calls) \<subseteq> set endpoints"
  by (simp add: service_calls_def endpoints_def open_endpoints_def account_endpoints_def me_endpoints_def oauth2_endpoints_def)

lemma service_calls_checked:
  "list_all (\<lambda>(e, m, u). ep_method e = m \<and> plain_address u \<and> list_all2 seg_fits (SdkEndpoints.route (ep_url e)) (tl (split_on (CHR ''/'') u))) service_calls"
  by code_simp

lemma service_calls_fit: "list_all (\<lambda>(e, m, u). fits e m u) service_calls"
  using service_calls_checked by (auto simp: list_all_iff fits_def plain_address_path)

lemma service_documented: "(m, u) \<in> snd ` set service_calls \<Longrightarrow> ac_method c = m \<Longrightarrow> ac_url c = u \<Longrightarrow> documented c"
  using service_calls_listed service_calls_fit by (fastforce simp: list_all_iff intro: documentedI)

text \<open>A server that answers by any rule and keeps the list of the calls.\<close>

definition recording :: "(api_call \<Rightarrow> ax_result) \<Rightarrow> api_call list api" where
  "recording reply c log = (reply c, log @ [c])"

definition keeps :: "(api_call list portal, 'a) async \<Rightarrow> bool" where
  "keeps m \<longleftrightarrow> (\<forall>s. list_all documented (p_world s) \<longrightarrow> list_all documented (p_world (snd (m s))))"

named_theorems keeps_intros \<open>operations that send documented calls only\<close>

lemma keeps_and_then [keeps_intros]: "keeps m \<Longrightarrow> (\<And>x. keeps (k x)) \<Longrightarrow> keeps (and_then m k)"
  by (auto simp: keeps_def and_then_def split: prod.splits sum.splits)

lemma keeps_return [keeps_intros]: "keeps (return_op x)"
  by (simp add: keeps_def return_op_def)

lemma keeps_throw [keeps_intros]: "keeps (throw_op e)"
  by (simp add: keeps_def throw_op_def)

lemma keeps_member [keeps_intros]: "keeps (member v k)"
  by (auto simp: keeps_def member_def split: sum.split)

lemma keeps_store_tokens [keeps_intros]: "keeps (store_tokens a r)"
  by (simp add: keeps_def store_tokens_def)

lemma keeps_stash [keeps_intros]: "keeps (writePkceStash stash)" "keeps clearPkceStash"
  by (simp_all add: keeps_def writePkceStash_def clearPkceStash_def split: web_storage.split)

lemma keeps_send [keeps_intros]: "documented c \<Longrightarrow> keeps (send_call (recording reply) c)"
  by (auto simp: keeps_def send_call_def recording_def split: ax_result.split)

lemma keeps_if [keeps_intros]: "(b \<Longrightarrow> keeps m) \<Longrightarrow> (\<not> b \<Longrightarrow> keeps n) \<Longrightarrow> keeps (if b then m else n)"
  by simp

lemma documented_calls:
  "(''POST'', u) \<in> snd ` set service_calls \<Longrightarrow> documented (post_form u f)"
  "(m, u) \<in> snd ` set service_calls \<Longrightarrow> documented (send_json m u v)"
  "(m, u) \<in> snd ` set service_calls \<Longrightarrow> documented (UserAuth.plain_call m u)"
  "(m, u) \<in> snd ` set service_calls \<Longrightarrow> documented (UserAuth.plain_call m u\<lparr>ac_query := q\<rparr>)"
  by (rule service_documented; simp add: post_form_def send_json_def UserAuth.plain_call_def)+

lemma service_call_list: "snd ` set service_calls =
   {(''POST'', ''/oauth2/login''), (''POST'', ''/oauth2/token''), (''POST'', ''/oauth2/mfa/verify''), (''POST'', ''/oauth2/password/change''),
    (''POST'', ''/api/register''), (''GET'', ''/api/auth/providers''), (''GET'', ''/oauth2/authorize-context''), (''POST'', ''/api/password-reset/request''),
    (''POST'', ''/api/password-reset/confirm''), (''POST'', ''/oauth2/logout''), (''POST'', ''/oauth2/revoke''), (''GET'', ''/oauth2/userinfo''),
    (''GET'', ''/api/me''), (''PUT'', ''/api/me/password''), (''POST'', ''/api/me/mfa/setup''), (''POST'', ''/api/me/mfa/verify''),
    (''POST'', ''/api/me/mfa/disable''), (''GET'', ''/api/me/authorized-apps''), (''POST'', ''/api/verify-email/resend''), (''GET'', ''/api/me/social/links'')}"
  by (simp add: service_calls_def)

text \<open>Addresses with a parameter at the end, or before a fixed rest.  A plain segment is not empty, stays in its segment and is no dot segment;
  a plain identifier is one that needs no encoding.\<close>

definition plain_segment :: "string \<Rightarrow> bool" where
  "plain_segment s \<longleftrightarrow> s \<noteq> [] \<and> CHR ''/'' \<notin> set s \<and> CHR ''?'' \<notin> set s \<and> CHR ''#'' \<notin> set s \<and> uri_decode s \<notin> {''.'', ''..''}"

definition plain_id :: "string \<Rightarrow> bool" where
  "plain_id i \<longleftrightarrow> i \<noteq> [] \<and> encodeURIComponent i = i \<and> i \<notin> {''.'', ''..''}"

lemma plain_encoded: "s \<notin> {[], ''.'', ''..''} \<Longrightarrow> plain_segment (encodeURIComponent s)"
proof -
  assume s: "s \<notin> {[], ''.'', ''..''}"
  then have "encodeURIComponent s \<noteq> []" using uri_decode_encode [of s] by (metis insertCI uri_decode_def percent_decode.simps(1) utf8_codes.simps(1) utf8_decode.simps(1))
  then show ?thesis using s encodeURIComponent_plain(2) [of _ s] by (auto simp: plain_segment_def)
qed

lemma plain_id_segment: "plain_id i \<Longrightarrow> plain_segment i"
  using plain_encoded [of i] by (simp add: plain_id_def)

lemma revoke_fits: "plain_id cid \<Longrightarrow> fits deleteApiMeAuthorizedAppsClientId ''DELETE'' (''/api/me/authorized-apps/'' @ cid)"
proof -
  assume "plain_id cid"
  then have cid: "plain_segment cid" by (rule plain_id_segment)
  have r: "SdkEndpoints.route (ep_url deleteApiMeAuthorizedAppsClientId) = [Lit ''api'', Lit ''me'', Lit ''authorized-apps'', Par ''clientId'']"
    "ep_method deleteApiMeAuthorizedAppsClientId = ''DELETE''" by code_simp+
  have "address_path (''/api/me/authorized-apps/'' @ cid) = [''api'', ''me'', ''authorized-apps'', cid]"
    using cid by (simp add: address_path_plain plain_segment_def split_on_no_sep literal_segments)
  with cid show ?thesis by (simp add: fits_def r plain_segment_def)
qed

lemma social_fits:
  assumes "provider \<notin> {[], ''.'', ''..''}"
  shows "fits deleteApiMeSocialLinksProvider ''DELETE'' (social_link_url provider)"
    "fits postApiMeSocialLinksProvider ''POST'' (social_link_url provider)"
    "fits postApiMeSocialLinksProviderAuthorize ''POST'' (social_link_url provider @ ''/authorize'')"
proof -
  have r: "SdkEndpoints.route (ep_url deleteApiMeSocialLinksProvider) = [Lit ''api'', Lit ''me'', Lit ''social'', Lit ''links'', Par ''provider'']"
    "SdkEndpoints.route (ep_url postApiMeSocialLinksProvider) = [Lit ''api'', Lit ''me'', Lit ''social'', Lit ''links'', Par ''provider'']"
    "SdkEndpoints.route (ep_url postApiMeSocialLinksProviderAuthorize)
       = [Lit ''api'', Lit ''me'', Lit ''social'', Lit ''links'', Par ''provider'', Lit ''authorize'']"
    "ep_method deleteApiMeSocialLinksProvider = ''DELETE''" "ep_method postApiMeSocialLinksProvider = ''POST''"
    "ep_method postApiMeSocialLinksProviderAuthorize = ''POST''" by code_simp+
  have p: "plain_segment (encodeURIComponent provider)" using assms by (rule plain_encoded)
  then have "address_path (social_link_url provider) = [''api'', ''me'', ''social'', ''links'', encodeURIComponent provider]"
    "address_path (social_link_url provider @ ''/authorize'') = [''api'', ''me'', ''social'', ''links'', encodeURIComponent provider, ''authorize'']"
    using split_on_append [of "CHR ''/''" "encodeURIComponent provider" "''authorize''"]
    by (simp_all add: social_link_url_def address_path_plain plain_segment_def split_on_no_sep literal_segments)
  with p show "fits deleteApiMeSocialLinksProvider ''DELETE'' (social_link_url provider)"
    "fits postApiMeSocialLinksProvider ''POST'' (social_link_url provider)"
    "fits postApiMeSocialLinksProviderAuthorize ''POST'' (social_link_url provider @ ''/authorize'')"
    by (simp_all add: fits_def r plain_segment_def)
qed

lemma verify_fits: "fits getApiVerifyEmail ''GET'' (''/api/verify-email?token='' @ t)"
proof -
  have "SdkEndpoints.route (ep_url getApiVerifyEmail) = [Lit ''api'', Lit ''verify-email'']" "ep_method getApiVerifyEmail = ''GET''" by code_simp+
  then show ?thesis by (simp add: fits_def address_path_def literal_segments)
qed

lemma parameter_calls_listed:
  "{deleteApiMeAuthorizedAppsClientId, deleteApiMeSocialLinksProvider, postApiMeSocialLinksProvider, postApiMeSocialLinksProviderAuthorize, getApiVerifyEmail}
     \<subseteq> set endpoints"
  by (simp add: endpoints_def account_endpoints_def me_endpoints_def)

lemma documented_parameters:
  "plain_id cid \<Longrightarrow> documented (UserAuth.plain_call ''DELETE'' (''/api/me/authorized-apps/'' @ cid))"
  "provider \<notin> {[], ''.'', ''..''} \<Longrightarrow> documented (UserAuth.plain_call ''DELETE'' (social_link_url provider))"
  "provider \<notin> {[], ''.'', ''..''} \<Longrightarrow> documented (send_json ''POST'' (social_link_url provider) v)"
  "provider \<notin> {[], ''.'', ''..''} \<Longrightarrow> documented (send_json ''POST'' (social_link_url provider @ ''/authorize'') v)"
  "documented (UserAuth.plain_call ''GET'' (''/api/verify-email?token='' @ t))"
  using parameter_calls_listed revoke_fits [of cid] social_fits [of provider] verify_fits [of t]
  by (auto simp: UserAuth.plain_call_def send_json_def intro: documentedI simp del: append.simps)

text \<open>The operations of the two services with their arguments.\<close>

datatype service =
    Login string string string | VerifyMfa string string | ChangePasswordForced string string | ExchangeCode string "string option"
  | Register string string string | ListExternalProviders | GetAuthorizeContext string | RequestPasswordReset string
  | ConfirmPasswordReset string string | Logout | GetUserInfo | GetProfile | ChangePassword string string | SetupMfa | VerifyMfaSetup string
  | DisableMfa string | GetAuthorizedApps | RevokeApp string | ResendVerificationEmail | VerifyEmail string | GetSocialLinks
  | BeginSocialLink string | LinkSocialAccount string jsval string | UnlinkSocialAccount string

fun serve :: "portal_env \<Rightarrow> digest \<Rightarrow> random \<Rightarrow> string \<Rightarrow> 'w api \<Rightarrow> service \<Rightarrow> 'w portal \<Rightarrow> 'w portal" where
  "serve env sha rnd uuid api (Login u p sc) s = snd (authService_login env sha rnd uuid api u p sc s)"
| "serve env sha rnd uuid api (VerifyMfa t c) s = snd (authService_verifyMfa env api t c s)"
| "serve env sha rnd uuid api (ChangePasswordForced o' n) s = snd (changePasswordForced api o' n s)"
| "serve env sha rnd uuid api (ExchangeCode c st) s = snd (authService_exchangeCode env api c st s)"
| "serve env sha rnd uuid api (Register u p m) s = snd (register api u p m s)"
| "serve env sha rnd uuid api ListExternalProviders s = snd (listExternalProviders api s)"
| "serve env sha rnd uuid api (GetAuthorizeContext c) s = snd (getAuthorizeContext api c s)"
| "serve env sha rnd uuid api (RequestPasswordReset m) s = snd (requestPasswordReset api m s)"
| "serve env sha rnd uuid api (ConfirmPasswordReset t n) s = snd (confirmPasswordReset api t n s)"
| "serve env sha rnd uuid api Logout s = authService_logout env api s"
| "serve env sha rnd uuid api GetUserInfo s = snd (getUserInfo api s)"
| "serve env sha rnd uuid api GetProfile s = snd (getProfile api s)"
| "serve env sha rnd uuid api (ChangePassword o' n) s = snd (changePassword api o' n s)"
| "serve env sha rnd uuid api SetupMfa s = snd (setupMfa api s)"
| "serve env sha rnd uuid api (VerifyMfaSetup c) s = snd (verifyMfaSetup api c s)"
| "serve env sha rnd uuid api (DisableMfa p) s = snd (disableMfa api p s)"
| "serve env sha rnd uuid api GetAuthorizedApps s = snd (getAuthorizedApps api s)"
| "serve env sha rnd uuid api (RevokeApp c) s = snd (revokeApp api c s)"
| "serve env sha rnd uuid api ResendVerificationEmail s = snd (resendVerificationEmail api s)"
| "serve env sha rnd uuid api (VerifyEmail t) s = snd (verifyEmail api t s)"
| "serve env sha rnd uuid api GetSocialLinks s = snd (getSocialLinks api s)"
| "serve env sha rnd uuid api (BeginSocialLink p) s = snd (beginSocialLink api p s)"
| "serve env sha rnd uuid api (LinkSocialAccount p c st) s = snd (linkSocialAccount api p c st s)"
| "serve env sha rnd uuid api (UnlinkSocialAccount p) s = snd (unlinkSocialAccount api p s)"

text \<open>The arguments that become a segment of an address: \<open>revokeApp\<close> puts its identifier there as it is, the others encode theirs.\<close>

fun plain_service :: "service \<Rightarrow> bool" where
  "plain_service (RevokeApp c) = plain_id c"
| "plain_service (BeginSocialLink p) = (p \<notin> {[], ''.'', ''..''})"
| "plain_service (LinkSocialAccount p c st) = (p \<notin> {[], ''.'', ''..''})"
| "plain_service (UnlinkSocialAccount p) = (p \<notin> {[], ''.'', ''..''})"
| "plain_service sv = True"

lemma keeps_state: "(\<And>s. keeps (f s)) \<Longrightarrow> keeps (\<lambda>s. f s s)"
  by (simp add: keeps_def)

lemma keeps_redeem [keeps_intros]: "documented c \<Longrightarrow> keeps (redeem (recording reply) c)"
  unfolding redeem_def by (intro keeps_intros)

lemma keeps_login: "keeps (authService_login env sha rnd uuid (recording reply) u p sc)"
  unfolding authService_login_def finish_login_def Let_def
  by (intro keeps_intros documented_calls) (simp_all add: service_call_list)

lemma keeps_verifyMfa: "keeps (authService_verifyMfa env (recording reply) t c)"
  unfolding authService_verifyMfa_def [abs_def] Let_def
  by (rule keeps_state, intro keeps_intros documented_calls) (simp_all add: service_call_list)

lemma keeps_exchange: "keeps (authService_exchangeCode env (recording reply) code st)"
  unfolding authService_exchangeCode_def [abs_def] Let_def
  by (rule keeps_state, intro keeps_intros) (auto intro!: keeps_intros documented_calls simp: service_call_list split: option.split)

lemma keeps_context: "keeps (getAuthorizeContext (recording reply) cid)"
proof -
  have "keeps (send_call (recording reply) (UserAuth.plain_call ''GET'' ''/oauth2/authorize-context''\<lparr>ac_query := [(''client_id'', cid)]\<rparr>))"
    by (intro keeps_intros documented_calls) (simp add: service_call_list)
  then show ?thesis by (auto simp: keeps_def getAuthorizeContext_def split: prod.splits sum.splits)
qed

lemma keeps_calls: "list_all documented cs \<Longrightarrow> list_all documented log \<Longrightarrow> list_all documented (run_calls (recording reply) cs log)"
  by (induction cs arbitrary: log) (simp_all add: run_calls_def recording_def)

lemma logout_documented: "list_all documented (logout_calls env h)"
proof -
  have "documented c" if "ac_method c = ''POST''" "ac_url c \<in> {''/oauth2/logout'', ''/oauth2/revoke''}" for c
    by (rule service_documented [OF _ that(1) refl]) (use that(2) in \<open>auto simp: service_call_list\<close>)
  then show ?thesis by (simp add: logout_calls_def split: option.split)
qed

lemmas service_defs = changePasswordForced_def register_def listExternalProviders_def requestPasswordReset_def confirmPasswordReset_def getUserInfo_def
  getProfile_def changePassword_def setupMfa_def verifyMfaSetup_def disableMfa_def getAuthorizedApps_def revokeApp_def resendVerificationEmail_def
  verifyEmail_def getSocialLinks_def beginSocialLink_def linkSocialAccount_def unlinkSocialAccount_def fetch_data_def

lemma keeps_services:
  "keeps (changePasswordForced (recording reply) x y)" "keeps (register (recording reply) x y z)" "keeps (listExternalProviders (recording reply))"
  "keeps (requestPasswordReset (recording reply) x)" "keeps (confirmPasswordReset (recording reply) x y)" "keeps (getUserInfo (recording reply))"
  "keeps (getProfile (recording reply))" "keeps (changePassword (recording reply) x y)" "keeps (setupMfa (recording reply))"
  "keeps (verifyMfaSetup (recording reply) x)" "keeps (disableMfa (recording reply) x)" "keeps (getAuthorizedApps (recording reply))"
  "keeps (resendVerificationEmail (recording reply))" "keeps (getSocialLinks (recording reply))"
  unfolding service_defs by (intro keeps_intros documented_calls; simp add: service_call_list)+

lemma keeps_parameter_services:
  "plain_id x \<Longrightarrow> keeps (revokeApp (recording reply) x)" "keeps (verifyEmail (recording reply) x)"
  "x \<notin> {[], ''.'', ''..''} \<Longrightarrow> keeps (beginSocialLink (recording reply) x)" "x \<notin> {[], ''.'', ''..''} \<Longrightarrow> keeps (linkSocialAccount (recording reply) x v y)"
  "x \<notin> {[], ''.'', ''..''} \<Longrightarrow> keeps (unlinkSocialAccount (recording reply) x)"
  unfolding service_defs by (intro keeps_intros documented_parameters; assumption)+

lemma keepsD: "keeps m \<Longrightarrow> list_all documented (p_world s) \<Longrightarrow> list_all documented (p_world (snd (m s)))"
  by (simp add: keeps_def)

lemma serve_documented:
  assumes "plain_service sv" "list_all documented (p_world s)"
  shows "list_all documented (p_world (serve env sha rnd uuid (recording reply) sv s))"
proof (cases sv)
  case Logout
  then show ?thesis using assms(2) by (simp add: authService_logout_def Let_def keeps_calls logout_documented)
qed (use assms in \<open>simp_all add: keepsD keeps_login keeps_verifyMfa keeps_exchange keeps_context keeps_services keeps_parameter_services\<close>)

text \<open>C13. The user portal sends documented requests: whatever operations of its services run in whatever order, and whatever the
  server answers, every request has the method and, after the address is resolved, the path of an endpoint of the documented interface, provided that
  a provider is neither empty nor a dot segment and that an application is revoked by an identifier that needs no encoding and is no dot
  segment, since \<open>revokeApp\<close> does not encode it.\<close>

theorem portal_requests_documented:
  assumes "list_all plain_service svs" and "p_world s = []"
  shows "list_all documented (p_world (fold (serve env sha rnd uuid (recording reply)) svs s))"
proof -
  have "list_all documented (p_world s) \<Longrightarrow> ?thesis"
    using assms(1) by (induction svs arbitrary: s) (simp_all add: serve_documented)
  then show ?thesis using assms(2) by simp
qed

text \<open>A sign-in, a list of applications, a revocation and a sign-out.\<close>

lemma plain_id_sample: "plain_id ''app''"
  by code_simp

theorem portal_requests_documented_witness:
  "list_all documented (p_world (fold (serve \<lparr>env_client_id = None, env_redirect_uri = None, env_origin = ''https://p''\<rparr> (\<lambda>bs. bs) (\<lambda>n. []) ''u''
      (recording (\<lambda>c. AxOk (JObj [(''code'', JStr ''c''), (''access_token'', JStr ''t'')]))))
    [Login ''ann'' ''pw'' ''openid'', GetAuthorizedApps, RevokeApp ''app'', Logout]
    \<lparr>p_http = demo_http, p_session = Unavailable, p_world = []\<rparr>))"
  by (rule portal_requests_documented) (simp_all add: plain_id_sample)

text \<open>What the missing encoding of \<open>revokeApp\<close> does: an identifier of two dots asks for the address of the account itself, with the method that
  deletes it, and what follows a question mark or a hash is cut off, so that another application is named.\<close>

theorem revoke_id_unencoded:
  "(\<exists>c. p_world (snd (revokeApp (recording reply) ''..'' s)) = p_world s @ [c] \<and> ac_method c = ep_method deleteApiMe \<and>
      address_path (ac_url c) = [''api'', ''me'', []] \<and> SdkEndpoints.route (ep_url deleteApiMe) = [Lit ''api'', Lit ''me'']) \<and>
   (\<exists>c. p_world (snd (revokeApp (recording reply) (i @ ''?'' @ j) s)) = p_world s @ [c] \<and>
      address_path (ac_url c) = address_path (''/api/me/authorized-apps/'' @ i))"
proof
  have sent: "p_world (snd (revokeApp (recording reply) x s)) = p_world s @ [UserAuth.plain_call ''DELETE'' (''/api/me/authorized-apps/'' @ x)]" for x
    by (simp add: revokeApp_def send_call_def recording_def and_then_def return_op_def split: ax_result.split)
  have "ep_method deleteApiMe = ''DELETE''" "SdkEndpoints.route (ep_url deleteApiMe) = [Lit ''api'', Lit ''me'']"
    "uri_decode ''..'' = ''..''" by code_simp+
  moreover from this(3) have "address_path (''/api/me/authorized-apps/'' @ ''..'') = [''api'', ''me'', []]"
    by (subst address_path_plain) (simp_all add: literal_segments)
  ultimately show "\<exists>c. p_world (snd (revokeApp (recording reply) ''..'' s)) = p_world s @ [c] \<and> ac_method c = ep_method deleteApiMe \<and>
      address_path (ac_url c) = [''api'', ''me'', []] \<and> SdkEndpoints.route (ep_url deleteApiMe) = [Lit ''api'', Lit ''me'']"
    unfolding sent by (simp add: UserAuth.plain_call_def)
  have "takeWhile (\<lambda>c. c \<noteq> CHR ''?'' \<and> c \<noteq> CHR ''#'') (i @ CHR ''?'' # j) = takeWhile (\<lambda>c. c \<noteq> CHR ''?'' \<and> c \<noteq> CHR ''#'') i" by (induction i) simp_all
  then show "\<exists>c. p_world (snd (revokeApp (recording reply) (i @ ''?'' @ j) s)) = p_world s @ [c] \<and>
      address_path (ac_url c) = address_path (''/api/me/authorized-apps/'' @ i)"
    unfolding sent by (simp add: UserAuth.plain_call_def address_path_def)
qed

end
