(* ===== verification/Spec2Isabelle.thy ===== *)
theory Spec2Isabelle
  imports SdkM2M RetryBound NextDemo AdminRoles AdminUsers AdminApps MyApps Dictionaries Contracts
begin

text \<open>
  Verification of the JavaScript and TypeScript side of the fulla identity server.

  \<^bold>\<open>The program.\<close>  fulla is an OAuth 2 and OpenID Connect server.  Its JavaScript side has three programs: the
  TypeScript SDK that applications use (\<open>clients/ts/src\<close>), the user portal
  (\<open>frontends/user/src\<close>) and the admin console (\<open>frontends/admin/src\<close>), two Vue applications.
  The SDK builds authorize URLs, redeems codes and keeps machine tokens fresh (\<open>auth.ts\<close>), and has a generated
  client with one typed function for each endpoint of the service (\<open>generated\<close>).  Each portal
  has an HTTP layer that attaches the access token and refreshes it on a 401, an auth store
  that signs in, restores a session and signs out, a router guard, an error adapter over
  message catalogs, and pages that call the services.

  \<^bold>\<open>Modelling.\<close>  JavaScript values are the datatype \<open>jsval\<close> of \<open>Prelude\<close>, with the prototype members a
  plain object inherits; thrown values are left results.  The server is an argument
  (\<open>fetch\<close> of the SDK, \<open>'w api\<close> of the portals), as are SHA-256, the random source, the clock,
  the translation function of vue-i18n and the WebAuthn call of the browser.  Code whose
  order of continuations matters (the refresh of the three programs, the session
  restoration, the guards) is a guarded step function over events, one event per
  continuation of an awaited promise, and its properties are proved over all event
  sequences.  Code that a caller awaits to its end is a function over the state.  The handlers of
  the later pages are resumptions (\<open>Async\<close>): programs that write refs, branch and wait for a
  request, which are run to their end against a server or interleaved with any other
  clicks and replies.

  \<^bold>\<open>Theories.\<close>
  \<^item> \<open>Prelude\<close>: values, strings, storage, and the interfaces as locales: \<open>kv_store\<close>, \<open>codec\<close>,
    \<open>guarded_machine\<close> (an invariant over every run), \<open>simulation\<close> (refinement of a step
    relation), \<open>ranked_machine\<close> (a bound on events) and \<open>scheduled\<close> (a goal reached by awaited events).
  \<^item> \<open>Base64\<close>, \<open>UrlParams\<close>, \<open>Json\<close>: base64url and PKCE of the SDK and both portals
    (\<open>utils/pkce.ts\<close>), \<open>URLSearchParams\<close>, and JSON text, each with its round trip.
  \<^item> \<open>SdkAuth\<close>, \<open>SdkM2M\<close>: the authorization-code flow and the machine-to-machine client of
    \<open>auth.ts\<close>: what is rejected before a request goes out, what is sent, that token
    requests are serialised and that the refresh chain cannot get stuck.
  \<^item> \<open>Messages\<close>, \<open>I18n\<close>, \<open>ErrorAdapter\<close>: the message catalogs of both portals with all their
    entries, the active language, and \<open>normalizeError\<close>: the catalogs are complete, the
    language is consistent, and a user sees catalog text only.
  \<^item> \<open>UserHttp\<close>, \<open>UserAuth\<close>, \<open>UserStore\<close>: \<open>services/http.ts\<close>, \<open>services/authService.ts\<close> with
    \<open>services/userService.ts\<close>, and \<open>stores/auth.ts\<close> with \<open>router/index.ts\<close> of the user portal.
    Refresh tokens are presented once, concurrent 401s share a refresh, codes are redeemed
    only with the verifier of their own flow, a waiting navigation is decided within ten awaited
    events, and a failed refresh ends the session of the HTTP layer but not that of the store.
  \<^item> \<open>AdminAuth\<close>, \<open>AdminNet\<close>: \<open>stores/auth.ts\<close>, \<open>router/index.ts\<close> and the bootstrap of \<open>main.ts\<close> of
    the admin console: the role gate, the shared refresh and the restoration.
  \<^item> \<open>SingleFlight\<close>, \<open>RetryBound\<close>: properties of both portals: their refresh implements a
    single-flight specification, and the retry of their interceptors ends.
  \<^item> \<open>OauthPages\<close>, \<open>AuthPages\<close>, \<open>AccountPages\<close>: the handlers of the pages of the user portal on top
    of its services: callbacks, consent, login, registration, recovery, security, profile
    and authorized applications.  \<open>Theme\<close> has the theme store and the password meter.
  \<^item> \<open>OrgPanels\<close>, \<open>MyApps\<close>: the organizations and applications pages of the user portal, in which
    replies may come in any order: what a panel shows was answered for its organization, and
    a secret is shown for the client it was answered for.
  \<^item> \<open>Async\<close>, \<open>Answered\<close>: resumptions, their two readings, and the locales for pages: an
    invariant at every write (\<open>page_handlers\<close>), one change per click (\<open>submit_page\<close>), forms that
    send what was changed (\<open>edit_form\<close>), and what is shown traced to its answer
    (\<open>answered_page\<close>).
  \<^item> \<open>AdminRoles\<close>, \<open>AdminUsers\<close>, \<open>AdminApps\<close>, \<open>AdminOps\<close>: the pages of the console
    (\<open>frontends/admin/src/pages\<close>): roles, scopes, users, clients, tokens, logs, settings,
    dashboard, organizations, e-mail templates, device approval and login.
  \<^item> \<open>Shell\<close>: the layouts of both portals with navigation and breadcrumbs, the modal dialog
    with its focus trap and the language menu.
  \<^item> \<open>Dictionary\<close>, \<open>UserDict\<close>, \<open>AdminDict\<close>, \<open>Dictionaries\<close>: the interface texts of both portals
    in both languages with all their entries, and that the tables agree.
  \<^item> \<open>NextDemo\<close>: the route handlers of \<open>examples/nextjs-demo\<close>, which compose the SDK: the cookie
    codec, and that the callback route completes the flow that the login route started.

  \<^item> \<open>SdkStream\<close>, \<open>SdkWire\<close>, \<open>SdkClient\<close>: the runtime of the generated client (\<open>generated/core\<close> and
    \<open>generated/client\<close>): the reader of event streams with its retries, the serializers of paths and
    queries, and bodies, headers, credentials, interceptors, configuration and \<open>request\<close>.  Events do
    not depend on how their text is cut, the retries of a stream are bounded, parameters arrive as
    they were given, and how a request answers under every setting.
  \<^item> \<open>TsTypes\<close>, \<open>SdkTypes\<close>, \<open>SdkReplies\<close>, \<open>SdkTable\<close>, \<open>SdkEndpoints\<close>, \<open>SdkCalls\<close>: the types of
    \<open>types.gen.ts\<close> as values of a type language with \<open>conforms\<close>, the functions of \<open>sdk.gen.ts\<close> as
    a table, and what holds of all of them: the table agrees with the types, the protected
    endpoints are called with a token, calls arrive and replies are returned under their types.
  \<^item> \<open>Contracts\<close>: the hand-written code against the documented interface: the token flow of the SDK
    and the error adapter understand the documented replies, and the services of the user
    portal send documented requests, where the one argument they do not encode needs no encoding.

  \<^bold>\<open>State.\<close>  The records \<open>m2m\<close>, \<open>http_state\<close>, \<open>store\<close>, \<open>admin\<close> and \<open>admin_net\<close> have the fields of the
  modules they model, plus the list of requests, calls or navigations that are under way; a
  page record has the refs of its component.  The operations have the names of the code, with
  a prefix where two files use the same name.

  \<^bold>\<open>Findings.\<close>  Some theorems state where the code differs from its comments or from what it is for: the
  admin refresh that waits for itself (\<open>AdminNet\<close>), the admin guard after a logout
  (\<open>AdminNet\<close>), a logout undone by a refresh (\<open>UserHttp\<close>), the redirect of a failed refresh that ends
  on the dashboard (\<open>UserStore\<close>), the unencoded identifier (\<open>Contracts\<close>), the confidential client without a
  secret method (\<open>AdminApps\<close>), the unguarded theme setup (\<open>Theme\<close>),
  the untouched profile field that is sent (\<open>AccountPages\<close>), the \<open>null\<close> token reply
  (\<open>SdkAuth\<close>), the redirect whitelist of the example that reads inherited members
  (\<open>NextDemo\<close>), the consent panel that loses its replies (\<open>OrgPanels\<close>), the permissions
  saved for another role (\<open>AdminRoles\<close>), the late list reply (\<open>AdminUsers\<close>), the gaps of the
  focus trap and the missing breadcrumb keys (\<open>Shell\<close>), the replaced secret (\<open>MyApps\<close>), the event
  that is cut inside a line break (\<open>SdkStream\<close>), headers that are dropped or misnamed and methods that
  cannot be sent (\<open>SdkClient\<close>, \<open>SdkCalls\<close>), and the password in the address and the dots in a path
  (\<open>SdkCalls\<close>).

  \<^bold>\<open>Bounds.\<close>  Strings are over code units below 256; texts with larger code units are in the catalogs with
  their units written out.  Numbers are integers.  One definition uses fuel, the JSON
  reader, whose fuel is the length of its input.  Loops that wait for the network (the event stream, the refresh, the guards)
  are step functions whose runs may be of any length, so a connection that never closes is a run
  in which its end does not come; bounds on them are stated over all runs.

  \<^bold>\<open>Not modelled.\<close>  The C++ server and the Go and Python clients (other languages), two helpers of the client generator that no
  function of the client uses, the markup and styles of the Vue templates (the events and conditions
  of the page models are read off them), the timers that blank a message except as events, the
  repository scripts and the browser tests, which only drive other programs, and the documentation site.
\<close>

end
